(* ===== verification/Prelude.thy ===== *)
theory Prelude
  imports Complex_Main
begin

text \<open>
  Shared vocabulary of the development.  It holds the type synonyms for the values every
  component passes around (identifiers, instants, durations), the Python string operations the
  source uses, the relational operations that stand for the SQL statements (a table is the list of
  its rows in insertion order), and the generic lemmas on them.

  Conventions.  A \<^verbatim>\<open>uuid.UUID\<close> is a natural number; \<open>uuid4()\<close> is an argument of the operation
  that draws it, so freshness is always an explicit hypothesis.  A \<^verbatim>\<open>datetime\<close> is the number of
  microseconds since the epoch (UTC), as an unbounded integer, and a \<^verbatim>\<open>timedelta\<close> a number of
  microseconds.  Text is a list of characters; \<^verbatim>\<open>strip\<close>, \<^verbatim>\<open>casefold\<close>, \<^verbatim>\<open>upper\<close> and SQL's \<^verbatim>\<open>lower\<close>
  are modelled on the ASCII range, and characters outside it are left alone.  An operation
  that raises returns a sum whose left part is the exception.
\<close>

type_synonym uuid = nat
type_synonym datetime = int
type_synonym timedelta = int

named_theorems row_simps \<open>equations for the relational operations on tables\<close>
named_theorems text_simps \<open>equations for the Python string operations\<close>

subsection \<open>Durations\<close>

definition microseconds_per_second :: int where
  "microseconds_per_second = 1000000"

definition td_minutes :: "int \<Rightarrow> timedelta" where
  "td_minutes n = n * 60 * microseconds_per_second"

definition td_hours :: "int \<Rightarrow> timedelta" where
  "td_hours n = n * 3600 * microseconds_per_second"

definition td_days :: "int \<Rightarrow> timedelta" where
  "td_days n = n * 86400 * microseconds_per_second"

lemmas td_defs = td_minutes_def td_hours_def td_days_def microseconds_per_second_def

lemma td_positive [simp]:
  "0 < n \<Longrightarrow> 0 < td_minutes n" "0 < n \<Longrightarrow> 0 < td_hours n" "0 < n \<Longrightarrow> 0 < td_days n"
  by (simp_all add: td_defs)

subsection \<open>Python strings\<close>

text \<open>ASCII whitespace as \<^verbatim>\<open>str.strip\<close> and \<^verbatim>\<open>str.split\<close> see it.\<close>

definition py_isspace :: "char \<Rightarrow> bool" where
  "py_isspace c = (let n = (of_char c :: nat) in (9 \<le> n \<and> n \<le> 13) \<or> (28 \<le> n \<and> n \<le> 32))"

definition char_lower :: "char \<Rightarrow> char" where
  "char_lower c = (let n = (of_char c :: nat) in if 65 \<le> n \<and> n \<le> 90 then char_of (n + 32) else c)"

definition char_upper :: "char \<Rightarrow> char" where
  "char_upper c = (let n = (of_char c :: nat) in if 97 \<le> n \<and> n \<le> 122 then char_of (n - 32) else c)"

definition char_isdigit :: "char \<Rightarrow> bool" where
  "char_isdigit c = (let n = (of_char c :: nat) in 48 \<le> n \<and> n \<le> 57)"

definition char_isalpha :: "char \<Rightarrow> bool" where
  "char_isalpha c = (let n = (of_char c :: nat) in (65 \<le> n \<and> n \<le> 90) \<or> (97 \<le> n \<and> n \<le> 122))"

definition char_isalnum :: "char \<Rightarrow> bool" where
  "char_isalnum c = (char_isalpha c \<or> char_isdigit c)"

definition py_strip :: "string \<Rightarrow> string" where
  "py_strip s = rev (dropWhile py_isspace (rev (dropWhile py_isspace s)))"

definition py_casefold :: "string \<Rightarrow> string" where
  "py_casefold s = map char_lower s"

definition py_upper :: "string \<Rightarrow> string" where
  "py_upper s = map char_upper s"

text \<open>PostgreSQL's \<^verbatim>\<open>lower\<close>, on the same range.\<close>

definition sql_lower :: "string \<Rightarrow> string" where
  "sql_lower s = map char_lower s"

text \<open>\<^verbatim>\<open>str.split()\<close> with no separator: the maximal runs of non-space characters.\<close>

fun py_split_aux :: "string \<Rightarrow> string \<Rightarrow> string list" where
  "py_split_aux [] acc = (if acc = [] then [] else [rev acc])"
| "py_split_aux (c # cs) acc =
     (if py_isspace c then (if acc = [] then py_split_aux cs [] else rev acc # py_split_aux cs [])
      else py_split_aux cs (c # acc))"

definition py_split :: "string \<Rightarrow> string list" where
  "py_split s = py_split_aux s []"

text \<open>\<^verbatim>\<open>text or ""\<close> for an optional string.\<close>

definition present :: "string option \<Rightarrow> string" where
  "present t = (case t of None \<Rightarrow> [] | Some s \<Rightarrow> s)"

fun py_join :: "string \<Rightarrow> string list \<Rightarrow> string" where
  "py_join sep [] = []"
| "py_join sep [x] = x"
| "py_join sep (x # y # ys) = x @ sep @ py_join sep (y # ys)"

text \<open>
  Rendering: \<^verbatim>\<open>digits b w n\<close> is \<open>n\<close> in base \<open>b\<close>, padded with zeros to \<open>w\<close> digits; \<^verbatim>\<open>str(uuid)\<close> is 32
  hexadecimal digits in groups of 8, 4, 4, 4 and 12.
\<close>

definition hex_digit :: "nat \<Rightarrow> char" where
  "hex_digit n = (if n < 10 then char_of (48 + n) else char_of (87 + n))"

fun padded_digits :: "nat \<Rightarrow> nat \<Rightarrow> nat \<Rightarrow> string" where
  "padded_digits b 0 n = []"
| "padded_digits b (Suc w) n = padded_digits b w (n div b) @ [hex_digit (n mod b)]"

definition uuid_str :: "uuid \<Rightarrow> string" where
  "uuid_str i = (let h = padded_digits 16 32 i in
     py_join ''-'' [take 8 h, take 4 (drop 8 h), take 4 (drop 12 h), take 4 (drop 16 h), drop 20 h])"

lemma char_upper_lower_range:
  "n < 256 \<Longrightarrow> of_char (char_of n :: char) = (n :: nat)"
  by simp

lemma char_lower_idem [simp]: "char_lower (char_lower c) = char_lower c"
  by (auto simp: char_lower_def Let_def)

lemma isspace_char_lower [simp]: "py_isspace (char_lower c) = py_isspace c"
  by (auto simp: char_lower_def py_isspace_def Let_def)

lemma py_casefold_idem [simp, text_simps]: "py_casefold (py_casefold s) = py_casefold s"
  by (simp add: py_casefold_def comp_def)

lemma length_py_casefold [simp, text_simps]: "length (py_casefold s) = length s"
  by (simp add: py_casefold_def)

lemma sql_lower_casefold [simp, text_simps]: "sql_lower s = py_casefold s"
  by (simp add: sql_lower_def py_casefold_def)

lemma dropWhile_idem_head: "xs = [] \<or> \<not> P (hd xs) \<Longrightarrow> dropWhile P xs = xs"
  by (cases xs) auto

lemma dropWhile_head: "dropWhile P xs = [] \<or> \<not> P (hd (dropWhile P xs))"
  using hd_dropWhile by blast

lemma last_rev_dropWhile_rev:
  "rev (dropWhile P (rev ys)) = [] \<or> \<not> P (last (rev (dropWhile P (rev ys))))"
  by (metis dropWhile_head last_rev rev_is_Nil_conv)

lemma rev_dropWhile_rev_prefix: "\<exists>zs. ys = rev (dropWhile P (rev ys)) @ zs"
proof -
  have "rev ys = takeWhile P (rev ys) @ dropWhile P (rev ys)" by simp
  then have "ys = rev (dropWhile P (rev ys)) @ rev (takeWhile P (rev ys))"
    by (metis rev_append rev_rev_ident)
  then show ?thesis by blast
qed

lemma py_strip_idem [simp, text_simps]: "py_strip (py_strip s) = py_strip s"
proof -
  define ys where "ys = dropWhile py_isspace s"
  define zs where "zs = rev (dropWhile py_isspace (rev ys))"
  obtain ws where ys: "ys = zs @ ws"
    unfolding zs_def using rev_dropWhile_rev_prefix by blast
  have hd: "zs = [] \<or> \<not> py_isspace (hd zs)"
  proof (cases zs)
    case (Cons c cs)
    then have "hd ys = c" "ys \<noteq> []" using ys by auto
    then have "\<not> py_isspace c" using dropWhile_head[of py_isspace s] unfolding ys_def by metis
    then show ?thesis using Cons by simp
  qed simp
  have last: "zs = [] \<or> \<not> py_isspace (last zs)"
    unfolding zs_def by (rule last_rev_dropWhile_rev)
  have "dropWhile py_isspace zs = zs" using hd by (rule dropWhile_idem_head)
  moreover have "dropWhile py_isspace (rev zs) = rev zs"
    using last by (intro dropWhile_idem_head) (auto simp: hd_rev)
  ultimately have "py_strip zs = zs" by (simp add: py_strip_def)
  then show ?thesis by (simp add: py_strip_def zs_def ys_def)
qed

lemma dropWhile_map_cong: "(\<And>c. P (f c) = P c) \<Longrightarrow> dropWhile P (map f xs) = map f (dropWhile P xs)"
  by (simp add: dropWhile_map comp_def)

lemma py_strip_casefold [text_simps]: "py_strip (py_casefold s) = py_casefold (py_strip s)"
  by (simp add: py_strip_def py_casefold_def dropWhile_map_cong rev_map)

subsection \<open>Tables\<close>

text \<open>
  A table is the list of its rows.  A \<^verbatim>\<open>SELECT ... LIMIT 1\<close> (or a scalar read of a unique column) is
  \<^const>\<open>List.find\<close>, \<^verbatim>\<open>UPDATE ... WHERE\<close> is \<open>update_where\<close> and \<^verbatim>\<open>DELETE ... WHERE\<close> is \<open>delete_where\<close>;
  \<^verbatim>\<open>session.add\<close> appends.
\<close>

definition update_where :: "('r \<Rightarrow> bool) \<Rightarrow> ('r \<Rightarrow> 'r) \<Rightarrow> 'r list \<Rightarrow> 'r list" where
  "update_where P f rows = map (\<lambda>r. if P r then f r else r) rows"

definition delete_where :: "('r \<Rightarrow> bool) \<Rightarrow> 'r list \<Rightarrow> 'r list" where
  "delete_where P rows = filter (\<lambda>r. \<not> P r) rows"

definition get_by :: "('r \<Rightarrow> 'k) \<Rightarrow> 'k \<Rightarrow> 'r list \<Rightarrow> 'r option" where
  "get_by key k rows = List.find (\<lambda>r. key r = k) rows"

definition exists_where :: "('r \<Rightarrow> bool) \<Rightarrow> 'r list \<Rightarrow> bool" where
  "exists_where P rows = list_ex P rows"

definition count_where :: "('r \<Rightarrow> bool) \<Rightarrow> 'r list \<Rightarrow> nat" where
  "count_where P rows = length (filter P rows)"

lemma set_update_where [row_simps]:
  "set (update_where P f rows) = (\<lambda>r. if P r then f r else r) ` set rows"
  by (simp add: update_where_def)

lemma in_update_where: "r \<in> set rows \<Longrightarrow> (if P r then f r else r) \<in> set (update_where P f rows)"
  by (auto simp: set_update_where)

lemma updated_row_in: "\<lbrakk>r \<in> set rows; P r\<rbrakk> \<Longrightarrow> f r \<in> set (update_where P f rows)"
  by (auto simp: set_update_where)

lemma length_update_where [simp, row_simps]: "length (update_where P f rows) = length rows"
  by (simp add: update_where_def)

lemma update_where_simps [simp, row_simps]:
  "update_where P f [] = []"
  "update_where P f (r # rows) = (if P r then f r else r) # update_where P f rows"
  "update_where P f (xs @ ys) = update_where P f xs @ update_where P f ys"
  by (simp_all add: update_where_def)

lemma update_where_none [row_simps]: "(\<And>r. r \<in> set rows \<Longrightarrow> \<not> P r) \<Longrightarrow> update_where P f rows = rows"
  by (induction rows) auto

lemma map_update_where [row_simps]:
  "(\<And>r. g (f r) = g r) \<Longrightarrow> map g (update_where P f rows) = map g rows"
  by (induction rows) auto

lemma get_by_simps [simp, row_simps]:
  "get_by key k [] = None"
  "get_by key k (r # rows) = (if key r = k then Some r else get_by key k rows)"
  by (simp_all add: get_by_def)

lemma get_by_append [row_simps]:
  "get_by key k (xs @ ys) = (case get_by key k xs of Some r \<Rightarrow> Some r | None \<Rightarrow> get_by key k ys)"
  by (induction xs) auto

lemma get_by_SomeD: "get_by key k rows = Some r \<Longrightarrow> r \<in> set rows \<and> key r = k"
  by (induction rows) (auto split: if_splits)

lemma get_by_None_iff: "get_by key k rows = None \<longleftrightarrow> k \<notin> key ` set rows"
  by (induction rows) auto

lemma get_by_in: "\<lbrakk>distinct (map key rows); r \<in> set rows\<rbrakk> \<Longrightarrow> get_by key (key r) rows = Some r"
  by (induction rows) (auto simp: image_iff)

lemma get_by_update_where [row_simps]:
  assumes "\<And>r. key (f r) = key r"
  shows "get_by key k (update_where P f rows) = map_option (\<lambda>r. if P r then f r else r) (get_by key k rows)"
  using assms by (induction rows) auto

lemma find_SomeD: "List.find P rows = Some r \<Longrightarrow> r \<in> set rows \<and> P r"
  by (induction rows) (auto split: if_splits)

lemma find_None_iff_all: "List.find P rows = None \<longleftrightarrow> (\<forall>r \<in> set rows. \<not> P r)"
  by (induction rows) auto

lemma exists_where_iff [simp, row_simps]: "exists_where P rows \<longleftrightarrow> (\<exists>r \<in> set rows. P r)"
  by (simp add: exists_where_def list_ex_iff)

lemma count_where_simps [simp, row_simps]:
  "count_where P [] = 0"
  "count_where P (r # rows) = (if P r then Suc (count_where P rows) else count_where P rows)"
  "count_where P (xs @ ys) = count_where P xs + count_where P ys"
  by (simp_all add: count_where_def)

lemma count_where_0_iff: "count_where P rows = 0 \<longleftrightarrow> (\<forall>r \<in> set rows. \<not> P r)"
  by (induction rows) auto

lemma count_where_mono: "(\<And>r. r \<in> set rows \<Longrightarrow> P r \<Longrightarrow> Q r) \<Longrightarrow> count_where P rows \<le> count_where Q rows"
  by (induction rows) (auto simp: le_SucI)

lemma set_delete_where [simp, row_simps]: "set (delete_where P rows) = {r \<in> set rows. \<not> P r}"
  by (auto simp: delete_where_def)

text \<open>A partial unique index: among the rows that satisfy \<open>P\<close>, the key is unique.\<close>

definition unique_where :: "('r \<Rightarrow> bool) \<Rightarrow> ('r \<Rightarrow> 'k) \<Rightarrow> 'r list \<Rightarrow> bool" where
  "unique_where P key rows = distinct (map key (filter P rows))"

lemma unique_where_simps [simp, row_simps]:
  "unique_where P key []"
  "unique_where P key (r # rows) \<longleftrightarrow>
     (P r \<longrightarrow> (\<forall>q \<in> set rows. P q \<longrightarrow> key q \<noteq> key r)) \<and> unique_where P key rows"
  by (auto simp: unique_where_def image_iff)

lemma unique_where_append:
  "unique_where P key (xs @ ys) \<longleftrightarrow> unique_where P key xs \<and> unique_where P key ys \<and>
     (\<forall>x \<in> set xs. \<forall>y \<in> set ys. P x \<longrightarrow> P y \<longrightarrow> key x \<noteq> key y)"
  by (induction xs) auto

lemma unique_where_update_weaken:
  assumes "unique_where P key rows"
    and "\<And>r. r \<in> set rows \<Longrightarrow> Q r \<Longrightarrow> P (f r) \<Longrightarrow> P r \<and> key (f r) = key r"
  shows "unique_where P key (update_where Q f rows)"
  using assms
proof (induction rows)
  case (Cons r rows)
  then have IH: "unique_where P key (update_where Q f rows)" by auto
  show ?case using Cons.prems IH by (auto simp: set_update_where split: if_splits)
qed simp

lemma unique_where_eqD:
  "\<lbrakk>unique_where P key rows; x \<in> set rows; y \<in> set rows; P x; P y; key x = key y\<rbrakk> \<Longrightarrow> x = y"
  by (induction rows) auto

end
