(* ===== verification/Vocabulary.thy ===== *)
theory Vocabulary
  imports Prelude
begin

text \<open>
  The closed vocabularies of \<^verbatim>\<open>nevo/domain\<close>: every \<^verbatim>\<open>StrEnum\<close> the modelled components use, as a
  datatype with the source's members (prefixed by the initials of the enumeration, since several
  enumerations share member names), and \<open><enum>_value\<close>, the string each member stands for.  The
  notification vocabulary also has its type-to-category table and the lookup that reads it.
\<close>

datatype user_role = UR_STUDENT | UR_TEACHER | UR_SENCO_ADMIN | UR_OTHER_ADMIN | UR_PARENT_GUARDIAN

fun user_role_value :: "user_role \<Rightarrow> string" where
  "user_role_value UR_STUDENT = ''student''"
| "user_role_value UR_TEACHER = ''teacher''"
| "user_role_value UR_SENCO_ADMIN = ''senco_admin''"
| "user_role_value UR_OTHER_ADMIN = ''other_admin''"
| "user_role_value UR_PARENT_GUARDIAN = ''parent_guardian''"

datatype auth_method = AM_EMAIL_PASSWORD | AM_PIN | AM_SSO

fun auth_method_value :: "auth_method \<Rightarrow> string" where
  "auth_method_value AM_EMAIL_PASSWORD = ''email_password''"
| "auth_method_value AM_PIN = ''pin''"
| "auth_method_value AM_SSO = ''sso''"

datatype user_status = US_ACTIVE | US_INVITED | US_DEACTIVATED

fun user_status_value :: "user_status \<Rightarrow> string" where
  "user_status_value US_ACTIVE = ''active''"
| "user_status_value US_INVITED = ''invited''"
| "user_status_value US_DEACTIVATED = ''deactivated''"

datatype school_enrollment_band = EB_SMALL | EB_MEDIUM | EB_LARGE | EB_VERY_LARGE

fun school_enrollment_band_value :: "school_enrollment_band \<Rightarrow> string" where
  "school_enrollment_band_value EB_SMALL = ''small''"
| "school_enrollment_band_value EB_MEDIUM = ''medium''"
| "school_enrollment_band_value EB_LARGE = ''large''"
| "school_enrollment_band_value EB_VERY_LARGE = ''very_large''"

datatype consent_status = CS_NOT_SENT | CS_PENDING | CS_CONFIRMED | CS_WITHDRAWN

fun consent_status_value :: "consent_status \<Rightarrow> string" where
  "consent_status_value CS_NOT_SENT = ''not_sent''"
| "consent_status_value CS_PENDING = ''pending''"
| "consent_status_value CS_CONFIRMED = ''confirmed''"
| "consent_status_value CS_WITHDRAWN = ''withdrawn''"

datatype consent_type = CT_DATA_PROCESSING | CT_CAMERA | CT_OFFLINE_STORAGE | CT_CROSS_BORDER_TRANSFER

fun consent_type_value :: "consent_type \<Rightarrow> string" where
  "consent_type_value CT_DATA_PROCESSING = ''data_processing''"
| "consent_type_value CT_CAMERA = ''camera''"
| "consent_type_value CT_OFFLINE_STORAGE = ''offline_storage''"
| "consent_type_value CT_CROSS_BORDER_TRANSFER = ''cross_border_transfer''"

datatype consent_method = CM_WRITTEN | CM_VERBAL | CM_EMAIL | CM_DIGITAL

fun consent_method_value :: "consent_method \<Rightarrow> string" where
  "consent_method_value CM_WRITTEN = ''written''"
| "consent_method_value CM_VERBAL = ''verbal''"
| "consent_method_value CM_EMAIL = ''email''"
| "consent_method_value CM_DIGITAL = ''digital''"

datatype notification_category = NC_ASSIGNMENTS | NC_MESSAGES | NC_ATTENTION | NC_REPORTS | NC_CONSENT | NC_BILLING | NC_ACCOUNT

fun notification_category_value :: "notification_category \<Rightarrow> string" where
  "notification_category_value NC_ASSIGNMENTS = ''assignments''"
| "notification_category_value NC_MESSAGES = ''messages''"
| "notification_category_value NC_ATTENTION = ''attention''"
| "notification_category_value NC_REPORTS = ''reports''"
| "notification_category_value NC_CONSENT = ''consent''"
| "notification_category_value NC_BILLING = ''billing''"
| "notification_category_value NC_ACCOUNT = ''account''"

datatype notification_type = NT_ATTENTION_SUMMARY | NT_MODALITY_SHIFT | NT_CONCEPT_SUPPORT_NEEDED | NT_PIN_RESET_REQUESTED | NT_DEACTIVATED_STUDENT_SUPPORT_REQUESTED | NT_ADMIN_WELCOME | NT_CONSENT_ACTION_REQUIRED | NT_ROSTER_SYNC_COMPLETED | NT_ROSTER_SYNC_NEEDS_ATTENTION | NT_INVOICE_ISSUED | NT_PAYMENT_CLEARED | NT_SSO_NEEDS_ATTENTION | NT_LESSON_ASSIGNED | NT_REVIEW_DUE | NT_TEACHER_REPLIED | NT_SIGN_IN_CHANGED

fun notification_type_value :: "notification_type \<Rightarrow> string" where
  "notification_type_value NT_ATTENTION_SUMMARY = ''attention_summary''"
| "notification_type_value NT_MODALITY_SHIFT = ''modality_shift''"
| "notification_type_value NT_CONCEPT_SUPPORT_NEEDED = ''concept_support_needed''"
| "notification_type_value NT_PIN_RESET_REQUESTED = ''pin_reset_requested''"
| "notification_type_value NT_DEACTIVATED_STUDENT_SUPPORT_REQUESTED = ''deactivated_student_support_requested''"
| "notification_type_value NT_ADMIN_WELCOME = ''admin_welcome''"
| "notification_type_value NT_CONSENT_ACTION_REQUIRED = ''consent_action_required''"
| "notification_type_value NT_ROSTER_SYNC_COMPLETED = ''roster_sync_completed''"
| "notification_type_value NT_ROSTER_SYNC_NEEDS_ATTENTION = ''roster_sync_needs_attention''"
| "notification_type_value NT_INVOICE_ISSUED = ''invoice_issued''"
| "notification_type_value NT_PAYMENT_CLEARED = ''payment_cleared''"
| "notification_type_value NT_SSO_NEEDS_ATTENTION = ''sso_needs_attention''"
| "notification_type_value NT_LESSON_ASSIGNED = ''lesson_assigned''"
| "notification_type_value NT_REVIEW_DUE = ''review_due''"
| "notification_type_value NT_TEACHER_REPLIED = ''teacher_replied''"
| "notification_type_value NT_SIGN_IN_CHANGED = ''sign_in_changed''"

datatype pricing_plan = PP_ANNUAL | PP_PER_TERM

fun pricing_plan_value :: "pricing_plan \<Rightarrow> string" where
  "pricing_plan_value PP_ANNUAL = ''annual''"
| "pricing_plan_value PP_PER_TERM = ''per_term''"

datatype subscription_tier = ST_BOUTIQUE | ST_MID_MARKET | ST_PREMIUM | ST_ENTERPRISE

fun subscription_tier_value :: "subscription_tier \<Rightarrow> string" where
  "subscription_tier_value ST_BOUTIQUE = ''boutique''"
| "subscription_tier_value ST_MID_MARKET = ''mid_market''"
| "subscription_tier_value ST_PREMIUM = ''premium''"
| "subscription_tier_value ST_ENTERPRISE = ''enterprise''"

datatype invoice_status = IS_PAID | IS_PENDING | IS_OVERDUE

fun invoice_status_value :: "invoice_status \<Rightarrow> string" where
  "invoice_status_value IS_PAID = ''paid''"
| "invoice_status_value IS_PENDING = ''pending''"
| "invoice_status_value IS_OVERDUE = ''overdue''"

datatype payment_method_type = PM_CARD | PM_DIRECT_DEBIT

fun payment_method_type_value :: "payment_method_type \<Rightarrow> string" where
  "payment_method_type_value PM_CARD = ''card''"
| "payment_method_type_value PM_DIRECT_DEBIT = ''direct_debit''"

datatype pricing_currency = PC_USD | PC_NGN | PC_GBP

fun pricing_currency_value :: "pricing_currency \<Rightarrow> string" where
  "pricing_currency_value PC_USD = ''USD''"
| "pricing_currency_value PC_NGN = ''NGN''"
| "pricing_currency_value PC_GBP = ''GBP''"

datatype payment_source = PS_DIRECT | PS_STERLING | PS_PARTNER

fun payment_source_value :: "payment_source \<Rightarrow> string" where
  "payment_source_value PS_DIRECT = ''direct''"
| "payment_source_value PS_STERLING = ''sterling''"
| "payment_source_value PS_PARTNER = ''partner''"

datatype payment_transaction_status = PT_PENDING | PT_SUCCESS | PT_FAILED | PT_ABANDONED

fun payment_transaction_status_value :: "payment_transaction_status \<Rightarrow> string" where
  "payment_transaction_status_value PT_PENDING = ''pending''"
| "payment_transaction_status_value PT_SUCCESS = ''success''"
| "payment_transaction_status_value PT_FAILED = ''failed''"
| "payment_transaction_status_value PT_ABANDONED = ''abandoned''"

datatype webhook_event_status = WE_RECEIVED | WE_PROCESSED | WE_IGNORED | WE_FAILED

fun webhook_event_status_value :: "webhook_event_status \<Rightarrow> string" where
  "webhook_event_status_value WE_RECEIVED = ''received''"
| "webhook_event_status_value WE_PROCESSED = ''processed''"
| "webhook_event_status_value WE_IGNORED = ''ignored''"
| "webhook_event_status_value WE_FAILED = ''failed''"

datatype parent_contact_method = CC_EMAIL

fun parent_contact_method_value :: "parent_contact_method \<Rightarrow> string" where
  "parent_contact_method_value CC_EMAIL = ''email''"

datatype consent_confirmation_source = SRC_SCHOOL | SRC_PARENT

fun consent_confirmation_source_value :: "consent_confirmation_source \<Rightarrow> string" where
  "consent_confirmation_source_value SRC_SCHOOL = ''school''"
| "consent_confirmation_source_value SRC_PARENT = ''parent''"

datatype consent_notification_kind = NK_REQUEST | NK_RECEIPT

fun consent_notification_kind_value :: "consent_notification_kind \<Rightarrow> string" where
  "consent_notification_kind_value NK_REQUEST = ''request''"
| "consent_notification_kind_value NK_RECEIPT = ''receipt''"

datatype consent_delivery_status = DS_QUEUED | DS_PROCESSING | DS_SENT | DS_FAILED

fun consent_delivery_status_value :: "consent_delivery_status \<Rightarrow> string" where
  "consent_delivery_status_value DS_QUEUED = ''queued''"
| "consent_delivery_status_value DS_PROCESSING = ''processing''"
| "consent_delivery_status_value DS_SENT = ''sent''"
| "consent_delivery_status_value DS_FAILED = ''failed''"

datatype parent_right_type = PR_REQUEST_DATA | PR_OBJECT | PR_WITHDRAW_CONSENT | PR_RESTORE_CONSENT

fun parent_right_type_value :: "parent_right_type \<Rightarrow> string" where
  "parent_right_type_value PR_REQUEST_DATA = ''request_data''"
| "parent_right_type_value PR_OBJECT = ''object''"
| "parent_right_type_value PR_WITHDRAW_CONSENT = ''withdraw_consent''"
| "parent_right_type_value PR_RESTORE_CONSENT = ''restore_consent''"

datatype age_check_state = AC_MATCHED | AC_MISMATCH | AC_RESOLVED | AC_AWAITING_PARENT

fun age_check_state_value :: "age_check_state \<Rightarrow> string" where
  "age_check_state_value AC_MATCHED = ''matched''"
| "age_check_state_value AC_MISMATCH = ''mismatch''"
| "age_check_state_value AC_RESOLVED = ''resolved''"
| "age_check_state_value AC_AWAITING_PARENT = ''awaiting_parent''"

datatype consent_refusal_reason = RR_NO_RESPONSE | RR_DECLINED | RR_WITHDRAWN

fun consent_refusal_reason_value :: "consent_refusal_reason \<Rightarrow> string" where
  "consent_refusal_reason_value RR_NO_RESPONSE = ''no_response''"
| "consent_refusal_reason_value RR_DECLINED = ''declined''"
| "consent_refusal_reason_value RR_WITHDRAWN = ''withdrawn''"

datatype admin_access_level = AL_SENIOR | AL_STANDARD

fun admin_access_level_value :: "admin_access_level \<Rightarrow> string" where
  "admin_access_level_value AL_SENIOR = ''senior''"
| "admin_access_level_value AL_STANDARD = ''standard''"

datatype permission_scope = SCOPE_BILLING | SCOPE_ROSTER | SCOPE_CURRICULUM | SCOPE_SENCO | SCOPE_IT_SSO | SCOPE_OVERSIGHT | SCOPE_TEACHER

fun permission_scope_value :: "permission_scope \<Rightarrow> string" where
  "permission_scope_value SCOPE_BILLING = ''billing''"
| "permission_scope_value SCOPE_ROSTER = ''roster''"
| "permission_scope_value SCOPE_CURRICULUM = ''curriculum''"
| "permission_scope_value SCOPE_SENCO = ''senco''"
| "permission_scope_value SCOPE_IT_SSO = ''it_sso''"
| "permission_scope_value SCOPE_OVERSIGHT = ''oversight''"
| "permission_scope_value SCOPE_TEACHER = ''teacher''"

datatype failure_attribution = FA_CONCEPT | FA_READING | FA_MIXED | FA_NONE

fun failure_attribution_value :: "failure_attribution \<Rightarrow> string" where
  "failure_attribution_value FA_CONCEPT = ''concept''"
| "failure_attribution_value FA_READING = ''reading''"
| "failure_attribution_value FA_MIXED = ''mixed''"
| "failure_attribution_value FA_NONE = ''none''"

datatype scaffold_intensity = SI_FULL_SUPPORT | SI_PARTIAL_SUPPORT | SI_HINTS_ONLY | SI_INDEPENDENT

fun scaffold_intensity_value :: "scaffold_intensity \<Rightarrow> string" where
  "scaffold_intensity_value SI_FULL_SUPPORT = ''full_support''"
| "scaffold_intensity_value SI_PARTIAL_SUPPORT = ''partial_support''"
| "scaffold_intensity_value SI_HINTS_ONLY = ''hints_only''"
| "scaffold_intensity_value SI_INDEPENDENT = ''independent''"

datatype scaffold_outcome = SO_CORRECT | SO_STRUGGLED

fun scaffold_outcome_value :: "scaffold_outcome \<Rightarrow> string" where
  "scaffold_outcome_value SO_CORRECT = ''correct''"
| "scaffold_outcome_value SO_STRUGGLED = ''struggled''"

datatype age_band = AB_EARLY_PRIMARY | AB_UPPER_PRIMARY | AB_JUNIOR_SECONDARY | AB_SENIOR_SECONDARY

fun age_band_value :: "age_band \<Rightarrow> string" where
  "age_band_value AB_EARLY_PRIMARY = ''early_primary''"
| "age_band_value AB_UPPER_PRIMARY = ''upper_primary''"
| "age_band_value AB_JUNIOR_SECONDARY = ''junior_secondary''"
| "age_band_value AB_SENIOR_SECONDARY = ''senior_secondary''"

subsection \<open>Reading a member back from its string\<close>

text \<open>Calling an enumeration on a string finds the member with that value or raises \<^verbatim>\<open>ValueError\<close>.\<close>

definition enum_of :: "('e \<Rightarrow> string) \<Rightarrow> 'e list \<Rightarrow> string \<Rightarrow> 'e option" where
  "enum_of value_of members s = List.find (\<lambda>m. value_of m = s) members"

definition all_user_roles :: "user_role list" where
  "all_user_roles = [UR_STUDENT, UR_TEACHER, UR_SENCO_ADMIN, UR_OTHER_ADMIN, UR_PARENT_GUARDIAN]"

definition user_role_of :: "string \<Rightarrow> user_role option" where
  "user_role_of s = enum_of user_role_value all_user_roles s"

definition all_notification_types :: "notification_type list" where
  "all_notification_types =
     [NT_ATTENTION_SUMMARY, NT_MODALITY_SHIFT, NT_CONCEPT_SUPPORT_NEEDED, NT_PIN_RESET_REQUESTED,
      NT_DEACTIVATED_STUDENT_SUPPORT_REQUESTED, NT_ADMIN_WELCOME, NT_CONSENT_ACTION_REQUIRED,
      NT_ROSTER_SYNC_COMPLETED, NT_ROSTER_SYNC_NEEDS_ATTENTION, NT_INVOICE_ISSUED,
      NT_PAYMENT_CLEARED, NT_SSO_NEEDS_ATTENTION, NT_LESSON_ASSIGNED, NT_REVIEW_DUE,
      NT_TEACHER_REPLIED, NT_SIGN_IN_CHANGED]"

definition notification_type_of :: "string \<Rightarrow> notification_type option" where
  "notification_type_of s = enum_of notification_type_value all_notification_types s"

definition all_age_bands :: "age_band list" where
  "all_age_bands = [AB_EARLY_PRIMARY, AB_UPPER_PRIMARY, AB_JUNIOR_SECONDARY, AB_SENIOR_SECONDARY]"

definition age_band_of :: "string \<Rightarrow> age_band option" where
  "age_band_of s = enum_of age_band_value all_age_bands s"

subsection \<open>Notification categories\<close>

fun NOTIFICATION_CATEGORY_BY_TYPE :: "notification_type \<Rightarrow> notification_category option" where
  "NOTIFICATION_CATEGORY_BY_TYPE NT_ATTENTION_SUMMARY = Some NC_ATTENTION"
| "NOTIFICATION_CATEGORY_BY_TYPE NT_MODALITY_SHIFT = Some NC_ATTENTION"
| "NOTIFICATION_CATEGORY_BY_TYPE NT_CONCEPT_SUPPORT_NEEDED = Some NC_ATTENTION"
| "NOTIFICATION_CATEGORY_BY_TYPE NT_PIN_RESET_REQUESTED = Some NC_ACCOUNT"
| "NOTIFICATION_CATEGORY_BY_TYPE NT_DEACTIVATED_STUDENT_SUPPORT_REQUESTED = Some NC_MESSAGES"
| "NOTIFICATION_CATEGORY_BY_TYPE NT_ADMIN_WELCOME = Some NC_ACCOUNT"
| "NOTIFICATION_CATEGORY_BY_TYPE NT_CONSENT_ACTION_REQUIRED = Some NC_CONSENT"
| "NOTIFICATION_CATEGORY_BY_TYPE NT_ROSTER_SYNC_COMPLETED = Some NC_REPORTS"
| "NOTIFICATION_CATEGORY_BY_TYPE NT_ROSTER_SYNC_NEEDS_ATTENTION = Some NC_REPORTS"
| "NOTIFICATION_CATEGORY_BY_TYPE NT_INVOICE_ISSUED = Some NC_BILLING"
| "NOTIFICATION_CATEGORY_BY_TYPE NT_PAYMENT_CLEARED = Some NC_BILLING"
| "NOTIFICATION_CATEGORY_BY_TYPE NT_SSO_NEEDS_ATTENTION = Some NC_ACCOUNT"
| "NOTIFICATION_CATEGORY_BY_TYPE NT_LESSON_ASSIGNED = Some NC_ASSIGNMENTS"
| "NOTIFICATION_CATEGORY_BY_TYPE NT_REVIEW_DUE = Some NC_ASSIGNMENTS"
| "NOTIFICATION_CATEGORY_BY_TYPE NT_TEACHER_REPLIED = Some NC_MESSAGES"
| "NOTIFICATION_CATEGORY_BY_TYPE NT_SIGN_IN_CHANGED = Some NC_ACCOUNT"

definition notification_category_of :: "string option \<Rightarrow> notification_category option" where
  "notification_category_of t =
     (case t of None \<Rightarrow> None
      | Some s \<Rightarrow> (case notification_type_of s of None \<Rightarrow> None
                   | Some key \<Rightarrow> NOTIFICATION_CATEGORY_BY_TYPE key))"

definition REQUIRED_LEARNING_CONSENT :: consent_type where
  "REQUIRED_LEARNING_CONSENT = CT_DATA_PROCESSING"

subsection \<open>Lemmas\<close>

lemma user_role_value_inject [simp]: "user_role_value r = user_role_value r' \<longleftrightarrow> r = r'"
  by (cases r; cases r') simp_all

lemma user_role_of_value [simp]: "user_role_of (user_role_value r) = Some r"
  by (cases r) (simp_all add: user_role_of_def enum_of_def all_user_roles_def)

lemma user_role_of_SomeD: "user_role_of s = Some r \<Longrightarrow> user_role_value r = s"
  unfolding user_role_of_def enum_of_def by (drule find_SomeD) simp

lemma user_status_value_inject [simp]: "user_status_value r = user_status_value r' \<longleftrightarrow> r = r'"
  by (cases r; cases r') simp_all

lemma auth_method_value_inject [simp]: "auth_method_value r = auth_method_value r' \<longleftrightarrow> r = r'"
  by (cases r; cases r') simp_all

lemma notification_type_of_value [simp]: "notification_type_of (notification_type_value t) = Some t"
  by (cases t) (simp_all add: notification_type_of_def enum_of_def all_notification_types_def)

lemma age_band_of_value [simp]: "age_band_of (age_band_value b) = Some b"
  by (cases b) (simp_all add: age_band_of_def enum_of_def all_age_bands_def)

lemma age_band_value_inject [simp]: "age_band_value b = age_band_value b' \<longleftrightarrow> b = b'"
  by (cases b; cases b') simp_all

subsection \<open>Teacher assignments\<close>

datatype teacher_assignment_role = TR_PRIMARY | TR_CO_TEACHER

fun teacher_assignment_role_value :: "teacher_assignment_role \<Rightarrow> string" where
  "teacher_assignment_role_value TR_PRIMARY = ''primary''"
| "teacher_assignment_role_value TR_CO_TEACHER = ''co_teacher''"

datatype teacher_assignment_source = TS_MANUAL | TS_ROSTER_SYNC

fun teacher_assignment_source_value :: "teacher_assignment_source \<Rightarrow> string" where
  "teacher_assignment_source_value TS_MANUAL = ''manual''"
| "teacher_assignment_source_value TS_ROSTER_SYNC = ''roster_sync''"

end
