(* ===== verification/AgeBands.thy ===== *)
theory AgeBands
  imports Vocabulary
begin

text \<open>
  Calendar dates and the age bands derived from them (\<^verbatim>\<open>nevo/domain/accounts/age_bands.py\<close>).  A
  \<^verbatim>\<open>datetime.date\<close> is a year, a month and a day, ordered lexicographically as Python compares
  dates; the optional \<^verbatim>\<open>today\<close> argument of the source, which defaults to the clock, is always
  passed here.
\<close>

subsection \<open>Dates\<close>

datatype date = Date (date_year: int) (date_month: int) (date_day: int)

instantiation date :: linorder
begin

definition less_eq_date :: "date \<Rightarrow> date \<Rightarrow> bool" where
  "d \<le> e \<longleftrightarrow> date_year d < date_year e \<or>
     (date_year d = date_year e \<and> (date_month d < date_month e \<or>
        (date_month d = date_month e \<and> date_day d \<le> date_day e)))"

definition less_date :: "date \<Rightarrow> date \<Rightarrow> bool" where
  "d < e \<longleftrightarrow> date_year d < date_year e \<or>
     (date_year d = date_year e \<and> (date_month d < date_month e \<or>
        (date_month d = date_month e \<and> date_day d < date_day e)))"

instance
  by standard (auto simp: less_eq_date_def less_date_def date.expand)

end

definition is_leap_year :: "int \<Rightarrow> bool" where
  "is_leap_year y = (y mod 4 = 0 \<and> (y mod 100 \<noteq> 0 \<or> y mod 400 = 0))"

definition days_in_month :: "int \<Rightarrow> int \<Rightarrow> int" where
  "days_in_month y m =
     (if m = 2 then (if is_leap_year y then 29 else 28) else if m \<in> {4, 6, 9, 11} then 30 else 31)"

definition valid_date :: "date \<Rightarrow> bool" where
  "valid_date d = (1 \<le> date_year d \<and> date_year d \<le> 9999 \<and> 1 \<le> date_month d \<and> date_month d \<le> 12 \<and>
     1 \<le> date_day d \<and> date_day d \<le> days_in_month (date_year d) (date_month d))"

text \<open>\<^verbatim>\<open>date.isoformat()\<close> and \<^verbatim>\<open>datetime.date()\<close> of an instant counted in microseconds from 1 January 1970 (UTC).\<close>

definition isoformat :: "date \<Rightarrow> string" where
  "isoformat d = padded_digits 10 4 (nat (date_year d)) @ ''-'' @ padded_digits 10 2 (nat (date_month d)) @
     ''-'' @ padded_digits 10 2 (nat (date_day d))"

definition civil_from_days :: "int \<Rightarrow> date" where
  "civil_from_days n =
     (let z = n + 719468;
          era = z div 146097;
          doe = z mod 146097;
          yoe = (doe - doe div 1460 + doe div 36524 - doe div 146096) div 365;
          doy = doe - (365 * yoe + yoe div 4 - yoe div 100);
          mp = (5 * doy + 2) div 153;
          m = (if mp < 10 then mp + 3 else mp - 9) in
      Date (yoe + era * 400 + (if m \<le> 2 then 1 else 0)) m (doy - (153 * mp + 2) div 5 + 1))"

definition utc_date :: "datetime \<Rightarrow> date" where
  "utc_date moment = civil_from_days (moment div td_days 1)"

subsection \<open>Bands\<close>

definition BAND_CEILINGS :: "(int \<times> age_band) list" where
  "BAND_CEILINGS = [(8, AB_EARLY_PRIMARY), (11, AB_UPPER_PRIMARY), (14, AB_JUNIOR_SECONDARY)]"

fun first_band :: "int \<Rightarrow> (int \<times> age_band) list \<Rightarrow> age_band" where
  "first_band age [] = AB_SENIOR_SECONDARY"
| "first_band age ((ceiling_age, band) # rest) =
     (if age \<le> ceiling_age then band else first_band age rest)"

definition band_for_age :: "int option \<Rightarrow> age_band option" where
  "band_for_age age = (case age of None \<Rightarrow> None | Some a \<Rightarrow> Some (first_band a BAND_CEILINGS))"

definition age_on :: "date option \<Rightarrow> date \<Rightarrow> int option" where
  "age_on born today =
     (case born of None \<Rightarrow> None
      | Some b \<Rightarrow> Some (date_year today - date_year b -
          (if date_month today < date_month b \<or>
              (date_month today = date_month b \<and> date_day today < date_day b) then 1 else 0)))"

definition band_for_date_of_birth :: "date option \<Rightarrow> date \<Rightarrow> age_band option" where
  "band_for_date_of_birth born today = band_for_age (age_on born today)"

text \<open>\<^verbatim>\<open>str.isdigit\<close> and \<^verbatim>\<open>int\<close> on a string of decimal digits.\<close>

definition py_isdigit :: "string \<Rightarrow> bool" where
  "py_isdigit s = (s \<noteq> [] \<and> list_all char_isdigit s)"

definition digit_value :: "char \<Rightarrow> int" where
  "digit_value c = int (of_char c) - 48"

definition py_int :: "string \<Rightarrow> int" where
  "py_int s = foldl (\<lambda>n c. 10 * n + digit_value c) 0 s"

definition coerce_band :: "string option \<Rightarrow> date option \<Rightarrow> date \<Rightarrow> age_band option" where
  "coerce_band stored born today =
     (let s = py_strip (case stored of None \<Rightarrow> [] | Some t \<Rightarrow> t) in
      if s \<noteq> [] then
        (case age_band_of (py_casefold s) of
           Some b \<Rightarrow> Some b
         | None \<Rightarrow> if py_isdigit s then band_for_age (Some (py_int s))
                   else band_for_date_of_birth born today)
      else band_for_date_of_birth born today)"

text \<open>\<^verbatim>\<open>str.startswith\<close> with a tuple of prefixes.\<close>

definition py_startswith :: "string \<Rightarrow> string list \<Rightarrow> bool" where
  "py_startswith s ps = list_ex (\<lambda>p. take (length p) s = p) ps"

text \<open>\<^verbatim>\<open>re.search(r"(\d+)", value)\<close>: the first maximal run of digits.\<close>

definition first_number :: "string \<Rightarrow> int option" where
  "first_number s =
     (let d = takeWhile char_isdigit (dropWhile (\<lambda>c. \<not> char_isdigit c) s) in
      if d = [] then None else Some (py_int d))"

definition lower_alnum :: "char \<Rightarrow> bool" where
  "lower_alnum c = (let n = (of_char c :: nat) in (97 \<le> n \<and> n \<le> 122) \<or> (48 \<le> n \<and> n \<le> 57))"

definition band_for_year_group :: "string option \<Rightarrow> age_band option" where
  "band_for_year_group year_group =
     (let s = filter lower_alnum (py_casefold (case year_group of None \<Rightarrow> [] | Some t \<Rightarrow> t));
          year = first_number s in
      if py_startswith s [''nursery'', ''reception''] then Some AB_EARLY_PRIMARY
      else if py_startswith s [''primary'', ''pry'', ''p''] \<and> year \<noteq> None then
        (if the year \<le> 3 then Some AB_EARLY_PRIMARY else Some AB_UPPER_PRIMARY)
      else if py_startswith s [''jss'', ''js'', ''juniorsecondary''] then Some AB_JUNIOR_SECONDARY
      else if py_startswith s [''sss'', ''ss'', ''seniorsecondary''] then Some AB_SENIOR_SECONDARY
      else None)"

subsection \<open>Lemmas\<close>

text \<open>The position of a band in the ladder, to state monotonicity.\<close>

fun band_rank :: "age_band \<Rightarrow> nat" where
  "band_rank AB_EARLY_PRIMARY = 0"
| "band_rank AB_UPPER_PRIMARY = 1"
| "band_rank AB_JUNIOR_SECONDARY = 2"
| "band_rank AB_SENIOR_SECONDARY = 3"

lemma band_for_age_Some [simp]:
  "band_for_age (Some a) =
     Some (if a \<le> 8 then AB_EARLY_PRIMARY else if a \<le> 11 then AB_UPPER_PRIMARY
           else if a \<le> 14 then AB_JUNIOR_SECONDARY else AB_SENIOR_SECONDARY)"
  by (simp add: band_for_age_def BAND_CEILINGS_def)

lemma band_for_age_None [simp]: "band_for_age None = None"
  by (simp add: band_for_age_def)

lemma age_on_None [simp]: "age_on None today = None"
  by (simp add: age_on_def)

text \<open>The person has had exactly as many birthdays as their age says.\<close>

lemma age_on_birthdays:
  assumes "age_on (Some b) today = Some a"
  shows "Date (date_year b + a) (date_month b) (date_day b) \<le> today"
    and "today < Date (date_year b + a + 1) (date_month b) (date_day b)"
  using assms by (auto simp: age_on_def less_eq_date_def less_date_def split: if_splits)

lemma age_on_mono:
  assumes "t \<le> t'" "age_on (Some b) t = Some a" "age_on (Some b) t' = Some a'"
  shows "a \<le> a'"
  using assms by (auto simp: age_on_def less_eq_date_def split: if_splits)

lemma age_on_antimono_born:
  assumes "b \<le> b'" "age_on (Some b) t = Some a" "age_on (Some b') t = Some a'"
  shows "a' \<le> a"
  using assms by (auto simp: age_on_def less_eq_date_def split: if_splits)

lemma band_rank_mono:
  "\<lbrakk>a \<le> a'; band_for_age (Some a) = Some b; band_for_age (Some a') = Some b'\<rbrakk> \<Longrightarrow> band_rank b \<le> band_rank b'"
  by (auto split: if_splits)

end
