(* ===== verification/Database.thy ===== *)
theory Database
  imports AgeBands
begin

text \<open>
  The relational schema the modelled components share (\<^verbatim>\<open>nevo/db/models\<close>).  Each table is a record
  type with the model's columns and \<open>db\<close> holds one list of rows per table.  Prefixes keep the
  column names of different tables apart (\<open>u_status\<close> is \<^verbatim>\<open>users.status\<close>).  Columns that the database fills in
  by itself and that no modelled statement reads have no field: the \<^verbatim>\<open>created_at\<close> and \<^verbatim>\<open>updated_at\<close> of
  \<^verbatim>\<open>TimestampMixin\<close> and of the other tables where nothing orders or filters by them, and the surrogate
  keys of tables that are never addressed by key.  The CHECK constraints and unique indexes the
  models declare are the \<open>..._ok\<close> predicates; \<open>db_constraints\<close> is their conjunction, and
  \<open>commit\<close> is what the end of a transaction does with them.  Foreign keys are not modelled.
\<close>

type_synonym decimal = rat

text \<open>
  A JSON value as Python holds it: an object keeps the order of its keys; a float is an exact rational.  \<open>truthy\<close> is
  \<^verbatim>\<open>bool(value)\<close> and \<open>dict_get\<close> is \<^verbatim>\<open>d.get(key)\<close>.
\<close>

datatype json =
  JNull | JBool bool | JInt int | JFloat rat | JString string | JList "json list" | JObject "(string \<times> json) list"

fun truthy :: "json \<Rightarrow> bool" where
  "truthy JNull = False"
| "truthy (JBool b) = b"
| "truthy (JInt n) = (n \<noteq> 0)"
| "truthy (JFloat x) = (x \<noteq> 0)"
| "truthy (JString s) = (s \<noteq> [])"
| "truthy (JList xs) = (xs \<noteq> [])"
| "truthy (JObject kvs) = (kvs \<noteq> [])"

definition dict_get :: "(string \<times> json) list \<Rightarrow> string \<Rightarrow> json" where
  "dict_get kvs k = (case map_of kvs k of None \<Rightarrow> JNull | Some v \<Rightarrow> v)"

text \<open>\<^verbatim>\<open>str(n)\<close> of an integer.\<close>

fun nat_str :: "nat \<Rightarrow> string" where
  "nat_str n = (if n < 10 then [hex_digit n] else nat_str (n div 10) @ [hex_digit (n mod 10)])"

declare nat_str.simps [simp del]

definition int_str :: "int \<Rightarrow> string" where
  "int_str n = (if n < 0 then ''-'' @ nat_str (nat (- n)) else nat_str (nat n))"

text \<open>\<^verbatim>\<open>str(value)\<close>, given how floats, lists and dicts print.\<close>

definition json_str :: "(json \<Rightarrow> string) \<Rightarrow> json \<Rightarrow> string" where
  "json_str repr v = (case v of
     JString s \<Rightarrow> s
   | JNull \<Rightarrow> ''None''
   | JBool b \<Rightarrow> (if b then ''True'' else ''False'')
   | JInt n \<Rightarrow> int_str n
   | _ \<Rightarrow> repr v)"

subsection \<open>Accounts\<close>

record school_row =
  sch_id :: uuid
  sch_name :: string
  sch_school_code :: string
  sch_school_url_slug :: string
  sch_auth_method :: auth_method
  sch_enrollment_band :: "school_enrollment_band option"
  sch_is_founding_partner :: bool
  sch_price_lock_expiry :: "datetime option"
  sch_data_retention_days :: int
  sch_admin_seat_limit :: int
  sch_profile :: json
  sch_academic_config :: json
  sch_retention_policy :: string
  sch_subscription_tier :: "subscription_tier option"
  sch_payment_source :: payment_source
  sch_contract_value :: "decimal option"
  sch_pricing_plan :: pricing_plan
  sch_per_student_rate :: "decimal option"
  sch_contract_start :: "datetime option"
  sch_contract_end :: "datetime option"
  sch_billing_contact_id :: "uuid option"

record user_row =
  u_id :: uuid
  u_school_id :: "uuid option"
  u_role :: user_role
  u_auth_method :: auth_method
  u_first_name :: "string option"
  u_last_name :: "string option"
  u_email :: "string option"
  u_email_confirmed_at :: "datetime option"
  u_login_identifier :: "string option"
  u_admission_number :: "string option"
  u_password_hash :: "string option"
  u_pin_hash :: "string option"
  u_pin_cleared_at :: "datetime option"
  u_sso_external_id :: "string option"
  u_baseline_profile :: json
  u_engine_config :: json
  u_preferences :: json
  u_avatar_tone :: "string option"
  u_avatar_shape :: "string option"
  u_avatar_colourway :: "string option"
  u_age_band :: "string option"
  u_preferred_name :: "string option"
  u_date_of_birth :: "date option"
  u_is_first_use :: bool
  u_status :: user_status
  u_anonymised_at :: "datetime option"
  u_purpose_ended_at :: "datetime option"
  u_retention_due_at :: "datetime option"
  u_retention_purged_at :: "datetime option"
  u_deactivated_at :: "datetime option"

text \<open>A \<^verbatim>\<open>User(...)\<close> built with the column defaults of the model.\<close>

definition new_user :: "uuid \<Rightarrow> uuid option \<Rightarrow> user_role \<Rightarrow> auth_method \<Rightarrow> user_row" where
  "new_user i school role method = \<lparr>
     u_id = i, u_school_id = school, u_role = role, u_auth_method = method,
     u_first_name = None, u_last_name = None, u_email = None, u_email_confirmed_at = None,
     u_login_identifier = None, u_admission_number = None, u_password_hash = None, u_pin_hash = None,
     u_pin_cleared_at = None, u_sso_external_id = None, u_baseline_profile = JObject [],
     u_engine_config = JObject [], u_preferences = JObject [], u_avatar_tone = None,
     u_avatar_shape = None, u_avatar_colourway = None, u_age_band = None, u_preferred_name = None,
     u_date_of_birth = None, u_is_first_use = True, u_status = US_ACTIVE, u_anonymised_at = None,
     u_purpose_ended_at = None, u_retention_due_at = None, u_retention_purged_at = None,
     u_deactivated_at = None \<rparr>"

record class_row =
  cl_id :: uuid
  cl_school_id :: uuid
  cl_name :: string
  cl_normalised_name :: string
  cl_class_code :: "string option"
  cl_year_group :: "string option"
  cl_section :: "string option"
  cl_academic_session :: string
  cl_capacity :: "int option"
  cl_source :: string
  cl_archived_at :: "datetime option"

record enrollment_row =
  en_id :: uuid
  en_student_id :: uuid
  en_class_id :: uuid

text \<open>
  A consent record's status is an \<open>option\<close> because the column default is applied when the row is
  flushed: between construction and flush the attribute reads as \<^verbatim>\<open>None\<close>.
\<close>

record consent_record_row =
  cr_id :: uuid
  cr_subject_user_id :: uuid
  cr_consent_holder_parent_link_id :: "uuid option"
  cr_consent_type :: consent_type
  cr_status :: "consent_status option"
  cr_confirmed_by_admin_id :: "uuid option"
  cr_confirmed_by_parent_id :: "uuid option"
  cr_confirmation_source :: "consent_confirmation_source option"
  cr_confirmed_via :: "consent_method option"
  cr_confirmed_at :: "datetime option"
  cr_last_actor_user_id :: "uuid option"
  cr_last_changed_at :: "datetime option"
  cr_last_channel :: "string option"
  cr_parent_name_on_form :: "string option"
  cr_parent_relationship :: "string option"
  cr_signed_on :: "date option"
  cr_notice_version :: "string option"
  cr_evidence_storage_path :: "string option"
  cr_uploaded_by_user_id :: "uuid option"
  cr_uploaded_at :: "datetime option"

subsection \<open>Authentication\<close>

record auth_session_row =
  as_id :: uuid
  as_user_id :: uuid
  as_role :: user_role
  as_token_digest :: string
  as_created_at :: datetime
  as_last_seen_at :: datetime
  as_expires_at :: datetime
  as_revoked_at :: "datetime option"
  as_revocation_reason :: "string option"
  as_replaced_by_session_id :: "uuid option"

record login_attempt_row =
  la_identity_digest :: string
  la_ip_digest :: string
  la_succeeded :: bool
  la_occurred_at :: datetime

record audit_event_row =
  ae_event_type :: string
  ae_occurred_at :: datetime
  ae_user_id :: "uuid option"
  ae_session_id :: "uuid option"
  ae_identity_digest :: "string option"
  ae_ip_digest :: "string option"
  ae_details :: "(string \<times> string) list option"

record parent_login_code_row =
  pc_id :: uuid
  pc_contact :: string
  pc_code_digest :: string
  pc_parent_user_id :: "uuid option"
  pc_expires_at :: datetime
  pc_consumed_at :: "datetime option"
  pc_attempt_count :: int
  pc_created_at :: datetime

subsection \<open>Consent\<close>

record parent_link_row =
  pl_id :: uuid
  pl_school_id :: uuid
  pl_student_id :: uuid
  pl_parent_id :: "uuid option"
  pl_parent_name :: string
  pl_parent_contact :: string
  pl_contact_method :: parent_contact_method
  pl_account_created :: bool
  pl_updated_at :: "datetime option"
  pl_created_at :: datetime

record consent_invitation_row =
  ci_id :: uuid
  ci_parent_link_id :: uuid
  ci_school_id :: uuid
  ci_student_id :: uuid
  ci_token_digest :: string
  ci_requested_by_user_id :: uuid
  ci_created_at :: datetime
  ci_expires_at :: datetime
  ci_accepted_at :: "datetime option"
  ci_revoked_at :: "datetime option"

record invitation_item_row =
  ii_invitation_id :: uuid
  ii_consent_type :: consent_type

record outbox_row =
  ob_invitation_id :: uuid
  ob_contact_method :: parent_contact_method
  ob_destination :: string
  ob_consent_url :: string
  ob_kind :: consent_notification_kind
  ob_status :: consent_delivery_status
  ob_last_error :: "string option"
  ob_sent_at :: "datetime option"
  ob_attempt_count :: int

record age_check_row =
  ac_id :: uuid
  ac_school_id :: uuid
  ac_student_id :: uuid
  ac_school_date_of_birth :: "date option"
  ac_parent_date_of_birth :: "date option"
  ac_parent_notified_at :: "datetime option"
  ac_state :: age_check_state
  ac_agreed_date_of_birth :: "date option"
  ac_resolution_note :: "string option"
  ac_resolved_by_user_id :: "uuid option"
  ac_resolved_at :: "datetime option"
  ac_updated_at :: "datetime option"
  ac_school_notified_at :: "datetime option"
  ac_school_rechecked_at :: "datetime option"
  ac_school_rechecked_by :: "uuid option"
  ac_parent_reconfirmed_at :: "datetime option"
  ac_parent_reconfirmed_by :: "uuid option"
  ac_enrolled_age_band :: "string option"
  ac_band_checked_on :: "date option"
  ac_hold_reasons :: "string list"

record age_check_edit_row =
  aed_age_check_id :: uuid
  aed_student_id :: uuid
  aed_actor_user_id :: "uuid option"
  aed_actor_name :: string
  aed_previous_school_date_of_birth :: "date option"
  aed_new_school_date_of_birth :: date
  aed_changed_at :: datetime

record consent_refusal_row =
  rf_school_id :: uuid
  rf_student_id :: uuid
  rf_contact_digest :: string
  rf_reason :: consent_refusal_reason
  rf_recorded_at :: datetime
  rf_roster_deleted_at :: "datetime option"

record parent_data_request_row =
  dr_id :: uuid
  dr_student_id :: uuid
  dr_parent_id :: uuid
  dr_request_type :: string
  dr_reason :: "string option"
  dr_status :: string
  dr_created_at :: datetime
  dr_resolved_at :: "datetime option"

record notification_row =
  n_recipient_id :: uuid
  n_recipient_role :: string
  n_type :: string
  n_title :: string
  n_description :: string
  n_navigates_to :: "string option"
  n_read :: bool
  n_category :: string
  n_archived_at :: "datetime option"
  n_created_at :: datetime

subsection \<open>Administration\<close>

record admin_row =
  ad_id :: uuid
  ad_user_id :: uuid
  ad_school_id :: uuid
  ad_created_by_user_id :: "uuid option"
  ad_access_level :: admin_access_level
  ad_senior_promoted_by :: "uuid option"
  ad_senior_promoted_by_name :: "string option"
  ad_senior_promoted_at :: "datetime option"

record scope_assignment_row =
  sa_admin_id :: uuid
  sa_scope :: permission_scope
  sa_granted_by_user_id :: "uuid option"
  sa_granted_at :: datetime
  sa_revoked_at :: "datetime option"

record admin_invitation_row =
  ai_id :: uuid
  ai_user_id :: uuid
  ai_school_id :: uuid
  ai_role :: user_role
  ai_token_digest :: string
  ai_invited_by_user_id :: "uuid option"
  ai_created_at :: datetime
  ai_expires_at :: datetime
  ai_accepted_at :: "datetime option"
  ai_revoked_at :: "datetime option"

record learning_support_grant_row =
  lg_id :: uuid
  lg_school_id :: uuid
  lg_holder_user_id :: uuid
  lg_granted_by_user_id :: uuid
  lg_granted_at :: datetime
  lg_revoked_at :: "datetime option"
  lg_revoked_by_user_id :: "uuid option"
  lg_handed_over :: bool

record teacher_class_assignment_row =
  tca_id :: uuid
  tca_school_id :: uuid
  tca_school_subject_id :: "uuid option"
  tca_teacher_id :: uuid
  tca_class_id :: uuid
  tca_role :: teacher_assignment_role
  tca_source :: teacher_assignment_source
  tca_source_reference :: "string option"
  tca_assigned_by_user_id :: "uuid option"
  tca_assigned_at :: datetime
  tca_removed_at :: "datetime option"
  tca_replaced_by_assignment_id :: "uuid option"

subsection \<open>Billing\<close>

record billing_contact_row =
  bc_id :: uuid
  bc_school_id :: uuid
  bc_email :: string
  bc_phone :: "string option"
  bc_address_line1 :: string
  bc_address_line2 :: "string option"
  bc_city :: string
  bc_region :: "string option"
  bc_postal_code :: "string option"
  bc_country :: string
  bc_updated_by_user_id :: uuid

record payment_method_row =
  bpm_school_id :: uuid
  bpm_method_type :: payment_method_type
  bpm_processor_name :: "string option"
  bpm_processor_payment_method_ref :: "string option"
  bpm_display_name :: string
  bpm_last_four :: string
  bpm_card_brand :: "string option"
  bpm_expiry_month :: "int option"
  bpm_expiry_year :: "int option"
  bpm_bank_name :: "string option"
  bpm_account_holder_name :: "string option"
  bpm_is_reusable :: bool
  bpm_processor_customer_code :: "string option"
  bpm_updated_by_user_id :: uuid

record invoice_row =
  inv_id :: uuid
  inv_invoice_number :: string
  inv_school_id :: uuid
  inv_issued_at :: date
  inv_amount :: decimal
  inv_status :: invoice_status
  inv_due_at :: date
  inv_paid_at :: "datetime option"
  inv_pdf_url :: string
  inv_currency :: pricing_currency
  inv_student_count :: "int option"
  inv_activation_student_ids :: "uuid list"
  inv_per_student_rate :: "decimal option"
  inv_total_before_vat :: "decimal option"
  inv_vat_amount :: "decimal option"
  inv_vat_rate :: "decimal option"
  inv_period_label :: "string option"

record payment_transaction_row =
  tx_id :: uuid
  tx_school_id :: uuid
  tx_invoice_id :: "uuid option"
  tx_reference :: string
  tx_provider :: string
  tx_provider_reference :: "string option"
  tx_status :: payment_transaction_status
  tx_amount :: decimal
  tx_amount_minor :: int
  tx_currency :: pricing_currency
  tx_authorization_url :: "string option"
  tx_initiated_by_user_id :: "uuid option"
  tx_paid_at :: "datetime option"
  tx_last_error :: "string option"

record webhook_event_row =
  wh_provider :: string
  wh_event_key :: string
  wh_event_type :: string
  wh_payload :: json
  wh_status :: webhook_event_status
  wh_last_error :: "string option"
  wh_processed_at :: "datetime option"

subsection \<open>The database\<close>

record db =
  schools :: "school_row list"
  users :: "user_row list"
  classes :: "class_row list"
  enrollments :: "enrollment_row list"
  consent_records :: "consent_record_row list"
  auth_sessions :: "auth_session_row list"
  login_attempts :: "login_attempt_row list"
  audit_events :: "audit_event_row list"
  parent_login_codes :: "parent_login_code_row list"
  parent_links :: "parent_link_row list"
  consent_invitations :: "consent_invitation_row list"
  invitation_items :: "invitation_item_row list"
  consent_outbox :: "outbox_row list"
  age_checks :: "age_check_row list"
  age_check_edits :: "age_check_edit_row list"
  consent_refusals :: "consent_refusal_row list"
  parent_data_requests :: "parent_data_request_row list"
  notifications :: "notification_row list"
  admins :: "admin_row list"
  scope_assignments :: "scope_assignment_row list"
  admin_invitations :: "admin_invitation_row list"
  learning_support_grants :: "learning_support_grant_row list"
  teacher_class_assignments :: "teacher_class_assignment_row list"
  billing_contacts :: "billing_contact_row list"
  payment_methods :: "payment_method_row list"
  invoices :: "invoice_row list"
  payment_transactions :: "payment_transaction_row list"
  webhook_events :: "webhook_event_row list"

definition empty_db :: db where
  "empty_db = \<lparr>schools = [], users = [], classes = [], enrollments = [], consent_records = [],
     auth_sessions = [], login_attempts = [], audit_events = [], parent_login_codes = [],
     parent_links = [], consent_invitations = [], invitation_items = [], consent_outbox = [],
     age_checks = [], age_check_edits = [], consent_refusals = [], parent_data_requests = [], notifications = [],
     admins = [], scope_assignments = [], admin_invitations = [], learning_support_grants = [], teacher_class_assignments = [],
     billing_contacts = [], payment_methods = [], invoices = [], payment_transactions = [],
     webhook_events = []\<rparr>"

subsection \<open>Constraints\<close>

text \<open>
  A CHECK constraint rejects a row only when its expression is false; an expression that is
  unknown because of a NULL passes, which the predicates below spell out.
\<close>

definition schools_ok :: "school_row list \<Rightarrow> bool" where
  "schools_ok rows = (distinct (map sch_id rows) \<and> distinct (map sch_school_code rows) \<and>
     distinct (map sch_school_url_slug rows) \<and>
     distinct (map (\<lambda>r. sql_lower (sch_school_code r)) rows) \<and>
     list_all (\<lambda>r. 0 < sch_data_retention_days r \<and> 0 < sch_admin_seat_limit r \<and>
       (case sch_contract_value r of None \<Rightarrow> True | Some v \<Rightarrow> 0 \<le> v) \<and>
       (case (sch_contract_start r, sch_contract_end r) of (Some a, Some b) \<Rightarrow> a \<le> b | _ \<Rightarrow> True)) rows)"

definition user_row_ok :: "user_row \<Rightarrow> bool" where
  "user_row_ok r = ((u_status r = US_DEACTIVATED) = (u_deactivated_at r \<noteq> None))"

definition users_ok :: "user_row list \<Rightarrow> bool" where
  "users_ok rows = (distinct (map u_id rows) \<and>
     unique_where (\<lambda>r. u_email r \<noteq> None) (\<lambda>r. map_option sql_lower (u_email r)) rows \<and>
     unique_where (\<lambda>r. u_sso_external_id r \<noteq> None) u_sso_external_id rows \<and>
     unique_where (\<lambda>r. u_school_id r \<noteq> None \<and> u_login_identifier r \<noteq> None)
       (\<lambda>r. (u_school_id r, map_option sql_lower (u_login_identifier r))) rows \<and>
     unique_where (\<lambda>r. u_school_id r \<noteq> None \<and> u_admission_number r \<noteq> None)
       (\<lambda>r. (u_school_id r, map_option sql_lower (u_admission_number r))) rows \<and>
     list_all user_row_ok rows)"

definition consent_record_ok :: "consent_record_row \<Rightarrow> bool" where
  "consent_record_ok r \<longleftrightarrow>
     (((cr_status r = Some CS_PENDING \<or> cr_status r = Some CS_NOT_SENT) \<and>
         cr_confirmation_source r = None \<and> cr_confirmed_by_admin_id r = None \<and>
         cr_confirmed_by_parent_id r = None \<and> cr_confirmed_via r = None \<and> cr_confirmed_at r = None) \<or>
      ((cr_status r = Some CS_CONFIRMED \<or> cr_status r = Some CS_WITHDRAWN) \<and>
         cr_confirmed_via r \<noteq> None \<and> cr_confirmed_at r \<noteq> None \<and>
         ((cr_confirmation_source r \<noteq> Some SRC_PARENT \<and>
             cr_confirmed_by_admin_id r \<noteq> None \<and> cr_confirmed_by_parent_id r = None) \<or>
          (cr_confirmation_source r \<noteq> Some SRC_SCHOOL \<and>
             cr_confirmed_by_parent_id r \<noteq> None \<and> cr_confirmed_by_admin_id r = None)))) \<and>
      (cr_confirmed_via r = Some CM_WRITTEN \<longrightarrow>
         cr_parent_name_on_form r \<noteq> None \<and> cr_signed_on r \<noteq> None \<and> cr_notice_version r \<noteq> None)"

text \<open>The status check of \<open>consent_record_ok\<close> also rules out a NULL status, the column being NOT NULL.\<close>

definition consent_records_ok :: "consent_record_row list \<Rightarrow> bool" where
  "consent_records_ok rows = (distinct (map (\<lambda>r. (cr_subject_user_id r, cr_consent_type r)) rows) \<and>
     distinct (map cr_id rows) \<and> list_all consent_record_ok rows)"

definition auth_session_ok :: "auth_session_row \<Rightarrow> bool" where
  "auth_session_ok r = (as_created_at r < as_expires_at r \<and>
     ((as_revoked_at r = None) = (as_revocation_reason r = None)))"

definition auth_sessions_ok :: "auth_session_row list \<Rightarrow> bool" where
  "auth_sessions_ok rows = (distinct (map as_id rows) \<and> distinct (map as_token_digest rows) \<and>
     unique_where (\<lambda>r. as_role r = UR_STUDENT \<and> as_revoked_at r = None) as_user_id rows \<and>
     list_all auth_session_ok rows)"

definition parent_login_codes_ok :: "parent_login_code_row list \<Rightarrow> bool" where
  "parent_login_codes_ok rows = (distinct (map pc_id rows) \<and> list_all (\<lambda>r. 0 \<le> pc_attempt_count r) rows)"

definition parent_link_ok :: "parent_link_row \<Rightarrow> bool" where
  "parent_link_ok r = (pl_account_created r = (pl_parent_id r \<noteq> None))"

definition parent_links_ok :: "parent_link_row list \<Rightarrow> bool" where
  "parent_links_ok rows = (distinct (map pl_id rows) \<and>
     distinct (map (\<lambda>r. (pl_student_id r, pl_parent_contact r, pl_contact_method r)) rows) \<and>
     list_all parent_link_ok rows)"

definition consent_invitations_ok :: "consent_invitation_row list \<Rightarrow> bool" where
  "consent_invitations_ok rows = (distinct (map ci_id rows) \<and> distinct (map ci_token_digest rows) \<and>
     list_all (\<lambda>r. ci_accepted_at r = None \<or> ci_revoked_at r = None) rows)"

definition invitation_items_ok :: "invitation_item_row list \<Rightarrow> bool" where
  "invitation_items_ok rows = distinct (map (\<lambda>r. (ii_invitation_id r, ii_consent_type r)) rows)"

definition outbox_ok :: "outbox_row list \<Rightarrow> bool" where
  "outbox_ok rows = (distinct (map (\<lambda>r. (ob_invitation_id r, ob_kind r)) rows) \<and>
     list_all (\<lambda>r. (ob_status r = DS_SENT) = (ob_sent_at r \<noteq> None)) rows)"

definition age_check_ok :: "age_check_row \<Rightarrow> bool" where
  "age_check_ok r =
     ((ac_state r = AC_RESOLVED) = (ac_resolved_at r \<noteq> None \<and> ac_resolved_by_user_id r \<noteq> None))"

definition age_checks_ok :: "age_check_row list \<Rightarrow> bool" where
  "age_checks_ok rows = (distinct (map ac_student_id rows) \<and> list_all age_check_ok rows)"

definition consent_refusals_ok :: "consent_refusal_row list \<Rightarrow> bool" where
  "consent_refusals_ok rows = distinct (map (\<lambda>r. (rf_student_id r, rf_contact_digest r)) rows)"

definition admins_ok :: "admin_row list \<Rightarrow> bool" where
  "admins_ok rows = (distinct (map ad_id rows) \<and> distinct (map ad_user_id rows))"

definition scope_assignments_ok :: "scope_assignment_row list \<Rightarrow> bool" where
  "scope_assignments_ok rows =
     (unique_where (\<lambda>r. sa_revoked_at r = None) (\<lambda>r. (sa_admin_id r, sa_scope r)) rows \<and>
      list_all (\<lambda>r. case sa_revoked_at r of None \<Rightarrow> True | Some t \<Rightarrow> sa_granted_at r \<le> t) rows)"

definition admin_invitations_ok :: "admin_invitation_row list \<Rightarrow> bool" where
  "admin_invitations_ok rows =
     (distinct (map ai_id rows) \<and> distinct (map ai_token_digest rows) \<and>
      unique_where (\<lambda>r. ai_accepted_at r = None \<and> ai_revoked_at r = None) ai_user_id rows \<and>
      list_all (\<lambda>r. ai_created_at r < ai_expires_at r \<and>
        (ai_accepted_at r = None \<or> ai_revoked_at r = None)) rows)"

definition learning_support_grants_ok :: "learning_support_grant_row list \<Rightarrow> bool" where
  "learning_support_grants_ok rows = (distinct (map lg_id rows) \<and>
     unique_where (\<lambda>r. lg_revoked_at r = None) (\<lambda>r. (lg_school_id r, lg_holder_user_id r)) rows)"

definition teacher_class_assignments_ok :: "teacher_class_assignment_row list \<Rightarrow> bool" where
  "teacher_class_assignments_ok rows =
     (unique_where (\<lambda>r. tca_removed_at r = None) (\<lambda>r. (tca_teacher_id r, tca_class_id r, tca_school_subject_id r)) rows \<and>
      unique_where (\<lambda>r. tca_role r = TR_PRIMARY \<and> tca_removed_at r = None) tca_class_id rows \<and>
      list_all (\<lambda>r. case tca_removed_at r of None \<Rightarrow> True | Some t \<Rightarrow> tca_assigned_at r \<le> t) rows)"

definition payment_methods_ok :: "payment_method_row list \<Rightarrow> bool" where
  "payment_methods_ok rows = (distinct (map bpm_school_id rows) \<and>
     list_all (\<lambda>r. length (bpm_last_four r) = 4 \<and> list_all char_isdigit (bpm_last_four r)) rows)"

definition invoices_ok :: "invoice_row list \<Rightarrow> bool" where
  "invoices_ok rows = (distinct (map inv_id rows) \<and> distinct (map inv_invoice_number rows) \<and>
     list_all (\<lambda>r. 0 \<le> inv_amount r \<and> ((inv_status r = IS_PAID) = (inv_paid_at r \<noteq> None))) rows)"

definition payment_transactions_ok :: "payment_transaction_row list \<Rightarrow> bool" where
  "payment_transactions_ok rows = (distinct (map tx_id rows) \<and> distinct (map tx_reference rows) \<and>
     list_all (\<lambda>r. 0 \<le> tx_amount r \<and> 0 \<le> tx_amount_minor r \<and>
       ((tx_status r = PT_SUCCESS) = (tx_paid_at r \<noteq> None))) rows)"

definition webhook_events_ok :: "webhook_event_row list \<Rightarrow> bool" where
  "webhook_events_ok rows = distinct (map (\<lambda>r. (wh_provider r, wh_event_key r)) rows)"

definition db_constraints :: "db \<Rightarrow> bool" where
  "db_constraints d = (schools_ok (schools d) \<and> users_ok (users d) \<and>
     consent_records_ok (consent_records d) \<and> auth_sessions_ok (auth_sessions d) \<and>
     parent_login_codes_ok (parent_login_codes d) \<and> parent_links_ok (parent_links d) \<and>
     consent_invitations_ok (consent_invitations d) \<and> invitation_items_ok (invitation_items d) \<and>
     outbox_ok (consent_outbox d) \<and> age_checks_ok (age_checks d) \<and>
     consent_refusals_ok (consent_refusals d) \<and> admins_ok (admins d) \<and>
     scope_assignments_ok (scope_assignments d) \<and> admin_invitations_ok (admin_invitations d) \<and>
     learning_support_grants_ok (learning_support_grants d) \<and>
     teacher_class_assignments_ok (teacher_class_assignments d) \<and> payment_methods_ok (payment_methods d) \<and>
     invoices_ok (invoices d) \<and> payment_transactions_ok (payment_transactions d) \<and>
     webhook_events_ok (webhook_events d))"

datatype db_error = IntegrityError

text \<open>The end of a transaction: the new state if it meets every constraint, otherwise an error.\<close>

definition commit :: "db \<Rightarrow> db_error + db" where
  "commit d = (if db_constraints d then Inr d else Inl IntegrityError)"

lemma empty_db_constraints [simp]: "db_constraints empty_db"
  by (simp add: db_constraints_def empty_db_def schools_ok_def users_ok_def consent_records_ok_def
    auth_sessions_ok_def parent_login_codes_ok_def parent_links_ok_def consent_invitations_ok_def
    invitation_items_ok_def outbox_ok_def age_checks_ok_def consent_refusals_ok_def admins_ok_def
    scope_assignments_ok_def admin_invitations_ok_def learning_support_grants_ok_def
    teacher_class_assignments_ok_def
    payment_methods_ok_def invoices_ok_def payment_transactions_ok_def webhook_events_ok_def)

lemma commit_InrD: "commit d = Inr d' \<Longrightarrow> d' = d \<and> db_constraints d"
  by (simp add: commit_def split: if_splits)

lemma users_okD:
  assumes "users_ok rows"
  shows "distinct (map u_id rows)" "list_all user_row_ok rows"
  using assms by (simp_all add: users_ok_def)

lemma auth_sessions_okD:
  assumes "auth_sessions_ok rows"
  shows "distinct (map as_id rows)" "distinct (map as_token_digest rows)"
    "unique_where (\<lambda>r. as_role r = UR_STUDENT \<and> as_revoked_at r = None) as_user_id rows"
    "list_all auth_session_ok rows"
  using assms by (simp_all add: auth_sessions_ok_def)

subsection \<open>Sample rows\<close>

text \<open>A small school the witnesses of the properties are evaluated on.\<close>

definition sample_school :: school_row where
  "sample_school = \<lparr>sch_id = 1, sch_name = ''Brightgate'', sch_school_code = ''AB23'', sch_school_url_slug = ''brightgate'',
     sch_auth_method = AM_EMAIL_PASSWORD, sch_enrollment_band = None, sch_is_founding_partner = False,
     sch_price_lock_expiry = None, sch_data_retention_days = 180, sch_admin_seat_limit = 5,
     sch_profile = JObject [], sch_academic_config = JObject [], sch_retention_policy = ''contract'',
     sch_subscription_tier = None, sch_payment_source = PS_DIRECT, sch_contract_value = None,
     sch_pricing_plan = PP_ANNUAL, sch_per_student_rate = None, sch_contract_start = None,
     sch_contract_end = None, sch_billing_contact_id = None\<rparr>"

definition sample_student :: user_row where
  "sample_student = (new_user 10 (Some 1) UR_STUDENT AM_PIN)\<lparr>u_admission_number := Some ''a1'', u_pin_hash := Some ''1234''\<rparr>"

definition sample_teacher :: user_row where
  "sample_teacher = (new_user 11 (Some 1) UR_TEACHER AM_EMAIL_PASSWORD)\<lparr>u_email := Some ''t@b.ng'', u_password_hash := Some ''pw''\<rparr>"

definition sample_handle :: user_row where
  "sample_handle = (new_user 12 (Some 1) UR_STUDENT AM_PIN)\<lparr>u_login_identifier := Some ''a1'', u_pin_hash := Some ''9999''\<rparr>"

end
