(* ===== verification/ParentCodes.thy ===== *)
theory ParentCodes
  imports Database
begin

text \<open>
  Sign-in codes for parents (\<^verbatim>\<open>nevo/auth/parent_codes.py\<close>): a short code sent to the contact a school
  holds, single-use, short-lived, dead after a handful of wrong guesses, and retired by the next
  one.  HMAC is the parameter \<open>hmac\<close>; the drawn code, the row's key and the database clock that stamps
  \<^verbatim>\<open>created_at\<close> are arguments.
\<close>

definition CODE_LIFETIME :: timedelta where
  "CODE_LIFETIME = td_minutes 10"

definition MAX_ATTEMPTS :: int where
  "MAX_ATTEMPTS = 5"

definition MAX_LIVE_CODES_PER_HOUR :: nat where
  "MAX_LIVE_CODES_PER_HOUR = 5"

record issued_code =
  ic_code :: "string option"
  ic_parent_user_id :: "uuid option"
  ic_expires_at :: datetime

definition normalise :: "string \<Rightarrow> string" where
  "normalise contact = py_casefold (py_strip (py_join '' '' (py_split contact)))"

definition code_digest :: "(string \<Rightarrow> string) \<Rightarrow> string \<Rightarrow> string \<Rightarrow> string" where
  "code_digest hmac contact code = hmac (''parent-code:'' @ normalise contact @ '':'' @ code)"

definition recent_code :: "string \<Rightarrow> datetime \<Rightarrow> parent_login_code_row \<Rightarrow> bool" where
  "recent_code contact moment r = (pc_contact r = contact \<and> moment - td_hours 1 < pc_created_at r)"

definition issue_code ::
  "(string \<Rightarrow> string) \<Rightarrow> db \<Rightarrow> string \<Rightarrow> uuid option \<Rightarrow> datetime \<Rightarrow> datetime \<Rightarrow> string \<Rightarrow> uuid \<Rightarrow> db \<times> issued_code" where
  "issue_code hmac d contact parent_user_id moment db_now code new_id =
     (let expires_at = moment + CODE_LIFETIME;
          normalised = normalise contact;
          recent = filter (recent_code normalised moment) (parent_login_codes d) in
      if MAX_LIVE_CODES_PER_HOUR \<le> length recent
      then (d, \<lparr>ic_code = None, ic_parent_user_id = parent_user_id, ic_expires_at = expires_at\<rparr>)
      else
        (d\<lparr>parent_login_codes :=
             update_where (recent_code normalised moment)
               (\<lambda>r. r\<lparr>pc_consumed_at := (case pc_consumed_at r of None \<Rightarrow> Some moment | Some t \<Rightarrow> Some t)\<rparr>)
               (parent_login_codes d) @
             [\<lparr>pc_id = new_id, pc_contact = normalised, pc_code_digest = code_digest hmac normalised code,
               pc_parent_user_id = parent_user_id, pc_expires_at = expires_at, pc_consumed_at = None,
               pc_attempt_count = 0, pc_created_at = db_now\<rparr>]\<rparr>,
         \<lparr>ic_code = Some code, ic_parent_user_id = parent_user_id, ic_expires_at = expires_at\<rparr>))"

definition open_codes :: "db \<Rightarrow> string \<Rightarrow> parent_login_code_row list" where
  "open_codes d contact = filter (\<lambda>r. pc_contact r = contact \<and> pc_consumed_at r = None) (parent_login_codes d)"

definition update_code :: "uuid \<Rightarrow> (parent_login_code_row \<Rightarrow> parent_login_code_row) \<Rightarrow> db \<Rightarrow> db" where
  "update_code i f d = d\<lparr>parent_login_codes := update_where (\<lambda>r. pc_id r = i) f (parent_login_codes d)\<rparr>"

definition redeem_code ::
  "(string \<Rightarrow> string) \<Rightarrow> db \<Rightarrow> string \<Rightarrow> string \<Rightarrow> datetime \<Rightarrow> db \<times> uuid option" where
  "redeem_code hmac d contact code moment =
     (let normalised = normalise contact;
          wanted = code_digest hmac normalised (py_strip code) in
      case sort_key (\<lambda>r. - pc_created_at r) (open_codes d normalised) of
        [] \<Rightarrow> (d, None)
      | r # _ \<Rightarrow>
          if pc_expires_at r \<le> moment then (d, None)
          else
            (let counted = r\<lparr>pc_attempt_count := pc_attempt_count r + 1\<rparr> in
             if MAX_ATTEMPTS < pc_attempt_count counted
             then (update_code (pc_id r) (\<lambda>_. counted\<lparr>pc_consumed_at := Some moment\<rparr>) d, None)
             else if pc_code_digest r \<noteq> wanted then (update_code (pc_id r) (\<lambda>_. counted) d, None)
             else (update_code (pc_id r) (\<lambda>_. counted\<lparr>pc_consumed_at := Some moment\<rparr>) d, pc_parent_user_id r)))"

subsection \<open>Lemmas\<close>

definition live_code :: "datetime \<Rightarrow> string \<Rightarrow> parent_login_code_row \<Rightarrow> bool" where
  "live_code now contact r = (pc_contact r = contact \<and> pc_consumed_at r = None \<and> now < pc_expires_at r)"

text \<open>
  No code outlives its stamp by an hour.  It holds of every code this module mints as long as the
  database clock and the process clock are within fifty minutes of each other.
\<close>

definition codes_short_lived :: "db \<Rightarrow> bool" where
  "codes_short_lived d = list_all (\<lambda>r. pc_expires_at r \<le> pc_created_at r + td_hours 1) (parent_login_codes d)"

lemma issue_code_short_lived:
  assumes "codes_short_lived d" "moment \<le> db_now + td_minutes 50"
  shows "codes_short_lived (fst (issue_code hmac d contact p moment db_now code i))"
  using assms
  by (auto simp: codes_short_lived_def issue_code_def Let_def list_all_iff set_update_where CODE_LIFETIME_def td_defs)

lemma open_codes_update:
  assumes "open_codes d c = [r]" "distinct (map pc_id (parent_login_codes d))"
    and "pc_contact r' = c" "pc_id r' = pc_id r"
  shows "open_codes (update_code (pc_id r) (\<lambda>_. r') d) c = (if pc_consumed_at r' = None then [r'] else [])"
proof -
  have "r \<in> set (open_codes d c)" using assms(1) by simp
  then have r: "r \<in> set (parent_login_codes d)" by (simp add: open_codes_def)
  have "filter P (update_where (\<lambda>x. pc_id x = pc_id r) (\<lambda>_. r') rows) = (if P r' then [r'] else [])"
    if "filter P rows = [r]" "distinct (map pc_id rows)" "r \<in> set rows" for P rows
    using that
  proof (induction rows)
    case (Cons x xs)
    show ?case
    proof (cases "pc_id x = pc_id r")
      case True
      then have "x = r" using Cons.prems by auto
      moreover have "update_where (\<lambda>x. pc_id x = pc_id r) (\<lambda>_. r') xs = xs"
        using Cons.prems True by (intro update_where_none) (auto simp: image_iff)
      moreover have "r \<in> set (filter P (x # xs))" using Cons.prems(1) by (metis list.set_intros(1))
      then have "P r" unfolding set_filter by blast
      then have "filter P xs = []" using Cons.prems(1) \<open>x = r\<close> by simp
      with \<open>P r\<close> calculation show ?thesis by simp
    next
      case False
      then show ?thesis using Cons by (auto split: if_splits)
    qed
  qed simp
  from this[OF assms(1)[unfolded open_codes_def] assms(2) r] assms(3) show ?thesis
    by (simp add: open_codes_def update_code_def)
qed

lemma ids_update_code: "pc_id r' = i \<Longrightarrow> map pc_id (parent_login_codes (update_code i (\<lambda>_. r') d)) = map pc_id (parent_login_codes d)"
  by (induction "parent_login_codes d") (auto simp: update_code_def update_where_def)

text \<open>A run of guesses against one contact: the code typed and the moment of each.\<close>

fun redeem_run :: "(string \<Rightarrow> string) \<Rightarrow> string \<Rightarrow> db \<Rightarrow> (string \<times> datetime) list \<Rightarrow> db" where
  "redeem_run hmac contact d [] = d"
| "redeem_run hmac contact d ((code, moment) # gs) =
     redeem_run hmac contact (fst (redeem_code hmac d contact code moment)) gs"

text \<open>What a contact's open code looks like after some wrong guesses: counted, or gone.\<close>

definition spent :: "int \<Rightarrow> datetime \<Rightarrow> string \<Rightarrow> string \<Rightarrow> db \<Rightarrow> bool" where
  "spent n ex dig c d \<longleftrightarrow> distinct (map pc_id (parent_login_codes d)) \<and>
     (open_codes d c = [] \<or>
      (\<exists>r. open_codes d c = [r] \<and> n \<le> pc_attempt_count r \<and> pc_expires_at r = ex \<and>
           pc_code_digest r = dig \<and> pc_contact r = c))"

lemma redeem_none_open: "open_codes d (normalise contact) = [] \<Longrightarrow> redeem_code hmac d contact code moment = (d, None)"
  by (simp add: redeem_code_def)

lemma spent_wrong_guess:
  assumes "spent n ex dig (normalise contact) d"
    and "code_digest hmac (normalise contact) (py_strip code) \<noteq> dig" "moment < ex"
  shows "spent (n + 1) ex dig (normalise contact) (fst (redeem_code hmac d contact code moment))"
    and "snd (redeem_code hmac d contact code moment) = None"
proof -
  let ?c = "normalise contact"
  consider "open_codes d ?c = []"
    | r where "open_codes d ?c = [r]" "n \<le> pc_attempt_count r" "pc_expires_at r = ex" "pc_code_digest r = dig" "pc_contact r = ?c"
    using assms(1) unfolding spent_def by blast
  then show "spent (n + 1) ex dig ?c (fst (redeem_code hmac d contact code moment))"
    and "snd (redeem_code hmac d contact code moment) = None"
  proof (atomize (full), cases)
    case 1
    then show "spent (n + 1) ex dig ?c (fst (redeem_code hmac d contact code moment)) \<and>
        snd (redeem_code hmac d contact code moment) = None"
      using assms(1) by (simp add: redeem_none_open spent_def)
  next
    case 2
    then show "spent (n + 1) ex dig ?c (fst (redeem_code hmac d contact code moment)) \<and>
        snd (redeem_code hmac d contact code moment) = None"
      using assms by (auto simp: redeem_code_def Let_def spent_def ids_update_code open_codes_update)
  qed
qed

lemma spent_run:
  assumes "spent n ex dig (normalise contact) d"
    and "\<forall>(code, moment) \<in> set gs. moment < ex \<and> code_digest hmac (normalise contact) (py_strip code) \<noteq> dig"
  shows "spent (n + int (length gs)) ex dig (normalise contact) (redeem_run hmac contact d gs)"
  using assms
proof (induction gs arbitrary: d n)
  case (Cons g gs)
  obtain code moment where g: "g = (code, moment)" by (cases g)
  have "spent (n + 1) ex dig (normalise contact) (fst (redeem_code hmac d contact code moment))"
    using spent_wrong_guess(1)[OF Cons.prems(1)] Cons.prems(2) g by auto
  from Cons.IH[OF this] Cons.prems(2) g show ?case by (simp add: algebra_simps)
qed simp

lemma spent_refuses:
  assumes "spent MAX_ATTEMPTS ex dig (normalise contact) d"
  shows "snd (redeem_code hmac d contact code moment) = None"
  using assms by (auto simp: spent_def redeem_code_def Let_def)

subsection \<open>Properties\<close>

text \<open>
  Claim C5.  A parent's code survives five wrong guesses and no more.  Take a contact with exactly one
  open code that has not been tried yet; after any five or more wrong guesses made while it is
  valid, every further attempt is refused, the right code included.
\<close>

theorem code_dies_after_five_wrong_guesses:
  assumes "open_codes d (normalise contact) = [r]" and "distinct (map pc_id (parent_login_codes d))"
    and "pc_attempt_count r = 0" and "pc_contact r = normalise contact"
    and "\<forall>(code, moment) \<in> set gs. moment < pc_expires_at r \<and>
           code_digest hmac (normalise contact) (py_strip code) \<noteq> pc_code_digest r"
    and "5 \<le> length gs"
  shows "snd (redeem_code hmac (redeem_run hmac contact d gs) contact code moment) = None"
proof -
  have "spent 0 (pc_expires_at r) (pc_code_digest r) (normalise contact) d"
    using assms(1-4) by (simp add: spent_def)
  from spent_run[OF this assms(5)]
  have "spent (int (length gs)) (pc_expires_at r) (pc_code_digest r) (normalise contact) (redeem_run hmac contact d gs)"
    by simp
  then have "spent MAX_ATTEMPTS (pc_expires_at r) (pc_code_digest r) (normalise contact) (redeem_run hmac contact d gs)"
    using assms(6) by (auto simp: spent_def MAX_ATTEMPTS_def)
  then show ?thesis by (rule spent_refuses)
qed

text \<open>
  A code is spent by using it, and only the right code for the contact is ever accepted: a
  redemption that names a parent rested on an open, unexpired code of that contact with the digest
  of what was typed and attempts to spare, and that code is consumed afterwards.
\<close>

theorem redeemed_code_is_spent:
  assumes "redeem_code hmac d contact code moment = (d', Some p)"
  shows "\<exists>r \<in> set (parent_login_codes d). live_code moment (normalise contact) r \<and>
     pc_code_digest r = code_digest hmac (normalise contact) (py_strip code) \<and>
     pc_attempt_count r < MAX_ATTEMPTS \<and> pc_parent_user_id r = Some p \<and>
     (\<forall>q \<in> set (parent_login_codes d'). pc_id q = pc_id r \<longrightarrow> pc_consumed_at q = Some moment)"
proof -
  from assms obtain r rs where s: "sort_key (\<lambda>r. - pc_created_at r) (open_codes d (normalise contact)) = r # rs"
    by (cases "sort_key (\<lambda>r. - pc_created_at r) (open_codes d (normalise contact))") (auto simp: redeem_code_def)
  then have "r \<in> set (open_codes d (normalise contact))" by (metis list.set_intros(1) set_sort)
  then have r: "r \<in> set (parent_login_codes d)" "pc_contact r = normalise contact" "pc_consumed_at r = None"
    by (auto simp: open_codes_def)
  have c: "moment < pc_expires_at r" "pc_attempt_count r < MAX_ATTEMPTS"
    "pc_code_digest r = code_digest hmac (normalise contact) (py_strip code)" "pc_parent_user_id r = Some p"
    "d' = update_code (pc_id r) (\<lambda>_. r\<lparr>pc_attempt_count := pc_attempt_count r + 1, pc_consumed_at := Some moment\<rparr>) d"
    using assms s by (auto simp: redeem_code_def Let_def split: if_splits)
  have "\<forall>q \<in> set (parent_login_codes d'). pc_id q = pc_id r \<longrightarrow> pc_consumed_at q = Some moment"
    by (auto simp: c(5) update_code_def set_update_where)
  then show ?thesis using r c by (auto simp: live_code_def)
qed

text \<open>
  Asking for a new code retires the old ones: as long as no stored code outlives its stamp by
  an hour, the moment a code is minted it is the only live code of its contact.
\<close>

theorem new_code_is_the_only_live_one:
  assumes "issue_code hmac d contact p moment db_now code i = (d', res)" and "ic_code res = Some c"
    and "codes_short_lived d"
  shows "map pc_id (filter (live_code moment (normalise contact)) (parent_login_codes d')) = [i]"
proof -
  let ?n = "normalise contact"
  let ?f = "\<lambda>r. r\<lparr>pc_consumed_at := (case pc_consumed_at r of None \<Rightarrow> Some moment | Some t \<Rightarrow> Some t)\<rparr>"
  have codes: "parent_login_codes d' = update_where (recent_code ?n moment) ?f (parent_login_codes d) @
      [\<lparr>pc_id = i, pc_contact = ?n, pc_code_digest = code_digest hmac ?n code, pc_parent_user_id = p,
        pc_expires_at = moment + CODE_LIFETIME, pc_consumed_at = None, pc_attempt_count = 0, pc_created_at = db_now\<rparr>]"
    using assms(1,2) by (auto simp: issue_code_def Let_def split: if_splits)
  have "\<not> live_code moment ?n q" if q: "q \<in> set (update_where (recent_code ?n moment) ?f (parent_login_codes d))" for q
  proof -
    from q obtain r where r: "r \<in> set (parent_login_codes d)" "q = (if recent_code ?n moment r then ?f r else r)"
      by (auto simp: set_update_where)
    have "pc_expires_at r \<le> pc_created_at r + td_hours 1" using assms(3) r(1) by (simp add: codes_short_lived_def list_all_iff)
    then show ?thesis using r(2) by (auto simp: live_code_def recent_code_def split: option.splits)
  qed
  then have "filter (live_code moment ?n) (update_where (recent_code ?n moment) ?f (parent_login_codes d)) = []"
    by (simp add: filter_empty_conv)
  then show ?thesis by (simp add: codes live_code_def CODE_LIFETIME_def)
qed

subsection \<open>Witnesses\<close>

definition code_db :: db where
  "code_db = fst (issue_code (\<lambda>s. s) empty_db '' Mum@B.ng '' (Some 21) 0 0 ''4821'' 1)"

definition code_row :: parent_login_code_row where
  "code_row = \<lparr>pc_id = 1, pc_contact = ''mum@b.ng'', pc_code_digest = ''parent-code:mum@b.ng:4821'',
     pc_parent_user_id = Some 21, pc_expires_at = CODE_LIFETIME, pc_consumed_at = None,
     pc_attempt_count = 0, pc_created_at = 0\<rparr>"

theorem code_dies_after_five_wrong_guesses_witness:
  "snd (redeem_code (\<lambda>s. s) (redeem_run (\<lambda>s. s) ''mum@b.ng'' code_db (replicate 5 (''0000'', 60))) ''mum@b.ng'' ''4821'' 61) = None"
proof (rule code_dies_after_five_wrong_guesses)
  show "open_codes code_db (normalise ''mum@b.ng'') = [code_row]" by code_simp
  show "distinct (map pc_id (parent_login_codes code_db))" by code_simp
  show "pc_attempt_count code_row = 0" by code_simp
  show "pc_contact code_row = normalise ''mum@b.ng''" by code_simp
  show "\<forall>(code, moment) \<in> set (replicate 5 (''0000'', 60)). moment < pc_expires_at code_row \<and>
      code_digest (\<lambda>s. s) (normalise ''mum@b.ng'') (py_strip code) \<noteq> pc_code_digest code_row" by code_simp
qed simp

theorem redeemed_code_is_spent_witness:
  "\<exists>r \<in> set (parent_login_codes code_db). live_code 60 (normalise ''mum@b.ng'') r \<and> pc_parent_user_id r = Some 21"
proof -
  let ?r = "redeem_code (\<lambda>s. s) code_db ''mum@b.ng'' '' 4821 '' 60"
  have "snd ?r = Some 21" by code_simp
  then have "?r = (fst ?r, Some 21)" by (metis prod.collapse)
  from redeemed_code_is_spent[OF this] show ?thesis by blast
qed

theorem new_code_is_the_only_live_one_witness:
  "map pc_id (filter (live_code 90 (normalise ''mum@b.ng'')) (parent_login_codes
     (fst (issue_code (\<lambda>s. s) code_db ''mum@b.ng'' (Some 21) 90 90 ''7777'' 2)))) = [2]"
proof -
  let ?r = "issue_code (\<lambda>s. s) code_db ''mum@b.ng'' (Some 21) 90 90 ''7777'' 2"
  have "ic_code (snd ?r) = Some ''7777''" by code_simp
  moreover have "codes_short_lived code_db" by code_simp
  ultimately show ?thesis using new_code_is_the_only_live_one by (metis prod.collapse)
qed

end
