(* ===== verification/Auth.thy ===== *)
theory Auth
  imports Database
begin

text \<open>
  Sign-in and sessions (\<^verbatim>\<open>nevo/auth\<close>): the session policies, the credential hasher and token
  service, the four repositories over the shared database, and \<^verbatim>\<open>AuthService\<close> on top of them.

  An operation of the service takes the database and returns the new database with either an
  exception or a result, because a refused sign-in still commits its failed attempt and audit
  event.  The clock is an argument (\<open>now\<close>; the rate limiter reads its own clock, \<open>checked_at\<close>), and
  so are the random token and \<^verbatim>\<open>uuid4()\<close> of a new session.  HMAC-SHA256 and Argon2 are the fields of
  \<open>auth_env\<close>.
\<close>

subsection \<open>Policies\<close>

fun ROLE_IDLE_TIMEOUTS :: "user_role \<Rightarrow> timedelta" where
  "ROLE_IDLE_TIMEOUTS UR_STUDENT = td_minutes 60"
| "ROLE_IDLE_TIMEOUTS UR_TEACHER = td_minutes 120"
| "ROLE_IDLE_TIMEOUTS UR_SENCO_ADMIN = td_minutes 30"
| "ROLE_IDLE_TIMEOUTS UR_OTHER_ADMIN = td_minutes 120"
| "ROLE_IDLE_TIMEOUTS UR_PARENT_GUARDIAN = td_minutes 120"

fun ROLE_ABSOLUTE_LIFETIMES :: "user_role \<Rightarrow> timedelta" where
  "ROLE_ABSOLUTE_LIFETIMES UR_STUDENT = td_hours 10"
| "ROLE_ABSOLUTE_LIFETIMES UR_TEACHER = td_hours 14"
| "ROLE_ABSOLUTE_LIFETIMES UR_SENCO_ADMIN = td_hours 12"
| "ROLE_ABSOLUTE_LIFETIMES UR_OTHER_ADMIN = td_hours 14"
| "ROLE_ABSOLUTE_LIFETIMES UR_PARENT_GUARDIAN = td_hours 14"

definition DEFAULT_ABSOLUTE_LIFETIME :: timedelta where
  "DEFAULT_ABSOLUTE_LIFETIME = td_hours 12"

text \<open>The keys of both tables are exactly the values of the role enumeration.\<close>

definition absolute_lifetime_for_role :: "string \<Rightarrow> timedelta" where
  "absolute_lifetime_for_role role =
     (case user_role_of role of Some r \<Rightarrow> ROLE_ABSOLUTE_LIFETIMES r | None \<Rightarrow> DEFAULT_ABSOLUTE_LIFETIME)"

definition idle_timeout_for_role :: "string \<Rightarrow> timedelta option" where
  "idle_timeout_for_role role = map_option ROLE_IDLE_TIMEOUTS (user_role_of role)"

definition requires_single_session :: "string \<Rightarrow> bool" where
  "requires_single_session role = (role = ''student'')"

subsection \<open>Entities and errors\<close>

record auth_user =
  au_id :: uuid
  au_school_id :: "uuid option"
  au_role :: string
  au_auth_method :: string
  au_status :: string
  au_email :: "string option"
  au_password_hash :: "string option"
  au_pin_hash :: "string option"
  au_login_identifier :: "string option"
  au_school_auth_method :: "string option"
  au_deactivated_at :: "datetime option"
  au_preferences :: json

record session_draft =
  sd_id :: uuid
  sd_user_id :: uuid
  sd_role :: string
  sd_token_digest :: string
  sd_created_at :: datetime
  sd_last_seen_at :: datetime
  sd_expires_at :: datetime

record session_record =
  sr_id :: uuid
  sr_user_id :: uuid
  sr_role :: string
  sr_token_digest :: string
  sr_created_at :: datetime
  sr_last_seen_at :: datetime
  sr_expires_at :: datetime
  sr_revoked_at :: "datetime option"
  sr_revocation_reason :: "string option"
  sr_replaced_by_session_id :: "uuid option"

record auth_principal =
  ap_user_id :: uuid
  ap_role :: string
  ap_session_id :: uuid

record issued_session =
  is_access_token :: string
  is_token_type :: string
  is_expires_at :: datetime
  is_user_id :: uuid
  is_role :: string
  is_replaced_session :: bool
  is_preferences :: json

datatype auth_error =
  InvalidCredentialsError | RateLimitExceededError datetime | InvalidSessionError
| SessionExpiredError | SessionRevokedError | AccountClosedError | AccountPausedError
| SessionReplacedError | SchoolCodeRequiredError | AuthValueError | AuthIntegrityError

subsection \<open>Credentials and tokens\<close>

record auth_env =
  env_hmac :: "string \<Rightarrow> string"
  env_password_hmac :: "string \<Rightarrow> string"
  env_pin_hmac :: "string \<Rightarrow> string"
  env_argon_verify :: "string \<Rightarrow> string \<Rightarrow> bool"
  env_dummy_password_hash :: string
  env_dummy_pin_hash :: string

definition token_digest :: "auth_env \<Rightarrow> string \<Rightarrow> string" where
  "token_digest env token = env_hmac env (''session:'' @ token)"

definition protect_identifier :: "auth_env \<Rightarrow> string \<Rightarrow> string" where
  "protect_identifier env v = env_hmac env (''identifier:'' @ py_strip (py_casefold v))"

text \<open>\<^verbatim>\<open>hash or dummy\<close>: an absent and an empty hash both fall back to the dummy.\<close>

definition or_dummy :: "string option \<Rightarrow> string \<Rightarrow> string" where
  "or_dummy h dummy = (case h of None \<Rightarrow> dummy | Some s \<Rightarrow> if s = [] then dummy else s)"

definition verify_password :: "auth_env \<Rightarrow> string option \<Rightarrow> string \<Rightarrow> bool" where
  "verify_password env password_hash password =
     (env_argon_verify env (or_dummy password_hash (env_dummy_password_hash env))
        (env_password_hmac env password) \<and> password_hash \<noteq> None)"

definition verify_pin :: "auth_env \<Rightarrow> string option \<Rightarrow> string \<Rightarrow> bool" where
  "verify_pin env pin_hash pin =
     (env_argon_verify env (or_dummy pin_hash (env_dummy_pin_hash env)) (env_pin_hmac env pin) \<and>
      pin_hash \<noteq> None)"

subsection \<open>The user repository\<close>

definition age_check_blocks :: "db \<Rightarrow> uuid \<Rightarrow> bool" where
  "age_check_blocks d student =
     exists_where (\<lambda>c. ac_student_id c = student \<and> ac_state c = AC_MISMATCH) (age_checks d)"

definition to_auth_user :: "user_row \<Rightarrow> auth_method option \<Rightarrow> auth_user" where
  "to_auth_user u school_auth_method = \<lparr>
     au_id = u_id u, au_school_id = u_school_id u, au_role = user_role_value (u_role u),
     au_auth_method = auth_method_value (u_auth_method u), au_status = user_status_value (u_status u),
     au_email = u_email u, au_password_hash = u_password_hash u, au_pin_hash = u_pin_hash u,
     au_login_identifier = u_login_identifier u,
     au_school_auth_method = map_option auth_method_value school_auth_method,
     au_deactivated_at = u_deactivated_at u, au_preferences = u_preferences u \<rparr>"

definition school_of :: "db \<Rightarrow> user_row \<Rightarrow> school_row option" where
  "school_of d u = (case u_school_id u of None \<Rightarrow> None | Some s \<Rightarrow> get_by sch_id s (schools d))"

text \<open>\<^verbatim>\<open>_find\<close>: a student whose age check is in dispute is read as pending.\<close>

definition find_account :: "db \<Rightarrow> user_row option \<Rightarrow> auth_user option" where
  "find_account d row =
     (case row of None \<Rightarrow> None
      | Some u \<Rightarrow>
          (let account = to_auth_user u (map_option sch_auth_method (school_of d u)) in
           Some (if u_role u = UR_STUDENT \<and> age_check_blocks d (u_id u)
                 then account\<lparr>au_status := ''pending''\<rparr> else account)))"

definition find_by_email :: "db \<Rightarrow> string \<Rightarrow> auth_user option" where
  "find_by_email d email =
     find_account d (List.find (\<lambda>u. map_option sql_lower (u_email u) = Some email) (users d))"

definition find_by_id :: "db \<Rightarrow> uuid \<Rightarrow> auth_user option" where
  "find_by_id d uid = find_account d (get_by u_id uid (users d))"

text \<open>
  The PIN lookup orders by \<^verbatim>\<open>lower(admission_number) = identifier\<close> descending.  PostgreSQL sorts NULLs
  first in a descending order, and the comparison is NULL for an account without an admission
  number, so the ranks are: NULL, then true, then false.
\<close>

definition pin_rank :: "string \<Rightarrow> user_row \<Rightarrow> nat" where
  "pin_rank ident u =
     (case u_admission_number u of None \<Rightarrow> 0 | Some a \<Rightarrow> if sql_lower a = ident then 1 else 2)"

definition pin_candidates :: "db \<Rightarrow> string \<Rightarrow> string \<Rightarrow> user_row list" where
  "pin_candidates d school_code ident =
     filter (\<lambda>u. (case school_of d u of None \<Rightarrow> False | Some s \<Rightarrow> sql_lower (sch_school_code s) = school_code) \<and>
        (map_option sql_lower (u_admission_number u) = Some ident \<or>
         map_option sql_lower (u_login_identifier u) = Some ident)) (users d)"

definition find_pin_user :: "db \<Rightarrow> string \<Rightarrow> string \<Rightarrow> auth_user option" where
  "find_pin_user d school_code ident =
     find_account d (case sort_key (pin_rank ident) (pin_candidates d school_code ident) of
                       [] \<Rightarrow> None | u # _ \<Rightarrow> Some u)"

definition find_parents_by_contact :: "db \<Rightarrow> string \<Rightarrow> string option \<Rightarrow> auth_user list" where
  "find_parents_by_contact d contact school_code =
     map (\<lambda>u. to_auth_user u (map_option sch_auth_method (school_of d u)))
       (filter (\<lambda>u. u_role u = UR_PARENT_GUARDIAN \<and>
          (map_option sql_lower (u_email u) = Some contact \<or>
           map_option sql_lower (u_login_identifier u) = Some contact) \<and>
          (case school_of d u of None \<Rightarrow> False
           | Some s \<Rightarrow> (case school_code of None \<Rightarrow> True
                        | Some code \<Rightarrow> sql_lower (sch_school_code s) = code))) (users d))"

subsection \<open>The session repository\<close>

definition to_session_record :: "auth_session_row \<Rightarrow> session_record" where
  "to_session_record r = \<lparr>sr_id = as_id r, sr_user_id = as_user_id r, sr_role = user_role_value (as_role r),
     sr_token_digest = as_token_digest r, sr_created_at = as_created_at r,
     sr_last_seen_at = as_last_seen_at r, sr_expires_at = as_expires_at r,
     sr_revoked_at = as_revoked_at r, sr_revocation_reason = as_revocation_reason r,
     sr_replaced_by_session_id = as_replaced_by_session_id r\<rparr>"

definition active_sessions_of :: "uuid \<Rightarrow> auth_session_row list \<Rightarrow> auth_session_row list" where
  "active_sessions_of uid rows =
     sort_key (\<lambda>r. - as_created_at r) (filter (\<lambda>r. as_user_id r = uid \<and> as_revoked_at r = None) rows)"

definition draft_row :: "session_draft \<Rightarrow> user_role \<Rightarrow> auth_session_row" where
  "draft_row draft role = \<lparr>as_id = sd_id draft, as_user_id = sd_user_id draft, as_role = role,
     as_token_digest = sd_token_digest draft, as_created_at = sd_created_at draft,
     as_last_seen_at = sd_last_seen_at draft, as_expires_at = sd_expires_at draft,
     as_revoked_at = None, as_revocation_reason = None, as_replaced_by_session_id = None\<rparr>"

definition session_create ::
  "db \<Rightarrow> session_draft \<Rightarrow> bool \<Rightarrow> auth_error + (db \<times> session_record option)" where
  "session_create d draft replace_active =
     (let active = (if replace_active then active_sessions_of (sd_user_id draft) (auth_sessions d) else []);
          ids = map as_id active;
          revoked = update_where (\<lambda>r. as_id r \<in> set ids)
            (\<lambda>r. r\<lparr>as_revoked_at := Some (sd_created_at draft),
                    as_revocation_reason := Some ''concurrent_login''\<rparr>) (auth_sessions d) in
      case user_role_of (sd_role draft) of
        None \<Rightarrow> Inl AuthValueError
      | Some role \<Rightarrow>
          (let added = revoked @ [draft_row draft role];
               rows = (if active = [] then added
                       else update_where (\<lambda>r. as_id r \<in> set ids)
                         (\<lambda>r. r\<lparr>as_replaced_by_session_id := Some (sd_id draft)\<rparr>) added) in
           if auth_sessions_ok rows
           then Inr (d\<lparr>auth_sessions := rows\<rparr>,
                     (case active of [] \<Rightarrow> None | r # _ \<Rightarrow> Some (to_session_record r)))
           else Inl AuthIntegrityError))"

definition find_by_digest :: "db \<Rightarrow> string \<Rightarrow> session_record option" where
  "find_by_digest d digest = map_option to_session_record (get_by as_token_digest digest (auth_sessions d))"

definition session_touch :: "db \<Rightarrow> uuid \<Rightarrow> datetime \<Rightarrow> datetime \<Rightarrow> auth_error + db" where
  "session_touch d sid last_seen expires =
     (let rows = update_where (\<lambda>r. as_id r = sid \<and> as_revoked_at r = None)
                   (\<lambda>r. r\<lparr>as_last_seen_at := last_seen, as_expires_at := expires\<rparr>) (auth_sessions d) in
      if auth_sessions_ok rows then Inr (d\<lparr>auth_sessions := rows\<rparr>) else Inl AuthIntegrityError)"

definition session_revoke :: "db \<Rightarrow> uuid \<Rightarrow> string \<Rightarrow> datetime \<Rightarrow> db" where
  "session_revoke d sid reason revoked_at =
     d\<lparr>auth_sessions := update_where (\<lambda>r. as_id r = sid \<and> as_revoked_at r = None)
        (\<lambda>r. r\<lparr>as_revoked_at := Some revoked_at, as_revocation_reason := Some reason\<rparr>) (auth_sessions d)\<rparr>"

subsection \<open>The rate limiter and the audit log\<close>

definition LOGIN_MAX_FAILURES :: nat where
  "LOGIN_MAX_FAILURES = 5"

definition LOGIN_WINDOW :: timedelta where
  "LOGIN_WINDOW = td_minutes 15"

definition recent_failures :: "db \<Rightarrow> datetime \<Rightarrow> string \<Rightarrow> string \<Rightarrow> login_attempt_row list" where
  "recent_failures d now identity_digest ip_digest =
     filter (\<lambda>a. \<not> la_succeeded a \<and> now - LOGIN_WINDOW \<le> la_occurred_at a \<and>
        (la_identity_digest a = identity_digest \<or> la_ip_digest a = ip_digest)) (login_attempts d)"

definition rate_limit_check :: "db \<Rightarrow> datetime \<Rightarrow> string \<Rightarrow> string \<Rightarrow> auth_error option" where
  "rate_limit_check d now identity_digest ip_digest =
     (let failures = recent_failures d now identity_digest ip_digest in
      if LOGIN_MAX_FAILURES \<le> length failures \<and> failures \<noteq> []
      then Some (RateLimitExceededError (Min (set (map la_occurred_at failures)) + LOGIN_WINDOW))
      else None)"

definition record_attempt :: "db \<Rightarrow> string \<Rightarrow> string \<Rightarrow> bool \<Rightarrow> datetime \<Rightarrow> db" where
  "record_attempt d identity_digest ip_digest succeeded occurred_at =
     d\<lparr>login_attempts := login_attempts d @
        [\<lparr>la_identity_digest = identity_digest, la_ip_digest = ip_digest,
          la_succeeded = succeeded, la_occurred_at = occurred_at\<rparr>]\<rparr>"

definition audit_record ::
  "db \<Rightarrow> string \<Rightarrow> datetime \<Rightarrow> uuid option \<Rightarrow> uuid option \<Rightarrow> string option \<Rightarrow> string option
     \<Rightarrow> (string \<times> string) list option \<Rightarrow> db" where
  "audit_record d event_type occurred_at user_id session_id identity_digest ip_digest details =
     d\<lparr>audit_events := audit_events d @
        [\<lparr>ae_event_type = event_type, ae_occurred_at = occurred_at, ae_user_id = user_id,
          ae_session_id = session_id, ae_identity_digest = identity_digest,
          ae_ip_digest = ip_digest, ae_details = details\<rparr>]\<rparr>"

subsection \<open>The service\<close>

definition is_paused :: "auth_user \<Rightarrow> bool" where
  "is_paused u = (au_status u = ''deactivated'' \<or> au_deactivated_at u \<noteq> None)"

definition is_active :: "auth_user \<Rightarrow> bool" where
  "is_active u = (au_status u = ''active'' \<and> au_deactivated_at u = None)"

definition MANUAL_AUTH_METHODS :: "string set" where
  "MANUAL_AUTH_METHODS = {''email_password'', ''pin''}"

definition can_use_manual_method :: "auth_user \<Rightarrow> string \<Rightarrow> bool" where
  "can_use_manual_method u requested_method =
     (if \<not> is_active u \<or> au_auth_method u \<noteq> requested_method then False
      else (case au_school_auth_method u of None \<Rightarrow> True | Some m \<Rightarrow> m \<in> MANUAL_AUTH_METHODS))"

text \<open>
  \<^verbatim>\<open>str(draft.id)\<close>: the textual form of an identifier, which only the audit log's details carry, is
  the argument \<open>show_id\<close>.
\<close>

definition complete_login ::
  "auth_env \<Rightarrow> (uuid \<Rightarrow> string) \<Rightarrow> db \<Rightarrow> auth_user \<Rightarrow> string \<Rightarrow> string \<Rightarrow> datetime \<Rightarrow> string \<Rightarrow> uuid
     \<Rightarrow> db \<times> (auth_error + issued_session)" where
  "complete_login env show_id d user identity_digest ip_digest now token new_id =
     (case idle_timeout_for_role (au_role user) of
        None \<Rightarrow> (d, Inl AuthValueError)
      | Some timeout \<Rightarrow>
          (let draft = \<lparr>sd_id = new_id, sd_user_id = au_id user, sd_role = au_role user,
                 sd_token_digest = token_digest env token, sd_created_at = now,
                 sd_last_seen_at = now, sd_expires_at = now + timeout\<rparr> in
           case session_create d draft (requires_single_session (au_role user)) of
             Inl e \<Rightarrow> (d, Inl e)
           | Inr (d1, replaced) \<Rightarrow>
               (let d2 = record_attempt d1 identity_digest ip_digest True now;
                    d3 = audit_record d2 ''login_succeeded'' now (Some (au_id user)) (Some new_id)
                      (Some identity_digest) (Some ip_digest) (Some [(''method'', au_auth_method user)]);
                    d4 = (case replaced of None \<Rightarrow> d3
                          | Some old \<Rightarrow> audit_record d3 ''session_replaced'' now (Some (au_id user))
                              (Some (sr_id old)) (Some identity_digest) (Some ip_digest)
                              (Some [(''replacement_session_id'', show_id new_id)])) in
                (d4, Inr \<lparr>is_access_token = token, is_token_type = ''bearer'',
                          is_expires_at = sd_expires_at draft, is_user_id = au_id user,
                          is_role = au_role user, is_replaced_session = (replaced \<noteq> None),
                          is_preferences = au_preferences user\<rparr>))))"

definition reject_login ::
  "db \<Rightarrow> auth_user option \<Rightarrow> string \<Rightarrow> string \<Rightarrow> auth_error \<Rightarrow> datetime \<Rightarrow> db \<times> (auth_error + issued_session)" where
  "reject_login d user identity_digest ip_digest err now =
     (let d1 = record_attempt d identity_digest ip_digest False now;
          event_type = (case user of
              None \<Rightarrow> ''login_failed''
            | Some u \<Rightarrow> if \<not> is_active u then ''deactivated_login_attempt'' else ''login_failed'') in
      (audit_record d1 event_type now (map_option au_id user) None
         (Some identity_digest) (Some ip_digest) None, Inl err))"

definition login_with_password ::
  "auth_env \<Rightarrow> (uuid \<Rightarrow> string) \<Rightarrow> db \<Rightarrow> string \<Rightarrow> string \<Rightarrow> string \<Rightarrow> datetime \<Rightarrow> datetime \<Rightarrow> string \<Rightarrow> uuid
     \<Rightarrow> db \<times> (auth_error + issued_session)" where
  "login_with_password env show_id d email password ip_address checked_at now token new_id =
     (let normalized_email = py_strip (py_casefold email);
          identity_digest = protect_identifier env (''email:'' @ normalized_email);
          ip_digest = protect_identifier env (''ip:'' @ ip_address) in
      case rate_limit_check d checked_at identity_digest ip_digest of
        Some e \<Rightarrow> (d, Inl e)
      | None \<Rightarrow>
          (let user = find_by_email d normalized_email;
               verified = verify_password env (Option.bind user au_password_hash) password in
           case user of
             None \<Rightarrow> reject_login d None identity_digest ip_digest InvalidCredentialsError now
           | Some u \<Rightarrow>
               if verified \<and> is_paused u
               then reject_login d (Some u) identity_digest ip_digest AccountPausedError now
               else if \<not> verified \<or> \<not> can_use_manual_method u ''email_password''
               then reject_login d (Some u) identity_digest ip_digest InvalidCredentialsError now
               else complete_login env show_id d u identity_digest ip_digest now token new_id))"

definition login_with_parent_contact ::
  "auth_env \<Rightarrow> (uuid \<Rightarrow> string) \<Rightarrow> db \<Rightarrow> string \<Rightarrow> string \<Rightarrow> string \<Rightarrow> string option \<Rightarrow> datetime \<Rightarrow> datetime
     \<Rightarrow> string \<Rightarrow> uuid \<Rightarrow> db \<times> (auth_error + issued_session)" where
  "login_with_parent_contact env show_id d contact password ip_address school_code checked_at now token new_id =
     (let normalized = py_strip (py_casefold contact);
          identity_digest = protect_identifier env (''parent:'' @ normalized);
          ip_digest = protect_identifier env (''ip:'' @ ip_address) in
      case rate_limit_check d checked_at identity_digest ip_digest of
        Some e \<Rightarrow> (d, Inl e)
      | None \<Rightarrow>
          (let code = (case school_code of None \<Rightarrow> None
                       | Some c \<Rightarrow> if c = [] then None else Some (py_strip (py_casefold c)));
               candidates = find_parents_by_contact d normalized code in
           if 1 < length candidates then (d, Inl SchoolCodeRequiredError)
           else
             (case candidates of
                [] \<Rightarrow> reject_login d None identity_digest ip_digest InvalidCredentialsError now
              | u # _ \<Rightarrow>
                  if \<not> verify_password env (au_password_hash u) password \<or> \<not> is_active u
                  then reject_login d (Some u) identity_digest ip_digest InvalidCredentialsError now
                  else complete_login env show_id d u identity_digest ip_digest now token new_id)))"

definition login_with_pin ::
  "auth_env \<Rightarrow> (uuid \<Rightarrow> string) \<Rightarrow> db \<Rightarrow> string \<Rightarrow> string \<Rightarrow> string \<Rightarrow> string \<Rightarrow> datetime \<Rightarrow> datetime
     \<Rightarrow> string \<Rightarrow> uuid \<Rightarrow> db \<times> (auth_error + issued_session)" where
  "login_with_pin env show_id d school_code login_identifier pin ip_address checked_at now token new_id =
     (let code = py_strip (py_casefold school_code);
          ident = py_strip (py_casefold login_identifier);
          identity_digest = protect_identifier env (''pin:'' @ code @ '':'' @ ident);
          ip_digest = protect_identifier env (''ip:'' @ ip_address) in
      case rate_limit_check d checked_at identity_digest ip_digest of
        Some e \<Rightarrow> (d, Inl e)
      | None \<Rightarrow>
          (case find_pin_user d code ident of
             None \<Rightarrow> reject_login d None identity_digest ip_digest InvalidCredentialsError now
           | Some u \<Rightarrow>
               (let verified = verify_pin env (au_pin_hash u) pin in
                if verified \<and> au_role u = ''student'' \<and> is_paused u
                then reject_login d (Some u) identity_digest ip_digest AccountPausedError now
                else if au_role u \<noteq> ''student'' \<or> \<not> verified \<or> \<not> can_use_manual_method u ''pin''
                then reject_login d (Some u) identity_digest ip_digest InvalidCredentialsError now
                else complete_login env show_id d u identity_digest ip_digest now token new_id)))"

definition expire_session :: "db \<Rightarrow> session_record \<Rightarrow> string \<Rightarrow> datetime \<Rightarrow> db" where
  "expire_session d s reason now =
     audit_record (session_revoke d (sr_id s) reason now) ''session_expired'' now
       (Some (sr_user_id s)) (Some (sr_id s)) None None None"

definition authenticate :: "auth_env \<Rightarrow> db \<Rightarrow> string \<Rightarrow> datetime \<Rightarrow> db \<times> (auth_error + auth_principal)" where
  "authenticate env d access_token now =
     (case find_by_digest d (token_digest env access_token) of
        None \<Rightarrow> (d, Inl InvalidSessionError)
      | Some s \<Rightarrow>
          if sr_revoked_at s \<noteq> None then
            (d, Inl (if sr_revocation_reason s = Some ''concurrent_login'' then SessionReplacedError
                     else if sr_revocation_reason s = Some ''user_unavailable'' then AccountPausedError
                     else SessionRevokedError))
          else if sr_expires_at s \<le> now then
            (expire_session d s ''expired'' now, Inl SessionExpiredError)
          else if absolute_lifetime_for_role (sr_role s) \<le> now - sr_created_at s then
            (expire_session d s ''absolute_lifetime_reached'' now, Inl SessionExpiredError)
          else
            (case find_by_id d (sr_user_id s) of
               None \<Rightarrow> (session_revoke d (sr_id s) ''user_unavailable'' now, Inl AccountPausedError)
             | Some u \<Rightarrow>
                 if \<not> is_active u
                 then (session_revoke d (sr_id s) ''user_unavailable'' now, Inl AccountPausedError)
                 else
                   (case idle_timeout_for_role (sr_role s) of
                      None \<Rightarrow> (d, Inl AuthValueError)
                    | Some timeout \<Rightarrow>
                        (case session_touch d (sr_id s) now (now + timeout) of
                           Inl e \<Rightarrow> (d, Inl e)
                         | Inr d' \<Rightarrow> (d', Inr \<lparr>ap_user_id = sr_user_id s, ap_role = sr_role s,
                                                ap_session_id = sr_id s\<rparr>)))))"

definition issue_for_provisioned_user ::
  "auth_env \<Rightarrow> (uuid \<Rightarrow> string) \<Rightarrow> db \<Rightarrow> uuid \<Rightarrow> datetime \<Rightarrow> string \<Rightarrow> uuid
     \<Rightarrow> db \<times> (auth_error + issued_session)" where
  "issue_for_provisioned_user env show_id d user_id now token new_id =
     (case find_by_id d user_id of
        None \<Rightarrow> (d, Inl InvalidCredentialsError)
      | Some u \<Rightarrow>
          if \<not> is_active u then (d, Inl AccountPausedError)
          else complete_login env show_id d u
                 (protect_identifier env (''provisioned:'' @ show_id (au_id u)))
                 (protect_identifier env ''ip:provisioning'') now token new_id)"

definition logout :: "auth_env \<Rightarrow> db \<Rightarrow> string \<Rightarrow> datetime \<Rightarrow> db" where
  "logout env d access_token now =
     (case find_by_digest d (token_digest env access_token) of
        None \<Rightarrow> d
      | Some s \<Rightarrow>
          if sr_revoked_at s \<noteq> None then d
          else audit_record (session_revoke d (sr_id s) ''logout'' now) ''logout'' now
                 (Some (sr_user_id s)) (Some (sr_id s)) None None None)"

definition refresh :: "auth_env \<Rightarrow> db \<Rightarrow> string \<Rightarrow> datetime \<Rightarrow> db \<times> (auth_error + issued_session)" where
  "refresh env d access_token now =
     (case authenticate env d access_token now of
        (d1, Inl e) \<Rightarrow> (d1, Inl e)
      | (d1, Inr p) \<Rightarrow>
          (case find_by_digest d1 (token_digest env access_token) of
             None \<Rightarrow> (d1, Inl InvalidSessionError)
           | Some s \<Rightarrow>
               if sr_revoked_at s \<noteq> None then (d1, Inl InvalidSessionError)
               else (d1, Inr \<lparr>is_access_token = access_token, is_token_type = ''bearer'',
                      is_expires_at = sr_expires_at s, is_user_id = ap_user_id p,
                      is_role = ap_role p, is_replaced_session = False,
                      is_preferences = (case find_by_id d1 (ap_user_id p) of
                          None \<Rightarrow> JObject [] | Some u \<Rightarrow> au_preferences u)\<rparr>)))"

subsection \<open>What each operation leaves alone\<close>

lemma record_attempt_frame [simp]:
  "auth_sessions (record_attempt d i p s t) = auth_sessions d"
  "users (record_attempt d i p s t) = users d"
  "schools (record_attempt d i p s t) = schools d"
  "age_checks (record_attempt d i p s t) = age_checks d"
  "audit_events (record_attempt d i p s t) = audit_events d"
  by (simp_all add: record_attempt_def)

lemma audit_record_frame [simp]:
  "auth_sessions (audit_record d e t u s i p x) = auth_sessions d"
  "users (audit_record d e t u s i p x) = users d"
  "schools (audit_record d e t u s i p x) = schools d"
  "age_checks (audit_record d e t u s i p x) = age_checks d"
  "login_attempts (audit_record d e t u s i p x) = login_attempts d"
  by (simp_all add: audit_record_def)

lemma session_revoke_frame [simp]:
  "users (session_revoke d s r t) = users d"
  "schools (session_revoke d s r t) = schools d"
  "age_checks (session_revoke d s r t) = age_checks d"
  "login_attempts (session_revoke d s r t) = login_attempts d"
  by (simp_all add: session_revoke_def)

lemma to_session_record_sel [simp]:
  "sr_id (to_session_record r) = as_id r"
  "sr_user_id (to_session_record r) = as_user_id r"
  "sr_role (to_session_record r) = user_role_value (as_role r)"
  "sr_created_at (to_session_record r) = as_created_at r"
  "sr_expires_at (to_session_record r) = as_expires_at r"
  "sr_revoked_at (to_session_record r) = as_revoked_at r"
  "sr_revocation_reason (to_session_record r) = as_revocation_reason r"
  by (simp_all add: to_session_record_def)

lemma find_by_digest_Some:
  "find_by_digest d dig = Some s \<Longrightarrow>
     \<exists>r. get_by as_token_digest dig (auth_sessions d) = Some r \<and> s = to_session_record r"
  by (auto simp: find_by_digest_def)

lemma absolute_lifetime_role [simp]:
  "absolute_lifetime_for_role (user_role_value r) = ROLE_ABSOLUTE_LIFETIMES r"
  by (simp add: absolute_lifetime_for_role_def)

lemma idle_timeout_role [simp]:
  "idle_timeout_for_role (user_role_value r) = Some (ROLE_IDLE_TIMEOUTS r)"
  by (simp add: idle_timeout_for_role_def)

lemma ROLE_IDLE_TIMEOUTS_positive [simp]: "0 < ROLE_IDLE_TIMEOUTS r"
  by (cases r) simp_all

lemma find_account_id: "find_account d row = Some u \<Longrightarrow> \<exists>r. row = Some r \<and> au_id u = u_id r \<and> au_role u = user_role_value (u_role r)"
  by (auto simp: find_account_def to_auth_user_def Let_def split: option.splits if_splits)

subsection \<open>The session ledger\<close>

text \<open>
  \<open>session_le rows rows'\<close>: every session of \<open>rows\<close> is still there in \<open>rows'\<close> with the same identity,
  owner, role, token and creation time, and a revocation, once written, is unchanged.
\<close>

definition session_kept :: "auth_session_row \<Rightarrow> auth_session_row \<Rightarrow> bool" where
  "session_kept r r' \<longleftrightarrow> as_id r' = as_id r \<and> as_user_id r' = as_user_id r \<and> as_role r' = as_role r \<and>
     as_token_digest r' = as_token_digest r \<and> as_created_at r' = as_created_at r \<and>
     (as_revoked_at r \<noteq> None \<longrightarrow>
        as_revoked_at r' = as_revoked_at r \<and> as_revocation_reason r' = as_revocation_reason r)"

definition session_le :: "auth_session_row list \<Rightarrow> auth_session_row list \<Rightarrow> bool" where
  "session_le rows rows' \<longleftrightarrow> (\<forall>r \<in> set rows. \<exists>r' \<in> set rows'. session_kept r r')"

lemma session_kept_refl [simp]: "session_kept r r"
  by (simp add: session_kept_def)

lemma session_kept_trans: "session_kept r s \<Longrightarrow> session_kept s t \<Longrightarrow> session_kept r t"
  by (simp add: session_kept_def)

lemma session_le_refl [simp]: "session_le rows rows"
  unfolding session_le_def using session_kept_refl by blast

lemma session_le_trans: "session_le a b \<Longrightarrow> session_le b c \<Longrightarrow> session_le a c"
  unfolding session_le_def by (meson session_kept_trans)

lemma session_le_append: "session_le a b \<Longrightarrow> session_le a (b @ c)"
  by (auto simp: session_le_def)

lemma session_le_update:
  assumes "\<And>r. r \<in> set rows \<Longrightarrow> P r \<Longrightarrow> session_kept r (f r)"
  shows "session_le rows (update_where P f rows)"
  unfolding session_le_def
proof
  fix r assume r: "r \<in> set rows"
  then have "(if P r then f r else r) \<in> set (update_where P f rows)"
    by (auto simp: set_update_where)
  moreover have "session_kept r (if P r then f r else r)" using assms r by simp
  ultimately show "\<exists>r' \<in> set (update_where P f rows). session_kept r r'" by blast
qed

lemma session_le_get_by:
  assumes "session_le rows rows'" "distinct (map as_token_digest rows')"
    and "get_by as_token_digest dig rows = Some r"
  shows "\<exists>r'. get_by as_token_digest dig rows' = Some r' \<and> session_kept r r'"
proof -
  have r: "r \<in> set rows" "as_token_digest r = dig" using get_by_SomeD[OF assms(3)] by auto
  then obtain r' where r': "r' \<in> set rows'" "session_kept r r'"
    using assms(1) unfolding session_le_def by blast
  then have "as_token_digest r' = dig" using r by (simp add: session_kept_def)
  then show ?thesis using get_by_in[OF assms(2) r'(1)] r'(2) by auto
qed

lemma auth_sessions_ok_revoke:
  assumes "auth_sessions_ok rows"
  shows "auth_sessions_ok (update_where (\<lambda>r. Q r \<and> as_revoked_at r = None)
           (\<lambda>r. r\<lparr>as_revoked_at := Some t, as_revocation_reason := Some reason\<rparr>) rows)"
  using assms
  by (auto simp: auth_sessions_ok_def map_update_where list_all_iff set_update_where auth_session_ok_def
      intro!: unique_where_update_weaken)

lemma session_revoke_ok: "auth_sessions_ok (auth_sessions d) \<Longrightarrow> auth_sessions_ok (auth_sessions (session_revoke d sid reason t))"
  unfolding session_revoke_def by (simp add: auth_sessions_ok_revoke)

lemma session_revoke_le: "session_le (auth_sessions d) (auth_sessions (session_revoke d sid reason t))"
  unfolding session_revoke_def by (auto intro!: session_le_update simp: session_kept_def)

lemma session_touch_Inr:
  assumes "session_touch d sid seen ex = Inr d'"
  shows "auth_sessions_ok (auth_sessions d')" "session_le (auth_sessions d) (auth_sessions d')"
    "d' = d\<lparr>auth_sessions := update_where (\<lambda>r. as_id r = sid \<and> as_revoked_at r = None)
            (\<lambda>r. r\<lparr>as_last_seen_at := seen, as_expires_at := ex\<rparr>) (auth_sessions d)\<rparr>"
  using assms by (auto simp: session_touch_def Let_def session_kept_def intro!: session_le_update split: if_splits)

text \<open>What creating a session does to the table: the owner's open sessions are closed, one is added.\<close>

definition supersede :: "session_draft \<Rightarrow> bool \<Rightarrow> auth_session_row \<Rightarrow> auth_session_row" where
  "supersede draft single r =
     (if single \<and> as_user_id r = sd_user_id draft \<and> as_revoked_at r = None
      then r\<lparr>as_revoked_at := Some (sd_created_at draft), as_revocation_reason := Some ''concurrent_login'',
             as_replaced_by_session_id := Some (sd_id draft)\<rparr>
      else r)"

lemma set_active_sessions_of [simp]:
  "set (active_sessions_of uid rows) = {r \<in> set rows. as_user_id r = uid \<and> as_revoked_at r = None}"
  by (auto simp: active_sessions_of_def)

lemma active_sessions_of_Nil: "active_sessions_of uid rows = [] \<longleftrightarrow> (\<forall>r \<in> set rows. as_user_id r = uid \<longrightarrow> as_revoked_at r \<noteq> None)"
  by (metis (mono_tags, lifting) empty_Collect_eq set_active_sessions_of set_empty)

lemma as_id_in_active:
  assumes "distinct (map as_id rows)" "r \<in> set rows"
  shows "as_id r \<in> as_id ` set (active_sessions_of uid rows) \<longleftrightarrow> as_user_id r = uid \<and> as_revoked_at r = None"
  using assms by (auto simp: distinct_map inj_on_def)

lemma session_create_Inr:
  assumes "session_create d draft single = Inr (d', replaced)"
  obtains role where "user_role_of (sd_role draft) = Some role"
    "d' = d\<lparr>auth_sessions := map (supersede draft single) (auth_sessions d) @ [draft_row draft role]\<rparr>"
    "auth_sessions_ok (map (supersede draft single) (auth_sessions d) @ [draft_row draft role])"
    "replaced = None \<longleftrightarrow> \<not> (single \<and> (\<exists>r \<in> set (auth_sessions d). as_user_id r = sd_user_id draft \<and> as_revoked_at r = None))"
proof -
  define act where "act = (if single then active_sessions_of (sd_user_id draft) (auth_sessions d) else [])"
  define rev where "rev = update_where (\<lambda>r. as_id r \<in> set (map as_id act))
            (\<lambda>r. r\<lparr>as_revoked_at := Some (sd_created_at draft),
                    as_revocation_reason := Some ''concurrent_login''\<rparr>) (auth_sessions d)"
  from assms obtain role where role: "user_role_of (sd_role draft) = Some role"
    by (auto simp: session_create_def Let_def split: option.splits)
  define rows where "rows = (if act = [] then rev @ [draft_row draft role]
      else update_where (\<lambda>r. as_id r \<in> set (map as_id act))
        (\<lambda>r. r\<lparr>as_replaced_by_session_id := Some (sd_id draft)\<rparr>) (rev @ [draft_row draft role]))"
  have res: "auth_sessions_ok rows" "d' = d\<lparr>auth_sessions := rows\<rparr>"
    "replaced = (case act of [] \<Rightarrow> None | r # _ \<Rightarrow> Some (to_session_record r))"
    using assms role unfolding act_def rev_def rows_def
    by (auto simp: session_create_def Let_def split: if_splits)
  have ids: "map as_id rows = map as_id (auth_sessions d) @ [sd_id draft]"
    by (simp add: rows_def rev_def map_update_where draft_row_def)
  then have dist: "distinct (map as_id (auth_sessions d))" and new: "sd_id draft \<notin> as_id ` set (auth_sessions d)"
    using auth_sessions_okD(1)[OF res(1)] by auto
  have mem: "as_id r \<in> as_id ` set act \<longleftrightarrow> single \<and> as_user_id r = sd_user_id draft \<and> as_revoked_at r = None"
    if "r \<in> set (auth_sessions d)" for r
    using as_id_in_active[OF dist that, of "sd_user_id draft"] by (cases single) (simp_all add: act_def)
  have "sd_id draft \<notin> as_id ` set act" using new by (auto simp: act_def)
  moreover have "map (supersede draft single) (auth_sessions d) = auth_sessions d" if "act = []"
    using mem that by (intro map_idI) (fastforce simp: supersede_def)
  ultimately have "rows = map (supersede draft single) (auth_sessions d) @ [draft_row draft role]"
    using mem by (auto simp: rows_def rev_def update_where_def supersede_def draft_row_def)
  moreover have "replaced = None \<longleftrightarrow> act = []" using res(3) by (cases act) auto
  then have "replaced = None \<longleftrightarrow> \<not> (single \<and> (\<exists>r \<in> set (auth_sessions d). as_user_id r = sd_user_id draft \<and> as_revoked_at r = None))"
    by (auto simp: act_def active_sessions_of_Nil)
  ultimately show ?thesis using that role res by blast
qed

lemma session_le_map:
  assumes "\<And>r. session_kept r (f r)"
  shows "session_le rows (map f rows)"
  using assms unfolding session_le_def by auto

lemma session_kept_supersede [simp]: "session_kept r (supersede draft single r)"
  by (simp add: session_kept_def supersede_def)

lemma session_create_le:
  assumes "session_create d draft single = Inr (d', replaced)"
  shows "auth_sessions_ok (auth_sessions d')" "session_le (auth_sessions d) (auth_sessions d')"
proof -
  obtain role where d': "d' = d\<lparr>auth_sessions := map (supersede draft single) (auth_sessions d) @ [draft_row draft role]\<rparr>"
    and ok: "auth_sessions_ok (map (supersede draft single) (auth_sessions d) @ [draft_row draft role])"
    by (rule session_create_Inr[OF assms])
  show "auth_sessions_ok (auth_sessions d')" using ok d' by simp
  show "session_le (auth_sessions d) (auth_sessions d')" using d'
    by (simp add: session_le_append session_le_map)
qed

subsection \<open>The service, operation by operation\<close>

lemma reject_login_simps [simp]:
  "snd (reject_login d u i p e now) = Inl e"
  "auth_sessions (fst (reject_login d u i p e now)) = auth_sessions d"
  "users (fst (reject_login d u i p e now)) = users d"
  "login_attempts (fst (reject_login d u i p e now)) = login_attempts d @
     [\<lparr>la_identity_digest = i, la_ip_digest = p, la_succeeded = False, la_occurred_at = now\<rparr>]"
  by (simp_all add: reject_login_def Let_def record_attempt_def)

lemma reject_login_eq:
  "reject_login d u i p e now = (d', r) \<Longrightarrow> r = Inl e \<and> auth_sessions d' = auth_sessions d \<and>
     login_attempts d' = login_attempts d @
     [\<lparr>la_identity_digest = i, la_ip_digest = p, la_succeeded = False, la_occurred_at = now\<rparr>]"
  by (metis fst_conv reject_login_simps(1,2,4) snd_conv)

text \<open>A completed sign-in is a created session plus entries in the two logs.\<close>

definition login_draft :: "auth_env \<Rightarrow> auth_user \<Rightarrow> datetime \<Rightarrow> timedelta \<Rightarrow> string \<Rightarrow> uuid \<Rightarrow> session_draft" where
  "login_draft env user now timeout token new_id = \<lparr>sd_id = new_id, sd_user_id = au_id user, sd_role = au_role user,
     sd_token_digest = token_digest env token, sd_created_at = now, sd_last_seen_at = now,
     sd_expires_at = now + timeout\<rparr>"

lemma complete_login_Inr:
  assumes "complete_login env show_id d user i p now token new_id = (d', Inr s)"
  obtains role d1 replaced where "user_role_of (au_role user) = Some role"
    "session_create d (login_draft env user now (ROLE_IDLE_TIMEOUTS role) token new_id)
       (requires_single_session (au_role user)) = Inr (d1, replaced)"
    "auth_sessions d' = auth_sessions d1"
    "login_attempts d' = login_attempts d @
       [\<lparr>la_identity_digest = i, la_ip_digest = p, la_succeeded = True, la_occurred_at = now\<rparr>]"
    "s = \<lparr>is_access_token = token, is_token_type = ''bearer'',
          is_expires_at = now + ROLE_IDLE_TIMEOUTS role, is_user_id = au_id user, is_role = au_role user,
          is_replaced_session = (replaced \<noteq> None), is_preferences = au_preferences user\<rparr>"
proof -
  from assms obtain role where role: "user_role_of (au_role user) = Some role"
    by (auto simp: complete_login_def idle_timeout_for_role_def split: option.splits)
  let ?draft = "login_draft env user now (ROLE_IDLE_TIMEOUTS role) token new_id"
  from assms role obtain d1 replaced where c:
    "session_create d ?draft (requires_single_session (au_role user)) = Inr (d1, replaced)"
    by (auto simp: complete_login_def idle_timeout_for_role_def login_draft_def Let_def split: sum.splits)
  obtain role' where "d1 = d\<lparr>auth_sessions := map (supersede ?draft (requires_single_session (au_role user))) (auth_sessions d) @
      [draft_row ?draft role']\<rparr>" by (rule session_create_Inr[OF c])
  then have "login_attempts d1 = login_attempts d" by simp
  then show ?thesis
    using that[OF role c] assms role c
    by (auto simp: complete_login_def idle_timeout_for_role_def login_draft_def Let_def record_attempt_def
        split: option.splits)
qed

lemma complete_login_Inl:
  "complete_login env show_id d user i p now token new_id = (d', Inl e) \<Longrightarrow>
     d' = d \<and> (e = AuthValueError \<or> e = AuthIntegrityError)"
  by (auto simp: complete_login_def session_create_def Let_def split: option.splits sum.splits prod.splits if_splits)

lemma complete_login_ledger:
  assumes "complete_login env show_id d user i p now token new_id = (d', r)"
    and "auth_sessions_ok (auth_sessions d)"
  shows "auth_sessions_ok (auth_sessions d')" "session_le (auth_sessions d) (auth_sessions d')"
proof (atomize (full), cases r)
  case (Inl e)
  then show "auth_sessions_ok (auth_sessions d') \<and> session_le (auth_sessions d) (auth_sessions d')"
    using assms complete_login_Inl by fastforce
next
  case (Inr s)
  with assms(1) obtain draft d1 replaced single where
    "session_create d draft single = Inr (d1, replaced)" "auth_sessions d' = auth_sessions d1"
    by (auto elim: complete_login_Inr)
  then show "auth_sessions_ok (auth_sessions d') \<and> session_le (auth_sessions d) (auth_sessions d')"
    using session_create_le by simp
qed

definition ledger_step :: "db \<Rightarrow> db \<Rightarrow> bool" where
  "ledger_step d d' \<longleftrightarrow> (auth_sessions_ok (auth_sessions d) \<longrightarrow>
     auth_sessions_ok (auth_sessions d') \<and> session_le (auth_sessions d) (auth_sessions d'))"

lemma ledger_step_same [intro]: "auth_sessions d' = auth_sessions d \<Longrightarrow> ledger_step d d'"
  by (simp add: ledger_step_def)

lemma ledger_step_reject: "reject_login d u i p e now = (d', r) \<Longrightarrow> ledger_step d d'"
  using reject_login_eq by (blast intro: ledger_step_same)

lemma ledger_step_complete: "complete_login env show_id d user i p now token new_id = (d', r) \<Longrightarrow> ledger_step d d'"
  using complete_login_ledger by (simp add: ledger_step_def)

lemma ledger_step_revoke: "auth_sessions d' = auth_sessions (session_revoke d sid reason t) \<Longrightarrow> ledger_step d d'"
  by (simp add: ledger_step_def session_revoke_ok session_revoke_le)

lemma ledger_step_touch: "session_touch d sid seen ex = Inr d' \<Longrightarrow> ledger_step d d'"
  by (simp add: ledger_step_def session_touch_Inr)

lemmas ledger_intros = ledger_step_same ledger_step_reject ledger_step_complete ledger_step_revoke ledger_step_touch

lemma login_with_password_ledger:
  "login_with_password env show_id d email pw ip t now tok i = (d', r) \<Longrightarrow> ledger_step d d'"
  by (auto simp: login_with_password_def Let_def split: option.splits if_splits intro: ledger_intros)

lemma login_with_parent_contact_ledger:
  "login_with_parent_contact env show_id d c pw ip code t now tok i = (d', r) \<Longrightarrow> ledger_step d d'"
  by (auto simp: login_with_parent_contact_def Let_def split: option.splits if_splits list.splits intro: ledger_intros)

lemma login_with_pin_ledger:
  "login_with_pin env show_id d code ident pin ip t now tok i = (d', r) \<Longrightarrow> ledger_step d d'"
  by (auto simp: login_with_pin_def Let_def split: option.splits if_splits intro: ledger_intros)

lemma authenticate_ledger: "authenticate env d tok now = (d', r) \<Longrightarrow> ledger_step d d'"
  by (auto simp: authenticate_def expire_session_def split: option.splits if_splits sum.splits
      intro: ledger_step_same ledger_step_touch ledger_step_revoke)

lemma issue_for_provisioned_user_ledger:
  "issue_for_provisioned_user env show_id d u now tok i = (d', r) \<Longrightarrow> ledger_step d d'"
  by (auto simp: issue_for_provisioned_user_def split: option.splits if_splits intro: ledger_intros)

lemma logout_ledger: "ledger_step d (logout env d tok now)"
  by (auto simp: logout_def split: option.splits intro: ledger_step_same ledger_step_revoke)

lemma refresh_ledger: "refresh env d tok now = (d', r) \<Longrightarrow> ledger_step d d'"
  by (auto simp: refresh_def split: option.splits if_splits sum.splits prod.splits intro: authenticate_ledger)

subsection \<open>Runs of the service\<close>

inductive auth_step :: "auth_env \<Rightarrow> (uuid \<Rightarrow> string) \<Rightarrow> db \<Rightarrow> db \<Rightarrow> bool" for env show_id where
  password: "login_with_password env show_id d email pw ip t now tok i = (d', r) \<Longrightarrow> auth_step env show_id d d'"
| parent: "login_with_parent_contact env show_id d c pw ip code t now tok i = (d', r) \<Longrightarrow> auth_step env show_id d d'"
| pin: "login_with_pin env show_id d code ident pin ip t now tok i = (d', r) \<Longrightarrow> auth_step env show_id d d'"
| authenticate: "authenticate env d tok now = (d', r) \<Longrightarrow> auth_step env show_id d d'"
| provisioned: "issue_for_provisioned_user env show_id d u now tok i = (d', r) \<Longrightarrow> auth_step env show_id d d'"
| logout: "logout env d tok now = d' \<Longrightarrow> auth_step env show_id d d'"
| refresh: "refresh env d tok now = (d', r) \<Longrightarrow> auth_step env show_id d d'"

lemma auth_step_ledger: "auth_step env show_id d d' \<Longrightarrow> ledger_step d d'"
  by (induction rule: auth_step.induct)
    (auto intro: login_with_password_ledger login_with_parent_contact_ledger login_with_pin_ledger
      authenticate_ledger issue_for_provisioned_user_ledger logout_ledger refresh_ledger)

text \<open>
  The contract every writer of the session table keeps: a step preserves the table's constraints and
  neither forgets a session nor rewrites its identity or its revocation.  What follows from it is
  proved once and holds for every set of steps that keeps the contract.
\<close>

locale session_ledger =
  fixes step :: "db \<Rightarrow> db \<Rightarrow> bool"
  assumes step_ledger: "step d d' \<Longrightarrow> ledger_step d d'"
begin

lemma run_ledger:
  assumes "step\<^sup>*\<^sup>* d d'" "auth_sessions_ok (auth_sessions d)"
  shows "auth_sessions_ok (auth_sessions d') \<and> session_le (auth_sessions d) (auth_sessions d')"
  using assms
proof (induction rule: rtranclp_induct)
  case (step y z)
  then show ?case using step_ledger unfolding ledger_step_def by (blast intro: session_le_trans)
qed simp

lemma run_keeps_session:
  assumes "step\<^sup>*\<^sup>* d d'" "auth_sessions_ok (auth_sessions d)"
    and "get_by as_token_digest dig (auth_sessions d) = Some r"
  shows "\<exists>r'. get_by as_token_digest dig (auth_sessions d') = Some r' \<and> session_kept r r'"
  using run_ledger[OF assms(1,2)] session_le_get_by[OF _ _ assms(3)] auth_sessions_okD(2) by blast

lemma revoked_forever:
  assumes "step\<^sup>*\<^sup>* d d'" "auth_sessions_ok (auth_sessions d)"
    and "get_by as_token_digest (token_digest env tok) (auth_sessions d) = Some r" "as_revoked_at r \<noteq> None"
  shows "\<exists>e. authenticate env d' tok now = (d', Inl e)"
proof -
  obtain r' where "get_by as_token_digest (token_digest env tok) (auth_sessions d') = Some r'" "session_kept r r'"
    using run_keeps_session[OF assms(1-3)] by blast
  then show ?thesis using assms(4) by (auto simp: authenticate_def find_by_digest_def session_kept_def)
qed

lemma refused_past_lifetime:
  assumes "step\<^sup>*\<^sup>* d d'" "auth_sessions_ok (auth_sessions d)"
    and "get_by as_token_digest (token_digest env tok) (auth_sessions d) = Some r"
    and "as_created_at r + ROLE_ABSOLUTE_LIFETIMES (as_role r) \<le> now"
  shows "\<exists>d'' e. authenticate env d' tok now = (d'', Inl e)"
proof -
  obtain r' where "get_by as_token_digest (token_digest env tok) (auth_sessions d') = Some r'" "session_kept r r'"
    using run_keeps_session[OF assms(1-3)] by blast
  then show ?thesis using assms(4) by (auto simp: authenticate_def find_by_digest_def session_kept_def)
qed

end

interpretation auth_run: session_ledger "auth_step env show_id" for env show_id
  by unfold_locales (rule auth_step_ledger)

subsection \<open>Counting attempts\<close>

text \<open>
  A run of password sign-in attempts against one address from one place: each attempt carries its
  password, the two clock readings, the token and the identifier it would use.
\<close>

type_synonym guess = "string \<times> datetime \<times> datetime \<times> string \<times> uuid"

fun guess_run :: "auth_env \<Rightarrow> (uuid \<Rightarrow> string) \<Rightarrow> string \<Rightarrow> string \<Rightarrow> db \<Rightarrow> guess list
    \<Rightarrow> (auth_error + issued_session) list" where
  "guess_run env show_id email ip d [] = []"
| "guess_run env show_id email ip d ((pw, t, now, tok, i) # gs) =
     (let (d', r) = login_with_password env show_id d email pw ip t now tok i in
      r # guess_run env show_id email ip d' gs)"

definition email_identity :: "auth_env \<Rightarrow> string \<Rightarrow> string" where
  "email_identity env email = protect_identifier env (''email:'' @ py_strip (py_casefold email))"

definition failures_since :: "datetime \<Rightarrow> string \<Rightarrow> db \<Rightarrow> nat" where
  "failures_since t0 ident d =
     count_where (\<lambda>a. \<not> la_succeeded a \<and> t0 \<le> la_occurred_at a \<and> la_identity_digest a = ident) (login_attempts d)"

lemma failures_since_le_recent:
  "t - LOGIN_WINDOW \<le> t0 \<Longrightarrow> failures_since t0 ident d \<le> length (recent_failures d t ident ip)"
  unfolding failures_since_def recent_failures_def count_where_def[symmetric]
  by (rule count_where_mono) auto

lemma rate_limit_blocks:
  assumes "LOGIN_MAX_FAILURES \<le> length (recent_failures d t ident ip)"
  shows "\<exists>e. rate_limit_check d t ident ip = Some (RateLimitExceededError e)"
  using assms by (auto simp: rate_limit_check_def Let_def LOGIN_MAX_FAILURES_def)

lemma complete_login_attempts_mono:
  assumes "complete_login env show_id d user a b now token i = (d', r)"
  shows "failures_since t0 ident d' = failures_since t0 ident d"
proof (cases r)
  case (Inl e)
  with assms show ?thesis using complete_login_Inl by blast
next
  case (Inr s)
  with assms have "login_attempts d' = login_attempts d @
       [\<lparr>la_identity_digest = a, la_ip_digest = b, la_succeeded = True, la_occurred_at = now\<rparr>]"
    by (auto elim: complete_login_Inr)
  then show ?thesis by (simp add: failures_since_def)
qed

lemma login_with_password_cases:
  assumes "login_with_password env show_id d email pw ip t now tok i = (d', r)"
  obtains (limit) e where "rate_limit_check d t (email_identity env email) (protect_identifier env (''ip:'' @ ip)) = Some e"
      "d' = d" "r = Inl e"
    | (reject) u c where "reject_login d u (email_identity env email) (protect_identifier env (''ip:'' @ ip)) c now = (d', r)"
    | (complete) u where "complete_login env show_id d u (email_identity env email)
        (protect_identifier env (''ip:'' @ ip)) now tok i = (d', r)"
proof (cases "rate_limit_check d t (email_identity env email) (protect_identifier env (''ip:'' @ ip))")
  case (Some e)
  with assms show ?thesis by (intro limit) (auto simp: login_with_password_def email_identity_def)
next
  case None
  note eq = assms[unfolded login_with_password_def Let_def, folded email_identity_def, unfolded None, simplified]
  show ?thesis
  proof (cases "find_by_email d (py_strip (py_casefold email))")
    case None
    with eq show ?thesis by (intro reject) simp
  next
    case (Some u)
    let ?v = "verify_password env (au_password_hash u) pw"
    consider "?v" "is_paused u" | "\<not> (?v \<and> is_paused u)" "\<not> ?v \<or> \<not> can_use_manual_method u ''email_password''"
      | "\<not> (?v \<and> is_paused u)" "?v" "can_use_manual_method u ''email_password''" by blast
    then show ?thesis
    proof cases
      case 1
      with Some eq show ?thesis by (intro reject) simp
    next
      case 2
      with Some eq show ?thesis by (intro reject) auto
    next
      case 3
      with Some eq show ?thesis by (intro complete) simp
    qed
  qed
qed

lemma password_attempt_counts:
  assumes "login_with_password env show_id d email pw ip t now tok i = (d', r)"
    and "t0 \<le> now" "t - LOGIN_WINDOW \<le> t0"
  shows "(r = Inl InvalidCredentialsError \<longrightarrow> failures_since t0 (email_identity env email) d < LOGIN_MAX_FAILURES \<and>
            failures_since t0 (email_identity env email) d' = Suc (failures_since t0 (email_identity env email) d)) \<and>
         failures_since t0 (email_identity env email) d \<le> failures_since t0 (email_identity env email) d'"
proof (cases "LOGIN_MAX_FAILURES \<le> failures_since t0 (email_identity env email) d")
  case True
  then have "LOGIN_MAX_FAILURES \<le> length (recent_failures d t (email_identity env email) (protect_identifier env (''ip:'' @ ip)))"
    using failures_since_le_recent[OF assms(3)] le_trans by blast
  then show ?thesis using assms(1) rate_limit_blocks
    by (fastforce simp: login_with_password_def email_identity_def Let_def)
next
  case False
  have rj: "failures_since t0 a d'' = Suc (failures_since t0 a d)" if "reject_login d u a b c now = (d'', r')" for u a b c d'' r'
    using reject_login_eq[OF that] assms(2) by (simp add: failures_since_def)
  have cl: "failures_since t0 x d = failures_since t0 x d''" if "complete_login env show_id d u a b now tok i = (d'', r')"
    for u a b d'' r' x
    using complete_login_attempts_mono[OF that] by simp
  have rl: "rate_limit_check d t a b \<noteq> Some InvalidCredentialsError" for a b
    by (auto simp: rate_limit_check_def Let_def)
  let ?ident = "email_identity env email" and ?ip = "protect_identifier env (''ip:'' @ ip)"
  consider (limit) e where "rate_limit_check d t ?ident ?ip = Some e" "d' = d" "r = Inl e"
    | (reject) u c where "reject_login d u ?ident ?ip c now = (d', r)"
    | (complete) u where "complete_login env show_id d u ?ident ?ip now tok i = (d', r)"
    using login_with_password_cases[OF assms(1)] unfolding email_identity_def by metis
  then show ?thesis
  proof cases
    case limit
    then show ?thesis using rl by auto
  next
    case reject
    then show ?thesis using rj[OF reject] False by simp
  next
    case complete
    then show ?thesis using cl[OF complete] complete complete_login_Inl by fastforce
  qed
qed

lemma sort_key_hd_minimal:
  assumes "x \<in> set xs"
  shows "\<exists>y ys. sort_key f xs = y # ys \<and> y \<in> set xs \<and> f y \<le> f x"
proof -
  have x: "x \<in> set (sort_key f xs)" using assms by simp
  then obtain y ys where ys: "sort_key f xs = y # ys" by (cases "sort_key f xs") auto
  have "sorted (map f (sort_key f xs))" by simp
  then have "f y \<le> f x" using x ys by auto
  moreover have "y \<in> set xs" using ys by (metis list.set_intros(1) set_sort)
  ultimately show ?thesis using ys by blast
qed

subsection \<open>A sample environment\<close>

text \<open>HMAC and Argon2 replaced by the simplest functions that satisfy the interface.\<close>

definition sample_session :: auth_session_row where
  "sample_session = \<lparr>as_id = 100, as_user_id = 11, as_role = UR_TEACHER, as_token_digest = ''session:tok'',
     as_created_at = 0, as_last_seen_at = 0, as_expires_at = td_minutes 120, as_revoked_at = None,
     as_revocation_reason = None, as_replaced_by_session_id = None\<rparr>"

definition sample_db :: db where
  "sample_db = empty_db\<lparr>schools := [sample_school], users := [sample_student, sample_teacher],
     auth_sessions := [sample_session]\<rparr>"

definition sample_env :: auth_env where
  "sample_env = \<lparr>env_hmac = (\<lambda>s. s), env_password_hmac = (\<lambda>s. s), env_pin_hmac = (\<lambda>s. s),
     env_argon_verify = (=), env_dummy_password_hash = ''-'', env_dummy_pin_hash = ''-''\<rparr>"

text \<open>What the other components need to know about an accepted token: the account behind it is active.\<close>

lemma authenticate_Inr_active:
  "authenticate env d tok now = (d', Inr p) \<Longrightarrow> \<exists>u. find_by_id d (ap_user_id p) = Some u \<and> is_active u"
  by (auto simp: authenticate_def split: option.splits if_splits sum.splits)

lemma deactivated_refused:
  assumes "\<And>u. u \<in> set (users d) \<Longrightarrow> u_id u = st \<Longrightarrow> u_status u = US_DEACTIVATED"
    and "authenticate env d tok t = (d', Inr p)"
  shows "ap_user_id p \<noteq> st"
proof
  assume "ap_user_id p = st"
  then obtain a where a: "find_by_id d st = Some a" "is_active a" using authenticate_Inr_active[OF assms(2)] by auto
  then obtain u where "get_by u_id st (users d) = Some u" by (auto simp: find_by_id_def find_account_def split: option.splits)
  then show False using a assms(1)[of u] get_by_SomeD[of u_id st "users d" u]
    by (auto simp: find_by_id_def find_account_def to_auth_user_def is_active_def Let_def split: if_splits)
qed

subsection \<open>Properties\<close>

text \<open>
  Claim C1.  Whatever \<^verbatim>\<open>authenticate\<close> answers with a principal rests on a stored session for exactly
  that token which is not revoked, has not passed its idle deadline, is younger than the absolute
  lifetime of its role, and whose owner is an active account; and the answer names that session's
  owner and role.
\<close>

theorem authenticate_sound:
  assumes "authenticate env d tok now = (d', Inr p)"
  shows "\<exists>r u. r \<in> set (auth_sessions d) \<and> as_token_digest r = token_digest env tok \<and>
     as_revoked_at r = None \<and> now < as_expires_at r \<and>
     now < as_created_at r + ROLE_ABSOLUTE_LIFETIMES (as_role r) \<and>
     find_by_id d (as_user_id r) = Some u \<and> is_active u \<and>
     p = \<lparr>ap_user_id = as_user_id r, ap_role = user_role_value (as_role r), ap_session_id = as_id r\<rparr>"
  using assms
  by (fastforce simp: authenticate_def find_by_digest_def dest: get_by_SomeD
      split: option.splits if_splits sum.splits)

text \<open>
  A successful \<^verbatim>\<open>authenticate\<close> changes the database in one place only: the session it
  used has its last-seen time set to now and its idle deadline moved to now plus the role's idle
  timeout; every other row of every table is as before.
\<close>

theorem authenticate_slides_deadline:
  assumes "authenticate env d tok now = (d', Inr p)" and "auth_sessions_ok (auth_sessions d)"
  shows "\<exists>r. get_by as_token_digest (token_digest env tok) (auth_sessions d) = Some r \<and>
     ap_session_id p = as_id r \<and>
     d' = d\<lparr>auth_sessions := update_where (\<lambda>x. as_id x = as_id r)
            (\<lambda>x. x\<lparr>as_last_seen_at := now, as_expires_at := now + ROLE_IDLE_TIMEOUTS (as_role r)\<rparr>)
            (auth_sessions d)\<rparr>"
proof -
  from assms(1) obtain r where r: "get_by as_token_digest (token_digest env tok) (auth_sessions d) = Some r"
    "as_revoked_at r = None" "ap_session_id p = as_id r"
    and t: "session_touch d (as_id r) now (now + ROLE_IDLE_TIMEOUTS (as_role r)) = Inr d'"
    by (auto simp: authenticate_def find_by_digest_def split: option.splits if_splits sum.splits)
  have "as_id x = as_id r \<and> as_revoked_at x = None \<longleftrightarrow> as_id x = as_id r" if "x \<in> set (auth_sessions d)" for x
    using auth_sessions_okD(1)[OF assms(2)] that get_by_SomeD[OF r(1)] r(2)
    by (metis distinct_map inj_on_contraD)
  then have "update_where (\<lambda>x. as_id x = as_id r \<and> as_revoked_at x = None) f (auth_sessions d) =
      update_where (\<lambda>x. as_id x = as_id r) f (auth_sessions d)" for f
    by (simp add: update_where_def)
  then show ?thesis using r session_touch_Inr(3)[OF t] by simp
qed

text \<open>
  Claim C2.  A learner is signed in once.  When a sign-in completes for a student account, the
  sessions of that account that are not revoked afterwards are exactly one: the session just issued.
\<close>

theorem student_single_session:
  assumes "complete_login env show_id d user i p now token new_id = (d', Inr s)"
    and "au_role user = ''student''"
  shows "map as_id (filter (\<lambda>r. as_user_id r = au_id user \<and> as_revoked_at r = None) (auth_sessions d')) = [new_id]"
proof -
  obtain role d1 replaced where
    c: "session_create d (login_draft env user now (ROLE_IDLE_TIMEOUTS role) token new_id)
       (requires_single_session (au_role user)) = Inr (d1, replaced)"
    and d': "auth_sessions d' = auth_sessions d1"
    by (rule complete_login_Inr[OF assms(1)])
  have single: "requires_single_session (au_role user)" using assms(2) by (simp add: requires_single_session_def)
  let ?draft = "login_draft env user now (ROLE_IDLE_TIMEOUTS role) token new_id"
  obtain role' where "d1 = d\<lparr>auth_sessions := map (supersede ?draft True) (auth_sessions d) @ [draft_row ?draft role']\<rparr>"
    using session_create_Inr[OF c] single by metis
  moreover have "filter (\<lambda>r. as_user_id r = au_id user \<and> as_revoked_at r = None) (map (supersede ?draft True) rows) = []" for rows
    by (induction rows) (auto simp: supersede_def login_draft_def)
  ultimately show ?thesis using d' by (simp add: draft_row_def login_draft_def)
qed

text \<open>
  A refused sign-in opens no session.  Whatever the reason a password sign-in is refused,
  the session table and the accounts are untouched, and a refusal that reached the credentials
  leaves exactly one more failed attempt, recorded against the identity and the address that tried.
\<close>

theorem refused_login_opens_nothing:
  assumes "login_with_password env show_id d email pw ip t now tok i = (d', Inl e)"
  shows "auth_sessions d' = auth_sessions d \<and> users d' = users d \<and>
     (e = InvalidCredentialsError \<or> e = AccountPausedError \<longrightarrow>
        login_attempts d' = login_attempts d @
          [\<lparr>la_identity_digest = protect_identifier env (''email:'' @ py_strip (py_casefold email)),
            la_ip_digest = protect_identifier env (''ip:'' @ ip), la_succeeded = False, la_occurred_at = now\<rparr>])"
proof -
  have rj: "reject_login d u a b c now = (d', Inl e) \<Longrightarrow> users d' = users d \<and> auth_sessions d' = auth_sessions d \<and>
     login_attempts d' = login_attempts d @
     [\<lparr>la_identity_digest = a, la_ip_digest = b, la_succeeded = False, la_occurred_at = now\<rparr>]" for u a b c
    by (metis fst_conv reject_login_simps(2-4))
  have rl: "rate_limit_check d t a b = Some e' \<Longrightarrow> e' \<noteq> InvalidCredentialsError \<and> e' \<noteq> AccountPausedError" for a b e'
    by (auto simp: rate_limit_check_def Let_def split: if_splits)
  show ?thesis using assms rl
    by (auto simp: login_with_password_def Let_def split: option.splits if_splits dest!: rj dest: complete_login_Inl)
qed

text \<open>
  Claim C4.  Revocation is for good.  If the session of a token is revoked, then after any further
  sequence of sign-ins, requests, refreshes and sign-outs, by anyone, the token is refused and the
  refused request changes nothing.
\<close>

theorem revoked_token_never_returns:
  assumes "(auth_step env show_id)\<^sup>*\<^sup>* d d'" and "auth_sessions_ok (auth_sessions d)"
    and "get_by as_token_digest (token_digest env tok) (auth_sessions d) = Some r" and "as_revoked_at r \<noteq> None"
  shows "\<exists>e. authenticate env d' tok now = (d', Inl e)"
  using assms by (rule auth_run.revoked_forever)

text \<open>
  A session cannot be kept alive by activity.  However often it is used or refreshed, once
  the absolute lifetime of its role has passed since sign-in every request with its token is refused.
\<close>

theorem lifetime_is_absolute:
  assumes "(auth_step env show_id)\<^sup>*\<^sup>* d d'" and "auth_sessions_ok (auth_sessions d)"
    and "get_by as_token_digest (token_digest env tok) (auth_sessions d) = Some r"
    and "as_created_at r + ROLE_ABSOLUTE_LIFETIMES (as_role r) \<le> now"
  shows "\<exists>d'' e. authenticate env d' tok now = (d'', Inl e)"
  using assms by (rule auth_run.refused_past_lifetime)

text \<open>
  A sign-out ends the session: after \<^verbatim>\<open>logout\<close> with a token whose session is live, the
  token is answered as signed out and nothing else about the session table changes.
\<close>

theorem logout_ends_session:
  assumes "get_by as_token_digest (token_digest env tok) (auth_sessions d) = Some r" and "as_revoked_at r = None"
  shows "authenticate env (logout env d tok now) tok now' = (logout env d tok now, Inl SessionRevokedError) \<and>
    auth_sessions (logout env d tok now) =
      update_where (\<lambda>x. as_id x = as_id r \<and> as_revoked_at x = None)
        (\<lambda>x. x\<lparr>as_revoked_at := Some now, as_revocation_reason := Some ''logout''\<rparr>) (auth_sessions d)"
proof -
  have a: "auth_sessions (logout env d tok now) =
      update_where (\<lambda>x. as_id x = as_id r \<and> as_revoked_at x = None)
        (\<lambda>x. x\<lparr>as_revoked_at := Some now, as_revocation_reason := Some ''logout''\<rparr>) (auth_sessions d)"
    using assms by (simp add: logout_def find_by_digest_def session_revoke_def)
  then have "get_by as_token_digest (token_digest env tok) (auth_sessions (logout env d tok now)) =
      Some (r\<lparr>as_revoked_at := Some now, as_revocation_reason := Some ''logout''\<rparr>)"
    using assms by (simp add: get_by_update_where)
  then show ?thesis using a by (simp add: authenticate_def find_by_digest_def)
qed

text \<open>
  An expired session reads as a deliberate sign-out from the second request on: the
  request that finds the session expired is answered \<^verbatim>\<open>SessionExpiredError\<close>, but the revocation it
  writes makes every later request with the same token answer \<^verbatim>\<open>SessionRevokedError\<close>.
\<close>

theorem expiry_then_reads_as_signed_out:
  assumes "authenticate env d tok now = (d', Inl SessionExpiredError)"
  shows "authenticate env d' tok now' = (d', Inl SessionRevokedError)"
proof -
  from assms obtain r reason where r: "get_by as_token_digest (token_digest env tok) (auth_sessions d) = Some r"
    "as_revoked_at r = None" and d': "d' = expire_session d (to_session_record r) reason now"
    and reason: "reason = ''expired'' \<or> reason = ''absolute_lifetime_reached''"
    by (auto simp: authenticate_def find_by_digest_def session_touch_def Let_def split: option.splits if_splits sum.splits)
  have "get_by as_token_digest (token_digest env tok) (auth_sessions d') =
      Some (r\<lparr>as_revoked_at := Some now, as_revocation_reason := Some reason\<rparr>)"
    using r by (simp add: d' expire_session_def session_revoke_def get_by_update_where)
  then show ?thesis using reason by (auto simp: authenticate_def find_by_digest_def)
qed

text \<open>
  The PIN lookup prefers an account without an admission number.  When several accounts of
  a school answer to what a child typed, one of them by its internal handle and with no admission
  number recorded, the lookup returns such an account, even when another child's admission number is
  exactly what was typed.
\<close>

theorem pin_lookup_prefers_missing_admission_number:
  assumes "u \<in> set (pin_candidates d code ident)" and "u_admission_number u = None"
  shows "\<exists>v \<in> set (pin_candidates d code ident).
     find_pin_user d code ident = find_account d (Some v) \<and> u_admission_number v = None"
proof -
  obtain v vs where v: "sort_key (pin_rank ident) (pin_candidates d code ident) = v # vs"
    "v \<in> set (pin_candidates d code ident)" "pin_rank ident v \<le> pin_rank ident u"
    using sort_key_hd_minimal[OF assms(1)] by blast
  then have "u_admission_number v = None" using assms(2) by (auto simp: pin_rank_def split: option.splits if_splits)
  then show ?thesis using v by (auto simp: find_pin_user_def)
qed
subsection \<open>Witnesses\<close>

definition no_ids :: "uuid \<Rightarrow> string" where
  "no_ids i = ''id''"

lemma sample_sessions_ok: "auth_sessions_ok (auth_sessions sample_db)"
  by code_simp

lemma sample_authenticates:
  "snd (authenticate sample_env sample_db ''tok'' 100) = Inr \<lparr>ap_user_id = 11, ap_role = ''teacher'', ap_session_id = 100\<rparr>"
  by code_simp

lemma sample_session_found:
  "get_by as_token_digest (token_digest sample_env ''tok'') (auth_sessions sample_db) = Some sample_session"
  by code_simp

theorem authenticate_sound_witness:
  "\<exists>r u. r \<in> set (auth_sessions sample_db) \<and> as_token_digest r = token_digest sample_env ''tok'' \<and>
     as_revoked_at r = None \<and> 100 < as_expires_at r \<and> find_by_id sample_db (as_user_id r) = Some u \<and> is_active u"
proof -
  have "authenticate sample_env sample_db ''tok'' 100 =
      (fst (authenticate sample_env sample_db ''tok'' 100), Inr \<lparr>ap_user_id = 11, ap_role = ''teacher'', ap_session_id = 100\<rparr>)"
    using sample_authenticates by (metis prod.collapse)
  from authenticate_sound[OF this] show ?thesis by blast
qed

theorem authenticate_slides_deadline_witness:
  "\<exists>r::auth_session_row. fst (authenticate sample_env sample_db ''tok'' 100) = sample_db\<lparr>auth_sessions :=
      update_where (\<lambda>x. as_id x = as_id r)
        (\<lambda>x. x\<lparr>as_last_seen_at := 100, as_expires_at := 100 + ROLE_IDLE_TIMEOUTS (as_role r)\<rparr>)
        (auth_sessions sample_db)\<rparr>"
proof -
  have "authenticate sample_env sample_db ''tok'' 100 =
      (fst (authenticate sample_env sample_db ''tok'' 100), Inr \<lparr>ap_user_id = 11, ap_role = ''teacher'', ap_session_id = 100\<rparr>)"
    using sample_authenticates by (metis prod.collapse)
  from authenticate_slides_deadline[OF this sample_sessions_ok] show ?thesis by blast
qed

definition sample_pupil :: auth_user where
  "sample_pupil = to_auth_user sample_student (Some AM_EMAIL_PASSWORD)"

definition pupil_login :: "db \<times> (auth_error + issued_session)" where
  "pupil_login = complete_login sample_env no_ids sample_db sample_pupil ''i'' ''p'' 0 ''new'' 101"

theorem student_single_session_witness:
  "map as_id (filter (\<lambda>r. as_user_id r = 10 \<and> as_revoked_at r = None) (auth_sessions (fst pupil_login))) = [101]"
proof -
  have "isl (snd pupil_login) = False" by code_simp
  then obtain s where "snd pupil_login = Inr s" by (cases "snd pupil_login") auto
  then have "complete_login sample_env no_ids sample_db sample_pupil ''i'' ''p'' 0 ''new'' 101 = (fst pupil_login, Inr s)"
    unfolding pupil_login_def by (metis prod.collapse)
  moreover have "au_role sample_pupil = ''student''" "au_id sample_pupil = 10" by code_simp+
  ultimately show ?thesis using student_single_session by fastforce
qed

theorem refused_login_opens_nothing_witness:
  "auth_sessions (fst (login_with_password sample_env no_ids sample_db ''T@b.ng'' ''wrong'' ''1.1.1.1'' 0 0 ''n'' 101)) =
     auth_sessions sample_db"
proof -
  let ?r = "login_with_password sample_env no_ids sample_db ''T@b.ng'' ''wrong'' ''1.1.1.1'' 0 0 ''n'' 101"
  have "snd ?r = Inl InvalidCredentialsError" by code_simp
  then have "?r = (fst ?r, Inl InvalidCredentialsError)" by (metis prod.collapse)
  from refused_login_opens_nothing[OF this] show ?thesis by blast
qed


definition signed_out_db :: db where
  "signed_out_db = logout sample_env sample_db ''tok'' 50"

definition later_db :: db where
  "later_db = fst (authenticate sample_env signed_out_db ''other'' 60)"

theorem revoked_token_never_returns_witness:
  "\<exists>e. authenticate sample_env later_db ''tok'' 70 = (later_db, Inl e)"
proof (rule revoked_token_never_returns)
  show "(auth_step sample_env no_ids)\<^sup>*\<^sup>* signed_out_db later_db"
    unfolding later_db_def by (rule r_into_rtranclp) (metis auth_step.authenticate prod.collapse)
  show "auth_sessions_ok (auth_sessions signed_out_db)" by code_simp
  show "get_by as_token_digest (token_digest sample_env ''tok'') (auth_sessions signed_out_db) =
      Some (sample_session\<lparr>as_revoked_at := Some 50, as_revocation_reason := Some ''logout''\<rparr>)" by code_simp
qed simp

theorem lifetime_is_absolute_witness:
  "\<exists>d'' e. authenticate sample_env (fst (refresh sample_env sample_db ''tok'' 60)) ''tok'' (td_hours 14) = (d'', Inl e)"
proof (rule lifetime_is_absolute)
  show "(auth_step sample_env no_ids)\<^sup>*\<^sup>* sample_db (fst (refresh sample_env sample_db ''tok'' 60))"
    by (rule r_into_rtranclp) (metis auth_step.refresh prod.collapse)
  show "as_created_at sample_session + ROLE_ABSOLUTE_LIFETIMES (as_role sample_session) \<le> td_hours 14"
    by (simp add: sample_session_def)
qed (rule sample_sessions_ok sample_session_found)+

theorem logout_ends_session_witness:
  "authenticate sample_env (logout sample_env sample_db ''tok'' 50) ''tok'' 51 =
     (logout sample_env sample_db ''tok'' 50, Inl SessionRevokedError)"
  using logout_ends_session[OF sample_session_found] by (simp add: sample_session_def)

theorem expiry_then_reads_as_signed_out_witness:
  "snd (authenticate sample_env (fst (authenticate sample_env sample_db ''tok'' (td_hours 3))) ''tok'' (td_hours 4)) =
     Inl SessionRevokedError"
proof -
  let ?r = "authenticate sample_env sample_db ''tok'' (td_hours 3)"
  have "snd ?r = Inl SessionExpiredError" by code_simp
  then have "?r = (fst ?r, Inl SessionExpiredError)" by (metis prod.collapse)
  from expiry_then_reads_as_signed_out[OF this] show ?thesis by simp
qed

text \<open>
  Two pupils of one school: one whose admission number is \<^verbatim>\<open>a1\<close>, and one without an admission number
  whose internal handle is \<^verbatim>\<open>a1\<close>.
\<close>

definition collision_db :: db where
  "collision_db = sample_db\<lparr>users := [sample_student, sample_handle]\<rparr>"

theorem pin_lookup_prefers_missing_admission_number_witness:
  "sample_student \<in> set (pin_candidates collision_db ''ab23'' ''a1'') \<and> u_admission_number sample_student = Some ''a1'' \<and>
   (\<exists>v. find_pin_user collision_db ''ab23'' ''a1'' = find_account collision_db (Some v) \<and> u_admission_number v = None)"
proof -
  have c: "pin_candidates collision_db ''ab23'' ''a1'' = [sample_student, sample_handle]" by code_simp
  have n: "u_admission_number sample_handle = None" by code_simp
  have "u_admission_number sample_student = Some ''a1''" by code_simp
  then show ?thesis
    using pin_lookup_prefers_missing_admission_number[of sample_handle collision_db "''ab23''" "''a1''"] c n by auto
qed
end
