(* ===== verification/Access.thy ===== *)
theory Access
  imports Auth
begin

text \<open>
  Who a request acts for and what that person may reach (\<^verbatim>\<open>nevo/api/product_common.py\<close>,
  \<^verbatim>\<open>nevo/api/request_context.py\<close>, \<^verbatim>\<open>nevo/access.py\<close> and the two gates of \<^verbatim>\<open>nevo/api/learning_support.py\<close>).
  An \<^verbatim>\<open>HTTPException\<close> is a status and the code (or the text) of its detail; the request of the context
  variable is an argument.  The properties are tenant isolation, that an administrator with an unconfirmed
  address writes nothing, and how the two rules for which learners a teacher reaches compare.
\<close>

datatype http_error = HTTPException nat string

record request_facts =
  rq_method :: string
  rq_path :: string

definition WRITE_METHODS :: "string list" where
  "WRITE_METHODS = [''POST'', ''PUT'', ''PATCH'', ''DELETE'']"

definition writes :: "request_facts \<Rightarrow> bool" where
  "writes rq = (py_upper (rq_method rq) \<in> set WRITE_METHODS)"

subsection \<open>The acting user\<close>

definition UNCONFIRMED_WRITE_ALLOWLIST :: "string list" where
  "UNCONFIRMED_WRITE_ALLOWLIST = [''/api/v1/admin/email-confirmation'', ''/api/v1/admin/email'', ''/api/v1/auth'']"

definition ADMIN_ROLES :: "string list" where
  "ADMIN_ROLES = [''senco_admin'', ''other_admin'']"

definition refuse_unconfirmed_write :: "request_facts option \<Rightarrow> string \<Rightarrow> bool \<Rightarrow> http_error + unit" where
  "refuse_unconfirmed_write request role email_confirmed =
     (if email_confirmed \<or> role \<notin> set ADMIN_ROLES then Inr ()
      else case request of
             None \<Rightarrow> Inr ()
           | Some rq \<Rightarrow>
               if \<not> writes rq then Inr ()
               else if py_startswith (rq_path rq) UNCONFIRMED_WRITE_ALLOWLIST then Inr ()
               else Inl (HTTPException 403 ''email_not_confirmed''))"

definition actor_user :: "request_facts option \<Rightarrow> db \<Rightarrow> auth_principal \<Rightarrow> http_error + user_row" where
  "actor_user request d p =
     (case get_by u_id (ap_user_id p) (users d) of
        None \<Rightarrow> Inl (HTTPException 401 ''Account unavailable'')
      | Some u \<Rightarrow>
          (case refuse_unconfirmed_write request (user_role_value (u_role u)) (u_email_confirmed_at u \<noteq> None) of
             Inl e \<Rightarrow> Inl e | Inr _ \<Rightarrow> Inr u))"

definition require_school_actor ::
  "request_facts option \<Rightarrow> db \<Rightarrow> auth_principal \<Rightarrow> string list \<Rightarrow> http_error + user_row" where
  "require_school_actor request d p roles =
     (case actor_user request d p of
        Inl e \<Rightarrow> Inl e
      | Inr u \<Rightarrow>
          if u_school_id u = None then Inl (HTTPException 403 ''School context required'')
          else if roles \<noteq> [] \<and> user_role_value (u_role u) \<notin> set roles
          then Inl (HTTPException 403 ''Role is not permitted'')
          else Inr u)"

subsection \<open>The teaching scope of an administrator\<close>

definition holds_teacher_scope :: "db \<Rightarrow> user_row \<Rightarrow> bool" where
  "holds_teacher_scope d u =
     exists_where (\<lambda>a. ad_user_id a = u_id u \<and> Some (ad_school_id a) = u_school_id u \<and>
        exists_where (\<lambda>s. sa_admin_id s = ad_id a \<and> sa_scope s = SCOPE_TEACHER \<and> sa_revoked_at s = None)
          (scope_assignments d)) (admins d)"

definition require_teacher_console_actor ::
  "request_facts option \<Rightarrow> db \<Rightarrow> auth_principal \<Rightarrow> http_error + user_row" where
  "require_teacher_console_actor request d p =
     (case require_school_actor request d p [] of
        Inl e \<Rightarrow> Inl e
      | Inr u \<Rightarrow>
          if user_role_value (u_role u) = ''teacher'' then Inr u
          else if user_role_value (u_role u) \<notin> set ADMIN_ROLES then Inl (HTTPException 403 ''teacher_scope_required'')
          else if \<not> holds_teacher_scope d u then Inl (HTTPException 403 ''teacher_scope_required'')
          else Inr u)"

definition can_be_class_teacher :: "db \<Rightarrow> user_row \<Rightarrow> bool" where
  "can_be_class_teacher d u =
     (if user_role_value (u_role u) = ''teacher'' then True
      else if user_role_value (u_role u) \<notin> set ADMIN_ROLES \<or> user_status_value (u_status u) \<noteq> ''active'' then False
      else holds_teacher_scope d u)"

definition require_teacher_console_class :: "db \<Rightarrow> user_row \<Rightarrow> uuid \<Rightarrow> http_error + unit" where
  "require_teacher_console_class d actor class_id =
     (if exists_where (\<lambda>t. tca_class_id t = class_id \<and> tca_teacher_id t = u_id actor \<and>
           Some (tca_school_id t) = u_school_id actor \<and> tca_removed_at t = None) (teacher_class_assignments d)
      then Inr () else Inl (HTTPException 404 ''class_not_assigned''))"

definition require_school_resource ::
  "request_facts option \<Rightarrow> db \<Rightarrow> auth_principal \<Rightarrow> uuid option \<Rightarrow> http_error + user_row" where
  "require_school_resource request d p resource_school_id =
     (case require_school_actor request d p [] of
        Inl e \<Rightarrow> Inl e
      | Inr u \<Rightarrow>
          if resource_school_id \<noteq> None \<and> u_school_id u \<noteq> resource_school_id
          then Inl (HTTPException 404 ''Resource not found'') else Inr u)"

subsection \<open>Learning support\<close>

definition LEARNING_SUPPORT_ROLES :: "user_role list" where
  "LEARNING_SUPPORT_ROLES = [UR_TEACHER, UR_OTHER_ADMIN, UR_SENCO_ADMIN]"

definition holds_learning_support :: "db \<Rightarrow> user_row \<Rightarrow> bool" where
  "holds_learning_support d user =
     exists_where (\<lambda>g. Some (lg_school_id g) = u_school_id user \<and> lg_holder_user_id g = u_id user \<and>
        lg_revoked_at g = None \<and>
        exists_where (\<lambda>u. u_id u = lg_holder_user_id g \<and> u_school_id u = u_school_id user \<and> u_school_id u \<noteq> None \<and>
           u_status u = US_ACTIVE \<and> u_role u \<in> set LEARNING_SUPPORT_ROLES) (users d)) (learning_support_grants d)"

definition require_learning_support :: "db \<Rightarrow> user_row \<Rightarrow> http_error + unit" where
  "require_learning_support d user =
     (if holds_learning_support d user then Inr () else Inl (HTTPException 403 ''learning_support_role_required''))"

definition require_learning_support_if_admin :: "db \<Rightarrow> user_row \<Rightarrow> http_error + unit" where
  "require_learning_support_if_admin d user =
     (if user_role_value (u_role user) \<in> set ADMIN_ROLES then require_learning_support d user else Inr ())"

subsection \<open>Learners and classes\<close>

text \<open>The join both rules use: a current assignment of the teacher to a class the learner is enrolled in.\<close>

definition teaches_student :: "db \<Rightarrow> uuid \<Rightarrow> uuid \<Rightarrow> bool" where
  "teaches_student d teacher student =
     exists_where (\<lambda>t. tca_teacher_id t = teacher \<and> tca_removed_at t = None \<and>
        exists_where (\<lambda>e. en_class_id e = tca_class_id t \<and> en_student_id e = student) (enrollments d))
       (teacher_class_assignments d)"

definition can_access_student :: "db \<Rightarrow> user_row \<Rightarrow> uuid \<Rightarrow> bool" where
  "can_access_student d actor student_id =
     (if u_id actor = student_id then True
      else case get_by u_id student_id (users d) of
             None \<Rightarrow> False
           | Some student \<Rightarrow>
               if u_school_id student \<noteq> u_school_id actor then False
               else if user_role_value (u_role actor) \<in> {''senco_admin'', ''other_admin''} then True
               else if user_role_value (u_role actor) \<noteq> ''teacher'' then False
               else if holds_learning_support d actor then True
               else teaches_student d (u_id actor) student_id)"

definition require_student_access ::
  "request_facts option \<Rightarrow> db \<Rightarrow> auth_principal \<Rightarrow> uuid \<Rightarrow> http_error + user_row" where
  "require_student_access request d p student_id =
     (case actor_user request d p of
        Inl e \<Rightarrow> Inl e
      | Inr actor \<Rightarrow>
          if can_access_student d actor student_id then Inr actor
          else Inl (HTTPException 404 ''Student not found''))"

text \<open>\<^verbatim>\<open>require_class_access\<close> once the actor is known; \<^verbatim>\<open>principal_class_access\<close> resolves a principal first.\<close>

definition require_class_access :: "db \<Rightarrow> user_row \<Rightarrow> uuid \<Rightarrow> http_error + class_row" where
  "require_class_access d actor class_id =
     (case get_by cl_id class_id (classes d) of
        None \<Rightarrow> Inl (HTTPException 404 ''Class not found'')
      | Some c \<Rightarrow>
          if Some (cl_school_id c) \<noteq> u_school_id actor then Inl (HTTPException 404 ''Class not found'')
          else if user_role_value (u_role actor) = ''teacher'' \<and>
                  \<not> exists_where (\<lambda>t. tca_class_id t = class_id \<and> tca_teacher_id t = u_id actor \<and>
                        tca_removed_at t = None) (teacher_class_assignments d)
          then Inl (HTTPException 404 ''Class not found'')
          else Inr c)"

definition principal_class_access ::
  "request_facts option \<Rightarrow> db \<Rightarrow> auth_principal \<Rightarrow> uuid \<Rightarrow> http_error + class_row" where
  "principal_class_access request d p class_id =
     (case require_school_actor request d p [] of
        Inl e \<Rightarrow> Inl e | Inr actor \<Rightarrow> require_class_access d actor class_id)"

definition covered_by_a_current_invoice :: "db \<Rightarrow> uuid \<Rightarrow> datetime \<Rightarrow> bool" where
  "covered_by_a_current_invoice d school_id now =
     (let rows = filter (\<lambda>i. inv_school_id i = school_id) (invoices d) in
      if rows = [] then True
      else \<not> list_ex (\<lambda>i. inv_status i \<noteq> IS_PAID \<and> inv_due_at i < utc_date now) rows)"

definition accessible_students :: "db \<Rightarrow> user_row \<Rightarrow> user_row list" where
  "accessible_students d actor =
     (if u_role actor = UR_STUDENT then [actor]
      else if u_school_id actor = None then []
      else filter (\<lambda>u. u_school_id u = u_school_id actor \<and> u_role u = UR_STUDENT \<and> u_status u \<noteq> US_DEACTIVATED \<and>
             (u_role actor = UR_TEACHER \<longrightarrow> teaches_student d (u_id actor) (u_id u))) (users d))"

text \<open>The class list is ordered by name under the database's collation, which is a parameter.\<close>

definition accessible_classes :: "(string \<Rightarrow> 'a::linorder) \<Rightarrow> db \<Rightarrow> user_row \<Rightarrow> class_row list" where
  "accessible_classes collate d actor =
     (if u_school_id actor = None \<or> u_role actor = UR_STUDENT then []
      else sort_key (\<lambda>c. collate (cl_name c))
        (filter (\<lambda>c. Some (cl_school_id c) = u_school_id actor \<and> cl_archived_at c = None \<and>
           (u_role actor = UR_TEACHER \<longrightarrow>
              exists_where (\<lambda>t. tca_class_id t = cl_id c \<and> tca_teacher_id t = u_id actor \<and> tca_removed_at t = None)
                (teacher_class_assignments d))) (classes d)))"

subsection \<open>Lemmas\<close>

lemma user_role_value_eqs [simp]:
  "user_role_value r = ''student'' \<longleftrightarrow> r = UR_STUDENT"
  "user_role_value r = ''teacher'' \<longleftrightarrow> r = UR_TEACHER"
  "user_role_value r = ''senco_admin'' \<longleftrightarrow> r = UR_SENCO_ADMIN"
  "user_role_value r = ''other_admin'' \<longleftrightarrow> r = UR_OTHER_ADMIN"
  "user_role_value r = ''parent_guardian'' \<longleftrightarrow> r = UR_PARENT_GUARDIAN"
  by (cases r; simp)+

lemma role_in_ADMIN_ROLES [simp]: "user_role_value r \<in> set ADMIN_ROLES \<longleftrightarrow> r = UR_SENCO_ADMIN \<or> r = UR_OTHER_ADMIN"
  by (simp add: ADMIN_ROLES_def)

lemma actor_user_Inr:
  assumes "actor_user rq d p = Inr u"
  shows "u \<in> set (users d)" "u_id u = ap_user_id p"
  using assms by (auto simp: actor_user_def split: option.splits sum.splits dest: get_by_SomeD)

lemma require_school_actor_Inr:
  assumes "require_school_actor rq d p roles = Inr u"
  shows "u \<in> set (users d)" "u_id u = ap_user_id p" "u_school_id u \<noteq> None" "roles \<noteq> [] \<Longrightarrow> user_role_value (u_role u) \<in> set roles"
  using assms by (auto simp: require_school_actor_def split: sum.splits if_splits dest: actor_user_Inr)

lemma unconfirmed_actor:
  assumes "get_by u_id (ap_user_id p) (users d) = Some u" "u_role u \<in> {UR_SENCO_ADMIN, UR_OTHER_ADMIN}"
    "u_email_confirmed_at u = None" "writes rq" "\<not> py_startswith (rq_path rq) UNCONFIRMED_WRITE_ALLOWLIST"
  shows "actor_user (Some rq) d p = Inl (HTTPException 403 ''email_not_confirmed'')"
  using assms by (auto simp: actor_user_def refuse_unconfirmed_write_def)

text \<open>
  A class is opened only inside the actor's school, to administrators or to a teacher with a
  current assignment to it; a teacher whose assignment was removed is answered as if the class did
  not exist.
\<close>

lemma require_class_access_Inr:
  assumes "require_class_access d actor class_id = Inr c"
  shows "c \<in> set (classes d)" "cl_id c = class_id" "u_school_id actor = Some (cl_school_id c)"
    "u_role actor = UR_TEACHER \<Longrightarrow>
      \<exists>t \<in> set (teacher_class_assignments d). tca_class_id t = class_id \<and> tca_teacher_id t = u_id actor \<and> tca_removed_at t = None"
  using assms by (auto simp: require_class_access_def split: if_splits option.splits dest: get_by_SomeD)

lemma class_access_needs_assignment:
  assumes "principal_class_access rq d p class_id = Inr c"
  shows "\<exists>actor \<in> set (users d). u_id actor = ap_user_id p \<and> cl_id c = class_id \<and> u_school_id actor = Some (cl_school_id c) \<and>
    (u_role actor = UR_TEACHER \<longrightarrow>
      (\<exists>t \<in> set (teacher_class_assignments d). tca_class_id t = class_id \<and> tca_teacher_id t = u_id actor \<and> tca_removed_at t = None))"
proof -
  obtain actor where a: "require_school_actor rq d p [] = Inr actor" "require_class_access d actor class_id = Inr c"
    using assms by (auto simp: principal_class_access_def split: sum.splits)
  show ?thesis
    using require_school_actor_Inr(1,2)[OF a(1)] require_class_access_Inr(2,3,4)[OF a(2)] by metis
qed

subsection \<open>Properties\<close>

text \<open>
  An administrator who has not confirmed their address writes nothing: whichever of the entry
  points a handler uses, a request with a writing method to a path outside the three exempt ones is
  refused with \<^verbatim>\<open>email_not_confirmed\<close>.
\<close>

theorem unconfirmed_admin_writes_nothing:
  assumes "get_by u_id (ap_user_id p) (users d) = Some u" and "u_role u \<in> {UR_SENCO_ADMIN, UR_OTHER_ADMIN}"
    and "u_email_confirmed_at u = None"
    and "writes rq" and "\<not> py_startswith (rq_path rq) UNCONFIRMED_WRITE_ALLOWLIST"
  shows "require_school_actor (Some rq) d p roles = Inl (HTTPException 403 ''email_not_confirmed'') \<and>
    require_teacher_console_actor (Some rq) d p = Inl (HTTPException 403 ''email_not_confirmed'') \<and>
    require_school_resource (Some rq) d p resource = Inl (HTTPException 403 ''email_not_confirmed'') \<and>
    require_student_access (Some rq) d p student = Inl (HTTPException 403 ''email_not_confirmed'') \<and>
    principal_class_access (Some rq) d p cls = Inl (HTTPException 403 ''email_not_confirmed'')"
  using unconfirmed_actor[OF assms]
  by (simp add: require_school_actor_def require_teacher_console_actor_def require_school_resource_def
    require_student_access_def principal_class_access_def)

text \<open>
  Claim C12.  Nobody reaches into another school.  A learner opened through \<^verbatim>\<open>require_student_access\<close> is the
  actor or belongs to the actor's school, and then the actor is an administrator, or a teacher who holds
  learning support there or currently teaches a class the learner is in.
\<close>

theorem student_access_stays_in_school:
  assumes "require_student_access rq d p student_id = Inr actor"
  shows "u_id actor = ap_user_id p \<and>
    (student_id = u_id actor \<or>
     (\<exists>s. get_by u_id student_id (users d) = Some s \<and> u_school_id s = u_school_id actor \<and>
        (u_role actor \<in> {UR_SENCO_ADMIN, UR_OTHER_ADMIN} \<or>
         u_role actor = UR_TEACHER \<and> (holds_learning_support d actor \<or> teaches_student d (u_id actor) student_id))))"
  using assms
  by (auto simp: require_student_access_def can_access_student_def split: sum.splits if_splits option.splits
    dest: actor_user_Inr)

text \<open>
  The two rules for which learners a member of staff may see agree: every learner
  \<^verbatim>\<open>accessible_students\<close> lists is one \<^verbatim>\<open>can_access_student\<close> opens, and for a teacher without a learning
  support grant the list is exactly the learners of the school, not deactivated, that the gate opens.
\<close>

theorem listed_learners_are_reachable:
  assumes "distinct (map u_id (users d))" and "actor \<in> set (users d)"
    and "u_role actor \<in> {UR_TEACHER, UR_SENCO_ADMIN, UR_OTHER_ADMIN}"
  shows "(\<forall>s \<in> set (accessible_students d actor). can_access_student d actor (u_id s)) \<and>
    (u_role actor = UR_TEACHER \<and> \<not> holds_learning_support d actor \<and> u_school_id actor \<noteq> None \<longrightarrow>
     (\<forall>s \<in> set (users d). u_role s = UR_STUDENT \<and> u_status s \<noteq> US_DEACTIVATED \<longrightarrow>
        (s \<in> set (accessible_students d actor) \<longleftrightarrow> can_access_student d actor (u_id s))))"
proof -
  have row: "get_by u_id (u_id s) (users d) = Some s" if "s \<in> set (users d)" for s
    using get_by_in[OF assms(1) that] .
  have other: "u_id actor \<noteq> u_id s" if "s \<in> set (users d)" "u_role s = UR_STUDENT" for s
    using row[OF that(1)] row[OF assms(2)] that(2) assms(3) by force
  have gate: "can_access_student d actor (u_id s) \<longleftrightarrow> u_school_id s = u_school_id actor \<and>
      (u_role actor = UR_TEACHER \<longrightarrow> holds_learning_support d actor \<or> teaches_student d (u_id actor) (u_id s))"
    if "s \<in> set (users d)" "u_role s = UR_STUDENT" for s
    unfolding can_access_student_def row[OF that(1)] using other[OF that] assms(3) by auto
  have listed: "s \<in> set (accessible_students d actor) \<longleftrightarrow> s \<in> set (users d) \<and> u_role s = UR_STUDENT \<and>
      u_school_id actor \<noteq> None \<and> u_school_id s = u_school_id actor \<and> u_status s \<noteq> US_DEACTIVATED \<and>
      (u_role actor = UR_TEACHER \<longrightarrow> teaches_student d (u_id actor) (u_id s))" for s
    unfolding accessible_students_def using assms(3) by auto
  show ?thesis using gate by (auto simp: Ball_def listed)
qed

text \<open>
  For a parent the same listing is not bounded by what they may see: an account with the parent
  role is listed every learner of the school who is not deactivated, although \<^verbatim>\<open>can_access_student\<close>
  opens none of them.
\<close>

theorem parent_is_listed_the_whole_school:
  assumes "u_role actor = UR_PARENT_GUARDIAN" and "u_school_id actor = Some school"
    and "s \<in> set (users d)" and "u_role s = UR_STUDENT" and "u_school_id s = Some school"
    and "u_status s \<noteq> US_DEACTIVATED" and "u_id s \<noteq> u_id actor"
  shows "s \<in> set (accessible_students d actor) \<and> \<not> can_access_student d actor (u_id s)"
  using assms by (auto simp: accessible_students_def can_access_student_def split: option.splits)

subsection \<open>Witnesses\<close>

definition access_admin :: user_row where
  "access_admin = (new_user 15 (Some 1) UR_OTHER_ADMIN AM_EMAIL_PASSWORD)\<lparr>u_email := Some ''a@b.ng''\<rparr>"

definition access_parent :: user_row where
  "access_parent = (new_user 16 (Some 1) UR_PARENT_GUARDIAN AM_EMAIL_PASSWORD)\<lparr>u_email := Some ''p@b.ng''\<rparr>"

definition access_db :: db where
  "access_db = empty_db\<lparr>schools := [sample_school], users := [sample_student, sample_teacher, access_admin, access_parent],
     enrollments := [\<lparr>en_id = 1, en_student_id = 10, en_class_id = 5\<rparr>],
     teacher_class_assignments := [\<lparr>tca_id = 1, tca_school_id = 1, tca_school_subject_id = None, tca_teacher_id = 11,
       tca_class_id = 5, tca_role = TR_PRIMARY, tca_source = TS_MANUAL, tca_source_reference = None,
       tca_assigned_by_user_id = None, tca_assigned_at = 0, tca_removed_at = None, tca_replaced_by_assignment_id = None\<rparr>]\<rparr>"

theorem unconfirmed_admin_writes_nothing_witness:
  "require_school_actor (Some \<lparr>rq_method = ''post'', rq_path = ''/api/v1/classes''\<rparr>) access_db
     \<lparr>ap_user_id = 15, ap_role = ''other_admin'', ap_session_id = 1\<rparr> [] = Inl (HTTPException 403 ''email_not_confirmed'')"
proof -
  let ?rq = "\<lparr>rq_method = ''post'', rq_path = ''/api/v1/classes''\<rparr>"
  let ?p = "\<lparr>ap_user_id = 15, ap_role = ''other_admin'', ap_session_id = 1\<rparr>"
  have 1: "get_by u_id (ap_user_id ?p) (users access_db) = Some access_admin" by code_simp
  have 2: "u_role access_admin \<in> {UR_SENCO_ADMIN, UR_OTHER_ADMIN}" by code_simp
  have 3: "u_email_confirmed_at access_admin = None" by code_simp
  have 4: "writes ?rq" by code_simp
  have 5: "\<not> py_startswith (rq_path ?rq) UNCONFIRMED_WRITE_ALLOWLIST" by code_simp
  show ?thesis using unconfirmed_admin_writes_nothing[OF 1 2 3 4 5] by blast
qed

theorem student_access_stays_in_school_witness:
  "teaches_student access_db 11 10"
proof -
  let ?p = "\<lparr>ap_user_id = 11, ap_role = ''teacher'', ap_session_id = 1\<rparr>"
  have 1: "require_student_access None access_db ?p 10 = Inr sample_teacher" by code_simp
  have 2: "u_id sample_teacher = 11" "u_role sample_teacher = UR_TEACHER" "\<not> holds_learning_support access_db sample_teacher"
    by code_simp+
  show ?thesis using student_access_stays_in_school[OF 1] 2 by auto
qed

theorem listed_learners_are_reachable_witness:
  "sample_student \<in> set (accessible_students access_db sample_teacher)"
proof -
  have 1: "distinct (map u_id (users access_db))" by code_simp
  have 2: "sample_teacher \<in> set (users access_db)" by (simp add: access_db_def)
  have 3: "u_role sample_teacher \<in> {UR_TEACHER, UR_SENCO_ADMIN, UR_OTHER_ADMIN}" by code_simp
  have 4: "u_role sample_teacher = UR_TEACHER" "\<not> holds_learning_support access_db sample_teacher" "u_school_id sample_teacher \<noteq> None"
    "u_role sample_student = UR_STUDENT" "u_status sample_student \<noteq> US_DEACTIVATED"
    "can_access_student access_db sample_teacher (u_id sample_student)" by code_simp+
  have 5: "sample_student \<in> set (users access_db)" by (simp add: access_db_def)
  show ?thesis using listed_learners_are_reachable[OF 1 2 3] 4 5 by blast
qed

theorem parent_is_listed_the_whole_school_witness:
  "sample_student \<in> set (accessible_students access_db access_parent)"
proof -
  have 1: "u_role access_parent = UR_PARENT_GUARDIAN" "u_school_id access_parent = Some 1"
    "u_role sample_student = UR_STUDENT" "u_school_id sample_student = Some 1"
    "u_status sample_student \<noteq> US_DEACTIVATED" "u_id sample_student \<noteq> u_id access_parent" by code_simp+
  have 2: "sample_student \<in> set (users access_db)" by (simp add: access_db_def)
  show ?thesis using parent_is_listed_the_whole_school[OF 1(1,2) 2 1(3,4,5,6)] by blast
qed

end
