(* ===== verification/AgeAssurance.thy ===== *)
theory AgeAssurance
  imports Access
begin

text \<open>
  Age assurance: the school's date of birth beside the parent's, and the hold that follows when they
  disagree (\<^verbatim>\<open>nevo/consent/age_assurance.py\<close> and the writing handlers of \<^verbatim>\<open>nevo/api/age_checks.py\<close>).
  \<^verbatim>\<open>age_check_blocks\<close>, which sign-in asks, is in theory \<open>Auth\<close>.  A check and a student are rows the code
  mutates and the session writes back; here they are passed along and stored with \<open>put_check\<close> and
  \<open>put_user\<close>.  The SQL triggers that move a learner's deletion deadline are not modelled.
\<close>

subsection \<open>Comparing the dates\<close>

text \<open>
  \<^verbatim>\<open>date.replace(year=...)\<close> raises for 29 February of a common year, and the source falls back to the 28th.
\<close>

definition two_years_on :: "date \<Rightarrow> date" where
  "two_years_on d =
     (let same_day = Date (date_year d + 2) (date_month d) (date_day d) in
      if valid_date same_day then same_day else Date (date_year d + 2) (date_month d) 28)"

definition discrepancy_exceeds_two_years :: "date \<Rightarrow> date \<Rightarrow> bool" where
  "discrepancy_exceeds_two_years a b =
     (let earlier = min a b; later = max a b in
      if 9997 < date_year earlier then False else two_years_on earlier < later)"

definition capture_band :: "db \<Rightarrow> age_check_row \<Rightarrow> date \<Rightarrow> age_check_row" where
  "capture_band d check today =
     (let years = [cl_year_group c. e \<leftarrow> enrollments d, en_student_id e = ac_student_id check,
                     c \<leftarrow> classes d, cl_id c = en_class_id e, cl_school_id c = ac_school_id check];
          bands = remdups (map band_for_year_group years) in
      check\<lparr>ac_enrolled_age_band := (case bands of [Some b] \<Rightarrow> Some (age_band_value b) | _ \<Rightarrow> None),
            ac_band_checked_on := Some today\<rparr>)"

definition outside_band :: "date \<Rightarrow> string \<Rightarrow> date \<Rightarrow> bool" where
  "outside_band today band born =
     (case age_on (Some born) today of
        None \<Rightarrow> False
      | Some a \<Rightarrow> a < 0 \<or> map_option age_band_value (band_for_age (Some a)) \<noteq> Some band)"

definition blocking_reasons :: "age_check_row \<Rightarrow> string list" where
  "blocking_reasons check =
     (if ac_school_date_of_birth check = None \<or> ac_parent_date_of_birth check = None then [''date_missing''] else []) @
     (if ac_enrolled_age_band check = None then [''enrolled_age_band_unavailable''] else []) @
     (case (ac_school_date_of_birth check, ac_parent_date_of_birth check) of
        (Some school, Some parent) \<Rightarrow>
          (if discrepancy_exceeds_two_years school parent then [''date_gap_exceeds_two_years''] else []) @
          (case (ac_band_checked_on check, ac_enrolled_age_band check) of
             (Some today, Some band) \<Rightarrow>
               if outside_band today band school \<or> outside_band today band parent
               then [''outside_enrolled_age_band''] else []
           | _ \<Rightarrow> [])
      | _ \<Rightarrow> [])"

definition blocks_access :: "age_check_row \<Rightarrow> bool" where
  "blocks_access check = (ac_state check = AC_MISMATCH)"

subsection \<open>Rows\<close>

definition put_check :: "age_check_row \<Rightarrow> db \<Rightarrow> db" where
  "put_check c d = d\<lparr>age_checks :=
     (if exists_where (\<lambda>r. ac_id r = ac_id c) (age_checks d)
      then update_where (\<lambda>r. ac_id r = ac_id c) (\<lambda>_. c) (age_checks d) else age_checks d @ [c])\<rparr>"

definition put_user :: "user_row \<Rightarrow> db \<Rightarrow> db" where
  "put_user u d = d\<lparr>users := update_where (\<lambda>r. u_id r = u_id u) (\<lambda>_. u) (users d)\<rparr>"

subsection \<open>Notices\<close>

definition consent_notice :: "user_row \<Rightarrow> string \<Rightarrow> string \<Rightarrow> string \<Rightarrow> datetime \<Rightarrow> notification_row" where
  "consent_notice recipient title description navigates_to now = \<lparr>
     n_recipient_id = u_id recipient, n_recipient_role = user_role_value (u_role recipient),
     n_type = ''consent_action_required'', n_title = title, n_description = description,
     n_navigates_to = Some navigates_to, n_read = False, n_category = ''consent'', n_archived_at = None,
     n_created_at = now\<rparr>"

definition school_recipients :: "db \<Rightarrow> uuid \<Rightarrow> user_row list" where
  "school_recipients d school =
     filter (\<lambda>u. u_school_id u = Some school \<and> u_role u \<in> {UR_SENCO_ADMIN, UR_OTHER_ADMIN} \<and> u_status u = US_ACTIVE) (users d)"

definition linked_parents :: "db \<Rightarrow> age_check_row \<Rightarrow> user_row list" where
  "linked_parents d check =
     filter (\<lambda>u. u_role u = UR_PARENT_GUARDIAN \<and> u_status u = US_ACTIVE \<and>
       exists_where (\<lambda>l. pl_parent_id l = Some (u_id u) \<and> pl_student_id l = ac_student_id check \<and>
          pl_school_id l = ac_school_id check) (parent_links d)) (users d)"

definition student_page :: "age_check_row \<Rightarrow> string" where
  "student_page check = ''/admin/students/'' @ uuid_str (ac_student_id check)"

definition notify_school :: "db \<Rightarrow> age_check_row \<Rightarrow> datetime \<Rightarrow> notification_row list \<times> age_check_row" where
  "notify_school d check now =
     (if ac_school_notified_at check \<noteq> None then ([], check)
      else
        (let recipients = school_recipients d (ac_school_id check) in
         (map (\<lambda>u. consent_notice u ''Please recheck a pupil's date of birth''
            ''A pupil's account is on hold while the school and parent recheck the date of birth. Unresolved roster records are removed 30 days after this notice. No identity document is needed.''
            (student_page check) now) recipients,
          if recipients \<noteq> [] then check\<lparr>ac_school_notified_at := Some now\<rparr> else check)))"

definition notify_linked_parents ::
  "db \<Rightarrow> age_check_row \<Rightarrow> datetime \<Rightarrow> notification_row list \<times> age_check_row \<times> bool" where
  "notify_linked_parents d check now =
     (let parents = linked_parents d check in
      (map (\<lambda>u. consent_notice u ''Please confirm your child's date of birth again''
         ''The school has rechecked its admissions record. Please sign in to Nevo and confirm your child's date of birth again. No identity document is needed.''
         ''/parent-portal'' now) parents,
       if parents \<noteq> [] then check\<lparr>ac_parent_notified_at := Some now\<rparr> else check,
       parents \<noteq> []))"

definition notify_unresolved_recheck :: "db \<Rightarrow> age_check_row \<Rightarrow> datetime \<Rightarrow> notification_row list" where
  "notify_unresolved_recheck d check now =
     map (\<lambda>u. let is_parent = u_role u = UR_PARENT_GUARDIAN in
        consent_notice u ''Date of birth re-check still needs resolution''
         (if is_parent
          then ''The dates still differ after both re-checks. Your child's account remains on hold; the school will contact you about the next step. No identity document is needed.''
          else ''The school and parent rechecked the date of birth, but their dates still differ. The pupil's account remains on hold. Please review the admissions record.'')
         (if is_parent then ''/parent-portal'' else student_page check) now)
       (school_recipients d (ac_school_id check) @ linked_parents d check)"

definition notify_school_operative_date :: "db \<Rightarrow> age_check_row \<Rightarrow> datetime \<Rightarrow> notification_row list" where
  "notify_school_operative_date d check now =
     (if ac_school_date_of_birth check = ac_parent_date_of_birth check then []
      else map (\<lambda>u. consent_notice u ''Update the pupil's roster date of birth''
         (''The parent's confirmed date, '' @ (case ac_parent_date_of_birth check of None \<Rightarrow> [] | Some b \<Rightarrow> isoformat b) @
          '', is now operative in Nevo and differs from the school's admissions date. Please reconcile the roster record.'')
         (student_page check) now) (school_recipients d (ac_school_id check)))"

subsection \<open>Deciding\<close>

definition reconfirmed :: "age_check_row \<Rightarrow> bool" where
  "reconfirmed check =
     (case (ac_school_rechecked_at check, ac_parent_reconfirmed_at check) of
        (Some s, Some p) \<Rightarrow> s \<le> p | _ \<Rightarrow> False)"

definition can_confirm :: "age_check_row \<Rightarrow> bool" where
  "can_confirm check =
     (blocking_reasons check = [] \<and>
      (reconfirmed check \<or>
       (ac_school_date_of_birth check = ac_parent_date_of_birth check \<and> ac_school_notified_at check = None \<and>
        ac_state check \<noteq> AC_MISMATCH)))"

definition confirm_check :: "age_check_row \<Rightarrow> datetime \<Rightarrow> uuid option \<Rightarrow> age_check_row" where
  "confirm_check check now parent_actor =
     (if reconfirmed check then
        check\<lparr>ac_agreed_date_of_birth := ac_parent_date_of_birth check, ac_state := AC_RESOLVED,
              ac_resolved_at := Some now,
              ac_resolved_by_user_id := (case parent_actor of None \<Rightarrow> ac_parent_reconfirmed_by check | Some a \<Rightarrow> Some a),
              ac_resolution_note := Some ''School rechecked; parent reconfirmed. Parent date is operative.''\<rparr>
      else
        check\<lparr>ac_agreed_date_of_birth := ac_parent_date_of_birth check, ac_state := AC_MATCHED,
              ac_resolved_at := None, ac_resolved_by_user_id := None\<rparr>)"

definition later_date :: "age_check_row \<Rightarrow> date option" where
  "later_date check =
     (case (ac_school_date_of_birth check, ac_parent_date_of_birth check) of
        (Some a, Some b) \<Rightarrow> Some (max a b) | (Some a, None) \<Rightarrow> Some a | (None, b) \<Rightarrow> b)"

definition with_birth_date :: "user_row \<Rightarrow> date option \<Rightarrow> date \<Rightarrow> user_row" where
  "with_birth_date u born today =
     u\<lparr>u_date_of_birth := born, u_age_band := map_option age_band_value (band_for_date_of_birth born today)\<rparr>"

text \<open>
  \<^verbatim>\<open>apply_check\<close>: the check and the student as they are written back, and the notices added.  The first
  branch returns before the student is touched.
\<close>

definition apply_check ::
  "db \<Rightarrow> age_check_row \<Rightarrow> user_row \<Rightarrow> datetime \<Rightarrow> uuid option \<Rightarrow> age_check_row \<times> user_row \<times> notification_row list" where
  "apply_check d check student now parent_actor =
     (let was_resolved = ac_state check = AC_RESOLVED;
          reasons = blocking_reasons check in
      if ac_school_date_of_birth check = None \<or> ac_parent_date_of_birth check = None then
        (check\<lparr>ac_state := AC_AWAITING_PARENT, ac_school_notified_at := None, ac_resolved_at := None,
               ac_resolved_by_user_id := None, ac_agreed_date_of_birth := None, ac_hold_reasons := [],
               ac_updated_at := Some now\<rparr>, student, [])
      else if can_confirm check then
        (let confirmed = confirm_check check now parent_actor in
         (confirmed\<lparr>ac_hold_reasons := reasons, ac_updated_at := Some now\<rparr>,
          with_birth_date student (ac_parent_date_of_birth check) (utc_date now),
          if reconfirmed check \<and> \<not> was_resolved \<and> ac_school_date_of_birth check \<noteq> ac_parent_date_of_birth check
          then notify_school_operative_date d confirmed now else []))
      else
        (let held = check\<lparr>ac_resolved_at := None, ac_resolved_by_user_id := None, ac_agreed_date_of_birth := None,
                          ac_state := AC_MISMATCH\<rparr>;
             (notices, notified) = notify_school d held now in
         (notified\<lparr>ac_hold_reasons := reasons @ (if reconfirmed check then [] else [''reconfirmation_required'']),
                   ac_updated_at := Some now\<rparr>,
          with_birth_date student (later_date check) (utc_date now), notices)))"

definition store_check ::
  "db \<Rightarrow> age_check_row \<times> user_row \<times> notification_row list \<Rightarrow> db" where
  "store_check d r = (case r of (check, student, notices) \<Rightarrow>
     put_user student (put_check check (d\<lparr>notifications := notifications d @ notices\<rparr>)))"

subsection \<open>The module's operations\<close>

datatype py_error = AttributeError

text \<open>
  \<^verbatim>\<open>record_parent_date\<close>; \<open>new_id\<close> is the key the database gives a new check.  A missing student row fails
  at the first attribute read of \<^verbatim>\<open>student\<close> (a check cannot outlive its student).
\<close>

definition new_age_check :: "uuid \<Rightarrow> uuid \<Rightarrow> user_row \<Rightarrow> age_check_row" where
  "new_age_check new_id school_id student = \<lparr>ac_id = new_id, ac_school_id = school_id, ac_student_id = u_id student,
     ac_school_date_of_birth = u_date_of_birth student, ac_parent_date_of_birth = None, ac_parent_notified_at = None,
     ac_state = AC_AWAITING_PARENT, ac_agreed_date_of_birth = None, ac_resolution_note = None,
     ac_resolved_by_user_id = None, ac_resolved_at = None, ac_updated_at = None, ac_school_notified_at = None,
     ac_school_rechecked_at = None, ac_school_rechecked_by = None, ac_parent_reconfirmed_at = None,
     ac_parent_reconfirmed_by = None, ac_enrolled_age_band = None, ac_band_checked_on = None, ac_hold_reasons = []\<rparr>"

definition record_parent_date ::
  "db \<Rightarrow> uuid \<Rightarrow> uuid \<Rightarrow> date option \<Rightarrow> datetime \<Rightarrow> uuid \<Rightarrow> db \<times> (py_error + age_check_state)" where
  "record_parent_date d school_id student_id born now new_id =
     (let check = get_by ac_student_id student_id (age_checks d) in
      if born = None then (d, Inr (case check of None \<Rightarrow> AC_AWAITING_PARENT | Some c \<Rightarrow> ac_state c))
      else if (case check of None \<Rightarrow> False | Some c \<Rightarrow> ac_state c \<in> {AC_MATCHED, AC_RESOLVED})
      then (d, Inr (ac_state (the check)))
      else
        (case get_by u_id student_id (users d) of
           None \<Rightarrow> (d, Inl AttributeError)
         | Some student \<Rightarrow>
             (let c0 = (case check of
                          None \<Rightarrow> capture_band d (new_age_check new_id school_id student) (utc_date now)
                        | Some c \<Rightarrow> c);
                  c1 = (if ac_state c0 = AC_MISMATCH
                        then c0\<lparr>ac_parent_reconfirmed_at := None, ac_parent_reconfirmed_by := None\<rparr> else c0);
                  r = apply_check d (c1\<lparr>ac_parent_date_of_birth := born\<rparr>) student now None in
              (store_check d r, Inr (ac_state (fst r))))))"

definition reconcile_school_date ::
  "db \<Rightarrow> uuid \<Rightarrow> date option \<Rightarrow> datetime \<Rightarrow> db \<times> (py_error + unit)" where
  "reconcile_school_date d student_id school_date now =
     (case get_by ac_student_id student_id (age_checks d) of
        None \<Rightarrow> (d, Inr ())
      | Some check \<Rightarrow>
          (case get_by u_id student_id (users d) of
             None \<Rightarrow> (d, Inl AttributeError)
           | Some student \<Rightarrow>
               if ac_school_date_of_birth check = school_date then
                 (if ac_agreed_date_of_birth check \<noteq> None \<and> \<not> blocks_access check
                  then put_user (with_birth_date student (ac_agreed_date_of_birth check) (utc_date now)) d else d, Inr ())
               else if ac_state check \<in> {AC_MATCHED, AC_RESOLVED} then (d, Inr ())
               else
                 (let c1 = check\<lparr>ac_school_date_of_birth := school_date, ac_school_rechecked_at := None,
                              ac_parent_reconfirmed_at := None, ac_school_rechecked_by := None,
                              ac_parent_reconfirmed_by := None\<rparr>;
                      c2 = (capture_band d c1 (utc_date now))\<lparr>ac_state := AC_MISMATCH\<rparr> in
                  (store_check d (apply_check d c2 student now None), Inr ()))))"

text \<open>
  \<^verbatim>\<open>prepare_pending_holds\<close>: the selection of at most two hundred students, then one student at a time.
\<close>

definition pending_holds :: "db \<Rightarrow> user_row list" where
  "pending_holds d = take 200 (filter (\<lambda>u.
     exists_where (\<lambda>c. ac_student_id c = u_id u \<and> ac_state c = AC_MISMATCH \<and> ac_school_notified_at c = None) (age_checks d) \<and>
     exists_where (\<lambda>a. u_school_id a = u_school_id u \<and> u_school_id u \<noteq> None \<and>
        u_role a \<in> {UR_SENCO_ADMIN, UR_OTHER_ADMIN} \<and> u_status a = US_ACTIVE) (users d)) (users d))"

definition prepare_hold :: "datetime \<Rightarrow> user_row \<Rightarrow> db \<Rightarrow> db" where
  "prepare_hold now student d =
     (case get_by ac_student_id (u_id student) (age_checks d) of
        None \<Rightarrow> d
      | Some check \<Rightarrow> store_check d (apply_check d (capture_band d check (utc_date now)) student now None))"

definition prepare_pending_holds :: "db \<Rightarrow> datetime \<Rightarrow> db" where
  "prepare_pending_holds d now = fold (prepare_hold now) (pending_holds d) d"

subsection \<open>The handlers\<close>

definition SCHOOL_ROLES :: "string list" where
  "SCHOOL_ROLES = [''senco_admin'', ''other_admin'']"

definition find_check :: "db \<Rightarrow> uuid \<Rightarrow> http_error + age_check_row \<times> user_row" where
  "find_check d check_id =
     (case get_by ac_id check_id (age_checks d) of
        None \<Rightarrow> Inl (HTTPException 404 ''age_check_not_found'')
      | Some check \<Rightarrow>
          (case get_by u_id (ac_student_id check) (users d) of
             None \<Rightarrow> Inl (HTTPException 404 ''age_check_not_found'')
           | Some student \<Rightarrow> Inr (check, student)))"

definition open_check :: "age_check_row \<Rightarrow> datetime \<Rightarrow> http_error + unit" where
  "open_check check now =
     (if \<not> blocks_access check then Inl (HTTPException 409 ''age_check_not_pending'')
      else case ac_school_notified_at check of
             None \<Rightarrow> Inr ()
           | Some t \<Rightarrow> if t + td_days 30 \<le> now then Inl (HTTPException 410 ''age_check_expired'') else Inr ())"

text \<open>The request body refuses a date of birth in the future before the handler runs.\<close>

definition not_in_future :: "date \<Rightarrow> datetime \<Rightarrow> bool" where
  "not_in_future value now = (\<not> utc_date now < value)"

definition edit_actor_name :: "user_row \<Rightarrow> string" where
  "edit_actor_name actor =
     (let full = py_join '' '' (filter (\<lambda>s. s \<noteq> []) [present (u_first_name actor), present (u_last_name actor)]) in
      if full \<noteq> [] then full else if present (u_email actor) \<noteq> [] then present (u_email actor) else uuid_str (u_id actor))"

definition school_recheck ::
  "request_facts option \<Rightarrow> db \<Rightarrow> auth_principal \<Rightarrow> uuid \<Rightarrow> date \<Rightarrow> datetime \<Rightarrow> db \<times> (http_error + age_check_row)" where
  "school_recheck rq d p check_id born now =
     (if \<not> not_in_future born now then (d, Inl (HTTPException 422 ''date_of_birth''))
      else case require_school_actor rq d p SCHOOL_ROLES of
        Inl e \<Rightarrow> (d, Inl e)
      | Inr actor \<Rightarrow>
          (case find_check d check_id of
             Inl e \<Rightarrow> (d, Inl e)
           | Inr (check, student) \<Rightarrow>
               if Some (ac_school_id check) \<noteq> u_school_id actor then (d, Inl (HTTPException 404 ''age_check_not_found''))
               else
                 (case open_check check now of
                    Inl e \<Rightarrow> (d, Inl e)
                  | Inr _ \<Rightarrow>
                      (let edit = \<lparr>aed_age_check_id = ac_id check, aed_student_id = ac_student_id check,
                             aed_actor_user_id = Some (u_id actor), aed_actor_name = edit_actor_name actor,
                             aed_previous_school_date_of_birth = ac_school_date_of_birth check,
                             aed_new_school_date_of_birth = born, aed_changed_at = now\<rparr>;
                           c1 = check\<lparr>ac_school_date_of_birth := Some born, ac_school_rechecked_at := Some now,
                             ac_school_rechecked_by := Some (u_id actor), ac_parent_reconfirmed_at := None,
                             ac_parent_reconfirmed_by := None\<rparr>;
                           (c2, student', notices) = apply_check d (capture_band d c1 (utc_date now)) student now None;
                           (notices', c3) = (if blocks_access c2
                              then (case notify_linked_parents d c2 now of (ns, c, _) \<Rightarrow> (ns, c)) else ([], c2)) in
                       (store_check (d\<lparr>age_check_edits := age_check_edits d @ [edit]\<rparr>) (c3, student', notices @ notices'),
                        Inr c3)))))"

definition resend_parent_age_check_notice ::
  "request_facts option \<Rightarrow> db \<Rightarrow> auth_principal \<Rightarrow> uuid \<Rightarrow> datetime \<Rightarrow> db \<times> (http_error + age_check_row)" where
  "resend_parent_age_check_notice rq d p check_id now =
     (case require_school_actor rq d p SCHOOL_ROLES of
        Inl e \<Rightarrow> (d, Inl e)
      | Inr actor \<Rightarrow>
          (case find_check d check_id of
             Inl e \<Rightarrow> (d, Inl e)
           | Inr (check, student) \<Rightarrow>
               if Some (ac_school_id check) \<noteq> u_school_id actor then (d, Inl (HTTPException 404 ''age_check_not_found''))
               else
                 (case open_check check now of
                    Inl e \<Rightarrow> (d, Inl e)
                  | Inr _ \<Rightarrow>
                      if ac_school_rechecked_at check = None then (d, Inl (HTTPException 409 ''school_recheck_required''))
                      else if (case ac_parent_notified_at check of None \<Rightarrow> False | Some t \<Rightarrow> now - t < td_minutes 5)
                      then (d, Inl (HTTPException 429 ''parent_notice_recently_sent''))
                      else
                        (case notify_linked_parents d check now of (notices, check', sent) \<Rightarrow>
                           if \<not> sent then (d, Inl (HTTPException 409 ''parent_account_unavailable''))
                           else (put_check check' (d\<lparr>notifications := notifications d @ notices\<rparr>), Inr check')))))"

definition parent_reconfirm ::
  "db \<Rightarrow> auth_principal \<Rightarrow> uuid \<Rightarrow> date \<Rightarrow> datetime \<Rightarrow> db \<times> (http_error + age_check_row)" where
  "parent_reconfirm d p check_id born now =
     (if \<not> not_in_future born now then (d, Inl (HTTPException 422 ''date_of_birth''))
      else if ap_role p \<noteq> ''parent_guardian'' then (d, Inl (HTTPException 403 ''parent_account_required''))
      else case find_check d check_id of
        Inl e \<Rightarrow> (d, Inl e)
      | Inr (check, student) \<Rightarrow>
          if \<not> exists_where (\<lambda>l. pl_student_id l = ac_student_id check \<and> pl_parent_id l = Some (ap_user_id p)) (parent_links d)
          then (d, Inl (HTTPException 404 ''age_check_not_found''))
          else
            (case open_check check now of
               Inl e \<Rightarrow> (d, Inl e)
             | Inr _ \<Rightarrow>
                 if ac_school_rechecked_at check = None then (d, Inl (HTTPException 409 ''school_recheck_required''))
                 else
                   (let c1 = check\<lparr>ac_parent_date_of_birth := Some born, ac_parent_reconfirmed_at := Some now,
                          ac_parent_reconfirmed_by := Some (ap_user_id p)\<rparr>;
                        (c2, student', notices) = apply_check d c1 student now (Some (ap_user_id p));
                        notices' = (if blocks_access c2 then notify_unresolved_recheck d c2 now else []) in
                    (store_check d (c2, student', notices @ notices'), Inr c2))))"

subsection \<open>What a check looks like\<close>

abbreviation final :: "age_check_row \<Rightarrow> bool" where
  "final c \<equiv> ac_state c \<in> {AC_MATCHED, AC_RESOLVED}"

text \<open>
  The invariant of one check: the CHECK constraint of its table, the pairing of the reconfirmation's
  time and author, and that a confirmed check has nothing against it and operates on the parent's date.
\<close>

definition check_inv :: "age_check_row \<Rightarrow> bool" where
  "check_inv c \<longleftrightarrow> age_check_ok c \<and>
     (ac_parent_reconfirmed_at c = None) = (ac_parent_reconfirmed_by c = None) \<and>
     (final c \<longrightarrow> blocking_reasons c = [] \<and> ac_agreed_date_of_birth c = ac_parent_date_of_birth c) \<and>
     (\<not> final c \<longrightarrow> ac_agreed_date_of_birth c = None) \<and>
     (ac_state c = AC_RESOLVED \<longrightarrow> reconfirmed c) \<and>
     (ac_state c = AC_MISMATCH \<longrightarrow> ac_school_date_of_birth c \<noteq> None \<and> ac_parent_date_of_birth c \<noteq> None)"

text \<open>How a check may change: never once confirmed, and out of a hold only by both adults' fresh dates.\<close>

definition check_le :: "age_check_row \<Rightarrow> age_check_row \<Rightarrow> bool" where
  "check_le c c' \<longleftrightarrow> ac_id c' = ac_id c \<and> ac_student_id c' = ac_student_id c \<and> (final c \<longrightarrow> c' = c) \<and>
     (ac_state c = AC_MISMATCH \<longrightarrow> ac_state c' = AC_MISMATCH \<or>
        (ac_state c' = AC_RESOLVED \<and> reconfirmed c' \<and> blocking_reasons c' = []))"

lemma check_le_refl [simp]: "check_le c c"
  by (simp add: check_le_def)

lemma check_le_trans: "\<lbrakk>check_le a b; check_le b c\<rbrakk> \<Longrightarrow> check_le a c"
  by (auto simp: check_le_def)

lemma blocking_reasons_no_dates:
  "blocking_reasons c = [] \<Longrightarrow> ac_school_date_of_birth c \<noteq> None \<and> ac_parent_date_of_birth c \<noteq> None \<and> ac_enrolled_age_band c \<noteq> None"
  by (auto simp: blocking_reasons_def split: if_splits)

lemma blocking_reasons_cong:
  assumes "ac_school_date_of_birth c' = ac_school_date_of_birth c" "ac_parent_date_of_birth c' = ac_parent_date_of_birth c"
    "ac_enrolled_age_band c' = ac_enrolled_age_band c" "ac_band_checked_on c' = ac_band_checked_on c"
  shows "blocking_reasons c' = blocking_reasons c"
  unfolding blocking_reasons_def assms ..

lemma reconfirmed_cong:
  assumes "ac_school_rechecked_at c' = ac_school_rechecked_at c" "ac_parent_reconfirmed_at c' = ac_parent_reconfirmed_at c"
  shows "reconfirmed c' = reconfirmed c"
  using assms by (simp add: reconfirmed_def)

text \<open>The fields \<^verbatim>\<open>apply_check\<close> leaves alone.\<close>

definition check_kept :: "age_check_row \<Rightarrow> age_check_row \<Rightarrow> bool" where
  "check_kept c c' \<longleftrightarrow> ac_id c' = ac_id c \<and> ac_student_id c' = ac_student_id c \<and> ac_school_id c' = ac_school_id c \<and>
     ac_school_date_of_birth c' = ac_school_date_of_birth c \<and> ac_parent_date_of_birth c' = ac_parent_date_of_birth c \<and>
     ac_enrolled_age_band c' = ac_enrolled_age_band c \<and> ac_band_checked_on c' = ac_band_checked_on c \<and>
     ac_school_rechecked_at c' = ac_school_rechecked_at c \<and> ac_parent_reconfirmed_at c' = ac_parent_reconfirmed_at c \<and>
     ac_parent_reconfirmed_by c' = ac_parent_reconfirmed_by c"

lemma check_keptD:
  assumes "check_kept c c'"
  shows "blocking_reasons c' = blocking_reasons c" "reconfirmed c' = reconfirmed c"
  using assms by (auto simp: check_kept_def intro!: blocking_reasons_cong reconfirmed_cong)

lemma notify_school_kept:
  "notify_school d c now = (ns, c') \<Longrightarrow> check_kept c c' \<and> ac_state c' = ac_state c \<and> ac_resolved_at c' = ac_resolved_at c \<and>
     ac_resolved_by_user_id c' = ac_resolved_by_user_id c \<and> ac_agreed_date_of_birth c' = ac_agreed_date_of_birth c"
  by (auto simp: notify_school_def check_kept_def Let_def split: if_splits)

lemma notify_linked_parents_kept:
  "notify_linked_parents d c now = (ns, c', b) \<Longrightarrow> check_kept c c' \<and> ac_state c' = ac_state c \<and> ac_resolved_at c' = ac_resolved_at c \<and>
     ac_resolved_by_user_id c' = ac_resolved_by_user_id c \<and> ac_agreed_date_of_birth c' = ac_agreed_date_of_birth c"
  by (auto simp: notify_linked_parents_def check_kept_def Let_def split: if_splits)

lemma check_inv_cong:
  assumes "check_kept c c'" "ac_state c' = ac_state c" "ac_resolved_at c' = ac_resolved_at c"
    "ac_resolved_by_user_id c' = ac_resolved_by_user_id c" "ac_agreed_date_of_birth c' = ac_agreed_date_of_birth c"
  shows "check_inv c' = check_inv c"
  using assms check_keptD[OF assms(1)] by (simp add: check_inv_def age_check_ok_def check_kept_def)

text \<open>The three outcomes of \<^verbatim>\<open>apply_check\<close>.\<close>

lemma apply_check_cases:
  assumes "apply_check d c student now actor = (c', student', ns)"
  obtains (await) "ac_school_date_of_birth c = None \<or> ac_parent_date_of_birth c = None" "ac_state c' = AC_AWAITING_PARENT"
      "student' = student" "ac_resolved_at c' = None" "ac_resolved_by_user_id c' = None" "ac_agreed_date_of_birth c' = None"
  | (confirm) "can_confirm c" "ac_state c' = (if reconfirmed c then AC_RESOLVED else AC_MATCHED)"
      "student' = with_birth_date student (ac_parent_date_of_birth c) (utc_date now)"
      "ac_agreed_date_of_birth c' = ac_parent_date_of_birth c"
      "ac_resolved_at c' = (if reconfirmed c then Some now else None)"
      "ac_resolved_by_user_id c' = (if reconfirmed c then (case actor of None \<Rightarrow> ac_parent_reconfirmed_by c | Some a \<Rightarrow> Some a) else None)"
  | (hold) "ac_school_date_of_birth c \<noteq> None" "ac_parent_date_of_birth c \<noteq> None" "\<not> can_confirm c" "ac_state c' = AC_MISMATCH"
      "student' = with_birth_date student (later_date c) (utc_date now)"
      "ac_resolved_at c' = None" "ac_resolved_by_user_id c' = None" "ac_agreed_date_of_birth c' = None"
proof (cases "ac_school_date_of_birth c = None \<or> ac_parent_date_of_birth c = None")
  case True
  show ?thesis by (rule await) (use assms True in \<open>auto simp: apply_check_def Let_def\<close>)
next
  case dates: False
  show ?thesis
  proof (cases "can_confirm c")
    case True
    show ?thesis by (rule confirm) (use assms dates True in \<open>auto simp: apply_check_def confirm_check_def Let_def\<close>)
  next
    case False
    obtain ns' h where h: "notify_school d (c\<lparr>ac_resolved_at := None, ac_resolved_by_user_id := None,
        ac_agreed_date_of_birth := None, ac_state := AC_MISMATCH\<rparr>) now = (ns', h)" by fastforce
    show ?thesis
      by (rule hold) (use assms dates False h notify_school_kept[OF h] in \<open>auto simp: apply_check_def Let_def\<close>)
  qed
qed

lemma apply_check_kept: "apply_check d c student now actor = (c', student', ns) \<Longrightarrow> check_kept c c'"
proof (cases "ac_school_date_of_birth c \<noteq> None \<and> ac_parent_date_of_birth c \<noteq> None \<and> \<not> can_confirm c")
  case True
  assume a: "apply_check d c student now actor = (c', student', ns)"
  obtain ns' h where h: "notify_school d (c\<lparr>ac_resolved_at := None, ac_resolved_by_user_id := None,
      ac_agreed_date_of_birth := None, ac_state := AC_MISMATCH\<rparr>) now = (ns', h)" by fastforce
  show ?thesis using a True h notify_school_kept[OF h] by (auto simp: apply_check_def Let_def check_kept_def)
qed (auto simp: apply_check_def Let_def check_kept_def confirm_check_def split: if_splits)

lemma apply_check_inv:
  assumes "apply_check d c student now actor = (c', student', ns)"
    and "(ac_parent_reconfirmed_at c = None) = (ac_parent_reconfirmed_by c = None)"
  shows "check_inv c'"
  using assms(1)
proof (cases rule: apply_check_cases)
  case await
  then show ?thesis using apply_check_kept[OF assms(1)] assms(2) by (simp add: check_inv_def age_check_ok_def check_kept_def)
next
  case confirm
  have "reconfirmed c \<Longrightarrow> ac_parent_reconfirmed_by c \<noteq> None"
    using assms(2) by (auto simp: reconfirmed_def split: option.splits)
  then show ?thesis
    using confirm apply_check_kept[OF assms(1)] check_keptD[OF apply_check_kept[OF assms(1)]] assms(2)
    by (auto simp: check_inv_def age_check_ok_def check_kept_def can_confirm_def split: option.splits)
next
  case hold
  then show ?thesis using apply_check_kept[OF assms(1)] assms(2) by (simp add: check_inv_def age_check_ok_def check_kept_def)
qed

lemma apply_check_hold:
  assumes "apply_check d c student now actor = (c', student', ns)" "ac_state c = AC_MISMATCH"
    and "ac_school_date_of_birth c \<noteq> None" "ac_parent_date_of_birth c \<noteq> None"
  shows "ac_state c' = AC_MISMATCH \<or> (ac_state c' = AC_RESOLVED \<and> reconfirmed c' \<and> blocking_reasons c' = [])"
  using assms(1)
proof (cases rule: apply_check_cases)
  case await then show ?thesis using assms(3,4) by simp
next
  case confirm
  then have "reconfirmed c \<and> blocking_reasons c = []" using assms(2) by (simp add: can_confirm_def)
  then show ?thesis using confirm check_keptD[OF apply_check_kept[OF assms(1)]] by simp
next
  case hold then show ?thesis by simp
qed

subsection \<open>The ledger of checks\<close>

definition checks_inv :: "age_check_row list \<Rightarrow> bool" where
  "checks_inv rows \<longleftrightarrow> distinct (map ac_id rows) \<and> distinct (map ac_student_id rows) \<and> list_all check_inv rows"

definition checks_step :: "age_check_row list \<Rightarrow> age_check_row list \<Rightarrow> bool" where
  "checks_step rows rows' \<longleftrightarrow> (\<forall>c \<in> set rows. \<exists>c' \<in> set rows'. check_le c c')"

lemma checks_step_refl [simp]: "checks_step rows rows"
  unfolding checks_step_def using check_le_refl by blast

lemma checks_step_trans: "\<lbrakk>checks_step a b; checks_step b c\<rbrakk> \<Longrightarrow> checks_step a c"
  unfolding checks_step_def by (meson check_le_trans)

lemma checks_step_append: "checks_step rows (rows @ extra)"
  unfolding checks_step_def set_append using check_le_refl by blast

lemma age_checks_store [simp]: "age_checks (store_check d (c, u, ns)) = age_checks (put_check c d)"
  by (simp add: store_check_def put_user_def put_check_def)

lemma age_checks_put_check_more [simp]:
  "age_checks (put_check c (d\<lparr>notifications := ns\<rparr>)) = age_checks (put_check c d)"
  "age_checks (put_check c (d\<lparr>age_check_edits := es\<rparr>)) = age_checks (put_check c d)"
  by (simp_all add: put_check_def)

lemma put_check_old:
  assumes inv: "checks_inv (age_checks d)" and c0: "c0 \<in> set (age_checks d)" and le: "check_le c0 c" and c: "check_inv c"
  shows "checks_inv (age_checks (put_check c d))" "checks_step (age_checks d) (age_checks (put_check c d))"
proof -
  have same: "ac_id c = ac_id c0" "ac_student_id c = ac_student_id c0" using le by (auto simp: check_le_def)
  have rows: "age_checks (put_check c d) = update_where (\<lambda>r. ac_id r = ac_id c0) (\<lambda>_. c) (age_checks d)"
    using c0 same by (auto simp: put_check_def)
  have only: "r = c0" if "r \<in> set (age_checks d)" "ac_id r = ac_id c0" for r
    using that c0 inv unfolding checks_inv_def by (metis get_by_in option.inject)
  have "map ac_student_id (update_where (\<lambda>r. ac_id r = ac_id c0) (\<lambda>_. c) (age_checks d)) = map ac_student_id (age_checks d)"
    using only same(2) by (auto simp: update_where_def)
  moreover have "map ac_id (update_where (\<lambda>r. ac_id r = ac_id c0) (\<lambda>_. c) (age_checks d)) = map ac_id (age_checks d)"
    using same(1) by (auto simp: update_where_def)
  ultimately show "checks_inv (age_checks (put_check c d))"
    using inv c by (auto simp: checks_inv_def rows list_all_iff set_update_where)
  have "\<exists>c' \<in> set (update_where (\<lambda>r. ac_id r = ac_id c0) (\<lambda>_. c) (age_checks d)). check_le r c'"
    if "r \<in> set (age_checks d)" for r
    using only[OF that] that le by (cases "ac_id r = ac_id c0") (force simp: set_update_where)+
  then show "checks_step (age_checks d) (age_checks (put_check c d))" by (simp add: checks_step_def rows)
qed

lemma put_check_new:
  assumes "checks_inv (age_checks d)" "check_inv c" "ac_id c \<notin> ac_id ` set (age_checks d)"
    and "ac_student_id c \<notin> ac_student_id ` set (age_checks d)"
  shows "checks_inv (age_checks (put_check c d))" "checks_step (age_checks d) (age_checks (put_check c d))"
proof -
  have "age_checks (put_check c d) = age_checks d @ [c]" using assms(3) by (auto simp: put_check_def image_iff)
  then show "checks_inv (age_checks (put_check c d))" "checks_step (age_checks d) (age_checks (put_check c d))"
    using assms by (auto simp: checks_inv_def checks_step_append)
qed

lemma capture_band_kept [simp]:
  "ac_id (capture_band d c t) = ac_id c" "ac_student_id (capture_band d c t) = ac_student_id c"
  "ac_state (capture_band d c t) = ac_state c" "ac_school_date_of_birth (capture_band d c t) = ac_school_date_of_birth c"
  "ac_parent_date_of_birth (capture_band d c t) = ac_parent_date_of_birth c"
  "ac_parent_reconfirmed_at (capture_band d c t) = ac_parent_reconfirmed_at c"
  "ac_parent_reconfirmed_by (capture_band d c t) = ac_parent_reconfirmed_by c"
  "ac_school_rechecked_at (capture_band d c t) = ac_school_rechecked_at c"
  by (simp_all add: capture_band_def Let_def)

text \<open>Every operation changes the stored check \<open>c0\<close> through \<^verbatim>\<open>apply_check\<close> on an edited copy \<open>c\<close> of it.\<close>

lemma apply_check_le:
  assumes "apply_check d c student now actor = (c', student', ns)"
    and "ac_id c = ac_id c0" "ac_student_id c = ac_student_id c0" "ac_state c = ac_state c0" "\<not> final c0"
    and "ac_state c0 = AC_MISMATCH \<longrightarrow> ac_school_date_of_birth c \<noteq> None \<and> ac_parent_date_of_birth c \<noteq> None"
  shows "check_le c0 c'"
  using assms apply_check_kept[OF assms(1)] apply_check_hold[OF assms(1)]
  by (auto simp: check_le_def check_kept_def)

lemma apply_check_ledger:
  assumes inv: "checks_inv (age_checks d)" and c0: "c0 \<in> set (age_checks d)" "\<not> final c0"
    and a: "apply_check d' c student now actor = (c', student', ns)"
    and c: "ac_id c = ac_id c0" "ac_student_id c = ac_student_id c0" "ac_state c = ac_state c0"
      "ac_state c0 = AC_MISMATCH \<longrightarrow> ac_school_date_of_birth c \<noteq> None \<and> ac_parent_date_of_birth c \<noteq> None"
      "(ac_parent_reconfirmed_at c = None) = (ac_parent_reconfirmed_by c = None)"
  shows "checks_inv (age_checks (put_check c' d))" "checks_step (age_checks d) (age_checks (put_check c' d))"
  using put_check_old[OF inv c0(1) apply_check_le[OF a c(1-3) c0(2) c(4)] apply_check_inv[OF a c(5)]] by auto

lemma stored_check_inv:
  assumes "checks_inv rows" "c \<in> set rows"
  shows "check_inv c"
  using assms by (simp add: checks_inv_def list_all_iff)

text \<open>The two ways \<^verbatim>\<open>record_parent_date\<close> returns: nothing to do, or the check decided anew.\<close>

definition submitted :: "age_check_row \<Rightarrow> date option \<Rightarrow> age_check_row" where
  "submitted c born = (if ac_state c = AC_MISMATCH
     then c\<lparr>ac_parent_reconfirmed_at := None, ac_parent_reconfirmed_by := None\<rparr> else c)\<lparr>ac_parent_date_of_birth := born\<rparr>"

lemma submitted_simps [simp]:
  "ac_student_id (submitted c born) = ac_student_id c" "ac_id (submitted c born) = ac_id c" "ac_state (submitted c born) = ac_state c"
  by (simp_all add: submitted_def)

lemma record_parent_date_cases:
  assumes "record_parent_date d school st born now i = (d', Inr state)"
  obtains (same) "d' = d" "state = (case get_by ac_student_id st (age_checks d) of None \<Rightarrow> AC_AWAITING_PARENT | Some c \<Rightarrow> ac_state c)"
  | (fresh) student c' student' ns where "get_by u_id st (users d) = Some student" "get_by ac_student_id st (age_checks d) = None"
      "apply_check d (submitted (capture_band d (new_age_check i school student) (utc_date now)) born) student now None = (c', student', ns)"
      "d' = store_check d (c', student', ns)" "state = ac_state c'"
  | (known) student c c' student' ns where "get_by u_id st (users d) = Some student" "get_by ac_student_id st (age_checks d) = Some c"
      "\<not> final c" "born \<noteq> None" "apply_check d (submitted c born) student now None = (c', student', ns)"
      "d' = store_check d (c', student', ns)" "state = ac_state c'"
proof (cases "d' = d \<and> state = (case get_by ac_student_id st (age_checks d) of None \<Rightarrow> AC_AWAITING_PARENT | Some c \<Rightarrow> ac_state c)")
  case True then show ?thesis using same by blast
next
  case False
  obtain student where st: "get_by u_id st (users d) = Some student" and b: "born \<noteq> None"
    using assms False by (auto simp: record_parent_date_def Let_def split: if_splits option.splits)
  show ?thesis
  proof (cases "get_by ac_student_id st (age_checks d)")
    case None
    obtain c' student' ns where a: "apply_check d (submitted (capture_band d (new_age_check i school student) (utc_date now)) born)
      student now None = (c', student', ns)" by (metis prod_cases3)
    show ?thesis by (rule fresh[OF st None a]) (use assms st None a b in \<open>auto simp: record_parent_date_def submitted_def Let_def\<close>)
  next
    case (Some c)
    have nf: "\<not> final c" using assms False Some by (auto simp: record_parent_date_def Let_def split: if_splits)
    obtain c' student' ns where a: "apply_check d (submitted c born) student now None = (c', student', ns)" by (metis prod_cases3)
    show ?thesis by (rule known[OF st Some nf b a]) (use assms st Some a b nf in \<open>auto simp: record_parent_date_def submitted_def Let_def\<close>)
  qed
qed

lemma record_parent_date_ledger:
  assumes inv: "checks_inv (age_checks d)" and new: "i \<notin> ac_id ` set (age_checks d)"
    and r: "record_parent_date d school st born now i = (d', Inr state)"
  shows "checks_inv (age_checks d') \<and> checks_step (age_checks d) (age_checks d')"
  using r
proof (cases rule: record_parent_date_cases)
  case same then show ?thesis using inv by simp
next
  case (fresh student c' student' ns)
  have "check_inv c'" by (rule apply_check_inv[OF fresh(3)]) (simp add: submitted_def new_age_check_def)
  moreover have "ac_id c' = i" "ac_student_id c' = st"
    using apply_check_kept[OF fresh(3)] get_by_SomeD[OF fresh(1)] by (auto simp: check_kept_def submitted_def new_age_check_def)
  ultimately show ?thesis using put_check_new[OF inv, of c'] new fresh(2) by (simp add: fresh(4) get_by_None_iff)
next
  case (known student c c' student' ns)
  have c: "c \<in> set (age_checks d)" using get_by_SomeD[OF known(2)] by simp
  have "checks_inv (age_checks (put_check c' d))" "checks_step (age_checks d) (age_checks (put_check c' d))"
    using apply_check_ledger[OF inv c known(3,5)] known(4) stored_check_inv[OF inv c]
    by (auto simp: submitted_def check_inv_def)
  then show ?thesis by (simp add: known(6))
qed

lemma find_check_Inr:
  assumes "find_check d i = Inr (c, u)"
  shows "c \<in> set (age_checks d)" "ac_id c = i" "u \<in> set (users d)" "u_id u = ac_student_id c"
  using assms by (auto simp: find_check_def split: option.splits dest: get_by_SomeD)

lemma open_check_Inr: "open_check c now = Inr x \<Longrightarrow> ac_state c = AC_MISMATCH"
  by (auto simp: open_check_def blocks_access_def split: if_splits)

text \<open>What each handler does when it is not refused.\<close>

lemma school_recheck_changes:
  assumes "school_recheck rq d p i born now = (d', Inr c3)"
  obtains check student c2 student' ns and actor :: user_row where
    "find_check d i = Inr (check, student)" "ac_state check = AC_MISMATCH"
    "apply_check d (capture_band d (check\<lparr>ac_school_date_of_birth := Some born, ac_school_rechecked_at := Some now,
       ac_school_rechecked_by := Some (u_id actor), ac_parent_reconfirmed_at := None, ac_parent_reconfirmed_by := None\<rparr>) (utc_date now))
       student now None = (c2, student', ns)"
    "c3 = c2 \<or> (\<exists>ns b. notify_linked_parents d c2 now = (ns, c3, b))"
    "age_checks d' = age_checks (put_check c3 d)"
    "users d' = users (put_user student' d)" "u_role actor = UR_SENCO_ADMIN \<or> u_role actor = UR_OTHER_ADMIN"
proof -
  obtain actor where a: "require_school_actor rq d p SCHOOL_ROLES = Inr actor"
    using assms by (auto simp: school_recheck_def split: if_splits sum.splits)
  obtain check student where f: "find_check d i = Inr (check, student)"
    using assms a by (auto simp: school_recheck_def split: if_splits sum.splits)
  have o: "open_check check now = Inr ()"
    using assms a f by (auto simp: school_recheck_def split: if_splits sum.splits)
  let ?c = "capture_band d (check\<lparr>ac_school_date_of_birth := Some born, ac_school_rechecked_at := Some now,
       ac_school_rechecked_by := Some (u_id actor), ac_parent_reconfirmed_at := None, ac_parent_reconfirmed_by := None\<rparr>) (utc_date now)"
  obtain c2 student' ns where ap: "apply_check d ?c student now None = (c2, student', ns)" by (metis prod_cases3)
  obtain ns' c4 b where nl: "notify_linked_parents d c2 now = (ns', c4, b)" by (metis prod_cases3)
  have c3: "c3 = (if blocks_access c2 then c4 else c2)"
    using assms a f o ap nl by (auto simp: school_recheck_def Let_def split: if_splits)
  have d': "age_checks d' = age_checks (put_check c3 d)" "users d' = users (put_user student' d)"
    using assms a f o ap nl c3
    by (auto simp: school_recheck_def Let_def store_check_def put_user_def put_check_def split: if_splits)
  have role: "u_role actor = UR_SENCO_ADMIN \<or> u_role actor = UR_OTHER_ADMIN"
    using require_school_actor_Inr(4)[OF a] by (auto simp: SCHOOL_ROLES_def)
  show ?thesis
    by (rule that[OF f open_check_Inr[OF o] ap _ d' role]) (use nl c3 in auto)
qed

lemma parent_reconfirm_changes:
  assumes "parent_reconfirm d p i born now = (d', Inr c2)"
  obtains check student student' ns where
    "find_check d i = Inr (check, student)" "ac_state check = AC_MISMATCH" "ac_school_rechecked_at check \<noteq> None"
    "apply_check d (check\<lparr>ac_parent_date_of_birth := Some born, ac_parent_reconfirmed_at := Some now,
       ac_parent_reconfirmed_by := Some (ap_user_id p)\<rparr>) student now (Some (ap_user_id p)) = (c2, student', ns)"
    "age_checks d' = age_checks (put_check c2 d)" "users d' = users (put_user student' d)"
proof -
  obtain check student where f: "find_check d i = Inr (check, student)"
    using assms by (auto simp: parent_reconfirm_def split: if_splits sum.splits)
  have o: "open_check check now = Inr ()" and re: "ac_school_rechecked_at check \<noteq> None"
    using assms f by (auto simp: parent_reconfirm_def split: if_splits sum.splits)
  let ?c = "check\<lparr>ac_parent_date_of_birth := Some born, ac_parent_reconfirmed_at := Some now,
       ac_parent_reconfirmed_by := Some (ap_user_id p)\<rparr>"
  obtain c student' ns where ap: "apply_check d ?c student now (Some (ap_user_id p)) = (c, student', ns)" by (metis prod_cases3)
  have c: "c = c2" and d': "age_checks d' = age_checks (put_check c2 d)" "users d' = users (put_user student' d)"
    using assms f o re ap
    by (auto simp: parent_reconfirm_def Let_def store_check_def put_user_def put_check_def split: if_splits)
  show ?thesis using that[OF f open_check_Inr[OF o] re _ d'] ap c by simp
qed

lemma resend_changes:
  assumes "resend_parent_age_check_notice rq d p i now = (d', Inr c')"
  obtains check student ns b where "find_check d i = Inr (check, student)" "notify_linked_parents d check now = (ns, c', b)"
    "age_checks d' = age_checks (put_check c' d)" "users d' = users d" "ac_state check = AC_MISMATCH"
proof -
  obtain actor where a: "require_school_actor rq d p SCHOOL_ROLES = Inr actor"
    using assms by (auto simp: resend_parent_age_check_notice_def split: if_splits sum.splits)
  obtain check student where f: "find_check d i = Inr (check, student)"
    using assms a by (auto simp: resend_parent_age_check_notice_def split: if_splits sum.splits)
  have o: "open_check check now = Inr ()"
    using assms a f by (auto simp: resend_parent_age_check_notice_def split: if_splits sum.splits)
  obtain ns c b where n: "notify_linked_parents d check now = (ns, c, b)" by (metis prod_cases3)
  have c: "c = c'" and d': "age_checks d' = age_checks (put_check c' d)" "users d' = users d"
    using assms a f o n by (auto simp: resend_parent_age_check_notice_def put_check_def split: if_splits)
  show ?thesis using that[OF f _ d' open_check_Inr[OF o]] n c by simp
qed

lemma school_recheck_ledger:
  assumes inv: "checks_inv (age_checks d)" and s: "school_recheck rq d p i born now = (d', Inr c3)"
  shows "checks_inv (age_checks d') \<and> checks_step (age_checks d) (age_checks d')"
  using s
proof (cases rule: school_recheck_changes)
  case (1 check student c2 student' ns actor)
  have c: "check \<in> set (age_checks d)" using find_check_Inr[OF 1(1)] by simp
  note ci = stored_check_inv[OF inv c]
  have le: "check_le check c2" by (rule apply_check_le[OF 1(3)]) (use 1(2) ci in \<open>auto simp: check_inv_def\<close>)
  have ok: "check_inv c2" by (rule apply_check_inv[OF 1(3)]) simp
  have "check_le check c3 \<and> check_inv c3"
  proof (cases "c3 = c2")
    case False
    then obtain ns b where n: "notify_linked_parents d c2 now = (ns, c3, b)" using 1(4) by blast
    note k = notify_linked_parents_kept[OF n]
    have "check_inv c3" using k ok check_inv_cong[of c2 c3] by simp
    moreover have "check_le check c3"
      using k le 1(2) check_keptD[of c2 c3] unfolding check_le_def check_kept_def by auto
    ultimately show ?thesis by simp
  qed (use le ok in simp)
  then show ?thesis using put_check_old[OF inv c] 1(5) by simp
qed

lemma parent_reconfirm_ledger:
  assumes inv: "checks_inv (age_checks d)" and s: "parent_reconfirm d p i born now = (d', Inr c2)"
  shows "checks_inv (age_checks d') \<and> checks_step (age_checks d) (age_checks d')"
  using s
proof (cases rule: parent_reconfirm_changes)
  case (1 check student student' ns)
  have c: "check \<in> set (age_checks d)" using find_check_Inr[OF 1(1)] by simp
  have nf: "\<not> final check" using 1(2) by simp
  show ?thesis using apply_check_ledger[OF inv c nf 1(4)] 1(2,5) stored_check_inv[OF inv c] by (simp add: check_inv_def)
qed

lemma resend_ledger:
  assumes inv: "checks_inv (age_checks d)" and s: "resend_parent_age_check_notice rq d p i now = (d', Inr c')"
  shows "checks_inv (age_checks d') \<and> checks_step (age_checks d) (age_checks d')"
  using s
proof (cases rule: resend_changes)
  case (1 check student ns b)
  have c: "check \<in> set (age_checks d)" using find_check_Inr[OF 1(1)] by simp
  note k = notify_linked_parents_kept[OF 1(2)]
  have "check_inv c'" using k stored_check_inv[OF inv c] check_inv_cong[of check c'] by simp
  moreover have "check_le check c'" using k 1(5) unfolding check_le_def check_kept_def by auto
  ultimately show ?thesis using put_check_old[OF inv c] 1(3) by simp
qed

lemma get_by_put_check_other:
  assumes "c0 \<in> set (age_checks d)" "distinct (map ac_id (age_checks d))" "ac_id c = ac_id c0"
    and "ac_student_id c = ac_student_id c0" "s \<noteq> ac_student_id c0"
  shows "get_by ac_student_id s (age_checks (put_check c d)) = get_by ac_student_id s (age_checks d)"
proof -
  have "get_by ac_student_id s (update_where (\<lambda>r. ac_id r = ac_id c0) (\<lambda>_. c) rows) = get_by ac_student_id s rows"
    if "\<forall>r \<in> set rows. ac_id r = ac_id c0 \<longrightarrow> r = c0" for rows
    using that assms(4,5) by (induction rows) auto
  moreover have "\<forall>r \<in> set (age_checks d). ac_id r = ac_id c0 \<longrightarrow> r = c0"
    using assms(1,2) by (metis get_by_in option.inject)
  ultimately show ?thesis using assms(1,3) by (auto simp: put_check_def)
qed

lemma prepare_fold_ledger:
  assumes "checks_inv (age_checks d)" "distinct (map u_id us)"
    and "\<And>u. u \<in> set us \<Longrightarrow> \<exists>c. get_by ac_student_id (u_id u) (age_checks d) = Some c \<and> ac_state c = AC_MISMATCH"
  shows "checks_inv (age_checks (fold (prepare_hold now) us d)) \<and>
    checks_step (age_checks d) (age_checks (fold (prepare_hold now) us d))"
  using assms
proof (induction us arbitrary: d)
  case (Cons u us)
  obtain c where c: "get_by ac_student_id (u_id u) (age_checks d) = Some c" "ac_state c = AC_MISMATCH"
    using Cons.prems(3)[of u] by auto
  have cin: "c \<in> set (age_checks d)" "ac_student_id c = u_id u" using get_by_SomeD[OF c(1)] by auto
  obtain c' u' ns where a: "apply_check d (capture_band d c (utc_date now)) u now None = (c', u', ns)" by (metis prod_cases3)
  define d1 where "d1 = prepare_hold now u d"
  have d1: "age_checks d1 = age_checks (put_check c' d)" by (simp add: d1_def prepare_hold_def c a)
  have nf: "\<not> final c" using c(2) by simp
  have step: "checks_inv (age_checks d1)" "checks_step (age_checks d) (age_checks d1)"
    unfolding d1 using apply_check_ledger[OF Cons.prems(1) cin(1) nf a] stored_check_inv[OF Cons.prems(1) cin(1)]
    by (auto simp: check_inv_def)
  have "\<exists>c. get_by ac_student_id (u_id v) (age_checks d1) = Some c \<and> ac_state c = AC_MISMATCH" if "v \<in> set us" for v
  proof -
    have "u_id v \<noteq> u_id u" using Cons.prems(2) imageI[OF that, of u_id] by auto
    then have "get_by ac_student_id (u_id v) (age_checks d1) = get_by ac_student_id (u_id v) (age_checks d)"
      unfolding d1 using Cons.prems(1) cin apply_check_kept[OF a]
      by (intro get_by_put_check_other[of c]) (auto simp: checks_inv_def check_kept_def)
    then show ?thesis using Cons.prems(3)[of v] that by auto
  qed
  from Cons.IH[OF step(1) _ this] Cons.prems(2) step show ?case
    by (auto simp: d1_def intro: checks_step_trans)
qed simp

lemma prepare_pending_holds_ledger:
  assumes inv: "checks_inv (age_checks d)" and u: "distinct (map u_id (users d))"
  shows "checks_inv (age_checks (prepare_pending_holds d now)) \<and>
    checks_step (age_checks d) (age_checks (prepare_pending_holds d now))"
  unfolding prepare_pending_holds_def
proof (rule prepare_fold_ledger[OF inv])
  show "distinct (map u_id (pending_holds d))"
    using u unfolding pending_holds_def take_map[symmetric] by (intro distinct_take distinct_map_filter)
  fix v assume v: "v \<in> set (pending_holds d)"
  obtain c where "c \<in> set (age_checks d)" "ac_student_id c = u_id v" "ac_state c = AC_MISMATCH"
    using in_set_takeD[OF v[unfolded pending_holds_def]] by auto
  then show "\<exists>c. get_by ac_student_id (u_id v) (age_checks d) = Some c \<and> ac_state c = AC_MISMATCH"
    using inv unfolding checks_inv_def by (metis get_by_in)
qed

subsection \<open>The workflow as a step relation\<close>

inductive age_step :: "db \<Rightarrow> db \<Rightarrow> bool" where
  parent_date: "record_parent_date d school st born now i = (d', Inr state) \<Longrightarrow> i \<notin> ac_id ` set (age_checks d) \<Longrightarrow> age_step d d'"
| recheck: "school_recheck rq d p i born now = (d', Inr c) \<Longrightarrow> age_step d d'"
| resend: "resend_parent_age_check_notice rq d p i now = (d', Inr c) \<Longrightarrow> age_step d d'"
| reconfirm: "parent_reconfirm d p i born now = (d', Inr c) \<Longrightarrow> age_step d d'"
| holds: "distinct (map u_id (users d)) \<Longrightarrow> age_step d (prepare_pending_holds d now)"

lemma age_step_ledger:
  assumes "age_step d d'" "checks_inv (age_checks d)"
  shows "checks_inv (age_checks d') \<and> checks_step (age_checks d) (age_checks d')"
  using assms
proof cases
  case (parent_date school st born now i state)
  then show ?thesis using record_parent_date_ledger assms(2) by blast
next
  case (recheck rq p i born now c)
  then show ?thesis using school_recheck_ledger assms(2) by blast
next
  case (resend rq p i now c)
  then show ?thesis using resend_ledger assms(2) by blast
next
  case (reconfirm p i born now c)
  then show ?thesis using parent_reconfirm_ledger assms(2) by blast
next
  case (holds now)
  then show ?thesis using prepare_pending_holds_ledger assms(2) by blast
qed

text \<open>
  The contract the callers of this component rely on: whatever the step, a check keeps its invariant and
  is only changed as \<open>check_le\<close> allows.
\<close>

locale check_ledger =
  fixes step :: "db \<Rightarrow> db \<Rightarrow> bool"
  assumes step_keeps: "\<lbrakk>step d d'; checks_inv (age_checks d)\<rbrakk> \<Longrightarrow>
    checks_inv (age_checks d') \<and> checks_step (age_checks d) (age_checks d')"
begin

lemma run_keeps:
  assumes "step\<^sup>*\<^sup>* d d'" "checks_inv (age_checks d)"
  shows "checks_inv (age_checks d') \<and> checks_step (age_checks d) (age_checks d')"
  using assms
proof (induction rule: rtranclp_induct)
  case (step y z)
  then show ?case using step_keeps by (blast intro: checks_step_trans)
qed simp

lemma run_check:
  assumes "step\<^sup>*\<^sup>* d d'" "checks_inv (age_checks d)" "get_by ac_student_id s (age_checks d) = Some c"
  shows "\<exists>c'. get_by ac_student_id s (age_checks d') = Some c' \<and> check_le c c' \<and> check_inv c'"
proof -
  have c: "c \<in> set (age_checks d)" "ac_student_id c = s" using get_by_SomeD[OF assms(3)] by auto
  obtain c' where c': "c' \<in> set (age_checks d')" "check_le c c'"
    using run_keeps[OF assms(1,2)] c(1) unfolding checks_step_def by blast
  have "get_by ac_student_id s (age_checks d') = Some c'"
    using run_keeps[OF assms(1,2)] c' c(2) unfolding checks_inv_def check_le_def by (metis get_by_in)
  then show ?thesis using c' run_keeps[OF assms(1,2)] stored_check_inv by blast
qed

end

interpretation age_run: check_ledger age_step
  by unfold_locales (rule age_step_ledger)

subsection \<open>Properties\<close>


text \<open>
  Confirmation is final: once a check is matched or resolved, no later submission, re-check,
  reconfirmation, notice or sweep changes anything about it.
\<close>

theorem confirmed_age_is_final:
  assumes "age_step\<^sup>*\<^sup>* d d'" and "checks_inv (age_checks d)"
    and "get_by ac_student_id s (age_checks d) = Some c" and "ac_state c \<in> {AC_MATCHED, AC_RESOLVED}"
  shows "get_by ac_student_id s (age_checks d') = Some c"
proof -
  obtain c' where "get_by ac_student_id s (age_checks d') = Some c'" "check_le c c'"
    using age_run.run_check[OF assms(1-3)] by blast
  then show ?thesis using assms(4) by (auto simp: check_le_def)
qed

text \<open>
  Starting with no checks, the workflow never breaks the table's constraint, and every
  confirmed check operates on the parent's date, has both dates at most two calendar years
  apart, and has a captured enrolment band both dates fall into.
\<close>

theorem confirmed_checks_are_sound:
  assumes "age_step\<^sup>*\<^sup>* d d'" and "age_checks d = []" and "c \<in> set (age_checks d')"
  shows "age_checks_ok (age_checks d') \<and>
    (ac_state c \<in> {AC_MATCHED, AC_RESOLVED} \<longrightarrow>
     (\<exists>a b band. ac_school_date_of_birth c = Some a \<and> ac_parent_date_of_birth c = Some b \<and>
        ac_agreed_date_of_birth c = Some b \<and> ac_enrolled_age_band c = Some band \<and>
        \<not> discrepancy_exceeds_two_years a b \<and>
        (\<forall>today. ac_band_checked_on c = Some today \<longrightarrow> \<not> outside_band today band a \<and> \<not> outside_band today band b)))"
proof -
  have inv: "checks_inv (age_checks d')" using age_run.run_keeps[OF assms(1)] assms(2) by (simp add: checks_inv_def)
  have "age_checks_ok (age_checks d')" using inv by (auto simp: checks_inv_def age_checks_ok_def check_inv_def list_all_iff)
  moreover have "check_inv c" using stored_check_inv[OF inv assms(3)] .
  moreover have "\<exists>a b band. ac_school_date_of_birth c = Some a \<and> ac_parent_date_of_birth c = Some b \<and>
      ac_enrolled_age_band c = Some band \<and> \<not> discrepancy_exceeds_two_years a b \<and>
      (\<forall>today. ac_band_checked_on c = Some today \<longrightarrow> \<not> outside_band today band a \<and> \<not> outside_band today band b)"
    if "blocking_reasons c = []"
    using that blocking_reasons_no_dates[OF that] by (auto simp: blocking_reasons_def split: if_splits)
  ultimately show ?thesis unfolding check_inv_def by fastforce
qed

text \<open>
  While a check is held the younger of the two dates governs: the child's date of birth is the
  later one, and the age band that follows is no older than the band of either date.
\<close>

theorem younger_date_governs_a_hold:
  assumes "apply_check d c student now actor = (c', student', ns)" and "ac_state c' = AC_MISMATCH"
    and "ac_school_date_of_birth c = Some a" and "ac_parent_date_of_birth c = Some b" and "born \<in> {a, b}"
  shows "u_date_of_birth student' = Some (max a b) \<and>
    (\<exists>x y. u_age_band student' = Some (age_band_value x) \<and> band_for_date_of_birth (Some born) (utc_date now) = Some y \<and>
       band_rank x \<le> band_rank y)"
  using assms(1)
proof (cases rule: apply_check_cases)
  case await then show ?thesis using assms(3,4) by simp
next
  case confirm then show ?thesis using assms(2) by (simp split: if_splits)
next
  case hold
  obtain m where m: "age_on (Some (max a b)) (utc_date now) = Some m" by (simp add: age_on_def)
  obtain n where n: "age_on (Some born) (utc_date now) = Some n" by (simp add: age_on_def)
  have "born \<le> max a b" using assms(5) by auto
  then have "m \<le> n" using age_on_antimono_born n m by blast
  moreover obtain x y where "band_for_age (Some m) = Some x" "band_for_age (Some n) = Some y" by simp
  ultimately show ?thesis
    using hold(5) m n assms(3,4) band_rank_mono[of m n x y]
    by (simp add: with_birth_date_def later_date_def band_for_date_of_birth_def)
qed

lemma blocked_student_refused:
  assumes "age_check_blocks d st" "get_by u_id st (users d) = Some u" "u_role u = UR_STUDENT"
    and "authenticate env d tok now = (d', Inr p)"
  shows "ap_user_id p \<noteq> st"
proof
  assume "ap_user_id p = st"
  then obtain a where a: "find_by_id d st = Some a" "is_active a" using authenticate_Inr_active[OF assms(4)] by auto
  have "u_id u = st" using get_by_SomeD[OF assms(2)] by simp
  then show False using a assms(1-3) by (auto simp: find_by_id_def find_account_def is_active_def Let_def)
qed

lemma put_check_stored: "c \<in> set (age_checks (put_check c d))"
  by (auto simp: put_check_def set_update_where)

lemma apply_check_student:
  "apply_check d c student now actor = (c', student', ns) \<Longrightarrow> u_id student' = u_id student \<and> u_role student' = u_role student"
  by (erule apply_check_cases) (auto simp: with_birth_date_def)

lemma store_check_student:
  assumes "get_by u_id st (users d) = Some student" "apply_check d c student now actor = (c', student', ns)"
  shows "\<exists>u'. get_by u_id st (users (store_check d (c', student', ns))) = Some u' \<and> u_role u' = u_role student"
proof -
  have id: "u_id student' = st" "u_role student' = u_role student"
    using apply_check_student[OF assms(2)] get_by_SomeD[OF assms(1)] by auto
  have "get_by u_id st (update_where (\<lambda>r. u_id r = st) (\<lambda>_. student') rows) = map_option (\<lambda>_. student') (get_by u_id st rows)" for rows
    using id(1) by (induction rows) auto
  then show ?thesis using id assms(1) by (simp add: store_check_def put_user_def put_check_def)
qed

lemma store_check_blocks:
  assumes "apply_check d c student now actor = (c', student', ns)" "ac_state c' = AC_MISMATCH" "ac_student_id c = st"
  shows "age_check_blocks (store_check d (c', student', ns)) st"
  using assms put_check_stored[of c' d] apply_check_kept[OF assms(1)]
  by (auto simp: age_check_blocks_def check_kept_def)

lemma record_parent_date_mismatch:
  assumes "record_parent_date d school st born now i = (d', Inr AC_MISMATCH)"
    and "get_by u_id st (users d) = Some u"
  shows "age_check_blocks d' st \<and> (\<exists>u'. get_by u_id st (users d') = Some u' \<and> u_role u' = u_role u)"
  using assms(1)
proof (cases rule: record_parent_date_cases)
  case same
  then obtain c where c: "get_by ac_student_id st (age_checks d) = Some c" "ac_state c = AC_MISMATCH"
    by (auto split: option.splits)
  then show ?thesis using same(1) assms(2) get_by_SomeD[OF c(1)] by (auto simp: age_check_blocks_def)
next
  case (fresh student c' student' ns)
  then show ?thesis
    using store_check_blocks[OF fresh(3)] store_check_student[OF fresh(1,3)] assms(2) get_by_SomeD[OF fresh(1)]
    by (auto simp: new_age_check_def)
next
  case (known student c c' student' ns)
  then show ?thesis
    using store_check_blocks[OF known(5)] store_check_student[OF known(1,5)] assms(2) get_by_SomeD[OF known(2)]
    by auto
qed

text \<open>
  A held child is out of the product.  When recording the parent's date leaves the check in
  dispute, no access token of that student is accepted any more, whatever sessions are open.
\<close>

theorem held_child_is_signed_out:
  assumes "record_parent_date d school st born now i = (d', Inr AC_MISMATCH)"
    and "get_by u_id st (users d) = Some u" and "u_role u = UR_STUDENT"
  shows "\<forall>env tok t d'' p. authenticate env d' tok t = (d'', Inr p) \<longrightarrow> ap_user_id p \<noteq> st"
proof -
  obtain u' where b: "age_check_blocks d' st" and u': "get_by u_id st (users d') = Some u'" "u_role u' = UR_STUDENT"
    using record_parent_date_mismatch[OF assms(1,2)] assms(3) by auto
  show ?thesis using blocked_student_refused[OF b u'] by blast
qed

subsection \<open>Witnesses\<close>

text \<open>
  A primary-one pupil whom the school has as born in 2015; the parent gives 2018, which the class makes
  plausible, so the account is held until both look again.
\<close>

definition age_parent :: user_row where
  "age_parent = (new_user 21 (Some 1) UR_PARENT_GUARDIAN AM_EMAIL_PASSWORD)\<lparr>u_email := Some ''mum@b.ng''\<rparr>"

definition age_admin :: user_row where
  "age_admin = (new_user 15 (Some 1) UR_OTHER_ADMIN AM_EMAIL_PASSWORD)\<lparr>u_email := Some ''a@b.ng'', u_email_confirmed_at := Some 0\<rparr>"

definition age_link :: parent_link_row where
  "age_link = \<lparr>pl_id = 1, pl_school_id = 1, pl_student_id = 10, pl_parent_id = Some 21, pl_parent_name = ''Mum'',
     pl_parent_contact = ''mum@b.ng'', pl_contact_method = CC_EMAIL, pl_account_created = True, pl_updated_at = None, pl_created_at = 0\<rparr>"

definition age_db :: db where
  "age_db = empty_db\<lparr>schools := [sample_school],
     users := [sample_student\<lparr>u_date_of_birth := Some (Date 2015 3 1)\<rparr>, age_admin, age_parent],
     classes := [\<lparr>cl_id = 5, cl_school_id = 1, cl_name = ''P1A'', cl_normalised_name = ''p1a'', cl_class_code = None,
       cl_year_group = Some ''Primary 1'', cl_section = None, cl_academic_session = ''2025/2026'', cl_capacity = None,
       cl_source = ''manual'', cl_archived_at = None\<rparr>],
     enrollments := [\<lparr>en_id = 1, en_student_id = 10, en_class_id = 5\<rparr>], parent_links := [age_link]\<rparr>"

definition age_now :: datetime where
  "age_now = td_days 20454"

definition held_db :: db where
  "held_db = fst (record_parent_date age_db 1 10 (Some (Date 2018 3 1)) age_now 77)"

definition rechecked_db :: db where
  "rechecked_db = fst (school_recheck None held_db \<lparr>ap_user_id = 15, ap_role = ''other_admin'', ap_session_id = 1\<rparr> 77 (Date 2018 3 2) age_now)"

definition resolved_db :: db where
  "resolved_db = fst (parent_reconfirm rechecked_db \<lparr>ap_user_id = 21, ap_role = ''parent_guardian'', ap_session_id = 2\<rparr> 77 (Date 2018 3 1) (age_now + 1))"

lemma held_result: "snd (record_parent_date age_db 1 10 (Some (Date 2018 3 1)) age_now 77) = Inr AC_MISMATCH"
  by code_simp

lemma held_step: "age_step age_db held_db"
proof -
  have "record_parent_date age_db 1 10 (Some (Date 2018 3 1)) age_now 77 = (held_db, Inr AC_MISMATCH)"
    using held_result unfolding held_db_def by (metis prod.collapse)
  then show ?thesis by (rule age_step.parent_date) (simp add: age_db_def empty_db_def)
qed

lemma rechecked_step: "age_step held_db rechecked_db"
proof -
  let ?r = "school_recheck None held_db \<lparr>ap_user_id = 15, ap_role = ''other_admin'', ap_session_id = 1\<rparr> 77 (Date 2018 3 2) age_now"
  have "case snd ?r of Inr _ \<Rightarrow> True | Inl _ \<Rightarrow> False" by code_simp
  then obtain c where "snd ?r = Inr c" by (auto split: sum.splits)
  then have "?r = (rechecked_db, Inr c)" unfolding rechecked_db_def by (metis prod.collapse)
  then show ?thesis by (rule age_step.recheck)
qed

lemma resolved_step: "age_step rechecked_db resolved_db"
proof -
  let ?r = "parent_reconfirm rechecked_db \<lparr>ap_user_id = 21, ap_role = ''parent_guardian'', ap_session_id = 2\<rparr> 77 (Date 2018 3 1) (age_now + 1)"
  have "case snd ?r of Inr _ \<Rightarrow> True | Inl _ \<Rightarrow> False" by code_simp
  then obtain c where "snd ?r = Inr c" by (auto split: sum.splits)
  then have "?r = (resolved_db, Inr c)" unfolding resolved_db_def by (metis prod.collapse)
  then show ?thesis by (rule age_step.reconfirm)
qed

lemma held_check: "map (\<lambda>c. (ac_student_id c, ac_state c)) (age_checks held_db) = [(10, AC_MISMATCH)]"
  by code_simp

lemma resolved_check: "map (\<lambda>c. (ac_student_id c, ac_state c)) (age_checks resolved_db) = [(10, AC_RESOLVED)]"
  by code_simp

lemma single_check:
  assumes "map (\<lambda>c. (ac_student_id c, ac_state c)) rows = [(s, st)]"
  shows "\<exists>c. rows = [c] \<and> get_by ac_student_id s rows = Some c \<and> ac_state c = st"
  using assms by (auto simp: map_eq_Cons_conv)

lemma held_inv: "checks_inv (age_checks held_db)" "checks_inv (age_checks resolved_db)"
proof -
  have e: "checks_inv (age_checks age_db)" by (simp add: age_db_def empty_db_def checks_inv_def)
  show h: "checks_inv (age_checks held_db)" using age_step_ledger[OF held_step e] by blast
  have "checks_inv (age_checks rechecked_db)" using age_step_ledger[OF rechecked_step h] by blast
  then show "checks_inv (age_checks resolved_db)" using age_step_ledger[OF resolved_step] by blast
qed


theorem confirmed_age_is_final_witness:
  "age_checks (prepare_pending_holds resolved_db 5) \<noteq> []"
proof -
  have run: "age_step\<^sup>*\<^sup>* resolved_db (prepare_pending_holds resolved_db 5)"
    by (rule r_into_rtranclp, rule age_step.holds) code_simp
  obtain c where c: "get_by ac_student_id 10 (age_checks resolved_db) = Some c" "ac_state c \<in> {AC_MATCHED, AC_RESOLVED}"
    using single_check[OF resolved_check] by blast
  show ?thesis using confirmed_age_is_final[OF run held_inv(2) c] by auto
qed

theorem confirmed_checks_are_sound_witness:
  "\<exists>c a b. age_checks resolved_db = [c] \<and> ac_agreed_date_of_birth c = Some b \<and> ac_school_date_of_birth c = Some a \<and>
     \<not> discrepancy_exceeds_two_years a b"
proof -
  have run: "age_step\<^sup>*\<^sup>* age_db resolved_db"
    using held_step rechecked_step resolved_step by (meson r_into_rtranclp rtranclp_trans)
  have e: "age_checks age_db = []" by (simp add: age_db_def empty_db_def)
  obtain c where c: "age_checks resolved_db = [c]" "ac_state c = AC_RESOLVED" using single_check[OF resolved_check] by blast
  have "c \<in> set (age_checks resolved_db)" by (simp add: c)
  from confirmed_checks_are_sound[OF run e this] c show ?thesis by auto
qed

definition disputed_check :: age_check_row where
  "disputed_check = (new_age_check 77 1 sample_student)\<lparr>ac_school_date_of_birth := Some (Date 2015 3 1),
     ac_parent_date_of_birth := Some (Date 2018 3 1)\<rparr>"

theorem younger_date_governs_a_hold_witness:
  "u_date_of_birth (fst (snd (apply_check empty_db disputed_check sample_student age_now None))) = Some (max (Date 2015 3 1) (Date 2018 3 1))"
proof -
  obtain c' u' ns where a: "apply_check empty_db disputed_check sample_student age_now None = (c', u', ns)" by (metis prod_cases3)
  have "ac_state (fst (apply_check empty_db disputed_check sample_student age_now None)) = AC_MISMATCH" by code_simp
  then have s: "ac_state c' = AC_MISMATCH" by (simp add: a)
  have d: "ac_school_date_of_birth disputed_check = Some (Date 2015 3 1)" "ac_parent_date_of_birth disputed_check = Some (Date 2018 3 1)"
    by code_simp+
  show ?thesis using younger_date_governs_a_hold[OF a s d insertI1] by (simp add: a)
qed

theorem held_child_is_signed_out_witness:
  "\<not> (\<exists>env tok t d'' p. authenticate env held_db tok t = (d'', Inr p) \<and> ap_user_id p = 10)"
proof -
  have r: "record_parent_date age_db 1 10 (Some (Date 2018 3 1)) age_now 77 = (held_db, Inr AC_MISMATCH)"
    using held_result unfolding held_db_def by (metis prod.collapse)
  have u: "get_by u_id 10 (users age_db) = Some (sample_student\<lparr>u_date_of_birth := Some (Date 2015 3 1)\<rparr>)"
    "u_role (sample_student\<lparr>u_date_of_birth := Some (Date 2015 3 1)\<rparr>) = UR_STUDENT" by code_simp+
  show ?thesis using held_child_is_signed_out[OF r u] by blast
qed

end
