(* ===== verification/Consent.thy ===== *)
theory Consent
  imports AgeAssurance
begin

text \<open>
  Consent (\<^verbatim>\<open>nevo/consent/repositories.py\<close>, \<^verbatim>\<open>service.py\<close>, \<^verbatim>\<open>expiry.py\<close>, \<^verbatim>\<open>security.py\<close> and
  \<^verbatim>\<open>nevo/retention/anonymisation.py\<close>).  The HMAC and SHA-256 digests are parameters; \<^verbatim>\<open>uuid4\<close>, the random
  token and the clock are arguments, and where the database would stamp a row itself the operation's
  instant is used.  A frozenset of consent types is a list in the order it is iterated.

  A transaction ends in \<open>commit\<close>: what the operation built is flushed and kept if it meets the
  constraints of \<open>Database\<close>, otherwise nothing is kept and the operation fails.  The session does not
  flush by itself (\<^verbatim>\<open>autoflush=False\<close>), so the status of a record that was just constructed reads as
  \<^verbatim>\<open>None\<close> until the flush applies the column default.
\<close>

subsection \<open>Entities and errors\<close>

datatype consent_error =
    MissingSchoolContextError
  | StudentNotFoundError
  | InvalidParentContactError
  | InvalidConsentMethodError
  | InvalidConsentInvitationError
  | ParentAccountConflictError
  | StudentConsentAccessError
  | ConsentRequiredError
  | ConsentPendingError
  | ConsentUnavailableError
  | ConsentWithdrawnError
  | ParentAlreadyRefusedError
  | UncaughtIntegrityError
  | UncaughtAttributeError

record consent_actor =
  cta_user_id :: uuid
  cta_school_id :: uuid

record consent_record_view =
  cv_id :: uuid
  cv_student_id :: uuid
  cv_consent_type :: consent_type
  cv_status :: "consent_status option"
  cv_confirmation_source :: "consent_confirmation_source option"
  cv_confirmed_via :: "consent_method option"
  cv_confirmed_at :: "datetime option"

record parent_consent_request_draft =
  df_invitation_id :: uuid
  df_parent_link_id :: uuid
  df_school_id :: uuid
  df_student_id :: uuid
  df_parent_name :: string
  df_parent_contact :: string
  df_contact_method :: parent_contact_method
  df_consent_types :: "consent_type list"
  df_token_digest :: string
  df_consent_url :: string
  df_requested_by_user_id :: uuid
  df_created_at :: datetime
  df_expires_at :: datetime

record queued_parent_consent_request =
  qr_invitation_id :: uuid
  qr_parent_link_id :: uuid
  qr_student_id :: uuid
  qr_consent_types :: "consent_type list"
  qr_delivery_status :: consent_delivery_status
  qr_expires_at :: datetime

record parent_consent_completion =
  pcc_invitation_id :: uuid
  pcc_parent_link_id :: uuid
  pcc_parent_id :: uuid
  pcc_student_id :: uuid
  pcc_confirmed_types :: "consent_type list"
  pcc_declined_types :: "consent_type list"
  pcc_age_check :: age_check_state
  pcc_completed_at :: datetime
  pcc_receipt_sent_to :: "parent_contact_method option"

record consent_gate =
  cg_student_id :: uuid
  cg_granted :: bool
  cg_blocked :: bool
  cg_required_type :: consent_type
  cg_status :: consent_status

record parent_right_outcome =
  ro_request_id :: uuid
  ro_request_type :: parent_right_type
  ro_status :: string
  ro_reason_recorded :: bool

record parent_account =
  pa_user_id :: uuid
  pa_contact :: string
  pa_contact_method :: parent_contact_method
  pa_student_id :: uuid
  pa_already_active :: bool

subsection \<open>The transaction\<close>

definition flush :: "db \<Rightarrow> db" where
  "flush d = d\<lparr>consent_records := map (\<lambda>r. r\<lparr>cr_status :=
     (case cr_status r of None \<Rightarrow> Some CS_PENDING | Some s \<Rightarrow> Some s)\<rparr>) (consent_records d)\<rparr>"

definition finish :: "consent_error \<Rightarrow> db \<Rightarrow> db \<Rightarrow> 'a \<Rightarrow> db \<times> (consent_error + 'a)" where
  "finish on_integrity_error d d' result =
     (case commit (flush d') of Inl _ \<Rightarrow> (d, Inl on_integrity_error) | Inr d'' \<Rightarrow> (d'', Inr result))"

subsection \<open>Consent records\<close>

definition require_student :: "db \<Rightarrow> uuid \<Rightarrow> uuid \<Rightarrow> bool" where
  "require_student d school_id student_id =
     exists_where (\<lambda>u. u_id u = student_id \<and> u_school_id u = Some school_id \<and> u_role u = UR_STUDENT \<and>
       u_status u \<noteq> US_DEACTIVATED) (users d)"

definition is_consent :: "uuid \<Rightarrow> consent_type \<Rightarrow> consent_record_row \<Rightarrow> bool" where
  "is_consent student_id ty r = (cr_subject_user_id r = student_id \<and> cr_consent_type r = ty)"

definition consent_for_update :: "db \<Rightarrow> uuid \<Rightarrow> consent_type \<Rightarrow> consent_record_row option" where
  "consent_for_update d student_id ty = List.find (is_consent student_id ty) (consent_records d)"

definition new_consent_record :: "uuid \<Rightarrow> uuid \<Rightarrow> consent_type \<Rightarrow> consent_record_row" where
  "new_consent_record i student_id ty = \<lparr>cr_id = i, cr_subject_user_id = student_id,
     cr_consent_holder_parent_link_id = None, cr_consent_type = ty, cr_status = None,
     cr_confirmed_by_admin_id = None, cr_confirmed_by_parent_id = None, cr_confirmation_source = None,
     cr_confirmed_via = None, cr_confirmed_at = None, cr_last_actor_user_id = None, cr_last_changed_at = None,
     cr_last_channel = None, cr_parent_name_on_form = None, cr_parent_relationship = None, cr_signed_on = None,
     cr_notice_version = None, cr_evidence_storage_path = None, cr_uploaded_by_user_id = None, cr_uploaded_at = None\<rparr>"

definition ensure_pending_record :: "uuid \<Rightarrow> (consent_type \<Rightarrow> uuid) \<Rightarrow> consent_type \<Rightarrow> db \<Rightarrow> db" where
  "ensure_pending_record student_id new_id ty d =
     (case consent_for_update d student_id ty of
        Some _ \<Rightarrow> d
      | None \<Rightarrow> d\<lparr>consent_records := consent_records d @ [new_consent_record (new_id ty) student_id ty]\<rparr>)"

definition update_consent :: "(consent_record_row \<Rightarrow> bool) \<Rightarrow> (consent_record_row \<Rightarrow> consent_record_row) \<Rightarrow> db \<Rightarrow> db" where
  "update_consent P f d = d\<lparr>consent_records := update_where P f (consent_records d)\<rparr>"

definition consent_view :: "consent_record_row \<Rightarrow> consent_record_view" where
  "consent_view r = \<lparr>cv_id = cr_id r, cv_student_id = cr_subject_user_id r, cv_consent_type = cr_consent_type r,
     cv_status = cr_status r, cv_confirmation_source = cr_confirmation_source r,
     cv_confirmed_via = cr_confirmed_via r, cv_confirmed_at = cr_confirmed_at r\<rparr>"

subsection \<open>Confirmation by the school\<close>

definition school_confirmed :: "uuid \<Rightarrow> consent_method \<Rightarrow> datetime \<Rightarrow> consent_record_row \<Rightarrow> consent_record_row" where
  "school_confirmed admin_id via at_time r = r\<lparr>cr_status := Some CS_CONFIRMED, cr_confirmation_source := Some SRC_SCHOOL,
     cr_confirmed_by_admin_id := Some admin_id, cr_confirmed_by_parent_id := None, cr_confirmed_via := Some via,
     cr_confirmed_at := Some at_time, cr_last_actor_user_id := Some admin_id, cr_last_changed_at := Some at_time,
     cr_last_channel := Some (consent_method_value via)\<rparr>"

definition confirm_one ::
  "uuid \<Rightarrow> uuid \<Rightarrow> consent_method \<Rightarrow> datetime \<Rightarrow> (consent_type \<Rightarrow> uuid) \<Rightarrow> consent_type \<Rightarrow> db \<Rightarrow> db" where
  "confirm_one student_id admin_id via at_time new_id ty d =
     update_consent (\<lambda>r. is_consent student_id ty r \<and> cr_status r = Some CS_PENDING)
       (school_confirmed admin_id via at_time) (ensure_pending_record student_id new_id ty d)"

definition repo_confirm_by_school ::
  "db \<Rightarrow> uuid \<Rightarrow> uuid \<Rightarrow> consent_type list \<Rightarrow> uuid \<Rightarrow> consent_method \<Rightarrow> datetime \<Rightarrow> (consent_type \<Rightarrow> uuid)
     \<Rightarrow> db \<times> (consent_error + consent_record_view list)" where
  "repo_confirm_by_school d school_id student_id consent_types admin_id via at_time new_id =
     (if \<not> require_student d school_id student_id then (d, Inl StudentNotFoundError)
      else
        (let d' = fold (confirm_one student_id admin_id via at_time new_id) consent_types d in
         finish UncaughtIntegrityError d d'
           (map consent_view (concat (map (\<lambda>ty. filter (is_consent student_id ty) (consent_records (flush d'))) consent_types)))))"

definition DEFAULT_REQUESTED_CONSENT :: "consent_type list" where
  "DEFAULT_REQUESTED_CONSENT = [CT_DATA_PROCESSING, CT_CROSS_BORDER_TRANSFER]"

definition required_types :: "consent_type list \<Rightarrow> consent_type list" where
  "required_types consent_types = (if consent_types \<noteq> [] then consent_types else DEFAULT_REQUESTED_CONSENT)"

definition confirm_by_school ::
  "db \<Rightarrow> consent_actor \<Rightarrow> uuid \<Rightarrow> consent_type list \<Rightarrow> consent_method \<Rightarrow> datetime \<Rightarrow> (consent_type \<Rightarrow> uuid)
     \<Rightarrow> db \<times> (consent_error + consent_record_view list)" where
  "confirm_by_school d actor student_id consent_types via now new_id =
     (if via = CM_DIGITAL then (d, Inl InvalidConsentMethodError)
      else repo_confirm_by_school d (cta_school_id actor) student_id (required_types consent_types)
             (cta_user_id actor) via now new_id)"

subsection \<open>Refusals\<close>

definition contact_digest :: "(string \<Rightarrow> string) \<Rightarrow> string \<Rightarrow> string" where
  "contact_digest sha contact = sha (py_casefold (py_strip contact))"

definition already_refused :: "(string \<Rightarrow> string) \<Rightarrow> db \<Rightarrow> uuid \<Rightarrow> string \<Rightarrow> bool" where
  "already_refused sha d student_id parent_contact =
     exists_where (\<lambda>f. rf_student_id f = student_id \<and> rf_contact_digest f = contact_digest sha parent_contact) (consent_refusals d)"

subsection \<open>Asking a parent\<close>

definition pending_consent_notices :: "db \<Rightarrow> uuid \<Rightarrow> uuid \<Rightarrow> string \<Rightarrow> datetime \<Rightarrow> notification_row list" where
  "pending_consent_notices d school_id student_id parent_name now =
     (let first = (case get_by u_id student_id (users d) of None \<Rightarrow> [] | Some u \<Rightarrow> present (u_first_name u));
          child = (if first \<noteq> [] then first else ''A learner'') in
      map (\<lambda>u. \<lparr>n_recipient_id = u_id u, n_recipient_role = user_role_value (u_role u),
             n_type = notification_type_value NT_CONSENT_ACTION_REQUIRED,
             n_title = ''Consent requested for '' @ child,
             n_description = parent_name @ '' has been asked for permission. '' @ child @ '' cannot start until they answer.'',
             n_navigates_to = Some ''/admin/consent'', n_read = False,
             n_category = notification_category_value NC_CONSENT, n_archived_at = None, n_created_at = now\<rparr>)
        (school_recipients d school_id))"

definition request_link :: "parent_consent_request_draft \<Rightarrow> db \<Rightarrow> db \<times> uuid" where
  "request_link draft d =
     (case List.find (\<lambda>l. pl_student_id l = df_student_id draft \<and> pl_parent_contact l = df_parent_contact draft \<and>
             pl_contact_method l = df_contact_method draft) (parent_links d) of
        None \<Rightarrow> (d\<lparr>parent_links := parent_links d @ [\<lparr>pl_id = df_parent_link_id draft, pl_school_id = df_school_id draft,
            pl_student_id = df_student_id draft, pl_parent_id = None, pl_parent_name = df_parent_name draft,
            pl_parent_contact = df_parent_contact draft, pl_contact_method = df_contact_method draft,
            pl_account_created = False, pl_updated_at = Some (df_created_at draft), pl_created_at = df_created_at draft\<rparr>]\<rparr>,
           df_parent_link_id draft)
      | Some l \<Rightarrow> (d\<lparr>parent_links := update_where (\<lambda>x. pl_id x = pl_id l) (\<lambda>x. x\<lparr>pl_parent_name := df_parent_name draft\<rparr>) (parent_links d)\<rparr>,
                   pl_id l))"

definition request_items :: "parent_consent_request_draft \<Rightarrow> (consent_type \<Rightarrow> uuid) \<Rightarrow> db \<Rightarrow> db" where
  "request_items draft new_id d =
     fold (\<lambda>ty x. ensure_pending_record (df_student_id draft) new_id ty
             (x\<lparr>invitation_items := invitation_items x @ [\<lparr>ii_invitation_id = df_invitation_id draft, ii_consent_type = ty\<rparr>]\<rparr>))
       (df_consent_types draft) d"

definition create_parent_request ::
  "(string \<Rightarrow> string) \<Rightarrow> db \<Rightarrow> parent_consent_request_draft \<Rightarrow> (consent_type \<Rightarrow> uuid)
     \<Rightarrow> db \<times> (consent_error + queued_parent_consent_request)" where
  "create_parent_request sha d draft new_id =
     (if \<not> require_student d (df_school_id draft) (df_student_id draft) then (d, Inl StudentNotFoundError)
      else if already_refused sha d (df_student_id draft) (df_parent_contact draft) then (d, Inl ParentAlreadyRefusedError)
      else
        (let (d1, link_id) = request_link draft d;
             d2 = d1\<lparr>consent_invitations := update_where
                    (\<lambda>i. ci_parent_link_id i = link_id \<and> ci_accepted_at i = None \<and> ci_revoked_at i = None)
                    (\<lambda>i. i\<lparr>ci_revoked_at := Some (df_created_at draft)\<rparr>) (consent_invitations d1) @
                    [\<lparr>ci_id = df_invitation_id draft, ci_parent_link_id = link_id, ci_school_id = df_school_id draft,
                      ci_student_id = df_student_id draft, ci_token_digest = df_token_digest draft,
                      ci_requested_by_user_id = df_requested_by_user_id draft, ci_created_at = df_created_at draft,
                      ci_expires_at = df_expires_at draft, ci_accepted_at = None, ci_revoked_at = None\<rparr>]\<rparr>;
             d3 = request_items draft new_id d2;
             d4 = d3\<lparr>consent_outbox := consent_outbox d3 @ [\<lparr>ob_invitation_id = df_invitation_id draft,
                    ob_contact_method = df_contact_method draft, ob_destination = df_parent_contact draft,
                    ob_consent_url = df_consent_url draft, ob_kind = NK_REQUEST, ob_status = DS_QUEUED,
                    ob_last_error = None, ob_sent_at = None, ob_attempt_count = 0\<rparr>],
                  notifications := notifications d3 @ pending_consent_notices d3 (df_school_id draft) (df_student_id draft)
                    (df_parent_name draft) (df_created_at draft)\<rparr> in
         finish ParentAccountConflictError d d4
           \<lparr>qr_invitation_id = df_invitation_id draft, qr_parent_link_id = link_id, qr_student_id = df_student_id draft,
            qr_consent_types = df_consent_types draft, qr_delivery_status = DS_QUEUED, qr_expires_at = df_expires_at draft\<rparr>))"

text \<open>\<^verbatim>\<open>EMAIL_PATTERN.fullmatch\<close>: one \<^verbatim>\<open>@\<close> with something before it, and a dot inside what follows it.\<close>

definition email_char :: "char \<Rightarrow> bool" where
  "email_char c = (c \<noteq> CHR ''@'' \<and> \<not> py_isspace c)"

definition email_pattern :: "string \<Rightarrow> bool" where
  "email_pattern s =
     (let local = takeWhile (\<lambda>c. c \<noteq> CHR ''@'') s; rest = drop (Suc (length local)) s in
      length local < length s \<and> local \<noteq> [] \<and> list_all email_char local \<and> list_all email_char rest \<and>
      list_ex (\<lambda>i. rest ! i = CHR ''.'') [1..<length rest - 1])"

definition normalize_contact :: "string \<Rightarrow> consent_error + string" where
  "normalize_contact contact =
     (let normalized = py_casefold (py_strip contact) in
      if email_pattern normalized then Inr normalized else Inl InvalidParentContactError)"

definition PARENT_CONSENT_LIFETIME :: timedelta where
  "PARENT_CONSENT_LIFETIME = td_days 30"

definition consent_token_digest :: "(string \<Rightarrow> string) \<Rightarrow> string \<Rightarrow> string" where
  "consent_token_digest hmac token = hmac (''parent-consent:'' @ token)"

text \<open>\<^verbatim>\<open>urllib.parse.quote(token, safe="")\<close> and \<^verbatim>\<open>str.rstrip("/")\<close>.\<close>

definition quote_char :: "char \<Rightarrow> string" where
  "quote_char c = (if char_isalnum c \<or> c \<in> set ''_.-~'' then [c] else ''%'' @ py_upper (padded_digits 16 2 (of_char c)))"

definition rstrip_slash :: "string \<Rightarrow> string" where
  "rstrip_slash s = rev (dropWhile (\<lambda>c. c = CHR ''/'') (rev s))"

definition parent_consent_url :: "string \<Rightarrow> string \<Rightarrow> string" where
  "parent_consent_url base_url token = rstrip_slash base_url @ ''/parent/'' @ concat (map quote_char token)"

definition request_parent_consent ::
  "(string \<Rightarrow> string) \<Rightarrow> (string \<Rightarrow> string) \<Rightarrow> string \<Rightarrow> db \<Rightarrow> consent_actor \<Rightarrow> uuid \<Rightarrow> string \<Rightarrow> string
     \<Rightarrow> parent_contact_method \<Rightarrow> consent_type list \<Rightarrow> datetime \<Rightarrow> string \<Rightarrow> uuid \<Rightarrow> uuid \<Rightarrow> (consent_type \<Rightarrow> uuid)
     \<Rightarrow> db \<times> (consent_error + queued_parent_consent_request)" where
  "request_parent_consent hmac sha base_url d actor student_id parent_name parent_contact contact_method consent_types
     now token invitation_id parent_link_id new_id =
     (case normalize_contact parent_contact of
        Inl e \<Rightarrow> (d, Inl e)
      | Inr contact \<Rightarrow>
          create_parent_request sha d
            \<lparr>df_invitation_id = invitation_id, df_parent_link_id = parent_link_id, df_school_id = cta_school_id actor,
             df_student_id = student_id, df_parent_name = py_join '' '' (py_split parent_name),
             df_parent_contact = contact, df_contact_method = contact_method,
             df_consent_types = required_types consent_types, df_token_digest = consent_token_digest hmac token,
             df_consent_url = parent_consent_url (rstrip_slash base_url) token,
             df_requested_by_user_id = cta_user_id actor, df_created_at = now,
             df_expires_at = now + PARENT_CONSENT_LIFETIME\<rparr> new_id)"

subsection \<open>The parent behind a link\<close>

definition parent_for_link :: "db \<Rightarrow> parent_link_row \<Rightarrow> uuid \<Rightarrow> consent_error + db \<times> user_row" where
  "parent_for_link d link new_id =
     (case pl_parent_id link of
        Some pid \<Rightarrow>
          (case get_by u_id pid (users d) of
             None \<Rightarrow> Inl ParentAccountConflictError
           | Some u \<Rightarrow> Inr (d, u))
      | None \<Rightarrow>
          (let contact = py_casefold (pl_parent_contact link);
               by_email = (pl_contact_method link = CC_EMAIL) in
           case List.find (\<lambda>u. u_school_id u = Some (pl_school_id link) \<and>
                  map_option sql_lower (if by_email then u_email u else u_login_identifier u) = Some contact) (users d) of
             Some u \<Rightarrow> if u_role u \<noteq> UR_PARENT_GUARDIAN then Inl ParentAccountConflictError else Inr (d, u)
           | None \<Rightarrow>
               (let u = (new_user new_id (Some (pl_school_id link)) UR_PARENT_GUARDIAN AM_EMAIL_PASSWORD)
                          \<lparr>u_first_name := Some (pl_parent_name link), u_email := (if by_email then Some contact else None),
                           u_login_identifier := (if by_email then None else Some contact), u_status := US_INVITED\<rparr> in
                Inr (d\<lparr>users := users d @ [u]\<rparr>, u))))"

definition attach_parent :: "uuid \<Rightarrow> uuid \<Rightarrow> datetime \<Rightarrow> db \<Rightarrow> db" where
  "attach_parent link_id parent_id now d = d\<lparr>parent_links := update_where (\<lambda>l. pl_id l = link_id)
     (\<lambda>l. l\<lparr>pl_parent_id := Some parent_id, pl_account_created := True, pl_updated_at := Some now\<rparr>) (parent_links d)\<rparr>"

subsection \<open>The parent's answer\<close>

definition NOTICE_VERSION :: string where
  "NOTICE_VERSION = ''2026-09-v1''"

definition parent_confirmed ::
  "uuid \<Rightarrow> datetime \<Rightarrow> string option \<Rightarrow> string option \<Rightarrow> string option \<Rightarrow> consent_record_row \<Rightarrow> consent_record_row" where
  "parent_confirmed parent_id at_time relationship parent_name notice_version r =
     r\<lparr>cr_status := Some CS_CONFIRMED, cr_confirmation_source := Some SRC_PARENT, cr_confirmed_by_admin_id := None,
       cr_confirmed_by_parent_id := Some parent_id, cr_confirmed_via := Some CM_DIGITAL, cr_confirmed_at := Some at_time,
       cr_last_actor_user_id := Some parent_id, cr_last_changed_at := Some at_time,
       cr_last_channel := Some (consent_method_value CM_DIGITAL), cr_parent_relationship := relationship,
       cr_notice_version := notice_version,
       cr_parent_name_on_form := (if py_strip (present parent_name) \<noteq> [] then Some (py_strip (present parent_name))
                                  else cr_parent_name_on_form r)\<rparr>"

definition answered :: "uuid \<Rightarrow> datetime \<Rightarrow> consent_record_row \<Rightarrow> consent_record_row" where
  "answered parent_id at_time r = r\<lparr>cr_last_actor_user_id := Some parent_id, cr_last_changed_at := Some at_time,
     cr_last_channel := Some (consent_method_value CM_DIGITAL)\<rparr>"

text \<open>One granted type: a record that is pending is confirmed, and the type is reported as confirmed now.\<close>

definition grant_one ::
  "uuid \<Rightarrow> uuid \<Rightarrow> datetime \<Rightarrow> string option \<Rightarrow> string option \<Rightarrow> string option \<Rightarrow> (consent_type \<Rightarrow> uuid)
     \<Rightarrow> consent_type \<Rightarrow> db \<times> consent_type list \<Rightarrow> db \<times> consent_type list" where
  "grant_one student_id parent_id at_time relationship parent_name notice_version new_id ty st =
     (let d = ensure_pending_record student_id new_id ty (fst st);
          hit = (\<lambda>r. is_consent student_id ty r \<and> cr_status r = Some CS_PENDING) in
      (update_consent hit (parent_confirmed parent_id at_time relationship parent_name notice_version) d,
       snd st @ (if exists_where hit (consent_records d) then [ty] else [])))"

definition decline_one ::
  "uuid \<Rightarrow> uuid \<Rightarrow> datetime \<Rightarrow> (consent_type \<Rightarrow> uuid) \<Rightarrow> consent_type \<Rightarrow> db \<times> consent_type list \<Rightarrow> db \<times> consent_type list" where
  "decline_one student_id parent_id at_time new_id ty st =
     (let d = ensure_pending_record student_id new_id ty (fst st);
          hit = (\<lambda>r. is_consent student_id ty r \<and> (cr_status r = Some CS_PENDING \<or> cr_status r = Some CS_NOT_SENT)) in
      (update_consent hit (answered parent_id at_time) d,
       snd st @ (if exists_where hit (consent_records d) then [ty] else [])))"

text \<open>
  \<^verbatim>\<open>complete_parent_request\<close>.  The answer is \<^verbatim>\<open>None\<close> for a link that is unknown, used, revoked or expired.
  \<open>ids\<close> gives the keys of new rows: the parent account, the consent records by type, the age check.
\<close>

definition asked_types :: "db \<Rightarrow> uuid \<Rightarrow> consent_type list" where
  "asked_types d invitation_id =
     remdups (map ii_consent_type (filter (\<lambda>i. ii_invitation_id i = invitation_id) (invitation_items d)))"

definition open_invitation :: "db \<Rightarrow> string \<Rightarrow> datetime \<Rightarrow> consent_invitation_row option" where
  "open_invitation d digest now =
     (case get_by ci_token_digest digest (consent_invitations d) of
        None \<Rightarrow> None
      | Some i \<Rightarrow> if ci_accepted_at i \<noteq> None \<or> ci_revoked_at i \<noteq> None \<or> ci_expires_at i \<le> now then None else Some i)"

definition accept_invitation :: "consent_invitation_row \<Rightarrow> parent_link_row \<Rightarrow> datetime \<Rightarrow> bool \<Rightarrow> db \<Rightarrow> db" where
  "accept_invitation i link now receipt d = d\<lparr>
     consent_invitations := update_where (\<lambda>x. ci_id x = ci_id i) (\<lambda>x. x\<lparr>ci_accepted_at := Some now\<rparr>) (consent_invitations d),
     consent_outbox := update_where (\<lambda>x. ob_invitation_id x = ci_id i) (\<lambda>x. x\<lparr>ob_consent_url := []\<rparr>) (consent_outbox d) @
       (if receipt then [\<lparr>ob_invitation_id = ci_id i, ob_contact_method = pl_contact_method link,
          ob_destination = pl_parent_contact link, ob_consent_url = [], ob_kind = NK_RECEIPT, ob_status = DS_QUEUED,
          ob_last_error = None, ob_sent_at = None, ob_attempt_count = 0\<rparr>] else [])\<rparr>"

record new_ids =
  ni_parent :: uuid
  ni_record :: "consent_type \<Rightarrow> uuid"
  ni_age_check :: uuid

definition complete_parent_request ::
  "db \<Rightarrow> string \<Rightarrow> datetime \<Rightarrow> consent_type list \<Rightarrow> date option \<Rightarrow> string option \<Rightarrow> string option \<Rightarrow> string option
     \<Rightarrow> new_ids \<Rightarrow> db \<times> (consent_error + parent_consent_completion option)" where
  "complete_parent_request d digest completed_at granted_types born relationship parent_name notice_version ids =
     (case open_invitation d digest completed_at of
        None \<Rightarrow> (d, Inr None)
      | Some i \<Rightarrow>
          (case get_by pl_id (ci_parent_link_id i) (parent_links d) of
             None \<Rightarrow> (d, Inr None)
           | Some link \<Rightarrow>
               (case parent_for_link d link (ni_parent ids) of
                  Inl e \<Rightarrow> (d, Inl e)
                | Inr (d1, parent) \<Rightarrow>
                    (let asked = asked_types d1 (ci_id i);
                         (d2, confirmed_now) = fold (grant_one (ci_student_id i) (u_id parent) completed_at relationship
                            parent_name notice_version (ni_record ids)) (filter (\<lambda>ty. ty \<in> set granted_types) asked) (d1, []);
                         (d3, declined_now) = fold (decline_one (ci_student_id i) (u_id parent) completed_at (ni_record ids))
                            (filter (\<lambda>ty. ty \<notin> set granted_types) asked) (d2, []) in
                     case record_parent_date d3 (pl_school_id link) (ci_student_id i) born completed_at (ni_age_check ids) of
                       (d4, Inl _) \<Rightarrow> (d, Inl UncaughtAttributeError)
                     | (d4, Inr age_check) \<Rightarrow>
                         finish ParentAccountConflictError d
                           (accept_invitation i link completed_at (confirmed_now \<noteq> [])
                              (attach_parent (pl_id link) (u_id parent) completed_at d4))
                           (Some \<lparr>pcc_invitation_id = ci_id i, pcc_parent_link_id = pl_id link, pcc_parent_id = u_id parent,
                             pcc_student_id = ci_student_id i, pcc_confirmed_types = confirmed_now,
                             pcc_declined_types = declined_now, pcc_age_check = age_check, pcc_completed_at = completed_at,
                             pcc_receipt_sent_to = (if confirmed_now \<noteq> [] then Some (pl_contact_method link) else None)\<rparr>)))))"

definition complete_parent_consent ::
  "(string \<Rightarrow> string) \<Rightarrow> db \<Rightarrow> string \<Rightarrow> consent_type list \<Rightarrow> date option \<Rightarrow> string option \<Rightarrow> string option \<Rightarrow> datetime
     \<Rightarrow> new_ids \<Rightarrow> db \<times> (consent_error + parent_consent_completion option)" where
  "complete_parent_consent hmac d token granted_types born relationship parent_name now ids =
     complete_parent_request d (consent_token_digest hmac token) now granted_types born relationship parent_name
       (Some NOTICE_VERSION) ids"

subsection \<open>The parent's account\<close>

definition live_link :: "db \<Rightarrow> string \<Rightarrow> (consent_invitation_row \<times> parent_link_row) option" where
  "live_link d digest =
     (case List.find (\<lambda>i. ci_token_digest i = digest \<and> ci_revoked_at i = None) (consent_invitations d) of
        None \<Rightarrow> None
      | Some i \<Rightarrow> (case get_by pl_id (ci_parent_link_id i) (parent_links d) of None \<Rightarrow> None | Some l \<Rightarrow> Some (i, l)))"

definition update_user :: "uuid \<Rightarrow> (user_row \<Rightarrow> user_row) \<Rightarrow> db \<Rightarrow> db" where
  "update_user i f d = d\<lparr>users := update_where (\<lambda>u. u_id u = i) f (users d)\<rparr>"

definition or_else :: "string option \<Rightarrow> string \<Rightarrow> string option" where
  "or_else current fallback = (if present current \<noteq> [] then current else Some fallback)"

definition activate_parent_account ::
  "db \<Rightarrow> string \<Rightarrow> string \<Rightarrow> datetime \<Rightarrow> uuid \<Rightarrow> db \<times> (consent_error + parent_account option)" where
  "activate_parent_account d digest password_hash now new_id =
     (case live_link d digest of
        None \<Rightarrow> (d, Inr None)
      | Some (i, link) \<Rightarrow>
          if ci_expires_at i \<le> now then (d, Inr None)
          else case parent_for_link d link new_id of
            Inl e \<Rightarrow> (d, Inl e)
          | Inr (d1, parent) \<Rightarrow>
              (let d2 = attach_parent (pl_id link) (u_id parent) now d1;
                   contact = py_casefold (pl_parent_contact link) in
               if u_status parent = US_ACTIVE \<and> present (u_password_hash parent) \<noteq> [] then
                 finish UncaughtIntegrityError d d2
                   (Some \<lparr>pa_user_id = u_id parent,
                      pa_contact = present (or_else (u_email parent) (present (or_else (u_login_identifier parent) contact))),
                      pa_contact_method = pl_contact_method link, pa_student_id = pl_student_id link, pa_already_active = True\<rparr>)
               else
                 finish UncaughtIntegrityError d
                   (update_user (u_id parent) (\<lambda>u. (if pl_contact_method link = CC_EMAIL
                        then u\<lparr>u_email := or_else (u_email u) contact\<rparr>
                        else u\<lparr>u_login_identifier := or_else (u_login_identifier u) contact\<rparr>)
                      \<lparr>u_auth_method := AM_EMAIL_PASSWORD, u_password_hash := Some password_hash, u_status := US_ACTIVE,
                       u_deactivated_at := None\<rparr>) d2)
                   (Some \<lparr>pa_user_id = u_id parent, pa_contact = contact, pa_contact_method = pl_contact_method link,
                      pa_student_id = pl_student_id link, pa_already_active = False\<rparr>)))"

definition login_candidates :: "db \<Rightarrow> string \<Rightarrow> (user_row \<times> parent_link_row) list" where
  "login_candidates d wanted =
     [(u, l). u \<leftarrow> users d, u_role u = UR_PARENT_GUARDIAN \<and> u_status u \<noteq> US_DEACTIVATED \<and>
        (map_option sql_lower (u_email u) = Some wanted \<or> map_option sql_lower (u_login_identifier u) = Some wanted),
      l \<leftarrow> parent_links d, pl_parent_id l = Some (u_id u)]"

definition parent_for_login ::
  "db \<Rightarrow> string \<Rightarrow> string option \<Rightarrow> datetime \<Rightarrow> uuid \<Rightarrow> db \<times> (consent_error + parent_account option)" where
  "parent_for_login d contact digest now new_id =
     (let wanted = py_casefold (py_strip contact) in
      case digest of
        Some dig \<Rightarrow>
          (case live_link d dig of
             None \<Rightarrow> (d, Inr None)
           | Some (i, link) \<Rightarrow>
               if py_casefold (py_strip (pl_parent_contact link)) \<noteq> wanted then (d, Inr None)
               else case parent_for_link d link new_id of
                 Inl e \<Rightarrow> (d, Inl e)
               | Inr (d1, parent) \<Rightarrow>
                   finish UncaughtIntegrityError d
                     (update_user (u_id parent) (\<lambda>u. (if pl_contact_method link = CC_EMAIL
                          then u\<lparr>u_email := or_else (u_email u) wanted\<rparr>
                          else u\<lparr>u_login_identifier := or_else (u_login_identifier u) wanted\<rparr>)
                        \<lparr>u_status := US_ACTIVE, u_deactivated_at := None\<rparr>) (attach_parent (pl_id link) (u_id parent) now d1))
                     (Some \<lparr>pa_user_id = u_id parent, pa_contact = wanted, pa_contact_method = pl_contact_method link,
                        pa_student_id = pl_student_id link, pa_already_active = False\<rparr>))
      | None \<Rightarrow>
          (case login_candidates d wanted of
             [] \<Rightarrow> (d, Inr None)
           | (u, l) # _ \<Rightarrow> (d, Inr (Some \<lparr>pa_user_id = u_id u, pa_contact = wanted, pa_contact_method = pl_contact_method l,
               pa_student_id = u_id u, pa_already_active = True\<rparr>))))"

subsection \<open>Rights exercised through the link\<close>

definition withdraw_record :: "uuid \<Rightarrow> datetime \<Rightarrow> consent_record_row \<Rightarrow> consent_record_row" where
  "withdraw_record parent_id now r = r\<lparr>cr_status := Some CS_WITHDRAWN, cr_last_actor_user_id := Some parent_id,
     cr_last_changed_at := Some now, cr_last_channel := Some ''parent_portal''\<rparr>"

definition suspend_student :: "uuid \<Rightarrow> datetime \<Rightarrow> db \<Rightarrow> db" where
  "suspend_student student_id now d =
     update_user student_id (\<lambda>u. u\<lparr>u_status := US_DEACTIVATED, u_deactivated_at := Some now\<rparr>) d"

text \<open>\<open>ids\<close> gives the keys of a new parent account and a new consent record; \<open>request_id\<close> that of the request.\<close>

definition exercise_parent_right ::
  "db \<Rightarrow> string \<Rightarrow> parent_right_type \<Rightarrow> string option \<Rightarrow> datetime \<Rightarrow> new_ids \<Rightarrow> uuid
     \<Rightarrow> db \<times> (consent_error + parent_right_outcome option)" where
  "exercise_parent_right d digest request_type reason now ids request_id =
     (case live_link d digest of
        None \<Rightarrow> (d, Inr None)
      | Some (i, link) \<Rightarrow>
          if ci_expires_at i \<le> now then (d, Inr None)
          else
            (let holder = (case pl_parent_id link of
                   Some pid \<Rightarrow> Inr (d, pid)
                 | None \<Rightarrow> (case parent_for_link d link (ni_parent ids) of
                     Inl e \<Rightarrow> Inl e
                   | Inr (d1, parent) \<Rightarrow> Inr (attach_parent (pl_id link) (u_id parent) now d1, u_id parent))) in
             case holder of
               Inl e \<Rightarrow> (d, Inl e)
             | Inr (d2, parent_id) \<Rightarrow>
                 (let d3 = d2\<lparr>parent_data_requests := parent_data_requests d2 @ [\<lparr>dr_id = request_id,
                        dr_student_id = pl_student_id link, dr_parent_id = parent_id,
                        dr_request_type = parent_right_type_value request_type, dr_reason = reason, dr_status = ''open'',
                        dr_created_at = now, dr_resolved_at = None\<rparr>]\<rparr>;
                      d4 = (if request_type = PR_WITHDRAW_CONSENT then
                              update_consent (\<lambda>r. is_consent (pl_student_id link) REQUIRED_LEARNING_CONSENT r \<and>
                                                   cr_status r \<noteq> Some CS_WITHDRAWN)
                                (withdraw_record parent_id now)
                                (ensure_pending_record (pl_student_id link) (ni_record ids) REQUIRED_LEARNING_CONSENT
                                  (suspend_student (pl_student_id link) now d3))
                            else d3) in
                  finish UncaughtIntegrityError d d4
                    (Some \<lparr>ro_request_id = request_id, ro_request_type = request_type, ro_status = ''open'',
                       ro_reason_recorded = (present reason \<noteq> [])\<rparr>))))"

subsection \<open>The gate\<close>

definition has_confirmed_consent :: "db \<Rightarrow> uuid \<Rightarrow> consent_type \<Rightarrow> bool" where
  "has_confirmed_consent d student_id ty =
     exists_where (\<lambda>r. is_consent student_id ty r \<and> cr_status r = Some CS_CONFIRMED) (consent_records d)"

definition consent_status_of :: "db \<Rightarrow> uuid \<Rightarrow> consent_type \<Rightarrow> consent_status" where
  "consent_status_of d student_id ty =
     (case consent_for_update d student_id ty of
        None \<Rightarrow> CS_NOT_SENT
      | Some r \<Rightarrow> (case cr_status r of None \<Rightarrow> CS_NOT_SENT | Some s \<Rightarrow> s))"

definition student_gate :: "db \<Rightarrow> auth_principal \<Rightarrow> consent_error + consent_gate" where
  "student_gate d p =
     (if ap_role p \<noteq> ''student'' then Inl StudentConsentAccessError
      else
        (let status = consent_status_of d (ap_user_id p) REQUIRED_LEARNING_CONSENT in
         Inr \<lparr>cg_student_id = ap_user_id p, cg_granted = (status = CS_CONFIRMED), cg_blocked = (status \<noteq> CS_CONFIRMED),
              cg_required_type = REQUIRED_LEARNING_CONSENT, cg_status = status\<rparr>))"

definition require_student_consent :: "db \<Rightarrow> auth_principal \<Rightarrow> consent_error + consent_gate" where
  "require_student_consent d p =
     (case student_gate d p of
        Inl e \<Rightarrow> Inl e
      | Inr gate \<Rightarrow>
          if cg_status gate = CS_WITHDRAWN then Inl ConsentWithdrawnError
          else if cg_status gate = CS_PENDING then Inl ConsentPendingError
          else if \<not> cg_granted gate then Inl ConsentRequiredError
          else Inr gate)"

definition ensure_pending :: "db \<Rightarrow> uuid \<Rightarrow> consent_type list \<Rightarrow> (consent_type \<Rightarrow> uuid) \<Rightarrow> db \<times> (consent_error + unit)" where
  "ensure_pending d student_id consent_types new_id =
     (if \<not> exists_where (\<lambda>u. u_id u = student_id \<and> u_role u = UR_STUDENT) (users d) then (d, Inl StudentNotFoundError)
      else finish UncaughtIntegrityError d (fold (ensure_pending_record student_id new_id) consent_types d) ())"

definition initialize_roster_student :: "db \<Rightarrow> uuid \<Rightarrow> (consent_type \<Rightarrow> uuid) \<Rightarrow> db \<times> (consent_error + unit)" where
  "initialize_roster_student d student_id new_id = ensure_pending d student_id [REQUIRED_LEARNING_CONSENT] new_id"

subsection \<open>Requests nobody answered\<close>

definition DELETE_ROSTER_AFTER :: timedelta where
  "DELETE_ROSTER_AFTER = td_days 30"

text \<open>
  Invitations that expired without an answer, with their links; the query for an existing refusal reads the
  stored rows, so it does not see refusals added in the same sweep.
\<close>

definition unanswered :: "db \<Rightarrow> datetime \<Rightarrow> (consent_invitation_row \<times> parent_link_row) list" where
  "unanswered d now =
     [(i, l). i \<leftarrow> consent_invitations d, ci_accepted_at i = None \<and> ci_revoked_at i = None \<and> ci_expires_at i \<le> now,
      l \<leftarrow> parent_links d, pl_id l = ci_parent_link_id i]"

definition no_response :: "(string \<Rightarrow> string) \<Rightarrow> datetime \<Rightarrow> consent_invitation_row \<times> parent_link_row \<Rightarrow> consent_refusal_row" where
  "no_response sha now = (\<lambda>(i, l). \<lparr>rf_school_id = ci_school_id i, rf_student_id = ci_student_id i,
     rf_contact_digest = contact_digest sha (pl_parent_contact l), rf_reason = RR_NO_RESPONSE, rf_recorded_at = now,
     rf_roster_deleted_at = None\<rparr>)"

definition record_unanswered :: "(string \<Rightarrow> string) \<Rightarrow> db \<Rightarrow> datetime \<Rightarrow> db \<times> (consent_error + nat)" where
  "record_unanswered sha d now =
     (let fresh = filter (\<lambda>(i, l). \<not> already_refused sha d (ci_student_id i) (pl_parent_contact l)) (unanswered d now) in
      finish UncaughtIntegrityError d (d\<lparr>consent_refusals := consent_refusals d @ map (no_response sha now) fresh\<rparr>) (length fresh))"

definition consent_arrived_late :: "db \<Rightarrow> uuid \<Rightarrow> bool" where
  "consent_arrived_late d student_id =
     exists_where (\<lambda>r. cr_subject_user_id r = student_id \<and> cr_status r = Some CS_CONFIRMED) (consent_records d)"

definition anonymise_student :: "string \<Rightarrow> datetime \<Rightarrow> user_row \<Rightarrow> user_row" where
  "anonymise_student token_hex now u = u\<lparr>u_first_name := Some ''Former'', u_last_name := Some ''Student'', u_email := None,
     u_login_identifier := Some (''deleted-'' @ token_hex), u_password_hash := None, u_pin_hash := None,
     u_sso_external_id := None, u_baseline_profile := JObject [], u_engine_config := JObject [], u_preferences := JObject [],
     u_status := US_DEACTIVATED, u_anonymised_at := Some now,
     u_deactivated_at := (case u_deactivated_at u of None \<Rightarrow> Some now | Some t \<Rightarrow> Some t)\<rparr>"

definition remove_roster_entry :: "string \<Rightarrow> uuid \<Rightarrow> datetime \<Rightarrow> db \<Rightarrow> db" where
  "remove_roster_entry token_hex student_id now d =
     (case get_by u_id student_id (users d) of
        None \<Rightarrow> d
      | Some _ \<Rightarrow>
          update_user student_id (\<lambda>u. (anonymise_student token_hex now u)\<lparr>u_date_of_birth := None, u_status := US_DEACTIVATED\<rparr>)
            (d\<lparr>enrollments := delete_where (\<lambda>e. en_student_id e = student_id) (enrollments d),
               parent_links := delete_where (\<lambda>l. pl_student_id l = student_id) (parent_links d),
               consent_records := delete_where (\<lambda>r. cr_subject_user_id r = student_id) (consent_records d)\<rparr>))"

definition same_refusal :: "consent_refusal_row \<Rightarrow> consent_refusal_row \<Rightarrow> bool" where
  "same_refusal f g = (rf_student_id f = rf_student_id g \<and> rf_contact_digest f = rf_contact_digest g)"

definition close_refusal :: "(uuid \<Rightarrow> string) \<Rightarrow> datetime \<Rightarrow> consent_refusal_row \<Rightarrow> db \<times> nat \<Rightarrow> db \<times> nat" where
  "close_refusal token_hex now f st =
     (let d = fst st in
      if consent_arrived_late d (rf_student_id f)
      then (d\<lparr>consent_refusals := delete_where (same_refusal f) (consent_refusals d)\<rparr>, snd st)
      else
        (let d1 = remove_roster_entry (token_hex (rf_student_id f)) (rf_student_id f) now d in
         (d1\<lparr>consent_refusals := update_where (same_refusal f) (\<lambda>x. x\<lparr>rf_roster_deleted_at := Some now\<rparr>) (consent_refusals d1)\<rparr>,
          snd st + 1)))"

definition remove_expired_rosters :: "(uuid \<Rightarrow> string) \<Rightarrow> db \<Rightarrow> datetime \<Rightarrow> db \<times> (consent_error + nat)" where
  "remove_expired_rosters token_hex d now =
     (let due = filter (\<lambda>f. rf_reason f = RR_NO_RESPONSE \<and> rf_roster_deleted_at f = None \<and>
                   rf_recorded_at f \<le> now - DELETE_ROSTER_AFTER) (consent_refusals d);
          (d', removed) = fold (close_refusal token_hex now) due (d, 0) in
      finish UncaughtIntegrityError d d' removed)"

record consent_expiry_sweep =
  sw_expired :: nat
  sw_rosters_removed :: nat

definition sweep ::
  "(string \<Rightarrow> string) \<Rightarrow> (uuid \<Rightarrow> string) \<Rightarrow> db \<Rightarrow> datetime \<Rightarrow> db \<times> (consent_error + consent_expiry_sweep)" where
  "sweep sha token_hex d now =
     (case record_unanswered sha d now of
        (d1, Inl e) \<Rightarrow> (d1, Inl e)
      | (d1, Inr expired) \<Rightarrow>
          (case remove_expired_rosters token_hex d1 now of
             (d2, Inl e) \<Rightarrow> (d2, Inl e)
           | (d2, Inr removed) \<Rightarrow> (d2, Inr \<lparr>sw_expired = expired, sw_rosters_removed = removed\<rparr>)))"

end
