(* ===== verification/ConsentLaws.thy ===== *)
theory ConsentLaws
  imports Consent
begin

text \<open>
  What the consent operations keep.  Every operation either leaves the database alone or commits a state
  that meets the constraints, and changes consent records and invitations only as \<open>record_le\<close> and
  \<open>invitation_le\<close> allow; the locale \<open>consent_ledger\<close> states this contract, \<open>consent_run\<close> discharges it
  for the operations of theory \<open>Consent\<close>, and the properties rest on it.
\<close>

subsection \<open>How records and invitations may change\<close>

definition record_le :: "consent_record_row \<Rightarrow> consent_record_row \<Rightarrow> bool" where
  "record_le r r' \<longleftrightarrow> cr_id r' = cr_id r \<and> cr_subject_user_id r' = cr_subject_user_id r \<and>
     cr_consent_type r' = cr_consent_type r \<and> (cr_status r = Some CS_WITHDRAWN \<longrightarrow> r' = r) \<and>
     (cr_status r = Some CS_CONFIRMED \<longrightarrow>
        (cr_status r' = Some CS_CONFIRMED \<or> cr_status r' = Some CS_WITHDRAWN) \<and>
        cr_confirmation_source r' = cr_confirmation_source r \<and> cr_confirmed_by_admin_id r' = cr_confirmed_by_admin_id r \<and>
        cr_confirmed_by_parent_id r' = cr_confirmed_by_parent_id r \<and> cr_confirmed_via r' = cr_confirmed_via r \<and>
        cr_confirmed_at r' = cr_confirmed_at r)"

definition invitation_le :: "consent_invitation_row \<Rightarrow> consent_invitation_row \<Rightarrow> bool" where
  "invitation_le i i' \<longleftrightarrow> ci_id i' = ci_id i \<and> ci_parent_link_id i' = ci_parent_link_id i \<and> ci_student_id i' = ci_student_id i \<and>
     ci_token_digest i' = ci_token_digest i \<and> ci_expires_at i' = ci_expires_at i \<and>
     (ci_accepted_at i \<noteq> None \<or> ci_revoked_at i \<noteq> None \<longrightarrow> i' = i)"

definition consent_le :: "db \<Rightarrow> db \<Rightarrow> bool" where
  "consent_le d d' \<longleftrightarrow>
     (\<forall>r \<in> set (consent_records d). \<exists>r' \<in> set (consent_records d'). record_le r r') \<and>
     (\<forall>i \<in> set (consent_invitations d). \<exists>i' \<in> set (consent_invitations d'). invitation_le i i')"

lemma record_le_refl [simp]: "record_le r r" by (simp add: record_le_def)
lemma invitation_le_refl [simp]: "invitation_le i i" by (simp add: invitation_le_def)

lemma record_le_trans: "\<lbrakk>record_le a b; record_le b c\<rbrakk> \<Longrightarrow> record_le a c"
  unfolding record_le_def by metis

lemma invitation_le_trans: "\<lbrakk>invitation_le a b; invitation_le b c\<rbrakk> \<Longrightarrow> invitation_le a c"
  unfolding invitation_le_def by metis

lemma consent_le_refl [simp, intro]: "consent_le d d"
  unfolding consent_le_def using record_le_refl invitation_le_refl by blast

lemma consent_le_trans [trans]: "\<lbrakk>consent_le a b; consent_le b c\<rbrakk> \<Longrightarrow> consent_le a c"
  unfolding consent_le_def by (meson record_le_trans invitation_le_trans)

lemma consent_le_same:
  assumes "consent_records d' = consent_records d" "consent_invitations d' = consent_invitations d"
  shows "consent_le d d'"
  unfolding consent_le_def assms using record_le_refl invitation_le_refl by blast

lemma consent_le_records:
  assumes "\<And>r. r \<in> set (consent_records d) \<Longrightarrow> \<exists>r' \<in> set (consent_records d'). record_le r r'"
    and "consent_invitations d' = consent_invitations d"
  shows "consent_le d d'"
  unfolding consent_le_def assms(2) using assms(1) invitation_le_refl by blast

lemma ensure_pending_record_le: "consent_le d (ensure_pending_record st new_id ty d)"
  by (rule consent_le_records) (auto simp: ensure_pending_record_def split: option.splits intro: record_le_refl)

lemma update_consent_le:
  assumes "\<And>r. P r \<Longrightarrow> record_le r (f r)"
  shows "consent_le d (update_consent P f d)"
proof (rule consent_le_records)
  fix r assume r: "r \<in> set (consent_records d)"
  have "record_le r (if P r then f r else r)" using assms by simp
  with in_update_where[OF r] show "\<exists>r' \<in> set (consent_records (update_consent P f d)). record_le r r'"
    unfolding update_consent_def by auto
qed (simp add: update_consent_def)

lemma flush_le: "consent_le d (flush d)"
  by (rule consent_le_records) (force simp: flush_def record_le_def split: option.splits)+

lemma fold_le: "(\<And>x d. consent_le d (f x d)) \<Longrightarrow> consent_le d (fold f xs d)"
  by (induction xs arbitrary: d) (auto intro: consent_le_trans)

lemma fold_fst_le:
  assumes "\<And>x s. consent_le (fst s) (fst (f x s))"
  shows "consent_le (fst s) (fst (fold f xs s))"
proof (induction xs arbitrary: s)
  case (Cons x xs)
  then show ?case using consent_le_trans[OF assms[of s x] Cons[of "f x s"]] by simp
qed simp

subsection \<open>The end of a transaction\<close>

lemma finish_Inr:
  "finish e d d' x = (d'', Inr y) \<longleftrightarrow> d'' = flush d' \<and> y = x \<and> db_constraints (flush d')"
  by (auto simp: finish_def commit_def)

lemma finish_Inl: "finish e d d' x = (d'', Inl e') \<longleftrightarrow> d'' = d \<and> e' = e \<and> \<not> db_constraints (flush d')"
  by (auto simp: finish_def commit_def)

definition kept :: "db \<Rightarrow> db \<Rightarrow> bool" where
  "kept d d' \<longleftrightarrow> consent_le d d' \<and> (d' = d \<or> db_constraints d')"

lemma kept_refl [simp, intro]: "kept d d" by (simp add: kept_def)

lemma finish_kept: "\<lbrakk>consent_le d d'; finish e d d' x = (d'', res)\<rbrakk> \<Longrightarrow> kept d d''"
  by (cases res) (auto simp: finish_Inr finish_Inl kept_def intro: consent_le_trans flush_le)

subsection \<open>The operations\<close>

lemma confirm_one_le: "consent_le d (confirm_one st admin via t new_id ty d)"
  unfolding confirm_one_def
  by (rule consent_le_trans[OF ensure_pending_record_le update_consent_le]) (auto simp: record_le_def school_confirmed_def)

lemma confirm_by_school_kept: "confirm_by_school d actor st types via now new_id = (d', res) \<Longrightarrow> kept d d'"
  by (auto simp: confirm_by_school_def repo_confirm_by_school_def Let_def split: if_splits
      intro: finish_kept[OF fold_le[OF confirm_one_le]])

lemma grant_one_le: "consent_le (fst s) (fst (grant_one st p t rel nm nv new_id ty s))"
  unfolding grant_one_def Let_def fst_conv
  by (rule consent_le_trans[OF ensure_pending_record_le update_consent_le]) (auto simp: record_le_def parent_confirmed_def)

lemma decline_one_le: "consent_le (fst s) (fst (decline_one st p t new_id ty s))"
  unfolding decline_one_def Let_def fst_conv
  by (rule consent_le_trans[OF ensure_pending_record_le update_consent_le]) (auto simp: record_le_def answered_def)

lemma parent_for_link_same:
  assumes "parent_for_link d link i = Inr (d', u)"
  shows "consent_records d' = consent_records d" "consent_invitations d' = consent_invitations d"
    "invitation_items d' = invitation_items d" "u \<in> set (users d')"
    "\<And>x. x \<in> set (users d) \<Longrightarrow> x \<in> set (users d')"
  using assms
  by (auto simp: parent_for_link_def Let_def split: option.splits if_splits dest: get_by_SomeD find_SomeD)

lemma store_check_same [simp]:
  "consent_records (store_check d r) = consent_records d" "consent_invitations (store_check d r) = consent_invitations d"
  by (auto simp: store_check_def put_user_def put_check_def split: prod.splits)

lemma record_parent_date_same:
  assumes "record_parent_date d school st born now i = (d', res)"
  shows "consent_records d' = consent_records d" "consent_invitations d' = consent_invitations d"
  using assms by (auto simp: record_parent_date_def Let_def split: if_splits option.splits)

lemma attach_parent_same [simp]:
  "consent_records (attach_parent l p t d) = consent_records d" "consent_invitations (attach_parent l p t d) = consent_invitations d"
  "users (attach_parent l p t d) = users d"
  by (simp_all add: attach_parent_def)

lemma accept_invitation_le:
  assumes "\<And>x. x \<in> set (consent_invitations d) \<Longrightarrow> ci_id x = ci_id i \<Longrightarrow> ci_accepted_at x = None \<and> ci_revoked_at x = None"
  shows "consent_le d (accept_invitation i link t receipt d)"
  unfolding consent_le_def
proof (intro conjI ballI)
  fix x assume x: "x \<in> set (consent_invitations d)"
  have "invitation_le x (if ci_id x = ci_id i then x\<lparr>ci_accepted_at := Some t\<rparr> else x)"
    using assms[OF x] by (simp add: invitation_le_def)
  with in_update_where[OF x] show "\<exists>i' \<in> set (consent_invitations (accept_invitation i link t receipt d)). invitation_le x i'"
    unfolding accept_invitation_def by fastforce
qed (auto simp: accept_invitation_def intro: record_le_refl)

lemma grant_fold_le:
  "fold (grant_one st p t rel nm nv ni) xs (d, l) = (d', l') \<Longrightarrow> consent_le d d'"
  using fold_fst_le[of "grant_one st p t rel nm nv ni" "(d, l)" xs, OF grant_one_le] by simp

lemma decline_fold_le:
  "fold (decline_one st p t ni) xs (d, l) = (d', l') \<Longrightarrow> consent_le d d'"
  using fold_fst_le[of "decline_one st p t ni" "(d, l)" xs, OF decline_one_le] by simp

lemma fold_fst_same:
  assumes "\<And>x s. g (fst (f x s)) = g (fst s)" "fold f xs (d, l) = (d', l')"
  shows "g d' = g d"
proof -
  have "g (fst (fold f xs s)) = g (fst s)" for s by (induction xs arbitrary: s) (simp_all add: assms(1))
  from this[of "(d, l)"] show ?thesis by (simp add: assms(2))
qed

lemma answer_invitations_same:
  "fold (grant_one st p t rel nm nv ni) xs (d, l) = (d', l') \<Longrightarrow> consent_invitations d' = consent_invitations d"
  "fold (decline_one st p t ni) xs (d, l) = (d', l') \<Longrightarrow> consent_invitations d' = consent_invitations d"
  by (erule fold_fst_same[rotated], simp add: grant_one_def decline_one_def Let_def update_consent_def
      ensure_pending_record_def split: option.splits)+

text \<open>A completed answer, taken apart; every other outcome leaves the database as it was.\<close>

lemma complete_parent_request_cases:
  assumes "complete_parent_request d digest t granted born rel nm nv ids = (d', res)"
  obtains (same) "d' = d" "\<forall>c. res \<noteq> Inr (Some c)"
  | (answer) i link d1 parent d2 confirmed d3 declined d4 age where
      "open_invitation d digest t = Some i" "get_by pl_id (ci_parent_link_id i) (parent_links d) = Some link"
      "parent_for_link d link (ni_parent ids) = Inr (d1, parent)"
      "fold (grant_one (ci_student_id i) (u_id parent) t rel nm nv (ni_record ids))
         (filter (\<lambda>ty. ty \<in> set granted) (asked_types d1 (ci_id i))) (d1, []) = (d2, confirmed)"
      "fold (decline_one (ci_student_id i) (u_id parent) t (ni_record ids))
         (filter (\<lambda>ty. ty \<notin> set granted) (asked_types d1 (ci_id i))) (d2, []) = (d3, declined)"
      "record_parent_date d3 (pl_school_id link) (ci_student_id i) born t (ni_age_check ids) = (d4, Inr age)"
      "d' = flush (accept_invitation i link t (confirmed \<noteq> []) (attach_parent (pl_id link) (u_id parent) t d4))"
      "db_constraints d'"
      "res = Inr (Some \<lparr>pcc_invitation_id = ci_id i, pcc_parent_link_id = pl_id link, pcc_parent_id = u_id parent,
         pcc_student_id = ci_student_id i, pcc_confirmed_types = confirmed, pcc_declined_types = declined,
         pcc_age_check = age, pcc_completed_at = t,
         pcc_receipt_sent_to = (if confirmed \<noteq> [] then Some (pl_contact_method link) else None)\<rparr>)"
proof (cases "\<exists>i link d1 parent. open_invitation d digest t = Some i \<and> get_by pl_id (ci_parent_link_id i) (parent_links d) = Some link \<and>
    parent_for_link d link (ni_parent ids) = Inr (d1, parent)")
  case False
  show ?thesis
    by (rule same) (use assms False in \<open>auto simp: complete_parent_request_def split: option.splits sum.splits prod.splits\<close>)
next
  case True
  then obtain i link d1 parent where a: "open_invitation d digest t = Some i"
    "get_by pl_id (ci_parent_link_id i) (parent_links d) = Some link" "parent_for_link d link (ni_parent ids) = Inr (d1, parent)"
    by blast
  obtain d2 confirmed where g: "fold (grant_one (ci_student_id i) (u_id parent) t rel nm nv (ni_record ids))
         (filter (\<lambda>ty. ty \<in> set granted) (asked_types d1 (ci_id i))) (d1, []) = (d2, confirmed)" by fastforce
  obtain d3 declined where h: "fold (decline_one (ci_student_id i) (u_id parent) t (ni_record ids))
         (filter (\<lambda>ty. ty \<notin> set granted) (asked_types d1 (ci_id i))) (d2, []) = (d3, declined)" by fastforce
  obtain d4 r where r: "record_parent_date d3 (pl_school_id link) (ci_student_id i) born t (ni_age_check ids) = (d4, r)" by fastforce
  let ?c = "\<lambda>age. \<lparr>pcc_invitation_id = ci_id i, pcc_parent_link_id = pl_id link, pcc_parent_id = u_id parent,
         pcc_student_id = ci_student_id i, pcc_confirmed_types = confirmed, pcc_declined_types = declined,
         pcc_age_check = age, pcc_completed_at = t,
         pcc_receipt_sent_to = (if confirmed \<noteq> [] then Some (pl_contact_method link) else None)\<rparr>"
  have eq: "(d', res) = (case r of Inl _ \<Rightarrow> (d, Inl UncaughtAttributeError)
      | Inr age \<Rightarrow> finish ParentAccountConflictError d
          (accept_invitation i link t (confirmed \<noteq> []) (attach_parent (pl_id link) (u_id parent) t d4)) (Some (?c age)))"
    using assms unfolding complete_parent_request_def by (cases r) (simp_all add: a g h r)
  show ?thesis
  proof (cases r)
    case (Inl e) then show ?thesis using eq same by simp
  next
    case (Inr age)
    then have f: "finish ParentAccountConflictError d (accept_invitation i link t (confirmed \<noteq> [])
        (attach_parent (pl_id link) (u_id parent) t d4)) (Some (?c age)) = (d', res)" using eq by simp
    show ?thesis
    proof (cases res)
      case (Inl e) then show ?thesis using f same by (simp add: finish_Inl)
    next
      case (Inr y)
      then show ?thesis using answer[OF a g h r[unfolded \<open>r = Inr age\<close>]] f by (simp add: finish_Inr)
    qed
  qed
qed

lemma open_invitation_SomeD:
  assumes "open_invitation d digest t = Some i"
  shows "i \<in> set (consent_invitations d)" "ci_token_digest i = digest" "ci_accepted_at i = None" "ci_revoked_at i = None" "t < ci_expires_at i"
  using assms by (auto simp: open_invitation_def split: option.splits if_splits dest: get_by_SomeD)

lemma ids_unique:
  assumes "db_constraints d" "i \<in> set (consent_invitations d)" "j \<in> set (consent_invitations d)" "ci_id i = ci_id j"
  shows "i = j"
  using assms get_by_in[of ci_id "consent_invitations d"]
  unfolding db_constraints_def consent_invitations_ok_def by (metis option.inject)

lemma complete_parent_request_kept:
  assumes "complete_parent_request d digest t granted born rel nm nv ids = (d', res)" "db_constraints d"
  shows "kept d d'"
  using assms(1)
proof (cases rule: complete_parent_request_cases)
  case (answer i link d1 parent d2 confirmed d3 declined d4 age)
  note i = open_invitation_SomeD[OF answer(1)]
  have "consent_le d d1" using parent_for_link_same[OF answer(3)] by (intro consent_le_same)
  also have "consent_le d1 d2" by (rule grant_fold_le[OF answer(4)])
  also have "consent_le d2 d3" by (rule decline_fold_le[OF answer(5)])
  also have "consent_le d3 d4" using record_parent_date_same[OF answer(6)] by (intro consent_le_same)
  also have "consent_le d4 (attach_parent (pl_id link) (u_id parent) t d4)" by (intro consent_le_same) simp_all
  finally have le: "consent_le d (attach_parent (pl_id link) (u_id parent) t d4)" .
  have same: "consent_invitations d4 = consent_invitations d"
    using answer_invitations_same(1)[OF answer(4)] answer_invitations_same(2)[OF answer(5)]
      record_parent_date_same[OF answer(6)] parent_for_link_same[OF answer(3)] by simp
  have "consent_le (attach_parent (pl_id link) (u_id parent) t d4)
      (accept_invitation i link t (confirmed \<noteq> []) (attach_parent (pl_id link) (u_id parent) t d4))"
  proof (rule accept_invitation_le)
    fix x assume "x \<in> set (consent_invitations (attach_parent (pl_id link) (u_id parent) t d4))" "ci_id x = ci_id i"
    then have "x = i" using ids_unique[OF assms(2) _ i(1)] same by simp
    then show "ci_accepted_at x = None \<and> ci_revoked_at x = None" using i by simp
  qed
  then show ?thesis using le answer(7,8) flush_le consent_le_trans unfolding kept_def by metis
qed simp

lemma request_link_same:
  assumes "request_link draft d = (d', l)"
  shows "consent_records d' = consent_records d" "consent_invitations d' = consent_invitations d"
  using assms by (auto simp: request_link_def split: option.splits)

lemma request_items_le: "consent_le d (request_items draft new_id d)"
  unfolding request_items_def
  by (rule fold_le, rule consent_le_trans[OF consent_le_same ensure_pending_record_le]) simp_all

lemma revoke_older_le:
  "consent_le d (d\<lparr>consent_invitations := update_where
     (\<lambda>i. ci_parent_link_id i = l \<and> ci_accepted_at i = None \<and> ci_revoked_at i = None)
     (\<lambda>i. i\<lparr>ci_revoked_at := Some t\<rparr>) (consent_invitations d) @ [n]\<rparr>)"
  (is "consent_le d ?d")
  unfolding consent_le_def
proof (intro conjI ballI)
  fix x assume x: "x \<in> set (consent_invitations d)"
  let ?P = "\<lambda>i::consent_invitation_row. ci_parent_link_id i = l \<and> ci_accepted_at i = None \<and> ci_revoked_at i = None"
  have "invitation_le x (if ?P x then x\<lparr>ci_revoked_at := Some t\<rparr> else x)" by (simp add: invitation_le_def)
  with in_update_where[OF x, of ?P] show "\<exists>i' \<in> set (consent_invitations ?d). invitation_le x i'" by fastforce
qed (auto intro: record_le_refl)

lemma create_parent_request_kept:
  assumes "create_parent_request sha d draft new_id = (d', res)"
  shows "kept d d'"
proof (cases "require_student d (df_school_id draft) (df_student_id draft) \<and> \<not> already_refused sha d (df_student_id draft) (df_parent_contact draft)")
  case False then show ?thesis using assms by (auto simp: create_parent_request_def split: if_splits)
next
  case True
  obtain d1 l where rl: "request_link draft d = (d1, l)" by fastforce
  let ?n = "\<lparr>ci_id = df_invitation_id draft, ci_parent_link_id = l, ci_school_id = df_school_id draft,
    ci_student_id = df_student_id draft, ci_token_digest = df_token_digest draft,
    ci_requested_by_user_id = df_requested_by_user_id draft, ci_created_at = df_created_at draft,
    ci_expires_at = df_expires_at draft, ci_accepted_at = None, ci_revoked_at = None\<rparr>"
  define d2 where "d2 = d1\<lparr>consent_invitations := update_where
     (\<lambda>i. ci_parent_link_id i = l \<and> ci_accepted_at i = None \<and> ci_revoked_at i = None)
     (\<lambda>i. i\<lparr>ci_revoked_at := Some (df_created_at draft)\<rparr>) (consent_invitations d1) @ [?n]\<rparr>"
  define d3 where "d3 = request_items draft new_id d2"
  have "consent_le d d1" using request_link_same[OF rl] by (intro consent_le_same)
  also have "consent_le d1 d2" unfolding d2_def by (rule revoke_older_le)
  also have "consent_le d2 d3" unfolding d3_def by (rule request_items_le)
  finally have le: "consent_le d d3" .
  have "consent_le d (d3\<lparr>consent_outbox := ob, notifications := ns\<rparr>)" for ob ns
    using consent_le_trans[OF le consent_le_same] by simp
  then show ?thesis
    using assms True unfolding create_parent_request_def
    by (simp add: rl flip: d2_def d3_def) (erule finish_kept[rotated], simp)
qed

lemma live_link_SomeD:
  assumes "live_link d digest = Some (i, l)"
  shows "i \<in> set (consent_invitations d)" "ci_token_digest i = digest" "l \<in> set (parent_links d)" "pl_id l = ci_parent_link_id i"
  using assms by (auto simp: live_link_def split: option.splits dest: find_SomeD get_by_SomeD)

lemma update_user_same [simp]:
  "consent_records (update_user i f d) = consent_records d" "consent_invitations (update_user i f d) = consent_invitations d"
  by (simp_all add: update_user_def)

lemma activate_parent_account_kept:
  assumes "activate_parent_account d digest h now i = (d', res)"
  shows "kept d d'"
proof (cases "live_link d digest")
  case (Some x)
  obtain inv link where x: "x = (inv, link)" by fastforce
  show ?thesis
  proof (cases "parent_for_link d link i")
    case (Inr y)
    obtain d1 u where y: "y = (d1, u)" by fastforce
    note s = parent_for_link_same[OF Inr[unfolded y]]
    show ?thesis
      using assms Some x Inr y s
      by (auto simp: activate_parent_account_def Let_def split: if_splits intro!: finish_kept[rotated] consent_le_same)
  qed (use assms Some x in \<open>auto simp: activate_parent_account_def split: if_splits\<close>)
qed (use assms in \<open>auto simp: activate_parent_account_def\<close>)

lemma parent_for_login_kept:
  assumes "parent_for_login d contact digest now i = (d', res)"
  shows "kept d d'"
proof (cases digest)
  case None then show ?thesis using assms by (auto simp: parent_for_login_def Let_def split: list.splits)
next
  case dig: (Some dg)
  show ?thesis
  proof (cases "live_link d dg")
    case (Some x)
    obtain inv link where x: "x = (inv, link)" by fastforce
    show ?thesis
    proof (cases "parent_for_link d link i")
      case (Inr y)
      obtain d1 u where y: "y = (d1, u)" by fastforce
      note s = parent_for_link_same[OF Inr[unfolded y]]
      show ?thesis
        using assms dig Some x Inr y s
        by (auto simp: parent_for_login_def Let_def split: if_splits intro!: finish_kept[rotated] consent_le_same)
    qed (use assms dig Some x in \<open>auto simp: parent_for_login_def Let_def split: if_splits\<close>)
  qed (use assms dig in \<open>auto simp: parent_for_login_def Let_def\<close>)
qed

lemma ensure_pending_kept: "ensure_pending d st types new_id = (d', res) \<Longrightarrow> kept d d'"
  by (auto simp: ensure_pending_def split: if_splits intro: finish_kept[OF fold_le[OF ensure_pending_record_le]])

text \<open>A right that was recorded, taken apart: the link it came through, and what a withdrawal did.\<close>

definition withdrawn_state :: "uuid \<Rightarrow> uuid \<Rightarrow> datetime \<Rightarrow> (consent_type \<Rightarrow> uuid) \<Rightarrow> db \<Rightarrow> db" where
  "withdrawn_state st parent_id now new_id d =
     update_consent (\<lambda>r. is_consent st REQUIRED_LEARNING_CONSENT r \<and> cr_status r \<noteq> Some CS_WITHDRAWN)
       (withdraw_record parent_id now)
       (ensure_pending_record st new_id REQUIRED_LEARNING_CONSENT (suspend_student st now d))"

lemma exercise_parent_right_cases:
  assumes "exercise_parent_right d digest ty reason now ids request_id = (d', res)"
  obtains (same) "d' = d" "\<forall>x. res \<noteq> Inr (Some x)"
  | (recorded) i link parent_id out and d2 d3 :: db where "live_link d digest = Some (i, link)" "now < ci_expires_at i"
      "consent_records d2 = consent_records d" "consent_invitations d2 = consent_invitations d"
      "set (users d) \<subseteq> set (users d2)"
      "consent_records d3 = consent_records d2" "consent_invitations d3 = consent_invitations d2" "users d3 = users d2"
      "d' = flush (if ty = PR_WITHDRAW_CONSENT then withdrawn_state (pl_student_id link) parent_id now (ni_record ids) d3 else d3)"
      "db_constraints d'" "res = Inr (Some out)"
proof (cases "live_link d digest")
  case None then show ?thesis using assms same by (auto simp: exercise_parent_right_def)
next
  case (Some x)
  obtain i link where x: "x = (i, link)" by fastforce
  show ?thesis
  proof (cases "ci_expires_at i \<le> now")
    case True then show ?thesis using assms same Some x by (auto simp: exercise_parent_right_def)
  next
    case False
    let ?h = "case pl_parent_id link of Some pid \<Rightarrow> Inr (d, pid)
       | None \<Rightarrow> (case parent_for_link d link (ni_parent ids) of Inl e \<Rightarrow> Inl e
           | Inr (d1, parent) \<Rightarrow> Inr (attach_parent (pl_id link) (u_id parent) now d1, u_id parent))"
    show ?thesis
    proof (cases "?h")
      case (Inl e)
      then show ?thesis using assms same Some x False by (auto simp: exercise_parent_right_def Let_def)
    next
      case (Inr y)
      obtain d2 pid where y: "y = (d2, pid)" by fastforce
      have s: "consent_records d2 = consent_records d" "consent_invitations d2 = consent_invitations d"
        "set (users d) \<subseteq> set (users d2)"
        using Inr y by (auto split: option.splits sum.splits prod.splits dest: parent_for_link_same)
      define d3 where "d3 = d2\<lparr>parent_data_requests := parent_data_requests d2 @ [\<lparr>dr_id = request_id,
        dr_student_id = pl_student_id link, dr_parent_id = pid, dr_request_type = parent_right_type_value ty,
        dr_reason = reason, dr_status = ''open'', dr_created_at = now, dr_resolved_at = None\<rparr>]\<rparr>"
      let ?d4 = "if ty = PR_WITHDRAW_CONSENT then withdrawn_state (pl_student_id link) pid now (ni_record ids) d3 else d3"
      have f: "finish UncaughtIntegrityError d ?d4 (Some \<lparr>ro_request_id = request_id, ro_request_type = ty,
          ro_status = ''open'', ro_reason_recorded = (present reason \<noteq> [])\<rparr>) = (d', res)"
        using assms False unfolding exercise_parent_right_def Some x
        by (cases "ty = PR_WITHDRAW_CONSENT") (simp_all add: Inr y Let_def d3_def withdrawn_state_def)
      show ?thesis
      proof (cases res)
        case (Inl e) then show ?thesis using f same by (simp add: finish_Inl)
      next
        case (Inr z)
        then show ?thesis using f recorded[of i link d2 d3 pid, OF Some[unfolded x] _ s] False by (simp add: finish_Inr d3_def)
      qed
    qed
  qed
qed

lemma withdrawn_state_le: "consent_le d (withdrawn_state st p now new_id d)"
  unfolding withdrawn_state_def
  by (rule consent_le_trans[OF consent_le_trans[OF consent_le_same ensure_pending_record_le] update_consent_le])
     (auto simp: suspend_student_def record_le_def withdraw_record_def)

lemma exercise_parent_right_kept:
  assumes "exercise_parent_right d digest ty reason now ids request_id = (d', res)"
  shows "kept d d'"
  using assms
proof (cases rule: exercise_parent_right_cases)
  case (recorded i link parent_id out d2 d3)
  have "consent_le d d3" using recorded(3,4,6,7) by (intro consent_le_same) simp_all
  also have "consent_le d3 (if ty = PR_WITHDRAW_CONSENT then withdrawn_state (pl_student_id link) parent_id now (ni_record ids) d3 else d3)"
    by (simp add: withdrawn_state_le)
  finally show ?thesis using recorded(9,10) flush_le consent_le_trans unfolding kept_def by metis
qed simp

subsection \<open>Runs\<close>

inductive consent_step :: "db \<Rightarrow> db \<Rightarrow> bool" where
  by_school: "confirm_by_school d actor st types via now new_id = (d', res) \<Longrightarrow> consent_step d d'"
| request: "request_parent_consent hmac sha url d actor st nm contact cm types now tok i l new_id = (d', res) \<Longrightarrow> consent_step d d'"
| answer: "complete_parent_consent hmac d tok granted born rel nm now ids = (d', res) \<Longrightarrow> consent_step d d'"
| activate: "activate_parent_account d digest h now i = (d', res) \<Longrightarrow> consent_step d d'"
| login: "parent_for_login d contact dig now i = (d', res) \<Longrightarrow> consent_step d d'"
| right: "exercise_parent_right d digest ty reason now ids req = (d', res) \<Longrightarrow> consent_step d d'"
| roster: "initialize_roster_student d st new_id = (d', res) \<Longrightarrow> consent_step d d'"

text \<open>The contract of the operations, and what follows for every run of them.\<close>

locale consent_ledger =
  fixes step :: "db \<Rightarrow> db \<Rightarrow> bool"
  assumes step_kept: "\<lbrakk>step d d'; db_constraints d\<rbrakk> \<Longrightarrow> kept d d'"
begin

lemma run_kept:
  assumes "step\<^sup>*\<^sup>* d d'" "db_constraints d"
  shows "consent_le d d' \<and> db_constraints d'"
  using assms
proof (induction rule: rtranclp_induct)
  case (step y z)
  then have "kept y z" using step_kept by blast
  then show ?case using step unfolding kept_def by (metis consent_le_trans)
qed simp

lemma run_keeps_withdrawal:
  assumes "step\<^sup>*\<^sup>* d d'" "db_constraints d" "r \<in> set (consent_records d)" "cr_status r = Some CS_WITHDRAWN"
  shows "r \<in> set (consent_records d')"
  using run_kept[OF assms(1,2)] assms(3,4) unfolding consent_le_def record_le_def by metis

lemma run_keeps_answer:
  assumes "step\<^sup>*\<^sup>* d d'" "db_constraints d" "i \<in> set (consent_invitations d)" "ci_accepted_at i \<noteq> None \<or> ci_revoked_at i \<noteq> None"
  shows "i \<in> set (consent_invitations d')"
  using run_kept[OF assms(1,2)] assms(3,4) unfolding consent_le_def invitation_le_def by metis

end

lemma consent_step_kept: "\<lbrakk>consent_step d d'; db_constraints d\<rbrakk> \<Longrightarrow> kept d d'"
  by (erule consent_step.cases)
     (auto simp: request_parent_consent_def complete_parent_consent_def initialize_roster_student_def split: sum.splits
       intro: confirm_by_school_kept create_parent_request_kept complete_parent_request_kept activate_parent_account_kept
         parent_for_login_kept exercise_parent_right_kept ensure_pending_kept)

interpretation consent_run: consent_ledger consent_step
  by unfold_locales (rule consent_step_kept)

subsection \<open>Lemmas for the properties\<close>

lemma consent_for_update_get_by:
  "consent_for_update d st ty = get_by (\<lambda>r. (cr_subject_user_id r, cr_consent_type r)) (st, ty) (consent_records d)"
  by (simp add: consent_for_update_def get_by_def is_consent_def[abs_def])

lemma stored_consent:
  assumes "db_constraints d" "r \<in> set (consent_records d)" "is_consent st ty r"
  shows "consent_for_update d st ty = Some r"
proof -
  have "distinct (map (\<lambda>r. (cr_subject_user_id r, cr_consent_type r)) (consent_records d))"
    using assms(1) by (simp add: db_constraints_def consent_records_ok_def)
  from get_by_in[OF this assms(2)] assms(3) show ?thesis
    by (simp add: consent_for_update_get_by is_consent_def)
qed

lemma consent_for_update_SomeD: "consent_for_update d st ty = Some r \<Longrightarrow> r \<in> set (consent_records d) \<and> is_consent st ty r"
  by (auto simp: consent_for_update_def dest: find_SomeD)

lemma gate_refuses_withdrawn:
  assumes "db_constraints d" "r \<in> set (consent_records d)" "is_consent (ap_user_id p) REQUIRED_LEARNING_CONSENT r"
    "cr_status r = Some CS_WITHDRAWN" "ap_role p = ''student''"
  shows "require_student_consent d p = Inl ConsentWithdrawnError"
  using stored_consent[OF assms(1-3)] assms(4,5)
  by (simp add: require_student_consent_def student_gate_def consent_status_of_def Let_def)

text \<open>Where a confirmed record of the later state comes from: it was there before, or it satisfies \<open>P\<close>.\<close>

definition confirmed_from :: "(consent_record_row \<Rightarrow> bool) \<Rightarrow> db \<Rightarrow> db \<Rightarrow> bool" where
  "confirmed_from P d d' \<longleftrightarrow>
     (\<forall>r \<in> set (consent_records d'). cr_status r = Some CS_CONFIRMED \<longrightarrow> r \<in> set (consent_records d) \<or> P r)"

lemma confirmed_from_refl: "consent_records d' = consent_records d \<Longrightarrow> confirmed_from P d d'"
  by (simp add: confirmed_from_def)

lemma confirmed_from_trans [trans]: "\<lbrakk>confirmed_from P a b; confirmed_from P b c\<rbrakk> \<Longrightarrow> confirmed_from P a c"
  unfolding confirmed_from_def by blast

lemma same_status [simp]: "cr_status r = s \<Longrightarrow> r\<lparr>cr_status := s\<rparr> = (r::consent_record_row)"
  by (cases r) simp

lemma confirmed_from_flush: "confirmed_from P d (flush d)"
  by (auto simp: confirmed_from_def flush_def split: option.splits)

lemma confirmed_from_ensure: "confirmed_from P d (ensure_pending_record st new_id ty d)"
  by (auto simp: confirmed_from_def ensure_pending_record_def new_consent_record_def split: option.splits)

lemma confirmed_from_update:
  assumes "\<And>r. \<lbrakk>Q r; cr_status (f r) = Some CS_CONFIRMED\<rbrakk> \<Longrightarrow> P (f r)"
  shows "confirmed_from P d (update_consent Q f d)"
  using assms by (auto simp: confirmed_from_def update_consent_def set_update_where)

definition given_by :: "uuid \<Rightarrow> uuid \<Rightarrow> datetime \<Rightarrow> consent_type set \<Rightarrow> consent_record_row \<Rightarrow> bool" where
  "given_by st parent_id t types r \<longleftrightarrow> cr_subject_user_id r = st \<and> cr_consent_type r \<in> types \<and>
     cr_confirmed_by_parent_id r = Some parent_id \<and> cr_confirmation_source r = Some SRC_PARENT \<and> cr_confirmed_at r = Some t"

lemma grant_one_from:
  "ty \<in> types \<Longrightarrow> confirmed_from (given_by st p t types) (fst s) (fst (grant_one st p t rel nm nv new_id ty s))"
  unfolding grant_one_def Let_def fst_conv
  by (rule confirmed_from_trans[OF confirmed_from_ensure confirmed_from_update])
     (auto simp: given_by_def parent_confirmed_def is_consent_def)

lemma grant_fold_from:
  assumes "fold (grant_one st p t rel nm nv ni) xs (d, l) = (d', l')" "set xs \<subseteq> types"
  shows "confirmed_from (given_by st p t types) d d'"
proof -
  have "confirmed_from (given_by st p t types) (fst s) (fst (fold (grant_one st p t rel nm nv ni) xs s))" for s
    using assms(2)
  proof (induction xs arbitrary: s)
    case (Cons x xs)
    then show ?case using confirmed_from_trans[OF grant_one_from[of x types st p t s rel nm nv ni] Cons.IH[of "grant_one st p t rel nm nv ni x s"]]
      by simp
  qed (simp add: confirmed_from_refl)
  from this[of "(d, l)"] show ?thesis by (simp add: assms(1))
qed

lemma decline_fold_from:
  assumes "fold (decline_one st p t ni) xs (d, l) = (d', l')"
  shows "confirmed_from P d d'"
proof -
  have one: "confirmed_from P (fst s) (fst (decline_one st p t ni ty s))" for ty s
    unfolding decline_one_def Let_def fst_conv
    by (rule confirmed_from_trans[OF confirmed_from_ensure confirmed_from_update]) (auto simp: answered_def)
  have "confirmed_from P (fst s) (fst (fold (decline_one st p t ni) xs s))" for s
  proof (induction xs arbitrary: s)
    case (Cons x xs)
    then show ?case using confirmed_from_trans[OF one[of s x] Cons.IH[of "decline_one st p t ni x s"]] by simp
  qed (simp add: confirmed_from_refl)
  from this[of "(d, l)"] show ?thesis by (simp add: assms)
qed

lemma asked_types_after_link:
  "parent_for_link d link i = Inr (d1, u) \<Longrightarrow> asked_types d1 k = asked_types d k"
  by (simp add: asked_types_def parent_for_link_same(3))

subsection \<open>Properties\<close>

text \<open>
  The gate opens on confirmed consent and on nothing else: a request passes exactly when the
  principal is a student with a confirmed consent to data processing on record; a withdrawal, an
  outstanding request and the absence of both are refused, each with its own error.
\<close>

theorem gate_opens_only_on_confirmed_consent:
  assumes "db_constraints d"
  shows "(\<exists>g. require_student_consent d p = Inr g) \<longleftrightarrow>
      ap_role p = ''student'' \<and>
      (\<exists>r \<in> set (consent_records d). cr_subject_user_id r = ap_user_id p \<and> cr_consent_type r = CT_DATA_PROCESSING \<and>
         cr_status r = Some CS_CONFIRMED)"
proof -
  have "consent_status_of d (ap_user_id p) REQUIRED_LEARNING_CONSENT = CS_CONFIRMED \<longleftrightarrow>
      (\<exists>r \<in> set (consent_records d). cr_subject_user_id r = ap_user_id p \<and> cr_consent_type r = CT_DATA_PROCESSING \<and>
         cr_status r = Some CS_CONFIRMED)" (is "?l = ?r")
  proof
    assume ?l then show ?r
      by (auto simp: consent_status_of_def REQUIRED_LEARNING_CONSENT_def is_consent_def split: option.splits
          dest!: consent_for_update_SomeD)
  next
    assume ?r
    then obtain r where r: "r \<in> set (consent_records d)" "is_consent (ap_user_id p) REQUIRED_LEARNING_CONSENT r"
      "cr_status r = Some CS_CONFIRMED" by (auto simp: is_consent_def REQUIRED_LEARNING_CONSENT_def)
    show ?l using stored_consent[OF assms r(1,2)] r(3) by (simp add: consent_status_of_def)
  qed
  then show ?thesis
    by (cases "consent_status_of d (ap_user_id p) REQUIRED_LEARNING_CONSENT")
       (auto simp: require_student_consent_def student_gate_def Let_def)
qed

text \<open>
  Only what the parent ticked is confirmed.  After a parent's answer, every confirmed consent
  record was either confirmed already, unchanged, or is one the invitation asked about and the parent
  granted, for the invitation's child, given by the parent behind the link at that moment; and what is
  reported as declined was asked and not granted.
\<close>

theorem only_ticked_consents_are_confirmed:
  assumes "complete_parent_consent hmac d tok granted born rel nm now ids = (d', Inr (Some c))"
    and "r \<in> set (consent_records d')" and "cr_status r = Some CS_CONFIRMED"
  shows "r \<in> set (consent_records d) \<or>
    (cr_subject_user_id r = pcc_student_id c \<and> cr_consent_type r \<in> set granted \<and>
     (\<exists>item \<in> set (invitation_items d). ii_invitation_id item = pcc_invitation_id c \<and> ii_consent_type item = cr_consent_type r) \<and>
     cr_confirmed_by_parent_id r = Some (pcc_parent_id c) \<and> cr_confirmation_source r = Some SRC_PARENT \<and>
     cr_confirmed_at r = Some now)"
  using assms(1)[unfolded complete_parent_consent_def]
proof (cases rule: complete_parent_request_cases)
  case same then show ?thesis by simp
next
  case (answer i link d1 parent d2 confirmed d3 declined d4 age)
  let ?types = "{ty \<in> set (asked_types d (ci_id i)). ty \<in> set granted}"
  let ?P = "given_by (ci_student_id i) (u_id parent) now ?types"
  have "confirmed_from ?P d d1" by (rule confirmed_from_refl) (rule parent_for_link_same[OF answer(3)])
  also have "confirmed_from ?P d1 d2"
    by (rule grant_fold_from[OF answer(4)]) (auto simp: asked_types_after_link[OF answer(3)])
  also have "confirmed_from ?P d2 d3" by (rule decline_fold_from[OF answer(5)])
  also have "confirmed_from ?P d3 (accept_invitation i link now (confirmed \<noteq> []) (attach_parent (pl_id link) (u_id parent) now d4))"
    by (rule confirmed_from_refl) (simp add: accept_invitation_def record_parent_date_same[OF answer(6)])
  also have "confirmed_from ?P (accept_invitation i link now (confirmed \<noteq> []) (attach_parent (pl_id link) (u_id parent) now d4)) d'"
    unfolding answer(7) by (rule confirmed_from_flush)
  finally have "r \<in> set (consent_records d) \<or> ?P r" using assms(2,3) by (simp add: confirmed_from_def)
  then show ?thesis using answer(9) by (auto simp: given_by_def asked_types_def)
qed

lemma answered_invitation_closed:
  assumes "db_constraints d" "i \<in> set (consent_invitations d)" "ci_accepted_at i \<noteq> None"
  shows "open_invitation d (ci_token_digest i) t = None"
proof -
  have "get_by ci_token_digest (ci_token_digest i) (consent_invitations d) = Some i"
    using assms(1,2) by (intro get_by_in) (simp_all add: db_constraints_def consent_invitations_ok_def)
  then show ?thesis using assms(3) by (simp add: open_invitation_def)
qed

lemma complete_accepts:
  assumes "complete_parent_request d digest t granted born rel nm nv ids = (d', Inr (Some c))"
  shows "\<exists>i \<in> set (consent_invitations d'). ci_token_digest i = digest \<and> ci_accepted_at i \<noteq> None" "db_constraints d'"
  using assms
proof (atomize (full), cases rule: complete_parent_request_cases)
  case same then show "(\<exists>i \<in> set (consent_invitations d'). ci_token_digest i = digest \<and> ci_accepted_at i \<noteq> None) \<and> db_constraints d'" by simp
next
  case (answer i link d1 parent d2 confirmed d3 declined d4 age)
  note i = open_invitation_SomeD[OF answer(1)]
  have same: "consent_invitations d4 = consent_invitations d"
    using answer_invitations_same(1)[OF answer(4)] answer_invitations_same(2)[OF answer(5)]
      record_parent_date_same[OF answer(6)] parent_for_link_same[OF answer(3)] by simp
  have "i\<lparr>ci_accepted_at := Some t\<rparr> \<in> set (consent_invitations d')"
    using in_update_where[OF i(1), of "\<lambda>x. ci_id x = ci_id i" "\<lambda>x. x\<lparr>ci_accepted_at := Some t\<rparr>"]
    unfolding answer(7) by (simp add: flush_def accept_invitation_def same)
  then show "(\<exists>i \<in> set (consent_invitations d'). ci_token_digest i = digest \<and> ci_accepted_at i \<noteq> None) \<and> db_constraints d'"
    using i answer(8) by (intro conjI bexI[of _ "i\<lparr>ci_accepted_at := Some t\<rparr>"]) simp_all
qed

text \<open>
  Claim C14.  A consent link is answered once: after a completed answer, and whatever happens in between,
  using the link again changes nothing and answers as for an unknown link.
\<close>

theorem consent_link_is_answered_once:
  assumes "complete_parent_consent hmac d tok granted born rel nm now ids = (d', Inr (Some c))"
    and "consent_step\<^sup>*\<^sup>* d' d''"
  shows "complete_parent_consent hmac d'' tok granted' born' rel' nm' now' ids' = (d'', Inr None)"
proof -
  obtain i where i: "i \<in> set (consent_invitations d')" "ci_token_digest i = consent_token_digest hmac tok" "ci_accepted_at i \<noteq> None"
    and ok: "db_constraints d'"
    using complete_accepts[OF assms(1)[unfolded complete_parent_consent_def]] by blast
  have "i \<in> set (consent_invitations d'')" using consent_run.run_keeps_answer[OF assms(2) ok i(1)] i(3) by blast
  moreover have "db_constraints d''" using consent_run.run_kept[OF assms(2) ok] by blast
  ultimately show ?thesis
    using answered_invitation_closed[of d'' i] i by (simp add: complete_parent_consent_def complete_parent_request_def)
qed

text \<open>
  Claim C15.  Nothing the school or a link holder does overrules a withdrawal: through any sequence of
  school confirmations, requests, answers, account activations, sign-ins and roster imports, a withdrawn
  record stays exactly as it is and the child's gate keeps answering \<^verbatim>\<open>consent_withdrawn\<close>.
\<close>

theorem withdrawal_is_not_overruled:
  assumes "consent_step\<^sup>*\<^sup>* d d'" and "db_constraints d" and "r \<in> set (consent_records d)"
    and "cr_status r = Some CS_WITHDRAWN"
  shows "r \<in> set (consent_records d') \<and>
    (cr_consent_type r = REQUIRED_LEARNING_CONSENT \<longrightarrow>
      require_student_consent d' \<lparr>ap_user_id = cr_subject_user_id r, ap_role = ''student'', ap_session_id = sid\<rparr>
        = Inl ConsentWithdrawnError)"
proof -
  have r: "r \<in> set (consent_records d')" using consent_run.run_keeps_withdrawal[OF assms] .
  moreover have "db_constraints d'" using consent_run.run_kept[OF assms(1,2)] by blast
  ultimately show ?thesis using gate_refuses_withdrawn assms(4) by (auto simp: is_consent_def)
qed

lemma ensure_pending_has:
  "\<exists>r \<in> set (consent_records (ensure_pending_record st new_id ty d)). is_consent st ty r"
proof (cases "consent_for_update d st ty")
  case None then show ?thesis by (simp add: ensure_pending_record_def is_consent_def new_consent_record_def)
next
  case (Some r) then show ?thesis using consent_for_update_SomeD[OF Some] by (auto simp: ensure_pending_record_def)
qed

lemma withdrawn_state_record:
  "\<exists>r \<in> set (consent_records (withdrawn_state st p now new_id d)). is_consent st REQUIRED_LEARNING_CONSENT r \<and> cr_status r = Some CS_WITHDRAWN"
proof -
  let ?d = "ensure_pending_record st new_id REQUIRED_LEARNING_CONSENT (suspend_student st now d)"
  obtain r where r: "r \<in> set (consent_records ?d)" "is_consent st REQUIRED_LEARNING_CONSENT r"
    using ensure_pending_has by blast
  let ?Q = "\<lambda>r. is_consent st REQUIRED_LEARNING_CONSENT r \<and> cr_status r \<noteq> Some CS_WITHDRAWN"
  have "(if ?Q r then withdraw_record p now r else r) \<in> set (consent_records (withdrawn_state st p now new_id d))"
    using in_update_where[OF r(1), of ?Q] by (simp add: withdrawn_state_def update_consent_def)
  then show ?thesis by (rule rev_bexI) (use r(2) in \<open>auto simp: withdraw_record_def is_consent_def\<close>)
qed

lemma flush_keeps_status:
  "r \<in> set (consent_records d) \<Longrightarrow> cr_status r = Some s \<Longrightarrow> r \<in> set (consent_records (flush d))"
  by (force simp: flush_def image_iff)

lemma withdrawn_state_users:
  "users (flush (withdrawn_state st p now new_id d)) =
     update_where (\<lambda>u. u_id u = st) (\<lambda>u. u\<lparr>u_status := US_DEACTIVATED, u_deactivated_at := Some now\<rparr>) (users d)"
  by (simp add: flush_def withdrawn_state_def update_consent_def ensure_pending_record_def suspend_student_def update_user_def
      split: option.splits)

text \<open>
  Claim C16.  Withdrawing through the link takes effect at once: the child's account is deactivated, so
  that no access token of theirs is accepted any more, and the consent gate answers \<^verbatim>\<open>consent_withdrawn\<close>.
\<close>

theorem withdrawal_takes_effect_at_once:
  assumes "exercise_parent_right d digest PR_WITHDRAW_CONSENT reason now ids req = (d', Inr (Some out))"
  shows "\<exists>i link. live_link d digest = Some (i, link) \<and>
    require_student_consent d' \<lparr>ap_user_id = pl_student_id link, ap_role = ''student'', ap_session_id = sid\<rparr>
      = Inl ConsentWithdrawnError \<and>
    \<not> (\<exists>env tok t d'' p. authenticate env d' tok t = (d'', Inr p) \<and> ap_user_id p = pl_student_id link)"
  using assms
proof (cases rule: exercise_parent_right_cases)
  case same then show ?thesis by simp
next
  case (recorded i link parent_id out d2 d3)
  let ?st = "pl_student_id link"
  have d': "d' = flush (withdrawn_state ?st parent_id now (ni_record ids) d3)" using recorded(9) by simp
  obtain r where r: "r \<in> set (consent_records d')" "is_consent ?st REQUIRED_LEARNING_CONSENT r" "cr_status r = Some CS_WITHDRAWN"
    using withdrawn_state_record[of ?st parent_id now "ni_record ids" d3] flush_keeps_status unfolding d' by blast
  have "u_status u = US_DEACTIVATED" if "u \<in> set (users d')" "u_id u = ?st" for u
    using that unfolding d' withdrawn_state_users by (auto simp: set_update_where)
  then have "\<not> (\<exists>env tok t d'' p. authenticate env d' tok t = (d'', Inr p) \<and> ap_user_id p = ?st)"
    using deactivated_refused by metis
  moreover have "require_student_consent d' \<lparr>ap_user_id = ?st, ap_role = ''student'', ap_session_id = sid\<rparr> = Inl ConsentWithdrawnError"
    using gate_refuses_withdrawn[OF recorded(10) r(1)] r(2,3) by simp
  ultimately show ?thesis using recorded(1) by blast
qed

text \<open>
  A parent who has been asked and did not answer is not asked again.  Once the sweep has
  recorded the silence, every further request to that parent about that child fails with
  \<^verbatim>\<open>parent_already_refused\<close> and changes nothing, also in the thirty days before the roster entry is removed.
\<close>

lemma unanswered_is_refused:
  assumes "record_unanswered sha d now = (d', Inr n)" "(i, l) \<in> set (unanswered d now)"
  shows "already_refused sha d' (ci_student_id i) (pl_parent_contact l)"
proof (cases "already_refused sha d (ci_student_id i) (pl_parent_contact l)")
  case True
  then show ?thesis using assms(1)
    by (auto simp: record_unanswered_def Let_def finish_Inr flush_def already_refused_def)
next
  case False
  then have "(i, l) \<in> set (filter (\<lambda>(i, l). \<not> already_refused sha d (ci_student_id i) (pl_parent_contact l)) (unanswered d now))"
    using assms(2) by simp
  then have "no_response sha now (i, l) \<in> set (consent_refusals d')"
    using assms(1) by (auto simp: record_unanswered_def Let_def finish_Inr flush_def)
  then show ?thesis by (force simp: already_refused_def no_response_def)
qed

theorem silent_parent_is_not_asked_again:
  assumes "record_unanswered sha d now = (d', Inr n)" and "(i, l) \<in> set (unanswered d now)"
    and "require_student d' (df_school_id draft) (df_student_id draft)"
    and "df_student_id draft = ci_student_id i"
    and "py_casefold (py_strip (df_parent_contact draft)) = py_casefold (py_strip (pl_parent_contact l))"
  shows "create_parent_request sha d' draft new_id = (d', Inl ParentAlreadyRefusedError)"
  using unanswered_is_refused[OF assms(1,2)] assms(3-5)
  by (simp add: create_parent_request_def already_refused_def contact_digest_def)

text \<open>
  A school confirmation of a learner who has no consent record yet succeeds and confirms
  nothing: the record it creates is stored as pending, so the child is still refused with
  \<^verbatim>\<open>consent_pending\<close>.
\<close>

theorem school_confirmation_of_new_learner_stays_pending:
  assumes "confirm_by_school d actor st [CT_DATA_PROCESSING] via now new_id = (d', Inr views)"
    and "consent_for_update d st CT_DATA_PROCESSING = None"
  shows "map cv_status views = [Some CS_PENDING] \<and>
    require_student_consent d' \<lparr>ap_user_id = st, ap_role = ''student'', ap_session_id = sid\<rparr> = Inl ConsentPendingError"
proof -
  let ?r = "new_consent_record (new_id CT_DATA_PROCESSING) st CT_DATA_PROCESSING"
  have none: "\<not> is_consent st CT_DATA_PROCESSING r" if "r \<in> set (consent_records d)" for r
    using assms(2) that by (simp add: consent_for_update_def find_None_iff)
  have e: "consent_records (confirm_one st (cta_user_id actor) via now new_id CT_DATA_PROCESSING d) = consent_records d @ [?r]"
    using none assms(2)
    by (auto simp: confirm_one_def update_consent_def ensure_pending_record_def new_consent_record_def intro!: update_where_none)
  have f: "consent_records (flush (confirm_one st (cta_user_id actor) via now new_id CT_DATA_PROCESSING d)) =
      consent_records (flush d) @ [?r\<lparr>cr_status := Some CS_PENDING\<rparr>]"
    unfolding flush_def by (simp add: e) (simp add: new_consent_record_def)
  have none': "\<not> is_consent st CT_DATA_PROCESSING r" if "r \<in> set (consent_records (flush d))" for r
    using that none by (auto simp: flush_def is_consent_def)
  have d': "d' = flush (confirm_one st (cta_user_id actor) via now new_id CT_DATA_PROCESSING d)"
    and v: "views = map consent_view (filter (is_consent st CT_DATA_PROCESSING) (consent_records d'))"
    using assms(1)
    by (auto simp: confirm_by_school_def repo_confirm_by_school_def required_types_def Let_def finish_Inr split: if_splits)
  have one: "filter (is_consent st CT_DATA_PROCESSING) (consent_records d') = [?r\<lparr>cr_status := Some CS_PENDING\<rparr>]"
    unfolding d' f using none' by (simp add: is_consent_def new_consent_record_def)
  have "consent_for_update d' st CT_DATA_PROCESSING = Some (?r\<lparr>cr_status := Some CS_PENDING\<rparr>)"
    unfolding consent_for_update_def find_dropWhile d' f
    using none' by (simp add: dropWhile_append2 is_consent_def new_consent_record_def)
  then show ?thesis
    by (simp add: v one consent_view_def require_student_consent_def student_gate_def consent_status_of_def
      REQUIRED_LEARNING_CONSENT_def Let_def)
qed

text \<open>A state with a record that breaks the table's constraint is never committed.\<close>

lemma finish_rejects:
  assumes "r \<in> set (consent_records (flush d'))" "\<not> consent_record_ok r"
  shows "finish e d d' x = (d, Inl e)"
proof -
  have "\<not> db_constraints (flush d')"
    using assms unfolding db_constraints_def consent_records_ok_def list_all_iff by blast
  then show ?thesis by (simp add: finish_def commit_def)
qed

text \<open>
  A parent who was asked and has not consented cannot withdraw through the link: the
  withdrawal marks a record that was never confirmed as withdrawn, which the table's constraint refuses,
  so the whole request fails and the child stays active.
\<close>

theorem withdrawal_before_consent_fails:
  assumes "live_link d digest = Some (i, link)" and "now < ci_expires_at i" and "pl_parent_id link = Some pid"
    and "\<forall>r \<in> set (consent_records d). is_consent (pl_student_id link) REQUIRED_LEARNING_CONSENT r \<longrightarrow> cr_confirmed_via r = None"
  shows "exercise_parent_right d digest PR_WITHDRAW_CONSENT reason now ids req = (d, Inl UncaughtIntegrityError)"
proof -
  let ?st = "pl_student_id link"
  define d3 where "d3 = d\<lparr>parent_data_requests := parent_data_requests d @ [\<lparr>dr_id = req, dr_student_id = ?st,
    dr_parent_id = pid, dr_request_type = parent_right_type_value PR_WITHDRAW_CONSENT, dr_reason = reason,
    dr_status = ''open'', dr_created_at = now, dr_resolved_at = None\<rparr>]\<rparr>"
  let ?d4 = "withdrawn_state ?st pid now (ni_record ids) d3"
  obtain r where r: "r \<in> set (consent_records ?d4)" "is_consent ?st REQUIRED_LEARNING_CONSENT r" "cr_status r = Some CS_WITHDRAWN"
    using withdrawn_state_record by blast
  have "cr_confirmed_via r = None"
    using r(1,2) assms(4)
    by (auto simp: withdrawn_state_def update_consent_def set_update_where ensure_pending_record_def suspend_student_def
      update_user_def d3_def new_consent_record_def withdraw_record_def is_consent_def split: option.splits if_splits)
  then have "\<not> consent_record_ok r" using r(3) by (auto simp: consent_record_ok_def)
  then have "finish UncaughtIntegrityError d ?d4 x = (d, Inl UncaughtIntegrityError)" for x :: "parent_right_outcome option"
    by (rule finish_rejects[OF flush_keeps_status[OF r(1,3)]])
  then show ?thesis
    using assms(1-3) by (simp add: exercise_parent_right_def Let_def d3_def withdrawn_state_def)
qed

text \<open>
  The same constraint makes every written confirmation by this route fail: the record a school confirms as
  written carries no name of the signing parent, which the second check of the table asks for.
\<close>

lemma written_confirmation_fails:
  assumes "require_student d (cta_school_id actor) st" and "r \<in> set (consent_records d)" and "is_consent st ty r"
    and "cr_status r = Some CS_PENDING" and "cr_parent_name_on_form r = None"
  shows "confirm_by_school d actor st [ty] CM_WRITTEN now new_id = (d, Inl UncaughtIntegrityError)"
proof -
  let ?P = "\<lambda>r. is_consent st ty r \<and> cr_status r = Some CS_PENDING"
  let ?d = "confirm_one st (cta_user_id actor) CM_WRITTEN now new_id ty d"
  have in_e: "r \<in> set (consent_records (ensure_pending_record st new_id ty d))"
    using assms(2) by (auto simp: ensure_pending_record_def split: option.splits)
  have "school_confirmed (cta_user_id actor) CM_WRITTEN now r \<in> set (consent_records ?d)"
    using in_update_where[OF in_e, of ?P] assms(3,4) by (simp add: confirm_one_def update_consent_def)
  then have "school_confirmed (cta_user_id actor) CM_WRITTEN now r \<in> set (consent_records (flush ?d))"
    by (rule flush_keeps_status) (simp add: school_confirmed_def)
  moreover have "\<not> consent_record_ok (school_confirmed (cta_user_id actor) CM_WRITTEN now r)"
    using assms(5) by (simp add: consent_record_ok_def school_confirmed_def)
  ultimately have "finish UncaughtIntegrityError d ?d x = (d, Inl UncaughtIntegrityError)" for x :: "consent_record_view list"
    by (rule finish_rejects)
  then show ?thesis
    using assms(1) by (simp add: confirm_by_school_def repo_confirm_by_school_def required_types_def Let_def)
qed

subsection \<open>Witnesses\<close>

definition consent_db :: db where
  "consent_db = empty_db\<lparr>schools := [sample_school], users := [sample_student, age_admin]\<rparr>"

definition consent_staff :: consent_actor where
  "consent_staff = \<lparr>cta_user_id = 15, cta_school_id = 1\<rparr>"

fun record_key :: "consent_type \<Rightarrow> uuid" where
  "record_key CT_DATA_PROCESSING = 71"
| "record_key CT_CAMERA = 72"
| "record_key CT_OFFLINE_STORAGE = 73"
| "record_key CT_CROSS_BORDER_TRANSFER = 74"

definition consent_keys :: new_ids where
  "consent_keys = \<lparr>ni_parent = 80, ni_record = record_key, ni_age_check = 81\<rparr>"

definition asked_db :: db where
  "asked_db = fst (request_parent_consent (\<lambda>s. s) (\<lambda>s. s) ''https://app.nevo/'' consent_db consent_staff 10 ''Ada  Obi''
     '' Mum@b.ng '' CC_EMAIL [] 0 ''tok'' 50 60 record_key)"

definition answered_db :: db where
  "answered_db = fst (complete_parent_consent (\<lambda>s. s) asked_db ''tok'' [CT_DATA_PROCESSING] None None (Some ''Ada Obi'') 100 consent_keys)"

definition withdrawn_db :: db where
  "withdrawn_db = fst (exercise_parent_right answered_db (consent_token_digest (\<lambda>s. s) ''tok'') PR_WITHDRAW_CONSENT None 200 consent_keys 90)"

lemma consent_db_ok: "db_constraints consent_db"
  by code_simp

lemma asked_step: "consent_step consent_db asked_db"
  by (rule consent_step.request) (simp add: asked_db_def prod_eq_iff)

lemma asked_db_ok: "db_constraints asked_db"
  using consent_run.run_kept[OF r_into_rtranclp[of consent_step, OF asked_step] consent_db_ok] by blast

lemma answer_result:
  "map_option pcc_confirmed_types (projr (snd (complete_parent_consent (\<lambda>s. s) asked_db ''tok'' [CT_DATA_PROCESSING] None None
     (Some ''Ada Obi'') 100 consent_keys))) = Some [CT_DATA_PROCESSING] \<and>
   isl (snd (complete_parent_consent (\<lambda>s. s) asked_db ''tok'' [CT_DATA_PROCESSING] None None (Some ''Ada Obi'') 100 consent_keys)) = False"
  by code_simp

lemma answer_given:
  "\<exists>c. complete_parent_consent (\<lambda>s. s) asked_db ''tok'' [CT_DATA_PROCESSING] None None (Some ''Ada Obi'') 100 consent_keys
     = (answered_db, Inr (Some c))"
proof -
  let ?r = "complete_parent_consent (\<lambda>s. s) asked_db ''tok'' [CT_DATA_PROCESSING] None None (Some ''Ada Obi'') 100 consent_keys"
  obtain c where "snd ?r = Inr (Some c)" using answer_result by (cases "snd ?r") auto
  then have "?r = (answered_db, Inr (Some c))" unfolding answered_db_def by (metis prod.collapse)
  then show ?thesis by blast
qed

lemma map_Cons_row: "map f rows = x # ys \<Longrightarrow> \<exists>r \<in> set rows. f r = x"
  by (cases rows) auto

lemma answered_records:
  "map (\<lambda>r. (cr_subject_user_id r, cr_consent_type r, cr_status r)) (consent_records answered_db) =
     [(10, CT_DATA_PROCESSING, Some CS_CONFIRMED), (10, CT_CROSS_BORDER_TRANSFER, Some CS_PENDING)]"
  by code_simp

theorem only_ticked_consents_are_confirmed_witness:
  "\<exists>r \<in> set (consent_records answered_db). cr_status r = Some CS_CONFIRMED \<and>
     (r \<in> set (consent_records asked_db) \<or> cr_confirmation_source r = Some SRC_PARENT)"
proof -
  obtain c where c: "complete_parent_consent (\<lambda>s. s) asked_db ''tok'' [CT_DATA_PROCESSING] None None (Some ''Ada Obi'') 100 consent_keys
     = (answered_db, Inr (Some c))" using answer_given by blast
  obtain r where r: "r \<in> set (consent_records answered_db)" "cr_status r = Some CS_CONFIRMED"
    using map_Cons_row[OF answered_records] by auto
  show ?thesis using only_ticked_consents_are_confirmed[OF c r] r by blast
qed

theorem gate_opens_only_on_confirmed_consent_witness:
  "\<exists>g. require_student_consent answered_db \<lparr>ap_user_id = 10, ap_role = ''student'', ap_session_id = 1\<rparr> = Inr g"
proof -
  obtain c where c: "complete_parent_consent (\<lambda>s. s) asked_db ''tok'' [CT_DATA_PROCESSING] None None (Some ''Ada Obi'') 100 consent_keys
     = (answered_db, Inr (Some c))" using answer_given by blast
  have ok: "db_constraints answered_db" using complete_accepts(2)[OF c[unfolded complete_parent_consent_def]] .
  obtain r where r: "r \<in> set (consent_records answered_db)" "cr_status r = Some CS_CONFIRMED" "cr_subject_user_id r = 10"
    "cr_consent_type r = CT_DATA_PROCESSING" using map_Cons_row[OF answered_records] by auto
  show ?thesis
    using gate_opens_only_on_confirmed_consent[OF ok, of "\<lparr>ap_user_id = 10, ap_role = ''student'', ap_session_id = 1\<rparr>"] r by auto
qed

theorem consent_link_is_answered_once_witness:
  "complete_parent_consent (\<lambda>s. s) answered_db ''tok'' [] None None None 120 consent_keys = (answered_db, Inr None)"
proof -
  obtain c where c: "complete_parent_consent (\<lambda>s. s) asked_db ''tok'' [CT_DATA_PROCESSING] None None (Some ''Ada Obi'') 100 consent_keys
     = (answered_db, Inr (Some c))" using answer_given by blast
  show ?thesis using consent_link_is_answered_once[OF c rtranclp.rtrancl_refl] .
qed

lemma withdrawal_given:
  "\<exists>out. exercise_parent_right answered_db (consent_token_digest (\<lambda>s. s) ''tok'') PR_WITHDRAW_CONSENT None 200 consent_keys 90
     = (withdrawn_db, Inr (Some out))"
proof -
  let ?r = "exercise_parent_right answered_db (consent_token_digest (\<lambda>s. s) ''tok'') PR_WITHDRAW_CONSENT None 200 consent_keys 90"
  have "\<not> isl (snd ?r) \<and> map_option ro_request_id (projr (snd ?r)) = Some 90" by code_simp
  then obtain out where "snd ?r = Inr (Some out)" by (cases "snd ?r") auto
  then have "?r = (withdrawn_db, Inr (Some out))" unfolding withdrawn_db_def by (metis prod.collapse)
  then show ?thesis by blast
qed

theorem withdrawal_takes_effect_at_once_witness:
  "\<exists>i link. live_link answered_db (consent_token_digest (\<lambda>s. s) ''tok'') = Some (i, link) \<and>
    require_student_consent withdrawn_db \<lparr>ap_user_id = pl_student_id link, ap_role = ''student'', ap_session_id = 1\<rparr>
      = Inl ConsentWithdrawnError"
  using withdrawal_given withdrawal_takes_effect_at_once by blast

lemma withdrawn_db_ok: "db_constraints withdrawn_db"
proof -
  obtain out where "exercise_parent_right answered_db (consent_token_digest (\<lambda>s. s) ''tok'') PR_WITHDRAW_CONSENT None 200 consent_keys 90
     = (withdrawn_db, Inr (Some out))" using withdrawal_given by blast
  then show ?thesis by (cases rule: exercise_parent_right_cases) simp_all
qed

theorem withdrawal_is_not_overruled_witness:
  "\<exists>r. r \<in> set (consent_records (fst (confirm_by_school withdrawn_db consent_staff 10 [] CM_VERBAL 300 record_key))) \<and>
     cr_status r = Some CS_WITHDRAWN"
proof -
  have w: "map cr_status (consent_records withdrawn_db) = [Some CS_WITHDRAWN, Some CS_PENDING]" by code_simp
  obtain r where r: "r \<in> set (consent_records withdrawn_db)" "cr_status r = Some CS_WITHDRAWN"
    using map_Cons_row[OF w] by auto
  have "consent_step withdrawn_db (fst (confirm_by_school withdrawn_db consent_staff 10 [] CM_VERBAL 300 record_key))"
    by (rule consent_step.by_school) (simp add: prod_eq_iff)
  then have "consent_step\<^sup>*\<^sup>* withdrawn_db (fst (confirm_by_school withdrawn_db consent_staff 10 [] CM_VERBAL 300 record_key))" ..
  from withdrawal_is_not_overruled[OF this withdrawn_db_ok r] r(2) show ?thesis by blast
qed

text \<open>The asked parent stays silent; after the thirty days the sweep closes the request.\<close>

lemma silence_recorded: "\<exists>d'. record_unanswered (\<lambda>s. s) asked_db (td_days 31) = (d', Inr 1)"
proof -
  have "snd (record_unanswered (\<lambda>s. s) asked_db (td_days 31)) = Inr 1" by code_simp
  then show ?thesis by (metis prod.collapse)
qed

definition second_request :: parent_consent_request_draft where
  "second_request = \<lparr>df_invitation_id = 51, df_parent_link_id = 61, df_school_id = 1, df_student_id = 10,
     df_parent_name = ''Ada Obi'', df_parent_contact = ''mum@b.ng'', df_contact_method = CC_EMAIL,
     df_consent_types = [CT_DATA_PROCESSING], df_token_digest = ''again'', df_consent_url = ''u'',
     df_requested_by_user_id = 15, df_created_at = td_days 32, df_expires_at = td_days 62\<rparr>"

theorem silent_parent_is_not_asked_again_witness:
  "\<exists>d'. create_parent_request (\<lambda>s. s) d' second_request record_key = (d', Inl ParentAlreadyRefusedError)"
proof -
  obtain d' where d': "record_unanswered (\<lambda>s. s) asked_db (td_days 31) = (d', Inr 1)" using silence_recorded by blast
  have "map (\<lambda>(i, l). (ci_student_id i, pl_parent_contact l)) (unanswered asked_db (td_days 31)) = [(10, ''mum@b.ng'')]" by code_simp
  from map_Cons_row[OF this] obtain i l where u: "(i, l) \<in> set (unanswered asked_db (td_days 31))"
    "ci_student_id i = 10" "pl_parent_contact l = ''mum@b.ng''" by auto
  have "require_student asked_db 1 10" by code_simp
  then have "require_student d' 1 10"
    using d' by (auto simp: record_unanswered_def Let_def finish_Inr flush_def require_student_def)
  then show ?thesis
    using silent_parent_is_not_asked_again[OF d' u(1), of second_request] u(2,3) by (auto simp: second_request_def)
qed

theorem school_confirmation_of_new_learner_stays_pending_witness:
  "\<exists>d' views. confirm_by_school consent_db consent_staff 10 [CT_DATA_PROCESSING] CM_VERBAL 5 record_key = (d', Inr views) \<and>
     map cv_status views = [Some CS_PENDING]"
proof -
  let ?r = "confirm_by_school consent_db consent_staff 10 [CT_DATA_PROCESSING] CM_VERBAL 5 record_key"
  have "\<not> isl (snd ?r)" by code_simp
  then obtain views where "snd ?r = Inr views" by (cases "snd ?r") auto
  then have r: "?r = (fst ?r, Inr views)" by (metis prod.collapse)
  have n: "consent_for_update consent_db 10 CT_DATA_PROCESSING = None" by code_simp
  show ?thesis using school_confirmation_of_new_learner_stays_pending[OF r n] r by blast
qed

definition linked_db :: db where
  "linked_db = fst (parent_for_login asked_db ''mum@b.ng'' (Some (consent_token_digest (\<lambda>s. s) ''tok'')) 10 80)"

theorem withdrawal_before_consent_fails_witness:
  "exercise_parent_right linked_db (consent_token_digest (\<lambda>s. s) ''tok'') PR_WITHDRAW_CONSENT None 200 consent_keys 90
     = (linked_db, Inl UncaughtIntegrityError)"
proof -
  have l: "map_option (\<lambda>(i, l). (ci_expires_at i, pl_parent_id l)) (live_link linked_db (consent_token_digest (\<lambda>s. s) ''tok'')) =
      Some (td_days 30, Some 80)" by code_simp
  then obtain i link where "live_link linked_db (consent_token_digest (\<lambda>s. s) ''tok'') = Some (i, link)"
    "ci_expires_at i = td_days 30" "pl_parent_id link = Some 80" by auto
  moreover have "list_all (\<lambda>r. cr_confirmed_via r = None) (consent_records linked_db)" by code_simp
  ultimately show ?thesis
    by (intro withdrawal_before_consent_fails) (auto simp: list_all_iff td_defs)
qed

end
