(* ===== verification/ParentRights.thy ===== *)
theory ParentRights
  imports ConsentLaws
begin

text \<open>
  The rights a parent exercises from their own account (\<^verbatim>\<open>nevo/api/parent_rights.py\<close>): the list of consents, withdrawing, giving back,
  objecting and asking for the data.  The state is the database of \<open>Database\<close>; the session does not flush by itself, so nothing is written before
  the commit, and a refusal on the way leaves the database as it was.  SHA-256 is a parameter, the clock, the stamp of the database and the key of
  the request are arguments.
\<close>

subsection \<open>Whose child, whose decision\<close>

datatype right_fault = RightRefused http_error | RightCommitFailed

record consent_held =
  ch_consent_type :: consent_type
  ch_status :: "consent_status option"
  ch_decided_at :: "datetime option"
  ch_stops_access :: bool
  ch_can_withdraw :: bool

record child_consents =
  cc_student_id :: uuid
  cc_student_first_name :: "string option"
  cc_consents :: "consent_held list"

record right_outcome =
  rt_request_id :: uuid
  rt_request_type :: parent_right_type
  rt_student_id :: uuid
  rt_effect :: string
  rt_withdrawn_types :: "consent_type list"
  rt_restored_types :: "consent_type list"
  rt_recorded_at :: datetime

definition ALL_CONSENT_TYPES :: "consent_type list" where
  "ALL_CONSENT_TYPES = [CT_DATA_PROCESSING, CT_CAMERA, CT_OFFLINE_STORAGE, CT_CROSS_BORDER_TRANSFER]"

text \<open>The order of the database's enumeration, in which the value added last comes last, and the order of the stored texts.\<close>

fun consent_type_rank :: "consent_type \<Rightarrow> nat" where
  "consent_type_rank CT_DATA_PROCESSING = 0"
| "consent_type_rank CT_CAMERA = 1"
| "consent_type_rank CT_OFFLINE_STORAGE = 2"
| "consent_type_rank CT_CROSS_BORDER_TRANSFER = 3"

fun consent_value_rank :: "consent_type \<Rightarrow> nat" where
  "consent_value_rank CT_CAMERA = 0"
| "consent_value_rank CT_CROSS_BORDER_TRANSFER = 1"
| "consent_value_rank CT_DATA_PROCESSING = 2"
| "consent_value_rank CT_OFFLINE_STORAGE = 3"

definition require_parent :: "auth_principal \<Rightarrow> http_error + uuid" where
  "require_parent p = (if ap_role p \<noteq> ''parent_guardian'' then Inl (HTTPException 403 ''parent_only'') else Inr (ap_user_id p))"

definition own_child :: "db \<Rightarrow> uuid \<Rightarrow> uuid \<Rightarrow> http_error + user_row" where
  "own_child d parent_id student_id =
     (if exists_where (\<lambda>l. pl_parent_id l = Some parent_id \<and> pl_student_id l = student_id) (parent_links d)
      then (case get_by u_id student_id (users d) of
              None \<Rightarrow> Inl (HTTPException 404 ''child_not_linked'')
            | Some student \<Rightarrow> Inr student)
      else Inl (HTTPException 404 ''child_not_linked''))"

definition first_guardian :: "db \<Rightarrow> uuid \<Rightarrow> uuid option" where
  "first_guardian d student_id =
     (case sort_key pl_created_at (sort_key pl_id (filter (\<lambda>l. pl_student_id l = student_id) (parent_links d))) of
        [] \<Rightarrow> None | l # _ \<Rightarrow> pl_parent_id l)"

definition can_withdraw :: "db \<Rightarrow> uuid \<Rightarrow> uuid \<Rightarrow> consent_record_row \<Rightarrow> bool" where
  "can_withdraw d student_id parent_id r =
     (case cr_confirmed_by_parent_id r of
        Some giver \<Rightarrow> giver = parent_id
      | None \<Rightarrow>
          (case cr_consent_holder_parent_link_id r of
             Some link_id \<Rightarrow>
               (case get_by pl_id link_id (parent_links d) of
                  None \<Rightarrow> False
                | Some holder \<Rightarrow> pl_student_id holder = student_id \<and> pl_parent_id holder = Some parent_id)
           | None \<Rightarrow> first_guardian d student_id = Some parent_id))"

definition consents_of :: "db \<Rightarrow> uuid \<Rightarrow> consent_record_row list" where
  "consents_of d student_id = filter (\<lambda>r. cr_subject_user_id r = student_id) (consent_records d)"

definition my_consents :: "db \<Rightarrow> auth_principal \<Rightarrow> right_fault + child_consents list" where
  "my_consents d p =
     (case require_parent p of
        Inl e \<Rightarrow> Inl (RightRefused e)
      | Inr parent_id \<Rightarrow>
          Inr (map (\<lambda>link.
            \<lparr>cc_student_id = pl_student_id link,
             cc_student_first_name = (case get_by u_id (pl_student_id link) (users d) of None \<Rightarrow> None | Some u \<Rightarrow> u_first_name u),
             cc_consents = map (\<lambda>r. \<lparr>ch_consent_type = cr_consent_type r, ch_status = cr_status r,
                 ch_decided_at = (if cr_confirmed_at r \<noteq> None then cr_confirmed_at r else cr_last_changed_at r),
                 ch_stops_access = (cr_consent_type r = REQUIRED_LEARNING_CONSENT),
                 ch_can_withdraw = can_withdraw d (pl_student_id link) parent_id r\<rparr>)
               (sort_key (\<lambda>r. consent_type_rank (cr_consent_type r)) (consents_of d (pl_student_id link)))\<rparr>)
            (filter (\<lambda>l. pl_parent_id l = Some parent_id) (parent_links d))))"

subsection \<open>Withdrawing\<close>

definition wanted_types :: "consent_type list option \<Rightarrow> consent_type list" where
  "wanted_types types = (case types of Some (t # ts) \<Rightarrow> t # ts | _ \<Rightarrow> ALL_CONSENT_TYPES)"

definition another_parents_consent :: "consent_record_row list \<Rightarrow> consent_type list \<Rightarrow> uuid \<Rightarrow> bool" where
  "another_parents_consent records wanted parent_id =
     exists_where (\<lambda>r. cr_consent_type r \<in> set wanted \<and> cr_status r \<noteq> Some CS_WITHDRAWN \<and>
       cr_confirmed_by_parent_id r \<noteq> None \<and> cr_confirmed_by_parent_id r \<noteq> Some parent_id) records"

text \<open>The loop over the records: the ones it withdraws, or the refusal it ends in.\<close>

fun withdraw_each :: "(consent_record_row \<Rightarrow> bool) \<Rightarrow> consent_type list \<Rightarrow> consent_record_row list \<Rightarrow> http_error + consent_record_row list" where
  "withdraw_each may wanted [] = Inr []"
| "withdraw_each may wanted (r # rs) =
     (if cr_consent_type r \<notin> set wanted then withdraw_each may wanted rs
      else if \<not> may r then Inl (HTTPException 403 ''consent_decision_belongs_to_another_guardian'')
      else if cr_status r = Some CS_WITHDRAWN then withdraw_each may wanted rs
      else (case withdraw_each may wanted rs of Inl e \<Rightarrow> Inl e | Inr out \<Rightarrow> Inr (r # out)))"

definition update_records :: "consent_record_row list \<Rightarrow> (consent_record_row \<Rightarrow> consent_record_row) \<Rightarrow> db \<Rightarrow> db" where
  "update_records rs f d = update_consent (\<lambda>r. cr_id r \<in> set (map cr_id rs)) f d"

definition add_request :: "uuid \<Rightarrow> uuid \<Rightarrow> uuid \<Rightarrow> parent_right_type \<Rightarrow> string option \<Rightarrow> datetime \<Rightarrow> db \<Rightarrow> db" where
  "add_request request_id student_id parent_id request_type reason created d =
     d\<lparr>parent_data_requests := parent_data_requests d @ [\<lparr>dr_id = request_id, dr_student_id = student_id, dr_parent_id = parent_id,
        dr_request_type = parent_right_type_value request_type, dr_reason = reason, dr_status = ''open'', dr_created_at = created,
        dr_resolved_at = None\<rparr>]\<rparr>"

definition contact_of :: "db \<Rightarrow> uuid \<Rightarrow> string" where
  "contact_of d parent_id = (case get_by u_id parent_id (users d) of None \<Rightarrow> [] | Some u \<Rightarrow> present (u_email u))"

definition record_refusal :: "(string \<Rightarrow> string) \<Rightarrow> uuid \<Rightarrow> uuid \<Rightarrow> datetime \<Rightarrow> db \<Rightarrow> db" where
  "record_refusal sha parent_id student_id now d =
     (let contact = contact_of d parent_id in
      if contact = [] \<or> already_refused sha d student_id contact then d
      else case get_by u_id student_id (users d) of
        None \<Rightarrow> d
      | Some student \<Rightarrow>
          (case u_school_id student of
             None \<Rightarrow> d
           | Some school_id \<Rightarrow>
               d\<lparr>consent_refusals := consent_refusals d @ [\<lparr>rf_school_id = school_id, rf_student_id = student_id,
                  rf_contact_digest = contact_digest sha contact, rf_reason = RR_WITHDRAWN, rf_recorded_at = now,
                  rf_roster_deleted_at = None\<rparr>]\<rparr>))"

definition commit_right :: "db \<Rightarrow> db \<Rightarrow> 'a \<Rightarrow> db \<times> (right_fault + 'a)" where
  "commit_right d d' outcome = (case commit d' of Inl _ \<Rightarrow> (d, Inl RightCommitFailed) | Inr d'' \<Rightarrow> (d'', Inr outcome))"

definition withdrawn_rights ::
  "(string \<Rightarrow> string) \<Rightarrow> uuid \<Rightarrow> uuid \<Rightarrow> consent_record_row list \<Rightarrow> string option \<Rightarrow> datetime \<Rightarrow> datetime \<Rightarrow> uuid \<Rightarrow> db \<Rightarrow> db" where
  "withdrawn_rights sha parent_id student_id rs reason now created request_id d =
     (let d1 = update_records rs (withdraw_record parent_id now) d;
          d2 = (if REQUIRED_LEARNING_CONSENT \<in> set (map cr_consent_type rs) then suspend_student student_id now d1 else d1) in
      record_refusal sha parent_id student_id now (add_request request_id student_id parent_id PR_WITHDRAW_CONSENT reason created d2))"

definition withdraw_consent ::
  "(string \<Rightarrow> string) \<Rightarrow> db \<Rightarrow> auth_principal \<Rightarrow> uuid \<Rightarrow> consent_type list option \<Rightarrow> string option \<Rightarrow> datetime \<Rightarrow> datetime \<Rightarrow> uuid
     \<Rightarrow> db \<times> (right_fault + right_outcome)" where
  "withdraw_consent sha d p student_id types reason now created request_id =
     (case require_parent p of
        Inl e \<Rightarrow> (d, Inl (RightRefused e))
      | Inr parent_id \<Rightarrow>
          (case own_child d parent_id student_id of
             Inl e \<Rightarrow> (d, Inl (RightRefused e))
           | Inr student \<Rightarrow>
               (let wanted = wanted_types types;
                    records = consents_of d (u_id student) in
                if another_parents_consent records wanted parent_id
                then (d, Inl (RightRefused (HTTPException 403 ''consent_belongs_to_another_guardian'')))
                else case withdraw_each (can_withdraw d (u_id student) parent_id) wanted records of
                  Inl e \<Rightarrow> (d, Inl (RightRefused e))
                | Inr rs \<Rightarrow>
                    commit_right d (withdrawn_rights sha parent_id (u_id student) rs reason now created request_id d)
                      \<lparr>rt_request_id = request_id, rt_request_type = PR_WITHDRAW_CONSENT, rt_student_id = u_id student,
                       rt_effect = (if REQUIRED_LEARNING_CONSENT \<in> set (map cr_consent_type rs)
                          then ''Your child has stopped using Nevo. Their school has been told.''
                          else ''Nevo has stopped doing this. Your child can still use their lessons.''),
                       rt_withdrawn_types = sort_key consent_value_rank (map cr_consent_type rs), rt_restored_types = [],
                       rt_recorded_at = now\<rparr>)))"

subsection \<open>Giving back\<close>

definition restore_record :: "uuid \<Rightarrow> datetime \<Rightarrow> consent_record_row \<Rightarrow> consent_record_row" where
  "restore_record parent_id now r = r\<lparr>cr_status := Some CS_CONFIRMED, cr_confirmed_at := Some now, cr_confirmation_source := Some SRC_PARENT,
     cr_confirmed_by_parent_id := Some parent_id, cr_confirmed_by_admin_id := None, cr_confirmed_via := Some CM_DIGITAL,
     cr_last_actor_user_id := Some parent_id, cr_last_changed_at := Some now, cr_last_channel := Some ''parent_portal''\<rparr>"

definition withdrawn_of :: "consent_type list \<Rightarrow> consent_record_row list \<Rightarrow> consent_record_row list" where
  "withdrawn_of wanted records = filter (\<lambda>r. cr_consent_type r \<in> set wanted \<and> cr_status r = Some CS_WITHDRAWN) records"

definition reactivate_student :: "uuid \<Rightarrow> db \<Rightarrow> db" where
  "reactivate_student student_id d = d\<lparr>users := update_where (\<lambda>u. u_id u = student_id \<and> u_status u = US_DEACTIVATED)
     (\<lambda>u. u\<lparr>u_status := US_ACTIVE, u_deactivated_at := None\<rparr>) (users d)\<rparr>"

definition clear_refusal :: "(string \<Rightarrow> string) \<Rightarrow> uuid \<Rightarrow> uuid \<Rightarrow> db \<Rightarrow> db" where
  "clear_refusal sha parent_id student_id d =
     (let contact = contact_of d parent_id in
      if contact = [] then d
      else d\<lparr>consent_refusals := delete_where (\<lambda>f. rf_student_id f = student_id \<and> rf_contact_digest f = contact_digest sha contact \<and>
             rf_reason f = RR_WITHDRAWN) (consent_refusals d)\<rparr>)"

definition restored_rights ::
  "(string \<Rightarrow> string) \<Rightarrow> uuid \<Rightarrow> uuid \<Rightarrow> consent_record_row list \<Rightarrow> string option \<Rightarrow> datetime \<Rightarrow> datetime \<Rightarrow> uuid \<Rightarrow> db \<Rightarrow> db" where
  "restored_rights sha parent_id student_id rs reason now created request_id d =
     (let d1 = update_records rs (restore_record parent_id now) d;
          d2 = (if REQUIRED_LEARNING_CONSENT \<in> set (map cr_consent_type rs) then reactivate_student student_id d1 else d1) in
      clear_refusal sha parent_id student_id (add_request request_id student_id parent_id PR_RESTORE_CONSENT reason created d2))"

definition restore_consent ::
  "(string \<Rightarrow> string) \<Rightarrow> db \<Rightarrow> auth_principal \<Rightarrow> uuid \<Rightarrow> consent_type list option \<Rightarrow> string option \<Rightarrow> datetime \<Rightarrow> datetime \<Rightarrow> uuid
     \<Rightarrow> db \<times> (right_fault + right_outcome)" where
  "restore_consent sha d p student_id types reason now created request_id =
     (case require_parent p of
        Inl e \<Rightarrow> (d, Inl (RightRefused e))
      | Inr parent_id \<Rightarrow>
          (case own_child d parent_id student_id of
             Inl e \<Rightarrow> (d, Inl (RightRefused e))
           | Inr student \<Rightarrow>
               (let rs = withdrawn_of (wanted_types types) (consents_of d (u_id student)) in
                if list_ex (\<lambda>r. \<not> can_withdraw d (u_id student) parent_id r) rs
                then (d, Inl (RightRefused (HTTPException 403 ''consent_decision_belongs_to_another_guardian'')))
                else if rs = [] then (d, Inl (RightRefused (HTTPException 409 ''nothing_to_restore'')))
                else
                  commit_right d (restored_rights sha parent_id (u_id student) rs reason now created request_id d)
                    \<lparr>rt_request_id = request_id, rt_request_type = PR_RESTORE_CONSENT, rt_student_id = u_id student,
                     rt_effect = (if REQUIRED_LEARNING_CONSENT \<in> set (map cr_consent_type rs)
                        then ''Your child can use Nevo again. Their school has been told.''
                        else ''Nevo may do this again. Nothing else about your child's lessons has changed.''),
                     rt_withdrawn_types = [], rt_restored_types = sort_key consent_value_rank (map cr_consent_type rs),
                     rt_recorded_at = now\<rparr>)))"

subsection \<open>Objecting and asking for the data\<close>

definition record_right ::
  "db \<Rightarrow> auth_principal \<Rightarrow> uuid \<Rightarrow> parent_right_type \<Rightarrow> string option \<Rightarrow> string \<Rightarrow> datetime \<Rightarrow> datetime \<Rightarrow> uuid
     \<Rightarrow> db \<times> (right_fault + right_outcome)" where
  "record_right d p student_id request_type reason effect now created request_id =
     (case require_parent p of
        Inl e \<Rightarrow> (d, Inl (RightRefused e))
      | Inr parent_id \<Rightarrow>
          (case own_child d parent_id student_id of
             Inl e \<Rightarrow> (d, Inl (RightRefused e))
           | Inr student \<Rightarrow>
               commit_right d (add_request request_id (u_id student) parent_id request_type reason created d)
                 \<lparr>rt_request_id = request_id, rt_request_type = request_type, rt_student_id = u_id student, rt_effect = effect,
                  rt_withdrawn_types = [], rt_restored_types = [], rt_recorded_at = now\<rparr>))"

definition object_to_processing ::
  "db \<Rightarrow> auth_principal \<Rightarrow> uuid \<Rightarrow> string option \<Rightarrow> datetime \<Rightarrow> datetime \<Rightarrow> uuid \<Rightarrow> db \<times> (right_fault + right_outcome)" where
  "object_to_processing d p student_id reason now created request_id =
     record_right d p student_id PR_OBJECT reason ''Your objection has been sent to your child's school to answer.'' now created request_id"

definition request_data ::
  "db \<Rightarrow> auth_principal \<Rightarrow> uuid \<Rightarrow> string option \<Rightarrow> datetime \<Rightarrow> datetime \<Rightarrow> uuid \<Rightarrow> db \<times> (right_fault + right_outcome)" where
  "request_data d p student_id reason now created request_id =
     record_right d p student_id PR_REQUEST_DATA reason ''Your request has been sent to your child's school, who must answer it.'' now created request_id"
subsection \<open>Laws of the parts\<close>

lemma own_child_Inr:
  assumes "own_child d parent st = Inr u"
  shows "u \<in> set (users d)" "u_id u = st" "\<exists>l \<in> set (parent_links d). pl_parent_id l = Some parent \<and> pl_student_id l = st"
  using assms get_by_SomeD[of u_id st "users d" u] by (auto simp: own_child_def split: if_splits option.splits)

lemma withdraw_each_eq:
  "withdraw_each may wanted rs =
     (if \<forall>r \<in> set rs. cr_consent_type r \<in> set wanted \<longrightarrow> may r
      then Inr (filter (\<lambda>r. cr_consent_type r \<in> set wanted \<and> cr_status r \<noteq> Some CS_WITHDRAWN) rs)
      else Inl (HTTPException 403 ''consent_decision_belongs_to_another_guardian''))"
  by (induction rs) auto

lemma set_consents_of [simp]: "r \<in> set (consents_of d st) \<longleftrightarrow> r \<in> set (consent_records d) \<and> cr_subject_user_id r = st"
  by (auto simp: consents_of_def)

lemma wanted_some [simp]: "wanted_types (Some [t]) = [t]"
  by (simp add: wanted_types_def)

lemma record_refusal_fields [simp]:
  "consent_records (record_refusal sha q st now d) = consent_records d" "users (record_refusal sha q st now d) = users d"
  "parent_links (record_refusal sha q st now d) = parent_links d"
  by (auto simp: record_refusal_def Let_def split: option.splits)

lemma clear_refusal_fields [simp]:
  "consent_records (clear_refusal sha q st d) = consent_records d" "users (clear_refusal sha q st d) = users d"
  "parent_links (clear_refusal sha q st d) = parent_links d"
  by (auto simp: clear_refusal_def Let_def)

lemma right_writes_fields [simp]:
  "users (update_records rs f d) = users d" "parent_links (update_records rs f d) = parent_links d"
  "consent_refusals (update_records rs f d) = consent_refusals d"
  "consent_records (add_request i st q ty reason c d) = consent_records d" "users (add_request i st q ty reason c d) = users d"
  "parent_links (add_request i st q ty reason c d) = parent_links d" "consent_refusals (add_request i st q ty reason c d) = consent_refusals d"
  "consent_records (suspend_student st now d) = consent_records d" "parent_links (suspend_student st now d) = parent_links d"
  "consent_refusals (suspend_student st now d) = consent_refusals d"
  "consent_records (reactivate_student st d) = consent_records d" "parent_links (reactivate_student st d) = parent_links d"
  "consent_refusals (reactivate_student st d) = consent_refusals d"
  by (simp_all add: update_records_def update_consent_def add_request_def suspend_student_def update_user_def reactivate_student_def)

lemma commit_right_cases:
  assumes "commit_right d d' x = (e, r)"
  shows "(e = d \<and> r = Inl RightCommitFailed \<and> \<not> db_constraints d') \<or> (e = d' \<and> r = Inr x \<and> db_constraints d')"
  using assms by (auto simp: commit_right_def commit_def split: if_splits)

lemma commit_right_ok [simp]: "db_constraints d' \<Longrightarrow> commit_right d d' x = (d', Inr x)"
  by (simp add: commit_right_def commit_def)

text \<open>What the two decisions leave, table by table.\<close>

abbreviation among :: "consent_record_row list \<Rightarrow> consent_record_row \<Rightarrow> bool" where
  "among rs r \<equiv> cr_id r \<in> cr_id ` set rs"

lemma withdrawn_rights_fields:
  "consent_records (withdrawn_rights sha q st rs reason now c i d) = update_where (among rs) (withdraw_record q now) (consent_records d)"
  "parent_links (withdrawn_rights sha q st rs reason now c i d) = parent_links d"
  "users (withdrawn_rights sha q st rs reason now c i d) =
     (if REQUIRED_LEARNING_CONSENT \<in> cr_consent_type ` set rs
      then update_where (\<lambda>u. u_id u = st) (\<lambda>u. u\<lparr>u_status := US_DEACTIVATED, u_deactivated_at := Some now\<rparr>) (users d) else users d)"
  by (simp_all add: withdrawn_rights_def Let_def update_records_def update_consent_def suspend_student_def update_user_def)

lemma restored_rights_fields:
  "consent_records (restored_rights sha q st rs reason now c i d) = update_where (among rs) (restore_record q now) (consent_records d)"
  "parent_links (restored_rights sha q st rs reason now c i d) = parent_links d"
  "users (restored_rights sha q st rs reason now c i d) =
     (if REQUIRED_LEARNING_CONSENT \<in> cr_consent_type ` set rs
      then update_where (\<lambda>u. u_id u = st \<and> u_status u = US_DEACTIVATED) (\<lambda>u. u\<lparr>u_status := US_ACTIVE, u_deactivated_at := None\<rparr>) (users d)
      else users d)"
  by (simp_all add: restored_rights_def Let_def update_records_def update_consent_def reactivate_student_def)

lemma contact_of_update:
  "(\<And>u. u_id (f u) = u_id u \<and> u_email (f u) = u_email u) \<Longrightarrow> users d' = update_where P f (users d) \<Longrightarrow> contact_of d' q = contact_of d q"
  by (auto simp: contact_of_def get_by_update_where split: option.splits)

lemma contact_of_same: "users d' = users d \<Longrightarrow> contact_of d' q = contact_of d q"
  by (simp add: contact_of_def)

lemma contact_of_withdrawn: "contact_of (withdrawn_rights sha q st rs reason now c i d) q' = contact_of d q'"
proof (cases "REQUIRED_LEARNING_CONSENT \<in> cr_consent_type ` set rs")
  case True
  show ?thesis
    by (rule contact_of_update[of "\<lambda>u. u\<lparr>u_status := US_DEACTIVATED, u_deactivated_at := Some now\<rparr>" _ "\<lambda>u. u_id u = st"])
       (use True in \<open>simp_all add: withdrawn_rights_fields\<close>)
next
  case False
  show ?thesis by (rule contact_of_same) (use False in \<open>simp add: withdrawn_rights_fields\<close>)
qed

lemma record_refusal_refusals:
  "consent_refusals (record_refusal sha q st now d) = consent_refusals d \<or>
   (\<exists>f. consent_refusals (record_refusal sha q st now d) = consent_refusals d @ [f] \<and> rf_student_id f = st \<and>
      rf_contact_digest f = contact_digest sha (contact_of d q) \<and> rf_reason f = RR_WITHDRAWN \<and>
      contact_of d q \<noteq> [] \<and> \<not> already_refused sha d st (contact_of d q))"
  by (auto simp: record_refusal_def Let_def split: option.splits)

lemma withdrawn_refusals:
  "consent_refusals (withdrawn_rights sha q st rs reason now c i d) = consent_refusals d \<or>
   (\<exists>f. consent_refusals (withdrawn_rights sha q st rs reason now c i d) = consent_refusals d @ [f] \<and> rf_student_id f = st \<and>
      rf_contact_digest f = contact_digest sha (contact_of d q) \<and> rf_reason f = RR_WITHDRAWN \<and>
      contact_of d q \<noteq> [] \<and> \<not> already_refused sha d st (contact_of d q))"
proof -
  define e where "e = add_request i st q PR_WITHDRAW_CONSENT reason c
     (if REQUIRED_LEARNING_CONSENT \<in> set (map cr_consent_type rs) then suspend_student st now (update_records rs (withdraw_record q now) d)
      else update_records rs (withdraw_record q now) d)"
  have w: "withdrawn_rights sha q st rs reason now c i d = record_refusal sha q st now e"
    by (simp add: withdrawn_rights_def Let_def e_def)
  have "contact_of e q = contact_of d q" using contact_of_withdrawn[of sha q st rs reason now c i d q] unfolding w by (simp add: contact_of_def)
  moreover have "consent_refusals e = consent_refusals d" by (simp add: e_def)
  ultimately show ?thesis unfolding w using record_refusal_refusals[of sha q st now e] by (simp add: already_refused_def)
qed

subsection \<open>The constraints\<close>

text \<open>The tables no right touches.\<close>

definition same_tables :: "db \<Rightarrow> db \<Rightarrow> bool" where
  "same_tables d d' \<longleftrightarrow> (\<exists>a b c e. d' = d\<lparr>consent_records := a, users := b, parent_data_requests := c, consent_refusals := e\<rparr>)"

lemma same_tablesI: "d' = d\<lparr>consent_records := consent_records d', users := users d', parent_data_requests := parent_data_requests d',
    consent_refusals := consent_refusals d'\<rparr> \<Longrightarrow> same_tables d d'"
  unfolding same_tables_def by blast

lemma rights_constraints:
  assumes "same_tables d d'" "db_constraints d" "consent_records_ok (consent_records d')" "users_ok (users d')" "consent_refusals_ok (consent_refusals d')"
  shows "db_constraints d'"
  using assms unfolding same_tables_def by (auto simp: db_constraints_def)

lemma withdrawn_same_tables: "same_tables d (withdrawn_rights sha q st rs reason now c i d)"
  by (rule same_tablesI)
     (auto simp: withdrawn_rights_def Let_def record_refusal_def add_request_def suspend_student_def update_user_def update_records_def
       update_consent_def split: option.splits)

lemma restored_same_tables: "same_tables d (restored_rights sha q st rs reason now c i d)"
  by (rule same_tablesI)
     (auto simp: restored_rights_def Let_def clear_refusal_def add_request_def reactivate_student_def update_records_def update_consent_def)

lemma users_ok_status:
  assumes "users_ok us" "\<And>u. f u = u\<lparr>u_status := u_status (f u), u_deactivated_at := u_deactivated_at (f u)\<rparr>" "\<And>u. user_row_ok (f u)"
  shows "users_ok (update_where P f us)"
proof -
  have k: "u_id (f u) = u_id u" "u_email (f u) = u_email u" "u_sso_external_id (f u) = u_sso_external_id u" "u_school_id (f u) = u_school_id u"
    "u_login_identifier (f u) = u_login_identifier u" "u_admission_number (f u) = u_admission_number u" for u
    by (subst assms(2), simp)+
  have "list_all user_row_ok (update_where P f us)" using assms(1,3) by (auto simp: users_ok_def list_all_iff set_update_where)
  then show ?thesis using assms(1) unfolding users_ok_def
    by (auto simp: k map_update_where intro!: unique_where_update_weaken)
qed

lemma withdrawn_users_ok: "users_ok (users d) \<Longrightarrow> users_ok (users (withdrawn_rights sha q st rs reason now c i d))"
  by (auto simp: withdrawn_rights_fields user_row_ok_def intro!: users_ok_status)

lemma restored_users_ok: "users_ok (users d) \<Longrightarrow> users_ok (users (restored_rights sha q st rs reason now c i d))"
  by (auto simp: restored_rights_fields user_row_ok_def intro!: users_ok_status)

lemma records_ok_update:
  assumes "consent_records_ok rows" "\<And>r. cr_id (f r) = cr_id r \<and> cr_subject_user_id (f r) = cr_subject_user_id r \<and> cr_consent_type (f r) = cr_consent_type r"
    and "\<And>r. \<lbrakk>r \<in> set rows; P r\<rbrakk> \<Longrightarrow> consent_record_ok (f r)"
  shows "consent_records_ok (update_where P f rows)"
  using assms by (auto simp: consent_records_ok_def map_update_where list_all_iff set_update_where)

lemma refusals_ok_snoc:
  assumes "consent_refusals_ok (consent_refusals d)" "rf_student_id f = st" "rf_contact_digest f = contact_digest sha c" "\<not> already_refused sha d st c"
  shows "consent_refusals_ok (consent_refusals d @ [f])"
  using assms by (force simp: consent_refusals_ok_def already_refused_def)

lemma restored_refusals_ok:
  "consent_refusals_ok (consent_refusals d) \<Longrightarrow> consent_refusals_ok (consent_refusals (restored_rights sha q st rs reason now c i d))"
  by (auto simp: restored_rights_def Let_def clear_refusal_def consent_refusals_ok_def delete_where_def distinct_map_filter)

lemma withdrawn_constraints:
  assumes "db_constraints d" "\<forall>r \<in> set rs. r \<in> set (consent_records d) \<and> cr_status r = Some CS_CONFIRMED"
  shows "db_constraints (withdrawn_rights sha q st rs reason now c i d)"
proof (rule rights_constraints[OF withdrawn_same_tables assms(1)])
  have ok: "consent_records_ok (consent_records d)" "users_ok (users d)" "consent_refusals_ok (consent_refusals d)"
    using assms(1) by (auto simp: db_constraints_def)
  have "consent_record_ok (withdraw_record q now r)" if r: "r \<in> set (consent_records d)" "among rs r" for r
  proof -
    obtain r' where r': "r' \<in> set rs" "cr_id r' = cr_id r" using r(2) by auto
    have dist: "distinct (map cr_id (consent_records d))" using ok(1) by (simp add: consent_records_ok_def)
    have "r' = r" using get_by_in[OF dist r(1)] get_by_in[OF dist, of r'] r' assms(2) by simp
    then have "cr_status r = Some CS_CONFIRMED" using assms(2) r'(1) by blast
    moreover have "consent_record_ok r" using ok(1) r(1) by (simp add: consent_records_ok_def list_all_iff)
    ultimately show ?thesis by (auto simp: consent_record_ok_def withdraw_record_def)
  qed
  then show "consent_records_ok (consent_records (withdrawn_rights sha q st rs reason now c i d))"
    unfolding withdrawn_rights_fields by (intro records_ok_update[OF ok(1)]) (auto simp: withdraw_record_def)
  show "users_ok (users (withdrawn_rights sha q st rs reason now c i d))" by (rule withdrawn_users_ok[OF ok(2)])
  show "consent_refusals_ok (consent_refusals (withdrawn_rights sha q st rs reason now c i d))"
    using withdrawn_refusals[of sha q st rs reason now c i d] ok(3) refusals_ok_snoc[OF ok(3)] by auto
qed

lemma restored_constraints:
  assumes "db_constraints d"
  shows "db_constraints (restored_rights sha q st rs reason now c i d)"
proof (rule rights_constraints[OF restored_same_tables assms])
  have ok: "consent_records_ok (consent_records d)" "users_ok (users d)" "consent_refusals_ok (consent_refusals d)"
    using assms by (auto simp: db_constraints_def)
  show "consent_records_ok (consent_records (restored_rights sha q st rs reason now c i d))"
    unfolding restored_rights_fields by (intro records_ok_update[OF ok(1)]) (auto simp: restore_record_def consent_record_ok_def)
  show "users_ok (users (restored_rights sha q st rs reason now c i d))" by (rule restored_users_ok[OF ok(2)])
  show "consent_refusals_ok (consent_refusals (restored_rights sha q st rs reason now c i d))" by (rule restored_refusals_ok[OF ok(3)])
qed
subsection \<open>The two decisions taken apart\<close>

lemma withdraw_cases:
  assumes "withdraw_consent sha d p st types reason now c i = (d', r)"
  obtains (refused) e where "d' = d" "r = Inl e"
  | (done_with) u rs where "own_child d (ap_user_id p) st = Inr u" "\<forall>x \<in> set (consents_of d st). cr_consent_type x \<in> set (wanted_types types) \<longrightarrow> can_withdraw d st (ap_user_id p) x"
      "rs = filter (\<lambda>x. cr_consent_type x \<in> set (wanted_types types) \<and> cr_status x \<noteq> Some CS_WITHDRAWN) (consents_of d st)"
      "d' = withdrawn_rights sha (ap_user_id p) st rs reason now c i d" "db_constraints d'" "\<exists>out. r = Inr out \<and> rt_withdrawn_types out = sort_key consent_value_rank (map cr_consent_type rs)"
proof (cases "ap_role p = ''parent_guardian'' \<and> (\<exists>u. own_child d (ap_user_id p) st = Inr u)")
  case False
  then show ?thesis using assms that(1) by (cases "own_child d (ap_user_id p) st") (auto simp: withdraw_consent_def require_parent_def split: if_splits)
next
  case True
  then obtain u where u: "own_child d (ap_user_id p) st = Inr u" by blast
  have id: "u_id u = st" by (rule own_child_Inr(2)[OF u])
  let ?may = "can_withdraw d st (ap_user_id p)" and ?rs = "filter (\<lambda>x. cr_consent_type x \<in> set (wanted_types types) \<and> cr_status x \<noteq> Some CS_WITHDRAWN) (consents_of d st)"
  show ?thesis
  proof (cases "another_parents_consent (consents_of d st) (wanted_types types) (ap_user_id p) \<or>
      \<not> (\<forall>x \<in> set (consents_of d st). cr_consent_type x \<in> set (wanted_types types) \<longrightarrow> ?may x)")
    case bad: True
    then show ?thesis using assms u True id that(1)
      by (auto simp: withdraw_consent_def require_parent_def Let_def withdraw_each_eq simp del: set_consents_of split: if_splits)
  next
    case False
    then obtain out where c: "commit_right d (withdrawn_rights sha (ap_user_id p) st ?rs reason now c i d) out = (d', r)"
        and out: "rt_withdrawn_types out = sort_key consent_value_rank (map cr_consent_type ?rs)"
      using assms u True id by (auto simp: withdraw_consent_def require_parent_def Let_def withdraw_each_eq simp del: set_consents_of split: if_splits)
    from commit_right_cases[OF c] show ?thesis using that(1) that(2)[OF u _ refl] False out by blast
  qed
qed

lemma restore_cases:
  assumes "restore_consent sha d p st types reason now c i = (d', r)"
  obtains (refused) e where "d' = d" "r = Inl e"
  | (done_with) u rs where "own_child d (ap_user_id p) st = Inr u" "rs = withdrawn_of (wanted_types types) (consents_of d st)" "rs \<noteq> []"
      "\<forall>x \<in> set rs. can_withdraw d st (ap_user_id p) x" "d' = restored_rights sha (ap_user_id p) st rs reason now c i d" "db_constraints d'" "\<exists>out. r = Inr out"
proof (cases "ap_role p = ''parent_guardian'' \<and> (\<exists>u. own_child d (ap_user_id p) st = Inr u)")
  case False
  then show ?thesis using assms that(1) by (cases "own_child d (ap_user_id p) st") (auto simp: restore_consent_def require_parent_def split: if_splits)
next
  case True
  then obtain u where u: "own_child d (ap_user_id p) st = Inr u" by blast
  have id: "u_id u = st" by (rule own_child_Inr(2)[OF u])
  let ?rs = "withdrawn_of (wanted_types types) (consents_of d st)"
  show ?thesis
  proof (cases "list_ex (\<lambda>x. \<not> can_withdraw d st (ap_user_id p) x) ?rs \<or> ?rs = []")
    case bad: True
    then show ?thesis using assms u True id that(1) by (auto simp: restore_consent_def require_parent_def Let_def split: if_splits)
  next
    case False
    then obtain out where c: "commit_right d (restored_rights sha (ap_user_id p) st ?rs reason now c i d) out = (d', r)"
      using assms u True id by (auto simp: restore_consent_def require_parent_def Let_def split: if_splits)
    from commit_right_cases[OF c] show ?thesis using that(1) that(2)[OF u refl] False by (auto simp: list_ex_iff)
  qed
qed

lemma record_right_cases:
  assumes "record_right d p st ty reason eff now c i = (d', r)"
  shows "d' = d \<or> (consent_records d' = consent_records d \<and> db_constraints d')"
  using assms commit_right_cases[of d "add_request i _ (ap_user_id p) ty reason c d"]
  by (auto simp: record_right_def require_parent_def split: sum.splits if_splits dest!: commit_right_cases)

lemma kept_or_decided:
  assumes "distinct (map cr_id (consent_records d))" "set rs \<subseteq> set (consent_records d)" "r \<in> set (consent_records d)"
  shows "r \<in> set (update_where (among rs) f (consent_records d)) \<or> r \<in> set rs"
proof (cases "among rs r")
  case True
  then obtain r' where r': "r' \<in> set rs" "cr_id r' = cr_id r" by auto
  have "r' = r" using get_by_in[OF assms(1,3)] get_by_in[OF assms(1), of r'] r' assms(2) by auto
  then show ?thesis using r'(1) by blast
next
  case False
  then show ?thesis using in_update_where[OF assms(3), of "among rs" f] by simp
qed

subsection \<open>A consent belongs to the guardian who gave it\<close>

inductive right_step :: "(string \<Rightarrow> string) \<Rightarrow> uuid \<Rightarrow> db \<Rightarrow> db \<Rightarrow> bool" for sha where
  withdraw: "withdraw_consent sha d p st types reason now c i = (d', r) \<Longrightarrow> right_step sha (ap_user_id p) d d'"
| restore: "restore_consent sha d p st types reason now c i = (d', r) \<Longrightarrow> right_step sha (ap_user_id p) d d'"
| object: "object_to_processing d p st reason now c i = (d', r) \<Longrightarrow> right_step sha (ap_user_id p) d d'"
| data: "request_data d p st reason now c i = (d', r) \<Longrightarrow> right_step sha (ap_user_id p) d d'"

text \<open>What the requests of a guardian promise about consents, and what follows for the giver of one.\<close>

locale guardian_ledger =
  fixes step :: "uuid \<Rightarrow> db \<Rightarrow> db \<Rightarrow> bool"
  assumes step_constraints: "\<lbrakk>step q d d'; db_constraints d\<rbrakk> \<Longrightarrow> db_constraints d'"
    and step_decides: "\<lbrakk>step q d d'; db_constraints d; r \<in> set (consent_records d)\<rbrakk> \<Longrightarrow>
      r \<in> set (consent_records d') \<or> can_withdraw d (cr_subject_user_id r) q r"
begin

lemma given_consent_stays:
  assumes "(\<lambda>d d'. \<exists>q. q \<noteq> giver \<and> step q d d')\<^sup>*\<^sup>* d d'" "db_constraints d" "r \<in> set (consent_records d)" "cr_confirmed_by_parent_id r = Some giver"
  shows "r \<in> set (consent_records d') \<and> db_constraints d'"
  using assms
proof (induction rule: rtranclp_induct)
  case (step y z)
  then obtain q where q: "q \<noteq> giver" "step q y z" by blast
  have y: "r \<in> set (consent_records y)" "db_constraints y" using step by blast+
  have "\<not> can_withdraw y (cr_subject_user_id r) q r" using q(1) assms(4) by (simp add: can_withdraw_def)
  then show ?case using step_decides[OF q(2) y(2,1)] step_constraints[OF q(2) y(2)] by blast
qed simp

end

lemma constraints_distinct_records: "db_constraints d \<Longrightarrow> distinct (map cr_id (consent_records d))"
  by (simp add: db_constraints_def consent_records_ok_def)

lemma right_step_constraints:
  assumes "right_step sha q d d'" "db_constraints d"
  shows "db_constraints d'"
  using assms(1)
proof cases
  case (withdraw p st types reason now c i res)
  from withdraw(2) show ?thesis using assms(2) by (cases rule: withdraw_cases) auto
next
  case (restore p st types reason now c i res)
  from restore(2) show ?thesis using assms(2) by (cases rule: restore_cases) auto
qed (use assms(2) record_right_cases in \<open>force simp: object_to_processing_def request_data_def\<close>)+

lemma right_step_decides:
  assumes "right_step sha q d d'" "db_constraints d" "r \<in> set (consent_records d)"
  shows "r \<in> set (consent_records d') \<or> can_withdraw d (cr_subject_user_id r) q r"
  using assms(1)
proof cases
  case (withdraw p st types reason now c i res)
  from withdraw(2) show ?thesis
  proof (cases rule: withdraw_cases)
    case (done_with u rs)
    have "set rs \<subseteq> set (consent_records d)" unfolding done_with(3) by auto
    from kept_or_decided[OF constraints_distinct_records[OF assms(2)] this assms(3), of "withdraw_record q now"]
    show ?thesis using done_with withdraw(1) by (auto simp: withdrawn_rights_fields)
  qed (use assms(3) in simp)
next
  case (restore p st types reason now c i res)
  from restore(2) show ?thesis
  proof (cases rule: restore_cases)
    case (done_with u rs)
    have "set rs \<subseteq> set (consent_records d)" unfolding done_with(2) withdrawn_of_def by auto
    from kept_or_decided[OF constraints_distinct_records[OF assms(2)] this assms(3), of "restore_record q now"]
    show ?thesis using done_with restore(1) by (auto simp: restored_rights_fields withdrawn_of_def)
  qed (use assms(3) in simp)
qed (use assms(3) record_right_cases in \<open>force simp: object_to_processing_def request_data_def\<close>)+

interpretation guardians: guardian_ledger "right_step sha" for sha
  by unfold_locales (fact right_step_constraints, fact right_step_decides)

text \<open>Claim C17.  Nobody takes back, or gives back, a consent another guardian gave: whatever requests the other guardians of a child make from their
  accounts - withdrawing, restoring, objecting, asking for data - a consent given by one parent stays exactly as it is.\<close>

theorem consent_belongs_to_its_giver:
  assumes "(\<lambda>d d'. \<exists>q. q \<noteq> giver \<and> right_step sha q d d')\<^sup>*\<^sup>* d d'" "db_constraints d"
    and "r \<in> set (consent_records d)" "cr_confirmed_by_parent_id r = Some giver"
  shows "r \<in> set (consent_records d')"
  using guardians.given_consent_stays[OF assms] by blast

subsection \<open>What the list promises\<close>

lemma one_consent:
  assumes "db_constraints d" "r \<in> set (consent_records d)" "x \<in> set (consent_records d)"
    and "cr_subject_user_id x = cr_subject_user_id r" "cr_consent_type x = cr_consent_type r"
  shows "x = r"
  using stored_consent[OF assms(1,2), of "cr_subject_user_id r" "cr_consent_type r"]
    stored_consent[OF assms(1,3), of "cr_subject_user_id r" "cr_consent_type r"] assms(4,5) by (simp add: is_consent_def)

lemma one_consent_withdrawn:
  assumes "db_constraints d" "ap_role p = ''parent_guardian''" "own_child d (ap_user_id p) st = Inr u"
    and r: "r \<in> set (consent_records d)" "cr_subject_user_id r = st" "cr_status r = Some CS_CONFIRMED" "can_withdraw d st (ap_user_id p) r"
  shows "\<exists>d' out. withdraw_consent sha d p st (Some [cr_consent_type r]) reason now created i = (d', Inr out) \<and>
     \<not> has_confirmed_consent d' st (cr_consent_type r)"
proof -
  let ?q = "ap_user_id p" and ?t = "cr_consent_type r"
  define rs where "rs = filter (\<lambda>x. cr_consent_type x \<in> set [?t] \<and> cr_status x \<noteq> Some CS_WITHDRAWN) (consents_of d st)"
  define d' where "d' = withdrawn_rights sha ?q st rs reason now created i d"
  have only: "x = r" if "x \<in> set (consents_of d st)" "cr_consent_type x = ?t" for x
    using one_consent[OF assms(1) r(1), of x] that r(2) by simp
  have "x \<in> set rs \<longleftrightarrow> x = r" for x using only[of x] r(1-3) by (auto simp: rs_def)
  then have rs: "set rs = {r}" by blast
  have may: "\<forall>x \<in> set (consents_of d st). cr_consent_type x \<in> set [?t] \<longrightarrow> can_withdraw d st ?q x"
  proof (intro ballI impI)
    fix x assume "x \<in> set (consents_of d st)" "cr_consent_type x \<in> set [?t]"
    then show "can_withdraw d st ?q x" using only[of x] r(4) by simp
  qed
  have "\<not> another_parents_consent (consents_of d st) [?t] ?q"
  proof
    assume "another_parents_consent (consents_of d st) [?t] ?q"
    then obtain x where "x \<in> set (consents_of d st)" "cr_consent_type x = ?t" "cr_confirmed_by_parent_id x \<noteq> None" "cr_confirmed_by_parent_id x \<noteq> Some ?q"
      by (auto simp: another_parents_consent_def)
    then show False using only[of x] r(4) by (auto simp: can_withdraw_def)
  qed
  moreover have ok: "db_constraints d'" unfolding d'_def by (rule withdrawn_constraints[OF assms(1)]) (use rs r in simp)
  moreover have "u_id u = st" by (rule own_child_Inr(2)[OF assms(3)])
  ultimately obtain out where w: "withdraw_consent sha d p st (Some [?t]) reason now created i = (d', Inr out)"
    using assms(2,3) may by (simp add: withdraw_consent_def require_parent_def Let_def withdraw_each_eq rs_def d'_def del: set_consents_of)
  have "\<not> has_confirmed_consent d' st ?t"
  proof
    assume "has_confirmed_consent d' st ?t"
    then obtain x where x: "x \<in> set (consent_records d)" "cr_subject_user_id x = st" "cr_consent_type x = ?t" "\<not> among rs x"
      by (auto simp: has_confirmed_consent_def d'_def withdrawn_rights_fields set_update_where is_consent_def withdraw_record_def split: if_splits)
    then show False using only[of x] rs by simp
  qed
  with w show ?thesis by blast
qed

text \<open>Claim C19.  The list of consents tells the truth: a confirmed consent is shown as one the parent can withdraw exactly when the request to withdraw it
  succeeds, and then it is confirmed no longer.\<close>

theorem list_tells_who_may_withdraw:
  assumes "db_constraints d" "my_consents d p = Inr cs" "c \<in> set cs" "h \<in> set (cc_consents c)" "ch_status h = Some CS_CONFIRMED"
    and "cc_student_id c \<in> u_id ` set (users d)"
  shows "ch_can_withdraw h \<longleftrightarrow> (\<exists>d' out. withdraw_consent sha d p (cc_student_id c) (Some [ch_consent_type h]) reason now created i = (d', Inr out) \<and>
     \<not> has_confirmed_consent d' (cc_student_id c) (ch_consent_type h))"
proof -
  let ?q = "ap_user_id p" and ?st = "cc_student_id c" and ?t = "ch_consent_type h"
  have role: "ap_role p = ''parent_guardian''" using assms(2) by (auto simp: my_consents_def require_parent_def split: if_splits)
  obtain l where l: "l \<in> set (parent_links d)" "pl_parent_id l = Some ?q" "pl_student_id l = ?st"
    using assms(2,3) role by (auto simp: my_consents_def require_parent_def)
  obtain r where r: "r \<in> set (consent_records d)" "cr_subject_user_id r = ?st" "cr_consent_type r = ?t" "cr_status r = Some CS_CONFIRMED"
      "ch_can_withdraw h = can_withdraw d ?st ?q r"
    using assms(2-5) role by (auto simp: my_consents_def require_parent_def)
  obtain u where g: "get_by u_id ?st (users d) = Some u" using assms(6) by (cases "get_by u_id ?st (users d)") (auto simp: get_by_None_iff)
  have u: "own_child d ?q ?st = Inr u" using l by (auto simp: own_child_def g)
  show ?thesis
  proof
    assume "ch_can_withdraw h"
    then show "\<exists>d' out. withdraw_consent sha d p ?st (Some [?t]) reason now created i = (d', Inr out) \<and> \<not> has_confirmed_consent d' ?st ?t"
      using one_consent_withdrawn[OF assms(1) role u r(1,2,4)] r(3,5) by simp
  next
    assume "\<exists>d' out. withdraw_consent sha d p ?st (Some [?t]) reason now created i = (d', Inr out) \<and> \<not> has_confirmed_consent d' ?st ?t"
    then obtain d' out where "withdraw_consent sha d p ?st (Some [?t]) reason now created i = (d', Inr out)" by blast
    then show "ch_can_withdraw h" using r by (cases rule: withdraw_cases) auto
  qed
qed

subsection \<open>An unanswered consent\<close>


subsection \<open>Taking a withdrawal back\<close>

lemma can_withdraw_cong:
  "\<lbrakk>parent_links d' = parent_links d; cr_confirmed_by_parent_id r' = cr_confirmed_by_parent_id r;
    cr_consent_holder_parent_link_id r' = cr_consent_holder_parent_link_id r\<rbrakk> \<Longrightarrow> can_withdraw d' st q r' = can_withdraw d st q r"
  by (simp add: can_withdraw_def first_guardian_def split: option.split)

lemma contact_of_simps [simp]:
  "contact_of (add_request i st q ty reason c d) q' = contact_of d q'" "contact_of (update_records rs f d) q' = contact_of d q'"
  "contact_of (reactivate_student st d) q' = contact_of d q'"
proof -
  show "contact_of (reactivate_student st d) q' = contact_of d q'"
    by (rule contact_of_update[of "\<lambda>u. u\<lparr>u_status := US_ACTIVE, u_deactivated_at := None\<rparr>" _ "\<lambda>u. u_id u = st \<and> u_status u = US_DEACTIVATED"])
       (simp_all add: reactivate_student_def)
qed (rule contact_of_same, simp)+

lemma restored_refusals:
  assumes "\<not> already_refused sha d st (contact_of d q)"
  shows "consent_refusals (restored_rights sha q st rs' reason' now' c' i' (withdrawn_rights sha q st rs reason now c i d)) = consent_refusals d"
proof -
  let ?d = "withdrawn_rights sha q st rs reason now c i d"
  let ?e = "add_request i' st q PR_RESTORE_CONSENT reason' c'
     (if REQUIRED_LEARNING_CONSENT \<in> set (map cr_consent_type rs') then reactivate_student st (update_records rs' (restore_record q now') ?d)
      else update_records rs' (restore_record q now') ?d)"
  let ?k = "\<lambda>f. \<not> (rf_student_id f = st \<and> rf_contact_digest f = contact_digest sha (contact_of d q) \<and> rf_reason f = RR_WITHDRAWN)"
  have "contact_of ?e q = contact_of ?d q"
    by simp
  then have "consent_refusals (restored_rights sha q st rs' reason' now' c' i' ?d) =
      (if contact_of d q = [] then consent_refusals ?d else filter ?k (consent_refusals ?d))"
    by (simp add: restored_rights_def Let_def clear_refusal_def delete_where_def contact_of_withdrawn)
  moreover have "filter ?k (consent_refusals d) = consent_refusals d"
    using assms by (auto simp: already_refused_def filter_id_conv)
  ultimately show ?thesis using withdrawn_refusals[of sha q st rs reason now c i d] by auto
qed

lemma sort_key_Nil [simp]: "sort_key k xs = [] \<longleftrightarrow> xs = []"
  by (metis length_0_conv length_sort)

text \<open>After a withdrawal the same parent can restore, and what was withdrawn is among what is restored.\<close>

lemma withdrawn_restorable:
  assumes "withdraw_consent sha d p st types reason now c i = (d1, Inr out)" "rt_withdrawn_types out \<noteq> []"
    and u: "own_child d (ap_user_id p) st = Inr u"
    and may: "\<forall>x \<in> set (consents_of d st). cr_consent_type x \<in> set (wanted_types types) \<longrightarrow> can_withdraw d st (ap_user_id p) x"
    and rs: "rs = filter (\<lambda>x. cr_consent_type x \<in> set (wanted_types types) \<and> cr_status x \<noteq> Some CS_WITHDRAWN) (consents_of d st)"
    and d1: "d1 = withdrawn_rights sha (ap_user_id p) st rs reason now c i d" "db_constraints d1"
    and out: "rt_withdrawn_types out = sort_key consent_value_rank (map cr_consent_type rs)"
  shows "withdraw_record (ap_user_id p) now ` set rs \<subseteq> set (withdrawn_of (wanted_types types) (consents_of d1 st)) \<and>
    (\<exists>out2. restore_consent sha d1 p st types reason2 now2 c2 i2 =
      (restored_rights sha (ap_user_id p) st (withdrawn_of (wanted_types types) (consents_of d1 st)) reason2 now2 c2 i2 d1, Inr out2))"
proof -
  let ?q = "ap_user_id p"
  define rs' where "rs' = withdrawn_of (wanted_types types) (consents_of d1 st)"
  note f1 = withdrawn_rights_fields[of sha ?q st rs reason now c i d, folded d1(1)]
  have role: "ap_role p = ''parent_guardian''" using assms(1) by (auto simp: withdraw_consent_def require_parent_def split: if_splits)
  have may': "can_withdraw d1 st ?q y" if y: "y \<in> set rs'" for y
  proof -
    obtain x where x: "x \<in> set (consent_records d)" "y = withdraw_record ?q now x \<or> y = x"
      using y by (auto simp: rs'_def withdrawn_of_def f1 set_update_where)
    moreover have "cr_subject_user_id x = st" "cr_consent_type x \<in> set (wanted_types types)"
      using x(2) y by (auto simp: rs'_def withdrawn_of_def withdraw_record_def)
    ultimately have "can_withdraw d st ?q x" using may by simp
    moreover have "can_withdraw d1 st ?q y = can_withdraw d st ?q x" using x(2) by (intro can_withdraw_cong) (auto simp: f1 withdraw_record_def)
    ultimately show ?thesis by simp
  qed
  have into: "withdraw_record ?q now x \<in> set rs'" if x: "x \<in> set rs" for x
    using x updated_row_in[of x "consent_records d" "among rs" "withdraw_record ?q now"]
    by (auto simp: rs'_def withdrawn_of_def f1 rs withdraw_record_def)
  have "rs \<noteq> []" using assms(2) out by auto
  then have ne: "rs' \<noteq> []" using into[OF hd_in_set] by auto
  have "map u_id (users d1) = map u_id (users d)" by (simp add: f1 map_update_where)
  then have "st \<in> u_id ` set (users d1)" using own_child_Inr(1,2)[OF u] by (metis image_eqI list.set_map)
  then obtain v where v: "get_by u_id st (users d1) = Some v" by (cases "get_by u_id st (users d1)") (auto simp: get_by_None_iff)
  then have "own_child d1 ?q st = Inr v" "u_id v = st" using own_child_Inr(3)[OF u] get_by_SomeD[OF v] by (auto simp: own_child_def f1(2))
  moreover have "\<not> list_ex (\<lambda>y. \<not> can_withdraw d1 st ?q y) rs'" using may' by (auto simp: list_ex_iff)
  ultimately show ?thesis
    using role ne into restored_constraints[OF d1(2)]
    by (auto simp: restore_consent_def require_parent_def Let_def rs'_def[symmetric])
qed

lemma reopened:
  assumes "v \<in> set (update_where (\<lambda>u. u_id u = st \<and> u_status u = US_DEACTIVATED) (\<lambda>u. u\<lparr>u_status := US_ACTIVE, u_deactivated_at := None\<rparr>)
      (update_where (\<lambda>u. u_id u = st) (\<lambda>u. u\<lparr>u_status := US_DEACTIVATED, u_deactivated_at := Some now\<rparr>) us))" "u_id v = st"
  shows "u_status v = US_ACTIVE"
  using assms(1)
proof (induction us)
  case (Cons u us)
  then show ?case using assms(2) by (cases "u_id u = st") force+
qed simp

text \<open>Claim C18.  A withdrawal is no dead end: the parent who withdrew consents can give back the same ones, and then each of them is confirmed by that parent,
  no other consent has changed, the child whose lessons the withdrawal stopped is active, and the note that kept the school from asking again is gone.\<close>

theorem withdrawal_can_be_taken_back:
  assumes "withdraw_consent sha d p st types reason now c i = (d1, Inr out)" "rt_withdrawn_types out \<noteq> []" "db_constraints d"
    and "\<not> already_refused sha d st (contact_of d (ap_user_id p))"
  shows "\<exists>d2 out2. restore_consent sha d1 p st types reason2 now2 c2 i2 = (d2, Inr out2) \<and> consent_refusals d2 = consent_refusals d \<and>
     (\<forall>r \<in> set (consent_records d2). cr_subject_user_id r = st \<and> cr_consent_type r \<in> set (wanted_types types) \<longrightarrow>
        cr_status r = Some CS_CONFIRMED \<and> cr_confirmed_by_parent_id r = Some (ap_user_id p)) \<and>
     (\<forall>r \<in> set (consent_records d). cr_subject_user_id r \<noteq> st \<or> cr_consent_type r \<notin> set (wanted_types types) \<longrightarrow> r \<in> set (consent_records d2)) \<and>
     (REQUIRED_LEARNING_CONSENT \<in> set (rt_withdrawn_types out) \<longrightarrow> (\<forall>u \<in> set (users d2). u_id u = st \<longrightarrow> u_status u = US_ACTIVE))"
  using assms(1)
proof (cases rule: withdraw_cases)
  case (done_with u rs)
  let ?q = "ap_user_id p" and ?w = "set (wanted_types types)"
  define rs' where "rs' = withdrawn_of (wanted_types types) (consents_of d1 st)"
  define d2 where "d2 = restored_rights sha ?q st rs' reason2 now2 c2 i2 d1"
  note f1 = withdrawn_rights_fields[of sha ?q st rs reason now c i d, folded done_with(4)]
  note f2 = restored_rights_fields[of sha ?q st rs' reason2 now2 c2 i2 d1, folded d2_def]
  have dist: "distinct (map cr_id (consent_records d))" "distinct (map cr_id (consent_records d1))"
    using constraints_distinct_records assms(3) done_with(5) by blast+
  have out: "rt_withdrawn_types out = sort_key consent_value_rank (map cr_consent_type rs)" using done_with(6) by blast
  have sub: "set rs \<subseteq> set (consent_records d)" "set rs' \<subseteq> set (consent_records d1)" by (auto simp: done_with(3) rs'_def withdrawn_of_def)
  note restorable = withdrawn_restorable[OF assms(1,2) done_with(1-5) out, folded rs'_def]
  obtain out2 where run: "restore_consent sha d1 p st types reason2 now2 c2 i2 = (d2, Inr out2)" unfolding d2_def using restorable by blast
  have "consent_refusals d2 = consent_refusals d" unfolding d2_def done_with(4) by (rule restored_refusals[OF assms(4)])
  moreover have "cr_status y = Some CS_CONFIRMED \<and> cr_confirmed_by_parent_id y = Some ?q"
    if y: "y \<in> set (consent_records d2)" "cr_subject_user_id y = st" "cr_consent_type y \<in> ?w" for y
  proof (rule ccontr)
    assume "\<not> ?thesis"
    then have y1: "y \<in> set (consent_records d1)" "\<not> among rs' y" using y(1) by (auto simp: f2 set_update_where restore_record_def split: if_splits)
    then have "cr_status y \<noteq> Some CS_WITHDRAWN" using y(2,3) by (auto simp: rs'_def withdrawn_of_def)
    then show False using y1(1) y(2,3) by (auto simp: f1 set_update_where withdraw_record_def done_with(3))
  qed
  moreover have "r \<in> set (consent_records d2)" if r: "r \<in> set (consent_records d)" "cr_subject_user_id r \<noteq> st \<or> cr_consent_type r \<notin> ?w" for r
  proof -
    have "r \<in> set (consent_records d1)" using kept_or_decided[OF dist(1) sub(1) r(1)] r(2) by (auto simp: f1 done_with(3))
    from kept_or_decided[OF dist(2) sub(2) this] show ?thesis using r(2) by (auto simp: f2 rs'_def withdrawn_of_def)
  qed
  moreover have "u_status v = US_ACTIVE" if v: "REQUIRED_LEARNING_CONSENT \<in> set (rt_withdrawn_types out)" "v \<in> set (users d2)" "u_id v = st" for v
  proof -
    have req: "REQUIRED_LEARNING_CONSENT \<in> cr_consent_type ` set rs" using v(1) by (simp add: out)
    then obtain x where x: "x \<in> set rs" "cr_consent_type x = REQUIRED_LEARNING_CONSENT" by auto
    have "cr_consent_type (withdraw_record ?q now x) \<in> cr_consent_type ` set rs'" using restorable x(1) by blast
    then have "REQUIRED_LEARNING_CONSENT \<in> cr_consent_type ` set rs'" by (simp add: withdraw_record_def x(2))
    then show ?thesis using v(2,3) req unfolding f1(3) f2(3) by (simp only: if_True reopened)
  qed
  ultimately show ?thesis using run by blast
qed simp

subsection \<open>Witnesses\<close>

definition mum :: auth_principal where
  "mum = \<lparr>ap_user_id = 80, ap_role = ''parent_guardian'', ap_session_id = 1\<rparr>"

definition dad :: auth_principal where
  "dad = \<lparr>ap_user_id = 85, ap_role = ''parent_guardian'', ap_session_id = 2\<rparr>"

text \<open>A second guardian is asked and opens an account through the link, to ask for the data held.\<close>

definition dad_keys :: new_ids where
  "dad_keys = \<lparr>ni_parent = 85, ni_record = record_key, ni_age_check = 86\<rparr>"

definition guardians_db :: db where
  "guardians_db = fst (exercise_parent_right (fst (request_parent_consent (\<lambda>s. s) (\<lambda>s. s) ''https://app.nevo/'' answered_db consent_staff 10 ''Bayo Obi''
     ''dad@b.ng'' CC_EMAIL [] 120 ''tok2'' 51 61 record_key)) (consent_token_digest (\<lambda>s. s) ''tok2'') PR_REQUEST_DATA None 130 dad_keys 91)"

definition stopped_db :: db where
  "stopped_db = fst (withdraw_consent (\<lambda>s. s) guardians_db mum 10 (Some [CT_DATA_PROCESSING]) None 200 200 92)"

lemma guardians_db_ok: "db_constraints guardians_db"
  by code_simp

lemma guardians_users: "10 \<in> u_id ` set (users guardians_db)"
  by code_simp

lemma guardians_records:
  "map (\<lambda>r. (cr_subject_user_id r, cr_consent_type r, cr_status r, cr_confirmed_by_parent_id r, cr_confirmed_at r)) (consent_records guardians_db) =
     [(10, CT_DATA_PROCESSING, Some CS_CONFIRMED, Some 80, Some 100), (10, CT_CROSS_BORDER_TRANSFER, Some CS_PENDING, None, None)]"
  by code_simp

theorem consent_belongs_to_its_giver_witness:
  "\<exists>r \<in> set (consent_records (fst (withdraw_consent (\<lambda>s. s) guardians_db dad 10 None None 300 300 93))).
     cr_confirmed_by_parent_id r = Some 80 \<and> cr_status r = Some CS_CONFIRMED"
proof -
  let ?d = "fst (withdraw_consent (\<lambda>s. s) guardians_db dad 10 None None 300 300 93)"
  obtain r where r: "r \<in> set (consent_records guardians_db)" "cr_confirmed_by_parent_id r = Some 80" "cr_status r = Some CS_CONFIRMED"
    using map_Cons_row[OF guardians_records] by auto
  have "right_step (\<lambda>s. s) (ap_user_id dad) guardians_db ?d" by (rule right_step.withdraw) (simp add: prod_eq_iff)
  then have step: "\<exists>q. q \<noteq> 80 \<and> right_step (\<lambda>s. s) q guardians_db ?d" by (intro exI[of _ 85]) (simp add: dad_def)
  have run: "(\<lambda>d d'. \<exists>q. q \<noteq> 80 \<and> right_step (\<lambda>s. s) q d d')\<^sup>*\<^sup>* guardians_db ?d" by (rule r_into_rtranclp) (rule step)
  show ?thesis using consent_belongs_to_its_giver[OF run guardians_db_ok r(1,2)] r(2,3) by blast
qed

theorem list_tells_who_may_withdraw_witness:
  "\<exists>d' out. withdraw_consent (\<lambda>s. s) guardians_db mum 10 (Some [CT_DATA_PROCESSING]) None 200 200 92 = (d', Inr out) \<and>
     \<not> has_confirmed_consent d' 10 CT_DATA_PROCESSING"
proof -
  let ?h = "\<lparr>ch_consent_type = CT_DATA_PROCESSING, ch_status = Some CS_CONFIRMED, ch_decided_at = Some 100, ch_stops_access = True, ch_can_withdraw = True\<rparr>"
  let ?c = "\<lparr>cc_student_id = 10, cc_student_first_name = u_first_name sample_student, cc_consents = [?h,
     \<lparr>ch_consent_type = CT_CROSS_BORDER_TRANSFER, ch_status = Some CS_PENDING, ch_decided_at = Some 100, ch_stops_access = False, ch_can_withdraw = True\<rparr>]\<rparr>"
  have l: "my_consents guardians_db mum = Inr [?c]" by code_simp
  show ?thesis using list_tells_who_may_withdraw[OF guardians_db_ok l, of ?c ?h] guardians_users by simp
qed


theorem withdrawal_can_be_taken_back_witness:
  "\<exists>d2 out2. restore_consent (\<lambda>s. s) stopped_db mum 10 (Some [CT_DATA_PROCESSING]) None 300 300 94 = (d2, Inr out2) \<and>
     (\<forall>u \<in> set (users d2). u_id u = 10 \<longrightarrow> u_status u = US_ACTIVE)"
proof -
  let ?w = "withdraw_consent (\<lambda>s. s) guardians_db mum 10 (Some [CT_DATA_PROCESSING]) None 200 200 92"
  have "map_sum id rt_withdrawn_types (snd ?w) = Inr [CT_DATA_PROCESSING]" by code_simp
  then obtain out where out: "snd ?w = Inr out" "rt_withdrawn_types out = [CT_DATA_PROCESSING]" by (cases "snd ?w") auto
  have w: "?w = (stopped_db, Inr out)" unfolding stopped_db_def out(1)[symmetric] by simp
  have fresh: "\<not> already_refused (\<lambda>s. s) guardians_db 10 (contact_of guardians_db (ap_user_id mum))" by code_simp
  have "REQUIRED_LEARNING_CONSENT \<in> set (rt_withdrawn_types out)" by (simp add: out(2) REQUIRED_LEARNING_CONSENT_def)
  then show ?thesis
    using withdrawal_can_be_taken_back[OF w _ guardians_db_ok fresh, where ?reason2.0 = None and ?now2.0 = 300 and ?c2.0 = 300 and ?i2.0 = 94] out(2) by auto
qed

subsection \<open>Two ways round the rules\<close>

text \<open>The rule that a guardian withdraws only the consent they gave holds in the account and not on the link: a second guardian whom the account refuses
  withdraws the first one's consent through the invitation they were sent, and the child is stopped.\<close>

theorem link_overrules_the_giver:
  "snd (withdraw_consent (\<lambda>s. s) guardians_db dad 10 (Some [CT_DATA_PROCESSING]) None 300 300 93) =
     Inl (RightRefused (HTTPException 403 ''consent_belongs_to_another_guardian'')) \<and>
   has_confirmed_consent guardians_db 10 CT_DATA_PROCESSING \<and>
   \<not> has_confirmed_consent (fst (exercise_parent_right guardians_db (consent_token_digest (\<lambda>s. s) ''tok2'') PR_WITHDRAW_CONSENT None 300 dad_keys 93))
       10 CT_DATA_PROCESSING"
  by code_simp

text \<open>Giving a consent back re-opens an account the school had closed: a child the school deactivated is active again after the parent
  withdraws and restores.\<close>

theorem restoring_reopens_a_removed_child:
  "map_option u_status (get_by u_id 10 (users (suspend_student 10 150 guardians_db))) = Some US_DEACTIVATED \<and>
   map_option u_status (get_by u_id 10 (users (fst (restore_consent (\<lambda>s. s)
     (fst (withdraw_consent (\<lambda>s. s) (suspend_student 10 150 guardians_db) mum 10 (Some [CT_DATA_PROCESSING]) None 200 200 92))
     mum 10 (Some [CT_DATA_PROCESSING]) None 300 300 94)))) = Some US_ACTIVE"
  by code_simp

end
