(* ===== verification/Paystack.thy ===== *)
theory Paystack
  imports Access
begin

text \<open>
  The client of the payment processor (\<^verbatim>\<open>nevo/payments/paystack.py\<close>) with the entities and errors of the
  package.  The network is outside the program: \<open>ps_http\<close> is what a request with a given key is answered,
  HMAC-SHA512, SHA-256, the JSON parser, \<^verbatim>\<open>datetime.fromisoformat\<close> and the printed form of lists and dicts
  are further fields of the parameter \<open>paystack\<close>.  Decimals are rationals and JSON numbers are integers.
\<close>

subsection \<open>Entities and errors\<close>

text \<open>\<open>OtherException\<close> is any exception that is not a \<^verbatim>\<open>PaymentError\<close>: the transport failed, or a value had
  the wrong type.\<close>

datatype payment_error =
    PaymentProviderUnavailableError
  | PaymentProviderRejectedError string
  | PaymentNotFoundError
  | InvoiceNotPayableError
  | MissingBillingContactError
  | NoReusablePaymentMethodError
  | InvalidWebhookSignatureError
  | OtherException string

record checkout_session =
  co_transaction_id :: uuid
  co_invoice_id :: uuid
  co_reference :: string
  co_authorization_url :: string
  co_amount :: decimal
  co_currency :: pricing_currency

record provider_authorization =
  au_authorization_code :: string
  au_method_type :: payment_method_type
  au_last_four :: string
  au_card_brand :: "string option"
  au_bank_name :: "string option"
  au_expiry_month :: "int option"
  au_expiry_year :: "int option"
  au_account_name :: "string option"
  au_reusable :: bool

record provider_transaction =
  pt_reference :: string
  pt_status :: payment_transaction_status
  pt_amount_minor :: int
  pt_currency :: string
  pt_provider_reference :: "string option"
  pt_paid_at :: "datetime option"
  pt_customer_email :: "string option"
  pt_authorization :: "provider_authorization option"
  pt_gateway_message :: "string option"

text \<open>A request as the client sends it, and what comes back: nothing, or a status code and a body, which is
  \<open>None\<close> when it is not JSON.\<close>

datatype http_request = GET string | POST string json

datatype http_reply = NoReply string | Reply int "json option"

record paystack =
  ps_secret :: "string option"
  ps_base_url :: string
  ps_callback_url :: string
  ps_currency :: pricing_currency
  ps_http :: "string \<Rightarrow> http_request \<Rightarrow> http_reply"
  ps_hmac_sha512 :: "string \<Rightarrow> string \<Rightarrow> string"
  ps_sha256 :: "string \<Rightarrow> string"
  ps_json_loads :: "string \<Rightarrow> json option"
  ps_fromisoformat :: "string \<Rightarrow> datetime option"
  ps_repr :: "json \<Rightarrow> string"

definition configured :: "paystack \<Rightarrow> bool" where
  "configured ps = (ps_secret ps \<noteq> None)"

subsection \<open>Amounts\<close>

text \<open>\<^verbatim>\<open>Decimal.quantize(Decimal("0.01"), rounding=ROUND_HALF_UP)\<close> rounds halves away from zero.\<close>

definition to_minor_units :: "decimal \<Rightarrow> int" where
  "to_minor_units amount =
     (if 0 \<le> amount then \<lfloor>amount * 100 + 1 / 2\<rfloor> else - \<lfloor>- amount * 100 + 1 / 2\<rfloor>)"

definition from_minor_units :: "int \<Rightarrow> decimal" where
  "from_minor_units amount_minor = rat_of_int amount_minor / 100"

definition verify_webhook_signature :: "paystack \<Rightarrow> string \<Rightarrow> string option \<Rightarrow> string \<Rightarrow> bool" where
  "verify_webhook_signature ps payload signature secret =
     (case signature of
        None \<Rightarrow> False
      | Some s \<Rightarrow> s \<noteq> [] \<and> ps_hmac_sha512 ps secret payload = py_strip s)"

subsection \<open>Python values\<close>

text \<open>\<^verbatim>\<open>str(value)\<close>; how floats, lists and dicts print is the parameter \<open>ps_repr\<close>.\<close>

definition py_str :: "paystack \<Rightarrow> json \<Rightarrow> string" where
  "py_str ps v = json_str (ps_repr ps) v"

text \<open>\<^verbatim>\<open>str(x or "")\<close>.\<close>

definition str_or_empty :: "paystack \<Rightarrow> json \<Rightarrow> string" where
  "str_or_empty ps v = (if truthy v then py_str ps v else [])"

text \<open>The literals \<^verbatim>\<open>int(text)\<close> accepts: spaces around, a sign, digits in groups joined by single underscores.\<close>

fun int_groups :: "string \<Rightarrow> bool" where
  "int_groups [] = False"
| "int_groups [c] = char_isdigit c"
| "int_groups (c # c' # cs) = (char_isdigit c \<and> (int_groups (c' # cs) \<or> (c' = CHR ''_'' \<and> int_groups cs)))"

definition unsigned_int :: "string \<Rightarrow> int option" where
  "unsigned_int s = (if int_groups s then Some (py_int (filter char_isdigit s)) else None)"

definition parse_int :: "string \<Rightarrow> int option" where
  "parse_int s =
     (case py_strip s of
        [] \<Rightarrow> None
      | c # cs \<Rightarrow> if c = CHR ''-'' then map_option uminus (unsigned_int cs)
                  else if c = CHR ''+'' then unsigned_int cs else unsigned_int (c # cs))"

text \<open>\<^verbatim>\<open>int(value)\<close>, \<open>None\<close> where it raises.\<close>

definition int_of_json :: "json \<Rightarrow> int option" where
  "int_of_json v = (case v of JInt n \<Rightarrow> Some n | JBool b \<Rightarrow> Some (if b then 1 else 0)
   | JFloat x \<Rightarrow> Some (if x < 0 then \<lceil>x\<rceil> else \<lfloor>x\<rfloor>) | JString s \<Rightarrow> parse_int s | _ \<Rightarrow> None)"

definition optional_int :: "json \<Rightarrow> int option" where
  "optional_int = int_of_json"

definition optional_str :: "paystack \<Rightarrow> json \<Rightarrow> string option" where
  "optional_str ps v =
     (if v = JNull then None else let text = py_strip (py_str ps v) in if text = [] then None else Some text)"

subsection \<open>Replies\<close>

definition is_error :: "int \<Rightarrow> bool" where
  "is_error code \<longleftrightarrow> 400 \<le> code \<and> code \<le> 599"

definition unwrap_reply :: "paystack \<Rightarrow> int \<Rightarrow> json option \<Rightarrow> payment_error + (string \<times> json) list" where
  "unwrap_reply ps code reply =
     (case reply of
        None \<Rightarrow> Inl (PaymentProviderRejectedError (''Paystack returned a non-JSON response ('' @ int_str code @ '')''))
      | Some (JObject body) \<Rightarrow>
          if is_error code \<or> \<not> truthy (dict_get body ''status'')
          then Inl (PaymentProviderRejectedError (''Paystack rejected the request: '' @
                 (if truthy (dict_get body ''message'') then py_str ps (dict_get body ''message'') else ''status '' @ int_str code)))
          else (case dict_get body ''data'' of
                  JObject data \<Rightarrow> Inr data
                | _ \<Rightarrow> Inl (PaymentProviderRejectedError ''Paystack returned no transaction data''))
      | Some _ \<Rightarrow> Inl (OtherException ''AttributeError''))"

definition http_call :: "paystack \<Rightarrow> http_request \<Rightarrow> payment_error + (string \<times> json) list" where
  "http_call ps request =
     (case ps_secret ps of
        None \<Rightarrow> Inl PaymentProviderUnavailableError
      | Some key \<Rightarrow>
          (case ps_http ps key request of
             NoReply e \<Rightarrow> Inl (OtherException e)
           | Reply code body \<Rightarrow> unwrap_reply ps code body))"

definition base_url :: "paystack \<Rightarrow> string" where
  "base_url ps = rev (dropWhile (\<lambda>c. c = CHR ''/'') (rev (ps_base_url ps)))"

definition parse_timestamp :: "paystack \<Rightarrow> json \<Rightarrow> datetime option" where
  "parse_timestamp ps v =
     (case v of
        JString s \<Rightarrow> if s = [] then None
          else ps_fromisoformat ps (concat (map (\<lambda>c. if c = CHR ''Z'' then ''+00:00'' else [c]) s))
      | _ \<Rightarrow> None)"

definition parse_authorization :: "paystack \<Rightarrow> json \<Rightarrow> provider_authorization option" where
  "parse_authorization ps v =
     (case v of
        JObject a \<Rightarrow>
          (case (dict_get a ''authorization_code'', dict_get a ''last4'') of
             (JString code, JString last_four) \<Rightarrow>
               if code = [] \<or> \<not> py_isdigit last_four \<or> length last_four \<noteq> 4 then None
               else Some \<lparr>au_authorization_code = code,
                 au_method_type = (if py_casefold (str_or_empty ps (dict_get a ''channel'')) \<in> {''bank'', ''bank_transfer'', ''direct_debit''}
                                   then PM_DIRECT_DEBIT else PM_CARD),
                 au_last_four = last_four, au_card_brand = optional_str ps (dict_get a ''card_type''),
                 au_bank_name = optional_str ps (dict_get a ''bank''), au_expiry_month = optional_int (dict_get a ''exp_month''),
                 au_expiry_year = optional_int (dict_get a ''exp_year''), au_account_name = optional_str ps (dict_get a ''account_name''),
                 au_reusable = truthy (dict_get a ''reusable'')\<rparr>
           | _ \<Rightarrow> None)
      | _ \<Rightarrow> None)"

definition STATUS_BY_PROVIDER_VALUE :: "(string \<times> payment_transaction_status) list" where
  "STATUS_BY_PROVIDER_VALUE = [(''success'', PT_SUCCESS), (''failed'', PT_FAILED), (''abandoned'', PT_ABANDONED),
     (''reversed'', PT_FAILED), (''pending'', PT_PENDING), (''ongoing'', PT_PENDING), (''queued'', PT_PENDING)]"

definition provider_status :: "paystack \<Rightarrow> json \<Rightarrow> payment_transaction_status" where
  "provider_status ps v =
     (case map_of STATUS_BY_PROVIDER_VALUE (py_casefold (str_or_empty ps v)) of None \<Rightarrow> PT_FAILED | Some st \<Rightarrow> st)"

definition parse_transaction :: "paystack \<Rightarrow> (string \<times> json) list \<Rightarrow> payment_error + provider_transaction" where
  "parse_transaction ps data =
     (case dict_get data ''reference'' of
        JString reference \<Rightarrow>
          if reference = [] then Inl (PaymentProviderRejectedError ''Paystack returned no transaction reference'')
          else (case (if truthy (dict_get data ''amount'') then int_of_json (dict_get data ''amount'') else Some 0) of
             None \<Rightarrow> Inl (OtherException ''int'')
           | Some amount \<Rightarrow> Inr \<lparr>pt_reference = reference, pt_status = provider_status ps (dict_get data ''status''),
               pt_amount_minor = amount, pt_currency = str_or_empty ps (dict_get data ''currency''),
               pt_provider_reference = (if truthy (dict_get data ''id'') then Some (py_str ps (dict_get data ''id'')) else None),
               pt_paid_at = parse_timestamp ps (if truthy (dict_get data ''paid_at'') then dict_get data ''paid_at'' else dict_get data ''paidAt''),
               pt_customer_email = (case dict_get data ''customer'' of
                   JObject c \<Rightarrow> if truthy (dict_get c ''email'') then Some (py_str ps (dict_get c ''email'')) else None
                 | _ \<Rightarrow> None),
               pt_authorization = parse_authorization ps (dict_get data ''authorization''),
               pt_gateway_message = optional_str ps (dict_get data ''gateway_response'')\<rparr>)
      | _ \<Rightarrow> Inl (PaymentProviderRejectedError ''Paystack returned no transaction reference''))"

subsection \<open>Calls\<close>

definition initialize_transaction ::
  "paystack \<Rightarrow> string \<Rightarrow> decimal \<Rightarrow> string \<Rightarrow> pricing_currency \<Rightarrow> (string \<times> json) list \<Rightarrow> payment_error + string" where
  "initialize_transaction ps email amount reference currency metadata =
     (case http_call ps (POST (base_url ps @ ''/transaction/initialize'')
         (JObject [(''email'', JString email), (''amount'', JInt (to_minor_units amount)), (''reference'', JString reference),
            (''currency'', JString (pricing_currency_value currency)), (''callback_url'', JString (ps_callback_url ps)),
            (''metadata'', JObject metadata)])) of
        Inl e \<Rightarrow> Inl e
      | Inr body \<Rightarrow>
          (case dict_get body ''authorization_url'' of
             JString url \<Rightarrow> if url = [] then Inl (PaymentProviderRejectedError ''Paystack returned no authorization URL'') else Inr url
           | _ \<Rightarrow> Inl (PaymentProviderRejectedError ''Paystack returned no authorization URL'')))"

definition verify_transaction :: "paystack \<Rightarrow> string \<Rightarrow> payment_error + provider_transaction" where
  "verify_transaction ps reference =
     (case http_call ps (GET (base_url ps @ ''/transaction/verify/'' @ reference)) of
        Inl e \<Rightarrow> Inl e | Inr body \<Rightarrow> parse_transaction ps body)"

definition charge_authorization ::
  "paystack \<Rightarrow> string \<Rightarrow> decimal \<Rightarrow> string \<Rightarrow> string \<Rightarrow> pricing_currency \<Rightarrow> payment_error + provider_transaction" where
  "charge_authorization ps email amount reference authorization_code currency =
     (case http_call ps (POST (base_url ps @ ''/transaction/charge_authorization'')
         (JObject [(''email'', JString email), (''amount'', JInt (to_minor_units amount)), (''reference'', JString reference),
            (''authorization_code'', JString authorization_code), (''currency'', JString (pricing_currency_value currency))])) of
        Inl e \<Rightarrow> Inl e | Inr body \<Rightarrow> parse_transaction ps body)"

text \<open>The raw reply behind a transaction reported as successful.\<close>

definition success_reply :: "paystack \<Rightarrow> http_reply \<Rightarrow> (string \<times> json) list \<Rightarrow> bool" where
  "success_reply ps reply data \<longleftrightarrow> (\<exists>code body. reply = Reply code (Some (JObject body)) \<and> \<not> is_error code \<and>
     truthy (dict_get body ''status'') \<and> dict_get body ''data'' = JObject data \<and>
     py_casefold (str_or_empty ps (dict_get data ''status'')) = ''success'')"

lemma provider_success: "provider_status ps v = PT_SUCCESS \<Longrightarrow> py_casefold (str_or_empty ps v) = ''success''"
  by (auto simp: provider_status_def STATUS_BY_PROVIDER_VALUE_def split: if_splits)

lemma http_call_Inr:
  assumes "http_call ps request = Inr data"
  obtains key code body where "ps_secret ps = Some key" "ps_http ps key request = Reply code (Some (JObject body))"
    "\<not> is_error code" "truthy (dict_get body ''status'')" "dict_get body ''data'' = JObject data"
  using assms by (auto simp: http_call_def unwrap_reply_def split: option.splits http_reply.splits json.splits if_splits)

lemma parse_transaction_Inr:
  "parse_transaction ps data = Inr pt \<Longrightarrow> pt_status pt = provider_status ps (dict_get data ''status'')"
  by (auto simp: parse_transaction_def split: json.splits option.splits if_splits)

lemma verified_success_reply:
  assumes "verify_transaction ps ref = Inr pt" "pt_status pt = PT_SUCCESS"
  shows "\<exists>key data. ps_secret ps = Some key \<and> parse_transaction ps data = Inr pt \<and>
     success_reply ps (ps_http ps key (GET (base_url ps @ ''/transaction/verify/'' @ ref))) data"
proof -
  obtain data where "http_call ps (GET (base_url ps @ ''/transaction/verify/'' @ ref)) = Inr data" "parse_transaction ps data = Inr pt"
    using assms(1) by (auto simp: verify_transaction_def split: sum.splits)
  then show ?thesis
    using assms(2) provider_success parse_transaction_Inr by (elim http_call_Inr) (fastforce simp: success_reply_def)
qed

end
