(* ===== verification/Payments.thy ===== *)
theory Payments
  imports Paystack
begin

text \<open>
  Collecting money for invoices (\<^verbatim>\<open>nevo/payments/service.py\<close> and \<^verbatim>\<open>repositories.py\<close>).  Every call of the
  service is a function of the database and of the processor client of theory \<open>Paystack\<close>; the clock, the random
  suffix of a reference and \<^verbatim>\<open>uuid4\<close> are arguments.  What the processor answers is not constrained: the
  properties hold for every client, and along a run it may answer each call differently.
\<close>

subsection \<open>Entities\<close>

record payment_outcome =
  po_transaction_id :: uuid
  po_invoice_id :: "uuid option"
  po_reference :: string
  po_status :: payment_transaction_status
  po_invoice_paid :: bool
  po_payment_method_saved :: bool
  po_message :: string

record payable_invoice =
  pi_invoice_id :: uuid
  pi_school_id :: uuid
  pi_invoice_number :: string
  pi_amount :: decimal
  pi_status :: invoice_status
  pi_billing_email :: "string option"

record saved_method_record =
  sm_authorization_code :: string
  sm_billing_email :: string

text \<open>\<^verbatim>\<open>int(decimal)\<close> truncates towards zero.\<close>

definition py_trunc :: "decimal \<Rightarrow> int" where
  "py_trunc x = (if 0 \<le> x then \<lfloor>x\<rfloor> else - \<lfloor>- x\<rfloor>)"

subsection \<open>The repository\<close>

definition MANUAL_PROVIDER :: string where
  "MANUAL_PROVIDER = ''manual_transfer''"

definition billing_email_of :: "db \<Rightarrow> uuid \<Rightarrow> string option" where
  "billing_email_of d school_id =
     (case get_by sch_id school_id (schools d) of
        None \<Rightarrow> None
      | Some s \<Rightarrow> (case sch_billing_contact_id s of
                     None \<Rightarrow> None
                   | Some c \<Rightarrow> map_option bc_email (get_by bc_id c (billing_contacts d))))"

definition find_payable_invoice :: "db \<Rightarrow> uuid \<Rightarrow> uuid \<Rightarrow> payable_invoice option" where
  "find_payable_invoice d school_id invoice_id =
     (case List.find (\<lambda>i. inv_id i = invoice_id \<and> inv_school_id i = school_id) (invoices d) of
        None \<Rightarrow> None
      | Some i \<Rightarrow> Some \<lparr>pi_invoice_id = inv_id i, pi_school_id = inv_school_id i, pi_invoice_number = inv_invoice_number i,
          pi_amount = inv_amount i, pi_status = inv_status i, pi_billing_email = billing_email_of d (inv_school_id i)\<rparr>)"

definition create_transaction ::
  "db \<Rightarrow> uuid \<Rightarrow> uuid \<Rightarrow> string \<Rightarrow> decimal \<Rightarrow> int \<Rightarrow> pricing_currency \<Rightarrow> uuid option \<Rightarrow> uuid \<Rightarrow> db" where
  "create_transaction d school_id invoice_id reference amount amount_minor currency initiated_by new_id =
     d\<lparr>payment_transactions := payment_transactions d @ [\<lparr>tx_id = new_id, tx_school_id = school_id,
        tx_invoice_id = Some invoice_id, tx_reference = reference, tx_provider = ''paystack'', tx_provider_reference = None,
        tx_status = PT_PENDING, tx_amount = amount, tx_amount_minor = amount_minor, tx_currency = currency,
        tx_authorization_url = None, tx_initiated_by_user_id = initiated_by, tx_paid_at = None, tx_last_error = None\<rparr>]\<rparr>"

definition set_authorization_url :: "db \<Rightarrow> uuid \<Rightarrow> string \<Rightarrow> db" where
  "set_authorization_url d transaction_id url =
     d\<lparr>payment_transactions := update_where (\<lambda>t. tx_id t = transaction_id)
        (\<lambda>t. t\<lparr>tx_authorization_url := Some url\<rparr>) (payment_transactions d)\<rparr>"

definition transaction_by_reference :: "db \<Rightarrow> string \<Rightarrow> payment_transaction_row option" where
  "transaction_by_reference d reference = get_by tx_reference reference (payment_transactions d)"

definition activate_paid_students :: "invoice_row \<Rightarrow> db \<Rightarrow> db" where
  "activate_paid_students invoice d =
     d\<lparr>users := update_where (\<lambda>u. u_id u \<in> set (inv_activation_student_ids invoice) \<and>
          u_school_id u = Some (inv_school_id invoice) \<and> u_role u = UR_STUDENT \<and> u_status u = US_INVITED)
        (\<lambda>u. u\<lparr>u_status := US_ACTIVE\<rparr>) (users d)\<rparr>"

definition pay_invoice :: "uuid \<Rightarrow> datetime \<Rightarrow> db \<Rightarrow> db" where
  "pay_invoice invoice_id paid_at d =
     d\<lparr>invoices := update_where (\<lambda>i. inv_id i = invoice_id) (\<lambda>i. i\<lparr>inv_status := IS_PAID, inv_paid_at := Some paid_at\<rparr>) (invoices d)\<rparr>"

text \<open>The administrators of the school with a current billing scope, one row per assignment as the join gives them.\<close>

definition billing_recipients :: "db \<Rightarrow> uuid \<Rightarrow> user_row list" where
  "billing_recipients d school_id =
     [u. u \<leftarrow> users d, u_status u = US_ACTIVE, a \<leftarrow> admins d, ad_user_id a = u_id u \<and> ad_school_id a = school_id,
      s \<leftarrow> scope_assignments d, sa_admin_id s = ad_id a \<and> sa_scope s = SCOPE_BILLING \<and> sa_revoked_at s = None]"

definition payment_notices :: "db \<Rightarrow> uuid \<Rightarrow> invoice_row \<Rightarrow> datetime \<Rightarrow> notification_row list" where
  "payment_notices d school_id invoice now =
     map (\<lambda>u. \<lparr>n_recipient_id = u_id u, n_recipient_role = user_role_value (u_role u),
        n_type = notification_type_value NT_PAYMENT_CLEARED, n_title = ''Payment received'',
        n_description = ''Payment for invoice '' @ inv_invoice_number invoice @ '' has been confirmed.'',
        n_navigates_to = Some ''/admin/billing'', n_read = False, n_category = notification_category_value NC_BILLING,
        n_archived_at = None, n_created_at = now\<rparr>) (billing_recipients d school_id)"

definition card_label :: "provider_authorization \<Rightarrow> string" where
  "card_label a =
     (let kind = (case au_card_brand a of Some b \<Rightarrow> b | None \<Rightarrow> []);
          bank = (case au_bank_name a of Some b \<Rightarrow> b | None \<Rightarrow> []) in
      py_strip ((if kind \<noteq> [] then kind else if bank \<noteq> [] then bank else ''Card'') @ '' ending '' @ au_last_four a))"

definition upsert_payment_method ::
  "uuid \<Rightarrow> provider_authorization \<Rightarrow> string option \<Rightarrow> uuid option \<Rightarrow> db \<Rightarrow> db" where
  "upsert_payment_method school_id a customer_code actor_user_id d =
     (let existing = get_by bpm_school_id school_id (payment_methods d);
          updated_by = (case actor_user_id of Some u \<Rightarrow> Some u | None \<Rightarrow> map_option bpm_updated_by_user_id existing) in
      case updated_by of
        None \<Rightarrow> d
      | Some u \<Rightarrow>
          (let row = \<lparr>bpm_school_id = school_id, bpm_method_type = au_method_type a, bpm_processor_name = Some ''paystack'',
                 bpm_processor_payment_method_ref = Some (au_authorization_code a), bpm_display_name = card_label a,
                 bpm_last_four = au_last_four a, bpm_card_brand = au_card_brand a, bpm_expiry_month = au_expiry_month a,
                 bpm_expiry_year = au_expiry_year a, bpm_bank_name = au_bank_name a,
                 bpm_account_holder_name = au_account_name a, bpm_is_reusable = au_reusable a,
                 bpm_processor_customer_code = customer_code, bpm_updated_by_user_id = u\<rparr> in
           case existing of
             None \<Rightarrow> d\<lparr>payment_methods := payment_methods d @ [row]\<rparr>
           | Some old \<Rightarrow> d\<lparr>payment_methods := update_where (\<lambda>m. bpm_school_id m = school_id)
               (\<lambda>m. row\<lparr>bpm_processor_customer_code :=
                   (case customer_code of Some c \<Rightarrow> if c \<noteq> [] then Some c else bpm_processor_customer_code m
                    | None \<Rightarrow> bpm_processor_customer_code m)\<rparr>) (payment_methods d)\<rparr>))"

text \<open>\<^verbatim>\<open>settle\<close>: the two flags it returns are \<^verbatim>\<open>invoice_paid\<close> and \<^verbatim>\<open>payment_method_saved\<close>.\<close>

definition settled_row ::
  "payment_transaction_status \<Rightarrow> string option \<Rightarrow> datetime option \<Rightarrow> string option \<Rightarrow> datetime \<Rightarrow> payment_transaction_row \<Rightarrow> payment_transaction_row" where
  "settled_row status provider_reference paid_at err now t = t\<lparr>tx_status := status,
     tx_provider_reference := (case provider_reference of Some r \<Rightarrow> if r \<noteq> [] then Some r else tx_provider_reference t
                               | None \<Rightarrow> tx_provider_reference t),
     tx_last_error := err,
     tx_paid_at := (if status = PT_SUCCESS then Some (case paid_at of Some p \<Rightarrow> p | None \<Rightarrow> now) else None)\<rparr>"

definition settle_invoice :: "payment_transaction_row \<Rightarrow> datetime \<Rightarrow> db \<Rightarrow> db \<times> bool" where
  "settle_invoice t now d =
     (case tx_invoice_id t of
        None \<Rightarrow> (d, False)
      | Some i \<Rightarrow>
          (case get_by inv_id i (invoices d) of
             None \<Rightarrow> (d, False)
           | Some invoice \<Rightarrow>
               if inv_status invoice = IS_PAID then (d, False)
               else
                 (let d1 = activate_paid_students invoice (pay_invoice i (the (tx_paid_at t)) d) in
                  (d1\<lparr>notifications := notifications d1 @ payment_notices d1 (tx_school_id t) invoice now\<rparr>, True))))"

definition settle ::
  "db \<Rightarrow> string \<Rightarrow> payment_transaction_status \<Rightarrow> string option \<Rightarrow> datetime option \<Rightarrow> string option
     \<Rightarrow> provider_authorization option \<Rightarrow> string option \<Rightarrow> datetime \<Rightarrow> db \<times> bool \<times> bool" where
  "settle d reference status provider_reference paid_at err authorization customer_code now =
     (case transaction_by_reference d reference of
        None \<Rightarrow> (d, False, False)
      | Some t \<Rightarrow>
          if tx_status t = PT_SUCCESS then (d, False, False)
          else
            (let t' = settled_row status provider_reference paid_at err now t;
                 d1 = d\<lparr>payment_transactions := update_where (\<lambda>x. tx_id x = tx_id t) (\<lambda>_. t') (payment_transactions d)\<rparr> in
             if status \<noteq> PT_SUCCESS then (d1, False, False)
             else
               (let (d2, invoice_paid) = settle_invoice t' now d1 in
                case authorization of
                  Some a \<Rightarrow>
                    if au_reusable a
                    then (upsert_payment_method (tx_school_id t) a customer_code (tx_initiated_by_user_id t) d2, invoice_paid, True)
                    else (d2, invoice_paid, False)
                | None \<Rightarrow> (d2, invoice_paid, False))))"

definition saved_method :: "db \<Rightarrow> uuid \<Rightarrow> saved_method_record option" where
  "saved_method d school_id =
     (case List.find (\<lambda>m. bpm_school_id m = school_id \<and> bpm_is_reusable m \<and> bpm_processor_payment_method_ref m \<noteq> None) (payment_methods d) of
        None \<Rightarrow> None
      | Some m \<Rightarrow>
          (case billing_email_of d school_id of
             None \<Rightarrow> None
           | Some email \<Rightarrow>
               if the (bpm_processor_payment_method_ref m) = [] \<or> email = [] then None
               else Some \<lparr>sm_authorization_code = the (bpm_processor_payment_method_ref m), sm_billing_email = email\<rparr>))"

definition is_event :: "string \<Rightarrow> string \<Rightarrow> webhook_event_row \<Rightarrow> bool" where
  "is_event provider key w = (wh_provider w = provider \<and> wh_event_key w = key)"

definition claim_webhook_event :: "db \<Rightarrow> string \<Rightarrow> string \<Rightarrow> json \<Rightarrow> db \<times> bool" where
  "claim_webhook_event d key event_type payload =
     (if exists_where (is_event ''paystack'' key) (webhook_events d) then (d, False)
      else (d\<lparr>webhook_events := webhook_events d @ [\<lparr>wh_provider = ''paystack'', wh_event_key = key, wh_event_type = event_type,
              wh_payload = payload, wh_status = WE_RECEIVED, wh_last_error = None, wh_processed_at = None\<rparr>]\<rparr>, True))"

definition finish_webhook_event :: "db \<Rightarrow> string \<Rightarrow> webhook_event_status \<Rightarrow> string option \<Rightarrow> datetime \<Rightarrow> db" where
  "finish_webhook_event d key status err now =
     d\<lparr>webhook_events := update_where (is_event ''paystack'' key)
        (\<lambda>w. w\<lparr>wh_status := status, wh_last_error := err, wh_processed_at := Some now\<rparr>) (webhook_events d)\<rparr>"

definition record_manual_settlement ::
  "db \<Rightarrow> uuid \<Rightarrow> uuid \<Rightarrow> string \<Rightarrow> string \<Rightarrow> decimal \<Rightarrow> pricing_currency \<Rightarrow> uuid \<Rightarrow> datetime \<Rightarrow> uuid \<Rightarrow> db \<times> uuid \<times> bool" where
  "record_manual_settlement d school_id invoice_id reference bank_reference amount currency confirmed_by confirmed_at new_id =
     (case List.find (\<lambda>t. tx_provider_reference t = Some bank_reference \<and> tx_provider t = MANUAL_PROVIDER) (payment_transactions d) of
        Some t \<Rightarrow> (d, tx_id t, False)
      | None \<Rightarrow>
          (let d1 = d\<lparr>payment_transactions := payment_transactions d @ [\<lparr>tx_id = new_id, tx_school_id = school_id,
                 tx_invoice_id = Some invoice_id, tx_reference = reference, tx_provider = MANUAL_PROVIDER,
                 tx_provider_reference = Some bank_reference, tx_status = PT_SUCCESS, tx_amount = amount,
                 tx_amount_minor = py_trunc (amount * 100), tx_currency = currency, tx_authorization_url = None,
                 tx_initiated_by_user_id = Some confirmed_by, tx_paid_at = Some confirmed_at, tx_last_error = None\<rparr>]\<rparr> in
           case get_by inv_id invoice_id (invoices d1) of
             None \<Rightarrow> (d1, new_id, False)
           | Some invoice \<Rightarrow>
               if inv_status invoice = IS_PAID then (d1, new_id, False)
               else (activate_paid_students invoice (pay_invoice invoice_id confirmed_at d1), new_id, True)))"

subsection \<open>The service\<close>

definition reference_for :: "string \<Rightarrow> string \<Rightarrow> string \<Rightarrow> string" where
  "reference_for invoice_number stamp token_hex =
     ''nevo-'' @ take 40 (filter char_isalnum invoice_number) @ ''-'' @ stamp @ ''-'' @ token_hex"

definition amount_matches :: "int \<Rightarrow> string \<Rightarrow> provider_transaction \<Rightarrow> bool" where
  "amount_matches expected_minor expected_currency pt =
     (if pt_amount_minor pt \<noteq> expected_minor then False
      else (let c = py_upper (py_strip (pt_currency pt)) in c = [] \<or> c = py_upper expected_currency))"

definition mismatch_message :: "payment_transaction_row \<Rightarrow> provider_transaction \<Rightarrow> string" where
  "mismatch_message t pt =
     ''Provider amount did not match the invoice: expected '' @ int_str (tx_amount_minor t) @ '' '' @
     pricing_currency_value (tx_currency t) @ '', got '' @ int_str (pt_amount_minor pt) @ '' '' @ pt_currency pt"

definition settle_provider :: "db \<Rightarrow> provider_transaction \<Rightarrow> datetime \<Rightarrow> db \<times> (payment_error + payment_outcome)" where
  "settle_provider d pt now =
     (case transaction_by_reference d (pt_reference pt) of
        None \<Rightarrow> (d, Inl PaymentNotFoundError)
      | Some t \<Rightarrow>
          if tx_status t = PT_SUCCESS then
            (d, Inr \<lparr>po_transaction_id = tx_id t, po_invoice_id = tx_invoice_id t, po_reference = tx_reference t,
                 po_status = PT_SUCCESS, po_invoice_paid = False, po_payment_method_saved = False,
                 po_message = ''This payment was already settled.''\<rparr>)
          else
            (let mismatch = pt_status pt = PT_SUCCESS \<and>
                   \<not> amount_matches (tx_amount_minor t) (pricing_currency_value (tx_currency t)) pt;
                 status = (if mismatch then PT_FAILED else pt_status pt);
                 err = (if mismatch then Some (mismatch_message t pt) else pt_gateway_message pt);
                 (d', invoice_paid, saved) = settle d (tx_reference t) status (pt_provider_reference pt) (pt_paid_at pt)
                   (if status = PT_SUCCESS then None else err) (pt_authorization pt) None now in
             (d', Inr \<lparr>po_transaction_id = tx_id t, po_invoice_id = tx_invoice_id t, po_reference = tx_reference t,
                   po_status = status, po_invoice_paid = invoice_paid, po_payment_method_saved = saved,
                   po_message = (if status = PT_SUCCESS then ''Payment confirmed.''
                                 else case err of Some e \<Rightarrow> if e \<noteq> [] then e else ''The payment was not completed.''
                                      | None \<Rightarrow> ''The payment was not completed.'')\<rparr>)))"

definition start_invoice_payment ::
  "paystack \<Rightarrow> db \<Rightarrow> uuid \<Rightarrow> uuid \<Rightarrow> uuid option \<Rightarrow> string \<Rightarrow> string \<Rightarrow> uuid \<Rightarrow> db \<times> (payment_error + checkout_session)" where
  "start_invoice_payment ps d school_id invoice_id actor stamp token_hex new_id =
     (if \<not> configured ps then (d, Inl PaymentProviderUnavailableError)
      else case find_payable_invoice d school_id invoice_id of
        None \<Rightarrow> (d, Inl PaymentNotFoundError)
      | Some i \<Rightarrow>
          if pi_status i = IS_PAID then (d, Inl InvoiceNotPayableError)
          else case pi_billing_email i of
            None \<Rightarrow> (d, Inl MissingBillingContactError)
          | Some email \<Rightarrow>
              if email = [] then (d, Inl MissingBillingContactError)
              else
                (let reference = reference_for (pi_invoice_number i) stamp token_hex;
                     minor = to_minor_units (pi_amount i);
                     d1 = create_transaction d school_id invoice_id reference (pi_amount i) minor (ps_currency ps) actor new_id in
                 case initialize_transaction ps email (pi_amount i) reference (ps_currency ps)
                     [(''school_id'', JString (uuid_str school_id)), (''invoice_id'', JString (uuid_str invoice_id)),
                      (''invoice_number'', JString (pi_invoice_number i))] of
                   Inl e \<Rightarrow> (d1, Inl e)
                 | Inr url \<Rightarrow> (set_authorization_url d1 new_id url,
                     Inr \<lparr>co_transaction_id = new_id, co_invoice_id = invoice_id, co_reference = reference,
                          co_authorization_url = url, co_amount = pi_amount i, co_currency = ps_currency ps\<rparr>)))"

definition verify_reference :: "paystack \<Rightarrow> db \<Rightarrow> string \<Rightarrow> datetime \<Rightarrow> db \<times> (payment_error + payment_outcome)" where
  "verify_reference ps d reference now =
     (if \<not> configured ps then (d, Inl PaymentProviderUnavailableError)
      else if transaction_by_reference d reference = None then (d, Inl PaymentNotFoundError)
      else case verify_transaction ps reference of Inl e \<Rightarrow> (d, Inl e) | Inr pt \<Rightarrow> settle_provider d pt now)"

definition charge_saved_method ::
  "paystack \<Rightarrow> db \<Rightarrow> uuid \<Rightarrow> uuid \<Rightarrow> datetime \<Rightarrow> string \<Rightarrow> string \<Rightarrow> uuid \<Rightarrow> db \<times> (payment_error + payment_outcome)" where
  "charge_saved_method ps d school_id invoice_id now stamp token_hex new_id =
     (if \<not> configured ps then (d, Inl PaymentProviderUnavailableError)
      else case find_payable_invoice d school_id invoice_id of
        None \<Rightarrow> (d, Inl PaymentNotFoundError)
      | Some i \<Rightarrow>
          if pi_status i = IS_PAID then (d, Inl InvoiceNotPayableError)
          else case saved_method d school_id of
            None \<Rightarrow> (d, Inl NoReusablePaymentMethodError)
          | Some sm \<Rightarrow>
              (let reference = reference_for (pi_invoice_number i) stamp token_hex;
                   minor = to_minor_units (pi_amount i);
                   d1 = create_transaction d school_id invoice_id reference (pi_amount i) minor (ps_currency ps) None new_id in
               case charge_authorization ps (sm_billing_email sm) (pi_amount i) reference (sm_authorization_code sm) (ps_currency ps) of
                 Inl e \<Rightarrow> (d1, Inl e)
               | Inr pt \<Rightarrow> settle_provider d1 pt now))"

definition confirm_manual_transfer ::
  "paystack \<Rightarrow> db \<Rightarrow> uuid \<Rightarrow> uuid \<Rightarrow> string \<Rightarrow> uuid \<Rightarrow> datetime \<Rightarrow> string \<Rightarrow> string \<Rightarrow> uuid \<Rightarrow> db \<times> (payment_error + payment_outcome)" where
  "confirm_manual_transfer ps d school_id invoice_id bank_reference confirmed_by now stamp token_hex new_id =
     (case find_payable_invoice d school_id invoice_id of
        None \<Rightarrow> (d, Inl PaymentNotFoundError)
      | Some i \<Rightarrow>
          if pi_status i = IS_PAID then (d, Inl InvoiceNotPayableError)
          else
            (let (d', transaction_id, invoice_paid) = record_manual_settlement d school_id invoice_id
                   (reference_for (pi_invoice_number i) stamp token_hex) (py_strip bank_reference) (pi_amount i)
                   (ps_currency ps) confirmed_by now new_id in
             (d', Inr \<lparr>po_transaction_id = transaction_id, po_invoice_id = Some invoice_id, po_reference = py_strip bank_reference,
                   po_status = PT_SUCCESS, po_invoice_paid = invoice_paid, po_payment_method_saved = False,
                   po_message = (if invoice_paid then ''Transfer recorded and the invoice is settled.''
                                 else ''This transfer reference was already recorded.'')\<rparr>)))"

subsection \<open>Webhooks\<close>

definition SETTLED_EVENTS :: "string list" where "SETTLED_EVENTS = [''charge.success'']"
definition FAILURE_EVENTS :: "string list" where "FAILURE_EVENTS = [''charge.failed'', ''invoice.payment_failed'']"

definition event_key :: "paystack \<Rightarrow> string \<Rightarrow> (string \<times> json) list \<Rightarrow> string \<Rightarrow> string" where
  "event_key ps event_type data payload =
     (if truthy (dict_get data ''id'') then event_type @ '':'' @ py_str ps (dict_get data ''id'')
      else if truthy (dict_get data ''reference'') then event_type @ '':'' @ py_str ps (dict_get data ''reference'')
      else event_type @ '':'' @ ps_sha256 ps payload)"

definition settle_event :: "paystack \<Rightarrow> db \<Rightarrow> string \<Rightarrow> datetime \<Rightarrow> db \<times> (payment_error + payment_outcome)" where
  "settle_event ps d reference now =
     (case verify_transaction ps reference of Inl e \<Rightarrow> (d, Inl e) | Inr pt \<Rightarrow> settle_provider d pt now)"

definition handle_webhook ::
  "paystack \<Rightarrow> (payment_error \<Rightarrow> string) \<Rightarrow> db \<Rightarrow> string \<Rightarrow> string option \<Rightarrow> datetime
     \<Rightarrow> db \<times> (payment_error + payment_outcome option)" where
  "handle_webhook ps message d payload signature now =
     (case ps_secret ps of
        None \<Rightarrow> (d, Inl PaymentProviderUnavailableError)
      | Some secret \<Rightarrow>
          if \<not> verify_webhook_signature ps payload signature secret then (d, Inl InvalidWebhookSignatureError)
          else case ps_json_loads ps payload of
            Some (JObject body) \<Rightarrow>
              (let event_type = (if truthy (dict_get body ''event'') then py_str ps (dict_get body ''event'') else ''unknown'');
                   data = (case dict_get body ''data'' of JObject kvs \<Rightarrow> kvs | _ \<Rightarrow> []);
                   reference = str_or_empty ps (dict_get data ''reference'');
                   key = event_key ps event_type data payload;
                   (d1, claimed) = claim_webhook_event d key event_type (JObject body) in
               if \<not> claimed then (d1, Inr None)
               else if event_type \<notin> set (SETTLED_EVENTS @ FAILURE_EVENTS) \<or> reference = []
               then (finish_webhook_event d1 key WE_IGNORED None now, Inr None)
               else
                 (case settle_event ps d1 reference now of
                    (d2, Inl e) \<Rightarrow> (finish_webhook_event d2 key WE_FAILED (Some (take 1000 (message e))) now, Inl e)
                  | (d2, Inr outcome) \<Rightarrow> (finish_webhook_event d2 key WE_PROCESSED None now, Inr (Some outcome))))
          | _ \<Rightarrow> (d, Inl InvalidWebhookSignatureError))"

subsection \<open>What the operations keep\<close>

text \<open>An invoice is either left alone or, if it was not paid, marked as paid.\<close>

definition invoice_kept :: "invoice_row \<Rightarrow> invoice_row \<Rightarrow> bool" where
  "invoice_kept i i' \<longleftrightarrow> i' = i \<or> (inv_status i \<noteq> IS_PAID \<and> (\<exists>t. i' = i\<lparr>inv_status := IS_PAID, inv_paid_at := Some t\<rparr>))"

text \<open>The invoices row by row, and no webhook event is forgotten.\<close>

definition payments_le :: "db \<Rightarrow> db \<Rightarrow> bool" where
  "payments_le d d' \<longleftrightarrow> list_all2 invoice_kept (invoices d) (invoices d') \<and>
     (\<forall>p k. exists_where (is_event p k) (webhook_events d) \<longrightarrow> exists_where (is_event p k) (webhook_events d'))"

lemma invoice_kept_refl [simp]: "invoice_kept i i"
  by (simp add: invoice_kept_def)

lemma invoice_kept_trans: "\<lbrakk>invoice_kept a b; invoice_kept b c\<rbrakk> \<Longrightarrow> invoice_kept a c"
  by (auto simp: invoice_kept_def)

lemma payments_le_same:
  "\<lbrakk>invoices d' = invoices d; webhook_events d' = webhook_events d\<rbrakk> \<Longrightarrow> payments_le d d'"
  by (simp add: payments_le_def list_all2_same)

lemma payments_le_refl [simp, intro]: "payments_le d d"
  by (rule payments_le_same) simp_all

lemma payments_le_trans [trans]: "\<lbrakk>payments_le a b; payments_le b c\<rbrakk> \<Longrightarrow> payments_le a c"
proof -
  assume a: "payments_le a b" "payments_le b c"
  then have b: "list_all2 invoice_kept (invoices a) (invoices b)" "list_all2 invoice_kept (invoices b) (invoices c)"
    by (simp_all add: payments_le_def)
  have "list_all2 invoice_kept (invoices a) (invoices c)"
    by (rule list_all2_trans[OF _ b]) (rule invoice_kept_trans)
  then show ?thesis using a unfolding payments_le_def by blast
qed

lemma payments_le_ids: "payments_le d d' \<Longrightarrow> map inv_id (invoices d') = map inv_id (invoices d)"
  unfolding payments_le_def
  by (auto simp: list_eq_iff_nth_eq list_all2_conv_all_nth invoice_kept_def)

lemma pay_invoice_le:
  assumes "distinct (map inv_id (invoices d))" "get_by inv_id i (invoices d) = Some x" "inv_status x \<noteq> IS_PAID"
  shows "payments_le d (pay_invoice i t d)"
proof -
  have "invoice_kept y (if inv_id y = i then y\<lparr>inv_status := IS_PAID, inv_paid_at := Some t\<rparr> else y)" if "y \<in> set (invoices d)" for y
  proof (cases "inv_id y = i")
    case True
    then have "y = x" using get_by_in[OF assms(1) that] assms(2) by simp
    then show ?thesis using assms(3) by (auto simp: invoice_kept_def)
  qed simp
  then have "list_all2 invoice_kept (invoices d) (map (\<lambda>y. if inv_id y = i then y\<lparr>inv_status := IS_PAID, inv_paid_at := Some t\<rparr> else y) (invoices d))"
    by (simp add: list_all2_conv_all_nth)
  then show ?thesis by (simp add: payments_le_def pay_invoice_def update_where_def)
qed

lemma activate_same [simp]:
  "invoices (activate_paid_students x d) = invoices d" "webhook_events (activate_paid_students x d) = webhook_events d"
  by (simp_all add: activate_paid_students_def)

lemma upsert_same [simp]:
  "invoices (upsert_payment_method s a c u d) = invoices d" "webhook_events (upsert_payment_method s a c u d) = webhook_events d"
  "users (upsert_payment_method s a c u d) = users d"
  by (auto simp: upsert_payment_method_def Let_def split: option.splits)

lemma create_transaction_same [simp]:
  "invoices (create_transaction d s i r a m c u n) = invoices d" "webhook_events (create_transaction d s i r a m c u n) = webhook_events d"
  "users (create_transaction d s i r a m c u n) = users d"
  by (simp_all add: create_transaction_def)

lemma settle_invoice_cases:
  assumes "settle_invoice t now d = (d', paid)"
  obtains (unpaid) "\<not> paid" "d' = d"
  | (paid) i x where "paid" "tx_invoice_id t = Some i" "get_by inv_id i (invoices d) = Some x" "inv_status x \<noteq> IS_PAID"
      "invoices d' = invoices (pay_invoice i (the (tx_paid_at t)) d)" "webhook_events d' = webhook_events d"
      "users d' = users (activate_paid_students x d)"
proof (cases paid)
  case False
  have "d' = d" using assms False unfolding settle_invoice_def
    by (cases "tx_invoice_id t") (auto simp: Let_def split: option.splits if_splits)
  then show ?thesis using unpaid False by blast
next
  case True
  then obtain i x where i: "tx_invoice_id t = Some i" "get_by inv_id i (invoices d) = Some x" "inv_status x \<noteq> IS_PAID"
    using assms unfolding settle_invoice_def by (cases "tx_invoice_id t") (auto split: option.splits if_splits)
  show ?thesis
    by (rule paid[OF True i])
       (use assms i in \<open>auto simp: settle_invoice_def Let_def pay_invoice_def activate_paid_students_def\<close>)
qed

text \<open>What \<^verbatim>\<open>settle\<close> does to invoices and accounts: nothing, or one unpaid invoice paid and its students activated.\<close>

lemma settle_cases:
  assumes "settle d ref status pr paid_at err auth cc now = (d', paid, saved)"
  obtains (unpaid) "\<not> paid" "invoices d' = invoices d" "webhook_events d' = webhook_events d" "users d' = users d"
  | (paid) t i x p where "paid" "status = PT_SUCCESS" "transaction_by_reference d ref = Some t" "tx_status t \<noteq> PT_SUCCESS"
      "tx_invoice_id t = Some i" "get_by inv_id i (invoices d) = Some x" "inv_status x \<noteq> IS_PAID"
      "invoices d' = invoices (pay_invoice i p d)" "webhook_events d' = webhook_events d"
      "users d' = users (activate_paid_students x d)"
proof (cases "\<exists>t. transaction_by_reference d ref = Some t \<and> tx_status t \<noteq> PT_SUCCESS \<and> status = PT_SUCCESS")
  case False
  show ?thesis
    by (rule unpaid) (use assms False in \<open>auto simp: settle_def Let_def split: option.splits if_splits\<close>)
next
  case True
  then obtain t where t: "transaction_by_reference d ref = Some t" "tx_status t \<noteq> PT_SUCCESS" "status = PT_SUCCESS" by blast
  define t' where "t' = settled_row status pr paid_at err now t"
  define d1 where "d1 = d\<lparr>payment_transactions := update_where (\<lambda>x. tx_id x = tx_id t) (\<lambda>_. t') (payment_transactions d)\<rparr>"
  obtain d2 b where s: "settle_invoice t' now d1 = (d2, b)" by fastforce
  have r: "paid = b" "invoices d' = invoices d2" "webhook_events d' = webhook_events d2" "users d' = users d2"
    using assms t s by (auto simp: settle_def Let_def t'_def d1_def split: option.splits if_splits)
  have same: "invoices d1 = invoices d" "webhook_events d1 = webhook_events d" "users d1 = users d" by (simp_all add: d1_def)
  from s show ?thesis
  proof (cases rule: settle_invoice_cases)
    case unpaid
    show ?thesis by (rule that(1)) (use r same unpaid in simp_all)
  next
    case (paid i x)
    show ?thesis
      by (rule that(2)[of t i x "the (tx_paid_at t')"])
         (use r same paid t in \<open>simp_all add: t'_def settled_row_def pay_invoice_def activate_paid_students_def\<close>)
  qed
qed

lemma settle_le:
  assumes "settle d ref status pr paid_at err auth cc now = (d', paid, saved)" "distinct (map inv_id (invoices d))"
  shows "payments_le d d'"
  using assms(1)
proof (cases rule: settle_cases)
  case unpaid then show ?thesis by (intro payments_le_same)
next
  case (paid t i x p)
  have "payments_le d (pay_invoice i p d)" by (rule pay_invoice_le[OF assms(2) paid(6,7)])
  also have "payments_le (pay_invoice i p d) d'" by (rule payments_le_same) (use paid in \<open>simp_all add: pay_invoice_def\<close>)
  finally show ?thesis .
qed

text \<open>\<^verbatim>\<open>_settle\<close>, with what had to hold for the invoice to be paid.\<close>

lemma settle_provider_cases:
  assumes "settle_provider d pt now = (d', res)"
  obtains (nothing) "invoices d' = invoices d" "webhook_events d' = webhook_events d" "users d' = users d"
      "\<And>x. res = Inr x \<Longrightarrow> \<not> po_invoice_paid x"
  | (credited) t i x p out where "res = Inr out" "po_invoice_paid out" "po_invoice_id out = Some i"
      "transaction_by_reference d (pt_reference pt) = Some t" "tx_invoice_id t = Some i"
      "pt_status pt = PT_SUCCESS" "amount_matches (tx_amount_minor t) (pricing_currency_value (tx_currency t)) pt"
      "get_by inv_id i (invoices d) = Some x" "inv_status x \<noteq> IS_PAID"
      "invoices d' = invoices (pay_invoice i p d)" "webhook_events d' = webhook_events d"
      "users d' = users (activate_paid_students x d)"
proof (cases "\<exists>t. transaction_by_reference d (pt_reference pt) = Some t \<and> tx_status t \<noteq> PT_SUCCESS")
  case False
  show ?thesis by (rule nothing) (use assms False in \<open>auto simp: settle_provider_def Let_def split: option.splits if_splits\<close>)
next
  case True
  then obtain t where t: "transaction_by_reference d (pt_reference pt) = Some t" "tx_status t \<noteq> PT_SUCCESS" by blast
  let ?m = "pt_status pt = PT_SUCCESS \<and> \<not> amount_matches (tx_amount_minor t) (pricing_currency_value (tx_currency t)) pt"
  let ?st = "if ?m then PT_FAILED else pt_status pt"
  let ?err = "if ?m then Some (mismatch_message t pt) else pt_gateway_message pt"
  obtain d2 paid saved where s: "settle d (tx_reference t) ?st (pt_provider_reference pt) (pt_paid_at pt)
      (if ?st = PT_SUCCESS then None else ?err) (pt_authorization pt) None now = (d2, paid, saved)" by (metis prod_cases3)
  have "\<exists>out. d' = d2 \<and> res = Inr out \<and> po_invoice_paid out = paid \<and> po_invoice_id out = tx_invoice_id t"
    using assms t s by (auto simp: settle_provider_def Let_def)
  then obtain out where r: "d' = d2" "res = Inr out" "po_invoice_paid out = paid" "po_invoice_id out = tx_invoice_id t"
    by blast
  have ref: "tx_reference t = pt_reference pt" using t(1) get_by_SomeD unfolding transaction_by_reference_def by fastforce
  from s show ?thesis
  proof (cases rule: settle_cases)
    case unpaid
    show ?thesis by (rule nothing) (use unpaid r in simp_all)
  next
    case (paid t2 i x p)
    have "t2 = t" using paid(3) t(1) ref by simp
    moreover have "pt_status pt = PT_SUCCESS" "amount_matches (tx_amount_minor t) (pricing_currency_value (tx_currency t)) pt"
      using paid(2) by (auto split: if_splits)
    ultimately show ?thesis using credited[of out i t x p] r paid t(1) by simp
  qed
qed

lemma settle_provider_le:
  assumes "settle_provider d pt now = (d', res)" "distinct (map inv_id (invoices d))"
  shows "payments_le d d'"
  using assms(1)
proof (cases rule: settle_provider_cases)
  case nothing then show ?thesis by (intro payments_le_same)
next
  case (credited t i x p out)
  have "payments_le d (pay_invoice i p d)" by (rule pay_invoice_le[OF assms(2) credited(8,9)])
  also have "payments_le (pay_invoice i p d) d'" by (rule payments_le_same) (use credited in \<open>simp_all add: pay_invoice_def\<close>)
  finally show ?thesis .
qed

lemma start_invoice_payment_le: "start_invoice_payment ps d s i a st h n = (d', res) \<Longrightarrow> payments_le d d'"
  by (auto simp: start_invoice_payment_def set_authorization_url_def Let_def split: if_splits option.splits sum.splits
      intro!: payments_le_same)

lemma verify_reference_le:
  "\<lbrakk>verify_reference ps d ref now = (d', res); distinct (map inv_id (invoices d))\<rbrakk> \<Longrightarrow> payments_le d d'"
  by (auto simp: verify_reference_def split: if_splits sum.splits intro: settle_provider_le)

lemma charge_saved_method_le:
  assumes "charge_saved_method ps d s i now st h n = (d', res)" "distinct (map inv_id (invoices d))"
  shows "payments_le d d'"
proof -
  have "payments_le d x" if "settle_provider (create_transaction d s i r a m c u n) pt now = (x, y)" for r a m c u pt x y
    using payments_le_trans[OF payments_le_same settle_provider_le[OF that]] assms(2) by simp
  then show ?thesis
    using assms(1) by (auto simp: charge_saved_method_def Let_def split: if_splits option.splits sum.splits intro: payments_le_same)
qed

lemma record_manual_settlement_le:
  assumes "record_manual_settlement d s i r br a c u t n = (d', x, paid)" "distinct (map inv_id (invoices d))"
  shows "payments_le d d'"
proof (cases paid)
  case False
  then show ?thesis using assms(1)
    by (auto simp: record_manual_settlement_def Let_def split: option.splits if_splits intro: payments_le_same)
next
  case True
  obtain y where y: "get_by inv_id i (invoices d) = Some y" "inv_status y \<noteq> IS_PAID" "invoices d' = invoices (pay_invoice i t d)"
      "webhook_events d' = webhook_events d"
    using assms(1) True
    by (auto simp: record_manual_settlement_def Let_def pay_invoice_def split: option.splits if_splits)
  have "payments_le d (pay_invoice i t d)" by (rule pay_invoice_le[OF assms(2) y(1,2)])
  also have "payments_le (pay_invoice i t d) d'" by (rule payments_le_same) (use y in \<open>simp_all add: pay_invoice_def\<close>)
  finally show ?thesis .
qed

lemma confirm_manual_transfer_le:
  "\<lbrakk>confirm_manual_transfer ps d s i br u now st h n = (d', res); distinct (map inv_id (invoices d))\<rbrakk> \<Longrightarrow> payments_le d d'"
  by (auto simp: confirm_manual_transfer_def Let_def split: if_splits option.splits prod.splits intro: record_manual_settlement_le)

lemma claim_le: "claim_webhook_event d key ty body = (d', b) \<Longrightarrow> payments_le d d'"
  by (auto simp: claim_webhook_event_def payments_le_def list_all2_same split: if_splits)

lemma finish_event_same [simp]:
  "invoices (finish_webhook_event d key st err now) = invoices d" "users (finish_webhook_event d key st err now) = users d"
  by (simp_all add: finish_webhook_event_def)

lemma finish_event_keeps:
  "exists_where (is_event p k) (webhook_events (finish_webhook_event d key st err now)) \<longleftrightarrow> exists_where (is_event p k) (webhook_events d)"
proof -
  let ?f = "\<lambda>w. if is_event ''paystack'' key w then w\<lparr>wh_status := st, wh_last_error := err, wh_processed_at := Some now\<rparr> else w"
  have "is_event p k (?f w) = is_event p k w" for w by (simp add: is_event_def)
  then have "list_ex (is_event p k) (map ?f ws) = list_ex (is_event p k) ws" for ws by (induction ws) simp_all
  then show ?thesis unfolding finish_webhook_event_def exists_where_def by (simp add: update_where_def del: list_ex_iff)
qed

lemma finish_event_le: "payments_le d (finish_webhook_event d key st err now)"
  unfolding payments_le_def finish_event_keeps by (simp add: list_all2_same)

lemma claimed_exists: "claim_webhook_event d key ty body = (d', b) \<Longrightarrow> exists_where (is_event ''paystack'' key) (webhook_events d')"
  by (auto simp: claim_webhook_event_def is_event_def split: if_splits)

text \<open>The key a delivery is recorded under, and a delivery that gets past the signature check.\<close>

definition delivery_key :: "paystack \<Rightarrow> string \<Rightarrow> (string \<times> json) list \<Rightarrow> string" where
  "delivery_key ps payload body =
     event_key ps (if truthy (dict_get body ''event'') then py_str ps (dict_get body ''event'') else ''unknown'')
       (case dict_get body ''data'' of JObject kvs \<Rightarrow> kvs | _ \<Rightarrow> []) payload"

definition genuine :: "paystack \<Rightarrow> string \<Rightarrow> string option \<Rightarrow> (string \<times> json) list \<Rightarrow> bool" where
  "genuine ps payload signature body =
     (case ps_secret ps of
        None \<Rightarrow> False
      | Some secret \<Rightarrow> verify_webhook_signature ps payload signature secret \<and> ps_json_loads ps payload = Some (JObject body))"

lemma settle_event_cases:
  assumes "settle_event ps d ref now = (d', res)"
  obtains (silent) e where "verify_transaction ps ref = Inl e" "d' = d" "res = Inl e"
  | (answered) pt where "verify_transaction ps ref = Inr pt" "settle_provider d pt now = (d', res)"
  using assms by (auto simp: settle_event_def split: sum.splits)

lemma claim_cases:
  assumes "claim_webhook_event d key ty body = (d', b)"
  obtains (seen) "exists_where (is_event ''paystack'' key) (webhook_events d)" "d' = d" "\<not> b"
  | (fresh) "\<not> exists_where (is_event ''paystack'' key) (webhook_events d)" "b" "invoices d' = invoices d" "users d' = users d"
      "payment_transactions d' = payment_transactions d"
  using assms by (auto simp: claim_webhook_event_def split: if_splits)

text \<open>A callback is refused, a duplicate, of no interest, or settled; the last two only for a first delivery.\<close>

lemma handle_webhook_cases:
  assumes "handle_webhook ps msg d payload sig now = (d', res)"
  obtains (refused) e where "d' = d" "res = Inl e" "\<nexists>body. genuine ps payload sig body"
  | (duplicate) body where "genuine ps payload sig body" "d' = d" "res = Inr None"
      "exists_where (is_event ''paystack'' (delivery_key ps payload body)) (webhook_events d)"
  | (ignored) body d1 where "genuine ps payload sig body" "claim_webhook_event d (delivery_key ps payload body)
        (if truthy (dict_get body ''event'') then py_str ps (dict_get body ''event'') else ''unknown'') (JObject body) = (d1, True)"
      "d' = finish_webhook_event d1 (delivery_key ps payload body) WE_IGNORED None now" "res = Inr None"
  | (settled) body d1 ref d2 r st err where "genuine ps payload sig body" "claim_webhook_event d (delivery_key ps payload body)
        (if truthy (dict_get body ''event'') then py_str ps (dict_get body ''event'') else ''unknown'') (JObject body) = (d1, True)"
      "settle_event ps d1 ref now = (d2, r)" "d' = finish_webhook_event d2 (delivery_key ps payload body) st err now"
      "res = (case r of Inl e \<Rightarrow> Inl e | Inr out \<Rightarrow> Inr (Some out))"
proof (cases "\<exists>body. genuine ps payload sig body")
  case False
  then show ?thesis using assms refused
    by (auto simp: handle_webhook_def genuine_def split: option.splits if_splits json.splits)
next
  case True
  then obtain body where g: "genuine ps payload sig body" by blast
  then obtain secret where c: "ps_secret ps = Some secret" "verify_webhook_signature ps payload sig secret"
      "ps_json_loads ps payload = Some (JObject body)" by (auto simp: genuine_def split: option.splits)
  define ty where "ty = (if truthy (dict_get body ''event'') then py_str ps (dict_get body ''event'') else ''unknown'')"
  define data where "data = (case dict_get body ''data'' of JObject kvs \<Rightarrow> kvs | _ \<Rightarrow> [])"
  define ref where "ref = str_or_empty ps (dict_get data ''reference'')"
  have key: "event_key ps ty data payload = delivery_key ps payload body" by (simp add: delivery_key_def ty_def data_def)
  obtain d1 b where cl: "claim_webhook_event d (delivery_key ps payload body) ty (JObject body) = (d1, b)" by fastforce
  have "handle_webhook ps msg d payload sig now = (if \<not> b then (d1, Inr None)
      else if ty \<notin> set (SETTLED_EVENTS @ FAILURE_EVENTS) \<or> ref = []
      then (finish_webhook_event d1 (delivery_key ps payload body) WE_IGNORED None now, Inr None)
      else case settle_event ps d1 ref now of
             (d2, Inl e) \<Rightarrow> (finish_webhook_event d2 (delivery_key ps payload body) WE_FAILED (Some (take 1000 (msg e))) now, Inl e)
           | (d2, Inr out) \<Rightarrow> (finish_webhook_event d2 (delivery_key ps payload body) WE_PROCESSED None now, Inr (Some out)))"
    (is "_ = ?r")
    unfolding handle_webhook_def c(1) option.case(2) c(3) json.case Let_def if_not_P[OF not_not[THEN iffD2, OF c(2)]]
    unfolding ty_def[symmetric] data_def[symmetric] unfolding ref_def[symmetric] key cl prod.case ..
  then have res: "(d', res) = ?r" using assms by simp
  consider "\<not> b" | "b" "ty \<notin> set (SETTLED_EVENTS @ FAILURE_EVENTS) \<or> ref = []"
    | "b" "\<not> (ty \<notin> set (SETTLED_EVENTS @ FAILURE_EVENTS) \<or> ref = [])" by blast
  then show ?thesis
  proof cases
    case 1
    have r: "d' = d1" "res = Inr None" using res 1 by simp_all
    from cl show ?thesis
    proof (cases rule: claim_cases)
      case seen
      then show ?thesis using duplicate[OF g] r by simp
    qed (use 1 in simp)
  next
    case 2
    with res have "d' = finish_webhook_event d1 (delivery_key ps payload body) WE_IGNORED None now" "res = Inr None" by auto
    then show ?thesis using ignored[OF g] cl 2(1) unfolding ty_def by simp
  next
    case 3
    obtain d2 r where s: "settle_event ps d1 ref now = (d2, r)" by fastforce
    have "\<exists>st err. d' = finish_webhook_event d2 (delivery_key ps payload body) st err now"
      "res = (case r of Inl e \<Rightarrow> Inl e | Inr out \<Rightarrow> Inr (Some out))"
      using res 3 s by (cases r; simp; blast)+
    then show ?thesis using settled[OF g _ s] cl 3(1) unfolding ty_def by auto
  qed
qed

lemma handle_webhook_le:
  assumes "handle_webhook ps msg d payload sig now = (d', res)" "distinct (map inv_id (invoices d))"
  shows "payments_le d d'"
  using assms(1)
proof (cases rule: handle_webhook_cases)
  case (ignored body d1)
  then show ?thesis using claim_le finish_event_le payments_le_trans by blast
next
  case (settled body d1 ref d2 r st err)
  have 1: "payments_le d d1" by (rule claim_le[OF settled(2)])
  have ids: "distinct (map inv_id (invoices d1))" using payments_le_ids[OF 1] assms(2) by simp
  have 2: "payments_le d1 d2" using settled(3)
    by (cases rule: settle_event_cases) (auto intro: settle_provider_le[OF _ ids])
  show ?thesis unfolding settled(4) by (rule payments_le_trans[OF payments_le_trans[OF 1 2] finish_event_le])
qed simp_all

subsection \<open>Runs of the service\<close>

text \<open>One call of the service.  The processor may answer differently at every call.\<close>

inductive payment_step :: "db \<Rightarrow> db \<Rightarrow> bool" where
  start: "start_invoice_payment ps d s i a stamp h n = (d', r1) \<Longrightarrow> payment_step d d'"
| verify: "verify_reference ps d ref now = (d', r2) \<Longrightarrow> payment_step d d'"
| charge: "charge_saved_method ps d s i now stamp h n = (d', r2) \<Longrightarrow> payment_step d d'"
| transfer: "confirm_manual_transfer ps d s i br u now stamp h n = (d', r2) \<Longrightarrow> payment_step d d'"
| webhook: "handle_webhook ps msg d payload sig now = (d', r3) \<Longrightarrow> payment_step d d'"

text \<open>
  The contract of the service: no call takes a paid invoice back or forgets a webhook event.
\<close>

locale payment_ledger =
  fixes step :: "db \<Rightarrow> db \<Rightarrow> bool"
  assumes step_le: "\<lbrakk>step d d'; distinct (map inv_id (invoices d))\<rbrakk> \<Longrightarrow> payments_le d d'"
begin

lemma run_le: "\<lbrakk>step\<^sup>*\<^sup>* d d'; distinct (map inv_id (invoices d))\<rbrakk> \<Longrightarrow> payments_le d d'"
proof (induction rule: rtranclp_induct)
  case (step y z)
  then have "payments_le d y" by blast
  with step show ?case using step_le[of y z] payments_le_ids[of d y] payments_le_trans by simp
qed simp

lemma paid_stays:
  assumes "step\<^sup>*\<^sup>* d d'" "distinct (map inv_id (invoices d))" "x \<in> set (invoices d)" "inv_status x = IS_PAID"
  shows "x \<in> set (invoices d')"
proof -
  have "list_all2 invoice_kept (invoices d) (invoices d')" using run_le[OF assms(1,2)] by (simp add: payments_le_def)
  then obtain y where "y \<in> set (invoices d')" "invoice_kept x y"
    using assms(3) by (metis in_set_conv_nth list_all2_conv_all_nth)
  then show ?thesis using assms(4) by (simp add: invoice_kept_def)
qed

lemma event_stays:
  "\<lbrakk>step\<^sup>*\<^sup>* d d'; distinct (map inv_id (invoices d)); exists_where (is_event p k) (webhook_events d)\<rbrakk>
     \<Longrightarrow> exists_where (is_event p k) (webhook_events d')"
  using run_le unfolding payments_le_def by blast

end

lemma payment_step_le: "\<lbrakk>payment_step d d'; distinct (map inv_id (invoices d))\<rbrakk> \<Longrightarrow> payments_le d d'"
  by (induction rule: payment_step.induct)
     (blast intro: start_invoice_payment_le verify_reference_le charge_saved_method_le confirm_manual_transfer_le handle_webhook_le)+

interpretation payment_run: payment_ledger payment_step
  by unfold_locales (rule payment_step_le)

subsection \<open>Lemmas for the properties\<close>

lemma find_payable_stored:
  assumes "distinct (map inv_id (invoices d))" "x \<in> set (invoices d)"
  shows "\<exists>i. find_payable_invoice d (inv_school_id x) (inv_id x) = Some i \<and> pi_status i = inv_status x"
proof -
  have "get_by inv_id (inv_id x) (invoices d) = Some x" by (rule get_by_in[OF assms])
  have "List.find (\<lambda>i. inv_id i = inv_id x \<and> inv_school_id i = inv_school_id x) xs = Some x"
    if "distinct (map inv_id xs)" "x \<in> set xs" for xs
    using that by (induction xs) auto
  from this[OF assms] show ?thesis by (simp add: find_payable_invoice_def)
qed

lemma settle_provider_paid_is_quiet:
  assumes "settle_provider d pt now = (d', Inr out)" "distinct (map inv_id (invoices d))"
    and "x \<in> set (invoices d)" "inv_status x = IS_PAID" "po_invoice_id out = Some (inv_id x)"
  shows "\<not> po_invoice_paid out"
  using assms(1)
proof (cases rule: settle_provider_cases)
  case (credited t i y p out')
  have "y = x" using credited(1,3,8) assms(5) get_by_in[OF assms(2,3)] by simp
  then show ?thesis using credited(9) assms(4) by simp
qed simp

lemma settle_pays:
  assumes "transaction_by_reference d ref = Some t" "tx_status t \<noteq> PT_SUCCESS" "tx_invoice_id t = Some i"
    "get_by inv_id i (invoices d) = Some x" "inv_status x \<noteq> IS_PAID"
  shows "\<exists>d' saved. settle d ref PT_SUCCESS pr (Some p0) err auth cc now = (d', True, saved) \<and>
     invoices d' = invoices (pay_invoice i p0 d) \<and> users d' = users (activate_paid_students x d)"
proof -
  define t' where "t' = settled_row PT_SUCCESS pr (Some p0) err now t"
  define d1 where "d1 = d\<lparr>payment_transactions := update_where (\<lambda>x. tx_id x = tx_id t) (\<lambda>_. t') (payment_transactions d)\<rparr>"
  have t': "tx_invoice_id t' = Some i" "tx_paid_at t' = Some p0" using assms(3) by (simp_all add: t'_def settled_row_def)
  have "get_by inv_id i (invoices d1) = Some x" using assms(4) by (simp add: d1_def)
  then obtain d2 where s: "settle_invoice t' now d1 = (d2, True)" "invoices d2 = invoices (pay_invoice i p0 d1)"
      "users d2 = users (activate_paid_students x d1)"
    using t' assms(5) by (simp add: settle_invoice_def Let_def pay_invoice_def activate_paid_students_def)
  have same: "invoices (pay_invoice i p0 d1) = invoices (pay_invoice i p0 d)"
    "users (activate_paid_students x d1) = users (activate_paid_students x d)"
    by (simp_all add: d1_def pay_invoice_def activate_paid_students_def)
  show ?thesis using assms(1,2) s same
    by (auto simp: settle_def Let_def simp flip: t'_def d1_def split: option.splits)
qed

lemma in_pay_invoice:
  "get_by inv_id i (invoices d) = Some x \<Longrightarrow> x\<lparr>inv_status := IS_PAID, inv_paid_at := Some p\<rparr> \<in> set (invoices (pay_invoice i p d))"
  using get_by_SomeD[of inv_id i "invoices d" x] updated_row_in[of x "invoices d" "\<lambda>y. inv_id y = i"]
  by (simp add: pay_invoice_def)

lemma in_activate:
  "\<lbrakk>u \<in> set (users d); u_id u \<in> set (inv_activation_student_ids x); u_school_id u = Some (inv_school_id x);
     u_role u = UR_STUDENT; u_status u = US_INVITED\<rbrakk> \<Longrightarrow> u\<lparr>u_status := US_ACTIVE\<rparr> \<in> set (users (activate_paid_students x d))"
  unfolding activate_paid_students_def by (simp, rule updated_row_in) simp_all

subsection \<open>Properties\<close>

text \<open>Claim C21.  A paid invoice is final: whatever calls the service serves afterwards, with whatever answers from
  the processor, the invoice row stays as it is, a new payment, a charge of the saved card and a recorded transfer
  for it are refused without a change, and verifying a reference never reports it as paid a second time.\<close>

theorem paid_invoice_is_final:
  assumes "payment_step\<^sup>*\<^sup>* d d'" "distinct (map inv_id (invoices d))"
    and "x \<in> set (invoices d)" "inv_status x = IS_PAID" "configured ps"
  shows "x \<in> set (invoices d') \<and>
     start_invoice_payment ps d' (inv_school_id x) (inv_id x) a stamp h n = (d', Inl InvoiceNotPayableError) \<and>
     charge_saved_method ps d' (inv_school_id x) (inv_id x) now stamp h n = (d', Inl InvoiceNotPayableError) \<and>
     confirm_manual_transfer ps d' (inv_school_id x) (inv_id x) br u now stamp h n = (d', Inl InvoiceNotPayableError) \<and>
     (\<forall>ref d'' out. verify_reference ps d' ref now = (d'', Inr out) \<and> po_invoice_id out = Some (inv_id x) \<longrightarrow> \<not> po_invoice_paid out)"
proof -
  have x: "x \<in> set (invoices d')" by (rule payment_run.paid_stays[OF assms(1-4)])
  have ids: "distinct (map inv_id (invoices d'))" using payments_le_ids[OF payment_run.run_le[OF assms(1,2)]] assms(2) by simp
  obtain i where i: "find_payable_invoice d' (inv_school_id x) (inv_id x) = Some i" "pi_status i = IS_PAID"
    using find_payable_stored[OF ids x] assms(4) by auto
  have "\<not> po_invoice_paid out" if "verify_reference ps d' ref now = (d'', Inr out)" "po_invoice_id out = Some (inv_id x)"
    for ref d'' out
    using that settle_provider_paid_is_quiet[OF _ ids x assms(4)]
    by (auto simp: verify_reference_def split: if_splits sum.splits)
  then have "\<forall>ref d'' out. verify_reference ps d' ref now = (d'', Inr out) \<and> po_invoice_id out = Some (inv_id x) \<longrightarrow> \<not> po_invoice_paid out"
    by blast
  then show ?thesis using x i assms(5)
    by (simp add: start_invoice_payment_def charge_saved_method_def confirm_manual_transfer_def)
qed

text \<open>Claim C22.  A webhook moves money state only on the processor's word: if a callback changed an invoice or an account,
  its signature was genuine, and the processor, asked again under the secret key, replied without an error that a
  transaction for a stored reference succeeded with exactly the stored amount; the change is that the invoice of that reference, unpaid before,
  is paid, and its invited students are activated.\<close>

theorem webhook_pays_only_confirmed_money:
  assumes "handle_webhook ps msg d payload sig now = (d', res)" "invoices d' \<noteq> invoices d \<or> users d' \<noteq> users d"
  shows "\<exists>body ref key data pt t i x p. genuine ps payload sig body \<and> ps_secret ps = Some key \<and>
     success_reply ps (ps_http ps key (GET (base_url ps @ ''/transaction/verify/'' @ ref))) data \<and> parse_transaction ps data = Inr pt \<and>
     transaction_by_reference d (pt_reference pt) = Some t \<and> pt_amount_minor pt = tx_amount_minor t \<and> tx_invoice_id t = Some i \<and>
     get_by inv_id i (invoices d) = Some x \<and> inv_status x \<noteq> IS_PAID \<and>
     invoices d' = invoices (pay_invoice i p d) \<and> users d' = users (activate_paid_students x d)"
  using assms(1)
proof (cases rule: handle_webhook_cases)
  case (ignored body d1)
  from ignored(2) have "invoices d' = invoices d \<and> users d' = users d" by (cases rule: claim_cases) (use ignored in simp_all)
  then show ?thesis using assms(2) by simp
next
  case (settled body d1 ref d2 r st err)
  have d1: "invoices d1 = invoices d" "users d1 = users d" "payment_transactions d1 = payment_transactions d"
    using settled(2) by (cases rule: claim_cases; simp)+
  have d': "invoices d' = invoices d2" "users d' = users d2" using settled(4) by simp_all
  with assms(2) d1 have ch: "invoices d2 \<noteq> invoices d1 \<or> users d2 \<noteq> users d1" by simp
  obtain pt where pt: "verify_transaction ps ref = Inr pt" "settle_provider d1 pt now = (d2, r)"
    using settled(3) by (cases rule: settle_event_cases) (use ch in auto)
  from pt(2) show ?thesis
  proof (cases rule: settle_provider_cases)
    case nothing then show ?thesis using ch by simp
  next
    case (credited t i x p out)
    have "pt_amount_minor pt = tx_amount_minor t" using credited(7) by (auto simp: amount_matches_def split: if_splits)
    moreover have "invoices (pay_invoice i p d1) = invoices (pay_invoice i p d)"
      "users (activate_paid_students x d1) = users (activate_paid_students x d)"
      using d1 by (simp_all add: pay_invoice_def activate_paid_students_def)
    moreover have "transaction_by_reference d (pt_reference pt) = Some t" using credited(4) d1 by (simp add: transaction_by_reference_def)
    moreover obtain key data where "ps_secret ps = Some key" "parse_transaction ps data = Inr pt"
        "success_reply ps (ps_http ps key (GET (base_url ps @ ''/transaction/verify/'' @ ref))) data"
      using verified_success_reply[OF pt(1) credited(6)] by blast
    ultimately show ?thesis using settled(1) credited(5,8-10,12) d1 d' by metis
  qed
qed (use assms(2) in simp_all)

text \<open>Claim C23.  A callback is handled at most once: after a genuine delivery, however it ended, and any further calls, the
  same bytes delivered again change nothing and return no outcome, whatever the processor would then answer.\<close>

theorem webhook_at_most_once:
  assumes "handle_webhook ps msg d payload sig now = (d1, res)" "genuine ps payload sig body"
    and "distinct (map inv_id (invoices d))" "payment_step\<^sup>*\<^sup>* d1 d2"
  shows "handle_webhook (ps\<lparr>ps_http := later\<rparr>) msg d2 payload sig now' = (d2, Inr None)"
proof -
  let ?key = "delivery_key ps payload body"
  have le: "payments_le d d1" by (rule handle_webhook_le[OF assms(1,3)])
  have body: "b = body" if "genuine ps payload sig b" for b
    using that assms(2) by (auto simp: genuine_def split: option.splits)
  from assms(1) have "exists_where (is_event ''paystack'' ?key) (webhook_events d1)"
  proof (cases rule: handle_webhook_cases)
    case (settled b e1 ref e2 r st err)
    note claimed_exists[OF settled(2)[unfolded body[OF settled(1)]]]
    moreover have "webhook_events e2 = webhook_events e1" using settled(3)
    proof (cases rule: settle_event_cases)
      case (answered pt)
      from answered(2) show ?thesis by (cases rule: settle_provider_cases) simp_all
    qed simp
    ultimately show ?thesis unfolding settled(4) finish_event_keeps by simp
  next
    case (ignored b e1)
    show ?thesis unfolding ignored(3) finish_event_keeps by (rule claimed_exists[OF ignored(2)[unfolded body[OF ignored(1)]]])
  next
    case (duplicate b)
    then show ?thesis using body by blast
  qed (use assms(2) in blast)
  then have seen: "exists_where (is_event ''paystack'' ?key) (webhook_events d2)"
    using payment_run.event_stays[OF assms(4)] payments_le_ids[OF le] assms(3) by simp
  let ?ps = "ps\<lparr>ps_http := later\<rparr>"
  obtain secret where s: "ps_secret ps = Some secret" "verify_webhook_signature ps payload sig secret"
      "ps_json_loads ps payload = Some (JObject body)" using assms(2) by (auto simp: genuine_def split: option.splits)
  have pure: "ps_secret ?ps = ps_secret ps" "ps_json_loads ?ps = ps_json_loads ps" "py_str ?ps = py_str ps"
    "event_key ?ps = event_key ps" "verify_webhook_signature ?ps = verify_webhook_signature ps"
    by (simp_all add: fun_eq_iff py_str_def json_str_def event_key_def verify_webhook_signature_def split: json.splits option.splits)
  show ?thesis
    using s seen unfolding handle_webhook_def pure by (simp add: Let_def claim_webhook_event_def delivery_key_def)
qed

text \<open>Claim C24.  A payment the processor confirms is settled: when the checkout of an unpaid invoice is verified and the
  processor reports success for that reference with the expected amount and currency, the call returns with the
  invoice paid at the processor's time, and every student the invoice covers who was still invited is active.\<close>

theorem confirmed_payment_settles:
  assumes "configured ps" "transaction_by_reference d ref = Some t" "tx_status t \<noteq> PT_SUCCESS"
    and "tx_invoice_id t = Some i" "get_by inv_id i (invoices d) = Some x" "inv_status x \<noteq> IS_PAID"
    and "verify_transaction ps ref = Inr pt" "pt_reference pt = ref" "pt_status pt = PT_SUCCESS" "pt_paid_at pt = Some p"
    and "amount_matches (tx_amount_minor t) (pricing_currency_value (tx_currency t)) pt"
  shows "\<exists>d' out. verify_reference ps d ref now = (d', Inr out) \<and> po_invoice_paid out \<and> po_status out = PT_SUCCESS \<and>
     x\<lparr>inv_status := IS_PAID, inv_paid_at := Some p\<rparr> \<in> set (invoices d') \<and>
     (\<forall>u \<in> set (users d). u_id u \<in> set (inv_activation_student_ids x) \<and> u_school_id u = Some (inv_school_id x) \<and>
        u_role u = UR_STUDENT \<and> u_status u = US_INVITED \<longrightarrow> u\<lparr>u_status := US_ACTIVE\<rparr> \<in> set (users d'))"
proof -
  have ref: "tx_reference t = ref" using get_by_SomeD assms(2) unfolding transaction_by_reference_def by fastforce
  obtain d' saved where s: "settle d ref PT_SUCCESS (pt_provider_reference pt) (Some p) None (pt_authorization pt) None now = (d', True, saved)"
      "invoices d' = invoices (pay_invoice i p d)" "users d' = users (activate_paid_students x d)"
    using settle_pays[OF assms(2-6), of "pt_provider_reference pt" p None "pt_authorization pt" None now] by blast
  have "\<exists>out. verify_reference ps d ref now = (d', Inr out) \<and> po_invoice_paid out \<and> po_status out = PT_SUCCESS"
    using assms s(1) ref by (simp add: verify_reference_def settle_provider_def)
  then show ?thesis using s(2,3) in_pay_invoice[OF assms(5)] in_activate by metis
qed

text \<open>Amounts survive the processor's subunits: every whole number of subunits comes back from its decimal,
  an amount with two decimals is unchanged by the round trip, any amount is off by at most half a subunit, and
  the conversion is monotone.\<close>

theorem minor_units_roundtrip:
  "to_minor_units (from_minor_units n) = n \<and>
   from_minor_units (to_minor_units (rat_of_int k / 100)) = rat_of_int k / 100 \<and>
   \<bar>from_minor_units (to_minor_units a) - a\<bar> \<le> 1 / 200 \<and>
   to_minor_units (min a b) \<le> to_minor_units (max a b)"
proof -
  have whole: "to_minor_units (rat_of_int k / 100) = k" for k
    unfolding to_minor_units_def by (cases "0 \<le> k") (simp_all add: floor_unique divide_nonneg_pos not_le)
  have bound: "\<bar>rat_of_int \<lfloor>y + 1 / 2\<rfloor> - y\<bar> \<le> 1 / 2" for y :: rat by linarith
  have near: "\<bar>rat_of_int (to_minor_units a) - a * 100\<bar> \<le> 1 / 2"
    using bound[of "a * 100"] bound[of "- a * 100"] unfolding to_minor_units_def abs_le_iff by simp
  have mono: "to_minor_units x \<le> to_minor_units y" if "x \<le> y" for x y
  proof (cases "\<not> 0 \<le> x \<and> 0 \<le> y")
    case True
    then have "0 \<le> \<lfloor>1 / 2 - x * 100\<rfloor>" "0 \<le> \<lfloor>y * 100 + 1 / 2\<rfloor>" by simp_all
    then have "- \<lfloor>1 / 2 - x * 100\<rfloor> \<le> \<lfloor>y * 100 + 1 / 2\<rfloor>" by linarith
    then show ?thesis using True by (simp add: to_minor_units_def)
  qed (use that in \<open>auto simp: to_minor_units_def intro!: floor_mono\<close>)
  have "\<bar>from_minor_units (to_minor_units a) - a\<bar> \<le> 1 / 200"
    using near by (simp add: from_minor_units_def abs_le_iff field_simps)
  then show ?thesis using whole mono[of "min a b" "max a b"] by (simp add: from_minor_units_def)
qed

subsection \<open>Witnesses\<close>

definition sample_invoice :: invoice_row where
  "sample_invoice = \<lparr>inv_id = 501, inv_invoice_number = ''INV-7'', inv_school_id = 1, inv_issued_at = Date 2025 1 1,
     inv_amount = 25, inv_status = IS_PENDING, inv_due_at = Date 2025 2 1, inv_paid_at = None, inv_pdf_url = [],
     inv_currency = PC_NGN, inv_student_count = None, inv_activation_student_ids = [10], inv_per_student_rate = None,
     inv_total_before_vat = None, inv_vat_amount = None, inv_vat_rate = None, inv_period_label = None\<rparr>"

definition payment_db :: db where
  "payment_db = create_transaction (empty_db\<lparr>schools := [sample_school], users := [sample_student\<lparr>u_status := US_INVITED\<rparr>],
     invoices := [sample_invoice]\<rparr>) 1 501 ''ref'' 25 2500 PC_NGN None 601"

definition confirmed :: provider_transaction where
  "confirmed = \<lparr>pt_reference = ''ref'', pt_status = PT_SUCCESS, pt_amount_minor = 2500, pt_currency = '' ngn '',
     pt_provider_reference = None, pt_paid_at = Some 40, pt_customer_email = None, pt_authorization = None, pt_gateway_message = None\<rparr>"

text \<open>A processor that signs with the secret in front, reads the body as the reference and confirms every transaction.\<close>

definition sample_paystack :: paystack where
  "sample_paystack = \<lparr>ps_secret = Some ''k'', ps_base_url = ''https://p/'', ps_callback_url = [], ps_currency = PC_NGN,
     ps_http = \<lambda>_ _. Reply 200 (Some (JObject [(''status'', JBool True), (''data'', JObject [(''reference'', JString ''ref''),
       (''status'', JString ''Success''), (''amount'', JInt 2500), (''currency'', JString '' ngn ''), (''paid_at'', JString ''Z'')])])),
     ps_hmac_sha512 = (@), ps_sha256 = \<lambda>s. s,
     ps_json_loads = \<lambda>s. Some (JObject [(''event'', JString ''charge.success''), (''data'', JObject [(''reference'', JString s)])]),
     ps_fromisoformat = \<lambda>_. Some 40, ps_repr = \<lambda>_. []\<rparr>"

definition sample_body :: "(string \<times> json) list" where
  "sample_body = [(''event'', JString ''charge.success''), (''data'', JObject [(''reference'', JString ''ref'')])]"

definition paid_db :: db where
  "paid_db = fst (handle_webhook sample_paystack (\<lambda>_. []) payment_db ''ref'' (Some ''kref'') 50)"

lemma paid_db_result: "handle_webhook sample_paystack (\<lambda>_. []) payment_db ''ref'' (Some ''kref'') 50 =
    (paid_db, snd (handle_webhook sample_paystack (\<lambda>_. []) payment_db ''ref'' (Some ''kref'') 50))"
  by (simp add: paid_db_def)

lemma paid_db_invoices: "invoices paid_db = [sample_invoice\<lparr>inv_status := IS_PAID, inv_paid_at := Some 40\<rparr>]"
  by code_simp

lemma sample_genuine: "genuine sample_paystack ''ref'' (Some ''kref'') sample_body"
  by code_simp

theorem paid_invoice_is_final_witness:
  "confirm_manual_transfer sample_paystack paid_db 1 501 ''bank'' 9 60 ''s'' ''h'' 602 = (paid_db, Inl InvoiceNotPayableError)"
proof -
  have "distinct (map inv_id (invoices paid_db))" "configured sample_paystack" by code_simp+
  moreover have "sample_invoice\<lparr>inv_status := IS_PAID, inv_paid_at := Some 40\<rparr> \<in> set (invoices paid_db)"
    by (simp add: paid_db_invoices)
  ultimately have "confirm_manual_transfer sample_paystack paid_db (inv_school_id sample_invoice) (inv_id sample_invoice)
      ''bank'' 9 60 ''s'' ''h'' 602 = (paid_db, Inl InvoiceNotPayableError)"
    using paid_invoice_is_final[OF rtranclp.rtrancl_refl, of paid_db "sample_invoice\<lparr>inv_status := IS_PAID, inv_paid_at := Some 40\<rparr>" sample_paystack]
    by simp
  then show ?thesis by (simp add: sample_invoice_def)
qed

theorem webhook_pays_only_confirmed_money_witness:
  "\<exists>ref key data. success_reply sample_paystack (ps_http sample_paystack key (GET (base_url sample_paystack @ ''/transaction/verify/'' @ ref))) data \<and>
     invoices paid_db \<noteq> invoices payment_db"
proof -
  have "map inv_status (invoices paid_db) \<noteq> map inv_status (invoices payment_db)" by code_simp
  then have "invoices paid_db \<noteq> invoices payment_db" by metis
  then show ?thesis using webhook_pays_only_confirmed_money[OF paid_db_result] by blast
qed

theorem webhook_at_most_once_witness:
  "handle_webhook (sample_paystack\<lparr>ps_http := \<lambda>_ _. NoReply ''down''\<rparr>) (\<lambda>_. []) paid_db ''ref'' (Some ''kref'') 70 = (paid_db, Inr None)"
proof -
  have "distinct (map inv_id (invoices payment_db))" by code_simp
  from webhook_at_most_once[OF paid_db_result sample_genuine this rtranclp.rtrancl_refl] show ?thesis .
qed

theorem confirmed_payment_settles_witness:
  "\<exists>d' out. verify_reference sample_paystack payment_db ''ref'' 50 = (d', Inr out) \<and> po_invoice_paid out \<and>
     (sample_student\<lparr>u_status := US_INVITED\<rparr>)\<lparr>u_status := US_ACTIVE\<rparr> \<in> set (users d')"
proof -
  let ?t = "hd (payment_transactions payment_db)"
  have a: "configured sample_paystack" "transaction_by_reference payment_db ''ref'' = Some ?t" "tx_status ?t \<noteq> PT_SUCCESS"
    "tx_invoice_id ?t = Some 501" "get_by inv_id 501 (invoices payment_db) = Some sample_invoice" "inv_status sample_invoice \<noteq> IS_PAID"
    "verify_transaction sample_paystack ''ref'' = Inr confirmed" "pt_reference confirmed = ''ref''" "pt_status confirmed = PT_SUCCESS"
    "pt_paid_at confirmed = Some 40" "amount_matches (tx_amount_minor ?t) (pricing_currency_value (tx_currency ?t)) confirmed"
    by code_simp+
  have "sample_student\<lparr>u_status := US_INVITED\<rparr> \<in> set (users payment_db)"
    by (simp add: payment_db_def create_transaction_def)
  moreover have "u_id (sample_student\<lparr>u_status := US_INVITED\<rparr>) \<in> set (inv_activation_student_ids sample_invoice)"
    "u_school_id (sample_student\<lparr>u_status := US_INVITED\<rparr>) = Some (inv_school_id sample_invoice)"
    "u_role (sample_student\<lparr>u_status := US_INVITED\<rparr>) = UR_STUDENT" "u_status (sample_student\<lparr>u_status := US_INVITED\<rparr>) = US_INVITED"
    by code_simp+
  ultimately show ?thesis using confirmed_payment_settles[OF a, of 50] by blast
qed

end
