(* ===== verification/Billing.thy ===== *)
theory Billing
  imports Payments
begin

text \<open>
  Raising invoices (\<^verbatim>\<open>nevo/billing/service.py\<close>, \<^verbatim>\<open>issuance.py\<close>, \<^verbatim>\<open>email_worker.py\<close>) and the two scheduled jobs over
  them (\<^verbatim>\<open>nevo/ops/scheduled_jobs.py\<close>).  The sweep prices every started billing period of an active contract,
  writes the invoice, queues the e-mails and tells the administrators; the worker then delivers one queued e-mail at a
  time.  Money is a rational, the identifiers the database draws are functions of the row they name, and what the mail
  provider answers is an argument.
\<close>

subsection \<open>Vocabulary\<close>

datatype rate_type = RT_FOUNDING_PARTNER | RT_STANDARD

datatype access_window = AW_YEAR_ROUND | AW_SCHOOL_SESSION

datatype contract_status = CT_ACTIVE | CT_SUSPENDED | CT_TERMINATED | CT_PENDING_RENEWAL

text \<open>The package's errors, and the Python and database exceptions its calls can end in.\<close>

datatype billing_error =
    BillingNotFoundError
  | BillingSchoolContextError
  | BillingPaymentMethodError
  | BillingValueError
  | BillingOverflowError
  | BillingAttributeError
  | BillingIntegrityError

subsection \<open>Dates\<close>

text \<open>
  \<^verbatim>\<open>date + timedelta(days=n)\<close>, which raises \<^verbatim>\<open>OverflowError\<close> outside the years 1 to 9999, and
  \<^verbatim>\<open>date.fromisoformat\<close>: calendar and week dates, with or without separators.
\<close>

definition days_from_civil :: "date \<Rightarrow> int" where
  "days_from_civil d =
     (let y = (if date_month d \<le> 2 then date_year d - 1 else date_year d);
          era = y div 400;
          yoe = y mod 400;
          doy = (153 * ((date_month d + 9) mod 12) + 2) div 5 + date_day d - 1;
          doe = yoe * 365 + yoe div 4 - yoe div 100 + doy in
      era * 146097 + doe - 719468)"

definition date_plus :: "date \<Rightarrow> int \<Rightarrow> billing_error + date" where
  "date_plus d n =
     (let e = civil_from_days (days_from_civil d + n) in
      if 1 \<le> date_year e \<and> date_year e \<le> 9999 then Inr e else Inl BillingOverflowError)"

definition checked_date :: "int \<Rightarrow> int \<Rightarrow> int \<Rightarrow> date option" where
  "checked_date y m d = (if valid_date (Date y m d) then Some (Date y m d) else None)"

definition weekday :: "date \<Rightarrow> int" where
  "weekday d = (days_from_civil d + 3) mod 7"

definition week_date :: "int \<Rightarrow> int \<Rightarrow> int \<Rightarrow> date option" where
  "week_date y w n =
     (let first = weekday (Date y 1 1);
          long = (first = 3 \<or> (first = 2 \<and> is_leap_year y));
          monday = days_from_civil (Date y 1 1) - first + (if 3 < first then 7 else 0);
          e = civil_from_days (monday + (w - 1) * 7 + n - 1) in
      if 1 \<le> y \<and> 1 \<le> w \<and> w \<le> (if long then 53 else 52) \<and> 1 \<le> n \<and> n \<le> 7 \<and> 1 \<le> date_year e \<and> date_year e \<le> 9999
      then Some e else None)"

fun date_fromisoformat :: "string \<Rightarrow> date option" where
  "date_fromisoformat s =
     (let sep = (drop 4 s \<noteq> [] \<and> hd (drop 4 s) = CHR ''-'');
          rest = (if sep then drop 5 s else drop 4 s);
          y = take 4 s in
      if length s \<notin> {7, 8, 10} \<or> \<not> py_isdigit y then None
      else if take 1 rest = ''W'' then
        (let w = take 2 (drop 1 rest); tail = drop 3 rest in
         if length w \<noteq> 2 \<or> \<not> py_isdigit w then None
         else if tail = [] then week_date (py_int y) (py_int w) 1
         else (let n = (if sep then drop 1 tail else tail) in
               if (sep \<and> hd tail \<noteq> CHR ''-'') \<or> length n \<noteq> 1 \<or> \<not> py_isdigit n then None
               else week_date (py_int y) (py_int w) (py_int n)))
      else
        (let m = take 2 rest; tail = drop 2 rest; n = (if sep then drop 1 tail else tail) in
         if \<not> py_isdigit m \<or> (sep \<and> take 1 tail \<noteq> ''-'') \<or> length n \<noteq> 2 \<or> \<not> py_isdigit n then None
         else checked_date (py_int y) (py_int m) (py_int n)))"

subsection \<open>Prices\<close>

definition VAT_RATE :: decimal where
  "VAT_RATE = 15 / 2"

fun PUBLISHED_RATES_NGN :: "pricing_plan \<Rightarrow> decimal" where
  "PUBLISHED_RATES_NGN PP_ANNUAL = 150000"
| "PUBLISHED_RATES_NGN PP_PER_TERM = 55000"

fun ACCESS_WINDOWS :: "pricing_plan \<Rightarrow> access_window" where
  "ACCESS_WINDOWS PP_ANNUAL = AW_YEAR_ROUND"
| "ACCESS_WINDOWS PP_PER_TERM = AW_SCHOOL_SESSION"

definition published_rate :: "pricing_plan \<Rightarrow> decimal" where
  "published_rate plan = PUBLISHED_RATES_NGN plan"

definition money :: "decimal \<Rightarrow> decimal" where
  "money v = from_minor_units (to_minor_units v)"

record per_student_quote =
  q_pricing_plan :: pricing_plan
  q_student_count :: int
  q_per_student_rate :: decimal
  q_rate_type :: rate_type
  q_rate_locked_until :: "datetime option"
  q_access_window :: access_window
  q_total_before_vat :: decimal
  q_vat_rate :: decimal
  q_vat_amount :: decimal
  q_total_with_vat :: decimal
  q_currency :: pricing_currency

definition quote_per_student ::
  "pricing_plan \<Rightarrow> int \<Rightarrow> rate_type \<Rightarrow> decimal option \<Rightarrow> datetime option \<Rightarrow> pricing_currency
     \<Rightarrow> billing_error + per_student_quote" where
  "quote_per_student plan student_count rt per_student_rate rate_locked_until currency =
     (if student_count < 0 then Inl BillingValueError
      else let rate = (case per_student_rate of Some r \<Rightarrow> r | None \<Rightarrow> published_rate plan) in
        if rate < 0 then Inl BillingValueError
        else let total_before_vat = money (rate * of_int student_count);
                 vat_amount = money (total_before_vat * VAT_RATE / 100) in
          Inr \<lparr>q_pricing_plan = plan, q_student_count = student_count, q_per_student_rate = money rate, q_rate_type = rt,
            q_rate_locked_until = rate_locked_until, q_access_window = ACCESS_WINDOWS plan,
            q_total_before_vat = total_before_vat, q_vat_rate = VAT_RATE, q_vat_amount = vat_amount,
            q_total_with_vat = money (total_before_vat + vat_amount), q_currency = currency\<rparr>)"

subsection \<open>Tables\<close>

record contract_row =
  ct_id :: uuid
  ct_school_id :: uuid
  ct_tier_id :: uuid
  ct_status :: contract_status
  ct_is_founding_partner :: bool
  ct_payment_source :: payment_source
  ct_start_date :: date
  ct_end_date :: date
  ct_current_year_index :: int

record delivery_row =
  bd_id :: uuid
  bd_invoice_id :: uuid
  bd_email :: string
  bd_kind :: string
  bd_status :: string
  bd_attempt_count :: int
  bd_next_attempt_at :: datetime
  bd_last_error :: "string option"
  bd_delivered_at :: "datetime option"

record billing_db =
  bl_db :: db
  contracts :: "contract_row list"
  deliveries :: "delivery_row list"

definition contract_ok :: "contract_row \<Rightarrow> bool" where
  "contract_ok c = (1 \<le> ct_current_year_index c \<and> ct_current_year_index c \<le> 6 \<and> ct_start_date c \<le> ct_end_date c)"

definition delivery_key :: "delivery_row \<Rightarrow> uuid \<times> string \<times> string" where
  "delivery_key r = (bd_invoice_id r, bd_email r, bd_kind r)"

definition billing_tables_ok :: "billing_db \<Rightarrow> bool" where
  "billing_tables_ok b = (distinct (map ct_id (contracts b)) \<and> list_all contract_ok (contracts b) \<and>
     distinct (map bd_id (deliveries b)) \<and> distinct (map delivery_key (deliveries b)))"

text \<open>\<^verbatim>\<open>Numeric(12, 2)\<close> holds ten digits before the point.\<close>

definition fits_numeric :: "decimal \<Rightarrow> bool" where
  "fits_numeric x = (\<bar>x\<bar> < 10 ^ 10)"

definition fits_optional :: "decimal option \<Rightarrow> bool" where
  "fits_optional x = (case x of None \<Rightarrow> True | Some v \<Rightarrow> fits_numeric v)"

text \<open>
  What the sweep takes from outside: how a JSON float, list or dict prints, the keys the database draws for a new invoice and a
  new delivery, the currency billed in and the server's clock.
\<close>

record billing_env =
  be_repr :: "json \<Rightarrow> string"
  be_invoice_id :: "string \<Rightarrow> uuid"
  be_delivery_id :: "uuid \<Rightarrow> string \<Rightarrow> string \<Rightarrow> uuid"
  be_currency :: pricing_currency
  be_now :: datetime

subsection \<open>Billing periods\<close>

definition PAYMENT_TERM_DAYS :: int where "PAYMENT_TERM_DAYS = 30"
definition DAYS_PER_CONTRACT_YEAR :: int where "DAYS_PER_CONTRACT_YEAR = 365"
definition MAX_CONTRACT_YEARS :: int where "MAX_CONTRACT_YEARS = 6"
definition TERMS_PER_YEAR :: nat where "TERMS_PER_YEAR = 3"
definition TERM_DATES_KEY :: string where "TERM_DATES_KEY = ''term_start_dates''"

record billing_period =
  bp_number :: string
  bp_label :: string
  bp_starts_on :: date

definition period_start :: "date \<Rightarrow> int \<Rightarrow> billing_error + date" where
  "period_start start_date year_index = date_plus start_date (DAYS_PER_CONTRACT_YEAR * (year_index - 1))"

definition school_slug :: "string \<Rightarrow> string" where
  "school_slug school_code = take 20 (filter char_isalnum (py_upper school_code))"

definition invoice_number :: "string \<Rightarrow> int \<Rightarrow> int option \<Rightarrow> string" where
  "invoice_number school_code year_index t =
     ''NEVO-'' @ school_slug school_code @ ''-Y'' @ int_str year_index @
     (case t of None \<Rightarrow> [] | Some n \<Rightarrow> ''T'' @ int_str n)"

fun parse_dates :: "(json \<Rightarrow> string) \<Rightarrow> json list \<Rightarrow> date list option" where
  "parse_dates repr [] = Some []"
| "parse_dates repr (v # vs) =
     (case date_fromisoformat (json_str repr v) of
        None \<Rightarrow> None
      | Some d \<Rightarrow> map_option ((#) d) (parse_dates repr vs))"

definition configured_terms :: "(json \<Rightarrow> string) \<Rightarrow> school_row \<Rightarrow> billing_error + date list" where
  "configured_terms repr s =
     (case sch_academic_config s of
        JObject kvs \<Rightarrow>
          (case dict_get kvs TERM_DATES_KEY of
             JList raw \<Rightarrow> (case parse_dates repr raw of None \<Rightarrow> Inr [] | Some ds \<Rightarrow> Inr (sort ds))
           | _ \<Rightarrow> Inr [])
      | _ \<Rightarrow> Inl BillingAttributeError)"

text \<open>The three starts of an unconfigured year; the first that leaves the calendar raises.\<close>

fun spaced_dates :: "date \<Rightarrow> int list \<Rightarrow> billing_error + date list" where
  "spaced_dates d [] = Inr []"
| "spaced_dates d (n # ns) =
     (case date_plus d n of Inl e \<Rightarrow> Inl e
      | Inr x \<Rightarrow> (case spaced_dates d ns of Inl e \<Rightarrow> Inl e | Inr xs \<Rightarrow> Inr (x # xs)))"

definition term_starts :: "date \<Rightarrow> date list \<Rightarrow> billing_error + date list" where
  "term_starts year_start term_start_dates =
     (if length term_start_dates = TERMS_PER_YEAR then Inr term_start_dates
      else let span = DAYS_PER_CONTRACT_YEAR div int TERMS_PER_YEAR in
        spaced_dates year_start (map (\<lambda>i. span * int i) [0..<TERMS_PER_YEAR]))"

definition periods_for ::
  "pricing_plan \<Rightarrow> string \<Rightarrow> date \<Rightarrow> int \<Rightarrow> date list \<Rightarrow> billing_error + billing_period list" where
  "periods_for plan school_code contract_start year_index term_start_dates =
     (case period_start contract_start year_index of
        Inl e \<Rightarrow> Inl e
      | Inr year_start \<Rightarrow>
          (case plan of
             PP_ANNUAL \<Rightarrow> Inr [\<lparr>bp_number = invoice_number school_code year_index None,
               bp_label = ''Year '' @ int_str year_index, bp_starts_on = year_start\<rparr>]
           | PP_PER_TERM \<Rightarrow>
               (case term_starts year_start term_start_dates of
                  Inl e \<Rightarrow> Inl e
                | Inr starts \<Rightarrow>
                    Inr (map (\<lambda>i. \<lparr>bp_number = invoice_number school_code year_index (Some (int i)),
                      bp_label = ''Year '' @ int_str year_index @ '' Term '' @ int_str (int i),
                      bp_starts_on = starts ! (i - 1)\<rparr>) [1..<TERMS_PER_YEAR + 1]))))"

subsection \<open>The sweep\<close>

definition billable_students :: "db \<Rightarrow> uuid \<Rightarrow> nat \<times> uuid list" where
  "billable_students d school_id =
     (let rows = filter (\<lambda>u. u_school_id u = Some school_id \<and> u_role u = UR_STUDENT \<and>
                   u_status u \<in> {US_ACTIVE, US_INVITED} \<and>
                   exists_where (\<lambda>l. pl_student_id l = u_id u \<and> pl_parent_contact l \<noteq> []) (parent_links d)) (users d) in
      (length rows, map u_id (filter (\<lambda>u. u_status u = US_INVITED) rows)))"

text \<open>\<^verbatim>\<open>{amount:,.2f}\<close>, on an amount of whole kobo.\<close>

fun group_thousands :: "string \<Rightarrow> string" where
  "group_thousands (a # b # c # d # ds) = a # b # c # CHR '','' # group_thousands (d # ds)"
| "group_thousands ds = ds"

definition grouped_amount :: "decimal \<Rightarrow> string" where
  "grouped_amount x =
     (let n = to_minor_units x; m = nat \<bar>n\<bar> in
      (if n < 0 then ''-'' else []) @ rev (group_thousands (rev (nat_str (m div 100)))) @ ''.'' @ padded_digits 10 2 (m mod 100))"

definition billing_notices ::
  "db \<Rightarrow> school_row \<Rightarrow> string \<Rightarrow> string \<Rightarrow> decimal \<Rightarrow> pricing_currency \<Rightarrow> date \<Rightarrow> datetime \<Rightarrow> notification_row list" where
  "billing_notices d s number label amount currency due_on now =
     map (\<lambda>u. \<lparr>n_recipient_id = u_id u, n_recipient_role = user_role_value (u_role u),
        n_type = notification_type_value NT_INVOICE_ISSUED, n_title = ''Invoice '' @ number @ '' is ready'',
        n_description = label @ '': '' @ pricing_currency_value currency @ '' '' @ grouped_amount amount @ '', due '' @ isoformat due_on @ ''.'',
        n_navigates_to = Some ''/admin/billing'', n_read = False, n_category = notification_category_value NC_BILLING,
        n_archived_at = None, n_created_at = now\<rparr>)
     (filter (\<lambda>u. u_school_id u = Some (sch_id s) \<and> u_role u \<in> {UR_SENCO_ADMIN, UR_OTHER_ADMIN} \<and> u_status u = US_ACTIVE) (users d))"

definition emails_to_queue :: "billing_db \<Rightarrow> invoice_row \<Rightarrow> string \<Rightarrow> string list" where
  "emails_to_queue b i kind =
     remdups (filter (\<lambda>e. \<not> exists_where (\<lambda>r. bd_invoice_id r = inv_id i \<and> bd_kind r = kind \<and> bd_email r = e) (deliveries b))
       (map bc_email (filter (\<lambda>c. bc_school_id c = inv_school_id i) (billing_contacts (bl_db b)))))"

definition new_delivery :: "billing_env \<Rightarrow> uuid \<Rightarrow> string \<Rightarrow> string \<Rightarrow> delivery_row" where
  "new_delivery env i kind e = \<lparr>bd_id = be_delivery_id env i e kind, bd_invoice_id = i, bd_email = e, bd_kind = kind,
     bd_status = ''pending'', bd_attempt_count = 0, bd_next_attempt_at = be_now env, bd_last_error = None, bd_delivered_at = None\<rparr>"

definition queue_billing_emails :: "billing_env \<Rightarrow> invoice_row \<Rightarrow> string \<Rightarrow> billing_db \<Rightarrow> billing_db \<times> nat" where
  "queue_billing_emails env i kind b =
     (let es = emails_to_queue b i kind in
      (b\<lparr>deliveries := deliveries b @ map (new_delivery env (inv_id i) kind) es\<rparr>, length es))"

definition invoice_for ::
  "billing_env \<Rightarrow> date \<Rightarrow> school_row \<Rightarrow> uuid list \<Rightarrow> billing_period \<Rightarrow> date \<Rightarrow> per_student_quote \<Rightarrow> invoice_row" where
  "invoice_for env issue_date s activation p due q =
     \<lparr>inv_id = be_invoice_id env (bp_number p), inv_invoice_number = bp_number p, inv_school_id = sch_id s,
      inv_issued_at = issue_date, inv_amount = q_total_with_vat q, inv_status = IS_PENDING, inv_due_at = due, inv_paid_at = None,
      inv_pdf_url = ''/api/billing/invoices/'' @ uuid_str (sch_id s) @ ''/'' @ bp_number p @ ''.pdf'',
      inv_currency = q_currency q, inv_student_count = Some (q_student_count q), inv_activation_student_ids = activation,
      inv_per_student_rate = Some (q_per_student_rate q), inv_total_before_vat = Some (q_total_before_vat q),
      inv_vat_amount = Some (q_vat_amount q), inv_vat_rate = Some (q_vat_rate q), inv_period_label = Some (bp_label p)\<rparr>"

definition invoice_fits :: "invoice_row \<Rightarrow> bool" where
  "invoice_fits i = (fits_numeric (inv_amount i) \<and> fits_optional (inv_per_student_rate i) \<and>
     fits_optional (inv_total_before_vat i) \<and> fits_optional (inv_vat_amount i))"

text \<open>One period that has started and has no invoice: the quote, the row, the flush, the e-mails and the notices.\<close>

definition issue_invoice ::
  "billing_env \<Rightarrow> date \<Rightarrow> contract_row \<Rightarrow> school_row \<Rightarrow> nat \<times> uuid list \<Rightarrow> billing_period \<Rightarrow> billing_db \<Rightarrow> billing_error + billing_db" where
  "issue_invoice env issue_date c s billable p b =
     (case quote_per_student (sch_pricing_plan s) (int (fst billable))
             (if ct_is_founding_partner c \<or> sch_is_founding_partner s then RT_FOUNDING_PARTNER else RT_STANDARD)
             (sch_per_student_rate s) (sch_price_lock_expiry s) (be_currency env) of
        Inl e \<Rightarrow> Inl e
      | Inr q \<Rightarrow>
          (case date_plus issue_date PAYMENT_TERM_DAYS of
             Inl e \<Rightarrow> Inl e
           | Inr due \<Rightarrow>
               (let i = invoice_for env issue_date s (snd billable) p due q;
                    d = bl_db b;
                    d1 = d\<lparr>invoices := invoices d @ [i]\<rparr> in
                if \<not> invoices_ok (invoices d1) \<or> \<not> invoice_fits i then Inl BillingIntegrityError
                else
                  (let b1 = fst (queue_billing_emails env i ''issued'' (b\<lparr>bl_db := d1\<rparr>));
                       notes = billing_notices d1 s (bp_number p) (bp_label p) (q_total_with_vat q) (q_currency q) due (be_now env) in
                   Inr (b1\<lparr>bl_db := d1\<lparr>notifications := notifications d1 @ notes\<rparr>\<rparr>)))))"

text \<open>The inner loop returns the state, the number of periods still outstanding and the number issued.\<close>

fun bill_periods ::
  "billing_env \<Rightarrow> date \<Rightarrow> contract_row \<Rightarrow> school_row \<Rightarrow> nat \<times> uuid list \<Rightarrow> billing_period list \<Rightarrow> billing_db
     \<Rightarrow> billing_error + billing_db \<times> nat \<times> nat" where
  "bill_periods env today c s billable [] b = Inr (b, 0, 0)"
| "bill_periods env today c s billable (p # ps) b =
     (if exists_where (\<lambda>i. inv_invoice_number i = bp_number p) (invoices (bl_db b)) then bill_periods env today c s billable ps b
      else if today < bp_starts_on p then
        (case bill_periods env today c s billable ps b of
           Inl e \<Rightarrow> Inl e | Inr (b', outstanding, issued) \<Rightarrow> Inr (b', Suc outstanding, issued))
      else
        (case issue_invoice env today c s billable p b of
           Inl e \<Rightarrow> Inl e
         | Inr b1 \<Rightarrow>
             (case bill_periods env today c s billable ps b1 of
                Inl e \<Rightarrow> Inl e | Inr (b', outstanding, issued) \<Rightarrow> Inr (b', outstanding, Suc issued))))"

definition advance_contract_year :: "contract_row \<Rightarrow> date \<Rightarrow> billing_error + contract_row option" where
  "advance_contract_year c issue_date =
     (let next_index = ct_current_year_index c + 1 in
      if MAX_CONTRACT_YEARS < next_index then Inr None
      else
        (case period_start (ct_start_date c) next_index of
           Inl e \<Rightarrow> Inl e
         | Inr next_start \<Rightarrow>
             if issue_date < next_start \<or> ct_end_date c < next_start then Inr None
             else Inr (Some (c\<lparr>ct_current_year_index := next_index\<rparr>))))"

definition put_contract :: "contract_row \<Rightarrow> billing_db \<Rightarrow> billing_db" where
  "put_contract c b = b\<lparr>contracts := update_where (\<lambda>r. ct_id r = ct_id c) (\<lambda>_. c) (contracts b)\<rparr>"

fun bill_years ::
  "nat \<Rightarrow> billing_env \<Rightarrow> date \<Rightarrow> school_row \<Rightarrow> nat \<times> uuid list \<Rightarrow> date list \<Rightarrow> contract_row \<Rightarrow> billing_db
     \<Rightarrow> billing_error + billing_db \<times> nat" where
  "bill_years 0 env today s billable ts c b = Inr (b, 0)"
| "bill_years (Suc n) env today s billable ts c b =
     (case periods_for (sch_pricing_plan s) (sch_school_code s) (ct_start_date c) (ct_current_year_index c) ts of
        Inl e \<Rightarrow> Inl e
      | Inr ps \<Rightarrow>
          (case bill_periods env today c s billable ps b of
             Inl e \<Rightarrow> Inl e
           | Inr (b1, outstanding, issued) \<Rightarrow>
               if outstanding \<noteq> 0 then Inr (b1, issued)
               else
                 (case advance_contract_year c today of
                    Inl e \<Rightarrow> Inl e
                  | Inr None \<Rightarrow> Inr (b1, issued)
                  | Inr (Some c') \<Rightarrow>
                      (case bill_years n env today s billable ts c' (put_contract c' b1) of
                         Inl e \<Rightarrow> Inl e | Inr (b2, more_issued) \<Rightarrow> Inr (b2, issued + more_issued)))))"

definition bill_contract ::
  "billing_env \<Rightarrow> date \<Rightarrow> contract_row \<Rightarrow> school_row \<Rightarrow> billing_db \<Rightarrow> billing_error + billing_db \<times> nat" where
  "bill_contract env today c s b =
     (case configured_terms (be_repr env) s of
        Inl e \<Rightarrow> Inl e
      | Inr ts \<Rightarrow> bill_years (nat MAX_CONTRACT_YEARS) env today s (billable_students (bl_db b) (sch_id s)) ts c b)"

fun bill_contracts ::
  "billing_env \<Rightarrow> date \<Rightarrow> (contract_row \<times> school_row) list \<Rightarrow> billing_db \<Rightarrow> billing_error + billing_db \<times> nat" where
  "bill_contracts env today [] b = Inr (b, 0)"
| "bill_contracts env today ((c, s) # rows) b =
     (case bill_contract env today c s b of
        Inl e \<Rightarrow> Inl e
      | Inr (b1, issued) \<Rightarrow>
          (case bill_contracts env today rows b1 of
             Inl e \<Rightarrow> Inl e | Inr (b2, more_issued) \<Rightarrow> Inr (b2, issued + more_issued)))"

definition active_contracts :: "billing_db \<Rightarrow> (contract_row \<times> school_row) list" where
  "active_contracts b = [(c, s). c \<leftarrow> contracts b, ct_status c = CT_ACTIVE, s \<leftarrow> schools (bl_db b), sch_id s = ct_school_id c]"

record issuance_result =
  ir_considered :: nat
  ir_issued :: nat

definition issue_due_invoices :: "billing_env \<Rightarrow> billing_db \<Rightarrow> date \<Rightarrow> billing_db \<times> (billing_error + issuance_result)" where
  "issue_due_invoices env b today =
     (let rows = active_contracts b in
      case bill_contracts env today rows b of
        Inl e \<Rightarrow> (b, Inl e)
      | Inr (b', issued) \<Rightarrow>
          if billing_tables_ok b' then (b', Inr \<lparr>ir_considered = length rows, ir_issued = issued\<rparr>)
          else (b, Inl BillingIntegrityError))"

subsection \<open>The scheduled jobs\<close>

definition reminder_kind :: "date \<Rightarrow> invoice_row \<Rightarrow> billing_error + string option" where
  "reminder_kind today i =
     (if inv_due_at i = today then Inr (Some ''reminder_due'')
      else (case date_plus today 7 of
              Inl e \<Rightarrow> Inl e
            | Inr week \<Rightarrow> Inr (if inv_due_at i = week then Some ''reminder_7d'' else None)))"

fun remind_each :: "billing_env \<Rightarrow> date \<Rightarrow> invoice_row list \<Rightarrow> billing_db \<Rightarrow> billing_error + billing_db \<times> nat" where
  "remind_each env today [] b = Inr (b, 0)"
| "remind_each env today (i # is) b =
     (let (b1, n1) = queue_billing_emails env i ''issued'' b in
      case reminder_kind today i of
        Inl e \<Rightarrow> Inl e
      | Inr kind \<Rightarrow>
          (let (b2, n2) = (case kind of None \<Rightarrow> (b1, 0) | Some k \<Rightarrow> queue_billing_emails env i k b1) in
           case remind_each env today is b2 of
             Inl e \<Rightarrow> Inl e
           | Inr (b3, n3) \<Rightarrow> Inr (b3, n1 + n2 + n3)))"

definition invoice_reminders :: "billing_env \<Rightarrow> billing_db \<Rightarrow> date \<Rightarrow> billing_db \<times> (billing_error + nat)" where
  "invoice_reminders env b today =
     (case remind_each env today (filter (\<lambda>i. inv_status i = IS_PENDING) (invoices (bl_db b))) b of
        Inl e \<Rightarrow> (b, Inl e)
      | Inr (b', queued) \<Rightarrow> if billing_tables_ok b' then (b', Inr queued) else (b, Inl BillingIntegrityError))"

definition collectable_invoices :: "db \<Rightarrow> date \<Rightarrow> (uuid \<times> uuid) list" where
  "collectable_invoices d today =
     map (\<lambda>i. (inv_school_id i, inv_id i)) (take 500 (sort_key inv_due_at
       (filter (\<lambda>i. inv_status i \<in> {IS_PENDING, IS_OVERDUE} \<and> inv_due_at i \<le> today) (invoices d))))"

text \<open>The clock, the reference's time stamp and random suffix and the new key of each charge are functions of the invoice.\<close>

record charge_draw =
  cd_now :: datetime
  cd_stamp :: string
  cd_token_hex :: string
  cd_id :: uuid

fun collect_each :: "paystack \<Rightarrow> (uuid \<Rightarrow> charge_draw) \<Rightarrow> (uuid \<times> uuid) list \<Rightarrow> db \<Rightarrow> db \<times> nat \<times> nat" where
  "collect_each ps draw [] d = (d, 0, 0)"
| "collect_each ps draw ((school_id, invoice_id) # due) d =
     (let (d1, res) = charge_saved_method ps d school_id invoice_id (cd_now (draw invoice_id)) (cd_stamp (draw invoice_id))
            (cd_token_hex (draw invoice_id)) (cd_id (draw invoice_id));
          paid = (case res of Inl e \<Rightarrow> False | Inr outcome \<Rightarrow> po_invoice_paid outcome);
          (d2, collected, skipped) = collect_each ps draw due d1 in
      if paid then (d2, Suc collected, skipped) else (d2, collected, Suc skipped))"

definition collect_due_invoices :: "paystack \<Rightarrow> (uuid \<Rightarrow> charge_draw) \<Rightarrow> db \<Rightarrow> date \<Rightarrow> db \<times> (nat \<times> nat) option" where
  "collect_due_invoices ps draw d today =
     (if \<not> configured ps then (d, None)
      else (let (d', collected, skipped) = collect_each ps draw (collectable_invoices d today) d in
            (d', Some (collected, skipped))))"

subsection \<open>The e-mail worker\<close>

text \<open>\<^verbatim>\<open>str(amount)\<close> of a \<^verbatim>\<open>Numeric(12, 2)\<close> column and the way a rate is written on an invoice.\<close>

definition plain_amount :: "decimal \<Rightarrow> string" where
  "plain_amount x = (let n = to_minor_units x; m = nat \<bar>n\<bar> in
     (if n < 0 then ''-'' else []) @ nat_str (m div 100) @ ''.'' @ padded_digits 10 2 (m mod 100))"

definition rstrip_char :: "char \<Rightarrow> string \<Rightarrow> string" where
  "rstrip_char c s = rev (dropWhile ((=) c) (rev s))"

definition percent :: "decimal \<Rightarrow> string" where
  "percent rate = rstrip_char (CHR ''.'') (rstrip_char (CHR ''0'') (plain_amount rate))"

definition or_none :: "decimal option \<Rightarrow> string" where
  "or_none x = (case x of None \<Rightarrow> ''None'' | Some v \<Rightarrow> plain_amount v)"

definition invoice_working :: "invoice_row \<Rightarrow> string list" where
  "invoice_working i =
     (case (inv_student_count i, inv_per_student_rate i) of
        (Some n, Some r) \<Rightarrow>
          (let currency = pricing_currency_value (inv_currency i);
               vat_line = (case inv_vat_rate i of None \<Rightarrow> ''VAT'' | Some v \<Rightarrow> ''VAT ('' @ percent v @ ''%)'') in
           [''Period: '' @ (case inv_period_label i of None \<Rightarrow> ''Contract period'' | Some l \<Rightarrow> if l = [] then ''Contract period'' else l),
            ''Students: '' @ int_str n,
            ''Rate per student: '' @ currency @ '' '' @ plain_amount r,
            ''Subtotal: '' @ currency @ '' '' @ or_none (inv_total_before_vat i),
            vat_line @ '': '' @ currency @ '' '' @ or_none (inv_vat_amount i)])
      | _ \<Rightarrow> [])"

record invoice_email =
  em_to :: string
  em_subject :: string
  em_text :: string
  em_attachment :: string
  em_lines :: "string list"

definition email_for :: "delivery_row \<Rightarrow> invoice_row \<Rightarrow> school_row \<Rightarrow> invoice_email" where
  "email_for r i s =
     (let label = (if bd_kind r = ''issued'' then ''Invoice'' else ''Payment reminder'');
          currency = pricing_currency_value (inv_currency i) in
      \<lparr>em_to = bd_email r, em_subject = ''Nevo '' @ py_casefold label @ '': '' @ inv_invoice_number i,
       em_text = sch_name s @ '': invoice '' @ inv_invoice_number i @ '' for '' @
         (case inv_period_label i of None \<Rightarrow> ''None'' | Some l \<Rightarrow> l) @ '', '' @ currency @ '' '' @ grouped_amount (inv_amount i) @
         '', due '' @ isoformat (inv_due_at i) @ ''.'',
       em_attachment = inv_invoice_number i @ ''.pdf'',
       em_lines = [''NEVO LEARNING INVOICE'', ''Invoice: '' @ inv_invoice_number i, ''School: '' @ sch_name s,
           ''Issued: '' @ isoformat (inv_issued_at i), ''Due: '' @ isoformat (inv_due_at i)] @ invoice_working i @
         [''Total: '' @ currency @ '' '' @ plain_amount (inv_amount i), ''Status: '' @ invoice_status_value (inv_status i),
          ''This document was generated from the school'' @ [char_of (39 :: nat)] @ ''s billing record.'']\<rparr>)"

text \<open>What the provider's client does with a message: accepts it, or raises an exception with this text.\<close>

datatype send_result = Accepted | Raised string

definition due_delivery :: "datetime \<Rightarrow> delivery_row \<Rightarrow> bool" where
  "due_delivery now r = (bd_attempt_count r < 6 \<and> bd_next_attempt_at r \<le> now \<and>
     (bd_status r = ''pending'' \<or> (bd_status r = ''sending'' \<and> bd_next_attempt_at r \<le> now - td_minutes 5)))"

definition next_delivery :: "billing_db \<Rightarrow> datetime \<Rightarrow> delivery_row option" where
  "next_delivery b now =
     (case sort_key bd_next_attempt_at (sort_key bd_id (filter (due_delivery now) (deliveries b))) of
        [] \<Rightarrow> None | r # _ \<Rightarrow> Some r)"

definition update_delivery :: "uuid \<Rightarrow> (delivery_row \<Rightarrow> delivery_row) \<Rightarrow> billing_db \<Rightarrow> billing_db" where
  "update_delivery i f b = b\<lparr>deliveries := update_where (\<lambda>r. bd_id r = i) f (deliveries b)\<rparr>"

definition claimed :: "datetime \<Rightarrow> delivery_row \<Rightarrow> delivery_row" where
  "claimed now r = r\<lparr>bd_status := ''sending'', bd_attempt_count := bd_attempt_count r + 1,
     bd_next_attempt_at := now + td_minutes 5\<rparr>"

definition finished :: "string option \<Rightarrow> datetime \<Rightarrow> delivery_row \<Rightarrow> delivery_row" where
  "finished err now r =
     (if present err \<noteq> [] then
        r\<lparr>bd_status := (if 6 \<le> bd_attempt_count r then ''failed'' else ''pending''),
          bd_last_error := Some (take 1000 (present err)),
          bd_next_attempt_at := now + td_minutes (min 60 (2 ^ nat (bd_attempt_count r)))\<rparr>
      else r\<lparr>bd_status := ''sent'', bd_delivered_at := Some now, bd_last_error := None\<rparr>)"

definition finish :: "uuid \<Rightarrow> string option \<Rightarrow> datetime \<Rightarrow> billing_db \<Rightarrow> billing_db" where
  "finish i err now b = update_delivery i (finished err now) b"

definition process_next :: "(invoice_email \<Rightarrow> send_result) \<Rightarrow> billing_db \<Rightarrow> datetime \<Rightarrow> datetime \<Rightarrow> billing_db \<times> bool" where
  "process_next send b now later =
     (case next_delivery b now of
        None \<Rightarrow> (b, False)
      | Some r \<Rightarrow>
          (let b1 = update_delivery (bd_id r) (claimed now) b;
               invoice = get_by inv_id (bd_invoice_id r) (invoices (bl_db b));
               school = (case invoice of None \<Rightarrow> None | Some i \<Rightarrow> get_by sch_id (inv_school_id i) (schools (bl_db b))) in
           case (invoice, school) of
             (Some i, Some s) \<Rightarrow>
               if bd_kind r \<noteq> ''issued'' \<and> inv_status i = IS_PAID then (finish (bd_id r) None later b1, True)
               else (case send (email_for r i s) of
                       Accepted \<Rightarrow> (finish (bd_id r) None later b1, True)
                     | Raised message \<Rightarrow> (finish (bd_id r) (Some message) later b1, True))
           | _ \<Rightarrow> (finish (bd_id r) (Some ''missing invoice or school'') later b1, True)))"

end
