(* ===== verification/BillingLaws.thy ===== *)
theory BillingLaws
  imports Billing
begin

text \<open>
  What the billing sweep and the mail worker guarantee: an invoice adds up, a period is billed at most once, a second sweep on the
  same day finds nothing to do, and a delivered e-mail is never touched again.
\<close>

subsection \<open>Amounts\<close>

lemma money_kobo: "100 * money x = of_int (to_minor_units x)"
  by (simp add: money_def from_minor_units_def)

lemma to_minor_units_near:
  "\<bar>of_int (to_minor_units x) - 100 * x\<bar> \<le> 1 / 2"
proof (cases "0 \<le> x")
  case True
  define f where "f = \<lfloor>x * 100 + 1 / 2\<rfloor>"
  have "of_int f \<le> x * 100 + 1 / 2" "x * 100 + 1 / 2 < of_int f + 1" unfolding f_def by linarith+
  moreover have "to_minor_units x = f" using True by (simp add: to_minor_units_def f_def)
  ultimately show ?thesis by linarith
next
  case False
  define f where "f = \<lfloor>- x * 100 + 1 / 2\<rfloor>"
  have "of_int f \<le> - x * 100 + 1 / 2" "- x * 100 + 1 / 2 < of_int f + 1" unfolding f_def by linarith+
  moreover have "of_int (to_minor_units x) = - (of_int f :: rat)" using False by (simp add: to_minor_units_def f_def)
  ultimately show ?thesis by linarith
qed

lemma money_near: "\<bar>money x - x\<bar> \<le> 1 / 200"
  using to_minor_units_near[of x] money_kobo[of x] by linarith

lemma to_minor_units_whole: "to_minor_units (of_int n / 100) = n"
proof (cases "0 \<le> n")
  case True
  have "\<lfloor>(of_int n :: rat) + 1 / 2\<rfloor> = n" by linarith
  then show ?thesis using True by (simp add: to_minor_units_def)
next
  case False
  have "\<lfloor>- (of_int n :: rat) + 1 / 2\<rfloor> = - n" by linarith
  then show ?thesis using False by (simp add: to_minor_units_def divide_less_0_iff not_le)
qed

lemma money_whole: "100 * x = of_int n \<Longrightarrow> money x = x"
proof -
  assume a: "100 * x = of_int n"
  then have x: "x = of_int n / 100" by simp
  show ?thesis unfolding x using to_minor_units_whole[of n] by (simp add: money_def from_minor_units_def)
qed

lemma money_sum: "money (money x + money y) = money x + money y"
  by (rule money_whole[where n = "to_minor_units x + to_minor_units y"]) (simp add: distrib_left money_kobo)

lemma money_nonneg: "0 \<le> x \<Longrightarrow> 0 \<le> money x"
  by (simp add: money_def from_minor_units_def to_minor_units_def)



subsection \<open>Invoice numbers\<close>

lemma alnum_not_dash: "char_isalnum c \<Longrightarrow> c \<noteq> CHR ''-''"
  by (auto simp: char_isalnum_def char_isalpha_def char_isdigit_def Let_def)

lemma slug_no_dash: "c \<in> set (school_slug code) \<Longrightarrow> c \<noteq> CHR ''-''"
  unfolding school_slug_def by (drule in_set_takeD) (auto dest: alnum_not_dash)

definition number_slug :: "string \<Rightarrow> string" where
  "number_slug n = takeWhile (\<lambda>c. c \<noteq> CHR ''-'') (drop 5 n)"

lemma number_slug_invoice: "number_slug (invoice_number code y t) = school_slug code"
  by (simp add: number_slug_def invoice_number_def takeWhile_append2 slug_no_dash)

lemma periods_for_slug:
  assumes "periods_for plan code start y ts = Inr ps" and "p \<in> set ps"
  shows "number_slug (bp_number p) = school_slug code"
  using assms by (auto simp: periods_for_def number_slug_invoice split: sum.splits pricing_plan.splits)

subsection \<open>One sweep\<close>

definition issued :: "billing_db \<Rightarrow> billing_period \<Rightarrow> bool" where
  "issued b p = exists_where (\<lambda>i. inv_invoice_number i = bp_number p) (invoices (bl_db b))"

text \<open>The quote the sweep makes for a contract of a school.\<close>

definition sweep_quote :: "billing_env \<Rightarrow> db \<Rightarrow> contract_row \<Rightarrow> school_row \<Rightarrow> billing_error + per_student_quote" where
  "sweep_quote env d c s = quote_per_student (sch_pricing_plan s) (int (fst (billable_students d (sch_id s))))
     (if ct_is_founding_partner c \<or> sch_is_founding_partner s then RT_FOUNDING_PARTNER else RT_STANDARD)
     (sch_per_student_rate s) (sch_price_lock_expiry s) (be_currency env)"

text \<open>An invoice the sweep may write: a period of the contract's current or a later year that has started, priced off the roster.\<close>

definition due_invoice :: "billing_env \<Rightarrow> date \<Rightarrow> db \<Rightarrow> contract_row \<Rightarrow> school_row \<Rightarrow> invoice_row \<Rightarrow> bool" where
  "due_invoice env today d c s i = (\<exists>ts y ps p q due. configured_terms (be_repr env) s = Inr ts \<and>
     ct_current_year_index c \<le> y \<and> y \<le> MAX_CONTRACT_YEARS \<and>
     periods_for (sch_pricing_plan s) (sch_school_code s) (ct_start_date c) y ts = Inr ps \<and> p \<in> set ps \<and>
     bp_starts_on p \<le> today \<and> sweep_quote env d c s = Inr q \<and> date_plus today PAYMENT_TERM_DAYS = Inr due \<and>
     i = invoice_for env today s (snd (billable_students d (sch_id s))) p due q)"

lemma due_invoiceI:
  assumes "configured_terms (be_repr env) s = Inr ts" "ct_current_year_index c \<le> y" "y \<le> MAX_CONTRACT_YEARS"
    and "periods_for (sch_pricing_plan s) (sch_school_code s) (ct_start_date c) y ts = Inr ps" "p \<in> set ps"
    and "bp_starts_on p \<le> today" "sweep_quote env d c s = Inr q" "date_plus today PAYMENT_TERM_DAYS = Inr due"
  shows "due_invoice env today d c s (invoice_for env today s (snd (billable_students d (sch_id s))) p due q)"
  unfolding due_invoice_def using assms
  by (intro exI[of _ ts] exI[of _ y] exI[of _ ps] exI[of _ p] exI[of _ q] exI[of _ due]) simp

lemma due_invoiceE:
  assumes "due_invoice env today d c s i"
  obtains ts y ps p q due where "configured_terms (be_repr env) s = Inr ts" "ct_current_year_index c \<le> y" "y \<le> MAX_CONTRACT_YEARS"
    "periods_for (sch_pricing_plan s) (sch_school_code s) (ct_start_date c) y ts = Inr ps" "p \<in> set ps"
    "bp_starts_on p \<le> today" "sweep_quote env d c s = Inr q" "date_plus today PAYMENT_TERM_DAYS = Inr due"
    "i = invoice_for env today s (snd (billable_students d (sch_id s))) p due q"
  using assms unfolding due_invoice_def by (elim exE conjE) (rule that)

text \<open>What no part of the sweep changes.\<close>

definition same_roster :: "billing_db \<Rightarrow> billing_db \<Rightarrow> bool" where
  "same_roster b b' = (users (bl_db b') = users (bl_db b) \<and> schools (bl_db b') = schools (bl_db b) \<and>
     parent_links (bl_db b') = parent_links (bl_db b) \<and> billing_contacts (bl_db b') = billing_contacts (bl_db b))"

lemma same_roster_refl [simp]: "same_roster b b"
  by (simp add: same_roster_def)

lemma same_roster_trans [trans]: "\<lbrakk>same_roster a b; same_roster b c\<rbrakk> \<Longrightarrow> same_roster a c"
  by (simp add: same_roster_def)

lemma same_roster_billable: "same_roster b b' \<Longrightarrow> billable_students (bl_db b') = billable_students (bl_db b)"
  by (simp add: same_roster_def billable_students_def fun_eq_iff)

lemma same_roster_put [simp]: "same_roster b (put_contract c b') = same_roster b b'"
  by (simp add: same_roster_def put_contract_def)

lemma put_contract_invoices [simp]: "bl_db (put_contract c b) = bl_db b"
  by (simp add: put_contract_def)

lemma issue_invoice_Inr:
  assumes "issue_invoice env today c s (billable_students d (sch_id s)) p b = Inr b'"
  obtains q due where "sweep_quote env d c s = Inr q" "date_plus today PAYMENT_TERM_DAYS = Inr due"
    "invoices (bl_db b') = invoices (bl_db b) @ [invoice_for env today s (snd (billable_students d (sch_id s))) p due q]"
    "invoices_ok (invoices (bl_db b'))" "same_roster b b'" "contracts b' = contracts b"
  using assms
  by (auto simp: issue_invoice_def sweep_quote_def same_roster_def queue_billing_emails_def Let_def split: sum.splits if_splits)


text \<open>
  \<open>sweeps env today d c s b b'\<close>: going from \<open>b\<close> to \<open>b'\<close> appended due invoices of this contract, kept the invoices valid and the
  roster as it was.
\<close>

definition sweeps :: "billing_env \<Rightarrow> date \<Rightarrow> db \<Rightarrow> contract_row \<Rightarrow> school_row \<Rightarrow> nat \<Rightarrow> billing_db \<Rightarrow> billing_db \<Rightarrow> bool" where
  "sweeps env today d c s n b b' = (same_roster b b' \<and> (invoices_ok (invoices (bl_db b)) \<longrightarrow> invoices_ok (invoices (bl_db b'))) \<and>
     (\<exists>news. invoices (bl_db b') = invoices (bl_db b) @ news \<and> length news = n \<and> list_all (due_invoice env today d c s) news))"

lemma sweeps_refl [simp]: "sweeps env today d c s 0 b b"
  by (simp add: sweeps_def)

lemma sweeps_trans: "\<lbrakk>sweeps env today d c s m a b; sweeps env today d c s n b b'\<rbrakk> \<Longrightarrow> sweeps env today d c s (m + n) a b'"
  unfolding sweeps_def using same_roster_trans by fastforce

lemma sweeps_put [simp]: "sweeps env today d c s n (put_contract x b) b' = sweeps env today d c s n b b'"
  by (simp add: sweeps_def same_roster_def)

text \<open>A later year of the same contract.\<close>

definition later_year :: "contract_row \<Rightarrow> contract_row \<Rightarrow> bool" where
  "later_year c c' = (c' = c\<lparr>ct_current_year_index := ct_current_year_index c'\<rparr> \<and>
     ct_current_year_index c \<le> ct_current_year_index c' \<and> ct_current_year_index c' \<le> MAX_CONTRACT_YEARS)"

lemma later_year_fields:
  assumes "later_year c c'"
  shows "ct_id c' = ct_id c" "ct_school_id c' = ct_school_id c" "ct_status c' = ct_status c" "ct_start_date c' = ct_start_date c"
    "ct_is_founding_partner c' = ct_is_founding_partner c" "ct_end_date c' = ct_end_date c"
  using assms unfolding later_year_def by (metis contract_row.select_convs contract_row.surjective contract_row.update_convs)+

lemma later_year_refl [simp]: "later_year c c \<longleftrightarrow> ct_current_year_index c \<le> MAX_CONTRACT_YEARS"
  by (simp add: later_year_def)

lemma later_year_trans: "\<lbrakk>later_year a b; later_year b c\<rbrakk> \<Longrightarrow> later_year a c"
  unfolding later_year_def by (cases a; cases b; cases c) auto

lemma due_invoice_later:
  assumes later: "later_year c c'" and due: "due_invoice env today d c' s i"
  shows "due_invoice env today d c s i"
proof -
  have q: "sweep_quote env d c' s = sweep_quote env d c s" by (simp add: sweep_quote_def later_year_fields[OF later])
  have y: "ct_current_year_index c \<le> ct_current_year_index c'" using later by (simp add: later_year_def)
  show ?thesis using due
    unfolding due_invoice_def q later_year_fields(4)[OF later] using y order_trans by blast
qed

lemma sweeps_later: "\<lbrakk>later_year c c'; sweeps env today d c' s n b b'\<rbrakk> \<Longrightarrow> sweeps env today d c s n b b'"
  unfolding sweeps_def list_all_iff using due_invoice_later by metis

lemma bill_periods_ConsE:
  assumes "bill_periods env today c s x (p # ps) b = Inr (b', out, n)"
  obtains (old) "issued b p" "bill_periods env today c s x ps b = Inr (b', out, n)"
  | (later) m where "\<not> issued b p" "today < bp_starts_on p" "bill_periods env today c s x ps b = Inr (b', m, n)" "out = Suc m"
  | (due) b1 m where "\<not> issued b p" "bp_starts_on p \<le> today" "issue_invoice env today c s x p b = Inr b1"
      "bill_periods env today c s x ps b1 = Inr (b', out, m)" "n = Suc m"
proof (cases "issued b p")
  case True
  then show ?thesis using assms old by (simp add: issued_def)
next
  case fresh: False
  show ?thesis
  proof (cases "today < bp_starts_on p")
    case True
    obtain m where "bill_periods env today c s x ps b = Inr (b', m, n)" "out = Suc m"
      using assms fresh True by (cases "bill_periods env today c s x ps b") (auto simp: issued_def)
    then show ?thesis using fresh True later by blast
  next
    case False
    then obtain b1 where i: "issue_invoice env today c s x p b = Inr b1"
      using assms fresh by (cases "issue_invoice env today c s x p b") (auto simp: issued_def)
    obtain m where "bill_periods env today c s x ps b1 = Inr (b', out, m)" "n = Suc m"
      using assms fresh False i by (cases "bill_periods env today c s x ps b1") (auto simp: issued_def)
    then show ?thesis using fresh False i due by force
  qed
qed

lemma bill_periods_sweeps:
  assumes "bill_periods env today c s (billable_students d (sch_id s)) ps b = Inr (b', out, n)"
    and "configured_terms (be_repr env) s = Inr ts" and "ct_current_year_index c \<le> MAX_CONTRACT_YEARS"
    and "periods_for (sch_pricing_plan s) (sch_school_code s) (ct_start_date c) (ct_current_year_index c) ts = Inr qs"
    and "set ps \<subseteq> set qs"
  shows "sweeps env today d c s n b b' \<and> contracts b' = contracts b"
  using assms(1,5)
proof (induction ps arbitrary: b b' out n)
  case (Cons p ps)
  from Cons.prems(1) show ?case
  proof (cases rule: bill_periods_ConsE)
    case (due b1 m)
    obtain q due where q: "sweep_quote env d c s = Inr q" "date_plus today PAYMENT_TERM_DAYS = Inr due"
      "invoices (bl_db b1) = invoices (bl_db b) @ [invoice_for env today s (snd (billable_students d (sch_id s))) p due q]"
      "invoices_ok (invoices (bl_db b1))" "same_roster b b1" "contracts b1 = contracts b"
      using issue_invoice_Inr[OF due(3)] by metis
    have "due_invoice env today d c s (invoice_for env today s (snd (billable_students d (sch_id s))) p due q)"
      using due_invoiceI[OF assms(2) order_refl assms(3,4) _ due(2) q(1,2)] Cons.prems(2) by simp
    then have "sweeps env today d c s 1 b b1" using q by (simp add: sweeps_def)
    moreover have "sweeps env today d c s m b1 b' \<and> contracts b' = contracts b1" using Cons.IH[OF due(4)] Cons.prems(2) by simp
    ultimately show ?thesis using sweeps_trans[of env today d c s 1 b b1 m b'] q(6) due(5) by simp
  qed (use Cons in auto)
qed simp

lemma issue_invoice_issued:
  assumes "issue_invoice env today c s x p b = Inr b1"
  shows "issued b1 p" and "issued b r \<Longrightarrow> issued b1 r"
  using assms
  by (auto simp: issue_invoice_def issued_def queue_billing_emails_def invoice_for_def Let_def split: sum.splits if_splits)

lemma issue_invoice_only:
  assumes "issue_invoice env today c s x p b = Inr b1" and "issued b1 r"
  shows "issued b r \<or> bp_number r = bp_number p"
  using assms
  by (auto simp: issue_invoice_def issued_def queue_billing_emails_def invoice_for_def Let_def split: sum.splits if_splits)

lemma bill_periods_state:
  assumes "bill_periods env today c s x ps b = Inr (b', out, n)" and "distinct (map bp_number ps)"
  shows "(\<forall>p \<in> set ps. issued b' p \<or> today < bp_starts_on p) \<and> (\<forall>r. issued b r \<longrightarrow> issued b' r) \<and>
    (\<forall>r. issued b' r \<longrightarrow> issued b r \<or> bp_number r \<in> bp_number ` set ps) \<and>
    (out \<noteq> 0 \<longrightarrow> (\<exists>p \<in> set ps. \<not> issued b' p))"
  using assms
proof (induction ps arbitrary: b b' out n)
  case (Cons p ps)
  from Cons.prems(1) show ?case
  proof (cases rule: bill_periods_ConsE)
    case old
    then show ?thesis using Cons.IH[OF old(2)] Cons.prems(2) by auto
  next
    case (later m)
    then show ?thesis using Cons.IH[OF later(3)] Cons.prems(2) by auto
  next
    case (due b1 m)
    have "\<forall>r. issued b1 r \<longrightarrow> issued b r \<or> bp_number r = bp_number p" using issue_invoice_only[OF due(3)] by blast
    then show ?thesis using Cons.IH[OF due(4)] Cons.prems(2) issue_invoice_issued[OF due(3)] by auto
  qed
qed simp

lemma nat_str_small: "n < 10 \<Longrightarrow> nat_str n = [hex_digit n]"
  by (simp add: nat_str.simps[of n])

lemma periods_for_distinct:
  assumes "periods_for plan code start y ts = Inr ps"
  shows "distinct (map bp_number ps)"
proof -
  have "distinct (map (\<lambda>i. invoice_number code y (Some (int i))) [1..<TERMS_PER_YEAR + 1])"
    by (simp add: TERMS_PER_YEAR_def upt_rec invoice_number_def int_str_def nat_str_small hex_digit_def)
  then show ?thesis
    using assms by (auto simp: periods_for_def comp_def split: sum.splits pricing_plan.splits)
qed

subsection \<open>Nothing left to bill\<close>

definition settled :: "billing_env \<Rightarrow> date \<Rightarrow> school_row \<Rightarrow> contract_row \<Rightarrow> billing_db \<Rightarrow> bool" where
  "settled env today s c b = (\<exists>ts ps. configured_terms (be_repr env) s = Inr ts \<and>
     periods_for (sch_pricing_plan s) (sch_school_code s) (ct_start_date c) (ct_current_year_index c) ts = Inr ps \<and>
     (\<forall>p \<in> set ps. issued b p \<or> today < bp_starts_on p) \<and>
     ((\<exists>p \<in> set ps. \<not> issued b p) \<or> advance_contract_year c today = Inr None))"

lemma bill_periods_idle:
  assumes "\<forall>p \<in> set ps. issued b p \<or> today < bp_starts_on p"
  shows "\<exists>out. bill_periods env today c s x ps b = Inr (b, out, 0) \<and> (out \<noteq> 0 \<longleftrightarrow> (\<exists>p \<in> set ps. \<not> issued b p))"
  using assms
proof (induction ps)
  case (Cons p ps)
  then obtain out where "bill_periods env today c s x ps b = Inr (b, out, 0)" "out \<noteq> 0 \<longleftrightarrow> (\<exists>p \<in> set ps. \<not> issued b p)" by auto
  then show ?case using Cons.prems by (cases "issued b p") (auto simp: issued_def)
qed simp

lemma settled_idle: "settled env today s c b \<Longrightarrow> bill_contract env' today c s b = Inr (b, 0)" if "be_repr env' = be_repr env"
proof -
  assume "settled env today s c b"
  then obtain ts ps where ts: "configured_terms (be_repr env) s = Inr ts"
    and ps: "periods_for (sch_pricing_plan s) (sch_school_code s) (ct_start_date c) (ct_current_year_index c) ts = Inr ps"
    and idle: "\<forall>p \<in> set ps. issued b p \<or> today < bp_starts_on p"
    and stop: "(\<exists>p \<in> set ps. \<not> issued b p) \<or> advance_contract_year c today = Inr None"
    unfolding settled_def by blast
  obtain out where "bill_periods env' today c s (billable_students (bl_db b) (sch_id s)) ps b = Inr (b, out, 0)"
      "out \<noteq> 0 \<longleftrightarrow> (\<exists>p \<in> set ps. \<not> issued b p)"
    using bill_periods_idle[OF idle] by metis
  then have "bill_years (Suc n) env' today s (billable_students (bl_db b) (sch_id s)) ts c b = Inr (b, 0)" for n
    using ps stop by auto
  from this[of 5] show ?thesis using that ts by (simp add: bill_contract_def MAX_CONTRACT_YEARS_def del: bill_years.simps)
qed

lemma bill_contracts_idle:
  "\<lbrakk>\<forall>(c, s) \<in> set rows. bill_contract env today c s b = Inr (b, 0)\<rbrakk> \<Longrightarrow> bill_contracts env today rows b = Inr (b, 0)"
  by (induction rows) auto

text \<open>The year loop stops with nothing left to bill, within its six rounds.\<close>

lemma advance_later:
  assumes "advance_contract_year c today = Inr (Some c')" and "ct_current_year_index c \<le> MAX_CONTRACT_YEARS"
  shows "later_year c c' \<and> ct_current_year_index c' = ct_current_year_index c + 1"
  using assms by (auto simp: advance_contract_year_def later_year_def Let_def split: sum.splits if_splits)

lemma bill_years_StepE:
  assumes "bill_years (Suc n) env today s x ts c b = Inr (b', k)"
    and "periods_for (sch_pricing_plan s) (sch_school_code s) (ct_start_date c) (ct_current_year_index c) ts = Inr ps"
  obtains (stop) out where "bill_periods env today c s x ps b = Inr (b', out, k)"
      "out \<noteq> 0 \<or> advance_contract_year c today = Inr None"
  | (go) b1 k1 c' k2 where "bill_periods env today c s x ps b = Inr (b1, 0, k1)" "advance_contract_year c today = Inr (Some c')"
      "bill_years n env today s x ts c' (put_contract c' b1) = Inr (b', k2)" "k = k1 + k2"
proof -
  obtain b1 out k1 where ps: "bill_periods env today c s x ps b = Inr (b1, out, k1)"
    using assms by (auto split: sum.splits)
  show ?thesis
  proof (cases "out \<noteq> 0")
    case True
    then show ?thesis using assms ps stop by auto
  next
    case False
    then obtain a where a: "advance_contract_year c today = Inr a"
      using assms ps by (cases "advance_contract_year c today") auto
    show ?thesis
    proof (cases a)
      case None
      then show ?thesis using assms ps False a stop by auto
    next
      case (Some c')
      then obtain k2 where "bill_years n env today s x ts c' (put_contract c' b1) = Inr (b', k2)" "k = k1 + k2"
        using assms ps False a by (cases "bill_years n env today s x ts c' (put_contract c' b1)") auto
      then show ?thesis using ps False a Some go by simp
    qed
  qed
qed

text \<open>What one contract's turn leaves behind.\<close>

definition turn :: "billing_env \<Rightarrow> date \<Rightarrow> school_row \<Rightarrow> contract_row \<Rightarrow> nat \<Rightarrow> billing_db \<Rightarrow> billing_db \<Rightarrow> bool" where
  "turn env today s c k b b' = (sweeps env today (bl_db b) c s k b b' \<and> (\<exists>c'. later_year c c' \<and> settled env today s c' b' \<and>
     contracts b' = update_where (\<lambda>r. ct_id r = ct_id c) (\<lambda>_. c') (contracts b)))"

lemma update_self: "\<lbrakk>distinct (map ct_id cs); c \<in> set cs\<rbrakk> \<Longrightarrow> update_where (\<lambda>r. ct_id r = ct_id c) (\<lambda>_. c) cs = cs"
  by (auto simp: update_where_def distinct_map inj_on_def intro!: map_idI)

lemma bill_years_turn:
  assumes "bill_years n env today s (billable_students d (sch_id s)) ts c b = Inr (b', k)"
    and "configured_terms (be_repr env) s = Inr ts"
    and "ct_current_year_index c \<le> MAX_CONTRACT_YEARS" "MAX_CONTRACT_YEARS - ct_current_year_index c < int n"
    and "c \<in> set (contracts b)" "distinct (map ct_id (contracts b))"
  shows "sweeps env today d c s k b b' \<and> (\<exists>c'. later_year c c' \<and> settled env today s c' b' \<and>
     contracts b' = update_where (\<lambda>r. ct_id r = ct_id c) (\<lambda>_. c') (contracts b))"
  using assms
proof (induction n arbitrary: c b k)
  case (Suc n)
  obtain ps where ps: "periods_for (sch_pricing_plan s) (sch_school_code s) (ct_start_date c) (ct_current_year_index c) ts = Inr ps"
    using Suc.prems(1) by (auto split: sum.splits)
  note distinct_ps = periods_for_distinct[OF ps]
  from Suc.prems(1) ps show ?case
  proof (cases rule: bill_years_StepE)
    case (stop out)
    have sw: "sweeps env today d c s k b b' \<and> contracts b' = contracts b"
      by (rule bill_periods_sweeps[OF stop(1) Suc.prems(2,3) ps order_refl])
    have "settled env today s c b'"
      unfolding settled_def using Suc.prems(2) ps bill_periods_state[OF stop(1) distinct_ps] stop(2) by blast
    then show ?thesis using sw Suc.prems(3) update_self[OF Suc.prems(6,5)] later_year_refl by metis
  next
    case (go b1 k1 c' k2)
    have sw: "sweeps env today d c s k1 b b1 \<and> contracts b1 = contracts b"
      by (rule bill_periods_sweeps[OF go(1) Suc.prems(2,3) ps order_refl])
    have c': "later_year c c'" "ct_current_year_index c' = ct_current_year_index c + 1"
      using advance_later[OF go(2) Suc.prems(3)] by auto
    define b2 where "b2 = put_contract c' b1"
    have b2: "contracts b2 = update_where (\<lambda>r. ct_id r = ct_id c) (\<lambda>_. c') (contracts b)"
      using sw later_year_fields(1)[OF c'(1)] by (simp add: b2_def put_contract_def)
    have "c' \<in> set (contracts b2)" using Suc.prems(5) b2 updated_row_in[of c "contracts b" "\<lambda>r. ct_id r = ct_id c" "\<lambda>_. c'"] by simp
    moreover have "map ct_id (contracts b2) = map ct_id (contracts b)"
      unfolding b2 using later_year_fields(1)[OF c'(1)] by (simp add: update_where_def)
    ultimately have IH: "sweeps env today d c' s k2 b2 b' \<and> (\<exists>c''. later_year c' c'' \<and> settled env today s c'' b' \<and>
       contracts b' = update_where (\<lambda>r. ct_id r = ct_id c') (\<lambda>_. c'') (contracts b2))"
      using Suc.IH[OF go(3)[folded b2_def] Suc.prems(2)] Suc.prems(4,6) c' by (simp add: later_year_def)
    then obtain c'' where c'': "later_year c' c''" "settled env today s c'' b'"
       "contracts b' = update_where (\<lambda>r. ct_id r = ct_id c') (\<lambda>_. c'') (contracts b2)" by blast
    have "contracts b' = update_where (\<lambda>r. ct_id r = ct_id c) (\<lambda>_. c'') (contracts b)"
      unfolding c''(3) b2 using later_year_fields(1)[OF c'(1)] by (simp add: update_where_def comp_def)
    moreover have "sweeps env today d c s (k1 + k2) b b'"
      using sweeps_trans[of env today d c s k1 b b1 k2 b'] sw sweeps_later[OF c'(1)] IH by (simp add: b2_def)
    ultimately show ?thesis using c'' later_year_trans[OF c'(1)] go(4) by auto
  qed
qed simp

lemma bill_contract_turn:
  assumes "bill_contract env today c s b = Inr (b', k)" "c \<in> set (contracts b)" "contract_ok c" "distinct (map ct_id (contracts b))"
  shows "turn env today s c k b b'"
proof -
  obtain ts where ts: "configured_terms (be_repr env) s = Inr ts"
    and run: "bill_years (nat MAX_CONTRACT_YEARS) env today s (billable_students (bl_db b) (sch_id s)) ts c b = Inr (b', k)"
    using assms(1) by (auto simp: bill_contract_def split: sum.splits)
  have "ct_current_year_index c \<le> MAX_CONTRACT_YEARS" "MAX_CONTRACT_YEARS - ct_current_year_index c < int (nat MAX_CONTRACT_YEARS)"
    using assms(3) by (auto simp: contract_ok_def MAX_CONTRACT_YEARS_def)
  from bill_years_turn[OF run ts this assms(2,4)] show ?thesis unfolding turn_def .
qed

lemma due_invoice_slug: "due_invoice env today d c s i \<Longrightarrow> number_slug (inv_invoice_number i) = school_slug (sch_school_code s)"
  by (erule due_invoiceE) (simp add: invoice_for_def periods_for_slug)

lemma due_invoice_roster: "same_roster b b' \<Longrightarrow> due_invoice env today (bl_db b') c s i = due_invoice env today (bl_db b) c s i"
  by (simp add: due_invoice_def sweep_quote_def same_roster_billable)

lemma settled_grow:
  assumes "settled env today s c b" "invoices (bl_db b') = invoices (bl_db b) @ news"
    and "\<forall>i \<in> set news. number_slug (inv_invoice_number i) \<noteq> school_slug (sch_school_code s)"
  shows "settled env today s c b'"
proof -
  have same: "issued b' p = issued b p" if "number_slug (bp_number p) = school_slug (sch_school_code s)" for p
    using assms(2,3) that by (auto simp: issued_def)
  show ?thesis using assms(1) periods_for_slug same unfolding settled_def by (metis (no_types, lifting))
qed

text \<open>The whole sweep: what it appends, how it moves the contracts, and that it leaves each of them with nothing to bill.\<close>

definition slugs :: "(contract_row \<times> school_row) list \<Rightarrow> string list" where
  "slugs rows = map (\<lambda>(c, s). school_slug (sch_school_code s)) rows"

definition row_ids :: "(contract_row \<times> school_row) list \<Rightarrow> uuid list" where
  "row_ids rows = map (\<lambda>(c, s). ct_id c) rows"

definition appended ::
  "billing_env \<Rightarrow> date \<Rightarrow> (contract_row \<times> school_row) list \<Rightarrow> nat \<Rightarrow> billing_db \<Rightarrow> billing_db \<Rightarrow> bool" where
  "appended env today rows k b b' = (same_roster b b' \<and> (invoices_ok (invoices (bl_db b)) \<longrightarrow> invoices_ok (invoices (bl_db b'))) \<and>
     (\<exists>news. invoices (bl_db b') = invoices (bl_db b) @ news \<and> length news = k \<and>
        (\<forall>i \<in> set news. \<exists>(c, s) \<in> set rows. due_invoice env today (bl_db b) c s i)))"

definition moved :: "(contract_row \<Rightarrow> contract_row) \<Rightarrow> (contract_row \<times> school_row) list \<Rightarrow> billing_db \<Rightarrow> billing_db \<Rightarrow> bool" where
  "moved f rows b b' = (contracts b' = map f (contracts b) \<and> (\<forall>c \<in> set (contracts b). ct_id (f c) = ct_id c \<and>
     (if ct_id c \<in> set (row_ids rows) then later_year c (f c) else f c = c)))"

lemma appended_Nil [simp]: "appended env today [] 0 b b"
  by (simp add: appended_def)

lemma moved_Nil [simp]: "moved (\<lambda>c. c) [] b b"
  by (simp add: moved_def row_ids_def)

lemma appended_Cons:
  assumes "sweeps env today (bl_db b) c s m b b1" "appended env today rows k b1 b'"
  shows "appended env today ((c, s) # rows) (m + k) b b'"
proof -
  from assms(1) obtain news where n: "same_roster b b1" "invoices_ok (invoices (bl_db b)) \<longrightarrow> invoices_ok (invoices (bl_db b1))"
    "invoices (bl_db b1) = invoices (bl_db b) @ news" "length news = m" "list_all (due_invoice env today (bl_db b) c s) news"
    unfolding sweeps_def by blast
  from assms(2) obtain more_news where m: "same_roster b1 b'" "invoices_ok (invoices (bl_db b1)) \<longrightarrow> invoices_ok (invoices (bl_db b'))"
    "invoices (bl_db b') = invoices (bl_db b1) @ more_news" "length more_news = k"
    "\<forall>i \<in> set more_news. \<exists>(c, s) \<in> set rows. due_invoice env today (bl_db b1) c s i"
    unfolding appended_def by blast
  have "\<forall>i \<in> set (news @ more_news). \<exists>(c, s) \<in> set ((c, s) # rows). due_invoice env today (bl_db b) c s i"
    using n(5) m(5) due_invoice_roster[OF n(1)] by (fastforce simp: list_all_iff)
  then show ?thesis unfolding appended_def using n m same_roster_trans[OF n(1) m(1)]
    by (intro conjI exI[of _ "news @ more_news"]) auto
qed

lemma moved_Cons:
  assumes "later_year c c'" "contracts b1 = update_where (\<lambda>r. ct_id r = ct_id c) (\<lambda>_. c') (contracts b)"
    and "moved f rows b1 b'" "ct_id c \<notin> set (row_ids rows)" "c \<in> set (contracts b)" "distinct (map ct_id (contracts b))"
  shows "moved (\<lambda>r. if ct_id r = ct_id c then c' else f r) ((c, s) # rows) b b'"
proof -
  have c: "r = c" if "r \<in> set (contracts b)" "ct_id r = ct_id c" for r
    using that assms(5,6) by (auto simp: distinct_map inj_on_def)
  have id: "ct_id c' = ct_id c" by (rule later_year_fields(1)[OF assms(1)])
  have "c' \<in> set (contracts b1)" using assms(2,5) updated_row_in[of c "contracts b" "\<lambda>r. ct_id r = ct_id c" "\<lambda>_. c'"] by simp
  then have "f c' = c'" using assms(3,4) id by (auto simp: moved_def)
  moreover have "r \<in> set (contracts b1)" if "r \<in> set (contracts b)" "ct_id r \<noteq> ct_id c" for r
    using that assms(2) by (auto simp: update_where_def image_iff)
  ultimately show ?thesis
    using assms c id unfolding moved_def by (auto simp: update_where_def row_ids_def)
qed

lemma bill_contracts_sweep:
  assumes "bill_contracts env today rows b = Inr (b', k)" "\<forall>(c, s) \<in> set rows. c \<in> set (contracts b) \<and> contract_ok c"
    and "distinct (row_ids rows)" "distinct (map ct_id (contracts b))"
  shows "appended env today rows k b b' \<and> (\<exists>f. moved f rows b b' \<and>
    (distinct (slugs rows) \<longrightarrow> (\<forall>(c, s) \<in> set rows. settled env today s (f c) b')))"
  using assms
proof (induction rows arbitrary: b k)
  case Nil
  then have "b' = b" "k = 0" by auto
  then show ?case by (intro conjI exI[of _ "\<lambda>c. c"]) simp_all
next
  case (Cons row rows)
  obtain c s where row: "row = (c, s)" by (cases row)
  obtain b1 m l where h: "bill_contract env today c s b = Inr (b1, m)" and t: "bill_contracts env today rows b1 = Inr (b', l)"
    and k: "k = m + l"
    using Cons.prems(1) row by (auto split: sum.splits)
  have c: "c \<in> set (contracts b)" "contract_ok c" "ct_id c \<notin> set (row_ids rows)" "distinct (row_ids rows)"
    using Cons.prems(2,3) row by (auto simp: row_ids_def)
  have "turn env today s c m b b1" by (rule bill_contract_turn[OF h c(1,2) Cons.prems(4)])
  then obtain c' where sw: "sweeps env today (bl_db b) c s m b b1" and c': "later_year c c'" "settled env today s c' b1"
    "contracts b1 = update_where (\<lambda>r. ct_id r = ct_id c) (\<lambda>_. c') (contracts b)" unfolding turn_def by blast
  have ids: "map ct_id (contracts b1) = map ct_id (contracts b)"
    unfolding c'(3) using later_year_fields(1)[OF c'(1)] by (simp add: update_where_def)
  have "\<forall>(x, y) \<in> set rows. x \<in> set (contracts b1) \<and> contract_ok x"
    using Cons.prems(2) c(3) row unfolding c'(3) by (auto simp: update_where_def row_ids_def image_iff)
  then obtain f where app: "appended env today rows l b1 b'" and mv: "moved f rows b1 b'"
    and st: "distinct (slugs rows) \<longrightarrow> (\<forall>(c, s) \<in> set rows. settled env today s (f c) b')"
    using Cons.IH[OF t _ c(4)] Cons.prems(4) ids by auto
  let ?g = "\<lambda>r. if ct_id r = ct_id c then c' else f r"
  have "settled env today s c' b'" if "distinct (slugs (row # rows))"
  proof -
    obtain news where news: "invoices (bl_db b') = invoices (bl_db b1) @ news"
      "\<forall>i \<in> set news. \<exists>(c, s) \<in> set rows. due_invoice env today (bl_db b1) c s i" using app unfolding appended_def by blast
    have "number_slug (inv_invoice_number i) \<noteq> school_slug (sch_school_code s)" if i: "i \<in> set news" for i
    proof -
      obtain x y where "(x, y) \<in> set rows" "due_invoice env today (bl_db b1) x y i" using bspec[OF news(2) i] by auto
      then have "number_slug (inv_invoice_number i) = school_slug (sch_school_code y)" using due_invoice_slug by blast
      moreover have "school_slug (sch_school_code y) \<in> set (slugs rows)"
        unfolding slugs_def set_map using \<open>(x, y) \<in> set rows\<close> by (rule rev_image_eqI) simp
      ultimately show ?thesis using \<open>distinct (slugs (row # rows))\<close> row by (auto simp: slugs_def)
    qed
    then have "\<forall>i \<in> set news. number_slug (inv_invoice_number i) \<noteq> school_slug (sch_school_code s)" by blast
    then show ?thesis by (rule settled_grow[OF c'(2) news(1)])
  qed
  moreover have "\<forall>(x, y) \<in> set rows. ct_id x \<noteq> ct_id c" using c(3) by (force simp: row_ids_def)
  ultimately have "distinct (slugs (row # rows)) \<longrightarrow> (\<forall>(c, s) \<in> set (row # rows). settled env today s (?g c) b')"
    using st row by (auto simp: slugs_def)
  moreover have "moved ?g (row # rows) b b'" unfolding row by (rule moved_Cons[OF c'(1,3) mv c(3,1) Cons.prems(4)])
  moreover have "appended env today (row # rows) k b b'" unfolding row k by (rule appended_Cons[OF sw app])
  ultimately show ?case by blast
qed

lemma active_contracts_iff:
  "(c, s) \<in> set (active_contracts b) \<longleftrightarrow>
     c \<in> set (contracts b) \<and> ct_status c = CT_ACTIVE \<and> s \<in> set (schools (bl_db b)) \<and> sch_id s = ct_school_id c"
  by (auto simp: active_contracts_def)

lemma one_school: "distinct (map sch_id ss) \<Longrightarrow> length (filter (\<lambda>s. sch_id s = i) ss) \<le> 1"
proof (induction ss)
  case (Cons s ss)
  then have "sch_id s = i \<Longrightarrow> filter (\<lambda>s. sch_id s = i) ss = []" by (auto simp: filter_empty_conv image_iff)
  then show ?case using Cons by auto
qed simp

lemma distinct_row_ids:
  assumes "distinct (map ct_id (contracts b))" "distinct (map sch_id (schools (bl_db b)))"
  shows "distinct (row_ids (active_contracts b))"
proof -
  define ss where "ss = schools (bl_db b)"
  have ss: "distinct (map sch_id ss)" using assms(2) by (simp add: ss_def)
  define rows where "rows cs = concat (map (\<lambda>c. if ct_status c = CT_ACTIVE then map (\<lambda>s. (c, s)) (filter (\<lambda>s. sch_id s = ct_school_id c) ss)
    else []) cs)" for cs :: "contract_row list"
  have same: "concat (map (\<lambda>s. if sch_id s = i then [(c, s)] else []) xs) = map (\<lambda>s. (c, s)) (filter (\<lambda>s. sch_id s = i) xs)" for c :: contract_row and i xs
    by (induction xs) auto
  have "active_contracts b = rows (contracts b)"
    unfolding active_contracts_def rows_def ss_def same ..
  moreover have "distinct (map ct_id cs) \<Longrightarrow> distinct (row_ids (rows cs)) \<and> set (row_ids (rows cs)) \<subseteq> ct_id ` set cs" for cs
  proof (induction cs)
    case (Cons c cs)
    have "distinct (map (\<lambda>_. ct_id c) (filter (\<lambda>s. sch_id s = ct_school_id c) ss))"
      using one_school[OF ss, of "ct_school_id c"] by (cases "filter (\<lambda>s. sch_id s = ct_school_id c) ss") auto
    then show ?case using Cons by (auto simp: rows_def row_ids_def comp_def)
  qed (simp add: rows_def row_ids_def)
  ultimately show ?thesis using assms(1) by simp
qed

lemma sweep_facts:
  assumes "issue_due_invoices env b today = (b', Inr r)" "billing_tables_ok b" "distinct (map sch_id (schools (bl_db b)))"
  obtains f where "billing_tables_ok b'" "appended env today (active_contracts b) (ir_issued r) b b'"
    "moved f (active_contracts b) b b'"
    "distinct (slugs (active_contracts b)) \<longrightarrow> (\<forall>(c, s) \<in> set (active_contracts b). settled env today s (f c) b')"
proof -
  obtain k where run: "bill_contracts env today (active_contracts b) b = Inr (b', k)" and k: "ir_issued r = k" "billing_tables_ok b'"
    using assms(1) by (auto simp: issue_due_invoices_def Let_def split: sum.splits if_splits)
  have t: "distinct (map ct_id (contracts b))" "list_all contract_ok (contracts b)" using assms(2) by (auto simp: billing_tables_ok_def)
  have "\<forall>(c, s) \<in> set (active_contracts b). c \<in> set (contracts b) \<and> contract_ok c"
    using t(2) by (auto simp: active_contracts_iff list_all_iff)
  from bill_contracts_sweep[OF run this distinct_row_ids[OF t(1) assms(3)] t(1)] show ?thesis using k that by blast
qed

lemma moved_active:
  assumes "moved f (active_contracts b) b b'" "same_roster b b'" "(c', s) \<in> set (active_contracts b')"
  obtains c where "(c, s) \<in> set (active_contracts b)" "c' = f c"
proof -
  obtain c where c: "c \<in> set (contracts b)" "c' = f c" using assms(1,3) by (auto simp: moved_def active_contracts_iff)
  then have "ct_status c = ct_status c'" "ct_school_id c = ct_school_id c'"
    using assms(1) later_year_fields(2,3) unfolding moved_def by metis+
  then have "(c, s) \<in> set (active_contracts b)" using assms(2,3) c by (simp add: active_contracts_iff same_roster_def)
  then show ?thesis using c that by blast
qed

subsection \<open>The properties of the sweep\<close>

text \<open>
  A quote adds up: the total is the subtotal plus the VAT, every amount on it is a whole number of kobo, and the VAT is
  within half a kobo of 7.5 per cent of the subtotal; when the rate itself is whole kobo the subtotal is exactly rate times head count.
\<close>

theorem quote_adds_up:
  assumes "quote_per_student plan n rt rate lock cur = Inr q"
  shows "q_total_with_vat q = q_total_before_vat q + q_vat_amount q \<and>
    100 * q_total_with_vat q \<in> \<int> \<and> 100 * q_vat_amount q \<in> \<int> \<and> 100 * q_per_student_rate q \<in> \<int> \<and>
    0 \<le> q_total_before_vat q \<and> 0 \<le> q_vat_amount q \<and>
    \<bar>q_vat_amount q - q_total_before_vat q * 75 / 1000\<bar> \<le> 1 / 200 \<and>
    (rate = None \<or> 100 * the rate \<in> \<int> \<longrightarrow> q_total_before_vat q = q_per_student_rate q * of_int n)"
proof -
  define r where "r = (case rate of Some r \<Rightarrow> r | None \<Rightarrow> published_rate plan)"
  have q: "0 \<le> n" "0 \<le> r" "q_total_before_vat q = money (r * of_int n)" "q_per_student_rate q = money r"
    "q_vat_amount q = money (money (r * of_int n) * VAT_RATE / 100)"
    "q_total_with_vat q = money (money (r * of_int n) + money (money (r * of_int n) * VAT_RATE / 100))"
    using assms by (auto simp: quote_per_student_def r_def Let_def split: if_splits)
  have "\<bar>q_vat_amount q - q_total_before_vat q * 75 / 1000\<bar> \<le> 1 / 200"
    using money_near[of "money (r * of_int n) * VAT_RATE / 100"] q by (simp add: VAT_RATE_def)
  moreover have "q_total_before_vat q = q_per_student_rate q * of_int n" if "rate = None \<or> 100 * the rate \<in> \<int>"
  proof -
    have "100 * r \<in> \<int>"
      using that by (cases rate; cases plan) (auto simp: r_def published_rate_def)
    then obtain m where "100 * r = of_int m" by (auto elim: Ints_cases)
    then have "money r = r" "100 * (r * of_int n) = of_int (m * n)" using money_whole[of r m] by (simp_all flip: mult.assoc)
    then show ?thesis using q money_whole by metis
  qed
  moreover have "0 \<le> q_total_before_vat q" "0 \<le> q_vat_amount q"
    using q by (auto intro!: money_nonneg mult_nonneg_nonneg simp: VAT_RATE_def)
  ultimately show ?thesis using q(3-6) money_sum money_kobo by (simp add: Ints_of_int)
qed

text \<open>
  Claim C25.  A sweep only appends invoices, one for each it counts: every new one is for a period of an active contract that has started,
  priced off the school's roster, and no invoice number occurs twice afterwards, so no period is billed twice.
\<close>

theorem sweep_bills_each_period_once:
  assumes "issue_due_invoices env b today = (b', Inr r)" "billing_tables_ok b" "distinct (map sch_id (schools (bl_db b)))"
    and "invoices_ok (invoices (bl_db b))"
  shows "\<exists>news. invoices (bl_db b') = invoices (bl_db b) @ news \<and> length news = ir_issued r \<and>
    distinct (map inv_invoice_number (invoices (bl_db b'))) \<and>
    (\<forall>i \<in> set news. \<exists>(c, s) \<in> set (active_contracts b). due_invoice env today (bl_db b) c s i)"
proof -
  obtain f where "appended env today (active_contracts b) (ir_issued r) b b'" using sweep_facts[OF assms(1-3)] by metis
  then show ?thesis using assms(4) unfolding appended_def invoices_ok_def by blast
qed

text \<open>
  Where no two active contracts share an invoice-number slug, a sweep leaves nothing behind: run again on the same day it issues
  no invoice and changes nothing, whatever identifiers the database would draw.
\<close>

theorem second_sweep_is_idle:
  assumes "issue_due_invoices env b today = (b', Inr r)" "billing_tables_ok b" "distinct (map sch_id (schools (bl_db b)))"
    and "distinct (slugs (active_contracts b))" "be_repr env' = be_repr env"
  shows "issue_due_invoices env' b' today = (b', Inr \<lparr>ir_considered = length (active_contracts b'), ir_issued = 0\<rparr>)"
proof -
  obtain f where f: "billing_tables_ok b'" "appended env today (active_contracts b) (ir_issued r) b b'"
    "moved f (active_contracts b) b b'" "\<forall>(c, s) \<in> set (active_contracts b). settled env today s (f c) b'"
    using sweep_facts[OF assms(1-3)] assms(4) by metis
  have roster: "same_roster b b'" using f(2) by (simp add: appended_def)
  have "bill_contract env' today c s b' = Inr (b', 0)" if row: "(c, s) \<in> set (active_contracts b')" for c s
  proof -
    obtain x where "(x, s) \<in> set (active_contracts b)" "c = f x" by (rule moved_active[OF f(3) roster row])
    then show ?thesis using f(4) settled_idle[OF assms(5)] by blast
  qed
  then have "\<forall>(c, s) \<in> set (active_contracts b'). bill_contract env' today c s b' = Inr (b', 0)" by blast
  then show ?thesis using bill_contracts_idle[of "active_contracts b'"] f(1) by (simp add: issue_due_invoices_def)
qed

subsection \<open>The e-mail queue\<close>

definition terminal :: "delivery_row \<Rightarrow> bool" where
  "terminal r = (bd_status r = ''sent'' \<or> bd_status r = ''failed'')"

definition attempts_ok :: "billing_db \<Rightarrow> bool" where
  "attempts_ok b = list_all (\<lambda>r. 0 \<le> bd_attempt_count r \<and> bd_attempt_count r \<le> 6) (deliveries b)"

definition delivery_kept :: "delivery_row \<Rightarrow> delivery_row \<Rightarrow> bool" where
  "delivery_kept r r' = (bd_id r' = bd_id r \<and> delivery_key r' = delivery_key r \<and> bd_attempt_count r \<le> bd_attempt_count r' \<and>
     (terminal r \<longrightarrow> r' = r))"

definition mail_le :: "billing_db \<Rightarrow> billing_db \<Rightarrow> bool" where
  "mail_le b b' = ((\<forall>r \<in> set (deliveries b). \<exists>r' \<in> set (deliveries b'). delivery_kept r r') \<and> (attempts_ok b \<longrightarrow> attempts_ok b'))"

lemma delivery_kept_refl [simp]: "delivery_kept r r"
  by (simp add: delivery_kept_def)

lemma delivery_kept_trans: "\<lbrakk>delivery_kept a b; delivery_kept b c\<rbrakk> \<Longrightarrow> delivery_kept a c"
  by (auto simp: delivery_kept_def)

lemma mail_le_refl [simp]: "mail_le b b"
  unfolding mail_le_def using delivery_kept_refl by blast

lemma mail_le_trans: "\<lbrakk>mail_le a b; mail_le b c\<rbrakk> \<Longrightarrow> mail_le a c"
  unfolding mail_le_def using delivery_kept_trans by meson

text \<open>
  The contract of the queue: whatever the jobs and the worker do, the tables stay consistent, no delivery is lost, one that was sent or
  given up on is never touched again, and none is attempted more than six times.
\<close>

locale mail_queue =
  fixes step :: "billing_db \<Rightarrow> billing_db \<Rightarrow> bool"
  assumes step_ok: "\<lbrakk>step b b'; billing_tables_ok b\<rbrakk> \<Longrightarrow> billing_tables_ok b' \<and> mail_le b b'"
begin

lemma run_le: "\<lbrakk>step\<^sup>*\<^sup>* b b'; billing_tables_ok b\<rbrakk> \<Longrightarrow> billing_tables_ok b' \<and> mail_le b b'"
  by (induction rule: rtranclp_induct) (auto dest: step_ok intro: mail_le_trans)

lemma terminal_stays: "\<lbrakk>step\<^sup>*\<^sup>* b b'; billing_tables_ok b; r \<in> set (deliveries b); terminal r\<rbrakk> \<Longrightarrow> r \<in> set (deliveries b')"
  using run_le unfolding mail_le_def delivery_kept_def by metis

lemma attempts_bounded:
  "\<lbrakk>step\<^sup>*\<^sup>* b b'; billing_tables_ok b; attempts_ok b; r \<in> set (deliveries b')\<rbrakk> \<Longrightarrow> bd_attempt_count r \<le> 6"
  using run_le unfolding mail_le_def attempts_ok_def list_all_iff by blast

end

text \<open>Everything but the worker only appends fresh deliveries.\<close>

definition queues :: "billing_db \<Rightarrow> billing_db \<Rightarrow> bool" where
  "queues b b' = (\<exists>ds. deliveries b' = deliveries b @ ds \<and> list_all (\<lambda>r. bd_attempt_count r = 0) ds)"

lemma queues_refl [simp]: "queues b b"
  by (simp add: queues_def)

lemma queues_trans: "\<lbrakk>queues a b; queues b c\<rbrakk> \<Longrightarrow> queues a c"
  unfolding queues_def by fastforce

lemma queues_le:
  assumes "queues b b'"
  shows "mail_le b b'"
proof -
  obtain ds where ds: "deliveries b' = deliveries b @ ds" "list_all (\<lambda>r. bd_attempt_count r = 0) ds"
    using assms unfolding queues_def by blast
  have "\<exists>r' \<in> set (deliveries b'). delivery_kept r r'" if "r \<in> set (deliveries b)" for r
    using that ds(1) by (intro bexI[of _ r]) auto
  then show ?thesis using ds unfolding mail_le_def attempts_ok_def list_all_iff by auto
qed

lemma queue_billing_emails_queues: "queues b (fst (queue_billing_emails env i kind b))"
  by (auto simp: queues_def queue_billing_emails_def new_delivery_def Let_def list_all_iff)

lemma issue_invoice_queues: "issue_invoice env today c s x p b = Inr b' \<Longrightarrow> queues b b'"
  using queue_billing_emails_queues unfolding queues_def
  by (auto simp: issue_invoice_def queue_billing_emails_def new_delivery_def Let_def list_all_iff split: sum.splits if_splits)

lemma bill_periods_queues: "bill_periods env today c s x ps b = Inr (b', out, n) \<Longrightarrow> queues b b'"
proof (induction ps arbitrary: b b' out n)
  case (Cons p ps)
  from Cons.prems show ?case
  proof (cases rule: bill_periods_ConsE)
    case (due b1 m)
    then show ?thesis using Cons.IH[OF due(4)] issue_invoice_queues[OF due(3)] queues_trans by blast
  qed (rule Cons.IH, assumption)+
qed simp

lemma put_contract_queues [simp]: "queues (put_contract c b) b' = queues b b'"
  by (simp add: queues_def put_contract_def)

lemma bill_years_queues: "bill_years n env today s x ts c b = Inr (b', k) \<Longrightarrow> queues b b'"
proof (induction n arbitrary: c b k)
  case (Suc n)
  obtain ps where ps: "periods_for (sch_pricing_plan s) (sch_school_code s) (ct_start_date c) (ct_current_year_index c) ts = Inr ps"
    using Suc.prems by (auto split: sum.splits)
  from Suc.prems ps show ?case
  proof (cases rule: bill_years_StepE)
    case (go b1 k1 c' k2)
    then show ?thesis using Suc.IH[OF go(3)] queues_trans[OF bill_periods_queues[OF go(1)]] by simp
  qed (use bill_periods_queues in blast)
qed simp

lemma bill_contracts_queues: "bill_contracts env today rows b = Inr (b', k) \<Longrightarrow> queues b b'"
proof (induction rows arbitrary: b k)
  case (Cons row rows)
  obtain c s where row: "row = (c, s)" by (cases row)
  obtain b1 m l where h: "bill_contract env today c s b = Inr (b1, m)" and t: "bill_contracts env today rows b1 = Inr (b', l)"
    using Cons.prems row by (auto split: sum.splits)
  have "queues b b1" using h bill_years_queues by (auto simp: bill_contract_def split: sum.splits)
  then show ?case using Cons.IH[OF t] queues_trans by blast
qed simp

lemma remind_each_queues: "remind_each env today is b = Inr (b', n) \<Longrightarrow> queues b b'"
proof (induction "is" arbitrary: b n)
  case (Cons i rest)
  define b1 where "b1 = fst (queue_billing_emails env i ''issued'' b)"
  have q1: "queues b b1" unfolding b1_def by (rule queue_billing_emails_queues)
  obtain kind where kind: "reminder_kind today i = Inr kind"
    using Cons.prems by (cases "reminder_kind today i") (auto simp: split_beta Let_def)
  obtain m where rest: "remind_each env today rest
      (case kind of None \<Rightarrow> b1 | Some k \<Rightarrow> fst (queue_billing_emails env i k b1)) = Inr (b', m)"
    using Cons.prems kind by (cases kind) (auto simp: b1_def split_beta Let_def split: sum.splits)
  have "queues b1 (case kind of None \<Rightarrow> b1 | Some k \<Rightarrow> fst (queue_billing_emails env i k b1))"
    using queue_billing_emails_queues by (cases kind) auto
  then show ?case using Cons.IH[OF rest] q1 queues_trans by blast
qed simp

lemma next_delivery_due: "next_delivery b now = Some r \<Longrightarrow> r \<in> set (deliveries b) \<and> due_delivery now r"
proof -
  assume "next_delivery b now = Some r"
  then obtain rs where "sort_key bd_next_attempt_at (sort_key bd_id (filter (due_delivery now) (deliveries b))) = r # rs"
    by (auto simp: next_delivery_def split: list.splits)
  then have "r \<in> set (sort_key bd_next_attempt_at (sort_key bd_id (filter (due_delivery now) (deliveries b))))"
    by (metis list.set_intros(1))
  then show ?thesis by simp
qed

lemma process_next_row:
  assumes "process_next send b now later = (b', worked)"
  shows "b' = b \<or> (\<exists>r err. next_delivery b now = Some r \<and>
    b' = update_delivery (bd_id r) (\<lambda>x. finished err later (claimed now x)) b)"
proof (cases "next_delivery b now")
  case (Some r)
  have two: "finish (bd_id r) err later (update_delivery (bd_id r) (claimed now) b) =
      update_delivery (bd_id r) (\<lambda>x. finished err later (claimed now x)) b" for err
    by (auto simp: finish_def update_delivery_def update_where_def claimed_def)
  show ?thesis using assms Some two by (auto simp: process_next_def Let_def split: option.splits if_splits send_result.splits)
qed (use assms in \<open>simp add: process_next_def\<close>)

lemma finished_claimed_kept:
  assumes "due_delivery now r"
  shows "delivery_kept r (finished err later (claimed now r)) \<and> bd_attempt_count (finished err later (claimed now r)) = bd_attempt_count r + 1"
  using assms by (auto simp: due_delivery_def delivery_kept_def terminal_def finished_def claimed_def delivery_key_def)

inductive mail_step :: "billing_db \<Rightarrow> billing_db \<Rightarrow> bool" where
  sweep: "issue_due_invoices env b today = (b', r1) \<Longrightarrow> mail_step b b'"
| remind: "invoice_reminders env b today = (b', r2) \<Longrightarrow> mail_step b b'"
| work: "process_next send b now later = (b', worked) \<Longrightarrow> mail_step b b'"

lemma process_next_ok:
  assumes "process_next send b now later = (b', worked)" "billing_tables_ok b"
  shows "billing_tables_ok b' \<and> mail_le b b'"
proof (cases "b' = b")
  case False
  then obtain r err where r: "next_delivery b now = Some r"
    and b': "b' = update_delivery (bd_id r) (\<lambda>x. finished err later (claimed now x)) b"
    using process_next_row[OF assms(1)] by blast
  let ?f = "\<lambda>x. finished err later (claimed now x)"
  have due: "r \<in> set (deliveries b)" "due_delivery now r" using next_delivery_due[OF r] by auto
  have only: "x = r" if "x \<in> set (deliveries b)" "bd_id x = bd_id r" for x
    using that due(1) assms(2) by (auto simp: billing_tables_ok_def distinct_map inj_on_def)
  have rows: "deliveries b' = map (\<lambda>x. if bd_id x = bd_id r then ?f x else x) (deliveries b)"
    by (simp add: b' update_delivery_def update_where_def)
  have same: "bd_id (?f x) = bd_id x" "delivery_key (?f x) = delivery_key x" for x
    by (simp_all add: finished_def claimed_def delivery_key_def)
  have "map bd_id (deliveries b') = map bd_id (deliveries b)" "map delivery_key (deliveries b') = map delivery_key (deliveries b)"
    unfolding rows by (simp_all add: same)
  then have ok: "billing_tables_ok b'" using assms(2) by (simp add: billing_tables_ok_def b' update_delivery_def)
  have kept: "delivery_kept x (if bd_id x = bd_id r then ?f x else x)" if "x \<in> set (deliveries b)" for x
    using only[OF that] finished_claimed_kept[OF due(2)] by auto
  have "attempts_ok b'" if "attempts_ok b"
  proof -
    have "0 \<le> bd_attempt_count r \<and> bd_attempt_count r < 6" using that due by (auto simp: attempts_ok_def list_all_iff due_delivery_def)
    then have "0 \<le> bd_attempt_count (?f r) \<and> bd_attempt_count (?f r) \<le> 6"
      using finished_claimed_kept[OF due(2), of err later] by auto
    then have "0 \<le> bd_attempt_count (if bd_id x = bd_id r then ?f x else x) \<and> bd_attempt_count (if bd_id x = bd_id r then ?f x else x) \<le> 6"
      if "x \<in> set (deliveries b)" for x
      using \<open>attempts_ok b\<close> only[OF that] that by (cases "bd_id x = bd_id r") (auto simp: attempts_ok_def list_all_iff)
    then show ?thesis unfolding attempts_ok_def rows list_all_iff set_map by blast
  qed
  moreover have "\<forall>x \<in> set (deliveries b). \<exists>y \<in> set (deliveries b'). delivery_kept x y"
    unfolding rows set_map using kept by blast
  ultimately show ?thesis using ok unfolding mail_le_def by blast
qed (use assms in simp)

lemma mail_step_ok: "\<lbrakk>mail_step b b'; billing_tables_ok b\<rbrakk> \<Longrightarrow> billing_tables_ok b' \<and> mail_le b b'"
proof (induction rule: mail_step.induct)
  case (sweep env b today b' r1)
  then show ?case using bill_contracts_queues[of env today "active_contracts b" b] queues_le
    by (auto simp: issue_due_invoices_def Let_def split: sum.splits if_splits)
next
  case (remind env b today b' r2)
  then show ?case using remind_each_queues queues_le
    by (auto simp: invoice_reminders_def split: sum.splits if_splits)
next
  case (work send b now later b' worked)
  then show ?case by (rule process_next_ok)
qed

interpretation mailer: mail_queue mail_step
  by unfold_locales (rule mail_step_ok)

text \<open>
  Across any run of sweeps, reminder jobs and worker rounds, whatever the mail provider answers, an e-mail that was delivered or
  given up on is never taken up again, and no e-mail is attempted more than six times.
\<close>

theorem email_attempts_are_bounded:
  assumes "mail_step\<^sup>*\<^sup>* b b'" "billing_tables_ok b" "attempts_ok b"
  shows "(\<forall>r \<in> set (deliveries b). bd_status r = ''sent'' \<or> bd_status r = ''failed'' \<longrightarrow> r \<in> set (deliveries b')) \<and>
    (\<forall>r \<in> set (deliveries b'). bd_attempt_count r \<le> 6 \<and> (bd_attempt_count r = 6 \<longrightarrow> (\<forall>now. \<not> due_delivery now r)))"
  using mailer.terminal_stays[OF assms(1,2)] mailer.attempts_bounded[OF assms] by (auto simp: terminal_def due_delivery_def)

text \<open>
  An exception whose text is empty is recorded as a delivery: the worker cannot tell it from an accepted message.
\<close>

theorem silent_failure_counts_as_sent:
  "process_next (\<lambda>m. Raised []) b now later = process_next (\<lambda>m. Accepted) b now later"
proof -
  have "finished (Some []) later = finished None later" by (rule ext) (simp add: finished_def present_def)
  then have "finish i (Some []) later c = finish i None later c" for i c by (simp add: finish_def)
  then show ?thesis by (simp add: process_next_def Let_def split: option.splits)
qed

subsection \<open>Samples\<close>

definition sample_contract :: contract_row where
  "sample_contract = \<lparr>ct_id = 801, ct_school_id = 1, ct_tier_id = 9, ct_status = CT_ACTIVE, ct_is_founding_partner = False,
     ct_payment_source = PS_DIRECT, ct_start_date = Date 2025 1 6, ct_end_date = Date 2027 1 6, ct_current_year_index = 1\<rparr>"

definition sample_link :: parent_link_row where
  "sample_link = \<lparr>pl_id = 71, pl_school_id = 1, pl_student_id = u_id sample_student, pl_parent_id = None, pl_parent_name = ''P'',
     pl_parent_contact = ''p@x.io'', pl_contact_method = CC_EMAIL, pl_account_created = False, pl_updated_at = None, pl_created_at = 0\<rparr>"

definition billing_sample :: billing_db where
  "billing_sample = \<lparr>bl_db = empty_db\<lparr>schools := [sample_school], users := [sample_student], parent_links := [sample_link]\<rparr>,
     contracts = [sample_contract], deliveries = []\<rparr>"

definition billing_sample_env :: billing_env where
  "billing_sample_env = \<lparr>be_repr = \<lambda>_. [], be_invoice_id = \<lambda>n. of_char (last n), be_delivery_id = \<lambda>i e k. i, be_currency = PC_NGN, be_now = 0\<rparr>"


definition swept_sample :: "billing_db \<times> (billing_error + issuance_result)" where
  "swept_sample = issue_due_invoices billing_sample_env billing_sample (Date 2026 2 1)"

lemma swept_sample_result: "snd swept_sample = Inr \<lparr>ir_considered = 1, ir_issued = 2\<rparr>"
  by code_simp

lemma swept_sample_eq:
  "issue_due_invoices billing_sample_env billing_sample (Date 2026 2 1) = (fst swept_sample, Inr \<lparr>ir_considered = 1, ir_issued = 2\<rparr>)"
  using swept_sample_result by (simp add: swept_sample_def prod_eq_iff)

lemma billing_sample_ok:
  "billing_tables_ok billing_sample" "distinct (map sch_id (schools (bl_db billing_sample)))"
  "invoices_ok (invoices (bl_db billing_sample))" "distinct (slugs (active_contracts billing_sample))"
  by code_simp+

theorem quote_adds_up_witness:
  "\<exists>q. quote_per_student PP_PER_TERM 7 RT_STANDARD None None PC_NGN = Inr q \<and>
     q_total_with_vat q = q_total_before_vat q + q_vat_amount q"
proof -
  obtain q where "quote_per_student PP_PER_TERM 7 RT_STANDARD None None PC_NGN = Inr q"
    by (simp add: quote_per_student_def Let_def published_rate_def)
  then show ?thesis using quote_adds_up by blast
qed

theorem sweep_bills_each_period_once_witness:
  "\<exists>news. invoices (bl_db (fst swept_sample)) = invoices (bl_db billing_sample) @ news \<and> length news = 2 \<and>
     (\<forall>i \<in> set news. \<exists>(c, s) \<in> set (active_contracts billing_sample). due_invoice billing_sample_env (Date 2026 2 1) (bl_db billing_sample) c s i)"
  using sweep_bills_each_period_once[OF swept_sample_eq billing_sample_ok(1-3)] by auto

theorem second_sweep_is_idle_witness:
  "fst (issue_due_invoices billing_sample_env (fst swept_sample) (Date 2026 2 1)) = fst swept_sample"
  using second_sweep_is_idle[OF swept_sample_eq billing_sample_ok(1,2,4) refl] by simp

text \<open>The school of the sample with somebody to send the invoices to, and the sweep followed by a round of the worker.\<close>

definition sample_contact :: billing_contact_row where
  "sample_contact = \<lparr>bc_id = 81, bc_school_id = 1, bc_email = ''bursar@b.ng'', bc_phone = None, bc_address_line1 = ''1 Road'',
     bc_address_line2 = None, bc_city = ''Lagos'', bc_region = None, bc_postal_code = None, bc_country = ''NG'', bc_updated_by_user_id = 11\<rparr>"

definition mail_sample :: billing_db where
  "mail_sample = fst (issue_due_invoices billing_sample_env
     (billing_sample\<lparr>bl_db := (bl_db billing_sample)\<lparr>billing_contacts := [sample_contact]\<rparr>\<rparr>) (Date 2025 2 1))"

definition mailed_sample :: billing_db where
  "mailed_sample = fst (process_next (\<lambda>m. Accepted) mail_sample 5 6)"

lemma mailed_sample_rows: "map (\<lambda>r. (bd_email r, bd_status r, bd_attempt_count r)) (deliveries mailed_sample) = [(''bursar@b.ng'', ''sent'', 1)]"
  by code_simp

theorem email_attempts_are_bounded_witness:
  "\<exists>r. r \<in> set (deliveries mailed_sample) \<and> bd_status r = ''sent'' \<and> bd_attempt_count r \<le> 6 \<and>
     r \<in> set (deliveries (fst (process_next (\<lambda>m. Accepted) mailed_sample 7 8)))"
proof -
  have ok: "billing_tables_ok mailed_sample" "attempts_ok mailed_sample" by code_simp+
  obtain r where r: "r \<in> set (deliveries mailed_sample)" "bd_status r = ''sent''"
    using mailed_sample_rows by (cases "deliveries mailed_sample") auto
  have "mail_step\<^sup>*\<^sup>* mailed_sample (fst (process_next (\<lambda>m. Accepted) mailed_sample 7 8))"
    by (rule r_into_rtranclp, rule mail_step.work) (rule prod.collapse[symmetric])
  from email_attempts_are_bounded[OF this ok] email_attempts_are_bounded[OF rtranclp.rtrancl_refl ok] r show ?thesis by blast
qed

text \<open>
  Two schools whose codes differ only by a dash share every invoice number: the second is never billed, although both contracts are
  active and both have a billable child.
\<close>

definition colliding_sample :: billing_db where
  "colliding_sample = \<lparr>bl_db = empty_db\<lparr>schools := [sample_school, sample_school\<lparr>sch_id := 2, sch_school_code := ''AB-23'', sch_school_url_slug := ''ab''\<rparr>],
       users := [sample_student, sample_student\<lparr>u_id := 20, u_school_id := Some 2\<rparr>],
       parent_links := [sample_link, sample_link\<lparr>pl_id := 72, pl_school_id := 2, pl_student_id := 20\<rparr>]\<rparr>,
     contracts = [sample_contract, sample_contract\<lparr>ct_id := 802, ct_school_id := 2\<rparr>], deliveries = []\<rparr>"

theorem colliding_codes_hide_a_school:
  "schools_ok (schools (bl_db colliding_sample)) \<and>
   (let (b', res) = issue_due_invoices billing_sample_env colliding_sample (Date 2025 2 1) in
      res = Inr \<lparr>ir_considered = 2, ir_issued = 1\<rparr> \<and> map inv_school_id (invoices (bl_db b')) = [1])"
  by code_simp

text \<open>
  A per-term school with its own term dates, its first year already invoiced, is billed for all three terms of its second contract year on the day that year begins: the dates
  configured for the first year are compared as they are.
\<close>

definition term_sample :: billing_db where
  "term_sample = billing_sample\<lparr>bl_db := (bl_db billing_sample)\<lparr>schools := [sample_school\<lparr>sch_pricing_plan := PP_PER_TERM,
     sch_academic_config := JObject [(TERM_DATES_KEY, JList [JString ''2025-01-06'', JString ''2025-05-05'', JString ''2025-09-08''])]\<rparr>]\<rparr>,
     contracts := [sample_contract\<lparr>ct_current_year_index := 2\<rparr>]\<rparr>"

theorem configured_terms_do_not_move:
  "(let (b', res) = issue_due_invoices billing_sample_env term_sample (Date 2026 1 6) in
      map inv_invoice_number (invoices (bl_db b')) = [''NEVO-AB23-Y2T1'', ''NEVO-AB23-Y2T2'', ''NEVO-AB23-Y2T3''])"
  by code_simp

end
