(* ===== verification/Permissions.thy ===== *)
theory Permissions
  imports Access
begin

text \<open>
  The admin team of a school (\<^verbatim>\<open>nevo/permissions/service.py\<close>, \<^verbatim>\<open>repositories.py\<close>,
  \<^verbatim>\<open>nevo/domain/permissions/vocabulary.py\<close>) and the Learning Support role (\<^verbatim>\<open>nevo/api/learning_support.py\<close>).
  A \<^verbatim>\<open>frozenset\<close> of scopes is a list read as a set.  Every write ends in \<open>commit\<close>, so a state that violates a
  constraint is rolled back.  Clock readings, identifiers and tokens are arguments; the token digest, the
  password hash and the collation of the team list are parameters.
\<close>

subsection \<open>Scopes and navigation\<close>

datatype permission_error =
    PermissionDeniedError
  | TeamMemberNotFoundError
  | TeamMemberAlreadyExistsError
  | InvalidInvitationError
  | LastOversightAdminError
  | LastSeniorAdminError
  | LastLearningSupportHolderError
  | LearningSupportGrantActiveError
  | SelfScopeRemovalError
  | SelfDeactivationError
  | SsoManagedTeamError
  | InvalidAdminRoleError
  | AdminSeatLimitReachedError
  | UnsupportedRole string
  | UncaughtIntegrityError
  | MultipleResultsFound

definition IMPLICIT_SCOPES_BY_ROLE :: "(string \<times> permission_scope list) list" where
  "IMPLICIT_SCOPES_BY_ROLE = [(''student'', []), (''teacher'', [SCOPE_TEACHER]), (''senco_admin'', [SCOPE_SENCO]),
     (''other_admin'', []), (''parent_guardian'', [])]"

fun NAVIGATION_BY_SCOPE :: "permission_scope \<Rightarrow> string list" where
  "NAVIGATION_BY_SCOPE SCOPE_BILLING = [''billing'']"
| "NAVIGATION_BY_SCOPE SCOPE_ROSTER = [''classes'', ''students'', ''team'']"
| "NAVIGATION_BY_SCOPE SCOPE_CURRICULUM = [''curriculum'', ''lessons'']"
| "NAVIGATION_BY_SCOPE SCOPE_SENCO = [''students'', ''insights'', ''iep_exporter'']"
| "NAVIGATION_BY_SCOPE SCOPE_IT_SSO = [''integrations'', ''settings'']"
| "NAVIGATION_BY_SCOPE SCOPE_OVERSIGHT = [''overview'', ''reports'', ''team'']"
| "NAVIGATION_BY_SCOPE SCOPE_TEACHER = [''dashboard'', ''lessons'', ''students'', ''insights'', ''connect'']"

definition NAVIGATION_ORDER :: "string list" where
  "NAVIGATION_ORDER = [''overview'', ''dashboard'', ''classes'', ''lessons'', ''curriculum'', ''students'', ''insights'',
     ''iep_exporter'', ''reports'', ''billing'', ''integrations'', ''settings'', ''team'', ''connect'']"

definition effective_scopes :: "string \<Rightarrow> permission_scope list \<Rightarrow> permission_error + permission_scope list" where
  "effective_scopes role assigned =
     (case map_of IMPLICIT_SCOPES_BY_ROLE role of
        None \<Rightarrow> Inl (UnsupportedRole role)
      | Some implicit \<Rightarrow> Inr (List.union assigned implicit))"

definition navigation_for :: "permission_scope list \<Rightarrow> string list" where
  "navigation_for scopes = filter (\<lambda>item. list_ex (\<lambda>s. item \<in> set (NAVIGATION_BY_SCOPE s)) scopes) NAVIGATION_ORDER"

subsection \<open>Entities\<close>

record permission_snapshot =
  sn_user_id :: uuid
  sn_school_id :: "uuid option"
  sn_role :: string
  sn_status :: string
  sn_school_auth_method :: "string option"
  sn_assigned_scopes :: "permission_scope list"
  sn_admin_access_level :: "admin_access_level option"
  sn_email_confirmed :: bool
  sn_email :: "string option"

record admin_team_member =
  tm_user_id :: uuid
  tm_admin_id :: uuid
  tm_school_id :: uuid
  tm_email :: "string option"
  tm_first_name :: "string option"
  tm_last_name :: "string option"
  tm_role :: string
  tm_status :: string
  tm_scopes :: "permission_scope list"
  tm_founding :: bool
  tm_last_active_at :: "datetime option"
  tm_access_level :: admin_access_level
  tm_senior_promoted_by :: "uuid option"
  tm_senior_promoted_by_name :: "string option"
  tm_senior_promoted_at :: "datetime option"
  tm_learning_support :: bool
  tm_learning_support_granted_at :: "datetime option"
  tm_learning_support_granted_by :: "uuid option"
  tm_learning_support_granted_by_name :: "string option"

record invitation_draft =
  id_invitation_id :: uuid
  id_user_id :: uuid
  id_admin_id :: uuid
  id_school_id :: uuid
  id_email :: string
  id_role :: user_role
  id_scopes :: "permission_scope list"
  id_token_digest :: string
  id_invited_by_user_id :: uuid
  id_created_at :: datetime
  id_expires_at :: datetime

record issued_invitation =
  ii_issued_id :: uuid
  ii_user_id :: uuid
  ii_email :: string
  ii_role :: string
  ii_scopes :: "permission_scope list"
  ii_token :: string
  ii_expires_at :: datetime

record accepted_invitation =
  av_user_id :: uuid
  av_school_id :: uuid
  av_role :: string

definition full_name :: "user_row \<Rightarrow> string" where
  "full_name u = py_join '' '' (filter (\<lambda>s. s \<noteq> []) [present (u_first_name u), present (u_last_name u)])"

subsection \<open>Reading the team\<close>

definition active_scope :: "uuid \<Rightarrow> scope_assignment_row \<Rightarrow> bool" where
  "active_scope admin_id s \<longleftrightarrow> sa_admin_id s = admin_id \<and> sa_revoked_at s = None"

definition active_scopes :: "db \<Rightarrow> uuid \<Rightarrow> permission_scope list" where
  "active_scopes d admin_id = map sa_scope (filter (active_scope admin_id) (scope_assignments d))"

definition snapshot :: "db \<Rightarrow> uuid \<Rightarrow> permission_snapshot option" where
  "snapshot d user_id =
     (case get_by u_id user_id (users d) of
        None \<Rightarrow> None
      | Some u \<Rightarrow>
          (let school = (case u_school_id u of None \<Rightarrow> None | Some s \<Rightarrow> get_by sch_id s (schools d));
               admin = get_by ad_user_id user_id (admins d) in
           Some \<lparr>sn_user_id = u_id u, sn_school_id = u_school_id u, sn_role = user_role_value (u_role u),
             sn_status = user_status_value (u_status u),
             sn_school_auth_method = map_option (\<lambda>s. auth_method_value (sch_auth_method s)) school,
             sn_assigned_scopes = (case admin of None \<Rightarrow> [] | Some a \<Rightarrow> active_scopes d (ad_id a)),
             sn_admin_access_level = map_option ad_access_level admin,
             sn_email_confirmed = (u_email_confirmed_at u \<noteq> None), sn_email = u_email u\<rparr>))"

definition team_member ::
  "admin_row \<Rightarrow> user_row \<Rightarrow> permission_scope list \<Rightarrow> datetime option \<Rightarrow> (learning_support_grant_row \<times> user_row) option
     \<Rightarrow> admin_team_member" where
  "team_member a u scopes last_active support =
     \<lparr>tm_user_id = u_id u, tm_admin_id = ad_id a, tm_school_id = ad_school_id a, tm_email = u_email u,
      tm_first_name = u_first_name u, tm_last_name = u_last_name u, tm_role = user_role_value (u_role u),
      tm_status = user_status_value (u_status u), tm_scopes = scopes, tm_founding = (ad_created_by_user_id a = None),
      tm_last_active_at = last_active, tm_access_level = ad_access_level a, tm_senior_promoted_by = ad_senior_promoted_by a,
      tm_senior_promoted_by_name = ad_senior_promoted_by_name a, tm_senior_promoted_at = ad_senior_promoted_at a,
      tm_learning_support = (support \<noteq> None), tm_learning_support_granted_at = map_option (lg_granted_at \<circ> fst) support,
      tm_learning_support_granted_by = map_option (lg_granted_by_user_id \<circ> fst) support,
      tm_learning_support_granted_by_name =
        (case support of None \<Rightarrow> None | Some (_, g) \<Rightarrow> if full_name g \<noteq> [] then Some (full_name g) else u_email g)\<rparr>"

definition support_of :: "db \<Rightarrow> uuid \<Rightarrow> (learning_support_grant_row \<times> user_row) list" where
  "support_of d holder = [(g, u). g \<leftarrow> learning_support_grants d, lg_holder_user_id g = holder \<and> lg_revoked_at g = None,
     u \<leftarrow> users d, u_id u = lg_granted_by_user_id g]"

definition last_seen :: "db \<Rightarrow> uuid \<Rightarrow> datetime option" where
  "last_seen d user_id =
     (let seen = map as_last_seen_at (filter (\<lambda>s. as_user_id s = user_id) (auth_sessions d)) in
      if seen = [] then None else Some (fold max seen (hd seen)))"

text \<open>The dictionary of grants keeps the last row of a holder.\<close>

definition list_team :: "(user_row \<Rightarrow> 'a::linorder) \<Rightarrow> db \<Rightarrow> uuid \<Rightarrow> admin_team_member list" where
  "list_team collate d school_id =
     map (\<lambda>(a, u). team_member a u (active_scopes d (ad_id a)) (last_seen d (u_id u))
        (let s = support_of d (u_id u) in if s = [] then None else Some (last s)))
       (sort_key (collate \<circ> snd)
         [(a, u). a \<leftarrow> admins d, ad_school_id a = school_id, u \<leftarrow> users d, u_id u = ad_user_id a])"

definition admin_seat_limit :: "db \<Rightarrow> uuid \<Rightarrow> int" where
  "admin_seat_limit d school_id =
     (case get_by sch_id school_id (schools d) of
        None \<Rightarrow> 5 | Some s \<Rightarrow> if sch_admin_seat_limit s = 0 then 5 else sch_admin_seat_limit s)"

subsection \<open>Writing the team\<close>

definition UserRole :: "string \<Rightarrow> user_role option" where
  "UserRole s = List.find (\<lambda>r. user_role_value r = s) [UR_STUDENT, UR_TEACHER, UR_SENCO_ADMIN, UR_OTHER_ADMIN, UR_PARENT_GUARDIAN]"

definition replace_assignment_rows ::
  "uuid \<Rightarrow> permission_scope list \<Rightarrow> uuid \<Rightarrow> datetime \<Rightarrow> permission_scope list \<Rightarrow> db \<Rightarrow> db" where
  "replace_assignment_rows admin_id scopes changed_by changed_at active d =
     d\<lparr>scope_assignments :=
        update_where (\<lambda>s. active_scope admin_id s \<and> sa_scope s \<in> set active \<and> sa_scope s \<notin> set scopes)
          (\<lambda>s. s\<lparr>sa_revoked_at := Some (max changed_at (sa_granted_at s))\<rparr>) (scope_assignments d) @
        map (\<lambda>sc. \<lparr>sa_admin_id = admin_id, sa_scope = sc, sa_granted_by_user_id = Some changed_by,
               sa_granted_at = changed_at, sa_revoked_at = None\<rparr>)
          (filter (\<lambda>sc. sc \<notin> set active) (remdups scopes))\<rparr>"

definition seat_taken :: "db \<Rightarrow> uuid \<Rightarrow> admin_row \<Rightarrow> bool" where
  "seat_taken d school_id a \<longleftrightarrow> ad_school_id a = school_id \<and>
     exists_where (\<lambda>u. u_id u = ad_user_id a \<and> u_status u \<in> {US_ACTIVE, US_INVITED}) (users d)"

definition seats_used :: "db \<Rightarrow> uuid \<Rightarrow> nat" where
  "seats_used d school_id = count_where (seat_taken d school_id) (admins d)"

definition new_invitation :: "invitation_draft \<Rightarrow> admin_invitation_row" where
  "new_invitation v = \<lparr>ai_id = id_invitation_id v, ai_user_id = id_user_id v, ai_school_id = id_school_id v, ai_role = id_role v,
     ai_token_digest = id_token_digest v, ai_invited_by_user_id = Some (id_invited_by_user_id v),
     ai_created_at = id_created_at v, ai_expires_at = id_expires_at v, ai_accepted_at = None, ai_revoked_at = None\<rparr>"

definition reinvite :: "invitation_draft \<Rightarrow> user_row \<Rightarrow> admin_row \<Rightarrow> db \<Rightarrow> db" where
  "reinvite v u a d =
     (let d1 = d\<lparr>admin_invitations := update_where (\<lambda>i. ai_user_id i = u_id u \<and> ai_accepted_at i = None \<and> ai_revoked_at i = None)
            (\<lambda>i. i\<lparr>ai_revoked_at := Some (id_created_at v)\<rparr>) (admin_invitations d)\<rparr>;
          d2 = replace_assignment_rows (ad_id a) (id_scopes v) (id_invited_by_user_id v) (id_created_at v) (active_scopes d (ad_id a)) d1 in
      d2\<lparr>users := update_where (\<lambda>x. u_id x = u_id u) (\<lambda>x. x\<lparr>u_role := id_role v\<rparr>) (users d2)\<rparr>)"

definition first_invite :: "invitation_draft \<Rightarrow> db \<Rightarrow> db" where
  "first_invite v d = d\<lparr>
     users := users d @ [(new_user (id_user_id v) (Some (id_school_id v)) (id_role v) AM_EMAIL_PASSWORD)
       \<lparr>u_email := Some (id_email v), u_status := US_INVITED\<rparr>],
     admins := admins d @ [\<lparr>ad_id = id_admin_id v, ad_user_id = id_user_id v, ad_school_id = id_school_id v,
       ad_created_by_user_id = Some (id_invited_by_user_id v), ad_access_level = AL_STANDARD, ad_senior_promoted_by = None,
       ad_senior_promoted_by_name = None, ad_senior_promoted_at = None\<rparr>],
     scope_assignments := scope_assignments d @ map (\<lambda>sc. \<lparr>sa_admin_id = id_admin_id v, sa_scope = sc,
       sa_granted_by_user_id = Some (id_invited_by_user_id v), sa_granted_at = id_created_at v, sa_revoked_at = None\<rparr>)
       (remdups (id_scopes v))\<rparr>"

text \<open>The end of \<^verbatim>\<open>create_invitation\<close>, whose handler turns an \<^verbatim>\<open>IntegrityError\<close> into \<open>TeamMemberAlreadyExistsError\<close>.\<close>

definition store_invitation :: "db \<Rightarrow> invitation_draft \<Rightarrow> db \<Rightarrow> db \<times> (permission_error + invitation_draft)" where
  "store_invitation d v d' =
     (case commit (d'\<lparr>admin_invitations := admin_invitations d' @ [new_invitation v]\<rparr>) of
        Inl _ \<Rightarrow> (d, Inl TeamMemberAlreadyExistsError) | Inr d'' \<Rightarrow> (d'', Inr v))"

definition create_invitation :: "db \<Rightarrow> invitation_draft \<Rightarrow> db \<times> (permission_error + invitation_draft)" where
  "create_invitation d v =
     (case get_by sch_id (id_school_id v) (schools d) of
        None \<Rightarrow> (d, Inl TeamMemberAlreadyExistsError)
      | Some school \<Rightarrow>
          (case List.find (\<lambda>u. map_option sql_lower (u_email u) = Some (id_email v)) (users d) of
             None \<Rightarrow>
               if sch_admin_seat_limit school \<le> int (seats_used d (id_school_id v)) then (d, Inl AdminSeatLimitReachedError)
               else store_invitation d v (first_invite v d)
           | Some u \<Rightarrow>
               if u_status u \<noteq> US_INVITED \<or> u_school_id u \<noteq> Some (id_school_id v) then (d, Inl TeamMemberAlreadyExistsError)
               else case get_by ad_user_id (u_id u) (admins d) of
                      None \<Rightarrow> (d, Inl TeamMemberAlreadyExistsError)
                    | Some a \<Rightarrow> store_invitation d (v\<lparr>id_user_id := u_id u, id_admin_id := ad_id a\<rparr>) (reinvite v u a d)))"

text \<open>The end of the other transactions, whose errors nobody catches.\<close>

definition team_commit :: "db \<Rightarrow> db \<Rightarrow> 'a \<Rightarrow> db \<times> (permission_error + 'a)" where
  "team_commit d d' r = (case commit d' of Inl _ \<Rightarrow> (d, Inl UncaughtIntegrityError) | Inr d'' \<Rightarrow> (d'', Inr r))"

definition open_admin_invitation :: "db \<Rightarrow> string \<Rightarrow> datetime \<Rightarrow> (admin_invitation_row \<times> user_row) option" where
  "open_admin_invitation d digest now =
     (case get_by ai_token_digest digest (admin_invitations d) of
        None \<Rightarrow> None
      | Some i \<Rightarrow>
          if ai_accepted_at i \<noteq> None \<or> ai_revoked_at i \<noteq> None \<or> ai_expires_at i \<le> now then None
          else case get_by u_id (ai_user_id i) (users d) of
                 None \<Rightarrow> None
               | Some u \<Rightarrow> if u_status u \<noteq> US_INVITED then None else Some (i, u))"

definition repo_accept_invitation ::
  "db \<Rightarrow> string \<Rightarrow> string \<Rightarrow> datetime \<Rightarrow> db \<times> (permission_error + accepted_invitation option)" where
  "repo_accept_invitation d digest password_hash accepted_at =
     (case open_admin_invitation d digest accepted_at of
        None \<Rightarrow> (d, Inr None)
      | Some (i, u) \<Rightarrow>
          team_commit d
            (d\<lparr>users := update_where (\<lambda>x. u_id x = u_id u) (\<lambda>x. x\<lparr>u_password_hash := Some password_hash,
                  u_auth_method := AM_EMAIL_PASSWORD, u_status := US_ACTIVE, u_deactivated_at := None\<rparr>) (users d),
               admin_invitations := update_where (\<lambda>x. ai_id x = ai_id i) (\<lambda>x. x\<lparr>ai_accepted_at := Some accepted_at\<rparr>) (admin_invitations d)\<rparr>)
            (Some \<lparr>av_user_id = u_id u, av_school_id = ai_school_id i, av_role = user_role_value (u_role u)\<rparr>))"

definition team_row :: "db \<Rightarrow> uuid \<Rightarrow> uuid \<Rightarrow> (admin_row \<times> user_row) option" where
  "team_row d school_id target =
     (case get_by u_id target (users d) of
        None \<Rightarrow> None
      | Some u \<Rightarrow> (case get_by ad_user_id target (admins d) of
                     None \<Rightarrow> None
                   | Some a \<Rightarrow> if ad_school_id a = school_id then Some (a, u) else None))"

definition oversight_row :: "db \<Rightarrow> uuid \<Rightarrow> scope_assignment_row \<Rightarrow> bool" where
  "oversight_row d school_id s \<longleftrightarrow> sa_scope s = SCOPE_OVERSIGHT \<and> sa_revoked_at s = None \<and>
     exists_where (\<lambda>a. ad_id a = sa_admin_id s \<and> ad_school_id a = school_id \<and>
        exists_where (\<lambda>u. u_id u = ad_user_id a \<and> u_status u = US_ACTIVE) (users d)) (admins d)"

definition oversight_count :: "db \<Rightarrow> uuid \<Rightarrow> nat" where
  "oversight_count d school_id = count_where (oversight_row d school_id) (scope_assignments d)"

definition open_grant :: "uuid \<Rightarrow> uuid \<Rightarrow> learning_support_grant_row \<Rightarrow> bool" where
  "open_grant school_id holder g \<longleftrightarrow> lg_school_id g = school_id \<and> lg_holder_user_id g = holder \<and> lg_revoked_at g = None"

definition repo_replace_scopes ::
  "db \<Rightarrow> uuid \<Rightarrow> uuid \<Rightarrow> permission_scope list \<Rightarrow> uuid \<Rightarrow> datetime \<Rightarrow> db \<times> (permission_error + admin_team_member option)" where
  "repo_replace_scopes d school_id target scopes changed_by changed_at =
     (case team_row d school_id target of
        None \<Rightarrow> (d, Inr None)
      | Some (a, u) \<Rightarrow>
          (let current = active_scopes d (ad_id a);
               removed = filter (\<lambda>sc. sc \<notin> set scopes) current in
           if SCOPE_SENCO \<in> set removed \<and> exists_where (open_grant school_id target) (learning_support_grants d)
           then (d, Inl LearningSupportGrantActiveError)
           else if SCOPE_OVERSIGHT \<in> set removed \<and> oversight_count d school_id \<le> 1 then (d, Inl LastOversightAdminError)
           else team_commit d (replace_assignment_rows (ad_id a) scopes changed_by changed_at current d)
                  (Some (team_member a u (remdups scopes) None None))))"

definition holder_count :: "db \<Rightarrow> uuid \<Rightarrow> nat" where
  "holder_count d school_id = count_where (\<lambda>g. lg_school_id g = school_id \<and> lg_revoked_at g = None \<and>
     exists_where (\<lambda>u. u_id u = lg_holder_user_id g \<and> u_status u = US_ACTIVE) (users d)) (learning_support_grants d)"

definition with_active :: "bool \<Rightarrow> datetime \<Rightarrow> user_row \<Rightarrow> user_row" where
  "with_active active changed_at u = u\<lparr>u_status := (if active then US_ACTIVE else US_DEACTIVATED),
     u_deactivated_at := (if active then None else Some changed_at)\<rparr>"

definition repo_set_team_member_active ::
  "db \<Rightarrow> uuid \<Rightarrow> uuid \<Rightarrow> bool \<Rightarrow> datetime \<Rightarrow> db \<times> (permission_error + admin_team_member option)" where
  "repo_set_team_member_active d school_id target active changed_at =
     (case team_row d school_id target of
        None \<Rightarrow> (d, Inr None)
      | Some (a, u) \<Rightarrow>
          (let scopes = active_scopes d (ad_id a) in
           if active \<and> u_status u = US_ACTIVE \<or> \<not> active \<and> u_status u = US_DEACTIVATED
           then (d, Inr (Some (team_member a u scopes None None)))
           else if u_status u \<notin> {US_ACTIVE, US_DEACTIVATED} then (d, Inr None)
           else if \<not> active \<and> SCOPE_OVERSIGHT \<in> set scopes \<and> oversight_count d school_id \<le> 1 then (d, Inl LastOversightAdminError)
           else if \<not> active \<and> exists_where (open_grant school_id target) (learning_support_grants d) \<and> holder_count d school_id \<le> 1
           then (d, Inl LastLearningSupportHolderError)
           else team_commit d
                  (d\<lparr>users := update_where (\<lambda>x. u_id x = target) (with_active active changed_at) (users d),
                     auth_sessions := (if active then auth_sessions d else
                       update_where (\<lambda>s. as_user_id s = target \<and> as_revoked_at s = None)
                         (\<lambda>s. s\<lparr>as_revoked_at := Some changed_at, as_revocation_reason := Some ''admin_revoked''\<rparr>) (auth_sessions d))\<rparr>)
                  (Some (team_member a (with_active active changed_at u) scopes None None))))"

definition promoted_by_name :: "db \<Rightarrow> uuid \<Rightarrow> string" where
  "promoted_by_name d changed_by =
     (case get_by u_id changed_by (users d) of
        None \<Rightarrow> uuid_str changed_by
      | Some g \<Rightarrow> if full_name g \<noteq> [] then full_name g else if present (u_email g) \<noteq> [] then present (u_email g) else uuid_str changed_by)"

definition with_access_level :: "db \<Rightarrow> admin_access_level \<Rightarrow> uuid \<Rightarrow> datetime \<Rightarrow> admin_row \<Rightarrow> admin_row" where
  "with_access_level d level changed_by changed_at a =
     (if ad_access_level a \<noteq> level \<and> level = AL_SENIOR
      then a\<lparr>ad_access_level := level, ad_senior_promoted_by := Some changed_by,
             ad_senior_promoted_by_name := Some (promoted_by_name d changed_by), ad_senior_promoted_at := Some changed_at\<rparr>
      else a\<lparr>ad_access_level := level\<rparr>)"

definition active_senior :: "db \<Rightarrow> uuid \<Rightarrow> admin_row \<Rightarrow> bool" where
  "active_senior d school_id a \<longleftrightarrow> ad_school_id a = school_id \<and> ad_access_level a = AL_SENIOR \<and>
     exists_where (\<lambda>u. u_id u = ad_user_id a \<and> u_status u = US_ACTIVE) (users d)"

definition set_admin_access_level ::
  "db \<Rightarrow> uuid \<Rightarrow> uuid \<Rightarrow> admin_access_level \<Rightarrow> uuid \<Rightarrow> datetime \<Rightarrow> db \<times> (permission_error + admin_team_member option)" where
  "set_admin_access_level d school_id target level changed_by changed_at =
     (if get_by sch_id school_id (schools d) = None then (d, Inr None)
      else case team_row d school_id target of
        None \<Rightarrow> (d, Inr None)
      | Some (a, u) \<Rightarrow>
          if level = AL_STANDARD \<and> ad_access_level a = AL_SENIOR \<and> u_status u = US_ACTIVE \<and>
             \<not> exists_where (\<lambda>x. active_senior d school_id x \<and> ad_user_id x \<noteq> target) (admins d)
          then (d, Inl LastSeniorAdminError)
          else if 1 < length (support_of d target) then (d, Inl MultipleResultsFound)
          else (let a' = with_access_level d level changed_by changed_at a in
                team_commit d (d\<lparr>admins := update_where (\<lambda>x. ad_id x = ad_id a) (\<lambda>_. a') (admins d)\<rparr>)
                  (Some (team_member a' u (active_scopes d (ad_id a)) None
                     (let s = support_of d target in if s = [] then None else Some (hd s))))))"

subsection \<open>The service\<close>

definition permissions_for :: "db \<Rightarrow> uuid \<Rightarrow> permission_error + permission_snapshot" where
  "permissions_for d user_id =
     (case snapshot d user_id of
        None \<Rightarrow> Inl PermissionDeniedError
      | Some sn \<Rightarrow>
          if sn_status sn \<noteq> ''active'' then Inl PermissionDeniedError
          else case effective_scopes (sn_role sn) (sn_assigned_scopes sn) of
                 Inl e \<Rightarrow> Inl e | Inr scopes \<Rightarrow> Inr (sn\<lparr>sn_assigned_scopes := scopes\<rparr>))"

definition require_scope :: "db \<Rightarrow> uuid \<Rightarrow> permission_scope \<Rightarrow> permission_error + permission_snapshot" where
  "require_scope d user_id scope =
     (case permissions_for d user_id of
        Inl e \<Rightarrow> Inl e | Inr sn \<Rightarrow> if scope \<notin> set (sn_assigned_scopes sn) then Inl PermissionDeniedError else Inr sn)"

definition require_senior_admin :: "db \<Rightarrow> uuid \<Rightarrow> permission_error + permission_snapshot" where
  "require_senior_admin d user_id =
     (case permissions_for d user_id of
        Inl e \<Rightarrow> Inl e | Inr sn \<Rightarrow> if sn_admin_access_level sn \<noteq> Some AL_SENIOR then Inl PermissionDeniedError else Inr sn)"

definition principal_navigation :: "db \<Rightarrow> uuid \<Rightarrow> permission_error + string list" where
  "principal_navigation d user_id =
     (case permissions_for d user_id of Inl e \<Rightarrow> Inl e | Inr sn \<Rightarrow> Inr (navigation_for (sn_assigned_scopes sn)))"

text \<open>Every operation starts with the acting administrator and the school they act for.\<close>

definition acting_school :: "permission_error + permission_snapshot \<Rightarrow> permission_error + (permission_snapshot \<times> uuid)" where
  "acting_school r = (case r of
      Inl e \<Rightarrow> Inl e
    | Inr sn \<Rightarrow> (case sn_school_id sn of None \<Rightarrow> Inl PermissionDeniedError | Some s \<Rightarrow> Inr (sn, s)))"

definition with_effective_scopes :: "admin_team_member \<Rightarrow> permission_error + admin_team_member" where
  "with_effective_scopes mem =
     (case effective_scopes (tm_role mem) (tm_scopes mem) of Inl e \<Rightarrow> Inl e | Inr sc \<Rightarrow> Inr (mem\<lparr>tm_scopes := sc\<rparr>))"

definition PERMISSIONS_ADMIN_ROLES :: "string list" where
  "PERMISSIONS_ADMIN_ROLES = [''teacher'', ''senco_admin'', ''other_admin'']"

definition invitation_ttl :: timedelta where
  "invitation_ttl = td_days 7"

definition invitation_digest :: "(string \<Rightarrow> string) \<Rightarrow> string \<Rightarrow> string" where
  "invitation_digest hmac token = hmac (''admin-invitation:'' @ token)"

definition invite ::
  "(string \<Rightarrow> string) \<Rightarrow> (user_row \<Rightarrow> 'a::linorder) \<Rightarrow> db \<Rightarrow> uuid \<Rightarrow> string \<Rightarrow> string \<Rightarrow> permission_scope list \<Rightarrow> datetime
     \<Rightarrow> string \<Rightarrow> uuid \<Rightarrow> uuid \<Rightarrow> uuid \<Rightarrow> db \<times> (permission_error + issued_invitation)" where
  "invite hmac collate d actor_id email role scopes now token new_invitation_id new_user_id new_admin_id =
     (case acting_school (require_scope d actor_id SCOPE_OVERSIGHT) of
        Inl e \<Rightarrow> (d, Inl e)
      | Inr (actor, school_id) \<Rightarrow>
          if sn_school_auth_method actor = Some ''sso'' then (d, Inl SsoManagedTeamError)
          else if role \<notin> set PERMISSIONS_ADMIN_ROLES then (d, Inl InvalidAdminRoleError)
          else if scopes = [] \<and> role = ''other_admin'' then (d, Inl PermissionDeniedError)
          else
            (let members = list_team collate d school_id;
                 existing = list_ex (\<lambda>mem. py_casefold (present (tm_email mem)) = py_casefold email) members;
                 used = count_where (\<lambda>mem. tm_status mem \<in> {''active'', ''invited''}) members in
             if \<not> existing \<and> admin_seat_limit d school_id \<le> int used then (d, Inl AdminSeatLimitReachedError)
             else
               (let draft = \<lparr>id_invitation_id = new_invitation_id, id_user_id = new_user_id, id_admin_id = new_admin_id,
                      id_school_id = school_id, id_email = py_strip (py_casefold email), id_role = the (UserRole role),
                      id_scopes = scopes, id_token_digest = invitation_digest hmac token,
                      id_invited_by_user_id = sn_user_id actor, id_created_at = now, id_expires_at = now + invitation_ttl\<rparr> in
                case create_invitation d draft of
                  (d', Inl e) \<Rightarrow> (d', Inl e)
                | (d', Inr v) \<Rightarrow>
                    (case effective_scopes role (id_scopes v) of
                       Inl e \<Rightarrow> (d', Inl e)
                     | Inr sc \<Rightarrow> (d', Inr \<lparr>ii_issued_id = id_invitation_id v, ii_user_id = id_user_id v, ii_email = id_email v,
                         ii_role = role, ii_scopes = sc, ii_token = token, ii_expires_at = id_expires_at v\<rparr>)))))"

definition accept_admin_invitation ::
  "(string \<Rightarrow> string) \<Rightarrow> (string \<Rightarrow> string) \<Rightarrow> db \<Rightarrow> string \<Rightarrow> string \<Rightarrow> datetime \<Rightarrow> db \<times> (permission_error + accepted_invitation)" where
  "accept_admin_invitation hmac hash_password d token password now =
     (case repo_accept_invitation d (invitation_digest hmac token) (hash_password password) now of
        (d', Inl e) \<Rightarrow> (d', Inl e)
      | (d', Inr None) \<Rightarrow> (d', Inl InvalidInvitationError)
      | (d', Inr (Some r)) \<Rightarrow> (d', Inr r))"

definition answer_member :: "db \<times> (permission_error + admin_team_member option) \<Rightarrow> db \<times> (permission_error + admin_team_member)" where
  "answer_member r = (case r of
      (d', Inl e) \<Rightarrow> (d', Inl e)
    | (d', Inr None) \<Rightarrow> (d', Inl TeamMemberNotFoundError)
    | (d', Inr (Some mem)) \<Rightarrow> (d', with_effective_scopes mem))"

definition replace_scopes ::
  "db \<Rightarrow> uuid \<Rightarrow> uuid \<Rightarrow> permission_scope list \<Rightarrow> datetime \<Rightarrow> db \<times> (permission_error + admin_team_member)" where
  "replace_scopes d actor_id target scopes now =
     (case acting_school (require_scope d actor_id SCOPE_OVERSIGHT) of
        Inl e \<Rightarrow> (d, Inl e)
      | Inr (actor, school_id) \<Rightarrow>
          if target = sn_user_id actor \<and> SCOPE_OVERSIGHT \<notin> set scopes then (d, Inl SelfScopeRemovalError)
          else answer_member (repo_replace_scopes d school_id target scopes (sn_user_id actor) now))"

definition change_access_level ::
  "admin_access_level \<Rightarrow> db \<Rightarrow> uuid \<Rightarrow> uuid \<Rightarrow> datetime \<Rightarrow> db \<times> (permission_error + admin_team_member)" where
  "change_access_level level d actor_id target now =
     (case acting_school (require_senior_admin d actor_id) of
        Inl e \<Rightarrow> (d, Inl e)
      | Inr (actor, school_id) \<Rightarrow> answer_member (set_admin_access_level d school_id target level (sn_user_id actor) now))"

definition promote_to_senior :: "db \<Rightarrow> uuid \<Rightarrow> uuid \<Rightarrow> datetime \<Rightarrow> db \<times> (permission_error + admin_team_member)" where
  "promote_to_senior = change_access_level AL_SENIOR"

definition demote_to_standard :: "db \<Rightarrow> uuid \<Rightarrow> uuid \<Rightarrow> datetime \<Rightarrow> db \<times> (permission_error + admin_team_member)" where
  "demote_to_standard = change_access_level AL_STANDARD"

definition set_team_member_active ::
  "db \<Rightarrow> uuid \<Rightarrow> uuid \<Rightarrow> bool \<Rightarrow> datetime \<Rightarrow> db \<times> (permission_error + admin_team_member)" where
  "set_team_member_active d actor_id target active now =
     (case acting_school (require_scope d actor_id SCOPE_OVERSIGHT) of
        Inl e \<Rightarrow> (d, Inl e)
      | Inr (actor, school_id) \<Rightarrow>
          if \<not> active \<and> target = sn_user_id actor then (d, Inl SelfDeactivationError)
          else answer_member (repo_set_team_member_active d school_id target active now))"

subsection \<open>Learning Support\<close>

definition staff_in_school :: "db \<Rightarrow> uuid \<Rightarrow> uuid \<Rightarrow> bool" where
  "staff_in_school d school_id user_id = exists_where (\<lambda>u. u_id u = user_id \<and> u_school_id u = Some school_id \<and>
     u_status u = US_ACTIVE \<and> u_role u \<in> set LEARNING_SUPPORT_ROLES) (users d)"

definition holders :: "db \<Rightarrow> uuid \<Rightarrow> learning_support_grant_row list" where
  "holders d school_id = sort_key lg_granted_at (filter (\<lambda>g. lg_school_id g = school_id \<and> lg_revoked_at g = None \<and>
     staff_in_school d school_id (lg_holder_user_id g)) (learning_support_grants d))"

definition add_scope :: "uuid \<Rightarrow> uuid \<Rightarrow> datetime \<Rightarrow> db \<Rightarrow> db" where
  "add_scope user_id granted_by db_now d =
     (case get_by ad_user_id user_id (admins d) of
        None \<Rightarrow> d
      | Some a \<Rightarrow>
          if exists_where (\<lambda>s. sa_admin_id s = ad_id a \<and> sa_scope s = SCOPE_SENCO) (scope_assignments d) then d
          else d\<lparr>scope_assignments := scope_assignments d @ [\<lparr>sa_admin_id = ad_id a, sa_scope = SCOPE_SENCO,
                 sa_granted_by_user_id = Some granted_by, sa_granted_at = db_now, sa_revoked_at = None\<rparr>]\<rparr>)"

definition drop_scope :: "uuid \<Rightarrow> db \<Rightarrow> db" where
  "drop_scope user_id d =
     (case get_by ad_user_id user_id (admins d) of
        None \<Rightarrow> d
      | Some a \<Rightarrow>
          (case List.find (\<lambda>s. sa_admin_id s = ad_id a \<and> sa_scope s = SCOPE_SENCO) (scope_assignments d) of
             None \<Rightarrow> d
           | Some s \<Rightarrow> d\<lparr>scope_assignments := remove1 s (scope_assignments d)\<rparr>))"

definition end_grant :: "uuid \<Rightarrow> datetime \<Rightarrow> bool \<Rightarrow> learning_support_grant_row \<Rightarrow> db \<Rightarrow> db" where
  "end_grant actor_id now handed g d = d\<lparr>learning_support_grants := update_where (\<lambda>x. lg_id x = lg_id g)
     (\<lambda>x. x\<lparr>lg_revoked_at := Some now, lg_revoked_by_user_id := Some actor_id, lg_handed_over := (handed \<or> lg_handed_over x)\<rparr>)
     (learning_support_grants d)\<rparr>"

definition support_audit :: "string \<Rightarrow> uuid \<Rightarrow> uuid \<Rightarrow> uuid \<Rightarrow> datetime \<Rightarrow> db \<Rightarrow> db" where
  "support_audit event user_id actor_id school_id db_now d =
     audit_record d event db_now (Some user_id) None None None
       (Some [(''actorId'', uuid_str actor_id), (''schoolId'', uuid_str school_id)])"

definition hand_over :: "uuid \<Rightarrow> uuid \<Rightarrow> datetime \<Rightarrow> datetime \<Rightarrow> learning_support_grant_row \<Rightarrow> db \<Rightarrow> db" where
  "hand_over actor_id school_id now db_now g d =
     drop_scope (lg_holder_user_id g)
       (support_audit ''learning_support_handed_over'' (lg_holder_user_id g) actor_id school_id db_now (end_grant actor_id now True g d))"

definition give_grant :: "uuid \<Rightarrow> uuid \<Rightarrow> uuid \<Rightarrow> datetime \<Rightarrow> datetime \<Rightarrow> uuid \<Rightarrow> db \<Rightarrow> db" where
  "give_grant actor_id school_id user_id now db_now new_id d =
     support_audit ''learning_support_granted'' user_id actor_id school_id db_now
       (add_scope user_id actor_id db_now
         (d\<lparr>learning_support_grants := learning_support_grants d @ [\<lparr>lg_id = new_id, lg_school_id = school_id,
            lg_holder_user_id = user_id, lg_granted_by_user_id = actor_id, lg_granted_at = now, lg_revoked_at = None,
            lg_revoked_by_user_id = None, lg_handed_over = False\<rparr>]\<rparr>))"

text \<open>The handlers answer with the holders of the committed state.\<close>

definition support_commit :: "db \<Rightarrow> db \<Rightarrow> uuid \<Rightarrow> db \<times> (http_error + learning_support_grant_row list)" where
  "support_commit d d' school_id =
     (case commit d' of Inl _ \<Rightarrow> (d, Inl (HTTPException 500 ''IntegrityError'')) | Inr d'' \<Rightarrow> (d'', Inr (holders d'' school_id)))"

definition grant_learning_support ::
  "request_facts option \<Rightarrow> db \<Rightarrow> auth_principal \<Rightarrow> uuid \<Rightarrow> bool \<Rightarrow> datetime \<Rightarrow> datetime \<Rightarrow> uuid
     \<Rightarrow> db \<times> (http_error + learning_support_grant_row list)" where
  "grant_learning_support request d p user_id replace_existing now db_now new_id =
     (case require_school_actor request d p ADMIN_ROLES of
        Inl e \<Rightarrow> (d, Inl e)
      | Inr actor \<Rightarrow>
          (let school_id = the (u_school_id actor) in
           if user_id = u_id actor then (d, Inl (HTTPException 403 ''learning_support_self_grant_forbidden''))
           else case get_by u_id user_id (users d) of
             None \<Rightarrow> (d, Inl (HTTPException 404 ''That person is not in this school''))
           | Some h \<Rightarrow>
               if u_school_id h \<noteq> u_school_id actor \<or> u_role h \<notin> set LEARNING_SUPPORT_ROLES \<or> u_status h \<noteq> US_ACTIVE
               then (d, Inl (HTTPException 404 ''That person is not in this school''))
               else
                 (let existing = holders d school_id;
                      others = filter (\<lambda>g. lg_holder_user_id g \<noteq> user_id) existing;
                      d1 = (if replace_existing then fold (hand_over (u_id actor) school_id now db_now) others d else d);
                      d2 = (if list_ex (\<lambda>g. lg_holder_user_id g = user_id) existing then d1
                            else give_grant (u_id actor) school_id user_id now db_now new_id d1) in
                  support_commit d d2 school_id)))"

definition take_back :: "uuid \<Rightarrow> uuid \<Rightarrow> datetime \<Rightarrow> datetime \<Rightarrow> learning_support_grant_row \<Rightarrow> db \<Rightarrow> db" where
  "take_back actor_id school_id now db_now g d =
     drop_scope (lg_holder_user_id g)
       (support_audit ''learning_support_revoked'' (lg_holder_user_id g) actor_id school_id db_now (end_grant actor_id now False g d))"

definition revoke_learning_support ::
  "request_facts option \<Rightarrow> db \<Rightarrow> auth_principal \<Rightarrow> uuid \<Rightarrow> datetime \<Rightarrow> datetime \<Rightarrow> db \<times> (http_error + learning_support_grant_row list)" where
  "revoke_learning_support request d p user_id now db_now =
     (case require_school_actor request d p ADMIN_ROLES of
        Inl e \<Rightarrow> (d, Inl e)
      | Inr actor \<Rightarrow>
          (let school_id = the (u_school_id actor);
               existing = holders d school_id;
               theirs = filter (\<lambda>g. lg_holder_user_id g = user_id) existing in
           if theirs \<noteq> [] \<and> length existing = 1 then (d, Inl (HTTPException 409 ''last_learning_support_holder''))
           else support_commit d (fold (take_back (u_id actor) school_id now db_now) theirs d) school_id))"

definition refuse_last_holder_change :: "db \<Rightarrow> uuid \<Rightarrow> uuid \<Rightarrow> http_error + unit" where
  "refuse_last_holder_change d school_id user_id =
     (case holders d school_id of
        [g] \<Rightarrow> if lg_holder_user_id g = user_id then Inl (HTTPException 409 ''last_learning_support_holder'') else Inr ()
      | _ \<Rightarrow> Inr ())"

text \<open>Who is told when nobody holds the role: a senior administrator first, then the oldest.\<close>

definition fallback_school_admin :: "(admin_row \<Rightarrow> datetime) \<Rightarrow> db \<Rightarrow> uuid \<Rightarrow> user_row option" where
  "fallback_school_admin created_at d school_id =
     (let rows = sort_key (\<lambda>(a, u). created_at a) (sort_key (\<lambda>(a, u). u_id u)
            [(a, u). a \<leftarrow> admins d, ad_school_id a = school_id, u \<leftarrow> users d,
               u_id u = ad_user_id a \<and> u_school_id u = Some school_id \<and> u_status u = US_ACTIVE]);
          senior = filter (\<lambda>(a, u). ad_access_level a = AL_SENIOR) rows in
      case senior @ rows of [] \<Rightarrow> None | (a, u) # _ \<Rightarrow> Some u)"

end
