(* ===== verification/PermissionLaws.thy ===== *)
theory PermissionLaws
  imports Permissions
begin

text \<open>
  What the admin team and the Learning Support role keep.  The locale \<open>guarded_role\<close> states the contract of a
  role a school must not lose; it is interpreted for oversight and for Learning Support on the operations of
  theory \<open>Permissions\<close>.
\<close>

subsection \<open>Rows\<close>

lemma another_row:
  assumes "1 < count_where P rows" "unique_where Q key rows" "\<And>r. P r \<Longrightarrow> Q r"
  shows "\<exists>r \<in> set rows. P r \<and> key r \<noteq> k"
proof (rule ccontr)
  assume "\<not> ?thesis"
  then have k: "set (map key (filter P rows)) \<subseteq> {k}" by auto
  have "filter P rows = filter P (filter Q rows)" using assms(3) by (auto intro!: filter_cong)
  then have "distinct (map key (filter P rows))" 
    using assms(2) distinct_map_filter[of key "filter Q rows" P] by (simp only: unique_where_def)
  then have "length (filter P rows) \<le> 1"
    using card_mono[OF _ k] distinct_card[of "map key (filter P rows)"] by simp
  then show False using assms(1) by (simp add: count_where_def)
qed

lemma count_where_pos: "0 < count_where P rows \<longleftrightarrow> (\<exists>r \<in> set rows. P r)"
  using count_where_0_iff[of P rows] by auto

lemma team_commit_cases:
  assumes "team_commit d d' r = (d2, res)"
  obtains (rolled_back) "d2 = d" "res = Inl UncaughtIntegrityError"
  | (committed) "d2 = d'" "db_constraints d'" "res = Inr r"
  using assms by (auto simp: team_commit_def commit_def split: if_splits sum.splits)

lemma answer_member_fst [simp]: "fst (answer_member r) = fst r"
  by (auto simp: answer_member_def split: prod.splits sum.splits option.splits)

lemma acting_school_InrD: "acting_school r = Inr (sn, s) \<Longrightarrow> r = Inr sn \<and> sn_school_id sn = Some s"
  by (auto simp: acting_school_def split: sum.splits option.splits)

lemma team_row_SomeD:
  assumes "team_row d school target = Some (a, u)"
  shows "u \<in> set (users d)" "u_id u = target" "a \<in> set (admins d)" "ad_user_id a = target" "ad_school_id a = school"
    "get_by ad_user_id target (admins d) = Some a" "get_by u_id target (users d) = Some u"
  using assms by (auto simp: team_row_def split: option.splits if_splits dest: get_by_SomeD)

subsection \<open>A role a school must not lose\<close>

locale guarded_role =
  fixes step :: "db \<Rightarrow> db \<Rightarrow> bool" and inv :: "db \<Rightarrow> bool" and held :: "db \<Rightarrow> uuid \<Rightarrow> bool"
  assumes step_inv: "\<lbrakk>step d d'; inv d\<rbrakk> \<Longrightarrow> inv d'"
    and step_held: "\<lbrakk>step d d'; inv d; held d school\<rbrakk> \<Longrightarrow> held d' school"
begin

lemma run_inv: "\<lbrakk>step\<^sup>*\<^sup>* d d'; inv d\<rbrakk> \<Longrightarrow> inv d'"
  by (induction rule: rtranclp_induct) (auto intro: step_inv)

lemma run_held: "\<lbrakk>step\<^sup>*\<^sup>* d d'; inv d; held d school\<rbrakk> \<Longrightarrow> held d' school"
proof (induction rule: rtranclp_induct)
  case (step y z)
  then show ?case using step_held run_inv by blast
qed

end

text \<open>One call on the team or on the role.\<close>

inductive team_step :: "db \<Rightarrow> db \<Rightarrow> bool" where
  invited: "invite hmac (collate :: user_row \<Rightarrow> nat) d actor email role scopes now token i1 i2 i3 = (d', r1) \<Longrightarrow> team_step d d'"
| accepted: "accept_admin_invitation hmac hash d token password now = (d', r2) \<Longrightarrow> team_step d d'"
| scopes: "replace_scopes d actor target scopes now = (d', r3) \<Longrightarrow> team_step d d'"
| promoted: "promote_to_senior d actor target now = (d', r3) \<Longrightarrow> team_step d d'"
| demoted: "demote_to_standard d actor target now = (d', r3) \<Longrightarrow> team_step d d'"
| activity: "set_team_member_active d actor target active now = (d', r3) \<Longrightarrow> team_step d d'"
| granted: "grant_learning_support request d p user replace_existing now db_now new_id = (d', r4) \<Longrightarrow> team_step d d'"
| revoked: "revoke_learning_support request d p user now db_now = (d', r4) \<Longrightarrow> team_step d d'"

subsection \<open>The changes behind the calls\<close>

text \<open>Each call leaves the database alone or commits one of these states.\<close>

inductive team_change :: "db \<Rightarrow> db \<Rightarrow> bool" where
  first: "id_role v \<in> set LEARNING_SUPPORT_ROLES \<Longrightarrow>
     team_change d ((first_invite v d)\<lparr>admin_invitations := admin_invitations d @ [new_invitation v]\<rparr>)"
| again: "\<lbrakk>id_role v \<in> set LEARNING_SUPPORT_ROLES; u \<in> set (users d); u_status u = US_INVITED; get_by ad_user_id (u_id u) (admins d) = Some a\<rbrakk>
     \<Longrightarrow> team_change d ((reinvite v u a d)\<lparr>admin_invitations := invs\<rparr>)"
| accept: "\<lbrakk>u \<in> set (users d); u_status u = US_INVITED\<rbrakk> \<Longrightarrow>
     team_change d (d\<lparr>users := update_where (\<lambda>x. u_id x = u_id u) (\<lambda>x. x\<lparr>u_password_hash := Some h,
        u_auth_method := AM_EMAIL_PASSWORD, u_status := US_ACTIVE, u_deactivated_at := None\<rparr>) (users d), admin_invitations := invs\<rparr>)"
| rescope: "\<lbrakk>team_row d school target = Some (a, u);
     SCOPE_OVERSIGHT \<in> set (active_scopes d (ad_id a)) - set scopes \<longrightarrow> 1 < oversight_count d school\<rbrakk> \<Longrightarrow>
     team_change d (replace_assignment_rows (ad_id a) scopes by_user now (active_scopes d (ad_id a)) d)"
| relevel: "team_row d school target = Some (a, u) \<Longrightarrow>
     team_change d (d\<lparr>admins := update_where (\<lambda>x. ad_id x = ad_id a) (\<lambda>_. with_access_level d level by_user now a) (admins d)\<rparr>)"
| activate: "team_row d school target = Some (a, u) \<Longrightarrow>
     team_change d (d\<lparr>users := update_where (\<lambda>x. u_id x = target) (with_active True now) (users d)\<rparr>)"
| deactivate: "\<lbrakk>team_row d school target = Some (a, u); u_status u = US_ACTIVE;
     SCOPE_OVERSIGHT \<in> set (active_scopes d (ad_id a)) \<longrightarrow> 1 < oversight_count d school;
     exists_where (open_grant school target) (learning_support_grants d) \<longrightarrow> 1 < holder_count d school\<rbrakk> \<Longrightarrow>
     team_change d (d\<lparr>users := update_where (\<lambda>x. u_id x = target) (with_active False now) (users d), auth_sessions := sessions\<rparr>)"
| hand: "\<lbrakk>user_id \<noteq> actor_id; staff_in_school d school user_id; others = filter (\<lambda>g. lg_holder_user_id g \<noteq> user_id) (holders d school);
     d1 = (if replace_existing then fold (hand_over actor_id school now db_now) others d else d)\<rbrakk> \<Longrightarrow>
     team_change d (if list_ex (\<lambda>g. lg_holder_user_id g = user_id) (holders d school) then d1
       else give_grant actor_id school user_id now db_now new_id d1)"
| take: "\<lbrakk>theirs = filter (\<lambda>g. lg_holder_user_id g = user_id) (holders d school); theirs = [] \<or> length (holders d school) \<noteq> 1\<rbrakk> \<Longrightarrow>
     team_change d (fold (take_back actor_id school now db_now) theirs d)"

lemma UserRole_staff: "role \<in> set PERMISSIONS_ADMIN_ROLES \<Longrightarrow> the (UserRole role) \<in> set LEARNING_SUPPORT_ROLES"
  by (auto simp: PERMISSIONS_ADMIN_ROLES_def UserRole_def LEARNING_SUPPORT_ROLES_def)

definition committed :: "db \<Rightarrow> db \<Rightarrow> bool" where
  "committed d d' \<longleftrightarrow> d' = d \<or> (db_constraints d' \<and> team_change d d')"

lemma committed_same [simp]: "committed d d" by (simp add: committed_def)

lemma store_committed:
  assumes "store_invitation d v d1 = (d', r)" "team_change d (d1\<lparr>admin_invitations := admin_invitations d1 @ [new_invitation v]\<rparr>)"
  shows "committed d d'"
  using assms by (auto simp: store_invitation_def commit_def committed_def split: if_splits sum.splits)

lemma create_invitation_committed:
  assumes "create_invitation d v = (d', r)" "id_role v \<in> set LEARNING_SUPPORT_ROLES"
  shows "committed d d'"
proof (cases "get_by sch_id (id_school_id v) (schools d)")
  case (Some school)
  show ?thesis
  proof (cases "List.find (\<lambda>u. map_option sql_lower (u_email u) = Some (id_email v)) (users d)")
    case None
    have "team_change d ((first_invite v d)\<lparr>admin_invitations := admin_invitations (first_invite v d) @ [new_invitation v]\<rparr>)"
      using team_change.first[OF assms(2), of d] by (simp add: first_invite_def)
    then show ?thesis using assms(1) Some None store_committed by (auto simp: create_invitation_def split: if_splits)
  next
    case u: (Some u)
    then have "u \<in> set (users d)" using find_SomeD by fastforce
    then show ?thesis
      using assms Some u team_change.again[OF assms(2)] store_committed
      by (auto simp: create_invitation_def split: if_splits option.splits)
  qed
qed (use assms in \<open>simp add: create_invitation_def\<close>)

lemma team_commit_committed: "\<lbrakk>team_commit d d1 x = (d', r); team_change d d1\<rbrakk> \<Longrightarrow> committed d d'"
  by (auto simp: committed_def elim!: team_commit_cases)

lemma answer_member_committed:
  "\<lbrakk>answer_member r = (d', x); \<And>d1 y. r = (d1, y) \<Longrightarrow> committed d d1\<rbrakk> \<Longrightarrow> committed d d'"
  by (metis answer_member_fst fst_conv prod.collapse)

lemma accept_committed:
  assumes "repo_accept_invitation d digest h now = (d', r)" shows "committed d d'"
proof (cases "open_admin_invitation d digest now")
  case (Some p)
  then obtain i u where p: "p = (i, u)" "u \<in> set (users d)" "u_status u = US_INVITED"
    by (auto simp: open_admin_invitation_def split: option.splits if_splits dest: get_by_SomeD)
  show ?thesis
    using assms Some p(1) team_commit_committed[OF _ team_change.accept[OF p(2,3)]]
    by (simp add: repo_accept_invitation_def)
qed (use assms in \<open>simp add: repo_accept_invitation_def\<close>)

lemma replace_committed:
  assumes "repo_replace_scopes d school target scopes by_user now = (d', r)" shows "committed d d'"
proof (cases "team_row d school target")
  case (Some p)
  obtain a u where p: "p = (a, u)" by fastforce
  note row = Some[unfolded p]
  show ?thesis
  proof (cases "SCOPE_OVERSIGHT \<in> set (active_scopes d (ad_id a)) - set scopes \<longrightarrow> 1 < oversight_count d school")
    case True
    from team_commit_committed[OF _ team_change.rescope[OF row True]] assms row show ?thesis
      by (auto simp: repo_replace_scopes_def Let_def split: if_splits)
  qed (use assms row in \<open>auto simp: repo_replace_scopes_def Let_def split: if_splits\<close>)
qed (use assms in \<open>simp add: repo_replace_scopes_def\<close>)

lemma relevel_committed:
  assumes "set_admin_access_level d school target level by_user now = (d', r)" shows "committed d d'"
proof (cases "team_row d school target")
  case (Some p)
  obtain a u where p: "p = (a, u)" by fastforce
  from team_commit_committed[OF _ team_change.relevel[OF Some[unfolded p]]] assms Some p show ?thesis
    by (auto simp: set_admin_access_level_def Let_def split: if_splits)
qed (use assms in \<open>simp add: set_admin_access_level_def split: if_splits\<close>)

lemma activity_committed:
  assumes "repo_set_team_member_active d school target active now = (d', r)" shows "committed d d'"
proof (cases "team_row d school target")
  case (Some p)
  obtain a u where p: "p = (a, u)" by fastforce
  note row = Some[unfolded p]
  show ?thesis
  proof (cases active)
    case True
    from team_commit_committed[OF _ team_change.activate[OF row]] assms row True show ?thesis
      by (auto simp: repo_set_team_member_active_def Let_def split: if_splits)
  next
    case False
    show ?thesis
    proof (cases "u_status u = US_ACTIVE \<and> (SCOPE_OVERSIGHT \<in> set (active_scopes d (ad_id a)) \<longrightarrow> 1 < oversight_count d school) \<and>
        (exists_where (open_grant school target) (learning_support_grants d) \<longrightarrow> 1 < holder_count d school)")
      case True
      then have "u_status u = US_ACTIVE" "SCOPE_OVERSIGHT \<in> set (active_scopes d (ad_id a)) \<longrightarrow> 1 < oversight_count d school"
        "exists_where (open_grant school target) (learning_support_grants d) \<longrightarrow> 1 < holder_count d school" by blast+
      from team_commit_committed[OF _ team_change.deactivate[OF row this]] assms row False show ?thesis
        by (auto simp: repo_set_team_member_active_def Let_def split: if_splits)
    next
      case no: False
      then show ?thesis using assms row False
        by (auto simp: repo_set_team_member_active_def Let_def split: if_splits)
    qed
  qed
qed (use assms in \<open>simp add: repo_set_team_member_active_def\<close>)

lemma staff_in_schoolI:
  "\<lbrakk>get_by u_id i (users d) = Some h; u_school_id h = Some school; u_role h \<in> set LEARNING_SUPPORT_ROLES; u_status h = US_ACTIVE\<rbrakk>
     \<Longrightarrow> staff_in_school d school i"
  by (auto simp: staff_in_school_def dest: get_by_SomeD)

lemma support_commit_committed: "\<lbrakk>support_commit d d1 school = (d', r); team_change d d1\<rbrakk> \<Longrightarrow> committed d d'"
  by (auto simp: support_commit_def commit_def committed_def split: if_splits sum.splits)

lemma grant_committed:
  assumes "grant_learning_support rq d p user rep now db_now new_id = (d', r)" shows "committed d d'"
proof (cases "\<exists>actor h. require_school_actor rq d p ADMIN_ROLES = Inr actor \<and> user \<noteq> u_id actor \<and> get_by u_id user (users d) = Some h \<and>
    u_school_id h = u_school_id actor \<and> u_role h \<in> set LEARNING_SUPPORT_ROLES \<and> u_status h = US_ACTIVE")
  case True
  then obtain actor h where a: "require_school_actor rq d p ADMIN_ROLES = Inr actor" "user \<noteq> u_id actor" "get_by u_id user (users d) = Some h"
    "u_school_id h = u_school_id actor" "u_role h \<in> set LEARNING_SUPPORT_ROLES" "u_status h = US_ACTIVE" by blast
  then have "staff_in_school d (the (u_school_id actor)) user"
    using require_school_actor_Inr(3)[OF a(1)] by (intro staff_in_schoolI[OF a(3)]) auto
  from team_change.hand[OF a(2) this refl refl] support_commit_committed assms a show ?thesis
    by (auto simp: grant_learning_support_def Let_def)
next
  case False
  then show ?thesis using assms
    by (auto simp: grant_learning_support_def Let_def split: sum.splits option.splits if_splits)
qed

lemma revoke_committed:
  assumes "revoke_learning_support rq d p user now db_now = (d', r)" shows "committed d d'"
  using assms support_commit_committed[OF _ team_change.take[OF refl]]
  by (auto simp: revoke_learning_support_def Let_def split: sum.splits if_splits)

lemma invite_committed:
  assumes "invite hmac collate d actor email role scopes now token i1 i2 i3 = (d', r)" shows "committed d d'"
proof (cases "role \<in> set PERMISSIONS_ADMIN_ROLES")
  case True
  note staff = UserRole_staff[OF True]
  have c: "committed d x" if "create_invitation d \<lparr>id_invitation_id = a1, id_user_id = a2, id_admin_id = a3, id_school_id = a4, id_email = a5,
      id_role = the (UserRole role), id_scopes = a6, id_token_digest = a7, id_invited_by_user_id = a8, id_created_at = a9, id_expires_at = b1\<rparr> = (x, y)"
    for a1 a2 a3 a4 a5 a6 a7 a8 a9 b1 x y
    using create_invitation_committed[OF that] staff by simp
  show ?thesis
    using assms by (auto simp: invite_def Let_def split: sum.splits if_splits prod.splits dest!: c)
qed (use assms in \<open>auto simp: invite_def Let_def split: sum.splits if_splits\<close>)

lemma answered_committed:
  "answer_member (repo_replace_scopes d s t sc b n) = (d', x) \<Longrightarrow> committed d d'"
  "answer_member (set_admin_access_level d s t l b n) = (d', x) \<Longrightarrow> committed d d'"
  "answer_member (repo_set_team_member_active d s t ac n) = (d', x) \<Longrightarrow> committed d d'"
  by (erule answer_member_committed, erule replace_committed relevel_committed activity_committed)+

lemma team_step_committed: "team_step d d' \<Longrightarrow> committed d d'"
proof (induction rule: team_step.induct)
  case (accepted hmac hash d token password now d' r2)
  then show ?case using accept_committed
    by (auto simp: accept_admin_invitation_def split: prod.splits sum.splits option.splits)
next
  case (scopes d actor target scopes now d' r3)
  then show ?case by (auto simp: replace_scopes_def split: sum.splits if_splits dest: answered_committed)
next
  case (promoted d actor target now d' r3)
  then show ?case
    by (auto simp: promote_to_senior_def change_access_level_def split: sum.splits dest: answered_committed)
next
  case (demoted d actor target now d' r3)
  then show ?case
    by (auto simp: demote_to_standard_def change_access_level_def split: sum.splits dest: answered_committed)
next
  case (activity d actor target active now d' r3)
  then show ?case by (auto simp: set_team_member_active_def split: sum.splits if_splits dest: answered_committed)
qed (blast intro: invite_committed grant_committed revoke_committed)+

subsection \<open>Oversight\<close>

definition has_oversight :: "db \<Rightarrow> uuid \<Rightarrow> bool" where
  "has_oversight d school \<longleftrightarrow> 0 < oversight_count d school"

text \<open>An administrator of the school with a current oversight scope and an active account.\<close>

lemma has_oversight_iff:
  "has_oversight d school \<longleftrightarrow> (\<exists>s \<in> set (scope_assignments d). \<exists>a \<in> set (admins d). \<exists>u \<in> set (users d).
     sa_scope s = SCOPE_OVERSIGHT \<and> sa_revoked_at s = None \<and> sa_admin_id s = ad_id a \<and> ad_school_id a = school \<and>
     ad_user_id a = u_id u \<and> u_status u = US_ACTIVE)"
  unfolding has_oversight_def oversight_count_def count_where_pos oversight_row_def exists_where_iff
  by (intro iffI; elim bexE conjE; intro bexI conjI; assumption?) simp_all

lemma oversight_rowE:
  assumes "oversight_row d school s"
  obtains a u where "a \<in> set (admins d)" "u \<in> set (users d)" "sa_scope s = SCOPE_OVERSIGHT" "sa_revoked_at s = None"
    "sa_admin_id s = ad_id a" "ad_school_id a = school" "ad_user_id a = u_id u" "u_status u = US_ACTIVE"
  using assms by (auto simp: oversight_row_def)

lemma has_oversightI:
  "\<lbrakk>s \<in> set (scope_assignments d); a \<in> set (admins d); u \<in> set (users d); sa_scope s = SCOPE_OVERSIGHT; sa_revoked_at s = None;
    sa_admin_id s = ad_id a; ad_school_id a = school; ad_user_id a = u_id u; u_status u = US_ACTIVE\<rbrakk> \<Longrightarrow> has_oversight d school"
  unfolding has_oversight_iff by blast

text \<open>Enough that the row, the administrator and the account are still there.\<close>

lemma has_oversight_transfer:
  assumes "has_oversight d school"
    and "\<And>s. \<lbrakk>s \<in> set (scope_assignments d); sa_scope s = SCOPE_OVERSIGHT; sa_revoked_at s = None\<rbrakk> \<Longrightarrow>
      (\<exists>a \<in> set (admins d). sa_admin_id s = ad_id a \<and> (\<exists>u \<in> set (users d). ad_user_id a = u_id u \<and> u_status u = US_ACTIVE)) \<Longrightarrow>
      s \<in> set (scope_assignments d')"
    and "\<And>a. a \<in> set (admins d) \<Longrightarrow> \<exists>a' \<in> set (admins d'). ad_id a' = ad_id a \<and> ad_school_id a' = ad_school_id a \<and> ad_user_id a' = ad_user_id a"
    and "\<And>u. \<lbrakk>u \<in> set (users d); u_status u = US_ACTIVE\<rbrakk> \<Longrightarrow> \<exists>u' \<in> set (users d'). u_id u' = u_id u \<and> u_status u' = US_ACTIVE"
  shows "has_oversight d' school"
proof -
  obtain s a u where r: "s \<in> set (scope_assignments d)" "a \<in> set (admins d)" "u \<in> set (users d)" "sa_scope s = SCOPE_OVERSIGHT"
    "sa_revoked_at s = None" "sa_admin_id s = ad_id a" "ad_school_id a = school" "ad_user_id a = u_id u" "u_status u = US_ACTIVE"
    using assms(1) unfolding has_oversight_iff by blast
  have "s \<in> set (scope_assignments d')" using assms(2)[OF r(1,4,5)] r by blast
  moreover obtain a' where "a' \<in> set (admins d')" "ad_id a' = ad_id a" "ad_school_id a' = ad_school_id a" "ad_user_id a' = ad_user_id a"
    using assms(3)[OF r(2)] by blast
  moreover obtain u' where "u' \<in> set (users d')" "u_id u' = u_id u" "u_status u' = US_ACTIVE" using assms(4)[OF r(3,9)] by blast
  ultimately show ?thesis using r by (intro has_oversightI[of s d' a' u']) simp_all
qed

lemma drop_scope_fields [simp]:
  "admins (drop_scope i d) = admins d" "users (drop_scope i d) = users d" "learning_support_grants (drop_scope i d) = learning_support_grants d"
  by (auto simp: drop_scope_def split: option.splits)

lemma drop_scope_keeps: "\<lbrakk>s \<in> set (scope_assignments d); sa_scope s \<noteq> SCOPE_SENCO\<rbrakk> \<Longrightarrow> s \<in> set (scope_assignments (drop_scope i d))"
proof -
  assume s: "s \<in> set (scope_assignments d)" "sa_scope s \<noteq> SCOPE_SENCO"
  have "s \<in> set (remove1 x (scope_assignments d))"
    if "List.find (\<lambda>s. sa_admin_id s = k \<and> sa_scope s = SCOPE_SENCO) (scope_assignments d) = Some x" for x k
    using find_SomeD[OF that] s by (intro in_set_remove1[THEN iffD2]) auto
  then show ?thesis using s(1) by (auto simp: drop_scope_def split: option.splits)
qed

lemma support_audit_fields [simp]:
  "admins (support_audit e u a s t d) = admins d" "users (support_audit e u a s t d) = users d"
  "scope_assignments (support_audit e u a s t d) = scope_assignments d"
  "learning_support_grants (support_audit e u a s t d) = learning_support_grants d"
  by (simp_all add: support_audit_def audit_record_def)

lemma end_grant_fields [simp]:
  "admins (end_grant a t h g d) = admins d" "users (end_grant a t h g d) = users d"
  "scope_assignments (end_grant a t h g d) = scope_assignments d"
  by (simp_all add: end_grant_def)

lemma add_scope_fields [simp]:
  "admins (add_scope i g t d) = admins d" "users (add_scope i g t d) = users d"
  "learning_support_grants (add_scope i g t d) = learning_support_grants d"
  "set (scope_assignments d) \<subseteq> set (scope_assignments (add_scope i g t d))"
  by (auto simp: add_scope_def split: option.splits)

lemma ending_fields:
  fixes f :: "learning_support_grant_row \<Rightarrow> db \<Rightarrow> db"
  assumes "f = hand_over i s now t \<or> f = take_back i s now t"
  shows "admins (fold f gs d) = admins d \<and> users (fold f gs d) = users d \<and>
    (\<forall>x \<in> set (scope_assignments d). sa_scope x \<noteq> SCOPE_SENCO \<longrightarrow> x \<in> set (scope_assignments (fold f gs d)))"
proof (induction gs arbitrary: d)
  case (Cons g gs)
  have "admins (f g d) = admins d" "users (f g d) = users d"
    "\<forall>x \<in> set (scope_assignments d). sa_scope x \<noteq> SCOPE_SENCO \<longrightarrow> x \<in> set (scope_assignments (f g d))"
    using assms by (auto simp: hand_over_def take_back_def intro!: drop_scope_keeps)
  then show ?case using Cons by simp
qed simp

lemma give_grant_fields [simp]:
  "admins (give_grant i s u n t k d) = admins d" "users (give_grant i s u n t k d) = users d"
  by (simp_all add: give_grant_def)

lemma give_grant_scopes: "set (scope_assignments d) \<subseteq> set (scope_assignments (give_grant i s u n t k d))"
  using add_scope_fields(4)[of "d\<lparr>learning_support_grants := l\<rparr>" for l] by (simp add: give_grant_def)

lemma in_with_field:
  assumes "u \<in> set rows" "P (f u) \<and> P u" shows "\<exists>u' \<in> set (update_where Q f rows). P u'"
  using in_update_where[OF assms(1), of Q f] assms(2) by (auto split: if_splits)

lemma team_keys:
  assumes "db_constraints d"
  shows "\<lbrakk>a \<in> set (admins d); b \<in> set (admins d); ad_id a = ad_id b\<rbrakk> \<Longrightarrow> a = b"
    and "\<lbrakk>a \<in> set (admins d); b \<in> set (admins d); ad_user_id a = ad_user_id b\<rbrakk> \<Longrightarrow> a = b"
    and "\<lbrakk>u \<in> set (users d); x \<in> set (users d); u_id u = u_id x\<rbrakk> \<Longrightarrow> u = x"
    and "unique_where (\<lambda>r. sa_revoked_at r = None) (\<lambda>r. (sa_admin_id r, sa_scope r)) (scope_assignments d)"
  using assms
  by (auto simp: db_constraints_def admins_ok_def users_ok_def scope_assignments_ok_def distinct_map dest: inj_onD)

lemma oversight_elsewhere:
  assumes "db_constraints d" "has_oversight d school" "team_row d school' target = Some (a, u)"
    and "SCOPE_OVERSIGHT \<in> set (active_scopes d (ad_id a)) \<longrightarrow> 1 < oversight_count d school'"
  shows "\<exists>s \<in> set (scope_assignments d). oversight_row d school s \<and> sa_admin_id s \<noteq> ad_id a"
proof -
  obtain s where s: "s \<in> set (scope_assignments d)" "oversight_row d school s"
    using assms(2) unfolding has_oversight_def oversight_count_def count_where_pos by blast
  show ?thesis
  proof (cases "sa_admin_id s = ad_id a")
    case True
    from s(2) obtain b where b: "b \<in> set (admins d)" "sa_admin_id s = ad_id b" "ad_school_id b = school"
      "sa_scope s = SCOPE_OVERSIGHT" "sa_revoked_at s = None" by (rule oversight_rowE)
    then have "b = a" using True team_keys(1)[OF assms(1)] team_row_SomeD(3)[OF assms(3)] by simp
    then have same: "school' = school" using b team_row_SomeD(5)[OF assms(3)] by simp
    have "SCOPE_OVERSIGHT \<in> set (active_scopes d (ad_id a))"
      using s(1) b True by (force simp: active_scopes_def active_scope_def)
    then have "1 < oversight_count d school" using assms(4) same by simp
    then have "\<exists>r \<in> set (scope_assignments d). oversight_row d school r \<and> (sa_admin_id r, sa_scope r) \<noteq> (ad_id a, SCOPE_OVERSIGHT)"
      unfolding oversight_count_def
      by (rule another_row[OF _ team_keys(4)[OF assms(1)]]) (simp add: oversight_row_def)
    then show ?thesis by (auto simp: oversight_row_def)
  qed (use s in blast)
qed

lemma replace_rows_keep:
  "\<lbrakk>s \<in> set (scope_assignments d); sa_admin_id s \<noteq> i \<or> sa_scope s \<in> set scopes\<rbrakk>
     \<Longrightarrow> s \<in> set (scope_assignments (replace_assignment_rows i scopes by_user now act d))"
  using in_update_where[of s "scope_assignments d"
      "\<lambda>s. active_scope i s \<and> sa_scope s \<in> set act \<and> sa_scope s \<notin> set scopes"
      "\<lambda>s. s\<lparr>sa_revoked_at := Some (max now (sa_granted_at s))\<rparr>"]
  by (auto simp: replace_assignment_rows_def active_scope_def split: if_splits)

lemma replace_rows_fields [simp]:
  "admins (replace_assignment_rows i scopes b now act d) = admins d" "users (replace_assignment_rows i scopes b now act d) = users d"
  "learning_support_grants (replace_assignment_rows i scopes b now act d) = learning_support_grants d"
  by (simp_all add: replace_assignment_rows_def)

lemma reinvite_keeps:
  assumes "db_constraints d" "u \<in> set (users d)" "u_status u = US_INVITED" "get_by ad_user_id (u_id u) (admins d) = Some a"
    and "s \<in> set (scope_assignments d)" "b \<in> set (admins d)" "sa_admin_id s = ad_id b" "x \<in> set (users d)" "ad_user_id b = u_id x" "u_status x = US_ACTIVE"
  shows "s \<in> set (scope_assignments (reinvite v u a d))"
proof -
  have a: "a \<in> set (admins d)" "ad_user_id a = u_id u" using get_by_SomeD[OF assms(4)] by simp_all
  have "b \<noteq> a" using team_keys(3)[OF assms(1,2,8)] assms(3,9,10) a(2) by auto
  then have "sa_admin_id s \<noteq> ad_id a" using team_keys(1)[OF assms(1,6) a(1)] assms(7) by auto
  then show ?thesis using assms(5) by (simp add: reinvite_def Let_def replace_rows_keep)
qed

lemma with_access_level_fields [simp]:
  "ad_id (with_access_level d l b t a) = ad_id a" "ad_school_id (with_access_level d l b t a) = ad_school_id a"
  "ad_user_id (with_access_level d l b t a) = ad_user_id a"
  by (simp_all add: with_access_level_def)

lemma rescope_oversight:
  assumes "db_constraints d" "has_oversight d school" "team_row d school' target = Some (a, u)"
    and "SCOPE_OVERSIGHT \<in> set (active_scopes d (ad_id a)) - set scopes \<longrightarrow> 1 < oversight_count d school'"
  shows "has_oversight (replace_assignment_rows (ad_id a) scopes by_user now act d) school"
proof -
  obtain s where s: "s \<in> set (scope_assignments d)" "oversight_row d school s" "sa_admin_id s \<noteq> ad_id a \<or> sa_scope s \<in> set scopes"
  proof (cases "SCOPE_OVERSIGHT \<in> set scopes")
    case True
    obtain s where "s \<in> set (scope_assignments d)" "oversight_row d school s"
      using assms(2) unfolding has_oversight_def oversight_count_def count_where_pos by blast
    then show ?thesis using that True by (simp add: oversight_row_def)
  next
    case False
    then have "SCOPE_OVERSIGHT \<in> set (active_scopes d (ad_id a)) \<longrightarrow> 1 < oversight_count d school'" using assms(4) by simp
    then show ?thesis using oversight_elsewhere[OF assms(1-3)] that by blast
  qed
  from s(2) obtain b x where r: "b \<in> set (admins d)" "x \<in> set (users d)" "sa_scope s = SCOPE_OVERSIGHT" "sa_revoked_at s = None"
    "sa_admin_id s = ad_id b" "ad_school_id b = school" "ad_user_id b = u_id x" "u_status x = US_ACTIVE" by (rule oversight_rowE)
  show ?thesis by (rule has_oversightI[OF replace_rows_keep[OF s(1,3)], where a = b and u = x]) (use r in simp_all)
qed

lemma deactivate_oversight:
  assumes "db_constraints d" "has_oversight d school" "team_row d school' target = Some (a, u)"
    and "SCOPE_OVERSIGHT \<in> set (active_scopes d (ad_id a)) \<longrightarrow> 1 < oversight_count d school'"
  shows "has_oversight (d\<lparr>users := update_where (\<lambda>x. u_id x = target) f (users d), auth_sessions := ss\<rparr>) school"
proof -
  obtain s where s: "s \<in> set (scope_assignments d)" "oversight_row d school s" "sa_admin_id s \<noteq> ad_id a"
    using oversight_elsewhere[OF assms] by blast
  from s(2) obtain b x where r: "b \<in> set (admins d)" "x \<in> set (users d)" "sa_scope s = SCOPE_OVERSIGHT" "sa_revoked_at s = None"
    "sa_admin_id s = ad_id b" "ad_school_id b = school" "ad_user_id b = u_id x" "u_status x = US_ACTIVE" by (rule oversight_rowE)
  have "b \<noteq> a" using r(5) s(3) by auto
  then have "u_id x \<noteq> target" using team_keys(2)[OF assms(1) r(1) team_row_SomeD(3)[OF assms(3)]] team_row_SomeD(4)[OF assms(3)] r(7) by auto
  then have "x \<in> set (update_where (\<lambda>x. u_id x = target) f (users d))" using in_update_where[OF r(2), of "\<lambda>x. u_id x = target"] by simp
  then show ?thesis by (intro has_oversightI[of s _ b x]) (use r s(1) in simp_all)
qed

lemma hand_oversight:
  assumes "has_oversight d school" "d1 = (if rep then fold (hand_over i s now t) others d else d)"
  shows "has_oversight (if c then d1 else give_grant i s user now t k d1) school"
proof -
  note e = ending_fields[of "hand_over i s now t" i s now t others d, simplified]
  have "has_oversight (fold (hand_over i s now t) others d) school"
    by (rule has_oversight_transfer[OF assms(1)]) (use e in auto)
  then have d1: "has_oversight d1 school" using assms by simp
  have "has_oversight (give_grant i s user now t k d1) school"
    by (rule has_oversight_transfer[OF d1]) (use give_grant_scopes[of d1 i s user now t k] in auto)
  then show ?thesis using d1 by simp
qed

lemma team_change_oversight:
  assumes "team_change d d'" "db_constraints d" "has_oversight d school"
  shows "has_oversight d' school"
  using assms
proof (induction rule: team_change.induct)
  case (first v d)
  show ?case by (rule has_oversight_transfer[OF first(3)]) (auto simp: first_invite_def)
next
  case (again v u d a invs)
  show ?case
  proof (rule has_oversight_transfer[OF again(6)])
    fix x assume "x \<in> set (users d)" "u_status x = US_ACTIVE"
    then show "\<exists>u' \<in> set (users (reinvite v u a d\<lparr>admin_invitations := invs\<rparr>)). u_id u' = u_id x \<and> u_status u' = US_ACTIVE"
      unfolding reinvite_def Let_def by (simp, intro in_with_field) simp_all
  qed (use reinvite_keeps[OF again(5,2-4)] in \<open>auto simp: reinvite_def Let_def\<close>)
next
  case (accept u d h invs)
  show ?case
    by (rule has_oversight_transfer[OF accept(4)]) (auto intro!: in_with_field)
next
  case (rescope d school' target a u scopes by_user now)
  show ?case by (rule rescope_oversight[OF rescope(3,4,1,2)])
next
  case (relevel d school' target a u level by_user now)
  show ?case
  proof (rule has_oversight_transfer[OF relevel(3)])
    fix b assume b: "b \<in> set (admins d)"
    have "ad_id b = ad_id a \<Longrightarrow> b = a" using team_keys(1)[OF relevel(2) b team_row_SomeD(3)[OF relevel(1)]] .
    with in_update_where[OF b, of "\<lambda>x. ad_id x = ad_id a" "\<lambda>_. with_access_level d level by_user now a"]
    show "\<exists>a' \<in> set (admins (d\<lparr>admins := update_where (\<lambda>x. ad_id x = ad_id a) (\<lambda>_. with_access_level d level by_user now a) (admins d)\<rparr>)).
        ad_id a' = ad_id b \<and> ad_school_id a' = ad_school_id b \<and> ad_user_id a' = ad_user_id b"
      by (cases "ad_id b = ad_id a"; intro bexI conjI) auto
  qed auto
next
  case (activate d school' target a u now)
  show ?case
    by (rule has_oversight_transfer[OF activate(3)]) (auto intro!: in_with_field simp: with_active_def)
next
  case (deactivate d school' target a u now sessions)
  show ?case by (rule deactivate_oversight[OF deactivate(5,6,1,3)])
next
  case (hand user_id actor_id d school' others d1 rep now db_now new_id)
  show ?case by (rule hand_oversight[OF hand(6,4)])
next
  case (take theirs user_id d school' actor_id now db_now)
  show ?case using ending_fields[of "take_back actor_id school' now db_now" actor_id school' now db_now theirs d]
    by (intro has_oversight_transfer[OF take(4)]) auto
qed

interpretation oversight: guarded_role team_step db_constraints has_oversight
proof unfold_locales
  fix d d' school
  assume "team_step d d'" "db_constraints d"
  then show "db_constraints d'" using team_step_committed[of d d'] by (auto simp: committed_def)
next
  fix d d' school
  assume "team_step d d'" "db_constraints d" "has_oversight d school"
  then show "has_oversight d' school"
    using team_step_committed[of d d'] team_change_oversight[of d d' school] by (auto simp: committed_def)
qed

subsection \<open>Learning Support\<close>

definition has_holder :: "db \<Rightarrow> uuid \<Rightarrow> bool" where
  "has_holder d school \<longleftrightarrow> holders d school \<noteq> []"

definition staff_row :: "uuid \<Rightarrow> uuid \<Rightarrow> user_row \<Rightarrow> bool" where
  "staff_row school i u \<longleftrightarrow> u_id u = i \<and> u_school_id u = Some school \<and> u_role u \<in> set LEARNING_SUPPORT_ROLES"

text \<open>Current grants are held by staff of the school, nobody granted the role to themselves but on the rows \<open>K\<close> (the grant that registering
  a school writes), and administrators belong to the school they administer.\<close>

definition self_grants :: "db \<Rightarrow> uuid set" where
  "self_grants d = lg_id ` set (filter (\<lambda>g. lg_granted_by_user_id g = lg_holder_user_id g) (learning_support_grants d))"

definition grants_inv :: "uuid set \<Rightarrow> db \<Rightarrow> bool" where
  "grants_inv K d \<longleftrightarrow> db_constraints d \<and>
     (\<forall>g \<in> set (learning_support_grants d). (lg_granted_by_user_id g = lg_holder_user_id g \<longrightarrow> lg_id g \<in> K) \<and>
        (lg_revoked_at g = None \<longrightarrow> (\<exists>u \<in> set (users d). staff_row (lg_school_id g) (lg_holder_user_id g) u))) \<and>
     (\<forall>a \<in> set (admins d). \<exists>u \<in> set (users d). u_id u = ad_user_id a \<and> u_school_id u = Some (ad_school_id a))"

lemma staff_in_school_iff: "staff_in_school d school i \<longleftrightarrow> (\<exists>u \<in> set (users d). staff_row school i u \<and> u_status u = US_ACTIVE)"
  by (auto simp: staff_in_school_def staff_row_def)

lemma in_holders:
  "g \<in> set (holders d school) \<longleftrightarrow> g \<in> set (learning_support_grants d) \<and> lg_school_id g = school \<and> lg_revoked_at g = None \<and>
     staff_in_school d school (lg_holder_user_id g)"
  by (auto simp: holders_def)

lemma has_holder_iff:
  "has_holder d school \<longleftrightarrow> (\<exists>g \<in> set (learning_support_grants d). lg_school_id g = school \<and> lg_revoked_at g = None \<and>
     staff_in_school d school (lg_holder_user_id g))"
proof -
  have "holders d school \<noteq> [] \<longleftrightarrow> (\<exists>g. g \<in> set (holders d school))" by (cases "holders d school") auto
  then show ?thesis unfolding has_holder_def in_holders by blast
qed

text \<open>Grants after a round of endings: a row not named stays, every row keeps who it is about.\<close>

definition same_grant :: "learning_support_grant_row \<Rightarrow> learning_support_grant_row \<Rightarrow> bool" where
  "same_grant g g' \<longleftrightarrow> lg_id g' = lg_id g \<and> lg_school_id g' = lg_school_id g \<and> lg_holder_user_id g' = lg_holder_user_id g \<and>
     lg_granted_by_user_id g' = lg_granted_by_user_id g \<and> (lg_revoked_at g' = None \<longrightarrow> lg_revoked_at g = None)"

lemma ending_grants:
  assumes "f = hand_over i s now t \<or> f = take_back i s now t"
  shows "(\<forall>g \<in> set (learning_support_grants d). lg_id g \<notin> lg_id ` set gs \<longrightarrow> g \<in> set (learning_support_grants (fold f gs d))) \<and>
    (\<forall>g' \<in> set (learning_support_grants (fold f gs d)). \<exists>g \<in> set (learning_support_grants d). same_grant g g')"
proof (induction gs arbitrary: d)
  case Nil
  show ?case by (auto simp: same_grant_def)
next
  case (Cons x gs)
  have gr: "learning_support_grants (f x d) = learning_support_grants (end_grant i now h x d)"
    if "f = hand_over i s now t \<and> h \<or> f = take_back i s now t \<and> \<not> h" for h
    using that by (auto simp: hand_over_def take_back_def)
  obtain h where h: "learning_support_grants (f x d) = learning_support_grants (end_grant i now h x d)" using gr assms by blast
  have 1: "g \<in> set (learning_support_grants (f x d))" if "g \<in> set (learning_support_grants d)" "lg_id g \<noteq> lg_id x" for g
    using in_update_where[OF that(1), of "\<lambda>y. lg_id y = lg_id x"] that(2) unfolding h end_grant_def by simp
  have 2: "\<exists>g \<in> set (learning_support_grants d). same_grant g g'" if ended: "g' \<in> set (learning_support_grants (f x d))" for g'
  proof -
    obtain y where y: "y \<in> set (learning_support_grants d)" "g' = (if lg_id y = lg_id x then y\<lparr>lg_revoked_at := Some now,
        lg_revoked_by_user_id := Some i, lg_handed_over := (h \<or> lg_handed_over y)\<rparr> else y)"
      using ended unfolding h end_grant_def by (auto simp: set_update_where simp del: if_image_distrib)
    then have "same_grant y g'" by (simp add: same_grant_def)
    with y(1) show ?thesis by blast
  qed
  show ?case using Cons[of "f x d"] 1 2 by (fastforce simp: same_grant_def)
qed

lemma grants_keys:
  assumes "db_constraints d"
  shows "\<lbrakk>g \<in> set (learning_support_grants d); h \<in> set (learning_support_grants d); lg_id g = lg_id h\<rbrakk> \<Longrightarrow> g = h"
    and "unique_where (\<lambda>r. lg_revoked_at r = None) (\<lambda>r. (lg_school_id r, lg_holder_user_id r)) (learning_support_grants d)"
  using assms by (auto simp: db_constraints_def learning_support_grants_ok_def distinct_map dest: inj_onD)

text \<open>How accounts may change without touching the role.\<close>

definition staff_le :: "user_row \<Rightarrow> user_row \<Rightarrow> bool" where
  "staff_le u u' \<longleftrightarrow> u_id u' = u_id u \<and> u_school_id u' = u_school_id u \<and> (u_role u \<in> set LEARNING_SUPPORT_ROLES \<longrightarrow> u_role u' \<in> set LEARNING_SUPPORT_ROLES)"

lemma staff_le_update:
  assumes "\<And>u. staff_le u (f u)" "u \<in> set rows"
  shows "\<exists>u' \<in> set (update_where P f rows). staff_le u u' \<and> (P u \<or> u' = u)"
  using in_update_where[OF assms(2), of P f] assms(1)[of u] by (cases "P u") (auto simp: staff_le_def)

lemma staff_row_le: "\<lbrakk>staff_row s i u; staff_le u u'\<rbrakk> \<Longrightarrow> staff_row s i u'"
  by (auto simp: staff_row_def staff_le_def)

text \<open>Two ways the invariant is kept: the grants stay and accounts change harmlessly, or accounts stay.\<close>

definition same_post :: "admin_row \<Rightarrow> admin_row \<Rightarrow> bool" where
  "same_post a a' \<longleftrightarrow> ad_user_id a' = ad_user_id a \<and> ad_school_id a' = ad_school_id a"

lemma grants_inv_users:
  assumes "grants_inv K d" "db_constraints d'" "learning_support_grants d' = learning_support_grants d"
    and u: "\<And>u. u \<in> set (users d) \<Longrightarrow> \<exists>u' \<in> set (users d'). staff_le u u'"
    and a: "\<And>a'. a' \<in> set (admins d') \<Longrightarrow> (\<exists>a \<in> set (admins d). same_post a a') \<or>
      (\<exists>u \<in> set (users d'). u_id u = ad_user_id a' \<and> u_school_id u = Some (ad_school_id a'))"
  shows "grants_inv K d'"
proof -
  have "\<exists>u \<in> set (users d'). staff_row s i u" if "\<exists>u \<in> set (users d). staff_row s i u" for s i
    using that u staff_row_le by blast
  moreover have "\<exists>u \<in> set (users d'). u_id u = ad_user_id a' \<and> u_school_id u = Some (ad_school_id a')" if "a' \<in> set (admins d')" for a'
    using a[OF that]
  proof
    assume "\<exists>a \<in> set (admins d). same_post a a'"
    then obtain x where x: "x \<in> set (users d)" "u_id x = ad_user_id a'" "u_school_id x = Some (ad_school_id a')"
      using assms(1) unfolding grants_inv_def same_post_def by metis
    then show ?thesis using u[OF x(1)] by (auto simp: staff_le_def)
  qed
  ultimately show ?thesis using assms(1-3) unfolding grants_inv_def by simp
qed

lemma grants_inv_grants:
  assumes "grants_inv K d" "db_constraints d'" "users d' = users d" "admins d' = admins d"
    and g: "\<And>g'. g' \<in> set (learning_support_grants d') \<Longrightarrow>
      (\<exists>g \<in> set (learning_support_grants d). same_grant g g') \<or>
      (lg_granted_by_user_id g' \<noteq> lg_holder_user_id g' \<and> staff_in_school d (lg_school_id g') (lg_holder_user_id g'))"
  shows "grants_inv K d'"
proof -
  have "(lg_granted_by_user_id g' = lg_holder_user_id g' \<longrightarrow> lg_id g' \<in> K) \<and>
      (lg_revoked_at g' = None \<longrightarrow> (\<exists>u \<in> set (users d). staff_row (lg_school_id g') (lg_holder_user_id g') u))"
    if "g' \<in> set (learning_support_grants d')" for g'
    using g[OF that] assms(1) unfolding grants_inv_def staff_in_school_iff same_grant_def by metis
  then show ?thesis using assms(1-4) unfolding grants_inv_def by simp
qed

lemma has_holder_users:
  assumes "has_holder d school" "learning_support_grants d' = learning_support_grants d"
    and u: "\<And>u. \<lbrakk>u \<in> set (users d); u_status u = US_ACTIVE\<rbrakk> \<Longrightarrow> \<exists>u' \<in> set (users d'). staff_le u u' \<and> u_status u' = US_ACTIVE"
  shows "has_holder d' school"
proof -
  have "staff_in_school d' s i" if "staff_in_school d s i" for s i
    using that u staff_row_le unfolding staff_in_school_iff by blast
  then show ?thesis using assms(1,2) unfolding has_holder_iff by auto
qed

lemma same_post_refl [simp]: "same_post a a" by (simp add: same_post_def)
lemma staff_le_refl [simp]: "staff_le u u" by (simp add: staff_le_def)

lemma same_post_in: "a \<in> set rows \<Longrightarrow> \<exists>x \<in> set rows. same_post x a" using same_post_refl by blast
lemma staff_le_in: "u \<in> set rows \<Longrightarrow> \<exists>x \<in> set rows. staff_le u x" using staff_le_refl by blast

lemma active_staff_in: "\<lbrakk>u \<in> set rows; u_status u = st\<rbrakk> \<Longrightarrow> \<exists>x \<in> set rows. staff_le u x \<and> u_status x = st" using staff_le_refl by blast

lemma reinvite_grants [simp]:
  "learning_support_grants (reinvite v u a d) = learning_support_grants d" "admins (reinvite v u a d) = admins d"
  "users (reinvite v u a d) = update_where (\<lambda>x. u_id x = u_id u) (\<lambda>x. x\<lparr>u_role := id_role v\<rparr>) (users d)"
  by (simp_all add: reinvite_def Let_def)

lemma staff_updates:
  "r \<in> set LEARNING_SUPPORT_ROLES \<Longrightarrow> staff_le u (u\<lparr>u_role := r\<rparr>)"
  "staff_le u (u\<lparr>u_password_hash := h, u_auth_method := am, u_status := st, u_deactivated_at := t\<rparr>)"
  "staff_le u (with_active b now u)"
  by (simp_all add: staff_le_def with_active_def)

lemma updated_staff:
  assumes "u \<in> set rows" "\<And>u. staff_le u (f u)"
  shows "\<exists>u' \<in> set (update_where P f rows). staff_le u u'"
  using staff_le_update[OF assms(2,1)] by blast

lemma updated_active_staff:
  assumes "u \<in> set rows" "u_status u = US_ACTIVE" "\<And>u. staff_le u (f u) \<and> (u_status u = US_ACTIVE \<longrightarrow> u_status (f u) = US_ACTIVE)"
  shows "\<exists>u' \<in> set (update_where P f rows). staff_le u u' \<and> u_status u' = US_ACTIVE"
  by (rule bexI[OF _ in_update_where[OF assms(1)]]) (use assms(2) assms(3)[of u] in simp)

lemma give_grant_grants:
  "learning_support_grants (give_grant i s u n t k d) = learning_support_grants d @ [\<lparr>lg_id = k, lg_school_id = s,
     lg_holder_user_id = u, lg_granted_by_user_id = i, lg_granted_at = n, lg_revoked_at = None, lg_revoked_by_user_id = None, lg_handed_over = False\<rparr>]"
  by (simp add: give_grant_def)

lemma hand_inv:
  assumes "grants_inv K d" "user_id \<noteq> actor_id" "staff_in_school d school user_id" "db_constraints d'"
    and d1: "d1 = (if rep then fold (hand_over actor_id school now t) others d else d)"
    and d': "d' = (if c then d1 else give_grant actor_id school user_id now t k d1)"
  shows "grants_inv K d'"
proof -
  note e = ending_fields[of "hand_over actor_id school now t" actor_id school now t others d, simplified]
  note g = ending_grants[of "hand_over actor_id school now t" actor_id school now t d others, simplified]
  have f: "users d' = users d" "admins d' = admins d" unfolding d' d1 using e by auto
  have "\<exists>x \<in> set (learning_support_grants d). same_grant x y" if "y \<in> set (learning_support_grants d1)" for y
    using that g unfolding d1 by (cases rep) (auto simp: same_grant_def)
  then show ?thesis
    using assms(2,3) by (intro grants_inv_grants[OF assms(1,4) f]) (auto simp: d' give_grant_grants split: if_splits)
qed

lemma team_change_inv:
  assumes "team_change d d'" "grants_inv K d" "db_constraints d'"
  shows "grants_inv K d'"
  using assms
proof (induction rule: team_change.induct)
  case (first v d)
  show ?case by (rule grants_inv_users[OF first(2,3)]) (auto simp: first_invite_def new_user_def dest: staff_le_in same_post_in)
next
  case (again v u d a invs)
  show ?case by (rule grants_inv_users[OF again(5,6)]) (auto intro!: updated_staff same_post_in staff_updates again(1))
next
  case (accept u d h invs)
  show ?case by (rule grants_inv_users[OF accept(3,4)]) (auto intro!: updated_staff same_post_in staff_updates)
next
  case (rescope d school' target a u scopes by_user now)
  show ?case by (rule grants_inv_users[OF rescope(3,4)]) (auto intro: staff_le_in same_post_in)
next
  case (relevel d school' target a u level by_user now)
  show ?case
    using team_row_SomeD(3)[OF relevel(1)]
    by (intro grants_inv_users[OF relevel(2,3)]) (auto simp: set_update_where same_post_def intro: staff_le_in)
next
  case (activate d school' target a u now)
  show ?case by (rule grants_inv_users[OF activate(2,3)]) (auto intro!: updated_staff same_post_in staff_updates)
next
  case (deactivate d school' target a u now sessions)
  show ?case by (rule grants_inv_users[OF deactivate(5,6)]) (auto intro!: updated_staff same_post_in staff_updates)
next
  case (hand user_id actor_id d school' others d1 rep now db_now new_id)
  show ?case by (rule hand_inv[OF hand(5,1,2,6,4) refl])
next
  case (take theirs user_id d school' actor_id now db_now)
  note g = ending_grants[of "take_back actor_id school' now db_now" actor_id school' now db_now d theirs, simplified]
  show ?case
    using g ending_fields[of "take_back actor_id school' now db_now" actor_id school' now db_now theirs d]
    by (intro grants_inv_grants[OF take(3,4)]) auto
qed

text \<open>The last holder cannot be deactivated, and another holder is not affected.\<close>

lemma holder_elsewhere:
  assumes "grants_inv K d" "has_holder d school" "team_row d school' target = Some (a, u)"
    and "exists_where (open_grant school' target) (learning_support_grants d) \<longrightarrow> 1 < holder_count d school'"
  shows "\<exists>g \<in> set (learning_support_grants d). lg_school_id g = school \<and> lg_revoked_at g = None \<and>
    staff_in_school d school (lg_holder_user_id g) \<and> lg_holder_user_id g \<noteq> target"
proof -
  have con: "db_constraints d" using assms(1) by (simp add: grants_inv_def)
  obtain g where g: "g \<in> set (learning_support_grants d)" "lg_school_id g = school" "lg_revoked_at g = None"
    "staff_in_school d school (lg_holder_user_id g)" using assms(2) unfolding has_holder_iff by blast
  show ?thesis
  proof (cases "lg_holder_user_id g = target")
    case True
    note r = team_row_SomeD[OF assms(3)]
    obtain x where x: "x \<in> set (users d)" "u_id x = target" "u_school_id x = Some school"
      using g(4) True by (auto simp: staff_in_school_def)
    obtain y where y: "y \<in> set (users d)" "u_id y = target" "u_school_id y = Some school'"
      using assms(1) r(3-5) unfolding grants_inv_def by metis
    have same: "school' = school" using team_keys(3)[OF con x(1) y(1)] x y by simp
    have "exists_where (open_grant school' target) (learning_support_grants d)"
      using g(1-3) True same by (auto simp: open_grant_def)
    then have "1 < holder_count d school" using assms(4) same by simp
    then have "\<exists>h \<in> set (learning_support_grants d). (lg_school_id h = school \<and> lg_revoked_at h = None \<and>
        exists_where (\<lambda>u. u_id u = lg_holder_user_id h \<and> u_status u = US_ACTIVE) (users d)) \<and>
        (lg_school_id h, lg_holder_user_id h) \<noteq> (school, target)"
      unfolding holder_count_def by (rule another_row[OF _ grants_keys(2)[OF con]]) simp
    then obtain h z where h: "h \<in> set (learning_support_grants d)" "lg_school_id h = school" "lg_revoked_at h = None"
      "lg_holder_user_id h \<noteq> target" "z \<in> set (users d)" "u_id z = lg_holder_user_id h" "u_status z = US_ACTIVE" by auto
    obtain w where w: "w \<in> set (users d)" "staff_row school (lg_holder_user_id h) w"
      using assms(1) h(1-3) unfolding grants_inv_def by blast
    have "w = z" using team_keys(3)[OF con w(1) h(5)] w(2) h(6) by (simp add: staff_row_def)
    then have "staff_in_school d school (lg_holder_user_id h)" using w h(7) unfolding staff_in_school_iff by blast
    then show ?thesis using h by blast
  qed (use g in blast)
qed

lemma deactivate_holder:
  assumes "grants_inv K d" "has_holder d school" "team_row d school' target = Some (a, u)"
    and "exists_where (open_grant school' target) (learning_support_grants d) \<longrightarrow> 1 < holder_count d school'"
  shows "has_holder (d\<lparr>users := update_where (\<lambda>x. u_id x = target) f (users d), auth_sessions := ss\<rparr>) school"
proof -
  obtain g where g: "g \<in> set (learning_support_grants d)" "lg_school_id g = school" "lg_revoked_at g = None"
    "staff_in_school d school (lg_holder_user_id g)" "lg_holder_user_id g \<noteq> target" using holder_elsewhere[OF assms] by blast
  obtain x where x: "x \<in> set (users d)" "staff_row school (lg_holder_user_id g) x" "u_status x = US_ACTIVE"
    using g(4) unfolding staff_in_school_iff by blast
  have "x \<in> set (update_where (\<lambda>x. u_id x = target) f (users d))"
    using in_update_where[OF x(1), of "\<lambda>x. u_id x = target" f] x(2) g(5) by (simp add: staff_row_def)
  then have "staff_in_school (d\<lparr>users := update_where (\<lambda>x. u_id x = target) f (users d), auth_sessions := ss\<rparr>) school (lg_holder_user_id g)"
    using x(2,3) unfolding staff_in_school_iff by auto
  then show ?thesis unfolding has_holder_iff using g(1-3) by auto
qed

lemma staff_in_school_users: "users d' = users d \<Longrightarrow> staff_in_school d' s i = staff_in_school d s i"
  by (simp add: staff_in_school_def)

text \<open>A holder whose row is not named by the endings is still a holder.\<close>

lemma ending_holder:
  assumes "grants_inv K d" "f = hand_over i s now t \<or> f = take_back i s now t"
    and "g \<in> set (holders d school)" "\<And>x. x \<in> set gs \<Longrightarrow> x \<in> set (learning_support_grants d) \<and> x \<noteq> g"
  shows "g \<in> set (holders (fold f gs d) school)"
proof -
  have con: "db_constraints d" using assms(1) by (simp add: grants_inv_def)
  have g: "g \<in> set (learning_support_grants d)" using assms(3) by (simp add: in_holders)
  have "lg_id g \<notin> lg_id ` set gs" using grants_keys(1)[OF con g] assms(4) by fastforce
  then have "g \<in> set (learning_support_grants (fold f gs d))" using ending_grants[OF assms(2), of d gs] g by blast
  then show ?thesis
    using assms(3) ending_fields[OF assms(2), of gs d] staff_in_school_users[of "fold f gs d" d] by (simp add: in_holders)
qed

lemma hand_holder:
  assumes "grants_inv K d" "has_holder d school" "staff_in_school d s user_id"
    and others: "others = filter (\<lambda>g. lg_holder_user_id g \<noteq> user_id) (holders d s)"
    and d1: "d1 = (if rep then fold (hand_over i s now t) others d else d)"
  shows "has_holder (if list_ex (\<lambda>g. lg_holder_user_id g = user_id) (holders d s) then d1
    else give_grant i s user_id now t k d1) school"
proof -
  note e = ending_fields[of "hand_over i s now t" i s now t others d, simplified]
  have us: "users d1 = users d" unfolding d1 using e by simp
  obtain g where g: "g \<in> set (holders d school)" using assms(2) unfolding has_holder_def by (cases "holders d school") auto
  have in_others: "x \<in> set (learning_support_grants d) \<and> lg_school_id x = s \<and> lg_holder_user_id x \<noteq> user_id" if "x \<in> set others" for x
    using that by (simp add: others in_holders)
  have keep: "y \<in> set (holders d1 school)" if "y \<in> set (holders d school)" "y \<notin> set others \<or> \<not> rep" for y
    using ending_holder[OF assms(1), of "hand_over i s now t" i s now t y school others] that in_others unfolding d1 by auto
  show ?thesis
  proof (cases "list_ex (\<lambda>g. lg_holder_user_id g = user_id) (holders d s)")
    case True
    then obtain y where y: "y \<in> set (holders d s)" "lg_holder_user_id y = user_id" by (auto simp: list_ex_iff)
    have "holders d1 school \<noteq> []"
    proof (cases "school = s")
      case True
      then show ?thesis using keep[of y] y in_others by fastforce
    next
      case False
      then have "g \<notin> set others" using g in_others by (auto simp: in_holders)
      then show ?thesis using keep[OF g] by fastforce
    qed
    then show ?thesis using True by (simp add: has_holder_def)
  next
    case False
    have st: "staff_in_school (give_grant i s user_id now t k d1) = staff_in_school d"
      using us by (simp add: fun_eq_iff staff_in_school_def)
    have "has_holder (give_grant i s user_id now t k d1) school"
    proof (cases "school = s")
      case True
      then show ?thesis using assms(3) unfolding has_holder_iff st give_grant_grants by simp
    next
      case sch: False
      then have "g \<notin> set others" using g in_others by (auto simp: in_holders)
      then have "g \<in> set (holders d1 school)" using keep[OF g] by blast
      then show ?thesis using staff_in_school_users[OF us] unfolding has_holder_iff st give_grant_grants in_holders by auto
    qed
    then show ?thesis using False by simp
  qed
qed

lemma take_holder:
  assumes "grants_inv K d" "has_holder d school" "theirs = filter (\<lambda>g. lg_holder_user_id g = user_id) (holders d s)"
    and "theirs = [] \<or> length (holders d s) \<noteq> 1"
  shows "has_holder (fold (take_back i s now t) theirs d) school"
proof (cases "theirs = []")
  case False
  have con: "db_constraints d" using assms(1) by (simp add: grants_inv_def)
  obtain g where g: "g \<in> set (holders d school)" "g \<notin> set theirs"
  proof (cases "school = s")
    case True
    let ?P = "\<lambda>g. lg_school_id g = s \<and> lg_revoked_at g = None \<and> staff_in_school d s (lg_holder_user_id g)"
    have len: "length (holders d s) = count_where ?P (learning_support_grants d)" by (simp add: holders_def count_where_def)
    have "holders d s \<noteq> []" using False assms(3) by auto
    then have "length (holders d s) \<noteq> 0" "length (holders d s) \<noteq> 1" using assms(4) False by simp_all
    then have "1 < count_where ?P (learning_support_grants d)" using len by linarith
    then have "\<exists>g \<in> set (learning_support_grants d). ?P g \<and> (lg_school_id g, lg_holder_user_id g) \<noteq> (s, user_id)"
      by (rule another_row[OF _ grants_keys(2)[OF con]]) simp
    then obtain g where "g \<in> set (learning_support_grants d)" "?P g" "lg_holder_user_id g \<noteq> user_id" by auto
    then show ?thesis using that[of g] True assms(3) by (simp add: in_holders)
  next
    case False
    obtain g where "g \<in> set (holders d school)" using assms(2) unfolding has_holder_def by (cases "holders d school") auto
    then show ?thesis using that[of g] False assms(3) by (simp add: in_holders)
  qed
  have "g \<in> set (holders (fold (take_back i s now t) theirs d) school)"
    using g assms(3) by (intro ending_holder[OF assms(1) _ g(1)]) (auto simp: in_holders)
  then show ?thesis by (auto simp: has_holder_def)
qed (use assms(2) in simp)

lemma team_change_holder:
  assumes "team_change d d'" "grants_inv K d" "has_holder d school"
  shows "has_holder d' school"
  using assms
proof (induction rule: team_change.induct)
  case (first v d)
  show ?case by (rule has_holder_users[OF first(3)]) (auto simp: first_invite_def dest: active_staff_in)
next
  case (again v u d a invs)
  show ?case by (rule has_holder_users[OF again(6)]) (auto intro!: updated_active_staff staff_updates again(1))
next
  case (accept u d h invs)
  show ?case by (rule has_holder_users[OF accept(4)]) (auto intro!: updated_active_staff staff_updates)
next
  case (rescope d school' target a u scopes by_user now)
  show ?case by (rule has_holder_users[OF rescope(4)]) (auto intro: active_staff_in)
next
  case (relevel d school' target a u level by_user now)
  show ?case by (rule has_holder_users[OF relevel(3)]) (auto intro: active_staff_in)
next
  case (activate d school' target a u now)
  show ?case by (rule has_holder_users[OF activate(3)]) (auto intro!: updated_active_staff staff_updates simp: with_active_def)
next
  case (deactivate d school' target a u now sessions)
  show ?case by (rule deactivate_holder[OF deactivate(5,6,1,4)])
next
  case (hand user_id actor_id d school' others d1 rep now db_now new_id)
  show ?case by (rule hand_holder[OF hand(5,6,2,3,4)])
next
  case (take theirs user_id d school' actor_id now db_now)
  show ?case by (rule take_holder[OF take(3,4,1,2)])
qed

interpretation support: guarded_role team_step "grants_inv K" has_holder for K
proof unfold_locales
  fix d d' school
  assume a: "team_step d d'" "grants_inv K d"
  then show "grants_inv K d'"
    using team_step_committed[of d d'] team_change_inv[of d d' K] by (auto simp: committed_def)
  assume "has_holder d school"
  then show "has_holder d' school"
    using a team_step_committed[of d d'] team_change_holder[of d d' K school] by (auto simp: committed_def)
qed

subsection \<open>Properties\<close>

lemma require_senior_admin_InrD:
  assumes "require_senior_admin d i = Inr sn"
  shows "\<exists>a \<in> set (admins d). \<exists>u \<in> set (users d). ad_access_level a = AL_SENIOR \<and> ad_user_id a = u_id u \<and> u_id u = i \<and> u_status u = US_ACTIVE"
proof -
  have v: "user_status_value st = ''active'' \<longleftrightarrow> st = US_ACTIVE" for st by (cases st) simp_all
  obtain u a where u: "get_by u_id i (users d) = Some u" "u_status u = US_ACTIVE" "get_by ad_user_id i (admins d) = Some a"
    "ad_access_level a = AL_SENIOR"
    using assms by (auto simp: require_senior_admin_def permissions_for_def snapshot_def Let_def v
      split: option.splits if_splits sum.splits)
  then show ?thesis using get_by_SomeD[OF u(1)] get_by_SomeD[OF u(3)] by auto
qed

lemma no_senior_no_promotion:
  assumes "\<And>a u. \<lbrakk>a \<in> set (admins d); u \<in> set (users d); ad_access_level a = AL_SENIOR; ad_user_id a = u_id u\<rbrakk> \<Longrightarrow> u_status u \<noteq> US_ACTIVE"
  shows "\<exists>e. promote_to_senior d actor target now = (d, Inl e)"
proof -
  have "\<nexists>sn. require_senior_admin d actor = Inr sn" using require_senior_admin_InrD assms by blast
  then obtain e where "require_senior_admin d actor = Inl e" by (cases "require_senior_admin d actor") auto
  then show ?thesis by (simp add: promote_to_senior_def change_access_level_def acting_school_def)
qed

text \<open>Claim C30.  A school that has an active administrator with oversight always keeps one: no sequence of invitations,
  acceptances, scope changes, promotions, deactivations and Learning Support changes takes the last one away.\<close>

theorem oversight_is_never_lost:
  assumes "team_step\<^sup>*\<^sup>* d d'" "db_constraints d" "0 < oversight_count d school"
  shows "0 < oversight_count d' school"
  using oversight.run_held[OF assms(1,2), of school] assms(3) by (simp add: has_oversight_def)


text \<open>Deactivating a team member ends their access at once: afterwards every session of theirs is revoked, no
  token signs them in, and no scope can be exercised in their name.\<close>

theorem deactivated_member_is_signed_out:
  assumes "set_team_member_active d actor target False now = (d', Inr mem)"
    and "get_by u_id target (users d) = Some u" "u_status u = US_ACTIVE" "db_constraints d"
  shows "(\<forall>s \<in> set (auth_sessions d'). as_user_id s = target \<longrightarrow> as_revoked_at s \<noteq> None) \<and>
    (\<nexists>env tok t d'' p. authenticate env d' tok t = (d'', Inr p) \<and> ap_user_id p = target) \<and>
    (\<forall>scope. require_scope d' target scope = Inl PermissionDeniedError)"
proof -
  obtain sn school where repo: "answer_member (repo_set_team_member_active d school target False now) = (d', Inr mem)"
    using assms(1) by (auto simp: set_team_member_active_def split: sum.splits if_splits)
  obtain a x where row: "team_row d school target = Some (a, x)"
    using repo by (cases "team_row d school target") (auto simp: repo_set_team_member_active_def answer_member_def)
  then have x: "x = u" using team_row_SomeD(7)[OF row] assms(2) by simp
  let ?us = "update_where (\<lambda>x. u_id x = target) (with_active False now) (users d)"
  let ?ss = "update_where (\<lambda>s. as_user_id s = target \<and> as_revoked_at s = None)
    (\<lambda>s. s\<lparr>as_revoked_at := Some now, as_revocation_reason := Some ''admin_revoked''\<rparr>) (auth_sessions d)"
  obtain m2 where r2: "repo_set_team_member_active d school target False now = (d', Inr (Some m2))"
    using repo by (cases "repo_set_team_member_active d school target False now") (auto simp: answer_member_def split: sum.splits option.splits)
  have "\<exists>r. team_commit d (d\<lparr>users := ?us, auth_sessions := ?ss\<rparr>) r = (d', Inr (Some m2))"
    using r2 row x assms(3) by (simp add: repo_set_team_member_active_def Let_def split: if_splits) blast
  then have d': "users d' = ?us" "auth_sessions d' = ?ss" by (auto elim!: team_commit_cases)
  have off: "u_status y = US_DEACTIVATED" if y: "y \<in> set (users d')" "u_id y = target" for y
  proof -
    obtain z where "y = (if u_id z = target then with_active False now z else z)"
      using y(1) unfolding d'(1) set_update_where by (rule imageE) blast
    then show ?thesis using y(2) by (cases "u_id z = target") (simp_all add: with_active_def)
  qed
  have "require_scope d' target scope = Inl PermissionDeniedError" for scope
  proof (cases "get_by u_id target (users d')")
    case (Some y)
    then have "u_status y = US_DEACTIVATED" using off get_by_SomeD by fastforce
    then show ?thesis using Some by (simp add: require_scope_def permissions_for_def snapshot_def Let_def)
  qed (simp add: require_scope_def permissions_for_def snapshot_def)
  moreover have "as_revoked_at s \<noteq> None" if s: "s \<in> set (auth_sessions d')" "as_user_id s = target" for s
  proof -
    obtain z where "s = (if as_user_id z = target \<and> as_revoked_at z = None
        then z\<lparr>as_revoked_at := Some now, as_revocation_reason := Some ''admin_revoked''\<rparr> else z)"
      using s(1) unfolding d'(2) set_update_where by (rule imageE) blast
    then show ?thesis using s(2) by (cases "as_user_id z = target \<and> as_revoked_at z = None") auto
  qed
  moreover have "\<nexists>env tok t d'' p. authenticate env d' tok t = (d'', Inr p) \<and> ap_user_id p = target"
    using deactivated_refused[of d' target] off by blast
  ultimately show ?thesis by blast
qed

definition team_user :: "uuid \<Rightarrow> user_row" where
  "team_user i = (new_user i (Some 1) UR_OTHER_ADMIN AM_EMAIL_PASSWORD)\<lparr>u_email := Some [char_of (90 + i)]\<rparr>"

definition team_admin :: "uuid \<Rightarrow> admin_access_level \<Rightarrow> admin_row" where
  "team_admin i level = \<lparr>ad_id = 100 + i, ad_user_id = i, ad_school_id = 1, ad_created_by_user_id = None, ad_access_level = level,
     ad_senior_promoted_by = None, ad_senior_promoted_by_name = None, ad_senior_promoted_at = None\<rparr>"

definition team_scope :: "uuid \<Rightarrow> permission_scope \<Rightarrow> scope_assignment_row" where
  "team_scope i scope = \<lparr>sa_admin_id = 100 + i, sa_scope = scope, sa_granted_by_user_id = None, sa_granted_at = 0, sa_revoked_at = None\<rparr>"

text \<open>A senior administrator, 15, without oversight, and a standard administrator, 16, with it.\<close>

definition team_db :: db where
  "team_db = empty_db\<lparr>schools := [sample_school], users := [team_user 15, team_user 16],
     admins := [team_admin 15 AL_SENIOR, team_admin 16 AL_STANDARD], scope_assignments := [team_scope 16 SCOPE_OVERSIGHT]\<rparr>"

definition senior_gone :: db where
  "senior_gone = fst (set_team_member_active team_db 16 15 False 5)"

text \<open>The last senior administrator is protected against demotion but not against deactivation: an administrator
  with oversight who is not senior deactivates the only senior one, and from then on every promotion is refused,
  so the school has no way back to a senior administrator.\<close>

theorem last_senior_can_be_deactivated:
  "\<exists>mem. set_team_member_active team_db 16 15 False 5 = (senior_gone, Inr mem) \<and>
     demote_to_standard team_db 15 15 5 = (team_db, Inl LastSeniorAdminError) \<and>
     (\<forall>actor target now. \<exists>e. promote_to_senior senior_gone actor target now = (senior_gone, Inl e))"
proof -
  have "\<not> isl (snd (set_team_member_active team_db 16 15 False 5))" by code_simp
  then obtain mem where "snd (set_team_member_active team_db 16 15 False 5) = Inr mem"
    by (cases "snd (set_team_member_active team_db 16 15 False 5)") auto
  then have 1: "set_team_member_active team_db 16 15 False 5 = (senior_gone, Inr mem)"
    unfolding senior_gone_def by (metis prod.collapse)
  have r: "snd (demote_to_standard team_db 15 15 5) = Inl LastSeniorAdminError" by code_simp
  have "fst (demote_to_standard team_db 15 15 5) = team_db" by code_simp
  with r have 2: "demote_to_standard team_db 15 15 5 = (team_db, Inl LastSeniorAdminError)" by (metis prod.collapse)
  have "list_all (\<lambda>a. list_all (\<lambda>u. ad_access_level a = AL_SENIOR \<and> ad_user_id a = u_id u \<longrightarrow> u_status u \<noteq> US_ACTIVE) (users senior_gone)) (admins senior_gone)"
    by code_simp
  then have 3: "\<exists>e. promote_to_senior senior_gone actor target now = (senior_gone, Inl e)" for actor target now
    by (intro no_senior_no_promotion) (auto simp: list_all_iff)
  show ?thesis using 1 2 3 by blast
qed

subsection \<open>Witnesses\<close>

text \<open>The same school with both administrators overseeing and holding Learning Support.\<close>

definition team_grant :: "uuid \<Rightarrow> uuid \<Rightarrow> learning_support_grant_row" where
  "team_grant i by_user = \<lparr>lg_id = 200 + i, lg_school_id = 1, lg_holder_user_id = i, lg_granted_by_user_id = by_user,
     lg_granted_at = 0, lg_revoked_at = None, lg_revoked_by_user_id = None, lg_handed_over = False\<rparr>"

definition full_team :: db where
  "full_team = team_db\<lparr>scope_assignments := [team_scope 15 SCOPE_OVERSIGHT, team_scope 16 SCOPE_OVERSIGHT],
     learning_support_grants := [team_grant 15 15, team_grant 16 15]\<rparr>"

definition half_team :: db where
  "half_team = fst (set_team_member_active full_team 16 15 False 5)"

lemma half_team_result:
  "set_team_member_active full_team 16 15 False 5 = (half_team, snd (set_team_member_active full_team 16 15 False 5))"
  by (simp add: half_team_def)

lemma full_team_ok: "db_constraints full_team"
  by code_simp

theorem oversight_is_never_lost_witness: "0 < oversight_count half_team 1"
proof -
  have "team_step\<^sup>*\<^sup>* full_team half_team" by (rule r_into_rtranclp) (rule team_step.activity[OF half_team_result])
  moreover have "0 < oversight_count full_team 1" by code_simp
  ultimately show ?thesis using oversight_is_never_lost full_team_ok by blast
qed


theorem deactivated_member_is_signed_out_witness:
  "require_scope half_team 15 SCOPE_OVERSIGHT = Inl PermissionDeniedError"
proof -
  have "\<not> isl (snd (set_team_member_active full_team 16 15 False 5))" by code_simp
  then obtain mem where m: "snd (set_team_member_active full_team 16 15 False 5) = Inr mem"
    by (cases "snd (set_team_member_active full_team 16 15 False 5)") auto
  have u: "get_by u_id 15 (users full_team) = Some (team_user 15)" "u_status (team_user 15) = US_ACTIVE"
    by (simp_all add: full_team_def team_db_def team_user_def new_user_def)
  show ?thesis using deactivated_member_is_signed_out[OF half_team_result[unfolded m] u full_team_ok] by blast
qed

end
