(* ===== verification/TeacherAssignments.thy ===== *)
theory TeacherAssignments
  imports Permissions
begin

text \<open>
  Who teaches which class and subject (\<^verbatim>\<open>nevo/teacher_assignments\<close>).  An assignment names a teacher, a class and a subject that is on both
  their lists; a class has at most one primary teacher; a reassignment closes one row and opens the next.  \<^verbatim>\<open>uuid4\<close> and the clock are
  arguments, and the roster provider's batch is one too.  Row locks serialise the calls.
\<close>

subsection \<open>Tables, entities and errors\<close>

record school_invitation_row =
  si_id :: uuid
  si_school_id :: uuid
  si_role :: string
  si_first_name :: "string option"
  si_last_name :: "string option"
  si_email :: "string option"
  si_parent_contact :: "string option"
  si_consent_request_status :: string
  si_class_id :: "uuid option"
  si_token_digest :: string
  si_status :: string
  si_expires_at :: datetime
  si_accepted_at :: "datetime option"
  si_revoked_at :: "datetime option"
  si_created_by_id :: uuid
  si_created_at :: datetime

record school_subject_row =
  ss_id :: uuid
  ss_school_id :: uuid
  ss_name :: string

record teacher_subject_row =
  tsu_teacher_id :: uuid
  tsu_school_subject_id :: uuid

record class_subject_row =
  csu_class_id :: uuid
  csu_school_subject_id :: uuid

record staffing_db =
  sf_db :: db
  school_invitations :: "school_invitation_row list"
  school_subjects :: "school_subject_row list"
  teacher_subjects :: "teacher_subject_row list"
  class_subjects :: "class_subject_row list"

datatype staffing_error =
    AssignmentNotFoundError
  | ClassNotFoundError
  | TeacherNotFoundError
  | TeacherNotActiveError
  | AssignmentConflictError
  | PrimaryTeacherExistsError
  | TeacherNotAssignedError
  | MissingSchoolContextError
  | SubjectRequiredError
  | SubjectNotOnTeacherError
  | SubjectNotOnClassError
  | AccountIntegrityError
  | AssignmentIntegrityError

record assigned_class =
  acl_assignment_id :: uuid
  acl_class_id :: uuid
  acl_class_name :: string
  acl_class_code :: "string option"
  acl_role :: teacher_assignment_role
  acl_assigned_at :: datetime
  acl_subject_id :: "uuid option"
  acl_subject :: "string option"

record assigned_teacher =
  at_assignment_id :: uuid
  at_teacher_id :: uuid
  at_first_name :: "string option"
  at_last_name :: "string option"
  at_email :: "string option"
  at_role :: teacher_assignment_role
  at_assigned_at :: datetime
  at_subject_id :: "uuid option"
  at_subject :: "string option"

record roster_candidate =
  rc_teacher_id :: "uuid option"
  rc_class_id :: "uuid option"
  rc_role :: teacher_assignment_role
  rc_source_reference :: "string option"

record roster_sync_outcome =
  rs_status :: string
  rs_imported_assignments :: nat
  rs_missing_mappings :: nat
  rs_message :: string

text \<open>The rows of \<^verbatim>\<open>teacher_class_assignments\<close> and a transaction's new version of them.\<close>

abbreviation assignments :: "staffing_db \<Rightarrow> teacher_class_assignment_row list" where
  "assignments d \<equiv> teacher_class_assignments (sf_db d)"

definition put_assignments :: "teacher_class_assignment_row list \<Rightarrow> staffing_db \<Rightarrow> staffing_db" where
  "put_assignments rows d = d\<lparr>sf_db := (sf_db d)\<lparr>teacher_class_assignments := rows\<rparr>\<rparr>"

definition assignments_ok :: "teacher_class_assignment_row list \<Rightarrow> bool" where
  "assignments_ok rows = (distinct (map tca_id rows) \<and> teacher_class_assignments_ok rows)"

subsection \<open>The repository\<close>

definition lock_class :: "staffing_db \<Rightarrow> uuid \<Rightarrow> uuid \<Rightarrow> bool" where
  "lock_class d school_id class_id = exists_where (\<lambda>c. cl_id c = class_id \<and> cl_school_id c = school_id) (classes (sf_db d))"

definition open_invitation_for :: "staffing_db \<Rightarrow> uuid \<Rightarrow> uuid \<Rightarrow> datetime \<Rightarrow> school_invitation_row option" where
  "open_invitation_for d school_id teacher_id now =
     List.find (\<lambda>i. si_id i = teacher_id \<and> si_school_id i = school_id \<and> si_role i = user_role_value UR_TEACHER \<and>
        si_status i = ''pending'' \<and> si_revoked_at i = None \<and> now < si_expires_at i) (school_invitations d)"

definition invited_teacher :: "uuid \<Rightarrow> school_invitation_row \<Rightarrow> user_row" where
  "invited_teacher school_id i = (new_user (si_id i) (Some school_id) UR_TEACHER AM_EMAIL_PASSWORD)
     \<lparr>u_first_name := si_first_name i, u_last_name := si_last_name i, u_email := si_email i, u_status := US_INVITED\<rparr>"

definition has_teacher_scope :: "db \<Rightarrow> uuid \<Rightarrow> uuid \<Rightarrow> bool" where
  "has_teacher_scope d school_id user_id =
     exists_where (\<lambda>a. ad_user_id a = user_id \<and> ad_school_id a = school_id \<and>
       exists_where (\<lambda>s. sa_admin_id s = ad_id a \<and> sa_scope s = SCOPE_TEACHER \<and> sa_revoked_at s = None) (scope_assignments d)) (admins d)"

text \<open>\<^verbatim>\<open>_require_teacher\<close>: the account, created from an open invitation when there is none; the flag says it stands for an invitation.\<close>

definition require_teacher :: "staffing_db \<Rightarrow> uuid \<Rightarrow> uuid \<Rightarrow> datetime \<Rightarrow> staffing_error + staffing_db \<times> bool" where
  "require_teacher d school_id teacher_id now =
     (case List.find (\<lambda>u. u_id u = teacher_id \<and> u_school_id u = Some school_id \<and>
             u_role u \<in> {UR_TEACHER, UR_OTHER_ADMIN, UR_SENCO_ADMIN}) (users (sf_db d)) of
        None \<Rightarrow>
          (case open_invitation_for d school_id teacher_id now of
             None \<Rightarrow> Inl TeacherNotFoundError
           | Some i \<Rightarrow>
               if present (si_email i) = [] then Inl TeacherNotFoundError
               else (let us = users (sf_db d) @ [invited_teacher school_id i] in
                     if users_ok us then Inr (d\<lparr>sf_db := (sf_db d)\<lparr>users := us\<rparr>\<rparr>, True) else Inl AccountIntegrityError))
      | Some u \<Rightarrow>
          if u_role u \<in> {UR_OTHER_ADMIN, UR_SENCO_ADMIN} \<and> \<not> has_teacher_scope (sf_db d) school_id (u_id u) then Inl TeacherNotFoundError
          else if u_status u \<notin> {US_ACTIVE, US_INVITED} then Inl TeacherNotActiveError
          else Inr (d, u_status u = US_INVITED \<and> open_invitation_for d school_id teacher_id now \<noteq> None))"

definition on_teacher :: "staffing_db \<Rightarrow> uuid \<Rightarrow> uuid \<Rightarrow> bool" where
  "on_teacher d teacher_id subject_id =
     exists_where (\<lambda>t. tsu_teacher_id t = teacher_id \<and> tsu_school_subject_id t = subject_id) (teacher_subjects d)"

definition on_class :: "staffing_db \<Rightarrow> uuid \<Rightarrow> uuid \<Rightarrow> bool" where
  "on_class d class_id subject_id =
     exists_where (\<lambda>c. csu_class_id c = class_id \<and> csu_school_subject_id c = subject_id) (class_subjects d)"

text \<open>An invited teacher is given the subject with the assignment; anyone else must hold it already.\<close>

definition add_invited_subject :: "bool \<Rightarrow> uuid \<Rightarrow> uuid option \<Rightarrow> staffing_db \<Rightarrow> staffing_db" where
  "add_invited_subject invited teacher_id subject d =
     (case subject of
        Some s \<Rightarrow> if invited \<and> \<not> on_teacher d teacher_id s
                 then d\<lparr>teacher_subjects := teacher_subjects d @ [\<lparr>tsu_teacher_id = teacher_id, tsu_school_subject_id = s\<rparr>]\<rparr> else d
      | None \<Rightarrow> d)"

definition require_subject_on_both :: "staffing_db \<Rightarrow> uuid \<Rightarrow> uuid \<Rightarrow> uuid option \<Rightarrow> staffing_error option" where
  "require_subject_on_both d teacher_id class_id subject =
     (case subject of
        None \<Rightarrow> Some SubjectRequiredError
      | Some s \<Rightarrow> if \<not> on_teacher d teacher_id s then Some SubjectNotOnTeacherError
                 else if \<not> on_class d class_id s then Some SubjectNotOnClassError
                 else None)"

definition active_primary :: "uuid \<Rightarrow> uuid \<Rightarrow> uuid option \<Rightarrow> teacher_class_assignment_row \<Rightarrow> bool" where
  "active_primary school_id class_id excluding t = (tca_school_id t = school_id \<and> tca_class_id t = class_id \<and>
     tca_role t = TR_PRIMARY \<and> tca_removed_at t = None \<and> (case excluding of None \<Rightarrow> True | Some i \<Rightarrow> tca_id t \<noteq> i))"

definition ensure_primary_available :: "staffing_db \<Rightarrow> uuid \<Rightarrow> uuid \<Rightarrow> uuid option \<Rightarrow> bool" where
  "ensure_primary_available d school_id class_id excluding = (\<not> exists_where (active_primary school_id class_id excluding) (assignments d))"

definition flush_assignments :: "teacher_class_assignment_row list \<Rightarrow> staffing_db \<Rightarrow> staffing_error + staffing_db" where
  "flush_assignments rows d = (if assignments_ok rows then Inr (put_assignments rows d) else Inl AssignmentIntegrityError)"

definition repo_assign ::
  "staffing_db \<Rightarrow> uuid \<Rightarrow> uuid \<Rightarrow> uuid \<Rightarrow> teacher_assignment_role \<Rightarrow> teacher_assignment_source \<Rightarrow> string option \<Rightarrow> uuid option \<Rightarrow>
     datetime \<Rightarrow> uuid option \<Rightarrow> uuid \<Rightarrow> staffing_error + staffing_db \<times> teacher_class_assignment_row" where
  "repo_assign d school_id teacher_id class_id role src src_ref assigned_by now subject new_id =
     (if \<not> lock_class d school_id class_id then Inl ClassNotFoundError
      else
        (case require_teacher d school_id teacher_id now of
           Inl e \<Rightarrow> Inl e
         | Inr (d1, invited) \<Rightarrow>
             (let d2 = add_invited_subject invited teacher_id subject d1 in
              case require_subject_on_both d2 teacher_id class_id subject of
                Some e \<Rightarrow> Inl e
              | None \<Rightarrow>
                  (case List.find (\<lambda>t. tca_school_id t = school_id \<and> tca_teacher_id t = teacher_id \<and> tca_class_id t = class_id \<and>
                          tca_school_subject_id t = subject \<and> tca_removed_at t = None) (assignments d2) of
                     Some t \<Rightarrow> if tca_role t = role then Inr (d2, t) else Inl AssignmentConflictError
                   | None \<Rightarrow>
                       if role = TR_PRIMARY \<and> \<not> ensure_primary_available d2 school_id class_id None then Inl PrimaryTeacherExistsError
                       else
                         (let t = \<lparr>tca_id = new_id, tca_school_id = school_id, tca_school_subject_id = subject, tca_teacher_id = teacher_id,
                                tca_class_id = class_id, tca_role = role, tca_source = src, tca_source_reference = src_ref,
                                tca_assigned_by_user_id = assigned_by, tca_assigned_at = now, tca_removed_at = None,
                                tca_replaced_by_assignment_id = None\<rparr> in
                          case flush_assignments (assignments d2 @ [t]) d2 of Inl e \<Rightarrow> Inl e | Inr d3 \<Rightarrow> Inr (d3, t))))))"

definition close_assignment :: "uuid \<Rightarrow> datetime \<Rightarrow> teacher_class_assignment_row list \<Rightarrow> teacher_class_assignment_row list" where
  "close_assignment i now rows = update_where (\<lambda>t. tca_id t = i) (\<lambda>t. t\<lparr>tca_removed_at := Some now\<rparr>) rows"

definition repo_reassign ::
  "staffing_db \<Rightarrow> uuid \<Rightarrow> uuid \<Rightarrow> uuid \<Rightarrow> teacher_assignment_role option \<Rightarrow> uuid \<Rightarrow> datetime \<Rightarrow> uuid
     \<Rightarrow> staffing_error + staffing_db \<times> teacher_class_assignment_row" where
  "repo_reassign d school_id assignment_id new_teacher_id role assigned_by now new_id =
     (case List.find (\<lambda>t. tca_id t = assignment_id \<and> tca_school_id t = school_id \<and> tca_removed_at t = None) (assignments d) of
        None \<Rightarrow> Inl AssignmentNotFoundError
      | Some current \<Rightarrow>
          if \<not> lock_class d school_id (tca_class_id current) then Inl ClassNotFoundError
          else
            (case require_teacher d school_id new_teacher_id now of
               Inl e \<Rightarrow> Inl e
             | Inr (d1, invited) \<Rightarrow>
                 (let subject = tca_school_subject_id current;
                      d2 = add_invited_subject invited new_teacher_id subject d1 in
                  case require_subject_on_both d2 new_teacher_id (tca_class_id current) subject of
                    Some e \<Rightarrow> Inl e
                  | None \<Rightarrow>
                      (let next_role = (case role of Some r \<Rightarrow> r | None \<Rightarrow> tca_role current) in
                       if tca_teacher_id current = new_teacher_id \<and> tca_role current = next_role then Inr (d2, current)
                       else if exists_where (\<lambda>t. tca_school_id t = school_id \<and> tca_teacher_id t = new_teacher_id \<and>
                                 tca_class_id t = tca_class_id current \<and> tca_removed_at t = None \<and> tca_id t \<noteq> tca_id current) (assignments d2)
                       then Inl AssignmentConflictError
                       else if next_role = TR_PRIMARY \<and> \<not> ensure_primary_available d2 school_id (tca_class_id current) (Some (tca_id current))
                       then Inl PrimaryTeacherExistsError
                       else
                         (let t = \<lparr>tca_id = new_id, tca_school_id = school_id, tca_school_subject_id = subject, tca_teacher_id = new_teacher_id,
                                tca_class_id = tca_class_id current, tca_role = next_role, tca_source = TS_MANUAL, tca_source_reference = None,
                                tca_assigned_by_user_id = Some assigned_by, tca_assigned_at = now, tca_removed_at = None,
                                tca_replaced_by_assignment_id = None\<rparr> in
                          case flush_assignments (close_assignment (tca_id current) now (assignments d2)) d2 of
                            Inl e \<Rightarrow> Inl e
                          | Inr d3 \<Rightarrow>
                              (case flush_assignments (assignments d3 @ [t]) d3 of
                                 Inl e \<Rightarrow> Inl e
                               | Inr d4 \<Rightarrow>
                                   Inr (put_assignments (update_where (\<lambda>x. tca_id x = tca_id current)
                                          (\<lambda>x. x\<lparr>tca_replaced_by_assignment_id := Some new_id\<rparr>) (assignments d4)) d4, t)))))))"

definition repo_remove :: "staffing_db \<Rightarrow> uuid \<Rightarrow> uuid \<Rightarrow> datetime \<Rightarrow> staffing_error + staffing_db \<times> bool" where
  "repo_remove d school_id assignment_id now =
     (let hit = (\<lambda>t. tca_id t = assignment_id \<and> tca_school_id t = school_id \<and> tca_removed_at t = None) in
      case flush_assignments (update_where hit (\<lambda>t. t\<lparr>tca_removed_at := Some now\<rparr>) (assignments d)) d of
        Inl e \<Rightarrow> Inl e
      | Inr d' \<Rightarrow> Inr (d', exists_where hit (assignments d)))"

definition subject_name :: "staffing_db \<Rightarrow> uuid option \<Rightarrow> string option" where
  "subject_name d s = (case s of None \<Rightarrow> None | Some i \<Rightarrow> map_option ss_name (get_by ss_id i (school_subjects d)))"

text \<open>Reads.  \<^verbatim>\<open>ORDER BY\<close> on text uses the database's collation, the argument \<open>rank\<close>; NULLs sort last.\<close>

definition repo_teacher_classes :: "(string \<Rightarrow> nat) \<Rightarrow> staffing_db \<Rightarrow> uuid \<Rightarrow> uuid \<Rightarrow> assigned_class list" where
  "repo_teacher_classes rank d school_id teacher_id =
     map (\<lambda>(t, c). \<lparr>acl_assignment_id = tca_id t, acl_class_id = cl_id c, acl_class_name = cl_name c, acl_class_code = cl_class_code c,
        acl_role = tca_role t, acl_assigned_at = tca_assigned_at t, acl_subject_id = tca_school_subject_id t,
        acl_subject = subject_name d (tca_school_subject_id t)\<rparr>)
     (sort_key (\<lambda>(t, c). rank (cl_name c))
       [(t, c). t \<leftarrow> assignments d, tca_school_id t = school_id \<and> tca_teacher_id t = teacher_id \<and> tca_removed_at t = None,
          c \<leftarrow> classes (sf_db d), cl_id c = tca_class_id t])"

definition null_last :: "(string \<Rightarrow> nat) \<Rightarrow> string option \<Rightarrow> bool \<times> nat" where
  "null_last rank s = (case s of None \<Rightarrow> (True, 0) | Some x \<Rightarrow> (False, rank x))"

definition repo_class_teachers :: "(string \<Rightarrow> nat) \<Rightarrow> staffing_db \<Rightarrow> uuid \<Rightarrow> uuid \<Rightarrow> assigned_teacher list" where
  "repo_class_teachers rank d school_id class_id =
     (let key1 = (\<lambda>(t, u). if tca_role t = TR_PRIMARY then 0 else 1 :: nat);
          flag = (\<lambda>s. if fst (null_last rank s) then 1 else 0 :: nat);
          rows = [(t, u). t \<leftarrow> assignments d, tca_school_id t = school_id \<and> tca_class_id t = class_id \<and> tca_removed_at t = None,
            u \<leftarrow> users (sf_db d), u_id u = tca_teacher_id t];
          by_first = sort_key (\<lambda>(t, u). flag (u_first_name u)) (sort_key (\<lambda>(t, u). snd (null_last rank (u_first_name u))) rows);
          by_last = sort_key (\<lambda>(t, u). flag (u_last_name u)) (sort_key (\<lambda>(t, u). snd (null_last rank (u_last_name u))) by_first) in
      map (\<lambda>(t, u). \<lparr>at_assignment_id = tca_id t, at_teacher_id = u_id u, at_first_name = u_first_name u, at_last_name = u_last_name u,
        at_email = u_email u, at_role = tca_role t, at_assigned_at = tca_assigned_at t, at_subject_id = tca_school_subject_id t,
        at_subject = subject_name d (tca_school_subject_id t)\<rparr>) (sort_key key1 by_last))"

definition is_teacher_assigned :: "staffing_db \<Rightarrow> uuid \<Rightarrow> uuid \<Rightarrow> uuid \<Rightarrow> bool" where
  "is_teacher_assigned d school_id teacher_id class_id =
     exists_where (\<lambda>t. tca_school_id t = school_id \<and> tca_teacher_id t = teacher_id \<and> tca_class_id t = class_id \<and> tca_removed_at t = None)
       (assignments d)"

subsection \<open>The service\<close>

text \<open>A failing transaction leaves the database as it was.\<close>

definition in_transaction :: "staffing_db \<Rightarrow> staffing_error + staffing_db \<times> 'a \<Rightarrow> staffing_db \<times> (staffing_error + 'a)" where
  "in_transaction d res = (case res of Inl e \<Rightarrow> (d, Inl e) | Inr (d', x) \<Rightarrow> (d', Inr x))"

definition assign ::
  "staffing_db \<Rightarrow> permission_snapshot \<Rightarrow> uuid \<Rightarrow> uuid \<Rightarrow> teacher_assignment_role \<Rightarrow> uuid option \<Rightarrow> datetime \<Rightarrow> uuid
     \<Rightarrow> staffing_db \<times> (staffing_error + teacher_class_assignment_row)" where
  "assign d actor teacher_id class_id role subject now new_id =
     (case sn_school_id actor of
        None \<Rightarrow> (d, Inl MissingSchoolContextError)
      | Some school_id \<Rightarrow> in_transaction d
          (repo_assign d school_id teacher_id class_id role TS_MANUAL None (Some (sn_user_id actor)) now subject new_id))"

definition reassign ::
  "staffing_db \<Rightarrow> permission_snapshot \<Rightarrow> uuid \<Rightarrow> uuid \<Rightarrow> teacher_assignment_role option \<Rightarrow> datetime \<Rightarrow> uuid
     \<Rightarrow> staffing_db \<times> (staffing_error + teacher_class_assignment_row)" where
  "reassign d actor assignment_id new_teacher_id role now new_id =
     (case sn_school_id actor of
        None \<Rightarrow> (d, Inl MissingSchoolContextError)
      | Some school_id \<Rightarrow> in_transaction d (repo_reassign d school_id assignment_id new_teacher_id role (sn_user_id actor) now new_id))"

definition remove_assignment :: "staffing_db \<Rightarrow> permission_snapshot \<Rightarrow> uuid \<Rightarrow> datetime \<Rightarrow> staffing_db \<times> (staffing_error + unit)" where
  "remove_assignment d actor assignment_id now =
     (case sn_school_id actor of
        None \<Rightarrow> (d, Inl MissingSchoolContextError)
      | Some school_id \<Rightarrow>
          (case in_transaction d (repo_remove d school_id assignment_id now) of
             (d', Inl e) \<Rightarrow> (d', Inl e)
           | (d', Inr removed) \<Rightarrow> (d', if removed then Inr () else Inl AssignmentNotFoundError)))"

definition teacher_classes :: "(string \<Rightarrow> nat) \<Rightarrow> staffing_db \<Rightarrow> permission_snapshot \<Rightarrow> uuid \<Rightarrow> staffing_error + assigned_class list" where
  "teacher_classes rank d actor teacher_id =
     (case sn_school_id actor of None \<Rightarrow> Inl MissingSchoolContextError | Some s \<Rightarrow> Inr (repo_teacher_classes rank d s teacher_id))"

definition class_teachers :: "(string \<Rightarrow> nat) \<Rightarrow> staffing_db \<Rightarrow> permission_snapshot \<Rightarrow> uuid \<Rightarrow> staffing_error + assigned_teacher list" where
  "class_teachers rank d actor class_id =
     (case sn_school_id actor of None \<Rightarrow> Inl MissingSchoolContextError | Some s \<Rightarrow> Inr (repo_class_teachers rank d s class_id))"

definition require_teacher_assignment :: "staffing_db \<Rightarrow> permission_snapshot \<Rightarrow> uuid \<Rightarrow> uuid \<Rightarrow> staffing_error option" where
  "require_teacher_assignment d actor teacher_id class_id =
     (case sn_school_id actor of
        None \<Rightarrow> Some MissingSchoolContextError
      | Some s \<Rightarrow> if is_teacher_assigned d s teacher_id class_id then None else Some TeacherNotAssignedError)"

definition MANUAL_FALLBACK_MESSAGE :: string where
  "MANUAL_FALLBACK_MESSAGE =
     ''Roster mappings were not found. Assign teachers manually from the class or teacher detail page.''"

text \<open>The loop over the candidates, each in a transaction of its own; the identifiers come from \<open>draw\<close>, one per position.\<close>

fun sync_each ::
  "uuid \<Rightarrow> datetime \<Rightarrow> (nat \<Rightarrow> uuid) \<Rightarrow> roster_candidate list \<Rightarrow> nat \<Rightarrow> nat \<Rightarrow> staffing_db \<Rightarrow> staffing_db \<times> (staffing_error + nat \<times> nat)" where
  "sync_each school_id now draw [] imported missing d = (d, Inr (imported, missing))"
| "sync_each school_id now draw (c # cs) imported missing d =
     (case (rc_teacher_id c, rc_class_id c) of
        (Some teacher_id, Some class_id) \<Rightarrow>
          (case in_transaction d (repo_assign d school_id teacher_id class_id (rc_role c) TS_ROSTER_SYNC (rc_source_reference c) None now None
                  (draw (imported + missing))) of
             (d', Inl e) \<Rightarrow> (d', Inl e)
           | (d', Inr t) \<Rightarrow> sync_each school_id now draw cs (Suc imported) missing d')
      | _ \<Rightarrow> sync_each school_id now draw cs imported (Suc missing) d)"

definition sync_from_roster ::
  "bool \<Rightarrow> roster_candidate list \<Rightarrow> staffing_db \<Rightarrow> permission_snapshot \<Rightarrow> datetime \<Rightarrow> (nat \<Rightarrow> uuid)
     \<Rightarrow> staffing_db \<times> (staffing_error + roster_sync_outcome)" where
  "sync_from_roster supported batch d actor now draw =
     (case sn_school_id actor of
        None \<Rightarrow> (d, Inl MissingSchoolContextError)
      | Some school_id \<Rightarrow>
          if \<not> supported then (d, Inr \<lparr>rs_status = ''manual_fallback_required'', rs_imported_assignments = 0, rs_missing_mappings = 0,
            rs_message = MANUAL_FALLBACK_MESSAGE\<rparr>)
          else
            (case sync_each school_id now draw batch 0 0 d of
               (d', Inl e) \<Rightarrow> (d', Inl e)
             | (d', Inr (imported, missing)) \<Rightarrow>
                 (d', Inr \<lparr>rs_status = (if 0 < missing then ''partial_manual_fallback_required'' else ''completed''),
                   rs_imported_assignments = imported, rs_missing_mappings = missing,
                   rs_message = (if 0 < missing then MANUAL_FALLBACK_MESSAGE else ''Roster teacher assignments are up to date.'')\<rparr>)))"

definition UnavailableRosterAssignmentProvider :: "uuid \<Rightarrow> bool \<times> roster_candidate list" where
  "UnavailableRosterAssignmentProvider school_id = (False, [])"

text \<open>The HTTP status an error is answered with.\<close>

fun public_assignment_error :: "staffing_error \<Rightarrow> nat option" where
  "public_assignment_error AssignmentNotFoundError = Some 404"
| "public_assignment_error ClassNotFoundError = Some 404"
| "public_assignment_error TeacherNotFoundError = Some 404"
| "public_assignment_error AssignmentConflictError = Some 409"
| "public_assignment_error PrimaryTeacherExistsError = Some 409"
| "public_assignment_error TeacherNotActiveError = Some 409"
| "public_assignment_error SubjectRequiredError = Some 422"
| "public_assignment_error SubjectNotOnTeacherError = Some 422"
| "public_assignment_error SubjectNotOnClassError = Some 422"
| "public_assignment_error MissingSchoolContextError = Some 403"
| "public_assignment_error TeacherNotAssignedError = Some 403"
| "public_assignment_error AccountIntegrityError = None"
| "public_assignment_error AssignmentIntegrityError = None"

subsection \<open>The invariant\<close>

definition in_school :: "staffing_db \<Rightarrow> bool" where
  "in_school d = (\<forall>t \<in> set (assignments d). lock_class d (tca_school_id t) (tca_class_id t))"

definition subjects_agree :: "staffing_db \<Rightarrow> bool" where
  "subjects_agree d = (\<forall>t \<in> set (assignments d). tca_removed_at t = None \<longrightarrow>
     (\<forall>s. tca_school_subject_id t = Some s \<longrightarrow> on_teacher d (tca_teacher_id t) s \<and> on_class d (tca_class_id t) s))"

definition staffing_ok :: "staffing_db \<Rightarrow> bool" where
  "staffing_ok d = (assignments_ok (assignments d) \<and> distinct (map cl_id (classes (sf_db d))) \<and> in_school d \<and> subjects_agree d)"

text \<open>What the checks before an assignment may change: accounts, and the subjects of an invited teacher.\<close>

definition prepared :: "staffing_db \<Rightarrow> staffing_db \<Rightarrow> bool" where
  "prepared d d' = (assignments d' = assignments d \<and> classes (sf_db d') = classes (sf_db d) \<and> class_subjects d' = class_subjects d \<and>
     set (teacher_subjects d) \<subseteq> set (teacher_subjects d'))"

lemma prepared_refl [simp]: "prepared d d"
  by (simp add: prepared_def)

lemma prepared_trans: "\<lbrakk>prepared a b; prepared b c\<rbrakk> \<Longrightarrow> prepared a c"
  by (auto simp: prepared_def)

lemma require_teacher_prepared: "require_teacher d s t now = Inr (d', b) \<Longrightarrow> prepared d d'"
  by (auto simp: require_teacher_def prepared_def Let_def split: option.splits if_splits)

lemma add_invited_prepared: "prepared d (add_invited_subject b t s d)"
  by (auto simp: add_invited_subject_def prepared_def split: option.splits)

lemma prepared_ok:
  assumes "prepared d d'" "staffing_ok d"
  shows "staffing_ok d'"
proof -
  have "on_teacher d t s \<Longrightarrow> on_teacher d' t s" for t s using assms(1) by (auto simp: on_teacher_def prepared_def)
  moreover have "on_class d' = on_class d" "lock_class d' = lock_class d"
    using assms(1) by (auto simp: on_class_def lock_class_def prepared_def fun_eq_iff)
  ultimately show ?thesis using assms unfolding staffing_ok_def in_school_def subjects_agree_def prepared_def by auto
qed

lemma school_of_class:
  assumes "staffing_ok d" "t \<in> set (assignments d)" "lock_class d s (tca_class_id t)"
  shows "tca_school_id t = s"
proof -
  obtain c where c: "c \<in> set (classes (sf_db d))" "cl_id c = tca_class_id t" "cl_school_id c = tca_school_id t"
    using assms(1,2) by (auto simp: staffing_ok_def in_school_def lock_class_def)
  obtain c' where c': "c' \<in> set (classes (sf_db d))" "cl_id c' = tca_class_id t" "cl_school_id c' = s"
    using assms(3) by (auto simp: lock_class_def)
  have "c = c'" using c c' assms(1) by (auto simp: staffing_ok_def distinct_map inj_on_def)
  then show ?thesis using c c' by simp
qed

lemma put_assignments_fields [simp]:
  "assignments (put_assignments rows d) = rows" "classes (sf_db (put_assignments rows d)) = classes (sf_db d)"
  "lock_class (put_assignments rows d) = lock_class d" "on_teacher (put_assignments rows d) = on_teacher d"
  "on_class (put_assignments rows d) = on_class d"
  by (simp_all add: put_assignments_def lock_class_def on_teacher_def on_class_def fun_eq_iff)

lemma require_subject_None:
  "require_subject_on_both d t c subj = None \<Longrightarrow> \<exists>s. subj = Some s \<and> on_teacher d t s \<and> on_class d c s"
  by (auto simp: require_subject_on_both_def split: option.splits if_splits)

subsection \<open>Appending and closing rows\<close>

lemma append_assignment:
  assumes ok: "staffing_ok d" and new: "tca_id t \<notin> tca_id ` set (assignments d)" "tca_removed_at t = None"
    and cls: "lock_class d (tca_school_id t) (tca_class_id t)"
    and subj: "tca_school_subject_id t = Some s" "on_teacher d (tca_teacher_id t) s" "on_class d (tca_class_id t) s"
    and triple: "\<not> (\<exists>x \<in> set (assignments d). tca_removed_at x = None \<and> tca_school_id x = tca_school_id t \<and> tca_teacher_id x = tca_teacher_id t \<and>
      tca_class_id x = tca_class_id t \<and> tca_school_subject_id x = Some s)"
    and primary: "tca_role t = TR_PRIMARY \<Longrightarrow> \<not> (\<exists>x \<in> set (assignments d). active_primary (tca_school_id t) (tca_class_id t) None x)"
  shows "assignments_ok (assignments d @ [t]) \<and> staffing_ok (put_assignments (assignments d @ [t]) d)"
proof -
  have school: "tca_school_id x = tca_school_id t" if "x \<in> set (assignments d)" "tca_class_id x = tca_class_id t" for x
    using school_of_class[OF ok that(1)] cls that(2) by simp
  have key: "\<forall>x \<in> set (assignments d). tca_removed_at x = None \<longrightarrow>
      (tca_teacher_id x, tca_class_id x, tca_school_subject_id x) \<noteq> (tca_teacher_id t, tca_class_id t, tca_school_subject_id t)"
    using triple school subj(1) by auto
  have one: "tca_role t = TR_PRIMARY \<longrightarrow> (\<forall>x \<in> set (assignments d). tca_role x = TR_PRIMARY \<and> tca_removed_at x = None \<longrightarrow> tca_class_id x \<noteq> tca_class_id t)"
    using primary school by (auto simp: active_primary_def simp del: not_None_eq)
  have "assignments_ok (assignments d @ [t])"
    using ok new key one unfolding staffing_ok_def assignments_ok_def teacher_class_assignments_ok_def
    by (simp add: unique_where_append)
  moreover from this have "staffing_ok (put_assignments (assignments d @ [t]) d)"
    using ok cls subj unfolding staffing_ok_def in_school_def subjects_agree_def by auto
  ultimately show ?thesis by blast
qed

text \<open>Closing rows, and rewriting columns no constraint reads.\<close>

lemma close_rows:
  assumes "assignments_ok rows" "\<forall>t \<in> set rows. tca_assigned_at t \<le> now"
  shows "assignments_ok (update_where P (\<lambda>t. t\<lparr>tca_removed_at := Some now\<rparr>) rows)"
proof -
  have "map tca_id (update_where P (\<lambda>t. t\<lparr>tca_removed_at := Some now\<rparr>) rows) = map tca_id rows" by (rule map_update_where) simp
  then show ?thesis
    using assms unfolding assignments_ok_def teacher_class_assignments_ok_def
    by (auto simp: list_all_iff set_update_where intro!: unique_where_update_weaken split: option.splits)
qed

lemma rewrite_rows:
  assumes "assignments_ok rows"
  shows "assignments_ok (update_where P (\<lambda>t. t\<lparr>tca_replaced_by_assignment_id := r\<rparr>) rows)"
proof -
  have "map tca_id (update_where P (\<lambda>t. t\<lparr>tca_replaced_by_assignment_id := r\<rparr>) rows) = map tca_id rows" by (rule map_update_where) simp
  then show ?thesis
    using assms unfolding assignments_ok_def teacher_class_assignments_ok_def
    by (auto simp: list_all_iff set_update_where intro!: unique_where_update_weaken split: option.splits)
qed

lemma update_rows_ok:
  assumes "staffing_ok d" "assignments_ok (update_where P f (assignments d))"
    and "\<And>t. tca_school_id (f t) = tca_school_id t \<and> tca_class_id (f t) = tca_class_id t \<and> tca_teacher_id (f t) = tca_teacher_id t \<and>
      tca_school_subject_id (f t) = tca_school_subject_id t \<and> (tca_removed_at (f t) = None \<longrightarrow> tca_removed_at t = None)"
  shows "staffing_ok (put_assignments (update_where P f (assignments d)) d)"
  using assms unfolding staffing_ok_def in_school_def subjects_agree_def by (auto simp: set_update_where)

subsection \<open>The operations keep the invariant and never reach an index\<close>

lemma repo_assign_ok:
  assumes ok: "staffing_ok d" and fresh: "new_id \<notin> tca_id ` set (assignments d)"
  shows "(case repo_assign d school tid cid role src ref assigner now subj new_id of
     Inl e \<Rightarrow> e \<noteq> AssignmentIntegrityError
   | Inr (d', t) \<Rightarrow> staffing_ok d' \<and> (\<exists>s. subj = Some s \<and> on_teacher d' tid s \<and> on_class d' cid s))"
proof (cases "lock_class d school cid")
  case cls: True
  show ?thesis
  proof (cases "require_teacher d school tid now")
    case (Inl e)
    then show ?thesis using cls by (auto simp: repo_assign_def require_teacher_def Let_def split: option.splits if_splits)
  next
    case (Inr r)
    then obtain d1 invited where r: "require_teacher d school tid now = Inr (d1, invited)" by (cases r) auto
    define d2 where "d2 = add_invited_subject invited tid subj d1"
    have prep: "prepared d d2"
      using prepared_trans[OF require_teacher_prepared[OF r] add_invited_prepared] by (simp add: d2_def)
    have ok2: "staffing_ok d2" by (rule prepared_ok[OF prep ok])
    have same: "assignments d2 = assignments d" "lock_class d2 = lock_class d"
      using prep by (auto simp: prepared_def lock_class_def fun_eq_iff)
    show ?thesis
    proof (cases "require_subject_on_both d2 tid cid subj")
      case (Some e)
      then show ?thesis using cls r d2_def by (auto simp: repo_assign_def require_subject_on_both_def split: option.splits if_splits)
    next
      case None
      then obtain s where s: "subj = Some s" "on_teacher d2 tid s" "on_class d2 cid s" using require_subject_None by blast
      have d2: "add_invited_subject invited tid (Some s) d1 = d2" by (simp add: d2_def s(1))
      let ?hit = "\<lambda>t. tca_school_id t = school \<and> tca_teacher_id t = tid \<and> tca_class_id t = cid \<and> tca_school_subject_id t = subj \<and> tca_removed_at t = None"
      show ?thesis
      proof (cases "List.find ?hit (assignments d2)")
        case (Some t)
        then show ?thesis using cls r None s ok2 by (simp add: repo_assign_def d2 Let_def)
      next
        case free: None
        define t where "t = \<lparr>tca_id = new_id, tca_school_id = school, tca_school_subject_id = subj, tca_teacher_id = tid,
          tca_class_id = cid, tca_role = role, tca_source = src, tca_source_reference = ref, tca_assigned_by_user_id = assigner,
          tca_assigned_at = now, tca_removed_at = None, tca_replaced_by_assignment_id = None\<rparr>"
        show ?thesis
        proof (cases "role = TR_PRIMARY \<and> \<not> ensure_primary_available d2 school cid None")
          case True
          then show ?thesis using cls r None free s by (simp add: repo_assign_def d2 Let_def)
        next
          case False
          have "assignments_ok (assignments d2 @ [t]) \<and> staffing_ok (put_assignments (assignments d2 @ [t]) d2)"
            using ok2 fresh same cls s free False
            by (intro append_assignment[where s = s]) (auto simp: t_def find_None_iff_all ensure_primary_available_def)
          then show ?thesis using cls r None free False s
            by (auto simp add: repo_assign_def d2 Let_def t_def flush_assignments_def)
        qed
      qed
    qed
  qed
qed (simp add: repo_assign_def)

lemma repo_remove_ok:
  assumes "staffing_ok d" "\<forall>t \<in> set (assignments d). tca_assigned_at t \<le> now"
  shows "\<exists>d' hit. repo_remove d school i now = Inr (d', hit) \<and> staffing_ok d'"
  using assms close_rows[of "assignments d" now] update_rows_ok[OF assms(1)]
  by (simp add: repo_remove_def flush_assignments_def Let_def staffing_ok_def)

lemma open_after_close:
  "\<lbrakk>x \<in> set (close_assignment i now rows); tca_removed_at x = None\<rbrakk> \<Longrightarrow> x \<in> set rows \<and> tca_id x \<noteq> i"
  by (auto simp: close_assignment_def set_update_where split: if_splits)

text \<open>The last part of a reassignment: one row is closed, the next appended, and the first made to point at it.\<close>

lemma replace_ok:
  assumes ok: "staffing_ok d" and clock: "\<forall>t \<in> set (assignments d). tca_assigned_at t \<le> now"
    and new: "tca_id t \<notin> tca_id ` set (assignments d)" "tca_removed_at t = None" "lock_class d (tca_school_id t) (tca_class_id t)"
    and subj: "tca_school_subject_id t = Some s" "on_teacher d (tca_teacher_id t) s" "on_class d (tca_class_id t) s"
    and dup: "\<forall>x \<in> set (assignments d). tca_removed_at x = None \<and> tca_school_id x = tca_school_id t \<and> tca_teacher_id x = tca_teacher_id t \<and>
      tca_class_id x = tca_class_id t \<longrightarrow> tca_id x = i"
    and primary: "tca_role t = TR_PRIMARY \<Longrightarrow> ensure_primary_available d (tca_school_id t) (tca_class_id t) (Some i)"
  shows "\<exists>d3 d4. flush_assignments (close_assignment i now (assignments d)) d = Inr d3 \<and> flush_assignments (assignments d3 @ [t]) d3 = Inr d4 \<and>
    staffing_ok (put_assignments (update_where P (\<lambda>x. x\<lparr>tca_replaced_by_assignment_id := r\<rparr>) (assignments d4)) d4) \<and>
    on_teacher d4 = on_teacher d \<and> on_class d4 = on_class d"
proof -
  define rows where "rows = close_assignment i now (assignments d)"
  define d3 where "d3 = put_assignments rows d"
  have rows_ok: "assignments_ok rows"
    unfolding rows_def close_assignment_def using ok clock by (intro close_rows) (auto simp: staffing_ok_def)
  have ok3: "staffing_ok d3"
    unfolding d3_def rows_def close_assignment_def
    by (rule update_rows_ok[OF ok]) (use rows_ok in \<open>auto simp: rows_def close_assignment_def\<close>)
  have "map tca_id rows = map tca_id (assignments d)"
    unfolding rows_def close_assignment_def by (rule map_update_where) simp
  then have ids: "tca_id ` set rows = tca_id ` set (assignments d)" by (metis list.set_map)
  define d4 where "d4 = put_assignments (rows @ [t]) d3"
  have "assignments_ok (assignments d3 @ [t]) \<and> staffing_ok (put_assignments (assignments d3 @ [t]) d3)"
  proof (rule append_assignment[OF ok3, where s = s])
    show "tca_id t \<notin> tca_id ` set (assignments d3)" using new(1) ids by (simp add: d3_def)
    show "\<not> (\<exists>x \<in> set (assignments d3). tca_removed_at x = None \<and> tca_school_id x = tca_school_id t \<and> tca_teacher_id x = tca_teacher_id t \<and>
      tca_class_id x = tca_class_id t \<and> tca_school_subject_id x = Some s)"
      using dup open_after_close by (fastforce simp: d3_def rows_def)
    show "\<not> (\<exists>x \<in> set (assignments d3). active_primary (tca_school_id t) (tca_class_id t) None x)" if "tca_role t = TR_PRIMARY"
      using primary[OF that] open_after_close by (fastforce simp: d3_def rows_def ensure_primary_available_def active_primary_def)
  qed (use new subj in \<open>simp_all add: d3_def\<close>)
  then have app: "assignments_ok (rows @ [t])" and ok4: "staffing_ok d4" by (simp_all add: d3_def d4_def)
  have "staffing_ok (put_assignments (update_where P (\<lambda>x. x\<lparr>tca_replaced_by_assignment_id := r\<rparr>) (assignments d4)) d4)"
    by (rule update_rows_ok[OF ok4]) (use ok4 rewrite_rows in \<open>auto simp: staffing_ok_def\<close>)
  moreover have "flush_assignments (close_assignment i now (assignments d)) d = Inr d3" "flush_assignments (assignments d3 @ [t]) d3 = Inr d4"
    using rows_ok app by (simp_all add: flush_assignments_def rows_def[symmetric] d3_def d4_def)
  ultimately show ?thesis by (auto simp: d3_def d4_def)
qed

lemma repo_reassign_ok:
  assumes ok: "staffing_ok d" and fresh: "new_id \<notin> tca_id ` set (assignments d)" and clock: "\<forall>t \<in> set (assignments d). tca_assigned_at t \<le> now"
  shows "(case repo_reassign d school i tid role assigner now new_id of
     Inl e \<Rightarrow> e \<noteq> AssignmentIntegrityError | Inr (d', t) \<Rightarrow> staffing_ok d')"
proof (cases "List.find (\<lambda>t. tca_id t = i \<and> tca_school_id t = school \<and> tca_removed_at t = None) (assignments d)")
  case found: (Some current)
  then have cur: "current \<in> set (assignments d)" "tca_id current = i" "tca_school_id current = school"
    using find_SomeD by fastforce+
  then have cls: "lock_class d school (tca_class_id current)" using ok by (auto simp: staffing_ok_def in_school_def)
  show ?thesis
  proof (cases "require_teacher d school tid now")
    case (Inl e)
    then show ?thesis using cls found by (auto simp: repo_reassign_def require_teacher_def Let_def split: option.splits if_splits)
  next
    case (Inr r)
    then obtain d1 invited where r: "require_teacher d school tid now = Inr (d1, invited)" by (cases r) auto
    define d2 where "d2 = add_invited_subject invited tid (tca_school_subject_id current) d1"
    have prep: "prepared d d2"
      using prepared_trans[OF require_teacher_prepared[OF r] add_invited_prepared] by (simp add: d2_def)
    have ok2: "staffing_ok d2" by (rule prepared_ok[OF prep ok])
    have same: "assignments d2 = assignments d" "lock_class d2 = lock_class d"
      using prep by (auto simp: prepared_def lock_class_def fun_eq_iff)
    show ?thesis
    proof (cases "require_subject_on_both d2 tid (tca_class_id current) (tca_school_subject_id current)")
      case (Some e)
      then have "e \<noteq> AssignmentIntegrityError" by (auto simp: require_subject_on_both_def split: option.splits if_splits)
      then show ?thesis using cls r found Some by (simp add: repo_reassign_def Let_def d2_def[symmetric])
    next
      case None
      then obtain s where s: "tca_school_subject_id current = Some s" "on_teacher d2 tid s" "on_class d2 (tca_class_id current) s"
        using require_subject_None by blast
      define next_role where "next_role = (case role of Some r \<Rightarrow> r | None \<Rightarrow> tca_role current)"
      define t where "t = \<lparr>tca_id = new_id, tca_school_id = school, tca_school_subject_id = tca_school_subject_id current, tca_teacher_id = tid,
        tca_class_id = tca_class_id current, tca_role = next_role, tca_source = TS_MANUAL, tca_source_reference = None,
        tca_assigned_by_user_id = Some assigner, tca_assigned_at = now, tca_removed_at = None, tca_replaced_by_assignment_id = None\<rparr>"
      let ?same = "tca_teacher_id current = tid \<and> tca_role current = next_role"
      let ?dup = "exists_where (\<lambda>t. tca_school_id t = school \<and> tca_teacher_id t = tid \<and>
        tca_class_id t = tca_class_id current \<and> tca_removed_at t = None \<and> tca_id t \<noteq> tca_id current) (assignments d2)"
      let ?taken = "next_role = TR_PRIMARY \<and> \<not> ensure_primary_available d2 school (tca_class_id current) (Some (tca_id current))"
      note body = repo_reassign_def found cls r d2_def[symmetric] None next_role_def[symmetric] t_def[symmetric]
      consider (unchanged) "?same" | (dup) "\<not> ?same" "?dup" | (taken) "\<not> ?same" "\<not> ?dup" "?taken" | (go) "\<not> ?same" "\<not> ?dup" "\<not> ?taken"
        by blast
      then show ?thesis
      proof cases
        case unchanged
        then show ?thesis using ok2 by (simp add: body Let_def)
      next
        case go
        have "\<exists>d3 d4. flush_assignments (close_assignment (tca_id current) now (assignments d2)) d2 = Inr d3 \<and>
            flush_assignments (assignments d3 @ [t]) d3 = Inr d4 \<and>
            staffing_ok (put_assignments (update_where (\<lambda>x. tca_id x = tca_id current)
              (\<lambda>x. x\<lparr>tca_replaced_by_assignment_id := Some new_id\<rparr>) (assignments d4)) d4) \<and>
            on_teacher d4 = on_teacher d2 \<and> on_class d4 = on_class d2"
          by (rule replace_ok[OF ok2, where s = s]) (use same fresh clock cls s go in \<open>auto simp: t_def\<close>)
        then obtain d3 d4 where "flush_assignments (close_assignment (tca_id current) now (assignments d2)) d2 = Inr d3"
            "flush_assignments (assignments d3 @ [t]) d3 = Inr d4"
            "staffing_ok (put_assignments (update_where (\<lambda>x. tca_id x = tca_id current)
              (\<lambda>x. x\<lparr>tca_replaced_by_assignment_id := Some new_id\<rparr>) (assignments d4)) d4)" by blast
        then show ?thesis using go by (auto simp add: body Let_def simp del: exists_where_iff)
      qed (auto simp add: body Let_def simp del: exists_where_iff)
    qed
  qed
qed (simp add: repo_reassign_def)

subsection \<open>Runs\<close>

text \<open>A call with a fresh identifier and a clock that is not behind the stored assignments.\<close>

definition timely :: "staffing_db \<Rightarrow> datetime \<Rightarrow> bool" where
  "timely d now = (\<forall>t \<in> set (assignments d). tca_assigned_at t \<le> now)"

inductive staffing_step :: "staffing_db \<Rightarrow> staffing_db \<Rightarrow> bool" where
  assign: "\<lbrakk>n \<notin> tca_id ` set (assignments d); assign d actor tid cid role subj now n = (d', r1)\<rbrakk> \<Longrightarrow> staffing_step d d'"
| reassign: "\<lbrakk>n \<notin> tca_id ` set (assignments d); timely d now; reassign d actor i tid rl now n = (d', r2)\<rbrakk> \<Longrightarrow> staffing_step d d'"
| remove: "\<lbrakk>timely d now; remove_assignment d actor i now = (d', r3)\<rbrakk> \<Longrightarrow> staffing_step d d'"

lemma assign_safe:
  assumes "staffing_ok d" "n \<notin> tca_id ` set (assignments d)"
  shows "staffing_ok (fst (assign d actor tid cid role subj now n)) \<and> snd (assign d actor tid cid role subj now n) \<noteq> Inl AssignmentIntegrityError"
proof (cases "sn_school_id actor")
  case (Some school)
  then show ?thesis
    using repo_assign_ok[OF assms, where school = school and tid = tid and cid = cid and role = role and src = TS_MANUAL and
      ref = None and assigner = "Some (sn_user_id actor)" and now = now and subj = subj] assms(1)
    by (auto simp: assign_def in_transaction_def split: sum.splits)
qed (use assms in \<open>simp add: assign_def\<close>)

lemma reassign_safe:
  assumes "staffing_ok d" "n \<notin> tca_id ` set (assignments d)" "timely d now"
  shows "staffing_ok (fst (reassign d actor i tid role now n)) \<and> snd (reassign d actor i tid role now n) \<noteq> Inl AssignmentIntegrityError"
proof (cases "sn_school_id actor")
  case (Some school)
  then show ?thesis
    using repo_reassign_ok[OF assms(1,2) assms(3)[unfolded timely_def], where school = school and i = i and tid = tid and role = role and assigner = "sn_user_id actor"] assms(1)
    by (auto simp: reassign_def in_transaction_def split: sum.splits)
qed (use assms in \<open>simp add: reassign_def\<close>)

lemma remove_safe:
  assumes "staffing_ok d" "timely d now"
  shows "staffing_ok (fst (remove_assignment d actor i now)) \<and> snd (remove_assignment d actor i now) \<noteq> Inl AssignmentIntegrityError"
proof (cases "sn_school_id actor")
  case (Some school)
  then show ?thesis
    using repo_remove_ok[OF assms(1) assms(2)[unfolded timely_def], of school i]
    by (auto simp: remove_assignment_def in_transaction_def split: if_splits)
qed (use assms in \<open>simp add: remove_assignment_def\<close>)

text \<open>
  The checks of assigning, reassigning and removing are complete: with a fresh identifier and a clock that is not behind the stored
  rows, no call ever runs into the unique indexes or the check of the assignments table.
\<close>

theorem assignment_guards_suffice:
  assumes "staffing_ok d" "n \<notin> tca_id ` set (assignments d)" "timely d now"
  shows "snd (assign d actor tid cid role subj now n) \<noteq> Inl AssignmentIntegrityError \<and>
    snd (reassign d actor i tid rl now n) \<noteq> Inl AssignmentIntegrityError \<and>
    snd (remove_assignment d actor i now) \<noteq> Inl AssignmentIntegrityError"
  using assign_safe[OF assms(1,2)] reassign_safe[OF assms] remove_safe[OF assms(1,3)] by blast

lemma staffing_step_ok: "\<lbrakk>staffing_step d d'; staffing_ok d\<rbrakk> \<Longrightarrow> staffing_ok d'"
  by (induction rule: staffing_step.induct) (metis assign_safe reassign_safe remove_safe fst_conv)+


subsection \<open>Roster synchronisation\<close>

lemma repo_assign_no_subject: "\<exists>e. repo_assign d school tid cid role src ref by now None n = Inl e"
  by (auto simp: repo_assign_def require_subject_on_both_def split: sum.splits)

text \<open>
  Synchronising teachers from a roster never assigns anyone: the database is left as it was whatever the batch, and one mapped
  candidate is enough to end the run in an error, because the candidates carry no subject and an assignment requires one.
\<close>

theorem roster_sync_imports_nothing:
  "fst (sync_from_roster supported batch d actor now draw) = d \<and>
   (\<forall>out. snd (sync_from_roster supported batch d actor now draw) = Inr out \<longrightarrow> rs_imported_assignments out = 0) \<and>
   (supported \<and> (\<exists>c \<in> set batch. rc_teacher_id c \<noteq> None \<and> rc_class_id c \<noteq> None) \<longrightarrow>
      (\<exists>e. snd (sync_from_roster supported batch d actor now draw) = Inl e))"
proof -
  have each: "fst (sync_each school now draw batch 0 missing d) = d \<and>
      (\<forall>k. snd (sync_each school now draw batch 0 missing d) = Inr k \<longrightarrow> fst k = 0) \<and>
      ((\<exists>c \<in> set batch. rc_teacher_id c \<noteq> None \<and> rc_class_id c \<noteq> None) \<longrightarrow> (\<exists>e. snd (sync_each school now draw batch 0 missing d) = Inl e))"
    for school missing
  proof (induction batch arbitrary: missing)
    case (Cons c cs)
    show ?case
    proof (cases "rc_teacher_id c = None \<or> rc_class_id c = None")
      case True
      then have "sync_each school now draw (c # cs) 0 missing d = sync_each school now draw cs 0 (Suc missing) d"
        by (auto split: option.splits)
      then show ?thesis using Cons.IH[of "Suc missing"] True by auto
    next
      case False
      then obtain t k where tk: "rc_teacher_id c = Some t" "rc_class_id c = Some k" by auto
      obtain e where "repo_assign d school t k (rc_role c) TS_ROSTER_SYNC (rc_source_reference c) None now None (draw (0 + missing)) = Inl e"
        using repo_assign_no_subject by blast
      then show ?thesis using tk by (simp add: in_transaction_def)
    qed
  qed simp
  show ?thesis
  proof (cases "sn_school_id actor")
    case (Some school)
    then show ?thesis using each[of school 0] by (auto simp: sync_from_roster_def split: prod.splits sum.splits)
  qed (simp add: sync_from_roster_def)
qed

subsection \<open>Samples\<close>

definition staffing_class :: class_row where
  "staffing_class = \<lparr>cl_id = 5, cl_school_id = 1, cl_name = ''JSS1'', cl_normalised_name = ''jss1'', cl_class_code = None, cl_year_group = None,
     cl_section = None, cl_academic_session = ''2025'', cl_capacity = None, cl_source = ''manual'', cl_archived_at = None\<rparr>"

definition staffing_assignment :: "uuid \<Rightarrow> uuid \<Rightarrow> uuid \<Rightarrow> teacher_assignment_role \<Rightarrow> teacher_class_assignment_row" where
  "staffing_assignment i teacher subject role = \<lparr>tca_id = i, tca_school_id = 1, tca_school_subject_id = Some subject, tca_teacher_id = teacher,
     tca_class_id = 5, tca_role = role, tca_source = TS_MANUAL, tca_source_reference = None, tca_assigned_by_user_id = None,
     tca_assigned_at = 0, tca_removed_at = None, tca_replaced_by_assignment_id = None\<rparr>"

text \<open>Two teachers, both with subjects 1 and 2; each holds class 5 for one of them.\<close>

definition staffing_sample :: staffing_db where
  "staffing_sample = \<lparr>sf_db = empty_db\<lparr>schools := [sample_school], users := [sample_teacher, sample_teacher\<lparr>u_id := 13, u_email := Some ''v@b.ng''\<rparr>],
       classes := [staffing_class], teacher_class_assignments := [staffing_assignment 21 11 1 TR_PRIMARY, staffing_assignment 22 13 2 TR_CO_TEACHER]\<rparr>,
     school_invitations = [], school_subjects = [],
     teacher_subjects = [\<lparr>tsu_teacher_id = 11, tsu_school_subject_id = 1\<rparr>, \<lparr>tsu_teacher_id = 11, tsu_school_subject_id = 2\<rparr>,
       \<lparr>tsu_teacher_id = 13, tsu_school_subject_id = 2\<rparr>],
     class_subjects = [\<lparr>csu_class_id = 5, csu_school_subject_id = 1\<rparr>, \<lparr>csu_class_id = 5, csu_school_subject_id = 2\<rparr>]\<rparr>"

definition staffing_actor :: permission_snapshot where
  "staffing_actor = \<lparr>sn_user_id = 15, sn_school_id = Some 1, sn_role = ''other_admin'', sn_status = ''active'', sn_school_auth_method = None,
     sn_assigned_scopes = [SCOPE_ROSTER], sn_admin_access_level = None, sn_email_confirmed = True, sn_email = None\<rparr>"

lemma staffing_sample_ok: "staffing_ok staffing_sample" "timely staffing_sample 9" "30 \<notin> tca_id ` set (assignments staffing_sample)"
proof -
  have "assignments_ok (assignments staffing_sample)" "distinct (map cl_id (classes (sf_db staffing_sample)))" by code_simp+
  moreover have "in_school staffing_sample" "subjects_agree staffing_sample"
    by (auto simp: in_school_def subjects_agree_def lock_class_def on_teacher_def on_class_def staffing_sample_def staffing_assignment_def staffing_class_def)
  ultimately show "staffing_ok staffing_sample" by (simp add: staffing_ok_def)
qed (auto simp: timely_def staffing_sample_def staffing_assignment_def)

theorem assignment_guards_suffice_witness:
  "snd (assign staffing_sample staffing_actor 11 5 TR_CO_TEACHER (Some 2) 9 30) \<noteq> Inl AssignmentIntegrityError"
  using assignment_guards_suffice[OF staffing_sample_ok(1,3,2)] by blast

definition staffed :: staffing_db where
  "staffed = fst (assign staffing_sample staffing_actor 11 5 TR_CO_TEACHER (Some 2) 9 30)"

lemma staffed_rows: "assignments staffed = [staffing_assignment 21 11 1 TR_PRIMARY, staffing_assignment 22 13 2 TR_CO_TEACHER,
    (staffing_assignment 30 11 2 TR_CO_TEACHER)\<lparr>tca_assigned_at := 9, tca_assigned_by_user_id := Some 15\<rparr>]"
  by code_simp


text \<open>
  A class can be given to a teacher for a second subject, but not handed over to her: the check of \<^verbatim>\<open>reassign\<close> for a duplicate leaves
  the subject out.
\<close>

theorem reassign_ignores_the_subject:
  "snd (assign staffing_sample staffing_actor 11 5 TR_CO_TEACHER (Some 2) 9 30) = Inr (assignments staffed ! 2) \<and>
   snd (reassign staffing_sample staffing_actor 22 11 None 9 30) = Inl AssignmentConflictError"
  by code_simp

end
