(* ===== verification/AccountAccess.thy ===== *)
theory AccountAccess
  imports Permissions
begin

text \<open>
  Links, PINs and passwords (\<^verbatim>\<open>nevo/api/email_confirmation.py\<close>, the account handlers of \<^verbatim>\<open>nevo/api/product_auth.py\<close> and the two
  handlers elsewhere that issue what they redeem).  \<^verbatim>\<open>secrets\<close>, \<^verbatim>\<open>uuid4\<close> and the clocks (the application's and, as \<open>created\<close>, the
  database's) are arguments; SHA-256 and Argon2 are functions of the environment.  \<open>acc_mail\<close> collects the confirmation messages
  passed to the mail client: the address and the token of the link.  The wording of answers and messages is not modelled.
\<close>

subsection \<open>Tables, environment and answers\<close>

record email_confirmation_row =
  ec_id :: uuid
  ec_user_id :: uuid
  ec_email :: string
  ec_token_digest :: string
  ec_expires_at :: datetime
  ec_confirmed_at :: "datetime option"
  ec_superseded_at :: "datetime option"
  ec_created_at :: datetime

record password_reset_token_row =
  prt_id :: uuid
  prt_user_id :: uuid
  prt_token_digest :: string
  prt_expires_at :: datetime
  prt_used_at :: "datetime option"

record onboarding_grant_row =
  og_id :: uuid
  og_school_id :: uuid
  og_class_id :: uuid
  og_token_digest :: string
  og_expires_at :: datetime
  og_used_at :: "datetime option"

record shared_device_profile_row =
  sdp_device_id :: uuid
  sdp_school_id :: uuid
  sdp_student_id :: uuid
  sdp_avatar_shape :: string
  sdp_avatar_colourway :: string
  sdp_provisioned_by_user_id :: uuid

record account_db =
  acc_db :: db
  email_confirmations :: "email_confirmation_row list"
  password_reset_tokens :: "password_reset_token_row list"
  onboarding_grants :: "onboarding_grant_row list"
  shared_device_profiles :: "shared_device_profile_row list"
  acc_mail :: "(string \<times> string) list"

record account_env =
  ace_auth :: auth_env
  ace_sha256 :: "string \<Rightarrow> string"
  ace_argon_hash :: "string \<Rightarrow> string"

datatype account_fault =
    Refused http_error
  | RecentlySent int
  | PinChangeThrottled datetime
  | SignInFault auth_error
  | CommitFault
  | RoleValueError
  | StopIteration

record email_confirmation_state =
  ecs_status :: string
  ecs_email :: "string option"
  ecs_expires_at :: "datetime option"

record pin_update =
  pu_status :: string
  pu_user_id :: uuid
  pu_login_identifier :: "string option"
  pu_session :: "issued_session option"

abbreviation refuse :: "nat \<Rightarrow> string \<Rightarrow> account_fault" where
  "refuse code detail \<equiv> Refused (HTTPException code detail)"

definition hash_password :: "account_env \<Rightarrow> string \<Rightarrow> string" where
  "hash_password env password = ace_argon_hash env (env_password_hmac (ace_auth env) password)"

definition hash_pin :: "account_env \<Rightarrow> string \<Rightarrow> string" where
  "hash_pin env pin = ace_argon_hash env (env_pin_hmac (ace_auth env) pin)"

text \<open>The end of a transaction (\<open>CommitFault\<close> is its \<^verbatim>\<open>IntegrityError\<close>): the tables' unique indexes beside the constraints of \<^const>\<open>db_constraints\<close>.\<close>

definition account_constraints :: "account_db \<Rightarrow> bool" where
  "account_constraints d \<longleftrightarrow> db_constraints (acc_db d) \<and>
     distinct (map ec_id (email_confirmations d)) \<and> distinct (map ec_token_digest (email_confirmations d)) \<and>
     distinct (map prt_id (password_reset_tokens d)) \<and> distinct (map prt_token_digest (password_reset_tokens d)) \<and>
     distinct (map og_id (onboarding_grants d)) \<and> distinct (map og_token_digest (onboarding_grants d)) \<and>
     distinct (map (\<lambda>r. (sdp_device_id r, sdp_student_id r)) (shared_device_profiles d))"

definition account_commit :: "account_db \<Rightarrow> account_db \<Rightarrow> 'a \<Rightarrow> account_db \<times> (account_fault + 'a)" where
  "account_commit d d' answer =
     (if account_constraints d' then (d', Inr answer) else (d, Inl CommitFault))"

text \<open>A write to one account, to the sessions of one account, and \<^verbatim>\<open>str(user.email)\<close>.\<close>

definition put_user :: "uuid \<Rightarrow> (user_row \<Rightarrow> user_row) \<Rightarrow> account_db \<Rightarrow> account_db" where
  "put_user i f d = d\<lparr>acc_db := (acc_db d)\<lparr>users := update_where (\<lambda>u. u_id u = i) f (users (acc_db d))\<rparr>\<rparr>"

definition revoke_sessions :: "(auth_session_row \<Rightarrow> bool) \<Rightarrow> string \<Rightarrow> datetime \<Rightarrow> account_db \<Rightarrow> account_db" where
  "revoke_sessions Q reason now d = d\<lparr>acc_db := (acc_db d)\<lparr>auth_sessions :=
     update_where (\<lambda>r. Q r \<and> as_revoked_at r = None)
       (\<lambda>r. r\<lparr>as_revoked_at := Some now, as_revocation_reason := Some reason\<rparr>) (auth_sessions (acc_db d))\<rparr>\<rparr>"

definition email_str :: "user_row \<Rightarrow> string" where
  "email_str u = (case u_email u of None \<Rightarrow> ''None'' | Some e \<Rightarrow> e)"

subsection \<open>Confirming an address\<close>

definition CONFIRMATION_LIFETIME :: timedelta where
  "CONFIRMATION_LIFETIME = td_hours 48"

definition RESEND_INTERVAL :: timedelta where
  "RESEND_INTERVAL = td_minutes 2"

abbreviation live_confirmation :: "email_confirmation_row \<Rightarrow> bool" where
  "live_confirmation c \<equiv> ec_confirmed_at c = None \<and> ec_superseded_at c = None"

definition issue_confirmation ::
  "account_env \<Rightarrow> account_db \<Rightarrow> user_row \<Rightarrow> datetime \<Rightarrow> datetime \<Rightarrow> uuid \<Rightarrow> string \<Rightarrow> account_db \<times> email_confirmation_row" where
  "issue_confirmation env d user issued_at created new_id token =
     (let older = update_where (\<lambda>c. ec_user_id c = u_id user \<and> ec_confirmed_at c = None \<and> ec_superseded_at c = None)
                    (\<lambda>c. c\<lparr>ec_superseded_at := Some issued_at\<rparr>) (email_confirmations d);
          confirmation = \<lparr>ec_id = new_id, ec_user_id = u_id user, ec_email = email_str user, ec_token_digest = ace_sha256 env token,
            ec_expires_at = issued_at + CONFIRMATION_LIFETIME, ec_confirmed_at = None, ec_superseded_at = None, ec_created_at = created\<rparr> in
      (d\<lparr>email_confirmations := older @ [confirmation]\<rparr>, confirmation))"

text \<open>\<^verbatim>\<open>send_confirmation\<close>: an unavailable mail provider is swallowed.\<close>

definition send_confirmation :: "string \<Rightarrow> string \<Rightarrow> account_db \<Rightarrow> account_db" where
  "send_confirmation to_address token d = d\<lparr>acc_mail := acc_mail d @ [(to_address, token)]\<rparr>"

definition pending_state :: "email_confirmation_row \<Rightarrow> email_confirmation_state" where
  "pending_state c = \<lparr>ecs_status = ''pending'', ecs_email = Some (ec_email c), ecs_expires_at = Some (ec_expires_at c)\<rparr>"

definition outstanding_confirmation :: "account_db \<Rightarrow> user_row \<Rightarrow> datetime \<Rightarrow> email_confirmation_row option" where
  "outstanding_confirmation d user now =
     (case sort_key (\<lambda>c. - ec_created_at c)
             (filter (\<lambda>c. ec_user_id c = u_id user \<and> live_confirmation c \<and> now < ec_expires_at c) (email_confirmations d)) of
        [] \<Rightarrow> None | c # _ \<Rightarrow> Some c)"

definition read_email_confirmation ::
  "request_facts option \<Rightarrow> account_db \<Rightarrow> auth_principal \<Rightarrow> datetime \<Rightarrow> account_fault + email_confirmation_state" where
  "read_email_confirmation request d p now =
     (case actor_user request (acc_db d) p of
        Inl e \<Rightarrow> Inl (Refused e)
      | Inr user \<Rightarrow>
          if u_email_confirmed_at user \<noteq> None
          then Inr \<lparr>ecs_status = ''confirmed'', ecs_email = Some (email_str user), ecs_expires_at = None\<rparr>
          else (case outstanding_confirmation d user now of
                  None \<Rightarrow> Inr \<lparr>ecs_status = ''expired'', ecs_email = Some (email_str user), ecs_expires_at = None\<rparr>
                | Some c \<Rightarrow> Inr (pending_state c)))"

definition verify_email ::
  "account_env \<Rightarrow> account_db \<Rightarrow> string \<Rightarrow> datetime \<Rightarrow> datetime \<Rightarrow> account_db \<times> (account_fault + email_confirmation_state)" where
  "verify_email env d token checked_at now =
     (case get_by ec_token_digest (ace_sha256 env token) (email_confirmations d) of
        None \<Rightarrow> (d, Inr \<lparr>ecs_status = ''invalid'', ecs_email = None, ecs_expires_at = None\<rparr>)
      | Some c \<Rightarrow>
          if ec_confirmed_at c \<noteq> None
          then (d, Inr \<lparr>ecs_status = ''already_confirmed'', ecs_email = Some (ec_email c), ecs_expires_at = None\<rparr>)
          else if ec_expires_at c \<le> checked_at \<or> ec_superseded_at c \<noteq> None
          then (d, Inr \<lparr>ecs_status = ''expired'', ecs_email = Some (ec_email c), ecs_expires_at = None\<rparr>)
          else account_commit d
                 (put_user (ec_user_id c) (\<lambda>u. u\<lparr>u_email_confirmed_at := Some now\<rparr>)
                   (d\<lparr>email_confirmations := update_where (\<lambda>r. ec_id r = ec_id c) (\<lambda>r. r\<lparr>ec_confirmed_at := Some now\<rparr>) (email_confirmations d)\<rparr>))
                 \<lparr>ecs_status = ''confirmed'', ecs_email = Some (ec_email c), ecs_expires_at = None\<rparr>)"

definition who_is_asking ::
  "account_env \<Rightarrow> request_facts option \<Rightarrow> account_db \<Rightarrow> auth_principal option \<Rightarrow> string option \<Rightarrow> http_error + user_row" where
  "who_is_asking env request d p payload_token =
     (case p of
        Some pr \<Rightarrow> actor_user request (acc_db d) pr
      | None \<Rightarrow>
          (let token = present payload_token;
               confirmation = (if token \<noteq> [] then get_by ec_token_digest (ace_sha256 env token) (email_confirmations d) else None);
               user = (case confirmation of None \<Rightarrow> None | Some c \<Rightarrow> get_by u_id (ec_user_id c) (users (acc_db d))) in
           case user of
             None \<Rightarrow> Inl (HTTPException 401 ''confirmation_credential_required'')
           | Some u \<Rightarrow> Inr u))"

definition last_sent :: "account_db \<Rightarrow> uuid \<Rightarrow> datetime option" where
  "last_sent d i = (let sent = map ec_created_at (filter (\<lambda>c. ec_user_id c = i) (email_confirmations d)) in
     if sent = [] then None else Some (Max (set sent)))"

text \<open>The mail client is looked up after the commit: without one the answer is a 503 although the new link is stored.\<close>

definition deliver_confirmation ::
  "bool \<Rightarrow> string \<Rightarrow> string \<Rightarrow> email_confirmation_row \<Rightarrow> account_db \<times> (account_fault + unit)
     \<Rightarrow> account_db \<times> (account_fault + email_confirmation_state)" where
  "deliver_confirmation has_mailer to_address token c committed =
     (case committed of
        (d, Inl e) \<Rightarrow> (d, Inl e)
      | (d, Inr _) \<Rightarrow>
          if has_mailer then (send_confirmation to_address token d, Inr (pending_state c))
          else (d, Inl (refuse 503 ''Email delivery is unavailable'')))"

definition resend_confirmation ::
  "account_env \<Rightarrow> bool \<Rightarrow> request_facts option \<Rightarrow> account_db \<Rightarrow> auth_principal option \<Rightarrow> string option
     \<Rightarrow> datetime \<Rightarrow> datetime \<Rightarrow> uuid \<Rightarrow> string \<Rightarrow> account_db \<times> (account_fault + email_confirmation_state)" where
  "resend_confirmation env has_mailer request d p payload_token now created new_id token =
     (case who_is_asking env request d p payload_token of
        Inl e \<Rightarrow> (d, Inl (Refused e))
      | Inr user \<Rightarrow>
          if u_email_confirmed_at user \<noteq> None
          then (d, Inr \<lparr>ecs_status = ''already_confirmed'', ecs_email = Some (email_str user), ecs_expires_at = None\<rparr>)
          else
            (let waiting = (case last_sent d (u_id user) of
                   None \<Rightarrow> None
                 | Some t \<Rightarrow> if now - t < RESEND_INTERVAL then Some ((RESEND_INTERVAL - (now - t)) div microseconds_per_second) else None) in
             case waiting of
               Some wait \<Rightarrow> (d, Inl (RecentlySent wait))
             | None \<Rightarrow>
                 (let (d', c) = issue_confirmation env d user now created new_id token in
                  deliver_confirmation has_mailer (email_str user) token c (account_commit d d' ()))))"

definition change_email_before_confirmation ::
  "account_env \<Rightarrow> bool \<Rightarrow> request_facts option \<Rightarrow> account_db \<Rightarrow> auth_principal \<Rightarrow> string
     \<Rightarrow> datetime \<Rightarrow> datetime \<Rightarrow> uuid \<Rightarrow> string \<Rightarrow> account_db \<times> (account_fault + email_confirmation_state)" where
  "change_email_before_confirmation env has_mailer request d p email now created new_id token =
     (case actor_user request (acc_db d) p of
        Inl e \<Rightarrow> (d, Inl (Refused e))
      | Inr user \<Rightarrow>
          if u_email_confirmed_at user \<noteq> None then (d, Inl (refuse 409 ''email_already_confirmed''))
          else
            (let wanted = py_casefold email in
             if exists_where (\<lambda>u. map_option sql_lower (u_email u) = Some wanted \<and> u_id u \<noteq> u_id user) (users (acc_db d))
             then (d, Inl (refuse 409 ''email_already_in_use''))
             else
               (let (d', c) = issue_confirmation env (put_user (u_id user) (\<lambda>u. u\<lparr>u_email := Some wanted\<rparr>) d)
                       (user\<lparr>u_email := Some wanted\<rparr>) now created new_id token in
                deliver_confirmation has_mailer wanted token c (account_commit d d' ()))))"

subsection \<open>Joining with a class code and a PIN\<close>

definition find_school_by_code :: "db \<Rightarrow> string \<Rightarrow> school_row option" where
  "find_school_by_code d code = List.find (\<lambda>s. sql_lower (sch_school_code s) = py_casefold code) (schools d)"

definition ONBOARDING_LIFETIME :: timedelta where
  "ONBOARDING_LIFETIME = td_minutes 20"

definition class_for_code :: "db \<Rightarrow> string option \<Rightarrow> uuid option \<Rightarrow> string option \<Rightarrow> class_row option" where
  "class_for_code d class_code class_id school_code =
     List.find (\<lambda>c. cl_archived_at c = None \<and>
        (if present class_code \<noteq> [] then map_option sql_lower (cl_class_code c) = Some (py_casefold (present class_code))
         else Some (cl_id c) = class_id \<and>
           exists_where (\<lambda>s. sch_id s = cl_school_id c \<and> sql_lower (sch_school_code s) = py_casefold (present school_code)) (schools d)))
       (classes d)"

text \<open>\<^verbatim>\<open>connect_by_class_code\<close>: the answer is the class, and the onboarding token when nobody is signed in.\<close>

definition connect_by_class_code ::
  "account_env \<Rightarrow> request_facts option \<Rightarrow> account_db \<Rightarrow> auth_principal option \<Rightarrow> string option \<Rightarrow> uuid option \<Rightarrow> string option
     \<Rightarrow> datetime \<Rightarrow> uuid \<Rightarrow> string \<Rightarrow> account_db \<times> (account_fault + uuid \<times> string option)" where
  "connect_by_class_code env request d p class_code class_id school_code now new_id token =
     (case class_for_code (acc_db d) class_code class_id school_code of
        None \<Rightarrow> (d, Inl (refuse 404 ''Class code not found''))
      | Some c \<Rightarrow>
          (case get_by sch_id (cl_school_id c) (schools (acc_db d)) of
             None \<Rightarrow> (d, Inl (refuse 404 ''School not found''))
           | Some school \<Rightarrow>
               (case p of
                  None \<Rightarrow>
                    account_commit d (d\<lparr>onboarding_grants := onboarding_grants d @
                      [\<lparr>og_id = new_id, og_school_id = sch_id school, og_class_id = cl_id c, og_token_digest = ace_sha256 env token,
                        og_expires_at = now + ONBOARDING_LIFETIME, og_used_at = None\<rparr>]\<rparr>) (cl_id c, Some token)
                | Some pr \<Rightarrow>
                    (case actor_user request (acc_db d) pr of
                       Inl e \<Rightarrow> (d, Inl (Refused e))
                     | Inr student \<Rightarrow>
                         if u_role student \<noteq> UR_STUDENT then (d, Inl (refuse 403 ''Student account required''))
                         else if Some (cl_school_id c) \<noteq> u_school_id student then (d, Inl (refuse 404 ''Class code not found''))
                         else
                           (let known = exists_where (\<lambda>e. en_student_id e = u_id student \<and> en_class_id e = cl_id c) (enrollments (acc_db d));
                                row = \<lparr>en_id = new_id, en_student_id = u_id student, en_class_id = cl_id c\<rparr> in
                            account_commit d
                              (if known then d else d\<lparr>acc_db := (acc_db d)\<lparr>enrollments := enrollments (acc_db d) @ [row]\<rparr>\<rparr>)
                              (cl_id c, None))))))"

definition PIN_CHANGE_MAX_ATTEMPTS :: nat where
  "PIN_CHANGE_MAX_ATTEMPTS = 5"

definition PIN_CHANGE_WINDOW :: timedelta where
  "PIN_CHANGE_WINDOW = td_minutes 15"

definition pin_change_digest :: "account_env \<Rightarrow> string \<Rightarrow> string \<Rightarrow> string" where
  "pin_change_digest env prefix v = ace_sha256 env (''pin-change:'' @ prefix @ '':'' @ v)"

text \<open>\<^verbatim>\<open>_pin_change_pause\<close> and the test of its two uses: when the pause applies, until when.\<close>

definition pin_change_failures :: "db \<Rightarrow> string \<Rightarrow> string \<Rightarrow> datetime \<Rightarrow> login_attempt_row list" where
  "pin_change_failures d identity_digest ip_digest now =
     filter (\<lambda>a. \<not> la_succeeded a \<and> now - PIN_CHANGE_WINDOW \<le> la_occurred_at a \<and>
       (la_identity_digest a = identity_digest \<or> la_ip_digest a = ip_digest)) (login_attempts d)"

definition pin_change_pause :: "db \<Rightarrow> string \<Rightarrow> string \<Rightarrow> datetime \<Rightarrow> datetime option" where
  "pin_change_pause d identity_digest ip_digest now =
     (let failures = pin_change_failures d identity_digest ip_digest now in
      if PIN_CHANGE_MAX_ATTEMPTS \<le> length failures \<and> failures \<noteq> []
      then Some (Min (set (map la_occurred_at failures)) + PIN_CHANGE_WINDOW) else None)"

record pin_payload =
  pp_pin :: string
  pp_current_pin :: "string option"
  pp_onboarding_token :: "string option"
  pp_first_name :: "string option"
  pp_last_name :: "string option"
  pp_age :: "int option"

text \<open>The three clock readings of the signed-in branch: the first count, the attempt and the second count.\<close>

definition change_own_pin ::
  "account_env \<Rightarrow> account_db \<Rightarrow> user_row \<Rightarrow> string \<Rightarrow> pin_payload \<Rightarrow> datetime \<Rightarrow> datetime \<Rightarrow> datetime \<Rightarrow> account_db \<times> (account_fault + pin_update)" where
  "change_own_pin env d user client_ip payload t1 now t2 =
     (let identity_digest = pin_change_digest env ''student'' (uuid_str (u_id user));
          ip_digest = pin_change_digest env ''ip'' client_ip in
      case pin_change_pause (acc_db d) identity_digest ip_digest t1 of
        Some retry_at \<Rightarrow> (d, Inl (PinChangeThrottled retry_at))
      | None \<Rightarrow>
          if u_pin_hash user \<noteq> None \<and> \<not> verify_pin (ace_auth env) (u_pin_hash user) (present (pp_current_pin payload))
          then
            (case account_commit d (d\<lparr>acc_db := record_attempt (acc_db d) identity_digest ip_digest False now\<rparr>) () of
               (d', Inl e) \<Rightarrow> (d', Inl e)
             | (d', Inr _) \<Rightarrow>
                 (case pin_change_pause (acc_db d') identity_digest ip_digest t2 of
                    Some retry_at \<Rightarrow> (d', Inl (PinChangeThrottled retry_at))
                  | None \<Rightarrow> (d', Inl (refuse 403 ''current_pin_required''))))
          else
            (let d1 = put_user (u_id user) (\<lambda>u. u\<lparr>u_pin_hash := Some (hash_pin env (pp_pin payload)), u_auth_method := AM_PIN\<rparr>) d;
                 d2 = d1\<lparr>acc_db := (acc_db d1)\<lparr>login_attempts :=
                        delete_where (\<lambda>a. la_identity_digest a = identity_digest) (login_attempts (acc_db d1))\<rparr>\<rparr> in
             account_commit d d2 \<lparr>pu_status = ''updated'', pu_user_id = u_id user, pu_login_identifier = u_login_identifier user, pu_session = None\<rparr>))"

definition onboarded_student :: "account_env \<Rightarrow> db \<Rightarrow> onboarding_grant_row \<Rightarrow> pin_payload \<Rightarrow> datetime \<Rightarrow> string \<Rightarrow> uuid \<Rightarrow> user_row" where
  "onboarded_student env d grant payload now token_hex new_id =
     (new_user new_id (Some (og_school_id grant)) UR_STUDENT AM_PIN)
       \<lparr>u_first_name := Some (py_strip (present (pp_first_name payload))),
        u_last_name := (if present (pp_last_name payload) = [] then None else Some (py_strip (present (pp_last_name payload)))),
        u_login_identifier := Some (''NV-'' @ py_upper token_hex),
        u_age_band := map_option age_band_value (band_for_age (pp_age payload)),
        u_pin_hash := Some (hash_pin env (pp_pin payload)),
        u_status := (if covered_by_a_current_invoice d (og_school_id grant) now then US_ACTIVE else US_INVITED)\<rparr>"

definition redeem_onboarding_grant ::
  "account_env \<Rightarrow> (uuid \<Rightarrow> string) \<Rightarrow> account_db \<Rightarrow> pin_payload \<Rightarrow> datetime \<Rightarrow> datetime \<Rightarrow> string \<Rightarrow> uuid \<Rightarrow> uuid \<Rightarrow> string \<Rightarrow> uuid
     \<Rightarrow> account_db \<times> (account_fault + pin_update)" where
  "redeem_onboarding_grant env show_id d payload t1 now token_hex new_id enrollment_id token session_id =
     (if present (pp_onboarding_token payload) = [] \<or> present (pp_first_name payload) = []
      then (d, Inl (refuse 422 ''onboardingToken and firstName are required before sign-in''))
      else case List.find (\<lambda>g. og_token_digest g = ace_sha256 env (present (pp_onboarding_token payload)) \<and>
                  og_used_at g = None \<and> t1 < og_expires_at g) (onboarding_grants d) of
        None \<Rightarrow> (d, Inl (refuse 404 ''Onboarding session is invalid or expired''))
      | Some grant \<Rightarrow>
          (let user = onboarded_student env (acc_db d) grant payload now token_hex new_id;
               d1 = d\<lparr>acc_db := (acc_db d)\<lparr>users := users (acc_db d) @ [user],
                        enrollments := enrollments (acc_db d) @ [\<lparr>en_id = enrollment_id, en_student_id = new_id, en_class_id = og_class_id grant\<rparr>]\<rparr>,
                      onboarding_grants := update_where (\<lambda>g. og_id g = og_id grant) (\<lambda>g. g\<lparr>og_used_at := Some now\<rparr>) (onboarding_grants d)\<rparr> in
           case account_commit d d1 () of
             (d2, Inl e) \<Rightarrow> (d2, Inl e)
           | (d2, Inr _) \<Rightarrow>
               (case issue_for_provisioned_user (ace_auth env) show_id (acc_db d2) new_id now token session_id of
                  (db', Inl e) \<Rightarrow> (d2\<lparr>acc_db := db'\<rparr>, Inl (SignInFault e))
                | (db', Inr issued) \<Rightarrow>
                    (d2\<lparr>acc_db := db'\<rparr>, Inr \<lparr>pu_status = ''created'', pu_user_id = new_id,
                       pu_login_identifier = u_login_identifier user, pu_session = Some issued\<rparr>))))"

definition set_pin ::
  "account_env \<Rightarrow> (uuid \<Rightarrow> string) \<Rightarrow> request_facts option \<Rightarrow> account_db \<Rightarrow> auth_principal option \<Rightarrow> string \<Rightarrow> pin_payload
     \<Rightarrow> datetime \<Rightarrow> datetime \<Rightarrow> datetime \<Rightarrow> string \<Rightarrow> uuid \<Rightarrow> uuid \<Rightarrow> string \<Rightarrow> uuid \<Rightarrow> account_db \<times> (account_fault + pin_update)" where
  "set_pin env show_id request d p client_ip payload t1 now t2 token_hex new_id enrollment_id token session_id =
     (case p of
        Some pr \<Rightarrow>
          (case actor_user request (acc_db d) pr of
             Inl e \<Rightarrow> (d, Inl (Refused e))
           | Inr user \<Rightarrow>
               if u_role user \<noteq> UR_STUDENT then (d, Inl (refuse 403 ''PIN is for student accounts''))
               else change_own_pin env d user client_ip payload t1 now t2)
      | None \<Rightarrow> redeem_onboarding_grant env show_id d payload t1 now token_hex new_id enrollment_id token session_id)"

definition pin_notice :: "user_row \<Rightarrow> string \<Rightarrow> string \<Rightarrow> datetime \<Rightarrow> uuid \<Rightarrow> notification_row" where
  "pin_notice student role link created recipient =
     \<lparr>n_recipient_id = recipient, n_recipient_role = role, n_type = ''pin_reset_requested'', n_title = ''Student needs a new PIN'',
      n_description = (if present (u_first_name student) = [] then ''A student'' else present (u_first_name student)) @ '' requested help signing in.'',
      n_navigates_to = Some link, n_read = False, n_category = ''account'', n_archived_at = None, n_created_at = created\<rparr>"

text \<open>The teachers of the student's classes, each once, with the first of their classes.\<close>

fun first_of_each :: "uuid list \<Rightarrow> (uuid \<times> uuid) list \<Rightarrow> (uuid \<times> uuid) list" where
  "first_of_each notified [] = []"
| "first_of_each notified ((teacher, c) # rest) =
     (if teacher \<in> set notified then first_of_each notified rest else (teacher, c) # first_of_each (teacher # notified) rest)"

definition teachers_of_student :: "db \<Rightarrow> uuid \<Rightarrow> (uuid \<times> uuid) list" where
  "teachers_of_student d student_id =
     first_of_each [] (sort_key snd (concat (map (\<lambda>a.
       map (\<lambda>e. (tca_teacher_id a, tca_class_id a))
         (filter (\<lambda>e. en_class_id e = tca_class_id a \<and> en_student_id e = student_id \<and> tca_removed_at a = None \<and>
            exists_where (\<lambda>u. u_id u = tca_teacher_id a \<and> u_status u = US_ACTIVE) (users d)) (enrollments d))) (teacher_class_assignments d))))"

definition request_pin_reset ::
  "account_db \<Rightarrow> string \<Rightarrow> string \<Rightarrow> datetime \<Rightarrow> account_db \<times> (account_fault + unit)" where
  "request_pin_reset d school_code login_identifier created =
     (let ident = py_casefold login_identifier in
      case find_school_by_code (acc_db d) school_code of
        None \<Rightarrow> (d, Inr ())
      | Some school \<Rightarrow>
          (case List.find (\<lambda>u. u_school_id u = Some (sch_id school) \<and> u_role u = UR_STUDENT \<and>
                  (map_option sql_lower (u_login_identifier u) = Some ident \<or> map_option sql_lower (u_admission_number u) = Some ident))
                  (users (acc_db d)) of
             None \<Rightarrow> (d, Inr ())
           | Some student \<Rightarrow>
               (let staff = filter (\<lambda>u. u_school_id u = Some (sch_id school) \<and> u_role u \<in> {UR_SENCO_ADMIN, UR_OTHER_ADMIN} \<and>
                      u_status u = US_ACTIVE) (users (acc_db d));
                    to_staff = map (\<lambda>u. pin_notice student (user_role_value (u_role u)) (''/admin/students/'' @ uuid_str (u_id student)) created (u_id u)) staff;
                    to_teachers = map (\<lambda>(teacher, c). pin_notice student (user_role_value UR_TEACHER)
                      (''/teacher/students/'' @ uuid_str (u_id student) @ ''/clear-pin?class='' @ uuid_str c) created teacher)
                      (teachers_of_student (acc_db d) (u_id student)) in
                account_commit d (d\<lparr>acc_db := (acc_db d)\<lparr>notifications := notifications (acc_db d) @ to_staff @ to_teachers\<rparr>\<rparr>) ())))"

subsection \<open>Passwords and sessions\<close>

definition RESET_LIFETIME :: timedelta where
  "RESET_LIFETIME = td_hours 1"

definition request_password_reset ::
  "account_env \<Rightarrow> bool \<Rightarrow> bool \<Rightarrow> account_db \<Rightarrow> string \<Rightarrow> datetime \<Rightarrow> uuid \<Rightarrow> string \<Rightarrow> account_db \<times> (account_fault + unit)" where
  "request_password_reset env configured delivered d email now new_id token =
     (if \<not> configured then (d, Inl (refuse 503 ''Password reset email is unavailable''))
      else case List.find (\<lambda>u. map_option sql_lower (u_email u) = Some (map char_lower email)) (users (acc_db d)) of
        None \<Rightarrow> (d, Inr ())
      | Some user \<Rightarrow>
          (case account_commit d (d\<lparr>password_reset_tokens := password_reset_tokens d @
                  [\<lparr>prt_id = new_id, prt_user_id = u_id user, prt_token_digest = ace_sha256 env token,
                    prt_expires_at = now + RESET_LIFETIME, prt_used_at = None\<rparr>]\<rparr>) () of
             (d', Inl e) \<Rightarrow> (d', Inl e)
           | (d', Inr _) \<Rightarrow> (d', if delivered then Inr () else Inl (refuse 503 ''Password reset email is unavailable''))))"

definition complete_password_reset ::
  "account_env \<Rightarrow> account_db \<Rightarrow> string \<Rightarrow> string \<Rightarrow> datetime \<Rightarrow> account_db \<times> (account_fault + unit)" where
  "complete_password_reset env d token password now =
     (case List.find (\<lambda>r. prt_token_digest r = ace_sha256 env token \<and> prt_used_at r = None \<and> now < prt_expires_at r) (password_reset_tokens d) of
        None \<Rightarrow> (d, Inl (refuse 400 ''Reset link is invalid or expired''))
      | Some record \<Rightarrow>
          (case get_by u_id (prt_user_id record) (users (acc_db d)) of
             None \<Rightarrow> (d, Inl (refuse 400 ''Reset link is invalid or expired''))
           | Some user \<Rightarrow>
               (let d1 = put_user (u_id user) (\<lambda>u. u\<lparr>u_password_hash := Some (hash_password env password), u_auth_method := AM_EMAIL_PASSWORD\<rparr>) d;
                    d2 = d1\<lparr>password_reset_tokens := update_where (\<lambda>r. prt_id r = prt_id record) (\<lambda>r. r\<lparr>prt_used_at := Some now\<rparr>) (password_reset_tokens d1)\<rparr> in
                account_commit d (revoke_sessions (\<lambda>r. as_user_id r = u_id user) ''password_reset'' now d2) ())))"

text \<open>A row of the list of sessions, and whether it is the caller's and still active.\<close>

definition list_auth_sessions :: "account_db \<Rightarrow> auth_principal \<Rightarrow> datetime \<Rightarrow> (auth_session_row \<times> bool \<times> bool) list" where
  "list_auth_sessions d p now =
     map (\<lambda>r. (r, as_id r = ap_session_id p, as_revoked_at r = None \<and> now < as_expires_at r))
       (sort_key (\<lambda>r. - as_created_at r) (filter (\<lambda>r. as_user_id r = ap_user_id p) (auth_sessions (acc_db d))))"

definition revoke_other_auth_sessions :: "account_db \<Rightarrow> auth_principal \<Rightarrow> datetime \<Rightarrow> account_db \<times> (account_fault + unit)" where
  "revoke_other_auth_sessions d p now =
     account_commit d (revoke_sessions (\<lambda>r. as_user_id r = ap_user_id p \<and> as_id r \<noteq> ap_session_id p) ''user_revoked'' now d) ()"

definition revoke_auth_session :: "account_db \<Rightarrow> auth_principal \<Rightarrow> uuid \<Rightarrow> datetime \<Rightarrow> account_db \<times> (account_fault + unit)" where
  "revoke_auth_session d p session_id now =
     (case get_by as_id session_id (auth_sessions (acc_db d)) of
        None \<Rightarrow> (d, Inl (refuse 404 ''Session not found''))
      | Some r \<Rightarrow>
          if as_user_id r \<noteq> ap_user_id p then (d, Inl (refuse 404 ''Session not found''))
          else if as_revoked_at r = None then account_commit d (revoke_sessions (\<lambda>r. as_id r = session_id) ''user_revoked'' now d) ()
          else (d, Inr ()))"

definition change_password ::
  "account_env \<Rightarrow> request_facts option \<Rightarrow> account_db \<Rightarrow> auth_principal \<Rightarrow> string \<Rightarrow> string \<Rightarrow> bool \<Rightarrow> datetime \<Rightarrow> account_db \<times> (account_fault + unit)" where
  "change_password env request d p current_password new_password end_other_sessions now =
     (case actor_user request (acc_db d) p of
        Inl e \<Rightarrow> (d, Inl (Refused e))
      | Inr user \<Rightarrow>
          if \<not> verify_password (ace_auth env) (u_password_hash user) current_password
          then (d, Inl (refuse 401 ''current_password_incorrect''))
          else
            (let d1 = put_user (u_id user) (\<lambda>u. u\<lparr>u_password_hash := Some (hash_password env new_password)\<rparr>) d in
             account_commit d
               (if end_other_sessions
                then revoke_sessions (\<lambda>r. as_user_id r = u_id user \<and> as_id r \<noteq> ap_session_id p) ''password_change'' now d1 else d1) ()))"

subsection \<open>Registering a school\<close>

definition SCHOOL_CODE_ALPHABET :: string where
  "SCHOOL_CODE_ALPHABET = ''23456789ABCDEFGHJKLMNPQRSTUVWXYZ''"

definition SCHOOL_CODE_LENGTH :: nat where
  "SCHOOL_CODE_LENGTH = 4"

text \<open>\<^verbatim>\<open>secrets.choice\<close>: the position it picks is an argument, one for each character.\<close>

definition new_school_code :: "nat list \<Rightarrow> string" where
  "new_school_code picks = map (\<lambda>k. SCHOOL_CODE_ALPHABET ! (k mod length SCHOOL_CODE_ALPHABET)) (take SCHOOL_CODE_LENGTH picks)"

definition is_school_code :: "string \<Rightarrow> bool" where
  "is_school_code v = (let folded = py_upper (py_strip v) in
     length folded = SCHOOL_CODE_LENGTH \<and> list_all (\<lambda>c. c \<in> set SCHOOL_CODE_ALPHABET) folded)"

definition normalise_school_code :: "string \<Rightarrow> string" where
  "normalise_school_code v = py_upper (py_strip v)"

definition must_not_be_blank :: "string \<Rightarrow> string option" where
  "must_not_be_blank v = (let stripped = py_strip v in if length stripped < 2 then None else Some stripped)"

text \<open>\<^verbatim>\<open>split(maxsplit=1)\<close>: the first word, and what follows it when something does.\<close>

definition split_once :: "string \<Rightarrow> string \<times> string option" where
  "split_once v =
     (let v' = dropWhile py_isspace v; rest = dropWhile py_isspace (dropWhile (\<lambda>c. \<not> py_isspace c) v') in
      (takeWhile (\<lambda>c. \<not> py_isspace c) v', if rest = [] then None else Some rest))"

definition url_slug :: "string \<Rightarrow> string \<Rightarrow> string" where
  "url_slug school_name token_hex =
     (let base = take 80 (py_join ''-'' (py_split (py_casefold school_name))) in
      (if base = [] then ''school'' else base) @ ''-'' @ token_hex)"

text \<open>A \<^verbatim>\<open>School(...)\<close> built with the column defaults of the model.\<close>

definition new_school :: "uuid \<Rightarrow> string \<Rightarrow> string \<Rightarrow> string \<Rightarrow> auth_method \<Rightarrow> school_row" where
  "new_school i name code slug method = \<lparr>sch_id = i, sch_name = name, sch_school_code = code, sch_school_url_slug = slug,
     sch_auth_method = method, sch_enrollment_band = None, sch_is_founding_partner = False, sch_price_lock_expiry = None,
     sch_data_retention_days = 180, sch_admin_seat_limit = 5, sch_profile = JObject [], sch_academic_config = JObject [],
     sch_retention_policy = ''contract'', sch_subscription_tier = None, sch_payment_source = PS_DIRECT, sch_contract_value = None,
     sch_pricing_plan = PP_ANNUAL, sch_per_student_rate = None, sch_contract_start = None, sch_contract_end = None,
     sch_billing_contact_id = None\<rparr>"

definition all_permission_scopes :: "permission_scope list" where
  "all_permission_scopes = [SCOPE_BILLING, SCOPE_ROSTER, SCOPE_CURRICULUM, SCOPE_SENCO, SCOPE_IT_SSO, SCOPE_OVERSIGHT, SCOPE_TEACHER]"

record registration =
  rg_school_name :: string
  rg_admin_name :: string
  rg_email :: string
  rg_password :: string

record registration_ids =
  ri_school_id :: uuid
  ri_user_id :: uuid
  ri_admin_id :: uuid
  ri_grant_id :: uuid
  ri_confirmation_id :: uuid
  ri_code_picks :: "nat list"
  ri_slug_hex :: string
  ri_token :: string

definition registered_admin :: "account_env \<Rightarrow> registration \<Rightarrow> string \<Rightarrow> registration_ids \<Rightarrow> user_row" where
  "registered_admin env payload admin_name ids =
     (new_user (ri_user_id ids) (Some (ri_school_id ids)) UR_OTHER_ADMIN AM_EMAIL_PASSWORD)
       \<lparr>u_first_name := Some (fst (split_once admin_name)), u_last_name := snd (split_once admin_name),
        u_email := Some (py_casefold (rg_email payload)), u_password_hash := Some (hash_password env (rg_password payload))\<rparr>"

definition registered_rows :: "account_env \<Rightarrow> registration \<Rightarrow> string \<Rightarrow> string \<Rightarrow> registration_ids \<Rightarrow> datetime \<Rightarrow> db \<Rightarrow> db" where
  "registered_rows env payload school_name admin_name ids created d =
     d\<lparr>schools := schools d @ [new_school (ri_school_id ids) school_name (new_school_code (ri_code_picks ids))
          (url_slug school_name (ri_slug_hex ids)) AM_EMAIL_PASSWORD],
       users := users d @ [registered_admin env payload admin_name ids],
       notifications := notifications d @ [\<lparr>n_recipient_id = ri_user_id ids, n_recipient_role = user_role_value UR_OTHER_ADMIN,
          n_type = notification_type_value NT_ADMIN_WELCOME, n_title = ''Your school workspace is ready'',
          n_description = ''You can now add your team, classes, and learners.'', n_navigates_to = Some ''/admin/overview'',
          n_read = False, n_category = ''account'', n_archived_at = None, n_created_at = created\<rparr>],
       admins := admins d @ [\<lparr>ad_id = ri_admin_id ids, ad_user_id = ri_user_id ids, ad_school_id = ri_school_id ids,
          ad_created_by_user_id = None, ad_access_level = AL_SENIOR, ad_senior_promoted_by = None,
          ad_senior_promoted_by_name = None, ad_senior_promoted_at = None\<rparr>],
       scope_assignments := scope_assignments d @ map (\<lambda>scope. \<lparr>sa_admin_id = ri_admin_id ids, sa_scope = scope,
          sa_granted_by_user_id = Some (ri_user_id ids), sa_granted_at = created, sa_revoked_at = None\<rparr>) all_permission_scopes,
       learning_support_grants := learning_support_grants d @ [\<lparr>lg_id = ri_grant_id ids, lg_school_id = ri_school_id ids,
          lg_holder_user_id = ri_user_id ids, lg_granted_by_user_id = ri_user_id ids, lg_granted_at = created, lg_revoked_at = None,
          lg_revoked_by_user_id = None, lg_handed_over = False\<rparr>]\<rparr>"

text \<open>
  \<^verbatim>\<open>register_school\<close>: the school and its first administrator are one transaction, the confirmation link a second.  The message is sent
  by a background task, which does nothing without a mail client.  An integrity error of the first commit is the same 409.
\<close>

definition register_school ::
  "account_env \<Rightarrow> bool \<Rightarrow> account_db \<Rightarrow> registration \<Rightarrow> registration_ids \<Rightarrow> datetime \<Rightarrow> datetime \<Rightarrow> account_db \<times> (account_fault + string)" where
  "register_school env has_mailer d payload ids now created =
     (case (must_not_be_blank (rg_school_name payload), must_not_be_blank (rg_admin_name payload)) of
        (Some school_name, Some admin_name) \<Rightarrow>
          if exists_where (\<lambda>u. map_option sql_lower (u_email u) = Some (py_casefold (rg_email payload))) (users (acc_db d))
          then (d, Inl (refuse 409 ''Email already belongs to an account''))
          else
            (let d1 = d\<lparr>acc_db := registered_rows env payload school_name admin_name ids created (acc_db d)\<rparr> in
             case account_commit d d1 () of
               (d', Inl _) \<Rightarrow> (d', Inl (refuse 409 ''Email already belongs to an account''))
             | (d', Inr _) \<Rightarrow>
                 (let user = registered_admin env payload admin_name ids;
                      (d2, c) = issue_confirmation env d' user now created (ri_confirmation_id ids) (ri_token ids) in
                  case account_commit d' d2 () of
                    (d3, Inl e) \<Rightarrow> (d3, Inl e)
                  | (d3, Inr _) \<Rightarrow>
                      (if has_mailer then send_confirmation (email_str user) (ri_token ids) d3 else d3,
                       Inr (new_school_code (ri_code_picks ids)))))
      | _ \<Rightarrow> (d, Inl (refuse 422 ''must contain at least two non-blank characters'')))"

subsection \<open>Sign-in tiles of a shared device\<close>

definition SHARED_DEVICE_SHAPES :: "string list" where
  "SHARED_DEVICE_SHAPES = [''circle'', ''triangle'', ''diamond'', ''square'', ''hexagon'', ''star'']"

definition SHARED_DEVICE_COLOURWAYS :: "string list" where
  "SHARED_DEVICE_COLOURWAYS = [''navy'', ''near_black'', ''cream_elevated'']"

definition SHARED_DEVICE_AVATARS :: "(string \<times> string) list" where
  "SHARED_DEVICE_AVATARS = concat (map (\<lambda>shape. map (\<lambda>colourway. (shape, colourway)) SHARED_DEVICE_COLOURWAYS) SHARED_DEVICE_SHAPES)"

definition avatar_of :: "user_row \<Rightarrow> (string \<times> string) option" where
  "avatar_of u = (if present (u_avatar_shape u) = [] \<or> present (u_avatar_colourway u) = [] then None
     else Some (present (u_avatar_shape u), present (u_avatar_colourway u)))"

text \<open>The loop over the requested children: an avatar for a child who has none, a tile for a child not on the device yet.\<close>

fun place_tiles ::
  "uuid \<Rightarrow> uuid \<Rightarrow> uuid \<Rightarrow> uuid list \<Rightarrow> (string \<times> string) list \<Rightarrow> uuid list \<Rightarrow> account_db \<Rightarrow> account_fault + account_db" where
  "place_tiles device school actor retained unclaimed [] d = Inr d"
| "place_tiles device school actor retained unclaimed (i # ids) d =
     (case get_by u_id i (users (acc_db d)) of
        None \<Rightarrow> place_tiles device school actor retained unclaimed ids d
      | Some student \<Rightarrow>
          (let tile = (\<lambda>avatar. \<lparr>sdp_device_id = device, sdp_school_id = school, sdp_student_id = i, sdp_avatar_shape = fst avatar,
                 sdp_avatar_colourway = snd avatar, sdp_provisioned_by_user_id = actor\<rparr>);
               add = (\<lambda>avatar d. if i \<in> set retained then d else d\<lparr>shared_device_profiles := shared_device_profiles d @ [tile avatar]\<rparr>) in
           case (avatar_of student, unclaimed) of
             (Some avatar, _) \<Rightarrow> place_tiles device school actor (i # retained) unclaimed ids (add avatar d)
           | (None, []) \<Rightarrow> Inl StopIteration
           | (None, avatar # unclaimed') \<Rightarrow>
               place_tiles device school actor (i # retained) unclaimed' ids
                 (add avatar (put_user i (\<lambda>u. u\<lparr>u_avatar_shape := Some (fst avatar), u_avatar_colourway := Some (snd avatar)\<rparr>) d))))"

definition tile_students :: "db \<Rightarrow> uuid option \<Rightarrow> uuid list \<Rightarrow> user_row list" where
  "tile_students d school ids =
     filter (\<lambda>u. u_id u \<in> set ids \<and> u_school_id u = school \<and> u_role u = UR_STUDENT \<and> u_status u = US_ACTIVE) (users d)"

definition provision_shared_device_profiles ::
  "request_facts option \<Rightarrow> account_db \<Rightarrow> auth_principal \<Rightarrow> uuid \<Rightarrow> uuid list \<Rightarrow> account_db \<times> (account_fault + unit)" where
  "provision_shared_device_profiles request d p device_id student_ids =
     (if student_ids = [] \<or> 6 < length student_ids \<or> \<not> distinct student_ids then (d, Inl (refuse 422 ''studentIds''))
      else case require_school_actor request (acc_db d) p [''teacher'', ''senco_admin'', ''other_admin''] of
        Inl e \<Rightarrow> (d, Inl (Refused e))
      | Inr actor \<Rightarrow>
          (let school = the (u_school_id actor); students = tile_students (acc_db d) (u_school_id actor) student_ids in
           if set (map u_id students) \<noteq> set student_ids then (d, Inl (refuse 404 ''One or more students were not found''))
           else if list_ex (\<lambda>u. u_login_identifier u = None) students
           then (d, Inl (refuse 409 ''Every device profile needs a login identifier''))
           else if exists_where (\<lambda>r. sdp_device_id r = device_id \<and> sdp_school_id r \<noteq> school) (shared_device_profiles d)
           then (d, Inl (refuse 404 ''Shared device not found''))
           else
             (let here = (\<lambda>r. sdp_device_id r = device_id \<and> sdp_school_id r = school);
                  existing = filter here (shared_device_profiles d);
                  d1 = d\<lparr>shared_device_profiles := delete_where (\<lambda>r. here r \<and> sdp_student_id r \<notin> set student_ids) (shared_device_profiles d)\<rparr>;
                  retained = filter (\<lambda>i. i \<in> set student_ids) (map sdp_student_id existing);
                  taken = List.map_filter avatar_of (filter (\<lambda>u. u_id u \<in> set student_ids) (users (acc_db d)));
                  unclaimed = filter (\<lambda>combo. combo \<notin> set taken) SHARED_DEVICE_AVATARS in
              case place_tiles device_id school (u_id actor) retained unclaimed student_ids d1 of
                Inl e \<Rightarrow> (d, Inl e)
              | Inr d2 \<Rightarrow> account_commit d d2 ())))"

subsection \<open>Requests\<close>

text \<open>One request of these routes, or one call of the sign-in service.\<close>

inductive account_step :: "account_env \<Rightarrow> (uuid \<Rightarrow> string) \<Rightarrow> account_db \<Rightarrow> account_db \<Rightarrow> bool" for env show_id where
  verify: "verify_email env d tok t now = (d', r) \<Longrightarrow> account_step env show_id d d'"
| resend: "resend_confirmation env m rq d p tk now created i tok = (d', r) \<Longrightarrow> account_step env show_id d d'"
| readdress: "change_email_before_confirmation env m rq d pr e now created i tok = (d', r) \<Longrightarrow> account_step env show_id d d'"
| connect: "connect_by_class_code env rq d p code c sc now i tok = (d', r') \<Longrightarrow> account_step env show_id d d'"
| pin: "set_pin env show_id rq d p ip payload t1 now t2 hex i e tok sid = (d', r2) \<Longrightarrow> account_step env show_id d d'"
| pin_help: "request_pin_reset d sc ident created = (d', r3) \<Longrightarrow> account_step env show_id d d'"
| forgot: "request_password_reset env configured delivered d mail now i tok = (d', r3) \<Longrightarrow> account_step env show_id d d'"
| reset: "complete_password_reset env d tok pw now = (d', r3) \<Longrightarrow> account_step env show_id d d'"
| end_others: "revoke_other_auth_sessions d pr now = (d', r3) \<Longrightarrow> account_step env show_id d d'"
| end_one: "revoke_auth_session d pr i now = (d', r3) \<Longrightarrow> account_step env show_id d d'"
| password: "change_password env rq d pr old new b now = (d', r3) \<Longrightarrow> account_step env show_id d d'"
| register: "register_school env m d payload2 ids now created = (d', r4) \<Longrightarrow> account_step env show_id d d'"
| tiles: "provision_shared_device_profiles rq d pr device is = (d', r3) \<Longrightarrow> account_step env show_id d d'"
| sign_in: "auth_step (ace_auth env) show_id (acc_db d) db' \<Longrightarrow> account_step env show_id d (d\<lparr>acc_db := db'\<rparr>)"

text \<open>
  What a request comes to: nothing, a confirmation, a new link (for the address the account has, or for a new one), another change that leaves
  addresses, links and mail alone and never clears a use, or a call of the sign-in service.
\<close>

definition keeps :: "('r \<Rightarrow> string) \<Rightarrow> ('r \<Rightarrow> bool) \<Rightarrow> 'r list \<Rightarrow> 'r list \<Rightarrow> bool" where
  "keeps key spent rows rows' \<longleftrightarrow> (\<forall>r \<in> set rows. spent r \<longrightarrow> (\<exists>r' \<in> set rows'. key r' = key r \<and> spent r'))"

lemma keeps_refl [simp]: "keeps key spent rows rows"
  by (auto simp: keeps_def)

lemma keeps_append [simp]: "keeps key spent rows (rows @ new)"
  by (auto simp: keeps_def)

lemma keeps_trans: "keeps key spent a b \<Longrightarrow> keeps key spent b c \<Longrightarrow> keeps key spent a c"
  unfolding keeps_def by metis

lemma keeps_update: "(\<And>r. key (f r) = key r \<and> (spent r \<longrightarrow> spent (f r))) \<Longrightarrow> keeps key spent rows (update_where P f rows)"
  unfolding keeps_def using in_update_where by (metis (no_types, lifting))

abbreviation ec_spent :: "email_confirmation_row \<Rightarrow> bool" where
  "ec_spent c \<equiv> \<not> live_confirmation c"

abbreviation prt_spent :: "password_reset_token_row \<Rightarrow> bool" where
  "prt_spent r \<equiv> prt_used_at r \<noteq> None"

abbreviation og_spent :: "onboarding_grant_row \<Rightarrow> bool" where
  "og_spent g \<equiv> og_used_at g \<noteq> None"

definition addresses :: "account_db \<Rightarrow> (uuid \<times> string option) list" where
  "addresses d = map (\<lambda>u. (u_id u, u_email u)) (users (acc_db d))"

definition quiet :: "account_db \<Rightarrow> account_db \<Rightarrow> bool" where
  "quiet d d' \<longleftrightarrow> email_confirmations d' = email_confirmations d \<and> acc_mail d' = acc_mail d \<and>
     keeps prt_token_digest prt_spent (password_reset_tokens d) (password_reset_tokens d') \<and>
     keeps og_token_digest og_spent (onboarding_grants d) (onboarding_grants d') \<and>
     (\<exists>new. addresses d' = addresses d @ new) \<and> ledger_step (acc_db d) (acc_db d')"

inductive account_change :: "account_env \<Rightarrow> (uuid \<Rightarrow> string) \<Rightarrow> account_db \<Rightarrow> account_db \<Rightarrow> bool" for env show_id where
  same: "account_change env show_id d d"
| confirm: "\<lbrakk>c \<in> set (email_confirmations d); account_constraints d';
     d' = put_user (ec_user_id c) (\<lambda>u. u\<lparr>u_email_confirmed_at := Some now\<rparr>)
       (d\<lparr>email_confirmations := update_where (\<lambda>r. ec_id r = ec_id c) (\<lambda>r. r\<lparr>ec_confirmed_at := Some now\<rparr>) (email_confirmations d)\<rparr>)\<rbrakk>
   \<Longrightarrow> account_change env show_id d d'"
| issue: "\<lbrakk>u \<in> set (users (acc_db d)); e = u_email u \<or> e = Some wanted;
     issue_confirmation env (put_user (u_id u) (\<lambda>x. x\<lparr>u_email := e\<rparr>) d) (u\<lparr>u_email := e\<rparr>) now created i tok = (d', c);
     account_constraints d'; sent = [] \<or> sent = [(email_str (u\<lparr>u_email := e\<rparr>), tok)]\<rbrakk>
   \<Longrightarrow> account_change env show_id d (d'\<lparr>acc_mail := acc_mail d' @ sent\<rparr>)"
| other: "\<lbrakk>quiet d d'; account_constraints d'\<rbrakk> \<Longrightarrow> account_change env show_id d d'"
| sign_in: "auth_step (ace_auth env) show_id (acc_db d) db' \<Longrightarrow> account_change env show_id d (d\<lparr>acc_db := db'\<rparr>)"

lemma account_commit_cases:
  assumes "account_commit d x a = (d', r)"
  obtains "d' = x" "r = Inr a" "account_constraints x" | "d' = d" "r = Inl CommitFault"
  using assms by (auto simp: account_commit_def split: if_splits)

lemma commit_other: "account_commit d x a = (d', r) \<Longrightarrow> quiet d x \<Longrightarrow> account_change env show_id d d'"
  by (auto elim!: account_commit_cases intro: account_change.intros)

lemma ledger_step_trans: "ledger_step a b \<Longrightarrow> ledger_step b c \<Longrightarrow> ledger_step a c"
  unfolding ledger_step_def using session_le_trans by blast

lemma put_user_simps [simp]:
  "email_confirmations (put_user i f d) = email_confirmations d" "acc_mail (put_user i f d) = acc_mail d"
  "password_reset_tokens (put_user i f d) = password_reset_tokens d" "onboarding_grants (put_user i f d) = onboarding_grants d"
  "shared_device_profiles (put_user i f d) = shared_device_profiles d" "auth_sessions (acc_db (put_user i f d)) = auth_sessions (acc_db d)"
  "users (acc_db (put_user i f d)) = update_where (\<lambda>u. u_id u = i) f (users (acc_db d))"
  "login_attempts (acc_db (put_user i f d)) = login_attempts (acc_db d)"
  by (simp_all add: put_user_def)

lemma revoke_sessions_simps [simp]:
  "email_confirmations (revoke_sessions Q why now d) = email_confirmations d" "acc_mail (revoke_sessions Q why now d) = acc_mail d"
  "password_reset_tokens (revoke_sessions Q why now d) = password_reset_tokens d"
  "onboarding_grants (revoke_sessions Q why now d) = onboarding_grants d" "users (acc_db (revoke_sessions Q why now d)) = users (acc_db d)"
  "login_attempts (acc_db (revoke_sessions Q why now d)) = login_attempts (acc_db d)"
  by (simp_all add: revoke_sessions_def)

lemma revoke_sessions_ledger: "ledger_step (acc_db d) (acc_db (revoke_sessions Q why now d))"
  unfolding ledger_step_def revoke_sessions_def
  by (auto simp: auth_sessions_ok_revoke session_kept_def intro!: session_le_update)

lemma quiet_refl [simp]: "quiet d d"
  by (auto simp: quiet_def intro: ledger_step_same)

lemma quiet_trans: "quiet a b \<Longrightarrow> quiet b c \<Longrightarrow> quiet a c"
  by (auto simp: quiet_def intro: keeps_trans ledger_step_trans)

lemma quiet_put_user: "(\<And>u. u_id (f u) = u_id u \<and> u_email (f u) = u_email u) \<Longrightarrow> quiet d (put_user i f d)"
  by (auto simp: quiet_def addresses_def map_update_where intro: ledger_step_same)

lemma quiet_revoke: "quiet d (revoke_sessions Q why now d)"
  using revoke_sessions_ledger by (auto simp: quiet_def addresses_def)

lemma quiet_db: "\<lbrakk>users db' = users (acc_db d) @ new; auth_sessions db' = auth_sessions (acc_db d)\<rbrakk> \<Longrightarrow> quiet d (d\<lparr>acc_db := db'\<rparr>)"
  by (auto simp: quiet_def addresses_def intro: ledger_step_same)

lemma quiet_tables:
  "quiet d (d\<lparr>onboarding_grants := onboarding_grants d @ g\<rparr>)" "quiet d (d\<lparr>password_reset_tokens := password_reset_tokens d @ t\<rparr>)"
  by (auto simp: quiet_def addresses_def intro: ledger_step_same)

lemma verify_email_change: "verify_email env d tok t now = (d', r) \<Longrightarrow> account_change env show_id d d'"
  by (auto simp: verify_email_def split: option.splits if_splits elim!: account_commit_cases
      intro: account_change.same account_change.confirm dest: get_by_SomeD)

lemma deliver_change:
  assumes "deliver_confirmation m a tok c (account_commit d (fst x) ()) = (d', r)" "u \<in> set (users (acc_db d))"
    and "e = u_email u \<or> e = Some wanted" "a = email_str (u\<lparr>u_email := e\<rparr>)"
    and x: "issue_confirmation env (put_user (u_id u) (\<lambda>x. x\<lparr>u_email := e\<rparr>) d) (u\<lparr>u_email := e\<rparr>) now created i tok = x"
  shows "account_change env show_id d d'"
proof -
  obtain d1 c1 where x1: "x = (d1, c1)" by (rule prod.exhaust)
  consider "d' = d" | "d' = d1\<lparr>acc_mail := acc_mail d1 @ []\<rparr>" "account_constraints d1"
    | "d' = d1\<lparr>acc_mail := acc_mail d1 @ [(a, tok)]\<rparr>" "account_constraints d1"
    using assms(1) unfolding x1
    by (auto simp: deliver_confirmation_def account_commit_def send_confirmation_def split: if_splits)
  then show ?thesis
    using account_change.issue[OF assms(2,3) x[unfolded x1], of "[]"] account_change.issue[OF assms(2,3) x[unfolded x1], of "[(a, tok)]"] assms(4)
    by cases (auto intro: account_change.same)
qed

lemma put_user_same: "\<lbrakk>u \<in> set (users (acc_db d)); distinct (map u_id (users (acc_db d)))\<rbrakk> \<Longrightarrow> put_user (u_id u) (\<lambda>x. x\<lparr>u_email := u_email u\<rparr>) d = d"
proof -
  assume "u \<in> set (users (acc_db d))" "distinct (map u_id (users (acc_db d)))"
  then have "map (\<lambda>r. if u_id r = u_id u then r\<lparr>u_email := u_email u\<rparr> else r) (users (acc_db d)) = users (acc_db d)"
  proof (intro map_idI)
    fix r assume r: "r \<in> set (users (acc_db d))"
    have "r = u" if "u_id r = u_id u"
      using that r \<open>u \<in> _\<close> \<open>distinct _\<close> inj_onD[of u_id "set (users (acc_db d))" r u] by (simp add: distinct_map)
    then show "(if u_id r = u_id u then r\<lparr>u_email := u_email u\<rparr> else r) = r" by (cases "u_id r = u_id u") simp_all
  qed
  then show "put_user (u_id u) (\<lambda>x. x\<lparr>u_email := u_email u\<rparr>) d = d" by (simp add: put_user_def update_where_def)
qed

lemma constraints_distinct_users: "account_constraints d \<Longrightarrow> distinct (map u_id (users (acc_db d)))"
  by (simp add: account_constraints_def db_constraints_def users_ok_def)

lemma actor_user_stored: "actor_user rq d p = Inr u \<Longrightarrow> u \<in> set (users d) \<and> u_id u = ap_user_id p"
  by (auto simp: actor_user_def split: option.splits sum.splits dest: get_by_SomeD)

lemma who_is_asking_stored: "who_is_asking env rq d p tk = Inr u \<Longrightarrow> u \<in> set (users (acc_db d))"
  by (auto simp: who_is_asking_def Let_def split: option.splits dest: get_by_SomeD actor_user_stored)

lemma resend_cases:
  assumes "resend_confirmation env m rq d p tk now created i tok = (d', r)"
  obtains "d' = d" | u c where "who_is_asking env rq d p tk = Inr u"
    "deliver_confirmation m (email_str u) tok c (account_commit d (fst (issue_confirmation env d u now created i tok)) ()) = (d', r)"
  using assms by (auto simp: resend_confirmation_def Let_def split: sum.splits if_splits option.splits prod.splits)

lemma resend_change:
  assumes "resend_confirmation env m rq d p tk now created i tok = (d', r)" "account_constraints d"
  shows "account_change env show_id d d'"
  using assms(1)
proof (cases rule: resend_cases)
  case 1
  then show ?thesis by (simp add: account_change.same)
next
  case (2 u c)
  note u = who_is_asking_stored[OF 2(1)]
  show ?thesis
    by (rule deliver_change[OF 2(2) u, of "u_email u"]) (simp_all add: put_user_same[OF u constraints_distinct_users[OF assms(2)]])
qed

lemma readdress_cases:
  assumes "change_email_before_confirmation env m rq d p e now created i tok = (d', r)"
  obtains "d' = d" | u c where "actor_user rq (acc_db d) p = Inr u"
    "deliver_confirmation m (py_casefold e) tok c (account_commit d (fst (issue_confirmation env
       (put_user (u_id u) (\<lambda>u. u\<lparr>u_email := Some (py_casefold e)\<rparr>) d) (u\<lparr>u_email := Some (py_casefold e)\<rparr>) now created i tok)) ()) = (d', r)"
  using assms by (auto simp: change_email_before_confirmation_def Let_def split: sum.splits if_splits prod.splits)

lemma readdress_change:
  assumes "change_email_before_confirmation env m rq d p e now created i tok = (d', r)"
  shows "account_change env show_id d d'"
  using assms
proof (cases rule: readdress_cases)
  case 1
  then show ?thesis by (simp add: account_change.same)
next
  case (2 u c)
  show ?thesis
    by (rule deliver_change[OF 2(2) _ disjI2[OF refl] _ refl]) (use actor_user_stored[OF 2(1)] in \<open>auto simp: email_str_def\<close>)
qed

lemma connect_change: "connect_by_class_code env rq d p code c sc now i tok = (d', r) \<Longrightarrow> account_change env show_id d d'"
  by (auto simp: connect_by_class_code_def Let_def split: option.splits sum.splits if_splits
      elim!: commit_other intro: account_change.same quiet_db[of _ _ "[]"] quiet_tables)

lemma pin_help_change: "request_pin_reset d sc ident created = (d', r) \<Longrightarrow> account_change env show_id d d'"
  by (auto simp: request_pin_reset_def Let_def split: option.splits elim!: commit_other intro: account_change.same quiet_db)

lemma forgot_change: "request_password_reset env configured delivered d mail now i tok = (d', r) \<Longrightarrow> account_change env show_id d d'"
  by (auto simp: request_password_reset_def split: option.splits if_splits prod.splits sum.splits
      elim!: commit_other intro: account_change.same quiet_tables)

lemma end_sessions_change:
  "revoke_other_auth_sessions d pr now = (d', r) \<Longrightarrow> account_change env show_id d d'"
  "revoke_auth_session d pr i now = (d', r) \<Longrightarrow> account_change env show_id d d'"
  by (auto simp: revoke_other_auth_sessions_def revoke_auth_session_def split: option.splits if_splits
      elim!: commit_other intro: account_change.same quiet_revoke)

lemma password_change: "change_password env rq d pr old new b now = (d', r) \<Longrightarrow> account_change env show_id d d'"
  by (auto simp: change_password_def Let_def split: sum.splits if_splits elim!: commit_other
      intro: account_change.same quiet_trans[OF quiet_put_user quiet_revoke] quiet_put_user)

lemma quiet_spend:
  "quiet d (d\<lparr>password_reset_tokens := update_where P (\<lambda>r. r\<lparr>prt_used_at := Some now\<rparr>) (password_reset_tokens d)\<rparr>)"
  "quiet d (d\<lparr>onboarding_grants := update_where Q (\<lambda>g. g\<lparr>og_used_at := Some now\<rparr>) (onboarding_grants d)\<rparr>)"
  by (auto simp: quiet_def addresses_def intro: ledger_step_same intro!: keeps_update)

lemma reset_cases:
  assumes "complete_password_reset env d tok pw now = (d', r)"
  obtains "d' = d" "r \<noteq> Inr ()"
  | row user where "List.find (\<lambda>r. prt_token_digest r = ace_sha256 env tok \<and> prt_used_at r = None \<and> now < prt_expires_at r) (password_reset_tokens d) = Some row"
    "get_by u_id (prt_user_id row) (users (acc_db d)) = Some user" "r = Inr ()" "account_constraints d'"
    "d' = revoke_sessions (\<lambda>r. as_user_id r = u_id user) ''password_reset'' now
       ((put_user (u_id user) (\<lambda>u. u\<lparr>u_password_hash := Some (hash_password env pw), u_auth_method := AM_EMAIL_PASSWORD\<rparr>) d)
         \<lparr>password_reset_tokens := update_where (\<lambda>r. prt_id r = prt_id row) (\<lambda>r. r\<lparr>prt_used_at := Some now\<rparr>) (password_reset_tokens d)\<rparr>)"
proof (cases "List.find (\<lambda>r. prt_token_digest r = ace_sha256 env tok \<and> prt_used_at r = None \<and> now < prt_expires_at r) (password_reset_tokens d)")
  case None
  then show ?thesis using assms by (intro that(1)) (auto simp: complete_password_reset_def)
next
  case row: (Some row)
  show ?thesis
  proof (cases "get_by u_id (prt_user_id row) (users (acc_db d))")
    case None
    then show ?thesis using assms row by (intro that(1)) (auto simp: complete_password_reset_def)
  next
    case (Some user)
    then have "account_commit d (revoke_sessions (\<lambda>r. as_user_id r = u_id user) ''password_reset'' now
       ((put_user (u_id user) (\<lambda>u. u\<lparr>u_password_hash := Some (hash_password env pw), u_auth_method := AM_EMAIL_PASSWORD\<rparr>) d)
         \<lparr>password_reset_tokens := update_where (\<lambda>r. prt_id r = prt_id row) (\<lambda>r. r\<lparr>prt_used_at := Some now\<rparr>) (password_reset_tokens d)\<rparr>)) () = (d', r)"
      using assms row by (simp add: complete_password_reset_def Let_def)
    then show ?thesis using that(1) that(2)[OF row Some] by (cases rule: account_commit_cases) simp_all
  qed
qed

lemma quiet_reset:
  "quiet d (revoke_sessions Q why now ((put_user i (\<lambda>u. u\<lparr>u_password_hash := h, u_auth_method := a\<rparr>) d)
     \<lparr>password_reset_tokens := update_where P (\<lambda>r. r\<lparr>prt_used_at := Some now\<rparr>) (password_reset_tokens d)\<rparr>))"
proof -
  have 1: "quiet d (put_user i (\<lambda>u. u\<lparr>u_password_hash := h, u_auth_method := a\<rparr>) d)" (is "quiet d ?d1") by (rule quiet_put_user) simp
  have "quiet ?d1 (?d1\<lparr>password_reset_tokens := update_where P (\<lambda>r. r\<lparr>prt_used_at := Some now\<rparr>) (password_reset_tokens ?d1)\<rparr>)" by (rule quiet_spend)
  then show ?thesis using quiet_trans[OF quiet_trans[OF 1] quiet_revoke] by simp
qed

lemma reset_change:
  assumes "complete_password_reset env d tok pw now = (d', r)"
  shows "account_change env show_id d d'"
  using assms by (cases rule: reset_cases) (auto intro: account_change.same account_change.other quiet_reset)

lemma quiet_attempts:
  "quiet d (d\<lparr>acc_db := record_attempt (acc_db d) i p b now\<rparr>)"
  "quiet d ((put_user k (\<lambda>u. u\<lparr>u_pin_hash := h, u_auth_method := am\<rparr>) d)\<lparr>acc_db :=
      (acc_db (put_user k (\<lambda>u. u\<lparr>u_pin_hash := h, u_auth_method := am\<rparr>) d))\<lparr>login_attempts := x\<rparr>\<rparr>)"
proof -
  show "quiet d (d\<lparr>acc_db := record_attempt (acc_db d) i p b now\<rparr>)" by (rule quiet_db[of _ _ "[]"]) (simp_all add: record_attempt_def)
  let ?d = "put_user k (\<lambda>u. u\<lparr>u_pin_hash := h, u_auth_method := am\<rparr>) d"
  have "quiet d ?d" by (rule quiet_put_user) simp
  moreover have "quiet ?d (?d\<lparr>acc_db := (acc_db ?d)\<lparr>login_attempts := x\<rparr>\<rparr>)" by (rule quiet_db[of _ _ "[]"]) simp_all
  ultimately show "quiet d (?d\<lparr>acc_db := (acc_db ?d)\<lparr>login_attempts := x\<rparr>\<rparr>)" by (rule quiet_trans)
qed

lemma own_pin_change: "change_own_pin env d u ip payload t1 now t2 = (d', r) \<Longrightarrow> account_change env show_id d d'"
  unfolding change_own_pin_def Let_def
  by (auto split: option.splits if_splits prod.splits sum.splits elim!: commit_other[OF _ quiet_attempts(1)] commit_other[OF _ quiet_attempts(2)]
      intro: account_change.same)

definition joined_db :: "account_env \<Rightarrow> account_db \<Rightarrow> onboarding_grant_row \<Rightarrow> pin_payload \<Rightarrow> datetime \<Rightarrow> string \<Rightarrow> uuid \<Rightarrow> uuid \<Rightarrow> account_db" where
  "joined_db env d grant payload now hex i e =
     d\<lparr>acc_db := (acc_db d)\<lparr>users := users (acc_db d) @ [onboarded_student env (acc_db d) grant payload now hex i],
        enrollments := enrollments (acc_db d) @ [\<lparr>en_id = e, en_student_id = i, en_class_id = og_class_id grant\<rparr>]\<rparr>,
       onboarding_grants := update_where (\<lambda>g. og_id g = og_id grant) (\<lambda>g. g\<lparr>og_used_at := Some now\<rparr>) (onboarding_grants d)\<rparr>"

lemma joined_quiet: "quiet d (joined_db env d grant payload now hex i e)"
  by (auto simp: joined_db_def quiet_def addresses_def intro: ledger_step_same intro!: keeps_update)

lemma redeem_cases:
  assumes "redeem_onboarding_grant env show_id d payload t1 now hex i e tok sid = (d', r)"
  obtains "d' = d" "\<exists>err. r = Inl err"
  | grant db' res where "List.find (\<lambda>g. og_token_digest g = ace_sha256 env (present (pp_onboarding_token payload)) \<and>
        og_used_at g = None \<and> t1 < og_expires_at g) (onboarding_grants d) = Some grant"
      "account_constraints (joined_db env d grant payload now hex i e)"
      "issue_for_provisioned_user (ace_auth env) show_id (acc_db (joined_db env d grant payload now hex i e)) i now tok sid = (db', res)"
      "d' = (joined_db env d grant payload now hex i e)\<lparr>acc_db := db'\<rparr>"
      "r = (case res of Inl err \<Rightarrow> Inl (SignInFault err)
        | Inr issued \<Rightarrow> Inr \<lparr>pu_status = ''created'', pu_user_id = i,
            pu_login_identifier = u_login_identifier (onboarded_student env (acc_db d) grant payload now hex i), pu_session = Some issued\<rparr>)"
proof (cases "present (pp_onboarding_token payload) = [] \<or> present (pp_first_name payload) = []")
  case True
  then show ?thesis using assms by (intro that(1)) (auto simp: redeem_onboarding_grant_def)
next
  case named: False
  show ?thesis
  proof (cases "List.find (\<lambda>g. og_token_digest g = ace_sha256 env (present (pp_onboarding_token payload)) \<and>
        og_used_at g = None \<and> t1 < og_expires_at g) (onboarding_grants d)")
    case None
    then show ?thesis using assms named by (intro that(1)) (auto simp: redeem_onboarding_grant_def)
  next
    case (Some grant)
    obtain db' res where issued: "issue_for_provisioned_user (ace_auth env) show_id (acc_db (joined_db env d grant payload now hex i e)) i now tok sid = (db', res)"
      by (rule prod.exhaust)
    have eq: "redeem_onboarding_grant env show_id d payload t1 now hex i e tok sid =
       (case account_commit d (joined_db env d grant payload now hex i e) () of
             (d2, Inl e) \<Rightarrow> (d2, Inl e)
           | (d2, Inr _) \<Rightarrow>
               (case issue_for_provisioned_user (ace_auth env) show_id (acc_db d2) i now tok sid of
                  (db', Inl e) \<Rightarrow> (d2\<lparr>acc_db := db'\<rparr>, Inl (SignInFault e))
                | (db', Inr issued) \<Rightarrow>
                    (d2\<lparr>acc_db := db'\<rparr>, Inr \<lparr>pu_status = ''created'', pu_user_id = i,
                       pu_login_identifier = u_login_identifier (onboarded_student env (acc_db d) grant payload now hex i), pu_session = Some issued\<rparr>)))"
      unfolding redeem_onboarding_grant_def joined_db_def Let_def using named Some by simp
    show ?thesis
    proof (cases "account_constraints (joined_db env d grant payload now hex i e)")
      case True
      then show ?thesis
        using that(2)[OF Some True issued] assms unfolding eq account_commit_def by (cases res) (simp_all add: issued)
    next
      case False
      then show ?thesis using assms unfolding eq account_commit_def by (intro that(1)) auto
    qed
  qed
qed

lemma pin_change:
  assumes "set_pin env show_id rq d p ip payload t1 now t2 hex i e tok sid = (d', r)"
  shows "(account_change env show_id)\<^sup>*\<^sup>* d d'"
proof (cases p)
  case None
  then have "redeem_onboarding_grant env show_id d payload t1 now hex i e tok sid = (d', r)" using assms by (simp add: set_pin_def)
  then show ?thesis
  proof (cases rule: redeem_cases)
    case (2 grant db' res)
    have "account_change env show_id d (joined_db env d grant payload now hex i e)"
      by (rule account_change.other[OF joined_quiet 2(2)])
    moreover have "account_change env show_id (joined_db env d grant payload now hex i e) d'"
      unfolding 2(4) by (rule account_change.sign_in[OF auth_step.provisioned[OF 2(3)]])
    ultimately show ?thesis by (meson converse_rtranclp_into_rtranclp r_into_rtranclp)
  qed simp
next
  case (Some pr)
  then show ?thesis
    using assms by (auto simp: set_pin_def split: sum.splits if_splits dest: own_pin_change)
qed

lemma quiet_tiles: "quiet d (d\<lparr>shared_device_profiles := x\<rparr>)"
  by (auto simp: quiet_def addresses_def intro: ledger_step_same)

lemma quiet_avatar:
  "quiet (put_user i (\<lambda>u. u\<lparr>u_avatar_shape := x, u_avatar_colourway := y\<rparr>) d) d' \<Longrightarrow> quiet d d'"
  "quiet ((put_user i (\<lambda>u. u\<lparr>u_avatar_shape := x, u_avatar_colourway := y\<rparr>) d)\<lparr>shared_device_profiles := z\<rparr>) d' \<Longrightarrow> quiet d d'"
proof -
  have 1: "quiet d (put_user i (\<lambda>u. u\<lparr>u_avatar_shape := x, u_avatar_colourway := y\<rparr>) d)" by (rule quiet_put_user) simp
  show "quiet (put_user i (\<lambda>u. u\<lparr>u_avatar_shape := x, u_avatar_colourway := y\<rparr>) d) d' \<Longrightarrow> quiet d d'"
    "quiet ((put_user i (\<lambda>u. u\<lparr>u_avatar_shape := x, u_avatar_colourway := y\<rparr>) d)\<lparr>shared_device_profiles := z\<rparr>) d' \<Longrightarrow> quiet d d'"
    by (rule quiet_trans[OF 1], assumption) (rule quiet_trans[OF quiet_trans[OF 1 quiet_tiles]])
qed

lemma place_tiles_quiet: "place_tiles device school actor retained unclaimed ids d = Inr d' \<Longrightarrow> quiet d d'"
proof (induction ids arbitrary: retained unclaimed d)
  case (Cons i ids)
  show ?case
    using Cons.prems
    by (auto simp: Let_def split: option.splits list.splits if_splits dest!: Cons.IH
      intro: quiet_trans[OF quiet_tiles] quiet_avatar)
qed simp

lemma tiles_change: "provision_shared_device_profiles rq d pr device ids = (d', r) \<Longrightarrow> account_change env show_id d d'"
  unfolding provision_shared_device_profiles_def Let_def
  by (auto split: if_splits sum.splits elim!: commit_other intro: account_change.same quiet_trans[OF quiet_tiles] dest!: place_tiles_quiet)

lemma register_cases:
  assumes "register_school env m d payload ids now created = (d', r)"
  obtains "d' = d" "\<exists>e. r = Inl e"
  | school_name admin_name d1 d2 c where
      "must_not_be_blank (rg_school_name payload) = Some school_name" "must_not_be_blank (rg_admin_name payload) = Some admin_name"
      "d1 = d\<lparr>acc_db := registered_rows env payload school_name admin_name ids created (acc_db d)\<rparr>" "account_constraints d1"
      "issue_confirmation env d1 (registered_admin env payload admin_name ids) now created (ri_confirmation_id ids) (ri_token ids) = (d2, c)"
      "(\<not> account_constraints d2 \<and> d' = d1 \<and> (\<exists>e. r = Inl e)) \<or> (account_constraints d2 \<and> r = Inr (new_school_code (ri_code_picks ids)) \<and>
        d' = d2\<lparr>acc_mail := acc_mail d2 @ (if m then [(email_str (registered_admin env payload admin_name ids), ri_token ids)] else [])\<rparr>)"
proof (cases "must_not_be_blank (rg_school_name payload) = None \<or> must_not_be_blank (rg_admin_name payload) = None")
  case True
  then show ?thesis using assms by (intro that(1)) (auto simp: register_school_def split: option.splits)
next
  case False
  then obtain sn an where n: "must_not_be_blank (rg_school_name payload) = Some sn" "must_not_be_blank (rg_admin_name payload) = Some an" by auto
  define d1 where "d1 = d\<lparr>acc_db := registered_rows env payload sn an ids created (acc_db d)\<rparr>"
  obtain d2 c where i: "issue_confirmation env d1 (registered_admin env payload an ids) now created (ri_confirmation_id ids) (ri_token ids) = (d2, c)"
    by (rule prod.exhaust)
  have cases: "(d' = d \<and> (\<exists>e. r = Inl e)) \<or> (account_constraints d1 \<and> ((\<not> account_constraints d2 \<and> d' = d1 \<and> (\<exists>e. r = Inl e)) \<or>
      (account_constraints d2 \<and> r = Inr (new_school_code (ri_code_picks ids)) \<and>
        d' = d2\<lparr>acc_mail := acc_mail d2 @ (if m then [(email_str (registered_admin env payload an ids), ri_token ids)] else [])\<rparr>)))"
    using assms i unfolding register_school_def n Let_def d1_def
    by (auto simp: account_commit_def send_confirmation_def split: if_splits)
  then show ?thesis using that(1) that(2)[OF n d1_def _ i] by blast
qed

lemma register_change:
  assumes "register_school env m d payload ids now created = (d', r)"
  shows "(account_change env show_id)\<^sup>*\<^sup>* d d'"
  using assms
proof (cases rule: register_cases)
  case (2 sn an d1 d2 c)
  let ?u = "registered_admin env payload an ids"
  have "quiet d d1" unfolding 2(3) by (rule quiet_db[of _ _ "[?u]"]) (simp_all add: registered_rows_def)
  then have 1: "account_change env show_id d d1" using account_change.other 2(4) by blast
  have u: "?u \<in> set (users (acc_db d1))" by (simp add: 2(3) registered_rows_def)
  have iss: "issue_confirmation env (put_user (u_id ?u) (\<lambda>x. x\<lparr>u_email := u_email ?u\<rparr>) d1) (?u\<lparr>u_email := u_email ?u\<rparr>) now created
      (ri_confirmation_id ids) (ri_token ids) = (d2, c)"
    using 2(5) put_user_same[OF u constraints_distinct_users[OF 2(4)]] by simp
  have "account_change env show_id d1 d'"
    using 2(6)
  proof
    assume "account_constraints d2 \<and> r = Inr (new_school_code (ri_code_picks ids)) \<and>
      d' = d2\<lparr>acc_mail := acc_mail d2 @ (if m then [(email_str ?u, ri_token ids)] else [])\<rparr>"
    then show ?thesis using account_change.issue[OF u disjI1[OF refl] iss, of "if m then [(email_str ?u, ri_token ids)] else []" show_id] by simp
  qed (simp add: account_change.same)
  with 1 show ?thesis by (meson converse_rtranclp_into_rtranclp r_into_rtranclp)
qed simp

lemma account_step_change:
  assumes "account_step env show_id d d'" "account_constraints d"
  shows "(account_change env show_id)\<^sup>*\<^sup>* d d'"
  using assms
proof (induction rule: account_step.induct)
  case (pin rq d p ip payload t1 now t2 hex i e tok sid d' r2)
  then show ?case using pin_change by blast
next
  case (register m d payload2 ids now created d' r4)
  then show ?case using register_change by blast
qed (blast intro: r_into_rtranclp verify_email_change resend_change readdress_change connect_change pin_help_change forgot_change
    reset_change end_sessions_change password_change tiles_change account_change.sign_in)+

subsection \<open>What every request keeps\<close>

text \<open>The sign-in service writes sessions, attempts and audit events only.\<close>

definition bare :: "db \<Rightarrow> db" where
  "bare d = d\<lparr>auth_sessions := [], login_attempts := [], audit_events := []\<rparr>"

lemma bare_writes [simp]:
  "bare (record_attempt d i p b now) = bare d" "bare (audit_record d t now u s i2 p2 x) = bare d"
  "bare (session_revoke d sid why now) = bare d" "bare (d\<lparr>auth_sessions := rows\<rparr>) = bare d"
  by (simp_all add: bare_def record_attempt_def audit_record_def session_revoke_def)

lemma bare_create: "session_create d draft single = Inr (d', old) \<Longrightarrow> bare d' = bare d"
  by (auto simp: session_create_def Let_def split: option.splits if_splits)

lemma bare_touch: "session_touch d sid seen ex = Inr d' \<Longrightarrow> bare d' = bare d"
  by (auto simp: session_touch_def Let_def split: if_splits)

lemma bare_reject: "reject_login d u i p e now = (d', r) \<Longrightarrow> bare d' = bare d"
  by (auto simp: reject_login_def Let_def split: option.splits if_splits)

lemma bare_complete: "complete_login env show_id d u i p now tok k = (d', r) \<Longrightarrow> bare d' = bare d"
  by (auto simp: complete_login_def Let_def split: option.splits sum.splits prod.splits dest!: bare_create)

lemma bare_authenticate: "authenticate env d tok now = (d', r) \<Longrightarrow> bare d' = bare d"
  by (auto simp: authenticate_def expire_session_def split: option.splits if_splits sum.splits dest!: bare_touch)

lemma bare_auth_step: "auth_step env show_id d d' \<Longrightarrow> bare d' = bare d"
proof (induction rule: auth_step.induct)
  case (password d email pw ip t now tok i d' r)
  then show ?case
    by (auto simp: login_with_password_def Let_def split: option.splits if_splits dest: bare_reject bare_complete)
next
  case (parent d c pw ip code t now tok i d' r)
  then show ?case
    by (auto simp: login_with_parent_contact_def Let_def split: option.splits if_splits list.splits dest: bare_reject bare_complete)
next
  case (pin d code ident pin ip t now tok i d' r)
  then show ?case
    by (auto simp: login_with_pin_def Let_def split: option.splits if_splits dest: bare_reject bare_complete)
next
  case (authenticate d tok now d' r)
  then show ?case by (rule bare_authenticate)
next
  case (provisioned d u now tok i d' r)
  then show ?case by (auto simp: issue_for_provisioned_user_def split: option.splits if_splits dest: bare_complete)
next
  case (logout d tok now d')
  then show ?case by (auto simp: logout_def split: option.splits)
next
  case (refresh d tok now d' r)
  then show ?case by (auto simp: refresh_def split: option.splits if_splits sum.splits prod.splits dest: bare_authenticate)
qed

lemma bare_fields: "bare d' = bare d \<Longrightarrow> users d' = users d \<and> (db_constraints d' \<longleftrightarrow> db_constraints (bare d) \<and> auth_sessions_ok (auth_sessions d'))"
proof -
  assume b: "bare d' = bare d"
  have "users (bare x) = users x" "db_constraints x \<longleftrightarrow> db_constraints (bare x) \<and> auth_sessions_ok (auth_sessions x)" for x
    by (auto simp: bare_def db_constraints_def auth_sessions_ok_def)
  from this[of d'] this(1)[of d] b show ?thesis by simp
qed

lemma change_constraints: "account_change env show_id d d' \<Longrightarrow> account_constraints d \<Longrightarrow> account_constraints d'"
proof (induction rule: account_change.induct)
  case (issue u d e wanted now created i tok d' c sent)
  then show ?case by (simp add: account_constraints_def)
next
  case (sign_in d db')
  note b = bare_fields[OF bare_auth_step[OF sign_in(1)]] bare_fields[of "acc_db d" "acc_db d"]
  have "ledger_step (acc_db d) db'" by (rule auth_step_ledger[OF sign_in(1)])
  then show ?case using sign_in(2) b by (simp add: account_constraints_def ledger_step_def)
qed auto

lemma issue_rows:
  assumes "issue_confirmation env d u now created i tok = (d', c)"
  shows "d' = d\<lparr>email_confirmations := update_where (\<lambda>c. ec_user_id c = u_id u \<and> ec_confirmed_at c = None \<and> ec_superseded_at c = None)
      (\<lambda>c. c\<lparr>ec_superseded_at := Some now\<rparr>) (email_confirmations d) @ [c]\<rparr>"
    "ec_user_id c = u_id u" "ec_email c = email_str u" "ec_token_digest c = ace_sha256 env tok" "live_confirmation c"
  using assms by (auto simp: issue_confirmation_def Let_def)

lemma change_keeps:
  "account_change env show_id d d' \<Longrightarrow> keeps ec_token_digest ec_spent (email_confirmations d) (email_confirmations d') \<and>
     keeps prt_token_digest prt_spent (password_reset_tokens d) (password_reset_tokens d') \<and>
     keeps og_token_digest og_spent (onboarding_grants d) (onboarding_grants d') \<and> ledger_step (acc_db d) (acc_db d')"
proof (induction rule: account_change.induct)
  case (same d)
  show ?case by (auto intro: ledger_step_same)
next
  case (confirm c d d' now)
  show ?case unfolding confirm(3) by (auto intro!: keeps_update ledger_step_same)
next
  case (issue u d e wanted now created i tok d' c sent)
  have "keeps ec_token_digest ec_spent (email_confirmations d) (email_confirmations d')"
    unfolding issue_rows(1)[OF issue(3)] by (auto intro!: keeps_trans[OF keeps_update keeps_append])
  then show ?case by (auto simp: issue_rows(1)[OF issue(3)] intro: ledger_step_same)
next
  case (other d d')
  then show ?case by (simp add: quiet_def)
next
  case (sign_in d db')
  then show ?case using auth_step_ledger by simp
qed

lemma change_run_keeps:
  assumes "(account_change env show_id)\<^sup>*\<^sup>* d d'"
  shows "keeps ec_token_digest ec_spent (email_confirmations d) (email_confirmations d') \<and>
     keeps prt_token_digest prt_spent (password_reset_tokens d) (password_reset_tokens d') \<and>
     keeps og_token_digest og_spent (onboarding_grants d) (onboarding_grants d') \<and> ledger_step (acc_db d) (acc_db d')"
  using assms
proof (induction rule: rtranclp_induct)
  case base
  show ?case by (auto intro: ledger_step_same)
next
  case (step y z)
  then show ?case using change_keeps[OF step(2)] by (meson keeps_trans ledger_step_trans)
qed

lemma run_constraints: "(account_change env show_id)\<^sup>*\<^sup>* d d' \<Longrightarrow> account_constraints d \<Longrightarrow> account_constraints d'"
  by (induction rule: rtranclp_induct) (auto intro: change_constraints)

lemma account_step_constraints: "account_step env show_id d d' \<Longrightarrow> account_constraints d \<Longrightarrow> account_constraints d'"
  using run_constraints account_step_change by blast

subsection \<open>Links for the current address\<close>

text \<open>
  The invariant of the confirmation links: a link that still works carries the address its account has now, links belong to accounts (the foreign
  key), and every message sent carries a stored link for the address it went to.
\<close>

definition links_ok :: "account_env \<Rightarrow> account_db \<Rightarrow> bool" where
  "links_ok env d \<longleftrightarrow> account_constraints d \<and>
     (\<forall>c \<in> set (email_confirmations d). ec_user_id c \<in> u_id ` set (users (acc_db d)) \<and>
        (live_confirmation c \<longrightarrow> (\<forall>u \<in> set (users (acc_db d)). u_id u = ec_user_id c \<longrightarrow> email_str u = ec_email c))) \<and>
     (\<forall>(a, tok) \<in> set (acc_mail d). \<exists>c \<in> set (email_confirmations d). ec_token_digest c = ace_sha256 env tok \<and> ec_email c = a)"

definition address_str :: "string option \<Rightarrow> string" where
  "address_str e = (case e of None \<Rightarrow> ''None'' | Some s \<Rightarrow> s)"

text \<open>The invariant as a property of the addresses.\<close>

lemma links_ok_addresses:
  "links_ok env d \<longleftrightarrow> account_constraints d \<and>
     (\<forall>c \<in> set (email_confirmations d). ec_user_id c \<in> fst ` set (addresses d) \<and>
        (live_confirmation c \<longrightarrow> (\<forall>(i, e) \<in> set (addresses d). i = ec_user_id c \<longrightarrow> address_str e = ec_email c))) \<and>
     (\<forall>(a, tok) \<in> set (acc_mail d). \<exists>c \<in> set (email_confirmations d). ec_token_digest c = ace_sha256 env tok \<and> ec_email c = a)"
  unfolding links_ok_def addresses_def email_str_def address_str_def by (auto simp: image_image)

lemma links_mailD:
  "links_ok env d \<Longrightarrow> (a, tok) \<in> set (acc_mail d) \<Longrightarrow> \<exists>c \<in> set (email_confirmations d). ec_token_digest c = ace_sha256 env tok \<and> ec_email c = a"
proof -
  assume "links_ok env d" and m: "(a, tok) \<in> set (acc_mail d)"
  then have "\<forall>(a, tok) \<in> set (acc_mail d). \<exists>c \<in> set (email_confirmations d). ec_token_digest c = ace_sha256 env tok \<and> ec_email c = a"
    unfolding links_ok_def by (elim conjE) assumption
  from bspec[OF this m] show ?thesis by simp
qed

lemma updated_from: "x \<in> set (update_where P f rows) \<Longrightarrow> \<exists>y \<in> set rows. x = (if P y then f y else y)"
  unfolding set_update_where by blast

lemma links_ok_rows:
  assumes "links_ok env d" "account_constraints d'"
    and new: "set (addresses d') = set (addresses d) \<union> N" "fst ` N \<inter> fst ` set (addresses d) = {}"
    and rows: "\<And>c'. c' \<in> set (email_confirmations d') \<Longrightarrow>
      \<exists>c \<in> set (email_confirmations d). ec_user_id c' = ec_user_id c \<and> ec_email c' = ec_email c \<and> (live_confirmation c' \<longrightarrow> live_confirmation c)"
    and kept: "\<And>c. c \<in> set (email_confirmations d) \<Longrightarrow>
      \<exists>c' \<in> set (email_confirmations d'). ec_token_digest c' = ec_token_digest c \<and> ec_email c' = ec_email c"
    and mail: "acc_mail d' = acc_mail d"
  shows "links_ok env d'"
proof -
  have "ec_user_id c' \<in> fst ` set (addresses d') \<and>
      (live_confirmation c' \<longrightarrow> (\<forall>(i, e) \<in> set (addresses d'). i = ec_user_id c' \<longrightarrow> address_str e = ec_email c'))"
    if "c' \<in> set (email_confirmations d')" for c'
  proof -
    obtain c where c: "c \<in> set (email_confirmations d)" "ec_user_id c' = ec_user_id c" "ec_email c' = ec_email c"
      "live_confirmation c' \<longrightarrow> live_confirmation c" using rows[OF \<open>c' \<in> _\<close>] by blast
    have c2: "ec_user_id c \<in> fst ` set (addresses d)"
      "live_confirmation c \<longrightarrow> (\<forall>(i, e) \<in> set (addresses d). i = ec_user_id c \<longrightarrow> address_str e = ec_email c)"
      using assms(1) c(1) unfolding links_ok_addresses by blast+
    have "i \<noteq> ec_user_id c" if "(i, e) \<in> N" for i e using that c2(1) new(2) by force
    then have "\<forall>(i, e) \<in> set (addresses d'). i = ec_user_id c \<longrightarrow> address_str e = ec_email c" if "live_confirmation c"
      using c2(2) that unfolding new(1) by blast
    then show ?thesis using c(2-4) c2(1) unfolding new(1) by auto
  qed
  moreover have "\<exists>c' \<in> set (email_confirmations d'). ec_token_digest c' = ace_sha256 env tok \<and> ec_email c' = a"
    if m: "(a, tok) \<in> set (acc_mail d')" for a tok
  proof -
    obtain c where c: "c \<in> set (email_confirmations d)" "ec_token_digest c = ace_sha256 env tok" "ec_email c = a"
      using links_mailD[OF assms(1) m[unfolded mail]] by blast
    then show ?thesis using kept[OF c(1)] by auto
  qed
  ultimately show ?thesis using assms(2) unfolding links_ok_addresses by blast
qed

lemma addresses_put_user: "(\<And>u. u_id (f u) = u_id u \<and> u_email (f u) = u_email u) \<Longrightarrow> addresses (put_user i f d) = addresses d"
  by (simp add: addresses_def map_update_where)

lemma distinct_addresses: "account_constraints d \<Longrightarrow> distinct (map fst (addresses d))"
  using constraints_distinct_users[of d] by (simp add: addresses_def comp_def)

text \<open>A new link: whatever the account's address becomes, the new link carries it and no older link of the account works any more.\<close>

lemma issue_links:
  assumes ok: "links_ok env d" and u: "u \<in> set (users (acc_db d))"
    and iss: "issue_confirmation env (put_user (u_id u) (\<lambda>x. x\<lparr>u_email := e\<rparr>) d) (u\<lparr>u_email := e\<rparr>) now created i tok = (d', c)"
    and con: "account_constraints d'" and sent: "sent = [] \<or> sent = [(email_str (u\<lparr>u_email := e\<rparr>), tok)]"
  shows "links_ok env (d'\<lparr>acc_mail := acc_mail d' @ sent\<rparr>)"
proof -
  note r = issue_rows[OF iss, simplified]
  have us: "users (acc_db d') = update_where (\<lambda>x. u_id x = u_id u) (\<lambda>x. x\<lparr>u_email := e\<rparr>) (users (acc_db d))" by (simp add: r(1))
  have ids: "u_id ` set (users (acc_db d')) = u_id ` set (users (acc_db d))"
    using arg_cong[OF map_update_where[of u_id "\<lambda>x. x\<lparr>u_email := e\<rparr>" "\<lambda>x. u_id x = u_id u" "users (acc_db d)"], of set] us by simp
  have mine: "email_str x = email_str (u\<lparr>u_email := e\<rparr>)" if "x \<in> set (users (acc_db d'))" "u_id x = u_id u" for x
    using that us by (auto simp: set_update_where email_str_def)
  have theirs: "x \<in> set (users (acc_db d))" if "x \<in> set (users (acc_db d'))" "u_id x \<noteq> u_id u" for x
    using that us by (auto simp: set_update_where split: if_splits)
  have rows: "ec_user_id c' \<in> u_id ` set (users (acc_db d')) \<and>
      (live_confirmation c' \<longrightarrow> (\<forall>x \<in> set (users (acc_db d')). u_id x = ec_user_id c' \<longrightarrow> email_str x = ec_email c'))"
    if "c' \<in> set (email_confirmations d')" for c'
  proof (cases "c' = c")
    case True
    then show ?thesis using r(2,3) mine ids u by auto
  next
    case False
    then have "c' \<in> set (update_where (\<lambda>c. ec_user_id c = u_id u \<and> ec_confirmed_at c = None \<and> ec_superseded_at c = None)
      (\<lambda>c. c\<lparr>ec_superseded_at := Some now\<rparr>) (email_confirmations d))" using that unfolding r(1) by simp
    then obtain c0 where "c0 \<in> set (email_confirmations d)" "c' = (if ec_user_id c0 = u_id u \<and> ec_confirmed_at c0 = None \<and> ec_superseded_at c0 = None
      then c0\<lparr>ec_superseded_at := Some now\<rparr> else c0)" by (blast dest: updated_from)
    then have c0: "c0 \<in> set (email_confirmations d)" "ec_user_id c' = ec_user_id c0" "ec_email c' = ec_email c0"
      "live_confirmation c' \<longrightarrow> live_confirmation c0 \<and> ec_user_id c0 \<noteq> u_id u"
      by (auto split: if_splits)
    have "ec_user_id c0 \<in> u_id ` set (users (acc_db d))"
      "live_confirmation c0 \<longrightarrow> (\<forall>x \<in> set (users (acc_db d)). u_id x = ec_user_id c0 \<longrightarrow> email_str x = ec_email c0)"
      using ok c0(1) unfolding links_ok_def by blast+
    then show ?thesis using c0 ids theirs by auto
  qed
  have kept: "\<exists>c' \<in> set (email_confirmations d'). ec_token_digest c' = ec_token_digest c0 \<and> ec_email c' = ec_email c0"
    if "c0 \<in> set (email_confirmations d)" for c0
    using in_update_where[OF that, of "\<lambda>c. ec_user_id c = u_id u \<and> ec_confirmed_at c = None \<and> ec_superseded_at c = None" "\<lambda>c. c\<lparr>ec_superseded_at := Some now\<rparr>"]
    unfolding r(1) by (intro bexI[of _ "if ec_user_id c0 = u_id u \<and> ec_confirmed_at c0 = None \<and> ec_superseded_at c0 = None
      then c0\<lparr>ec_superseded_at := Some now\<rparr> else c0"]) simp_all
  have "\<exists>c' \<in> set (email_confirmations d'). ec_token_digest c' = ace_sha256 env t \<and> ec_email c' = a"
    if m: "(a, t) \<in> set (acc_mail d' @ sent)" for a t
  proof (cases "(a, t) \<in> set sent")
    case True
    then have "a = ec_email c" "t = tok" using sent r(3) by auto
    then show ?thesis using r(1,4) by auto
  next
    case False
    then have "(a, t) \<in> set (acc_mail d)" using m r(1) by auto
    then obtain c0 where "c0 \<in> set (email_confirmations d)" "ec_token_digest c0 = ace_sha256 env t" "ec_email c0 = a"
      using links_mailD[OF ok] by blast
    then show ?thesis using kept by metis
  qed
  then show ?thesis using rows con unfolding links_ok_def account_constraints_def by auto
qed

lemma change_links: "account_change env show_id d d' \<Longrightarrow> links_ok env d \<Longrightarrow> links_ok env d'"
proof (induction rule: account_change.induct)
  case (confirm c d d' now)
  let ?rows = "update_where (\<lambda>r. ec_id r = ec_id c) (\<lambda>r. r\<lparr>ec_confirmed_at := Some now\<rparr>) (email_confirmations d)"
  have e: "email_confirmations d' = ?rows" "acc_mail d' = acc_mail d" "addresses d' = addresses d"
    unfolding confirm(3) by (simp_all add: addresses_put_user) (simp add: addresses_def)
  show ?case
  proof (rule links_ok_rows[OF confirm(4,2), of "{}"])
    fix c' assume "c' \<in> set (email_confirmations d')"
    then show "\<exists>c \<in> set (email_confirmations d). ec_user_id c' = ec_user_id c \<and> ec_email c' = ec_email c \<and> (live_confirmation c' \<longrightarrow> live_confirmation c)"
      unfolding e by (auto dest!: updated_from)
  next
    fix c0 assume "c0 \<in> set (email_confirmations d)"
    from in_update_where[OF this, of "\<lambda>r. ec_id r = ec_id c" "\<lambda>r. r\<lparr>ec_confirmed_at := Some now\<rparr>"]
    show "\<exists>c' \<in> set (email_confirmations d'). ec_token_digest c' = ec_token_digest c0 \<and> ec_email c' = ec_email c0"
      unfolding e by (rule bexI[rotated]) simp
  qed (simp_all add: e)
next
  case (issue u d e wanted now created i tok d' c sent)
  show ?case by (rule issue_links[OF issue(6,1,3,4,5)])
next
  case (other d d')
  then obtain new where n: "addresses d' = addresses d @ new" by (auto simp: quiet_def)
  have "fst ` set new \<inter> fst ` set (addresses d) = {}" using distinct_addresses[OF other(2)] unfolding n by auto
  then show ?case using other n by (intro links_ok_rows[OF other(3,2), of "set new"]) (auto simp: quiet_def)
next
  case (sign_in d db')
  have con: "account_constraints (d\<lparr>acc_db := db'\<rparr>)"
    by (rule change_constraints[OF account_change.sign_in[OF sign_in(1)]]) (use sign_in(2) in \<open>simp add: links_ok_def\<close>)
  have "addresses (d\<lparr>acc_db := db'\<rparr>) = addresses d"
    using bare_fields[OF bare_auth_step[OF sign_in(1)]] by (simp add: addresses_def)
  then show ?case by (intro links_ok_rows[OF sign_in(2) con, of "{}"]) auto
qed

lemma step_links: "account_step env show_id d d' \<Longrightarrow> links_ok env d \<Longrightarrow> links_ok env d'"
proof -
  assume s: "account_step env show_id d d'" "links_ok env d"
  then have "(account_change env show_id)\<^sup>*\<^sup>* d d'" using account_step_change by (simp add: links_ok_def)
  then show "links_ok env d'" using s(2) by (induction rule: rtranclp_induct) (auto intro: change_links)
qed

subsection \<open>Links that work once\<close>

text \<open>
  The contract of a table of one-time links: the tokens are told apart by their digest, a used row is never taken away and its use is never taken back.
  What it gives is proved once, for confirmation links, password links and onboarding grants.
\<close>

locale once_only =
  fixes step :: "'s \<Rightarrow> 's \<Rightarrow> bool"
    and ok :: "'s \<Rightarrow> bool"
    and rows :: "'s \<Rightarrow> 'r list"
    and key :: "'r \<Rightarrow> string"
    and spent :: "'r \<Rightarrow> bool"
  assumes step_ok: "\<lbrakk>step s s'; ok s\<rbrakk> \<Longrightarrow> ok s'"
    and ok_distinct: "ok s \<Longrightarrow> distinct (map key (rows s))"
    and step_keeps: "\<lbrakk>step s s'; ok s\<rbrakk> \<Longrightarrow> keeps key spent (rows s) (rows s')"
begin

lemma run_once:
  assumes "step\<^sup>*\<^sup>* s s'" "ok s"
  shows "ok s' \<and> keeps key spent (rows s) (rows s')"
  using assms
proof (induction rule: rtranclp_induct)
  case (step y z)
  then show ?case using step_ok step_keeps by (blast intro: keeps_trans)
qed simp

lemma spent_for_good:
  assumes "step\<^sup>*\<^sup>* s s'" "ok s" "r \<in> set (rows s)" "spent r"
  shows "\<exists>r'. get_by key (key r) (rows s') = Some r' \<and> spent r'"
proof -
  note run = run_once[OF assms(1,2)]
  obtain r' where "r' \<in> set (rows s')" "key r' = key r" "spent r'" using run assms(3,4) unfolding keeps_def by blast
  then show ?thesis using get_by_in[OF ok_distinct, of s' r'] run by auto
qed

lemma spent_not_found:
  assumes "step\<^sup>*\<^sup>* s s'" "ok s" "r \<in> set (rows s)" "spent r"
  shows "List.find (\<lambda>x. key x = key r \<and> \<not> spent x \<and> P x) (rows s') = None"
proof -
  obtain r' where r': "get_by key (key r) (rows s') = Some r'" "spent r'" using spent_for_good[OF assms] by blast
  have d: "distinct (map key (rows s'))" using run_once[OF assms(1,2)] ok_distinct by blast
  have "x = r'" if "x \<in> set (rows s')" "key x = key r" for x using get_by_in[OF d that(1)] that(2) r'(1) by simp
  then show ?thesis using r'(2) unfolding find_None_iff_all by blast
qed

end

lemma step_run_keeps:
  assumes "account_step env show_id d d'" "account_constraints d"
  shows "keeps ec_token_digest ec_spent (email_confirmations d) (email_confirmations d')"
    "keeps prt_token_digest prt_spent (password_reset_tokens d) (password_reset_tokens d')"
    "keeps og_token_digest og_spent (onboarding_grants d) (onboarding_grants d')" "ledger_step (acc_db d) (acc_db d')"
  using change_run_keeps[OF account_step_change[OF assms]] by simp_all

interpretation confirmation_links: once_only "account_step env show_id" account_constraints email_confirmations ec_token_digest ec_spent for env show_id
proof unfold_locales
  show "distinct (map ec_token_digest (email_confirmations d))" if "account_constraints d" for d using that by (simp add: account_constraints_def)
qed (blast intro: account_step_constraints step_run_keeps)+

interpretation reset_links: once_only "account_step env show_id" account_constraints password_reset_tokens prt_token_digest prt_spent for env show_id
proof unfold_locales
  show "distinct (map prt_token_digest (password_reset_tokens d))" if "account_constraints d" for d using that by (simp add: account_constraints_def)
qed (blast intro: account_step_constraints step_run_keeps)+

interpretation onboarding_links: once_only "account_step env show_id" account_constraints onboarding_grants og_token_digest og_spent for env show_id
proof unfold_locales
  show "distinct (map og_token_digest (onboarding_grants d))" if "account_constraints d" for d using that by (simp add: account_constraints_def)
qed (blast intro: account_step_constraints step_run_keeps)+

text \<open>The routes write the session table, too, and keep its contract.\<close>

definition account_db_step :: "account_env \<Rightarrow> (uuid \<Rightarrow> string) \<Rightarrow> db \<Rightarrow> db \<Rightarrow> bool" where
  "account_db_step env show_id x y \<longleftrightarrow> (\<exists>d d'. account_step env show_id d d' \<and> account_constraints d \<and> x = acc_db d \<and> y = acc_db d')"

interpretation account_run: session_ledger "account_db_step env show_id" for env show_id
  by unfold_locales (auto simp: account_db_step_def intro: step_run_keeps)

lemma run_on_db:
  assumes "(account_step env show_id)\<^sup>*\<^sup>* d d'" "account_constraints d"
  shows "(account_db_step env show_id)\<^sup>*\<^sup>* (acc_db d) (acc_db d')"
  using assms(1)
proof (induction rule: rtranclp_induct)
  case (step y z)
  have "account_constraints y" using confirmation_links.run_once[OF step(1) assms(2)] by blast
  then have "account_db_step env show_id (acc_db y) (acc_db z)" using step(2) unfolding account_db_step_def by blast
  with step.IH show ?case by simp
qed simp

subsection \<open>Properties\<close>

lemma run_links: "(account_step env show_id)\<^sup>*\<^sup>* d d' \<Longrightarrow> links_ok env d \<Longrightarrow> links_ok env d'"
  by (induction rule: rtranclp_induct) (auto intro: step_links)

lemma verified_cases:
  assumes "verify_email env d tok t now = (d', Inr st)" "ecs_status st = ''confirmed''"
  obtains c where "c \<in> set (email_confirmations d)" "ec_token_digest c = ace_sha256 env tok" "live_confirmation c" "t < ec_expires_at c"
    "ecs_email st = Some (ec_email c)"
    "users (acc_db d') = update_where (\<lambda>u. u_id u = ec_user_id c) (\<lambda>u. u\<lparr>u_email_confirmed_at := Some now\<rparr>) (users (acc_db d))"
proof (cases "get_by ec_token_digest (ace_sha256 env tok) (email_confirmations d)")
  case None
  then show ?thesis using assms by (auto simp: verify_email_def)
next
  case (Some c)
  show ?thesis
  proof (rule that)
    show "c \<in> set (email_confirmations d)" "ec_token_digest c = ace_sha256 env tok" using get_by_SomeD[OF Some] by auto
  qed (use assms Some in \<open>auto simp: verify_email_def account_commit_def split: if_splits\<close>)
qed


text \<open>A confirmation link works once: once it was used or a newer one replaced it, it confirms nothing ever again, whatever
  happens in between.\<close>

theorem spent_confirmation_never_confirms:
  assumes "(account_step env show_id)\<^sup>*\<^sup>* d d'" "account_constraints d" "c \<in> set (email_confirmations d)"
    and "ec_token_digest c = ace_sha256 env tok" "ec_confirmed_at c \<noteq> None \<or> ec_superseded_at c \<noteq> None"
  shows "\<exists>st. verify_email env d' tok t now = (d', Inr st) \<and> ecs_status st \<noteq> ''confirmed''"
  using confirmation_links.spent_for_good[OF assms(1-3)] assms(4,5) by (auto simp: verify_email_def)

lemma revoked_rows:
  assumes "s \<in> set (auth_sessions (acc_db d))" "Q s"
  shows "\<exists>s' \<in> set (auth_sessions (acc_db (revoke_sessions Q why now d))). as_token_digest s' = as_token_digest s \<and> as_revoked_at s' \<noteq> None"
  using in_update_where[OF assms(1), of "\<lambda>r. Q r \<and> as_revoked_at r = None" "\<lambda>r. r\<lparr>as_revoked_at := Some now, as_revocation_reason := Some why\<rparr>"] assms(2)
  unfolding revoke_sessions_def
  by (intro bexI[of _ "if Q s \<and> as_revoked_at s = None then s\<lparr>as_revoked_at := Some now, as_revocation_reason := Some why\<rparr> else s"]) auto

text \<open>A session revoked by one of these routes is refused for good.\<close>

lemma revoked_session_is_refused:
  assumes "(account_step env show_id)\<^sup>*\<^sup>* d d'" "account_constraints d" "s \<in> set (auth_sessions (acc_db d))" "as_revoked_at s \<noteq> None"
    and "as_token_digest s = token_digest aenv access_token"
  shows "\<exists>e. authenticate aenv (acc_db d') access_token now = (acc_db d', Inl e)"
proof -
  have ok: "auth_sessions_ok (auth_sessions (acc_db d))" using assms(2) by (simp add: account_constraints_def db_constraints_def)
  have "get_by as_token_digest (token_digest aenv access_token) (auth_sessions (acc_db d)) = Some s"
    using get_by_in[OF auth_sessions_okD(2)[OF ok] assms(3)] assms(5) by simp
  then show ?thesis using account_run.revoked_forever[OF run_on_db[OF assms(1,2)] ok _ assms(4)] by blast
qed

text \<open>Claim C7.  Resetting a password signs its owner out everywhere and uses the link up: after any further requests every session the account had is
  refused, the same link is refused and changes nothing, and right after the reset it is the new password that the account accepts.\<close>

theorem password_reset_takes_over:
  assumes "complete_password_reset env d tok pw now = (d1, Inr ())" "account_constraints d" "(account_step env show_id)\<^sup>*\<^sup>* d1 d2"
    and "env_argon_verify (ace_auth env) (hash_password env pw) (env_password_hmac (ace_auth env) pw)" "hash_password env pw \<noteq> []"
  shows "\<exists>row \<in> set (password_reset_tokens d). prt_token_digest row = ace_sha256 env tok \<and> prt_used_at row = None \<and> now < prt_expires_at row \<and>
     (\<exists>u \<in> set (users (acc_db d1)). u_id u = prt_user_id row \<and> verify_password (ace_auth env) (u_password_hash u) pw) \<and>
     (\<forall>s \<in> set (auth_sessions (acc_db d)). \<forall>access_token t. as_user_id s = prt_user_id row \<and> as_token_digest s = token_digest (ace_auth env) access_token \<longrightarrow>
        (\<exists>e. authenticate (ace_auth env) (acc_db d2) access_token t = (acc_db d2, Inl e))) \<and>
     (\<forall>pw' t. complete_password_reset env d2 tok pw' t = (d2, Inl (refuse 400 ''Reset link is invalid or expired'')))"
  using assms(1)
proof (cases rule: reset_cases)
  case (2 row user)
  have row: "row \<in> set (password_reset_tokens d)" "prt_token_digest row = ace_sha256 env tok" "prt_used_at row = None" "now < prt_expires_at row"
    using find_SomeD[OF 2(1)] by auto
  have user: "user \<in> set (users (acc_db d))" "u_id user = prt_user_id row" using get_by_SomeD[OF 2(2)] by auto
  let ?f = "\<lambda>u. u\<lparr>u_password_hash := Some (hash_password env pw), u_auth_method := AM_EMAIL_PASSWORD\<rparr>"
  have "?f user \<in> set (users (acc_db d1))" unfolding 2(5) using updated_row_in[OF user(1), of "\<lambda>u. u_id u = u_id user" ?f] by simp
  moreover have "verify_password (ace_auth env) (Some (hash_password env pw)) pw" using assms(4,5) by (simp add: verify_password_def or_dummy_def)
  ultimately have 1: "\<exists>u \<in> set (users (acc_db d1)). u_id u = prt_user_id row \<and> verify_password (ace_auth env) (u_password_hash u) pw"
    using user(2) by (intro bexI[of _ "?f user"]) simp_all
  have 3: "\<exists>e. authenticate (ace_auth env) (acc_db d2) access_token t = (acc_db d2, Inl e)"
    if s: "s \<in> set (auth_sessions (acc_db d))" "as_user_id s = prt_user_id row" "as_token_digest s = token_digest (ace_auth env) access_token" for s access_token t
  proof -
    let ?d = "(put_user (u_id user) ?f d)\<lparr>password_reset_tokens := update_where (\<lambda>r. prt_id r = prt_id row) (\<lambda>r. r\<lparr>prt_used_at := Some now\<rparr>) (password_reset_tokens d)\<rparr>"
    obtain s' where "s' \<in> set (auth_sessions (acc_db d1))" "as_token_digest s' = as_token_digest s" "as_revoked_at s' \<noteq> None"
      using revoked_rows[of s ?d "\<lambda>r. as_user_id r = u_id user" "''password_reset''" now] s(1,2) user(2) unfolding 2(5) by auto
    then show ?thesis using revoked_session_is_refused[OF assms(3) 2(4)] s(3) by metis
  qed
  have "row\<lparr>prt_used_at := Some now\<rparr> \<in> set (password_reset_tokens d1)"
    unfolding 2(5) using updated_row_in[OF row(1), of "\<lambda>r. prt_id r = prt_id row" "\<lambda>r. r\<lparr>prt_used_at := Some now\<rparr>"] by simp
  from reset_links.spent_not_found[OF assms(3) 2(4) this, of "\<lambda>r. t < prt_expires_at r" for t]
  have "complete_password_reset env d2 tok pw' t = (d2, Inl (refuse 400 ''Reset link is invalid or expired''))" for pw' t
    using row(2) by (simp add: complete_password_reset_def)
  then show ?thesis using row 1 3 by blast
qed simp

text \<open>A run of wrong PINs on one signed-in tablet, and how many of them were compared with the stored PIN at all.\<close>

abbreviation pin_identity :: "account_env \<Rightarrow> user_row \<Rightarrow> string" where
  "pin_identity env u \<equiv> pin_change_digest env ''student'' (uuid_str (u_id u))"

fun try_pins :: "account_env \<Rightarrow> user_row \<Rightarrow> string \<Rightarrow> account_db \<Rightarrow> (pin_payload \<times> datetime \<times> datetime \<times> datetime) list \<Rightarrow> account_db \<times> nat" where
  "try_pins env u ip d [] = (d, 0)"
| "try_pins env u ip d ((payload, t1, now, t2) # rest) =
     (let (d', n) = try_pins env u ip (fst (change_own_pin env d u ip payload t1 now t2)) rest in
      (d', n + (if pin_change_pause (acc_db d) (pin_identity env u) (pin_change_digest env ''ip'' ip) t1 = None then 1 else 0)))"

definition pin_failures_since :: "string \<Rightarrow> datetime \<Rightarrow> db \<Rightarrow> nat" where
  "pin_failures_since identity t0 d = count_where (\<lambda>a. \<not> la_succeeded a \<and> t0 \<le> la_occurred_at a \<and> la_identity_digest a = identity) (login_attempts d)"

lemma few_failures:
  assumes "pin_change_pause d identity ip t1 = None" "t1 - PIN_CHANGE_WINDOW \<le> t0"
  shows "pin_failures_since identity t0 d < PIN_CHANGE_MAX_ATTEMPTS"
proof -
  have "pin_failures_since identity t0 d \<le> count_where (\<lambda>a. \<not> la_succeeded a \<and> t1 - PIN_CHANGE_WINDOW \<le> la_occurred_at a \<and>
      (la_identity_digest a = identity \<or> la_ip_digest a = ip)) (login_attempts d)"
    unfolding pin_failures_since_def by (rule count_where_mono) (use assms(2) in auto)
  also have "\<dots> = length (pin_change_failures d identity ip t1)" by (simp add: count_where_def pin_change_failures_def)
  also have "\<dots> < PIN_CHANGE_MAX_ATTEMPTS"
    using assms(1) by (cases "pin_change_failures d identity ip t1") (auto simp: pin_change_pause_def Let_def PIN_CHANGE_MAX_ATTEMPTS_def split: if_splits)
  finally show ?thesis .
qed

lemma wrong_pin_recorded:
  assumes "account_constraints d" "u_pin_hash u \<noteq> None" "\<not> verify_pin (ace_auth env) (u_pin_hash u) (present (pp_current_pin payload))"
  shows "fst (change_own_pin env d u ip payload t1 now t2) =
    (if pin_change_pause (acc_db d) (pin_identity env u) (pin_change_digest env ''ip'' ip) t1 = None
     then d\<lparr>acc_db := record_attempt (acc_db d) (pin_identity env u) (pin_change_digest env ''ip'' ip) False now\<rparr> else d)"
proof -
  let ?d = "d\<lparr>acc_db := record_attempt (acc_db d) (pin_identity env u) (pin_change_digest env ''ip'' ip) False now\<rparr>"
  have "account_constraints ?d" using assms(1) by (simp add: account_constraints_def db_constraints_def record_attempt_def)
  then show ?thesis using assms(2,3) by (auto simp: change_own_pin_def Let_def account_commit_def split: option.splits)
qed

text \<open>A child's PIN cannot be guessed from a tablet that is already signed in: of any number of wrong guesses within a quarter of an hour
  at most five are compared with the stored PIN, and none of them changes an account.\<close>

theorem pin_change_guesses_are_bounded:
  assumes "account_constraints d" "u_pin_hash u \<noteq> None"
    and "\<forall>(payload, t1, now, t2) \<in> set guesses. \<not> verify_pin (ace_auth env) (u_pin_hash u) (present (pp_current_pin payload)) \<and>
      t0 \<le> now \<and> t1 \<le> t0 + PIN_CHANGE_WINDOW"
    and "try_pins env u ip d guesses = (d', n)"
  shows "n \<le> 5 - pin_failures_since (pin_identity env u) t0 (acc_db d) \<and> users (acc_db d') = users (acc_db d)"
  using assms(1,3,4)
proof (induction guesses arbitrary: d n)
  case (Cons g gs)
  obtain payload t1 now t2 where g: "g = (payload, t1, now, t2)" by (cases g) auto
  let ?ip = "pin_change_digest env ''ip'' ip" and ?p = "pin_change_pause (acc_db d) (pin_identity env u) (pin_change_digest env ''ip'' ip) t1"
  have w: "\<not> verify_pin (ace_auth env) (u_pin_hash u) (present (pp_current_pin payload))" "t0 \<le> now" "t1 - PIN_CHANGE_WINDOW \<le> t0"
    using Cons.prems(2) unfolding g by auto
  have rest: "\<forall>(payload, t1, now, t2) \<in> set gs. \<not> verify_pin (ace_auth env) (u_pin_hash u) (present (pp_current_pin payload)) \<and>
      t0 \<le> now \<and> t1 \<le> t0 + PIN_CHANGE_WINDOW" using Cons.prems(2) by auto
  define e where "e = fst (change_own_pin env d u ip payload t1 now t2)"
  have e: "e = (if ?p = None then d\<lparr>acc_db := record_attempt (acc_db d) (pin_identity env u) ?ip False now\<rparr> else d)"
    unfolding e_def by (rule wrong_pin_recorded[OF Cons.prems(1) assms(2) w(1)])
  obtain m where m: "try_pins env u ip e gs = (d', m)" "n = m + (if ?p = None then 1 else 0)"
    using Cons.prems(3) unfolding g by (auto simp: Let_def e_def split: prod.splits)
  have "account_constraints e" using Cons.prems(1) by (simp add: e account_constraints_def db_constraints_def record_attempt_def)
  from Cons.IH[OF this rest m(1)]
  have ih: "m \<le> 5 - pin_failures_since (pin_identity env u) t0 (acc_db e)" "users (acc_db d') = users (acc_db e)" by auto
  have us: "users (acc_db e) = users (acc_db d)" by (simp add: e record_attempt_def)
  show ?case
  proof (cases "?p = None")
    case True
    have "pin_failures_since (pin_identity env u) t0 (acc_db e) = Suc (pin_failures_since (pin_identity env u) t0 (acc_db d))"
      using True w(2) by (simp add: e pin_failures_since_def record_attempt_def)
    moreover have "pin_failures_since (pin_identity env u) t0 (acc_db d) < 5"
      using few_failures[OF True w(3)] by (simp add: PIN_CHANGE_MAX_ATTEMPTS_def)
    ultimately show ?thesis using ih us m(2) True by simp
  next
    case False
    then have "e = d" "n = m" using e m(2) by (simp_all only: if_False add_0_right)
    then show ?thesis using ih us by simp
  qed
qed simp

lemma inactive_account: "u_status u \<noteq> US_ACTIVE \<Longrightarrow> \<exists>a. find_account d (Some u) = Some a \<and> \<not> is_active a"
  by (cases "u_status u") (auto simp: find_account_def to_auth_user_def is_active_def Let_def)

lemma issue_inactive:
  assumes "get_by u_id i (users d) = Some u" "u_status u \<noteq> US_ACTIVE"
  shows "issue_for_provisioned_user env show_id d i now tok sid = (d, Inl AccountPausedError)"
  using inactive_account[OF assms(2), of d] assms(1) by (auto simp: issue_for_provisioned_user_def find_by_id_def)

lemma redeem_joined:
  assumes "List.find (\<lambda>g. og_token_digest g = ace_sha256 env (present (pp_onboarding_token payload)) \<and> og_used_at g = None \<and> t1 < og_expires_at g)
      (onboarding_grants d) = Some grant" "present (pp_onboarding_token payload) \<noteq> []" "present (pp_first_name payload) \<noteq> []"
    and "account_constraints (joined_db env d grant payload now hex i e)"
    and "issue_for_provisioned_user (ace_auth env) show_id (acc_db (joined_db env d grant payload now hex i e)) i now tok sid = (db', Inl err)"
  shows "redeem_onboarding_grant env show_id d payload t1 now hex i e tok sid = ((joined_db env d grant payload now hex i e)\<lparr>acc_db := db'\<rparr>, Inl (SignInFault err))"
  using assms unfolding redeem_onboarding_grant_def Let_def joined_db_def by (simp add: account_commit_def)

lemma spent_grant_refused:
  assumes "\<And>g. g \<in> set (onboarding_grants d) \<Longrightarrow> og_token_digest g = ace_sha256 env (present (pp_onboarding_token payload)) \<Longrightarrow> og_used_at g \<noteq> None"
    and "present (pp_onboarding_token payload) \<noteq> []" "present (pp_first_name payload) \<noteq> []"
  shows "redeem_onboarding_grant env show_id d payload t1 now hex i e tok sid = (d, Inl (refuse 404 ''Onboarding session is invalid or expired''))"
proof -
  have "List.find (\<lambda>g. og_token_digest g = ace_sha256 env (present (pp_onboarding_token payload)) \<and> og_used_at g = None \<and> t1 < og_expires_at g)
      (onboarding_grants d) = None" unfolding find_None_iff_all using assms(1) by blast
  then show ?thesis using assms(2,3) by (simp add: redeem_onboarding_grant_def)
qed

text \<open>Claim C8.  Joining a school whose invoice is overdue spends the class link and then fails: the account is created and waits for the invoice, but the
  sign-in that follows the commit refuses an account that is not active, so the child is never told the identifier the account signs in with, and
  the link does not work a second time.\<close>

theorem uncovered_child_is_left_outside:
  assumes "List.find (\<lambda>g. og_token_digest g = ace_sha256 env (present (pp_onboarding_token payload)) \<and> og_used_at g = None \<and> t1 < og_expires_at g)
      (onboarding_grants d) = Some grant" "present (pp_onboarding_token payload) \<noteq> []" "present (pp_first_name payload) \<noteq> []"
    and "\<not> covered_by_a_current_invoice (acc_db d) (og_school_id grant) now" "account_constraints (joined_db env d grant payload now hex i e)"
  shows "set_pin env show_id rq d None ip payload t1 now t2 hex i e tok sid = (joined_db env d grant payload now hex i e, Inl (SignInFault AccountPausedError)) \<and>
     set_pin env show_id rq (joined_db env d grant payload now hex i e) None ip payload t1' now' t2 hex' i' e' tok' sid' =
       (joined_db env d grant payload now hex i e, Inl (refuse 404 ''Onboarding session is invalid or expired''))"
proof
  let ?d = "joined_db env d grant payload now hex i e" and ?u = "onboarded_student env (acc_db d) grant payload now hex i"
  have u: "?u \<in> set (users (acc_db ?d))" "u_id ?u = i" "u_status ?u = US_INVITED"
    using assms(4) by (simp_all add: joined_db_def onboarded_student_def new_user_def)
  have "get_by u_id i (users (acc_db ?d)) = Some ?u" using get_by_in[OF constraints_distinct_users[OF assms(5)] u(1)] u(2) by simp
  from issue_inactive[OF this] u(3)
  have "issue_for_provisioned_user (ace_auth env) show_id (acc_db ?d) i now tok sid = (acc_db ?d, Inl AccountPausedError)" by simp
  from redeem_joined[OF assms(1-3,5) this]
  show "set_pin env show_id rq d None ip payload t1 now t2 hex i e tok sid = (?d, Inl (SignInFault AccountPausedError))" by (simp add: set_pin_def)
  have grant: "grant \<in> set (onboarding_grants d)" "og_token_digest grant = ace_sha256 env (present (pp_onboarding_token payload))"
    using find_SomeD[OF assms(1)] by auto
  have used: "grant\<lparr>og_used_at := Some now\<rparr> \<in> set (onboarding_grants ?d)"
    using updated_row_in[OF grant(1), of "\<lambda>g. og_id g = og_id grant" "\<lambda>g. g\<lparr>og_used_at := Some now\<rparr>"] by (simp add: joined_db_def)
  have dist: "distinct (map og_token_digest (onboarding_grants ?d))" using assms(5) by (simp add: account_constraints_def)
  have "og_used_at g \<noteq> None" if "g \<in> set (onboarding_grants ?d)" "og_token_digest g = ace_sha256 env (present (pp_onboarding_token payload))" for g
    using get_by_in[OF dist that(1)] get_by_in[OF dist used] that(2) grant(2) by simp
  from spent_grant_refused[OF this assms(2,3)]
  show "set_pin env show_id rq ?d None ip payload t1' now' t2 hex' i' e' tok' sid' = (?d, Inl (refuse 404 ''Onboarding session is invalid or expired''))"
    by (simp add: set_pin_def)
qed

text \<open>A school that registers is run from the first moment and closed to an impostor: its first administrator oversees it and holds Learning
  Support, granted by nobody but themselves, and until the address is confirmed every write of theirs outside the routes for confirming it is refused.\<close>

theorem registered_school_is_guarded:
  assumes "register_school env m d payload ids now created = (d', Inr code)"
    and "ap_user_id p = ri_user_id ids" "writes rq" "\<not> py_startswith (rq_path rq) UNCONFIRMED_WRITE_ALLOWLIST"
  shows "0 < oversight_count (acc_db d') (ri_school_id ids) \<and>
     (\<exists>g \<in> set (holders (acc_db d') (ri_school_id ids)). lg_holder_user_id g = ri_user_id ids \<and> lg_granted_by_user_id g = ri_user_id ids) \<and>
     require_school_actor (Some rq) (acc_db d') p roles = Inl (HTTPException 403 ''email_not_confirmed'')"
  using assms(1)
proof (cases rule: register_cases)
  case (2 sn an d1 d2 c)
  let ?u = "registered_admin env payload an ids"
  have con: "account_constraints d2" and d': "acc_db d' = acc_db d2" using 2(6) by auto
  have db: "acc_db d' = registered_rows env payload sn an ids created (acc_db d)"
    unfolding d' issue_rows(1)[OF 2(5)] 2(3) by simp
  have u: "?u \<in> set (users (acc_db d'))" "u_id ?u = ri_user_id ids" "u_status ?u = US_ACTIVE" "u_role ?u = UR_OTHER_ADMIN"
      "u_email_confirmed_at ?u = None" "u_school_id ?u = Some (ri_school_id ids)"
    by (simp_all add: db registered_rows_def registered_admin_def new_user_def)
  have "distinct (map u_id (users (acc_db d')))" using constraints_distinct_users[OF con] d' by simp
  from get_by_in[OF this u(1)] have get: "get_by u_id (ap_user_id p) (users (acc_db d')) = Some ?u" using u(2) assms(2) by simp
  have "require_school_actor (Some rq) (acc_db d') p roles = Inl (HTTPException 403 ''email_not_confirmed'')"
    using get u(4,5) assms(3,4) by (simp add: require_school_actor_def actor_user_def refuse_unconfirmed_write_def ADMIN_ROLES_def)
  moreover have "\<exists>s \<in> set (scope_assignments (acc_db d')). oversight_row (acc_db d') (ri_school_id ids) s"
    using u(1-3) unfolding oversight_row_def by (auto simp: db registered_rows_def all_permission_scopes_def)
  then have "0 < oversight_count (acc_db d') (ri_school_id ids)" unfolding oversight_count_def using count_where_0_iff by (metis gr0I)
  moreover have "\<exists>g \<in> set (holders (acc_db d') (ri_school_id ids)). lg_holder_user_id g = ri_user_id ids \<and> lg_granted_by_user_id g = ri_user_id ids"
    using u by (auto simp: holders_def staff_in_school_def LEARNING_SUPPORT_ROLES_def db registered_rows_def)
  ultimately show ?thesis by blast
qed simp

text \<open>The avatar an account shows.\<close>

definition avatar_in :: "account_db \<Rightarrow> uuid \<Rightarrow> (string \<times> string) option" where
  "avatar_in d i = Option.bind (get_by u_id i (users (acc_db d))) avatar_of"

lemma avatars_named: "combo \<in> set SHARED_DEVICE_AVATARS \<Longrightarrow> fst combo \<noteq> [] \<and> snd combo \<noteq> []"
  by (auto simp: SHARED_DEVICE_AVATARS_def SHARED_DEVICE_SHAPES_def SHARED_DEVICE_COLOURWAYS_def)

lemma avatar_in_put:
  assumes "fst a \<noteq> []" "snd a \<noteq> []" "get_by u_id i (users (acc_db d)) = Some u"
  shows "avatar_in (put_user i (\<lambda>u. u\<lparr>u_avatar_shape := Some (fst a), u_avatar_colourway := Some (snd a)\<rparr>) d) j = (if j = i then Some a else avatar_in d j)"
  using assms get_by_SomeD[of u_id j "users (acc_db d)"]
  by (cases "get_by u_id j (users (acc_db d))") (auto simp: avatar_in_def get_by_update_where avatar_of_def present_def)

lemma avatar_in_tiles [simp]: "avatar_in (d\<lparr>shared_device_profiles := x\<rparr>) j = avatar_in d j"
  by (simp add: avatar_in_def)

text \<open>The loop hands out the avatars nobody on the device shows, each once.\<close>

lemma place_tiles_avatars:
  assumes "place_tiles device school actor retained unclaimed ids d = Inr d'" "distinct unclaimed" "set unclaimed \<subseteq> set SHARED_DEVICE_AVATARS"
    and "\<And>j. j \<in> S \<Longrightarrow> avatar_in d j \<notin> Some ` set unclaimed" "set ids \<subseteq> S" "distinct ids"
    and "\<And>j. j \<in> set ids \<Longrightarrow> get_by u_id j (users (acc_db d)) \<noteq> None"
  shows "(\<forall>j. avatar_in d j \<noteq> None \<longrightarrow> avatar_in d' j = avatar_in d j) \<and>
     (\<forall>j \<in> set ids. avatar_in d' j \<noteq> None) \<and> (\<forall>j. j \<notin> set ids \<longrightarrow> avatar_in d' j = avatar_in d j) \<and>
     (\<forall>i \<in> set ids. avatar_in d i = None \<longrightarrow> (\<forall>j \<in> S. j \<noteq> i \<longrightarrow> avatar_in d' j \<noteq> avatar_in d' i)) \<and>
     (\<forall>j \<in> set ids. avatar_in d j = None \<longrightarrow> avatar_in d' j \<in> Some ` set unclaimed)"
  using assms
proof (induction ids arbitrary: retained unclaimed d)
  case (Cons i ids)
  obtain u where u: "get_by u_id i (users (acc_db d)) = Some u" using Cons.prems(7)[of i] by auto
  have av: "avatar_in d i = avatar_of u" by (simp add: avatar_in_def u)
  show ?case
  proof (cases "avatar_of u")
    case (Some a)
    obtain e retained' where p: "place_tiles device school actor retained' unclaimed ids e = Inr d'" and e: "users (acc_db e) = users (acc_db d)"
      using Cons.prems(1) u Some by (cases "i \<in> set retained") (auto simp: Let_def)
    have same: "avatar_in e = avatar_in d" by (simp add: fun_eq_iff avatar_in_def e)
    note ih = Cons.IH[OF p Cons.prems(2,3), unfolded same e]
    show ?thesis using ih Cons.prems(4-7) av Some by auto
  next
    case None
    then obtain a rest where un: "unclaimed = a # rest" using Cons.prems(1) u by (cases unclaimed) (auto simp: Let_def)
    let ?d = "put_user i (\<lambda>u. u\<lparr>u_avatar_shape := Some (fst a), u_avatar_colourway := Some (snd a)\<rparr>) d"
    obtain e retained' where p: "place_tiles device school actor retained' rest ids e = Inr d'" and e: "users (acc_db e) = users (acc_db ?d)"
      using Cons.prems(1) u None un by (cases "i \<in> set retained") (auto simp: Let_def)
    have same: "avatar_in e = avatar_in ?d" by (simp add: fun_eq_iff avatar_in_def e)
    have a: "fst a \<noteq> []" "snd a \<noteq> []" "a \<notin> set rest" using avatars_named[of a] Cons.prems(2,3) un by auto
    have put: "avatar_in ?d j = (if j = i then Some a else avatar_in d j)" for j by (rule avatar_in_put[OF a(1,2) u])
    have fresh: "avatar_in d j \<noteq> Some a \<and> avatar_in d j \<notin> Some ` set rest" if "j \<in> S" for j using Cons.prems(4)[OF that] un by auto
    have ih: "(\<forall>j. avatar_in ?d j \<noteq> None \<longrightarrow> avatar_in d' j = avatar_in ?d j)"
      "(\<forall>j \<in> set ids. avatar_in d' j \<noteq> None)" "(\<forall>j. j \<notin> set ids \<longrightarrow> avatar_in d' j = avatar_in ?d j)"
      "(\<forall>i \<in> set ids. avatar_in ?d i = None \<longrightarrow> (\<forall>j \<in> S. j \<noteq> i \<longrightarrow> avatar_in d' j \<noteq> avatar_in d' i))"
      "(\<forall>j \<in> set ids. avatar_in ?d j = None \<longrightarrow> avatar_in d' j \<in> Some ` set rest)"
    proof -
      have "(\<forall>j. avatar_in ?d j \<noteq> None \<longrightarrow> avatar_in d' j = avatar_in ?d j) \<and>
        (\<forall>j \<in> set ids. avatar_in d' j \<noteq> None) \<and> (\<forall>j. j \<notin> set ids \<longrightarrow> avatar_in d' j = avatar_in ?d j) \<and>
        (\<forall>i \<in> set ids. avatar_in ?d i = None \<longrightarrow> (\<forall>j \<in> S. j \<noteq> i \<longrightarrow> avatar_in d' j \<noteq> avatar_in d' i)) \<and>
        (\<forall>j \<in> set ids. avatar_in ?d j = None \<longrightarrow> avatar_in d' j \<in> Some ` set rest)"
      proof (rule Cons.IH[OF p, unfolded same e])
        show "distinct rest" "set rest \<subseteq> set SHARED_DEVICE_AVATARS" "set ids \<subseteq> S" "distinct ids" using Cons.prems un by auto
        show "avatar_in ?d j \<notin> Some ` set rest" if "j \<in> S" for j using fresh[OF that] a(3) by (auto simp: put)
        show "get_by u_id j (users (acc_db ?d)) \<noteq> None"
          if "j \<in> set ids" for j using Cons.prems(7)[of j] that by (simp add: get_by_update_where)
      qed
      then show "(\<forall>j. avatar_in ?d j \<noteq> None \<longrightarrow> avatar_in d' j = avatar_in ?d j)"
        "(\<forall>j \<in> set ids. avatar_in d' j \<noteq> None)" "(\<forall>j. j \<notin> set ids \<longrightarrow> avatar_in d' j = avatar_in ?d j)"
        "(\<forall>i \<in> set ids. avatar_in ?d i = None \<longrightarrow> (\<forall>j \<in> S. j \<noteq> i \<longrightarrow> avatar_in d' j \<noteq> avatar_in d' i))"
        "(\<forall>j \<in> set ids. avatar_in ?d j = None \<longrightarrow> avatar_in d' j \<in> Some ` set rest)" by blast+
    qed
    have mine: "avatar_in d' i = Some a" using ih(1) by (auto simp: put)
    have theirs: "avatar_in d' j \<noteq> Some a" if j: "j \<in> S" "j \<noteq> i" for j
    proof (cases "avatar_in d j")
      case None
      then show ?thesis using ih(3,5) a(3) j by (cases "j \<in> set ids") (auto simp: put)
    next
      case (Some b)
      then show ?thesis using ih(1) fresh[OF j(1)] j(2) by (auto simp: put)
    qed
    have i: "i \<notin> set ids" using Cons.prems(6) by simp
    have none: "avatar_in d i = None" using av None by simp
    show ?thesis
    proof (intro conjI allI ballI impI)
      fix j assume "avatar_in d j \<noteq> None"
      then show "avatar_in d' j = avatar_in d j" using ih(1) none by (auto simp: put split: if_splits)
    next
      fix j assume "j \<in> set (i # ids)"
      then show "avatar_in d' j \<noteq> None" using ih(2) mine by auto
    next
      fix j assume "j \<notin> set (i # ids)"
      then show "avatar_in d' j = avatar_in d j" using ih(3) by (simp add: put)
    next
      fix k j assume k: "k \<in> set (i # ids)" "avatar_in d k = None" "j \<in> S" "j \<noteq> k"
      then show "avatar_in d' j \<noteq> avatar_in d' k" using ih(4) theirs mine i by (cases "k = i") (auto simp: put)
    next
      fix j assume "j \<in> set (i # ids)" "avatar_in d j = None"
      then show "avatar_in d' j \<in> Some ` set unclaimed" using ih(5) mine i un by (cases "j = i") (auto simp: put)
    qed
  qed
qed auto

lemma place_tiles_total: "length ids \<le> length unclaimed \<Longrightarrow> \<exists>d'. place_tiles device school actor retained unclaimed ids d = Inr d'"
proof (induction ids arbitrary: retained unclaimed d)
  case (Cons i ids)
  then obtain a rest where un: "unclaimed = a # rest" "length ids \<le> length rest" by (cases unclaimed) auto
  show ?case
    using Cons.IH[of unclaimed] Cons.IH[of rest] Cons.prems un
    by (cases "get_by u_id i (users (acc_db d))"; cases "avatar_of (the (get_by u_id i (users (acc_db d))))") (simp_all add: Let_def)
qed simp

text \<open>The avatars of the requested children, and those left.\<close>

definition taken_avatars :: "db \<Rightarrow> uuid list \<Rightarrow> (string \<times> string) list" where
  "taken_avatars d ids = List.map_filter avatar_of (filter (\<lambda>u. u_id u \<in> set ids) (users d))"

lemma enough_avatars:
  assumes "distinct (map u_id (users d))" "length ids \<le> 6"
  shows "length ids \<le> length (filter (\<lambda>combo. combo \<notin> set (taken_avatars d ids)) SHARED_DEVICE_AVATARS)"
proof -
  let ?rows = "filter (\<lambda>u. u_id u \<in> set ids) (users d)"
  have "distinct (map u_id ?rows)" using assms(1) by (rule distinct_map_filter)
  then have "length ?rows = card (u_id ` set ?rows)" using distinct_card by fastforce
  also have "\<dots> \<le> card (set ids)" by (rule card_mono) auto
  also have "\<dots> \<le> 6" using card_length[of ids] assms(2) by linarith
  finally have "length ?rows \<le> 6" .
  then have "length (taken_avatars d ids) \<le> 6"
    unfolding taken_avatars_def List.map_filter_def using order.trans[OF length_filter_le[of "\<lambda>u. avatar_of u \<noteq> None" ?rows]] by simp
  then have t: "card (set (taken_avatars d ids)) \<le> 6" using card_length[of "taken_avatars d ids"] by linarith
  have dist: "distinct SHARED_DEVICE_AVATARS" and len: "length SHARED_DEVICE_AVATARS = 18" by code_simp+
  have "18 = card (set SHARED_DEVICE_AVATARS)" using distinct_card[OF dist] len by simp
  also have "\<dots> \<le> card (set (filter (\<lambda>combo. combo \<notin> set (taken_avatars d ids)) SHARED_DEVICE_AVATARS) \<union> set (taken_avatars d ids))"
    by (rule card_mono) auto
  also have "\<dots> \<le> card (set (filter (\<lambda>combo. combo \<notin> set (taken_avatars d ids)) SHARED_DEVICE_AVATARS)) + 6"
    using t by (intro order.trans[OF card_Un_le]) simp
  also have "\<dots> \<le> length (filter (\<lambda>combo. combo \<notin> set (taken_avatars d ids)) SHARED_DEVICE_AVATARS) + 6"
    by (intro add_right_mono card_length)
  finally show ?thesis using assms(2) by linarith
qed

lemma provision_cases:
  assumes "provision_shared_device_profiles rq d p device ids = (d', r)"
  obtains e where "d' = d" "r = Inl (Refused e)"
  | school actor retained d1 where "users (acc_db d1) = users (acc_db d)" "distinct ids" "length ids \<le> 6"
      "set ids \<subseteq> u_id ` set (users (acc_db d))"
      "(case place_tiles device school actor retained (filter (\<lambda>combo. combo \<notin> set (taken_avatars (acc_db d) ids)) SHARED_DEVICE_AVATARS) ids d1 of
         Inl e \<Rightarrow> (d, Inl e) | Inr d2 \<Rightarrow> account_commit d d2 ()) = (d', r)"
proof (cases "ids = [] \<or> 6 < length ids \<or> \<not> distinct ids")
  case True
  then show ?thesis using assms that(1) unfolding provision_shared_device_profiles_def by auto
next
  case False
  show ?thesis
  proof (cases "require_school_actor rq (acc_db d) p [''teacher'', ''senco_admin'', ''other_admin'']")
    case (Inl e)
    then show ?thesis using assms False that(1) unfolding provision_shared_device_profiles_def by auto
  next
    case (Inr actor)
    let ?st = "tile_students (acc_db d) (u_school_id actor) ids" and ?sc = "the (u_school_id actor)"
    show ?thesis
    proof (cases "set (map u_id ?st) \<noteq> set ids \<or> list_ex (\<lambda>u. u_login_identifier u = None) ?st \<or>
        exists_where (\<lambda>r. sdp_device_id r = device \<and> sdp_school_id r \<noteq> ?sc) (shared_device_profiles d)")
      case True
      then show ?thesis using assms False Inr that(1)[of "HTTPException 404 ''One or more students were not found''"]
          that(1)[of "HTTPException 409 ''Every device profile needs a login identifier''"] that(1)[of "HTTPException 404 ''Shared device not found''"]
        unfolding provision_shared_device_profiles_def Let_def by (auto split: if_splits simp del: exists_where_iff)
    next
      case ok: False
      have sub: "set ids \<subseteq> u_id ` set (users (acc_db d))" using ok by (auto simp: tile_students_def)
      show ?thesis
        by (rule that(2)[of "d\<lparr>shared_device_profiles := delete_where (\<lambda>r. (sdp_device_id r = device \<and> sdp_school_id r = ?sc) \<and> sdp_student_id r \<notin> set ids)
              (shared_device_profiles d)\<rparr>" ?sc "u_id actor"
              "filter (\<lambda>i. i \<in> set ids) (map sdp_student_id (filter (\<lambda>r. sdp_device_id r = device \<and> sdp_school_id r = ?sc) (shared_device_profiles d)))"])
          (use assms False Inr ok sub in \<open>simp_all add: provision_shared_device_profiles_def Let_def taken_avatars_def del: exists_where_iff\<close>)
    qed
  qed
qed

text \<open>Claim C9.  Children tell their tiles apart, and a tablet never runs out of avatars: provisioning never fails for want of one; afterwards every child
  on the tablet has an avatar, a child who had one keeps it, and an avatar chosen now differs from every other child's on the tablet.\<close>

theorem tiles_tell_children_apart:
  assumes "account_constraints d" "provision_shared_device_profiles rq d p device ids = (d', r)"
  shows "r \<noteq> Inl StopIteration \<and> (r = Inr () \<longrightarrow> (\<forall>i \<in> set ids. avatar_in d' i \<noteq> None \<and>
     (avatar_in d i \<noteq> None \<longrightarrow> avatar_in d' i = avatar_in d i) \<and>
     (avatar_in d i = None \<longrightarrow> (\<forall>j \<in> set ids. j \<noteq> i \<longrightarrow> avatar_in d' j \<noteq> avatar_in d' i))))"
  using assms(2)
proof (cases rule: provision_cases)
  case (2 school actor retained d1)
  let ?free = "filter (\<lambda>combo. combo \<notin> set (taken_avatars (acc_db d) ids)) SHARED_DEVICE_AVATARS"
  note dist = constraints_distinct_users[OF assms(1)]
  obtain d2 where d2: "place_tiles device school actor retained ?free ids d1 = Inr d2"
    using place_tiles_total[OF enough_avatars[OF dist 2(3)]] by blast
  have c: "account_commit d d2 () = (d', r)" using 2(5) d2 by simp
  have same: "avatar_in d1 = avatar_in d" by (simp add: fun_eq_iff avatar_in_def 2(1))
  have taken: "a \<in> set (taken_avatars (acc_db d) ids)" if j: "j \<in> set ids" "avatar_in d j = Some a" for j a
  proof -
    obtain u where "u \<in> set (users (acc_db d))" "u_id u = j" "avatar_of u = Some a"
      using j(2) by (auto simp: avatar_in_def bind_eq_Some_conv dest: get_by_SomeD)
    then show ?thesis using j(1) by (force simp: taken_avatars_def List.map_filter_def)
  qed
  have free: "avatar_in d j \<notin> Some ` set ?free" if "j \<in> set ids" for j using taken[OF that] by auto
  have "distinct ?free" by (intro distinct_filter) code_simp
  have found: "get_by u_id j (users (acc_db d)) \<noteq> None" if "j \<in> set ids" for j using 2(4) that by (auto simp: get_by_None_iff)
  note av = place_tiles_avatars[OF d2 \<open>distinct ?free\<close>, of "set ids", unfolded same 2(1), OF _ free subset_refl 2(2) found, simplified]
  show ?thesis
    using c
  proof (cases rule: account_commit_cases)
    case 1
    then show ?thesis using av by auto
  qed simp
qed simp

subsection \<open>Witnesses\<close>

text \<open>A school's administrator with an unanswered link, a child with a PIN, a class and an overdue invoice.\<close>

definition account_sample_env :: account_env where
  "account_sample_env = \<lparr>ace_auth = sample_env, ace_sha256 = (\<lambda>s. ''sha:'' @ s), ace_argon_hash = (\<lambda>s. s)\<rparr>"

definition unconfirmed_admin :: user_row where
  "unconfirmed_admin = (new_user 20 (Some 1) UR_OTHER_ADMIN AM_EMAIL_PASSWORD)\<lparr>u_email := Some ''o@b.ng'', u_password_hash := Some ''pw''\<rparr>"

definition tablet_child :: user_row where
  "tablet_child = (new_user 10 (Some 1) UR_STUDENT AM_PIN)\<lparr>u_login_identifier := Some ''nv-1'', u_pin_hash := Some ''1234''\<rparr>"

definition second_child :: user_row where
  "second_child = (new_user 11 (Some 1) UR_STUDENT AM_PIN)\<lparr>u_login_identifier := Some ''nv-2'',
     u_avatar_shape := Some ''circle'', u_avatar_colourway := Some ''navy''\<rparr>"

definition account_sample :: account_db where
  "account_sample = \<lparr>acc_db = empty_db\<lparr>schools := [sample_school], users := [unconfirmed_admin, tablet_child, second_child],
       auth_sessions := [\<lparr>as_id = 70, as_user_id = 20, as_role = UR_OTHER_ADMIN, as_token_digest = token_digest sample_env ''web'', as_created_at = 0,
         as_last_seen_at = 0, as_expires_at = td_hours 1, as_revoked_at = None, as_revocation_reason = None, as_replaced_by_session_id = None\<rparr>]\<rparr>,
     email_confirmations = [\<lparr>ec_id = 1, ec_user_id = 20, ec_email = ''o@b.ng'', ec_token_digest = ''sha:t1'', ec_expires_at = td_hours 48,
       ec_confirmed_at = None, ec_superseded_at = None, ec_created_at = 0\<rparr>],
     password_reset_tokens = [\<lparr>prt_id = 2, prt_user_id = 20, prt_token_digest = ''sha:r1'', prt_expires_at = td_hours 1, prt_used_at = None\<rparr>],
     onboarding_grants = [], shared_device_profiles = [], acc_mail = [(''o@b.ng'', ''t1'')]\<rparr>"

abbreviation admin_principal :: auth_principal where
  "admin_principal \<equiv> \<lparr>ap_user_id = 20, ap_role = ''other_admin'', ap_session_id = 70\<rparr>"

abbreviation email_request :: request_facts where
  "email_request \<equiv> \<lparr>rq_method = ''PATCH'', rq_path = ''/api/v1/admin/email''\<rparr>"

text \<open>Correcting the address: the link that went to the mistyped one no longer works.\<close>

definition readdressed :: account_db where
  "readdressed = fst (change_email_before_confirmation account_sample_env True (Some email_request) account_sample admin_principal ''Owner@b.ng'' 5 5 3 ''t2'')"

lemma account_sample_ok: "links_ok account_sample_env account_sample"
  by code_simp

lemma readdressed_step: "account_step account_sample_env no_ids account_sample readdressed"
  by (rule account_step.readdress[of _ True "Some email_request" _ admin_principal "''Owner@b.ng''" 5 5 3 "''t2''" _
      "snd (change_email_before_confirmation account_sample_env True (Some email_request) account_sample admin_principal ''Owner@b.ng'' 5 5 3 ''t2'')"])
    (simp add: readdressed_def)

definition verified :: account_db where
  "verified = fst (verify_email account_sample_env readdressed ''t2'' 9 9)"


theorem spent_confirmation_never_confirms_witness:
  "\<exists>st. verify_email account_sample_env readdressed ''t1'' 9 9 = (readdressed, Inr st) \<and> ecs_status st \<noteq> ''confirmed''"
proof -
  have con: "account_constraints readdressed" by code_simp
  have "hd (email_confirmations readdressed) \<in> set (email_confirmations readdressed)" by code_simp
  moreover have "ec_token_digest (hd (email_confirmations readdressed)) = ace_sha256 account_sample_env ''t1''" by code_simp
  moreover have "ec_superseded_at (hd (email_confirmations readdressed)) = Some 5" by code_simp
  ultimately show ?thesis
    using spent_confirmation_never_confirms[of account_sample_env no_ids readdressed readdressed "hd (email_confirmations readdressed)" "''t1''" 9 9] con by simp
qed

definition reset_done :: account_db where
  "reset_done = fst (complete_password_reset account_sample_env account_sample ''r1'' ''longer-pw'' 7)"

theorem password_reset_takes_over_witness:
  "\<exists>e. authenticate sample_env (acc_db reset_done) ''web'' 8 = (acc_db reset_done, Inl e)"
proof -
  have s: "snd (complete_password_reset account_sample_env account_sample ''r1'' ''longer-pw'' 7) = Inr ()" by code_simp
  have r: "complete_password_reset account_sample_env account_sample ''r1'' ''longer-pw'' 7 = (reset_done, Inr ())"
    unfolding reset_done_def s[symmetric] by simp
  have con: "account_constraints account_sample" using account_sample_ok by (simp add: links_ok_def)
  have h: "env_argon_verify (ace_auth account_sample_env) (hash_password account_sample_env ''longer-pw'')
      (env_password_hmac (ace_auth account_sample_env) ''longer-pw'')" "hash_password account_sample_env ''longer-pw'' \<noteq> []" by code_simp+
  have s: "hd (auth_sessions (acc_db account_sample)) \<in> set (auth_sessions (acc_db account_sample))" "as_user_id (hd (auth_sessions (acc_db account_sample))) = 20"
    "as_token_digest (hd (auth_sessions (acc_db account_sample))) = token_digest sample_env ''web''" by code_simp+
  have a: "ace_auth account_sample_env = sample_env" by (simp add: account_sample_env_def)
  have only: "prt_user_id row = 20" if "row \<in> set (password_reset_tokens account_sample)" for row using that by (simp add: account_sample_def)
  from password_reset_takes_over[OF r con rtranclp.rtrancl_refl[of "account_step account_sample_env no_ids"] h]
  show ?thesis unfolding a using s only by metis
qed

text \<open>Six wrong PINs in a minute.\<close>

abbreviation wrong_pin :: pin_payload where
  "wrong_pin \<equiv> \<lparr>pp_pin = ''5678'', pp_current_pin = Some ''0000'', pp_onboarding_token = None, pp_first_name = None, pp_last_name = None, pp_age = None\<rparr>"

theorem pin_change_guesses_are_bounded_witness:
  "snd (try_pins account_sample_env tablet_child ''10.0.0.1'' account_sample (replicate 6 (wrong_pin, 1, 1, 1))) \<le> 5"
proof -
  have con: "account_constraints account_sample" using account_sample_ok by (simp add: links_ok_def)
  have "u_pin_hash tablet_child \<noteq> None" by code_simp
  moreover have "\<not> verify_pin (ace_auth account_sample_env) (u_pin_hash tablet_child) (present (pp_current_pin wrong_pin))" by code_simp
  then have "\<forall>(payload, t1, now, t2) \<in> set (replicate 6 (wrong_pin, 1, 1, 1)). \<not> verify_pin (ace_auth account_sample_env) (u_pin_hash tablet_child) (present (pp_current_pin payload)) \<and>
      (0::int) \<le> now \<and> t1 \<le> 0 + PIN_CHANGE_WINDOW" by (simp add: PIN_CHANGE_WINDOW_def td_minutes_def microseconds_per_second_def)
  ultimately have "snd (try_pins account_sample_env tablet_child ''10.0.0.1'' account_sample (replicate 6 (wrong_pin, 1, 1, 1)))
      \<le> 5 - pin_failures_since (pin_identity account_sample_env tablet_child) 0 (acc_db account_sample)"
    using pin_change_guesses_are_bounded[OF con _ _ prod.collapse[symmetric]] by blast
  then show ?thesis by linarith
qed

definition joining :: pin_payload where
  "joining = \<lparr>pp_pin = ''5678'', pp_current_pin = None, pp_onboarding_token = Some ''g1'', pp_first_name = Some ''Ada'', pp_last_name = None, pp_age = Some 9\<rparr>"

definition class_grant :: onboarding_grant_row where
  "class_grant = \<lparr>og_id = 4, og_school_id = 1, og_class_id = 30, og_token_digest = ''sha:g1'', og_expires_at = td_minutes 20, og_used_at = None\<rparr>"

definition overdue_sample :: account_db where
  "overdue_sample = account_sample\<lparr>onboarding_grants := [class_grant],
     acc_db := (acc_db account_sample)\<lparr>invoices := [\<lparr>inv_id = 50, inv_invoice_number = ''N-1'', inv_school_id = 1, inv_issued_at = utc_date 0, inv_amount = 10,
       inv_status = IS_PENDING, inv_due_at = utc_date 0, inv_paid_at = None, inv_pdf_url = [], inv_currency = PC_NGN, inv_student_count = None,
       inv_activation_student_ids = [], inv_per_student_rate = None, inv_total_before_vat = None, inv_vat_amount = None, inv_vat_rate = None,
       inv_period_label = None\<rparr>]\<rparr>\<rparr>"

theorem uncovered_child_is_left_outside_witness:
  "snd (set_pin account_sample_env no_ids None overdue_sample None [] joining (td_minutes 1) (td_days 3) 0 ''ab12'' 60 61 ''s'' 62) = Inl (SignInFault AccountPausedError)"
proof -
  have "List.find (\<lambda>g. og_token_digest g = ace_sha256 account_sample_env (present (pp_onboarding_token joining)) \<and> og_used_at g = None \<and> td_minutes 1 < og_expires_at g)
      (onboarding_grants overdue_sample) = Some class_grant" by code_simp
  moreover have "present (pp_onboarding_token joining) \<noteq> []" "present (pp_first_name joining) \<noteq> []" by code_simp+
  moreover have "\<not> covered_by_a_current_invoice (acc_db overdue_sample) (og_school_id class_grant) (td_days 3)" by code_simp
  moreover have "account_constraints (joined_db account_sample_env overdue_sample class_grant joining (td_days 3) ''ab12'' 60 61)" by code_simp
  ultimately show ?thesis using uncovered_child_is_left_outside[of account_sample_env joining "td_minutes 1" overdue_sample class_grant "td_days 3" "''ab12''" 60 61] by simp
qed

definition new_owner :: registration where
  "new_owner = \<lparr>rg_school_name = '' Hill View '', rg_admin_name = ''Ngozi Obi'', rg_email = ''N@h.ng'', rg_password = ''long-enough''\<rparr>"

definition owner_ids :: registration_ids where
  "owner_ids = \<lparr>ri_school_id = 101, ri_user_id = 102, ri_admin_id = 103, ri_grant_id = 104, ri_confirmation_id = 105, ri_code_picks = [1, 2, 3, 4],
     ri_slug_hex = ''ab12'', ri_token = ''t9''\<rparr>"

definition registered :: account_db where
  "registered = fst (register_school account_sample_env True account_sample new_owner owner_ids 5 5)"

theorem registered_school_is_guarded_witness:
  "0 < oversight_count (acc_db registered) 101 \<and>
   require_school_actor (Some \<lparr>rq_method = ''POST'', rq_path = ''/api/v1/classes''\<rparr>) (acc_db registered) \<lparr>ap_user_id = 102, ap_role = ''other_admin'', ap_session_id = 1\<rparr>
     ADMIN_ROLES = Inl (HTTPException 403 ''email_not_confirmed'')"
proof -
  have s: "snd (register_school account_sample_env True account_sample new_owner owner_ids 5 5) = Inr ''3456''" by code_simp
  have r: "register_school account_sample_env True account_sample new_owner owner_ids 5 5 = (registered, Inr ''3456'')"
    unfolding registered_def s[symmetric] by simp
  have w: "writes \<lparr>rq_method = ''POST'', rq_path = ''/api/v1/classes''\<rparr>"
    "\<not> py_startswith (rq_path \<lparr>rq_method = ''POST'', rq_path = ''/api/v1/classes''\<rparr>) UNCONFIRMED_WRITE_ALLOWLIST" by code_simp+
  have i: "ap_user_id \<lparr>ap_user_id = 102, ap_role = ''other_admin'', ap_session_id = 1\<rparr> = ri_user_id owner_ids" "ri_school_id owner_ids = 101"
    by (simp_all add: owner_ids_def)
  show ?thesis using registered_school_is_guarded[OF r i(1) w, of ADMIN_ROLES] unfolding i(2) by blast
qed

definition tiled :: account_db where
  "tiled = fst (provision_shared_device_profiles None account_sample admin_principal 80 [10, 11])"

theorem tiles_tell_children_apart_witness: "avatar_in tiled 10 \<noteq> avatar_in tiled 11"
proof -
  have con: "account_constraints account_sample" using account_sample_ok by (simp add: links_ok_def)
  have s: "snd (provision_shared_device_profiles None account_sample admin_principal 80 [10, 11]) = Inr ()" by code_simp
  have r: "provision_shared_device_profiles None account_sample admin_principal 80 [10, 11] = (tiled, Inr ())" unfolding tiled_def s[symmetric] by simp
  have "avatar_in account_sample 10 = None" by code_simp
  then show ?thesis using tiles_tell_children_apart[OF con r] by fastforce
qed

text \<open>Correcting the address has no interval of its own: within the two minutes in which a resend is refused, an unconfirmed administrator can have a
  message sent to any number of addresses, one request each.\<close>

theorem corrections_are_not_throttled:
  "snd (resend_confirmation account_sample_env True None account_sample (Some admin_principal) None 5 5 3 ''t2'') = Inl (RecentlySent 119) \<and>
   acc_mail (fst (change_email_before_confirmation account_sample_env True (Some email_request)
     (fst (change_email_before_confirmation account_sample_env True (Some email_request) account_sample admin_principal ''one@c.ng'' 5 5 3 ''t2''))
     admin_principal ''two@d.ng'' 5 5 4 ''t3'')) = [(''o@b.ng'', ''t1''), (''one@c.ng'', ''t2''), (''two@d.ng'', ''t3'')]"
  by code_simp

end
