(* ===== verification/Invitations.thy ===== *)
theory Invitations
  imports TeacherAssignments AccountAccess
begin

text \<open>
  Inviting staff into a school and joining it (the invitation and join handlers of \<^verbatim>\<open>nevo/api/product_auth.py\<close>).  An invitation
  may have a reserved account with its own identifier, created when a class is assigned before the teacher joins (\<^const>\<open>require_teacher\<close>).
  Joining as a child is refused, so the branches for a student's PIN, age band, class and consent request cannot be reached and are left out.
  Mail is an outcome: whether there is a client and whether it delivered.
\<close>

subsection \<open>Payloads and the end of a transaction\<close>

record invitation_request =
  iq_role :: string
  iq_first_name :: "string option"
  iq_last_name :: "string option"
  iq_email :: "string option"
  iq_parent_contact :: "string option"
  iq_class_id :: "uuid option"

record join_request =
  jr_password :: "string option"
  jr_pin :: "string option"
  jr_first_name :: "string option"
  jr_last_name :: "string option"

record invitation_answer =
  iv_id :: uuid
  iv_token :: string
  iv_delivery_status :: string

definition invitations_ok :: "staffing_db \<Rightarrow> bool" where
  "invitations_ok d \<longleftrightarrow> db_constraints (sf_db d) \<and> distinct (map si_id (school_invitations d)) \<and> distinct (map si_token_digest (school_invitations d))"

definition staff_commit :: "staffing_db \<Rightarrow> staffing_db \<Rightarrow> 'a \<Rightarrow> staffing_db \<times> (account_fault + 'a)" where
  "staff_commit d d' answer = (if invitations_ok d' then (d', Inr answer) else (d, Inl CommitFault))"

definition put_invitation :: "uuid \<Rightarrow> (school_invitation_row \<Rightarrow> school_invitation_row) \<Rightarrow> staffing_db \<Rightarrow> staffing_db" where
  "put_invitation i f d = d\<lparr>school_invitations := update_where (\<lambda>r. si_id r = i) f (school_invitations d)\<rparr>"

definition put_account :: "uuid \<Rightarrow> (user_row \<Rightarrow> user_row) \<Rightarrow> staffing_db \<Rightarrow> staffing_db" where
  "put_account i f d = d\<lparr>sf_db := (sf_db d)\<lparr>users := update_where (\<lambda>u. u_id u = i) f (users (sf_db d))\<rparr>\<rparr>"

definition INVITATION_LIFETIME :: timedelta where
  "INVITATION_LIFETIME = td_days 14"

definition truthy_or :: "string option \<Rightarrow> string option \<Rightarrow> string option" where
  "truthy_or a b = (if present a \<noteq> [] then a else b)"

definition latest :: "(school_invitation_row \<Rightarrow> bool) \<Rightarrow> staffing_db \<Rightarrow> school_invitation_row option" where
  "latest P d = (case sort_key (\<lambda>r. - si_created_at r) (filter P (school_invitations d)) of [] \<Rightarrow> None | r # _ \<Rightarrow> Some r)"

subsection \<open>Inviting\<close>

definition refuse_student_invitation :: "string \<Rightarrow> account_fault option" where
  "refuse_student_invitation role = (if role \<noteq> user_role_value UR_STUDENT then None else Some (refuse 409 ''student_not_invitable''))"

definition reserved_teacher_matches :: "school_invitation_row \<Rightarrow> user_row \<Rightarrow> bool" where
  "reserved_teacher_matches r u \<longleftrightarrow> u_school_id u = Some (si_school_id r) \<and> u_role u = UR_TEACHER \<and> u_status u = US_INVITED \<and> u_email u = si_email r"

definition account_of :: "staffing_db \<Rightarrow> uuid \<Rightarrow> user_row option" where
  "account_of d i = get_by u_id i (users (sf_db d))"

definition reserved_conflict :: "staffing_db \<Rightarrow> school_invitation_row \<Rightarrow> bool" where
  "reserved_conflict d r = (case account_of d (si_id r) of None \<Rightarrow> False | Some u \<Rightarrow> \<not> reserved_teacher_matches r u)"

text \<open>The two refusals of a second invitation to one address.\<close>

definition already_invited :: "staffing_db \<Rightarrow> uuid \<Rightarrow> invitation_request \<Rightarrow> account_fault option" where
  "already_invited d school q =
     (if iq_role q = ''teacher'' \<and> present (iq_email q) \<noteq> [] then
        (let mine = (\<lambda>st r. si_school_id r = school \<and> si_role r = ''teacher'' \<and> si_email r = Some (py_casefold (present (iq_email q))) \<and> si_status r = st) in
         case latest (mine ''pending'') d of
           Some existing \<Rightarrow> Some (refuse 409 (if reserved_conflict d existing then ''invited_teacher_conflict'' else ''invitation_already_pending''))
         | None \<Rightarrow>
             (case latest (mine ''revoked'') d of
                None \<Rightarrow> None
              | Some revoked \<Rightarrow>
                  (case account_of d (si_id revoked) of
                     None \<Rightarrow> None
                   | Some u \<Rightarrow> if u_status u = US_DEACTIVATED \<and> u_deactivated_at u = si_revoked_at revoked
                              then Some (refuse 409 ''invitation_reissue_available'') else None)))
      else None)"

definition invitation_of :: "account_env \<Rightarrow> user_row \<Rightarrow> uuid \<Rightarrow> invitation_request \<Rightarrow> datetime \<Rightarrow> datetime \<Rightarrow> uuid \<Rightarrow> string \<Rightarrow> school_invitation_row" where
  "invitation_of env actor school q now created new_id token =
     \<lparr>si_id = new_id, si_school_id = school, si_role = iq_role q, si_first_name = iq_first_name q, si_last_name = iq_last_name q,
      si_email = (if present (iq_email q) \<noteq> [] then Some (py_casefold (present (iq_email q))) else None),
      si_parent_contact = iq_parent_contact q, si_consent_request_status = ''not_sent'', si_class_id = iq_class_id q,
      si_token_digest = ace_sha256 env token, si_status = ''pending'', si_expires_at = now + INVITATION_LIFETIME, si_accepted_at = None,
      si_revoked_at = None, si_created_by_id = u_id actor, si_created_at = created\<rparr>"

definition delivery_status :: "bool \<Rightarrow> school_invitation_row \<Rightarrow> bool \<Rightarrow> string" where
  "delivery_status defer r delivered =
     (if present (si_email r) = [] then ''not_requested'' else if defer then ''queued'' else if delivered then ''sent'' else ''email_not_configured'')"

definition create_school_invitation ::
  "account_env \<Rightarrow> staffing_db \<Rightarrow> user_row \<Rightarrow> bool \<Rightarrow> invitation_request \<Rightarrow> datetime \<Rightarrow> datetime \<Rightarrow> uuid \<Rightarrow> string \<Rightarrow> bool
     \<Rightarrow> staffing_db \<times> (account_fault + invitation_answer)" where
  "create_school_invitation env d actor defer q now created new_id token delivered =
     (let school = the (u_school_id actor) in
      case already_invited d school q of
        Some e \<Rightarrow> (d, Inl e)
      | None \<Rightarrow>
          if (case iq_class_id q of None \<Rightarrow> False
              | Some c \<Rightarrow> \<not> exists_where (\<lambda>k. cl_id k = c \<and> cl_school_id k = school) (classes (sf_db d)))
          then (d, Inl (refuse 404 ''Class not found''))
          else
            (let r = invitation_of env actor school q now created new_id token in
             staff_commit d (d\<lparr>school_invitations := school_invitations d @ [r]\<rparr>)
               \<lparr>iv_id = new_id, iv_token = token, iv_delivery_status = delivery_status defer r delivered\<rparr>))"

definition create_invite ::
  "account_env \<Rightarrow> request_facts option \<Rightarrow> bool \<Rightarrow> staffing_db \<Rightarrow> auth_principal \<Rightarrow> invitation_request \<Rightarrow> datetime \<Rightarrow> datetime \<Rightarrow> uuid \<Rightarrow> string \<Rightarrow> bool
     \<Rightarrow> staffing_db \<times> (account_fault + invitation_answer)" where
  "create_invite env request has_mailer d p q now created new_id token delivered =
     (case require_school_actor request (sf_db d) p ADMIN_ROLES of
        Inl e \<Rightarrow> (d, Inl (Refused e))
      | Inr actor \<Rightarrow>
          if \<not> has_mailer then (d, Inl (refuse 503 ''Email delivery is unavailable''))
          else create_school_invitation env d actor False q now created new_id token delivered)"

text \<open>One row of a bulk request with what the call draws, and the loop: an \<^verbatim>\<open>HTTPException\<close> rejects the row, anything else ends the request.\<close>

type_synonym bulk_row = "invitation_request \<times> datetime \<times> datetime \<times> uuid \<times> string"

fun bulk_loop ::
  "account_env \<Rightarrow> user_row \<Rightarrow> bool \<Rightarrow> nat \<Rightarrow> bulk_row list \<Rightarrow> staffing_db
     \<Rightarrow> staffing_db \<times> (account_fault + invitation_answer list \<times> (nat \<times> http_error) list)" where
  "bulk_loop env actor has_mailer index [] d = (d, Inr ([], []))"
| "bulk_loop env actor has_mailer index ((q, now, created, i, token) # rest) d =
     (case (if has_mailer then create_school_invitation env d actor True q now created i token False
            else (d, Inl (refuse 503 ''Email delivery is unavailable''))) of
        (d', Inr answer) \<Rightarrow>
          (case bulk_loop env actor has_mailer (Suc index) rest d' of
             (d'', Inl e) \<Rightarrow> (d'', Inl e)
           | (d'', Inr (made, rejected)) \<Rightarrow> (d'', Inr (answer # made, rejected)))
      | (d', Inl (Refused e)) \<Rightarrow>
          (case bulk_loop env actor has_mailer (Suc index) rest d' of
             (d'', Inl e') \<Rightarrow> (d'', Inl e')
           | (d'', Inr (made, rejected)) \<Rightarrow> (d'', Inr (made, (Suc index, e) # rejected)))
      | (d', Inl e) \<Rightarrow> (d', Inl e))"

definition create_bulk_invites ::
  "account_env \<Rightarrow> request_facts option \<Rightarrow> bool \<Rightarrow> staffing_db \<Rightarrow> auth_principal \<Rightarrow> bulk_row list
     \<Rightarrow> staffing_db \<times> (account_fault + invitation_answer list \<times> (nat \<times> http_error) list)" where
  "create_bulk_invites env request has_mailer d p rows =
     (case require_school_actor request (sf_db d) p ADMIN_ROLES of
        Inl e \<Rightarrow> (d, Inl (Refused e))
      | Inr actor \<Rightarrow> bulk_loop env actor has_mailer 0 (take 500 rows) d)"

definition shown_status :: "staffing_db \<Rightarrow> school_invitation_row \<Rightarrow> string" where
  "shown_status d r = (if si_role r = ''teacher'' \<and> si_status r = ''pending'' \<and> reserved_conflict d r then ''conflicted'' else si_status r)"

definition list_invites ::
  "request_facts option \<Rightarrow> staffing_db \<Rightarrow> auth_principal \<Rightarrow> string option \<Rightarrow> account_fault + (school_invitation_row \<times> string) list" where
  "list_invites request d p status_filter =
     (case require_school_actor request (sf_db d) p ADMIN_ROLES of
        Inl e \<Rightarrow> Inl (Refused e)
      | Inr actor \<Rightarrow>
          (let wanted = present status_filter;
               rows = sort_key (\<lambda>r. - si_created_at r) (filter (\<lambda>r. Some (si_school_id r) = u_school_id actor \<and>
                 (wanted = [] \<or> si_status r = (if wanted = ''conflicted'' then ''pending'' else wanted))) (school_invitations d));
               items = map (\<lambda>r. (r, shown_status d r)) rows in
           Inr (if wanted = ''conflicted'' then filter (\<lambda>(r, st). st = ''conflicted'') items else items)))"

subsection \<open>Resending, revoking and reissuing\<close>

text \<open>The answer after the commit: without a mail client it is a 503 although the new link is stored.\<close>

definition send_invitation ::
  "bool \<Rightarrow> bool \<Rightarrow> school_invitation_row \<Rightarrow> string \<Rightarrow> staffing_db \<times> (account_fault + unit) \<Rightarrow> staffing_db \<times> (account_fault + invitation_answer)" where
  "send_invitation has_mailer delivered r token committed =
     (case committed of
        (d, Inl e) \<Rightarrow> (d, Inl e)
      | (d, Inr _) \<Rightarrow>
          if present (si_email r) \<noteq> [] \<and> \<not> has_mailer then (d, Inl (refuse 503 ''Email delivery is unavailable''))
          else (d, Inr \<lparr>iv_id = si_id r, iv_token = token, iv_delivery_status = delivery_status False r delivered\<rparr>))"

definition resend_invite ::
  "account_env \<Rightarrow> request_facts option \<Rightarrow> bool \<Rightarrow> staffing_db \<Rightarrow> auth_principal \<Rightarrow> uuid \<Rightarrow> datetime \<Rightarrow> string \<Rightarrow> bool
     \<Rightarrow> staffing_db \<times> (account_fault + invitation_answer)" where
  "resend_invite env request has_mailer d p invitation_id now token delivered =
     (case require_school_actor request (sf_db d) p ADMIN_ROLES of
        Inl e \<Rightarrow> (d, Inl (Refused e))
      | Inr actor \<Rightarrow>
          (case get_by si_id invitation_id (school_invitations d) of
             None \<Rightarrow> (d, Inl (refuse 404 ''Invitation not found''))
           | Some r \<Rightarrow>
               if Some (si_school_id r) \<noteq> u_school_id actor \<or> si_status r \<noteq> ''pending'' then (d, Inl (refuse 404 ''Invitation not found''))
               else case refuse_student_invitation (si_role r) of
                 Some e \<Rightarrow> (d, Inl e)
               | None \<Rightarrow>
                   if si_role r = ''teacher'' \<and> reserved_conflict d r then (d, Inl (refuse 409 ''invited_teacher_conflict''))
                   else send_invitation has_mailer delivered r token
                     (staff_commit d (put_invitation invitation_id
                        (\<lambda>r. r\<lparr>si_token_digest := ace_sha256 env token, si_expires_at := now + INVITATION_LIFETIME\<rparr>) d) ())))"

definition revoke_invite ::
  "request_facts option \<Rightarrow> staffing_db \<Rightarrow> auth_principal \<Rightarrow> uuid \<Rightarrow> datetime \<Rightarrow> staffing_db \<times> (account_fault + unit)" where
  "revoke_invite request d p invitation_id now =
     (case require_school_actor request (sf_db d) p ADMIN_ROLES of
        Inl e \<Rightarrow> (d, Inl (Refused e))
      | Inr actor \<Rightarrow>
          (case get_by si_id invitation_id (school_invitations d) of
             None \<Rightarrow> (d, Inl (refuse 404 ''Invitation not found''))
           | Some r \<Rightarrow>
               if Some (si_school_id r) \<noteq> u_school_id actor then (d, Inl (refuse 404 ''Invitation not found''))
               else if si_status r \<noteq> ''pending'' then (d, Inl (refuse 409 ''invitation_not_pending''))
               else
                 (let d1 = put_invitation invitation_id (\<lambda>r. r\<lparr>si_status := ''revoked'', si_revoked_at := Some now\<rparr>) d;
                      d2 = (case account_of d (si_id r) of
                              None \<Rightarrow> d1
                            | Some u \<Rightarrow>
                                if u_status u = US_INVITED then
                                  put_assignments (update_where (\<lambda>t. tca_teacher_id t = u_id u \<and> tca_removed_at t = None)
                                      (\<lambda>t. t\<lparr>tca_removed_at := Some now\<rparr>) (assignments d1))
                                    (put_account (u_id u) (\<lambda>u. u\<lparr>u_status := US_DEACTIVATED, u_deactivated_at := Some now, u_email := None\<rparr>) d1)
                                else d1) in
                  staff_commit d d2 ())))"

text \<open>The open row that stands in the way of giving an assignment back.\<close>

definition assignment_conflict :: "staffing_db \<Rightarrow> uuid \<Rightarrow> teacher_class_assignment_row \<Rightarrow> bool" where
  "assignment_conflict d teacher a =
     exists_where (\<lambda>t. tca_class_id t = tca_class_id a \<and> tca_removed_at t = None \<and>
       ((tca_teacher_id t = teacher \<and> tca_school_subject_id t = tca_school_subject_id a) \<or> (tca_role a = TR_PRIMARY \<and> tca_role t = tca_role a))) (assignments d)"

definition reissue_teacher_invite ::
  "account_env \<Rightarrow> request_facts option \<Rightarrow> bool \<Rightarrow> staffing_db \<Rightarrow> auth_principal \<Rightarrow> uuid \<Rightarrow> datetime \<Rightarrow> string \<Rightarrow> bool
     \<Rightarrow> staffing_db \<times> (account_fault + invitation_answer)" where
  "reissue_teacher_invite env request has_mailer d p invitation_id now token delivered =
     (case require_school_actor request (sf_db d) p ADMIN_ROLES of
        Inl e \<Rightarrow> (d, Inl (Refused e))
      | Inr actor \<Rightarrow>
          (case get_by si_id invitation_id (school_invitations d) of
             None \<Rightarrow> (d, Inl (refuse 404 ''invitation_not_found''))
           | Some r \<Rightarrow>
               if Some (si_school_id r) \<noteq> u_school_id actor \<or> si_role r \<noteq> ''teacher'' then (d, Inl (refuse 404 ''invitation_not_found''))
               else if si_status r \<noteq> ''revoked'' \<or> si_revoked_at r = None \<or> present (si_email r) = []
               then (d, Inl (refuse 409 ''invitation_not_reissuable''))
               else case account_of d (si_id r) of
                 None \<Rightarrow> (d, Inl (refuse 409 ''reserved_teacher_state_changed''))
               | Some u \<Rightarrow>
                   if u_school_id u \<noteq> u_school_id actor \<or> u_role u \<noteq> UR_TEACHER \<or> u_status u \<noteq> US_DEACTIVATED \<or> u_deactivated_at u \<noteq> si_revoked_at r
                   then (d, Inl (refuse 409 ''reserved_teacher_state_changed''))
                   else if exists_where (\<lambda>x. u_school_id x = u_school_id actor \<and> u_email x = si_email r \<and> u_id x \<noteq> u_id u \<and>
                       u_status x \<in> {US_ACTIVE, US_INVITED}) (users (sf_db d))
                   then (d, Inl (refuse 409 ''teacher_email_in_use''))
                   else
                     (let back = (\<lambda>t. tca_teacher_id t = u_id u \<and> tca_removed_at t = si_revoked_at r) in
                      if list_ex (assignment_conflict d (u_id u)) (filter back (assignments d)) then (d, Inl (refuse 409 ''teacher_assignment_conflict''))
                      else
                        send_invitation has_mailer delivered r token
                          (staff_commit d
                            (put_assignments (update_where back (\<lambda>t. t\<lparr>tca_removed_at := None\<rparr>) (assignments d))
                              (put_account (u_id u) (\<lambda>u. u\<lparr>u_status := US_INVITED, u_deactivated_at := None, u_email := si_email r\<rparr>)
                                (put_invitation invitation_id (\<lambda>r. r\<lparr>si_status := ''pending'', si_revoked_at := None,
                                   si_token_digest := ace_sha256 env token, si_expires_at := now + INVITATION_LIFETIME\<rparr>) d))) ()))))"

subsection \<open>Joining\<close>

definition join_record :: "account_env \<Rightarrow> staffing_db \<Rightarrow> string \<Rightarrow> datetime \<Rightarrow> account_fault + school_invitation_row" where
  "join_record env d token now =
     (case get_by si_token_digest (ace_sha256 env token) (school_invitations d) of
        None \<Rightarrow> Inl (refuse 404 ''join_link_invalid'')
      | Some r \<Rightarrow>
          if si_status r = ''revoked'' \<or> si_revoked_at r \<noteq> None then Inl (refuse 410 ''join_link_revoked'')
          else if si_expires_at r \<le> now then Inl (refuse 410 ''join_link_expired'')
          else if si_status r \<noteq> ''pending'' then Inl (refuse 409 ''join_link_used'')
          else Inr r)"

definition inspect_join :: "account_env \<Rightarrow> staffing_db \<Rightarrow> string \<Rightarrow> datetime \<Rightarrow> account_fault + school_invitation_row \<times> string option" where
  "inspect_join env d token now =
     (case join_record env d token now of
        Inl e \<Rightarrow> Inl e
      | Inr r \<Rightarrow>
          (case refuse_student_invitation (si_role r) of
             Some e \<Rightarrow> Inl e
           | None \<Rightarrow>
               if si_role r = ''teacher'' \<and> reserved_conflict d r then Inl (refuse 409 ''invited_teacher_conflict'')
               else Inr (r, map_option sch_name (get_by sch_id (si_school_id r) (schools (sf_db d))))))"

definition joining_user :: "account_env \<Rightarrow> school_invitation_row \<Rightarrow> join_request \<Rightarrow> user_role \<Rightarrow> uuid \<Rightarrow> user_row" where
  "joining_user env r q role new_id =
     (new_user new_id (Some (si_school_id r)) role
        (if present (si_email r) \<noteq> [] \<and> present (jr_password q) \<noteq> [] then AM_EMAIL_PASSWORD else AM_PIN))
       \<lparr>u_first_name := truthy_or (jr_first_name q) (si_first_name r), u_last_name := truthy_or (jr_last_name q) (si_last_name r),
        u_email := si_email r, u_password_hash := (if present (jr_password q) \<noteq> [] then Some (hash_password env (present (jr_password q))) else None),
        u_pin_hash := (if present (jr_pin q) \<noteq> [] then Some (hash_pin env (present (jr_pin q))) else None)\<rparr>"

text \<open>The transaction of \<^verbatim>\<open>accept_join\<close>: the reserved account is completed, or a new one added; the invitation is used.  The answer is the account.\<close>

definition joined_staff ::
  "account_env \<Rightarrow> staffing_db \<Rightarrow> school_invitation_row \<Rightarrow> join_request \<Rightarrow> datetime \<Rightarrow> uuid \<Rightarrow> account_fault + staffing_db \<times> uuid" where
  "joined_staff env d r q now new_id =
     (let spent = put_invitation (si_id r) (\<lambda>r. r\<lparr>si_status := ''joined'', si_accepted_at := Some now\<rparr>) in
      case (if si_role r = ''teacher'' then account_of d (si_id r) else None) of
        Some u \<Rightarrow>
          if \<not> reserved_teacher_matches r u then Inl (refuse 409 ''invited_teacher_conflict'')
          else Inr (spent (put_account (u_id u) (\<lambda>u. u\<lparr>u_first_name := truthy_or (jr_first_name q) (si_first_name r),
                 u_last_name := truthy_or (jr_last_name q) (si_last_name r), u_password_hash := Some (hash_password env (present (jr_password q))),
                 u_status := US_ACTIVE\<rparr>) d), u_id u)
      | None \<Rightarrow>
          (case user_role_of (si_role r) of
             None \<Rightarrow> Inl RoleValueError
           | Some role \<Rightarrow> Inr (spent (d\<lparr>sf_db := (sf_db d)\<lparr>users := users (sf_db d) @ [joining_user env r q role new_id]\<rparr>\<rparr>), new_id)))"

definition accept_join ::
  "account_env \<Rightarrow> (uuid \<Rightarrow> string) \<Rightarrow> staffing_db \<Rightarrow> string \<Rightarrow> join_request \<Rightarrow> datetime \<Rightarrow> datetime \<Rightarrow> uuid \<Rightarrow> string \<Rightarrow> uuid
     \<Rightarrow> staffing_db \<times> (account_fault + uuid \<times> issued_session)" where
  "accept_join env show_id d token q checked_at now new_id session_token session_id =
     (case join_record env d token checked_at of
        Inl e \<Rightarrow> (d, Inl e)
      | Inr r \<Rightarrow>
          (case refuse_student_invitation (si_role r) of
             Some e \<Rightarrow> (d, Inl e)
           | None \<Rightarrow>
               if si_role r = ''teacher'' \<and> \<not> (present (jr_password q) \<noteq> [] \<and> present (si_email r) \<noteq> [])
               then (d, Inl (refuse 422 ''Teacher password and email are required''))
               else case joined_staff env d r q now new_id of
                 Inl e \<Rightarrow> (d, Inl e)
               | Inr (d1, user_id) \<Rightarrow>
                   (case staff_commit d d1 () of
                      (d2, Inl e) \<Rightarrow> (d2, Inl e)
                    | (d2, Inr _) \<Rightarrow>
                        (case issue_for_provisioned_user (ace_auth env) show_id (sf_db d2) user_id now session_token session_id of
                           (db', Inl e) \<Rightarrow> (d2\<lparr>sf_db := db'\<rparr>, Inl (SignInFault e))
                         | (db', Inr issued) \<Rightarrow> (d2\<lparr>sf_db := db'\<rparr>, Inr (user_id, issued))))))"

subsection \<open>Runs\<close>

inductive invitation_step :: "account_env \<Rightarrow> (uuid \<Rightarrow> string) \<Rightarrow> staffing_db \<Rightarrow> staffing_db \<Rightarrow> bool" for env show_id where
  create: "create_invite env rq m d p q now created i tok b = (d', r) \<Longrightarrow> invitation_step env show_id d d'"
| bulk: "create_bulk_invites env rq m d p rows = (d', r2) \<Longrightarrow> invitation_step env show_id d d'"
| resend: "resend_invite env rq m d p i now tok b = (d', r) \<Longrightarrow> invitation_step env show_id d d'"
| revoke: "revoke_invite rq d p i now = (d', r3) \<Longrightarrow> invitation_step env show_id d d'"
| reissue: "reissue_teacher_invite env rq m d p i now tok b = (d', r) \<Longrightarrow> invitation_step env show_id d d'"
| accept: "accept_join env show_id d tok jq t now i st sid = (d', r4) \<Longrightarrow> invitation_step env show_id d d'"
| sign_in: "auth_step (ace_auth env) show_id (sf_db d) db' \<Longrightarrow> invitation_step env show_id d (d\<lparr>sf_db := db'\<rparr>)"

definition links_distinct :: "staffing_db \<Rightarrow> bool" where
  "links_distinct d \<longleftrightarrow> distinct (map si_id (school_invitations d)) \<and> distinct (map si_token_digest (school_invitations d))"

abbreviation si_joined :: "school_invitation_row \<Rightarrow> bool" where
  "si_joined r \<equiv> si_status r = ''joined''"

definition invitations_kept :: "staffing_db \<Rightarrow> staffing_db \<Rightarrow> bool" where
  "invitations_kept d d' \<longleftrightarrow> (links_distinct d \<longrightarrow> links_distinct d' \<and> keeps si_token_digest si_joined (school_invitations d) (school_invitations d'))"

lemma kept_same: "school_invitations d' = school_invitations d \<Longrightarrow> invitations_kept d d'"
  by (simp add: invitations_kept_def links_distinct_def)

lemma kept_trans: "\<lbrakk>invitations_kept a b; invitations_kept b c\<rbrakk> \<Longrightarrow> invitations_kept a c"
  unfolding invitations_kept_def by (blast intro: keeps_trans)

lemma put_invitation_simps [simp]:
  "school_invitations (put_invitation i f d) = update_where (\<lambda>r. si_id r = i) f (school_invitations d)" "sf_db (put_invitation i f d) = sf_db d"
  by (simp_all add: put_invitation_def)

lemma put_account_simps [simp]:
  "school_invitations (put_account i f d) = school_invitations d"
  "users (sf_db (put_account i f d)) = update_where (\<lambda>u. u_id u = i) f (users (sf_db d))" "assignments (put_account i f d) = assignments d"
  by (simp_all add: put_account_def)

lemma put_assignments_invitations [simp]:
  "school_invitations (put_assignments rows d) = school_invitations d" "users (sf_db (put_assignments rows d)) = users (sf_db d)"
  by (simp_all add: put_assignments_def)

lemma staff_commit_cases:
  assumes "staff_commit d x a = (d', r)"
  obtains "d' = x" "r = Inr a" "invitations_ok x" | "d' = d" "r = Inl CommitFault"
  using assms by (auto simp: staff_commit_def split: if_splits)

lemma commit_kept:
  assumes "staff_commit d x a = (d', r)" "links_distinct d \<Longrightarrow> keeps si_token_digest si_joined (school_invitations d) (school_invitations x)"
  shows "invitations_kept d d'"
  using assms(1)
proof (cases rule: staff_commit_cases)
  case 1
  then show ?thesis using assms(2) by (simp add: invitations_kept_def invitations_ok_def links_distinct_def)
qed (simp add: kept_same)

lemma update_keeps:
  assumes "links_distinct d" "r \<in> set (school_invitations d)" "\<not> si_joined r"
  shows "keeps si_token_digest si_joined (school_invitations d) (update_where (\<lambda>x. si_id x = si_id r) f (school_invitations d))"
  unfolding keeps_def
proof (intro ballI impI)
  fix x assume x: "x \<in> set (school_invitations d)" "si_joined x"
  have "si_id x \<noteq> si_id r"
  proof
    assume "si_id x = si_id r"
    then have "x = r" using assms(1,2) x(1) inj_onD[of si_id "set (school_invitations d)" x r] by (simp add: links_distinct_def distinct_map)
    then show False using x(2) assms(3) by simp
  qed
  then have "x \<in> set (update_where (\<lambda>x. si_id x = si_id r) f (school_invitations d))"
    using in_update_where[OF x(1), of "\<lambda>x. si_id x = si_id r" f] by simp
  then show "\<exists>r' \<in> set (update_where (\<lambda>x. si_id x = si_id r) f (school_invitations d)). si_token_digest r' = si_token_digest x \<and> si_joined r'"
    using x(2) by blast
qed

lemma create_kept: "create_school_invitation env d actor defer q now created i tok b = (d', r) \<Longrightarrow> invitations_kept d d'"
  unfolding create_school_invitation_def Let_def
  by (auto split: option.splits if_splits elim!: commit_kept intro: kept_same)

lemma bulk_kept: "bulk_loop env actor m k rows d = (d', r) \<Longrightarrow> invitations_kept d d'"
proof (induction rows arbitrary: k d d' r)
  case (Cons x rows)
  obtain q now created i tok where x: "x = (q, now, created, i, tok)" by (cases x) auto
  obtain e res where e: "(if m then create_school_invitation env d actor True q now created i tok False
      else (d, Inl (refuse 503 ''Email delivery is unavailable''))) = (e, res)" by (rule prod.exhaust)
  have first: "invitations_kept d e" using e by (auto split: if_splits intro: create_kept kept_same)
  obtain e2 r2 where loop: "bulk_loop env actor m (Suc k) rows e = (e2, r2)" by (rule prod.exhaust)
  have "d' = e \<or> d' = e2"
    using Cons.prems unfolding x bulk_loop.simps e
    by (auto simp: loop split: sum.splits account_fault.splits prod.splits)
  then show ?case using first kept_trans[OF first Cons.IH[OF loop]] by blast
qed (simp add: kept_same)

lemma send_kept:
  assumes "send_invitation m b r tok (staff_commit d x ()) = (d', res)" "links_distinct d \<Longrightarrow> keeps si_token_digest si_joined (school_invitations d) (school_invitations x)"
  shows "invitations_kept d d'"
proof -
  obtain e c where c: "staff_commit d x () = (e, c)" by (rule prod.exhaust)
  then have "d' = e" using assms(1) by (auto simp: send_invitation_def split: sum.splits if_splits)
  then show ?thesis using commit_kept[OF c assms(2)] by simp
qed

lemma resend_kept: "resend_invite env rq m d p i now tok b = (d', r) \<Longrightarrow> invitations_kept d d'"
  unfolding resend_invite_def
  by (auto split: sum.splits option.splits if_splits elim!: send_kept intro: kept_same intro!: update_keeps dest!: get_by_SomeD)

lemma revoke_kept: "revoke_invite rq d p i now = (d', r) \<Longrightarrow> invitations_kept d d'"
  unfolding revoke_invite_def Let_def
  by (auto split: sum.splits option.splits if_splits elim!: commit_kept intro: kept_same intro!: update_keeps dest!: get_by_SomeD)

lemma reissue_kept: "reissue_teacher_invite env rq m d p i now tok b = (d', r) \<Longrightarrow> invitations_kept d d'"
  unfolding reissue_teacher_invite_def Let_def
  by (auto simp del: exists_where_iff split: sum.splits option.splits if_splits elim!: send_kept intro: kept_same intro!: update_keeps dest!: get_by_SomeD)

lemma join_record_Inr:
  assumes "join_record env d tok t = Inr r"
  shows "r \<in> set (school_invitations d)" "si_token_digest r = ace_sha256 env tok" "si_status r = ''pending''" "t < si_expires_at r" "si_revoked_at r = None"
  using assms by (auto simp: join_record_def split: option.splits if_splits dest: get_by_SomeD)

lemma joined_staff_invitations:
  "joined_staff env d r q now i = Inr (d', u) \<Longrightarrow>
     school_invitations d' = update_where (\<lambda>x. si_id x = si_id r) (\<lambda>r. r\<lparr>si_status := ''joined'', si_accepted_at := Some now\<rparr>) (school_invitations d)"
  by (auto simp: joined_staff_def Let_def split: option.splits if_splits)

lemma accept_cases:
  assumes "accept_join env show_id d tok q t now i st sid = (d', res)"
  obtains "d' = d" "\<exists>e. res = Inl e"
  | r d1 uid db' c where "join_record env d tok t = Inr r" "refuse_student_invitation (si_role r) = None"
      "si_role r = ''teacher'' \<Longrightarrow> present (jr_password q) \<noteq> [] \<and> present (si_email r) \<noteq> []"
      "joined_staff env d r q now i = Inr (d1, uid)" "invitations_ok d1"
      "issue_for_provisioned_user (ace_auth env) show_id (sf_db d1) uid now st sid = (db', c)" "d' = d1\<lparr>sf_db := db'\<rparr>"
      "res = (case c of Inl e \<Rightarrow> Inl (SignInFault e) | Inr issued \<Rightarrow> Inr (uid, issued))"
proof (cases "join_record env d tok t")
  case (Inl e)
  then show ?thesis using assms by (intro that(1)) (auto simp: accept_join_def)
next
  case r: (Inr r)
  show ?thesis
  proof (cases "refuse_student_invitation (si_role r) \<noteq> None \<or> (si_role r = ''teacher'' \<and> \<not> (present (jr_password q) \<noteq> [] \<and> present (si_email r) \<noteq> []))")
    case True
    then show ?thesis
      using assms r by (intro that(1)) (cases "refuse_student_invitation (si_role r)"; auto simp: accept_join_def split: if_splits)+
  next
    case ok: False
    show ?thesis
    proof (cases "joined_staff env d r q now i")
      case (Inl e)
      then show ?thesis using assms r ok by (intro that(1)) (auto simp: accept_join_def split: if_splits)
    next
      case (Inr x)
      obtain d1 uid where x: "x = (d1, uid)" by (rule prod.exhaust)
      obtain db' c where iss: "issue_for_provisioned_user (ace_auth env) show_id (sf_db d1) uid now st sid = (db', c)" by (rule prod.exhaust)
      have eq: "accept_join env show_id d tok q t now i st sid =
          (case staff_commit d d1 () of (d2, Inl e) \<Rightarrow> (d2, Inl e)
           | (d2, Inr _) \<Rightarrow> (case issue_for_provisioned_user (ace_auth env) show_id (sf_db d2) uid now st sid of
               (db', Inl e) \<Rightarrow> (d2\<lparr>sf_db := db'\<rparr>, Inl (SignInFault e)) | (db', Inr issued) \<Rightarrow> (d2\<lparr>sf_db := db'\<rparr>, Inr (uid, issued))))"
        using r ok Inr x by (auto simp: accept_join_def)
      show ?thesis
      proof (cases "invitations_ok d1")
        case True
        then show ?thesis
          using that(2)[OF r _ _ Inr[unfolded x] True iss] ok assms unfolding eq staff_commit_def by (cases c) (auto simp: iss)
      next
        case False
        then show ?thesis using assms unfolding eq staff_commit_def by (intro that(1)) auto
      qed
    qed
  qed
qed

lemma accept_kept:
  assumes "accept_join env show_id d tok q t now i st sid = (d', res)"
  shows "invitations_kept d d'"
  using assms
proof (cases rule: accept_cases)
  case (2 r d1 uid db' c)
  have rows: "school_invitations d' = update_where (\<lambda>x. si_id x = si_id r) (\<lambda>r. r\<lparr>si_status := ''joined'', si_accepted_at := Some now\<rparr>) (school_invitations d)"
    unfolding 2(7) using joined_staff_invitations[OF 2(4)] by simp
  have "keeps si_token_digest si_joined (school_invitations d) (school_invitations d')" if "links_distinct d"
    unfolding rows using join_record_Inr[OF 2(1)] by (intro update_keeps that) auto
  moreover have "links_distinct d'" using 2(5) unfolding 2(7) by (simp add: invitations_ok_def links_distinct_def)
  ultimately show ?thesis by (simp add: invitations_kept_def)
qed (simp add: kept_same)

lemma invitation_step_kept: "invitation_step env show_id d d' \<Longrightarrow> invitations_kept d d'"
proof (induction rule: invitation_step.induct)
  case (create rq m d p q now created i tok b d' r)
  then show ?case by (auto simp: create_invite_def split: sum.splits if_splits intro: create_kept kept_same)
next
  case (bulk rq m d p rows d' r2)
  then show ?case by (auto simp: create_bulk_invites_def split: sum.splits intro: bulk_kept kept_same)
next
  case (sign_in d db')
  show ?case by (rule kept_same) simp
qed (blast intro: resend_kept revoke_kept reissue_kept accept_kept)+

interpretation join_links: once_only "invitation_step env show_id" links_distinct school_invitations si_token_digest si_joined for env show_id
proof unfold_locales
  show "distinct (map si_token_digest (school_invitations d))" if "links_distinct d" for d using that by (simp add: links_distinct_def)
qed (use invitation_step_kept in \<open>unfold invitations_kept_def, blast+\<close>)

subsection \<open>Properties\<close>

text \<open>The account that joining leaves behind.\<close>

lemma joined_staff_account:
  assumes "joined_staff env d r q now i = Inr (d1, uid)" "si_role r = ''teacher''"
  shows "\<exists>u \<in> set (users (sf_db d1)). u_id u = uid \<and> u_status u = US_ACTIVE \<and> u_role u = UR_TEACHER \<and> u_school_id u = Some (si_school_id r) \<and>
     u_email u = si_email r \<and> (present (jr_password q) \<noteq> [] \<longrightarrow> u_password_hash u = Some (hash_password env (present (jr_password q))))"
proof (cases "account_of d (si_id r)")
  case None
  have role: "user_role_of ''teacher'' = Some UR_TEACHER" by code_simp
  have "users (sf_db d1) = users (sf_db d) @ [joining_user env r q UR_TEACHER i]" "uid = i"
    using assms None role by (auto simp: joined_staff_def)
  then show ?thesis by (simp add: joining_user_def new_user_def)
next
  case (Some u)
  let ?f = "\<lambda>u. u\<lparr>u_first_name := truthy_or (jr_first_name q) (si_first_name r), u_last_name := truthy_or (jr_last_name q) (si_last_name r),
      u_password_hash := Some (hash_password env (present (jr_password q))), u_status := US_ACTIVE\<rparr>"
  have m: "reserved_teacher_matches r u" "uid = u_id u" "users (sf_db d1) = update_where (\<lambda>x. u_id x = u_id u) ?f (users (sf_db d))"
    using assms Some by (auto simp: joined_staff_def split: if_splits)
  have "u \<in> set (users (sf_db d))" using get_by_SomeD[of u_id "si_id r" "users (sf_db d)" u] Some by (simp add: account_of_def)
  from updated_row_in[OF this, of "\<lambda>x. u_id x = u_id u" ?f] have "?f u \<in> set (users (sf_db d1))" unfolding m(3) by simp
  then show ?thesis using m(1,2) by (intro bexI[of _ "?f u"]) (auto simp: reserved_teacher_matches_def)
qed

text \<open>Claim C10.  A join link is used once and lets in the person it was made for: whoever accepts it becomes an active teacher of the inviting school under
  the invited address with the chosen password, and whatever the school does afterwards - inviting, resending, revoking, reissuing - nobody joins with
  that link again.\<close>

theorem join_link_is_used_once:
  assumes "accept_join env show_id d tok q t now i st sid = (d1, Inr (uid, issued))" "links_distinct d" "(invitation_step env show_id)\<^sup>*\<^sup>* d1 d2"
  shows "\<exists>r \<in> set (school_invitations d). si_token_digest r = ace_sha256 env tok \<and> si_status r = ''pending'' \<and> t < si_expires_at r \<and>
     (si_role r = ''teacher'' \<longrightarrow> (\<exists>u \<in> set (users (sf_db d1)). u_id u = uid \<and> u_status u = US_ACTIVE \<and> u_role u = UR_TEACHER \<and>
        u_school_id u = Some (si_school_id r) \<and> u_email u = si_email r \<and> u_password_hash u = Some (hash_password env (present (jr_password q))))) \<and>
     (\<forall>q' t' now' i' st' sid'. \<exists>e. accept_join env show_id d2 tok q' t' now' i' st' sid' = (d2, Inl e))"
  using assms(1)
proof (cases rule: accept_cases)
  case (2 r d0 uid0 db' c)
  note r = join_record_Inr[OF 2(1)]
  have uid: "uid0 = uid" using 2(8) by (cases c) auto
  have users: "users (sf_db d1) = users (sf_db d0)"
    unfolding 2(7) using bare_fields[OF bare_auth_step[OF auth_step.provisioned[OF 2(6)]]] by simp
  have rows: "school_invitations d1 = update_where (\<lambda>x. si_id x = si_id r) (\<lambda>r. r\<lparr>si_status := ''joined'', si_accepted_at := Some now\<rparr>) (school_invitations d)"
    unfolding 2(7) using joined_staff_invitations[OF 2(4)] by simp
  have "r\<lparr>si_status := ''joined'', si_accepted_at := Some now\<rparr> \<in> set (school_invitations d1)"
    unfolding rows using updated_row_in[OF r(1), of "\<lambda>x. si_id x = si_id r" "\<lambda>r. r\<lparr>si_status := ''joined'', si_accepted_at := Some now\<rparr>"] by simp
  moreover have "links_distinct d1" using 2(5) unfolding 2(7) by (simp add: invitations_ok_def links_distinct_def)
  ultimately obtain r' where r': "get_by si_token_digest (si_token_digest r) (school_invitations d2) = Some r'" "si_joined r'"
    using join_links.spent_for_good[OF assms(3), of "r\<lparr>si_status := ''joined'', si_accepted_at := Some now\<rparr>"] by auto
  then have "\<exists>e. accept_join env show_id d2 tok q' t' now' i' st' sid' = (d2, Inl e)" for q' t' now' i' st' sid'
    using r(2) by (auto simp: accept_join_def join_record_def)
  then show ?thesis using r 2(3) joined_staff_account[OF 2(4)] users uid by (intro bexI[of _ r]) auto
qed simp

text \<open>Taking a change of some rows back.\<close>

lemma update_back:
  assumes "\<And>x. x \<in> set rows \<Longrightarrow> P x \<Longrightarrow> Q (f x) \<and> g (f x) = x" "\<And>x. x \<in> set rows \<Longrightarrow> \<not> P x \<Longrightarrow> \<not> Q x"
  shows "update_where Q g (update_where P f rows) = rows"
  using assms by (induction rows) auto

lemma distinct_rekey:
  assumes "distinct (map ident rows)" "distinct (map key rows)" "k \<notin> key ` set rows" "\<And>r. key (f r) = k"
  shows "distinct (map key (update_where (\<lambda>r. ident r = i) f rows))"
  using assms(1-3)
proof (induction rows)
  case (Cons r rows)
  have sub: "key ` set (update_where (\<lambda>r. ident r = i) f rows) \<subseteq> insert k (key ` set rows)" by (auto simp: assms(4) dest!: updated_from)
  show ?case
  proof (cases "ident r = i")
    case True
    then have "update_where (\<lambda>r. ident r = i) f rows = rows" using Cons.prems(1) by (intro update_where_none) (force simp: image_iff)
    then show ?thesis using Cons.prems True by (simp add: assms(4))
  next
    case False
    then show ?thesis using Cons sub by auto
  qed
qed simp

definition reserved_back :: "account_env \<Rightarrow> uuid \<Rightarrow> datetime \<Rightarrow> string \<Rightarrow> staffing_db \<Rightarrow> staffing_db" where
  "reserved_back env i now tok d = put_invitation i (\<lambda>r. r\<lparr>si_token_digest := ace_sha256 env tok, si_expires_at := now + INVITATION_LIFETIME\<rparr>) d"

definition revoked_state :: "staffing_db \<Rightarrow> uuid \<Rightarrow> uuid \<Rightarrow> datetime \<Rightarrow> staffing_db" where
  "revoked_state d i teacher now =
     put_assignments (update_where (\<lambda>t. tca_teacher_id t = teacher \<and> tca_removed_at t = None) (\<lambda>t. t\<lparr>tca_removed_at := Some now\<rparr>) (assignments d))
       (put_account teacher (\<lambda>u. u\<lparr>u_status := US_DEACTIVATED, u_deactivated_at := Some now, u_email := None\<rparr>)
         (put_invitation i (\<lambda>r. r\<lparr>si_status := ''revoked'', si_revoked_at := Some now\<rparr>) d))"

lemma revoke_state:
  assumes "require_school_actor rq (sf_db d) p ADMIN_ROLES = Inr actor" "get_by si_id i (school_invitations d) = Some r"
    and "account_of d i = Some u" "u_status u = US_INVITED" "revoke_invite rq d p i now = (d1, Inr ())"
  shows "d1 = revoked_state d i (u_id u) now \<and> Some (si_school_id r) = u_school_id actor \<and> si_status r = ''pending''"
proof -
  have "si_id r = i" using get_by_SomeD[OF assms(2)] by simp
  then show ?thesis
    using assms by (auto simp: revoke_invite_def Let_def revoked_state_def split: if_splits elim!: staff_commit_cases)
qed

text \<open>The account of an administrator is not the reserved one, so the actor is the same afterwards.\<close>

lemma actor_after_revoke:
  assumes "require_school_actor rq (sf_db d) p ADMIN_ROLES = Inr actor" "account_of d teacher = Some u" "u_role u = UR_TEACHER" "u_id u = teacher"
  shows "require_school_actor rq (sf_db (revoked_state d i teacher now)) p ADMIN_ROLES = Inr actor"
proof -
  have a: "actor_user rq (sf_db d) p = Inr actor" "user_role_value (u_role actor) \<in> set ADMIN_ROLES"
    using assms(1) by (auto simp: require_school_actor_def ADMIN_ROLES_def split: sum.splits if_splits)
  have "get_by u_id (ap_user_id p) (users (sf_db d)) = Some actor" using a(1) by (auto simp: actor_user_def split: option.splits sum.splits)
  then have "u_id actor = ap_user_id p" "get_by u_id (ap_user_id p) (users (sf_db d)) = Some actor" by (auto dest: get_by_SomeD)
  moreover from this have "u_id actor \<noteq> teacher" using a(2) assms(2,3) by (auto simp: account_of_def ADMIN_ROLES_def)
  ultimately have "get_by u_id (ap_user_id p) (users (sf_db (revoked_state d i teacher now))) = get_by u_id (ap_user_id p) (users (sf_db d))"
    by (simp add: revoked_state_def get_by_update_where)
  then show ?thesis using assms(1) by (simp add: require_school_actor_def actor_user_def)
qed

lemma no_conflict_after_revoke:
  assumes ok: "teacher_class_assignments_ok (assignments d)" and fresh: "\<And>t. t \<in> set (assignments d) \<Longrightarrow> tca_removed_at t \<noteq> Some now"
    and a: "a \<in> set (assignments (revoked_state d i teacher now))" "tca_teacher_id a = teacher" "tca_removed_at a = Some now"
  shows "\<not> assignment_conflict (revoked_state d i teacher now) teacher a"
proof
  assume "assignment_conflict (revoked_state d i teacher now) teacher a"
  then obtain t where t: "t \<in> set (assignments (revoked_state d i teacher now))" "tca_class_id t = tca_class_id a" "tca_removed_at t = None"
    "(tca_teacher_id t = teacher \<and> tca_school_subject_id t = tca_school_subject_id a) \<or> (tca_role a = TR_PRIMARY \<and> tca_role t = TR_PRIMARY)"
    by (auto simp: assignment_conflict_def)
  let ?P = "\<lambda>t. tca_teacher_id t = teacher \<and> tca_removed_at t = None" and ?f = "\<lambda>t. t\<lparr>tca_removed_at := Some now\<rparr>"
  have rows: "assignments (revoked_state d i teacher now) = update_where ?P ?f (assignments d)" by (simp add: revoked_state_def)
  obtain t0 where t0: "t0 \<in> set (assignments d)" "t = (if ?P t0 then ?f t0 else t0)" using updated_from[OF t(1)[unfolded rows]] by blast
  then have t1: "t = t0" "tca_teacher_id t \<noteq> teacher" using t(3) by (auto split: if_splits)
  obtain a0 where a0: "a0 \<in> set (assignments d)" "a = (if ?P a0 then ?f a0 else a0)" using updated_from[OF a(1)[unfolded rows]] by blast
  then have a1: "a = ?f a0" "?P a0" using a(3) fresh[OF a0(1)] by (auto split: if_splits)
  have "tca_role t0 = TR_PRIMARY" "tca_role a0 = TR_PRIMARY" "tca_class_id t0 = tca_class_id a0" using t t1 a1 by auto
  moreover have "unique_where (\<lambda>r. tca_role r = TR_PRIMARY \<and> tca_removed_at r = None) tca_class_id (assignments d)"
    using ok by (simp add: teacher_class_assignments_ok_def)
  ultimately have "t0 = a0" using unique_where_eqD[OF _ t0(1) a0(1)] t(3) t1(1) a1(2) by auto
  then show False using t1 a1(2) by simp
qed

lemma revoked_lookup:
  assumes "get_by si_id i (school_invitations d) = Some r" "account_of d teacher = Some u" "u_id u = teacher"
  shows "get_by si_id i (school_invitations (revoked_state d i teacher now)) = Some (r\<lparr>si_status := ''revoked'', si_revoked_at := Some now\<rparr>)"
    "account_of (revoked_state d i teacher now) teacher = Some (u\<lparr>u_status := US_DEACTIVATED, u_deactivated_at := Some now, u_email := None\<rparr>)"
  using assms get_by_SomeD[OF assms(1)] by (auto simp: revoked_state_def get_by_update_where account_of_def)

lemma email_free_after_revoke:
  assumes "users_ok (users (sf_db d))" "account_of d (u_id u) = Some u" "u_email u = Some e"
  shows "\<not> exists_where (\<lambda>x. S x \<and> u_email x = Some e \<and> u_id x \<noteq> u_id u \<and> T x) (users (sf_db (revoked_state d i (u_id u) now)))"
proof
  assume "exists_where (\<lambda>x. S x \<and> u_email x = Some e \<and> u_id x \<noteq> u_id u \<and> T x) (users (sf_db (revoked_state d i (u_id u) now)))"
  then obtain x where x: "x \<in> set (users (sf_db (revoked_state d i (u_id u) now)))" "u_email x = Some e" "u_id x \<noteq> u_id u" by auto
  have "x \<in> set (update_where (\<lambda>x. u_id x = u_id u) (\<lambda>u. u\<lparr>u_status := US_DEACTIVATED, u_deactivated_at := Some now, u_email := None\<rparr>) (users (sf_db d)))"
    using x(1) by (simp add: revoked_state_def)
  from updated_from[OF this] have x': "x \<in> set (users (sf_db d))" using x(3) by (auto split: if_splits)
  have u: "u \<in> set (users (sf_db d))" using assms(2) get_by_SomeD[of u_id "u_id u" "users (sf_db d)" u] by (simp add: account_of_def)
  have "unique_where (\<lambda>r. u_email r \<noteq> None) (\<lambda>r. map_option sql_lower (u_email r)) (users (sf_db d))" using assms(1) by (simp add: users_ok_def)
  from unique_where_eqD[OF this x' u] show False using x(2,3) assms(3) by simp
qed

lemma restored:
  assumes u: "account_of d (u_id u) = Some u" "u_status u = US_INVITED" "u_deactivated_at u = None" "distinct (map u_id (users (sf_db d)))"
    and r: "get_by si_id i (school_invitations d) = Some r" "si_status r = ''pending''" "si_revoked_at r = None" "distinct (map si_id (school_invitations d))"
    and fresh: "\<And>t. t \<in> set (assignments d) \<Longrightarrow> tca_removed_at t \<noteq> Some now"
  shows "put_assignments (update_where (\<lambda>t. tca_teacher_id t = u_id u \<and> tca_removed_at t = Some now) (\<lambda>t. t\<lparr>tca_removed_at := None\<rparr>)
      (assignments (revoked_state d i (u_id u) now)))
    (put_account (u_id u) (\<lambda>x. x\<lparr>u_status := US_INVITED, u_deactivated_at := None, u_email := u_email u\<rparr>)
      (put_invitation i (\<lambda>r. r\<lparr>si_status := ''pending'', si_revoked_at := None, si_token_digest := ace_sha256 env tok, si_expires_at := now2 + INVITATION_LIFETIME\<rparr>)
        (revoked_state d i (u_id u) now))) = reserved_back env i now2 tok d"
proof -
  have rows: "update_where (\<lambda>t. tca_teacher_id t = u_id u \<and> tca_removed_at t = Some now) (\<lambda>t. t\<lparr>tca_removed_at := None\<rparr>)
      (update_where (\<lambda>t. tca_teacher_id t = u_id u \<and> tca_removed_at t = None) (\<lambda>t. t\<lparr>tca_removed_at := Some now\<rparr>) (assignments d)) = assignments d"
    by (rule update_back) (use fresh in auto)
  have mine: "x = u" if "x \<in> set (users (sf_db d))" "u_id x = u_id u" for x
    using get_by_in[OF u(4) that(1)] that(2) u(1) by (simp add: account_of_def)
  have id: "u\<lparr>u_status := US_INVITED, u_deactivated_at := None, u_email := u_email u\<rparr> = u" using u(2,3) by (cases u) simp
  have us: "update_where (\<lambda>x. u_id x = u_id u) (\<lambda>x. x\<lparr>u_status := US_INVITED, u_deactivated_at := None, u_email := u_email u\<rparr>)
      (update_where (\<lambda>x. u_id x = u_id u) (\<lambda>u. u\<lparr>u_status := US_DEACTIVATED, u_deactivated_at := Some now, u_email := None\<rparr>) (users (sf_db d))) = users (sf_db d)"
  proof (rule update_back)
    fix x assume "x \<in> set (users (sf_db d))" "u_id x = u_id u"
    then have xu: "x = u" by (rule mine)
    show "u_id (x\<lparr>u_status := US_DEACTIVATED, u_deactivated_at := Some now, u_email := None\<rparr>) = u_id u \<and>
        x\<lparr>u_status := US_DEACTIVATED, u_deactivated_at := Some now, u_email := None\<rparr>\<lparr>u_status := US_INVITED, u_deactivated_at := None, u_email := u_email u\<rparr> = x"
      unfolding xu using id by simp
  qed simp
  have one: "x = r" if "x \<in> set (school_invitations d)" "si_id x = i" for x using get_by_in[OF r(4) that(1)] that(2) r(1) by simp
  have invs: "update_where (\<lambda>r. si_id r = i) (\<lambda>r. r\<lparr>si_status := ''pending'', si_revoked_at := None, si_token_digest := ace_sha256 env tok, si_expires_at := now2 + INVITATION_LIFETIME\<rparr>)
      (update_where (\<lambda>r. si_id r = i) (\<lambda>r. r\<lparr>si_status := ''revoked'', si_revoked_at := Some now\<rparr>) (school_invitations d)) =
    update_where (\<lambda>r. si_id r = i) (\<lambda>r. r\<lparr>si_token_digest := ace_sha256 env tok, si_expires_at := now2 + INVITATION_LIFETIME\<rparr>) (school_invitations d)"
    unfolding update_where_def map_map using one r(2,3) by (intro map_cong) auto
  show ?thesis
    unfolding revoked_state_def reserved_back_def put_assignments_def put_account_def put_invitation_def using rows us invs by simp
qed

text \<open>Claim C11.  Revoking a teacher's invitation and reissuing it is a round trip: while it is revoked its link is refused, and reissuing leaves exactly what
  resending the invitation would have left - the reserved account with its address, every class that was reserved for it and nothing else - with
  a new link.\<close>

theorem reissue_undoes_revocation:
  assumes ok: "invitations_ok d" and actor: "require_school_actor rq (sf_db d) p ADMIN_ROLES = Inr actor"
    and r: "get_by si_id i (school_invitations d) = Some r" "si_role r = ''teacher''" "present (si_email r) \<noteq> []" "si_revoked_at r = None"
    and u: "account_of d i = Some u" "reserved_teacher_matches r u"
    and fresh: "\<forall>t \<in> set (assignments d). tca_removed_at t \<noteq> Some now" "ace_sha256 env tok \<notin> si_token_digest ` set (school_invitations d)"
    and revoke: "revoke_invite rq d p i now = (d1, Inr ())"
  shows "fst (reissue_teacher_invite env rq m d1 p i now2 tok b) = fst (resend_invite env rq m d p i now2 tok b) \<and>
     (\<forall>old t. si_token_digest r = ace_sha256 env old \<longrightarrow> join_record env d1 old t = Inl (refuse 410 ''join_link_revoked''))"
proof -
  have uid: "u_id u = i" using u(1) get_by_SomeD[of u_id i "users (sf_db d)" u] by (simp add: account_of_def)
  have m: "u_status u = US_INVITED" "u_role u = UR_TEACHER" "u_school_id u = Some (si_school_id r)" "u_email u = si_email r"
    using u(2) by (auto simp: reserved_teacher_matches_def)
  have rev: "d1 = revoked_state d i (u_id u) now" "Some (si_school_id r) = u_school_id actor" "si_status r = ''pending''"
    using revoke_state[OF actor r(1) u(1) m(1) revoke] by auto
  have ri: "si_id r = i" "r \<in> set (school_invitations d)" using get_by_SomeD[OF r(1)] by auto
  have con: "db_constraints (sf_db d)" "users_ok (users (sf_db d))" "teacher_class_assignments_ok (assignments d)" "distinct (map u_id (users (sf_db d)))"
      "distinct (map si_id (school_invitations d))" "distinct (map si_token_digest (school_invitations d))"
    using ok by (auto simp: invitations_ok_def db_constraints_def users_ok_def)
  have du: "u_deactivated_at u = None"
    using con(2) m(1) u(1) get_by_SomeD[of u_id i "users (sf_db d)" u] by (auto simp: users_ok_def list_all_iff user_row_ok_def account_of_def)
  obtain e where e: "si_email r = Some e" using r(3) by (cases "si_email r") (auto simp: present_def)
  note look = revoked_lookup[OF r(1) u(1) uid, of now]
  have actor1: "require_school_actor rq (sf_db d1) p ADMIN_ROLES = Inr actor"
    unfolding rev(1) using actor_after_revoke[OF actor _ m(2) refl] u(1) uid by simp
  have no_conflict: "\<not> list_ex (assignment_conflict d1 (u_id u)) (filter (\<lambda>t. tca_teacher_id t = u_id u \<and> tca_removed_at t = Some now) (assignments d1))"
    unfolding list_ex_iff rev(1) using no_conflict_after_revoke[OF con(3), of now] fresh(1) by auto
  have free: "\<not> exists_where (\<lambda>x. u_school_id x = u_school_id actor \<and> u_email x = Some e \<and> u_id x \<noteq> u_id u \<and> u_status x \<in> {US_ACTIVE, US_INVITED}) (users (sf_db d1))"
    unfolding rev(1) by (rule email_free_after_revoke[OF con(2)]) (use u(1) uid m(4) e in auto)
  have whole: "put_assignments (update_where (\<lambda>t. tca_teacher_id t = u_id u \<and> tca_removed_at t = Some now) (\<lambda>t. t\<lparr>tca_removed_at := None\<rparr>) (assignments d1))
    (put_account (u_id u) (\<lambda>x. x\<lparr>u_status := US_INVITED, u_deactivated_at := None, u_email := Some e\<rparr>)
      (put_invitation i (\<lambda>r. r\<lparr>si_status := ''pending'', si_revoked_at := None, si_token_digest := ace_sha256 env tok, si_expires_at := now2 + INVITATION_LIFETIME\<rparr>) d1))
    = reserved_back env i now2 tok d"
    using restored[OF _ m(1) du con(4) r(1) rev(3) r(4) con(5), where now = now and env = env and tok = tok and ?now2.0 = now2] u(1) uid fresh(1) m(4) e unfolding rev(1) by simp
  have d1: "d1 = revoked_state d i i now" using rev(1) uid by simp
  have send: "fst (send_invitation m b x tok c) = fst c" for x c by (cases c) (auto simp: send_invitation_def split: sum.splits)
  have 1: "fst (reissue_teacher_invite env rq m d1 p i now2 tok b) = fst (staff_commit d1 (reserved_back env i now2 tok d) ())"
    using actor1 look[folded d1] r(2,3) rev(2) m(2,3) ri(1) free no_conflict whole e
    by (simp add: reissue_teacher_invite_def Let_def send uid del: exists_where_iff)
  have new: "invitations_ok (reserved_back env i now2 tok d)"
    unfolding invitations_ok_def reserved_back_def using con(1,5,6) fresh(2) by (auto simp: map_update_where intro!: distinct_rekey)
  have "\<not> reserved_conflict d r" using u ri(1) by (simp add: reserved_conflict_def)
  then have 2: "fst (resend_invite env rq m d p i now2 tok b) = fst (staff_commit d (reserved_back env i now2 tok d) ())"
    using actor r(1,2) rev(2,3) by (simp add: resend_invite_def send reserved_back_def refuse_student_invitation_def)
  have 3: "join_record env d1 old t = Inl (refuse 410 ''join_link_revoked'')" if old: "si_token_digest r = ace_sha256 env old" for old t
  proof -
    have "get_by si_token_digest (ace_sha256 env old) (school_invitations d) = Some r" using get_by_in[OF con(6) ri(2)] old by simp
    then show ?thesis using ri(1) by (simp add: join_record_def d1 revoked_state_def get_by_update_where)
  qed
  show ?thesis using 1 2 3 new by (simp add: staff_commit_def)
qed

subsection \<open>Witnesses\<close>

text \<open>An invited teacher with a class reserved for them.\<close>

definition invite_row :: school_invitation_row where
  "invite_row = \<lparr>si_id = 40, si_school_id = 1, si_role = ''teacher'', si_first_name = Some ''Bola'', si_last_name = None, si_email = Some ''b@b.ng'',
     si_parent_contact = None, si_consent_request_status = ''not_sent'', si_class_id = None, si_token_digest = ''sha:j1'', si_status = ''pending'',
     si_expires_at = td_days 14, si_accepted_at = None, si_revoked_at = None, si_created_by_id = 20, si_created_at = 0\<rparr>"

definition invite_admin :: user_row where
  "invite_admin = unconfirmed_admin\<lparr>u_email_confirmed_at := Some 0\<rparr>"

definition invite_sample :: staffing_db where
  "invite_sample = staffing_sample\<lparr>sf_db := (sf_db staffing_sample)\<lparr>users := [invite_admin, invited_teacher 1 invite_row],
       teacher_class_assignments := [staffing_assignment 41 40 1 TR_PRIMARY]\<rparr>, school_invitations := [invite_row]\<rparr>"

definition revoked_sample :: staffing_db where
  "revoked_sample = fst (revoke_invite None invite_sample admin_principal 40 5)"

lemma invite_sample_ok: "invitations_ok invite_sample"
  by code_simp

theorem reissue_undoes_revocation_witness:
  "fst (reissue_teacher_invite account_sample_env None True revoked_sample admin_principal 40 9 ''j2'' True) =
     fst (resend_invite account_sample_env None True invite_sample admin_principal 40 9 ''j2'' True) \<and>
   join_record account_sample_env revoked_sample ''j1'' 6 = Inl (refuse 410 ''join_link_revoked'')"
proof -
  have actor: "require_school_actor None (sf_db invite_sample) admin_principal ADMIN_ROLES = Inr invite_admin" by code_simp
  have r: "get_by si_id 40 (school_invitations invite_sample) = Some invite_row" "si_role invite_row = ''teacher''" "present (si_email invite_row) \<noteq> []"
      "si_revoked_at invite_row = None" by code_simp+
  have u: "account_of invite_sample 40 = Some (invited_teacher 1 invite_row)" "reserved_teacher_matches invite_row (invited_teacher 1 invite_row)" by code_simp+
  have fresh: "\<forall>t \<in> set (assignments invite_sample). tca_removed_at t \<noteq> Some 5"
    "ace_sha256 account_sample_env ''j2'' \<notin> si_token_digest ` set (school_invitations invite_sample)" by code_simp+
  have s: "snd (revoke_invite None invite_sample admin_principal 40 5) = Inr ()" by code_simp
  have revoke: "revoke_invite None invite_sample admin_principal 40 5 = (revoked_sample, Inr ())" unfolding revoked_sample_def s[symmetric] by simp
  have old: "si_token_digest invite_row = ace_sha256 account_sample_env ''j1''" by code_simp
  show ?thesis using reissue_undoes_revocation[OF invite_sample_ok actor r u fresh revoke] old by blast
qed

definition joining_teacher :: join_request where
  "joining_teacher = \<lparr>jr_password = Some ''long-enough'', jr_pin = None, jr_first_name = None, jr_last_name = Some ''Ade''\<rparr>"

definition joined_sample :: staffing_db where
  "joined_sample = fst (accept_join account_sample_env no_ids invite_sample ''j1'' joining_teacher 6 6 50 ''s'' 51)"

theorem join_link_is_used_once_witness:
  "\<exists>e. accept_join account_sample_env no_ids joined_sample ''j1'' joining_teacher 7 7 52 ''s2'' 53 = (joined_sample, Inl e)"
proof -
  have "\<not> isl (snd (accept_join account_sample_env no_ids invite_sample ''j1'' joining_teacher 6 6 50 ''s'' 51))" by code_simp
  then obtain x where x: "snd (accept_join account_sample_env no_ids invite_sample ''j1'' joining_teacher 6 6 50 ''s'' 51) = Inr x"
    by (cases "snd (accept_join account_sample_env no_ids invite_sample ''j1'' joining_teacher 6 6 50 ''s'' 51)") auto
  obtain uid issued where ui: "x = (uid, issued)" by (rule prod.exhaust)
  have acc: "accept_join account_sample_env no_ids invite_sample ''j1'' joining_teacher 6 6 50 ''s'' 51 = (joined_sample, Inr (uid, issued))"
    unfolding joined_sample_def ui[symmetric] x[symmetric] by simp
  have "links_distinct invite_sample" using invite_sample_ok by (simp add: invitations_ok_def links_distinct_def)
  from join_link_is_used_once[OF acc this rtranclp.rtrancl_refl] show ?thesis by blast
qed

end
