(* ===== verification/Retention.thy ===== *)
theory Retention
  imports Database "HOL-Library.While_Combinator"
begin

text \<open>
  Erasing a child's data when the retention period ends (\<^verbatim>\<open>nevo/retention\<close>, \<^verbatim>\<open>api/safety_retention.py\<close>).  The purge walks over every table
  of the schema, so the tables other than the accounts and the receipts are held generically here: a row is its primary key and its named
  cells, and the schema (\<^verbatim>\<open>Base.metadata.sorted_tables\<close>, in dependency order) is a parameter, as are SHA-256, HMAC, the object storage and how
  a value prints as text.  The sweep starts after \<^verbatim>\<open>prepare_pending_holds\<close>, which theory \<open>AgeAssurance\<close> models.
\<close>

subsection \<open>Rows, tables and schema\<close>

datatype gval = GNull | GUuid uuid | GText string | GTime datetime | GInt int | GJson json

record grow =
  gr_id :: "uuid option"
  gr_cells :: "(string \<times> gval) list"

type_synonym gdb = "string \<Rightarrow> grow list"

definition cell :: "grow \<Rightarrow> string \<Rightarrow> gval" where
  "cell r c = (case map_of (gr_cells r) c of None \<Rightarrow> GNull | Some v \<Rightarrow> v)"

record column =
  co_name :: string
  co_fks :: "(string \<times> string) list"

record table =
  tb_name :: string
  tb_columns :: "column list"

definition has_id :: "table \<Rightarrow> bool" where
  "has_id t = list_ex (\<lambda>c. co_name c = ''id'') (tb_columns t)"

type_synonym targets = "string \<Rightarrow> uuid set"

definition ids_where :: "gdb \<Rightarrow> string \<Rightarrow> (grow \<Rightarrow> bool) \<Rightarrow> uuid set" where
  "ids_where g t P = set (map (\<lambda>r. the (gr_id r)) (filter (\<lambda>r. gr_id r \<noteq> None \<and> P r) (g t)))"

text \<open>\<^verbatim>\<open>text.contains(part)\<close>; a NULL never matches.\<close>

definition has_part :: "string \<Rightarrow> string \<Rightarrow> bool" where
  "has_part part s = list_ex (\<lambda>k. take (length part) (drop k s) = part) [0..<Suc (length s)]"

definition text_contains :: "gval \<Rightarrow> string \<Rightarrow> bool" where
  "text_contains v part = (case v of GText s \<Rightarrow> has_part part s | _ \<Rightarrow> False)"

definition refers_to :: "gval \<Rightarrow> uuid set \<Rightarrow> bool" where
  "refers_to v S = (case v of GUuid i \<Rightarrow> i \<in> S | _ \<Rightarrow> False)"

subsection \<open>What belongs to a learner\<close>

definition OWNERS :: "string list" where
  "OWNERS = [''student_id'', ''learner_id'', ''subject_user_id'', ''actor_user_id'', ''user_id'', ''sender_id'', ''recipient_id'']"

definition EXCLUDED :: "string list" where
  "EXCLUDED = [''users'', ''learner_purge_receipts'']"

definition owner_columns :: "table \<Rightarrow> string list" where
  "owner_columns t =
     map co_name (filter (\<lambda>c. co_name c \<in> set OWNERS \<and> (''users'', ''id'') \<in> set (co_fks c)) (tb_columns t)) @
     (if tb_name t = ''ai_gateway_calls'' then [''requester_user_id''] else []) @
     (if tb_name t = ''message_threads'' then [''created_by_id''] else [])"

definition owned_row :: "table \<Rightarrow> uuid \<Rightarrow> grow \<Rightarrow> bool" where
  "owned_row t student r = list_ex (\<lambda>c. cell r c = GUuid student) (owner_columns t)"

definition add_targets :: "string \<Rightarrow> uuid set \<Rightarrow> targets \<Rightarrow> targets" where
  "add_targets t S T = T(t := T t \<union> S)"

record purge_env =
  pe_schema :: "table list"
  pe_sha256 :: "string \<Rightarrow> string"
  pe_as_text :: "gval \<Rightarrow> string"

definition owned_targets :: "table list \<Rightarrow> gdb \<Rightarrow> uuid \<Rightarrow> targets \<Rightarrow> targets" where
  "owned_targets schema g student T =
     foldl (\<lambda>T t. if tb_name t \<in> set EXCLUDED \<or> owner_columns t = [] \<or> \<not> has_id t then T
                  else add_targets (tb_name t) (ids_where g (tb_name t) (owned_row t student)) T) T schema"

text \<open>The tables without a primary key whose owned rows are deleted by their owner columns.\<close>

definition composite :: "table \<Rightarrow> bool" where
  "composite t = (tb_name t \<notin> set EXCLUDED \<and> owner_columns t \<noteq> [] \<and> \<not> has_id t)"

definition learner_names :: "user_row \<Rightarrow> string list" where
  "learner_names u =
     (let full = (if u_first_name u \<notin> {None, Some ''Former''}
                  then [py_join '' '' (filter (\<lambda>p. p \<noteq> []) [present (u_first_name u), present (u_last_name u)])] else []) in
      filter (\<lambda>v. 3 \<le> length v) ([present (u_email u), present (u_admission_number u), present (u_login_identifier u)] @ full))"

definition mentions :: "string list \<Rightarrow> gval \<Rightarrow> bool" where
  "mentions names v = list_ex (text_contains v) names"

definition cells_of :: "gdb \<Rightarrow> string \<Rightarrow> (grow \<Rightarrow> bool) \<Rightarrow> string \<Rightarrow> uuid set" where
  "cells_of g t P c = set (concat (map (\<lambda>r. case cell r c of GUuid i \<Rightarrow> [i] | _ \<Rightarrow> []) (filter P (g t))))"

definition in_table :: "grow \<Rightarrow> uuid set \<Rightarrow> bool" where
  "in_table r S = (case gr_id r of None \<Rightarrow> False | Some i \<Rightarrow> i \<in> S)"

definition initial_targets :: "purge_env \<Rightarrow> gdb \<Rightarrow> user_row list \<Rightarrow> user_row \<Rightarrow> targets" where
  "initial_targets env g us u =
     (let student = u_id u;
          feedback_ref = take 16 (pe_sha256 env (uuid_str student));
          T1 = add_targets ''feedback_submissions'' (ids_where g ''feedback_submissions'' (\<lambda>r. cell r ''account_ref'' = GText feedback_ref)) (\<lambda>_. {});
          T2 = owned_targets (pe_schema env) g student T1;
          interactions = ids_where g ''ask_nevo_interactions'' (\<lambda>r. cell r ''context_ids'' \<noteq> GNull \<and> has_part (uuid_str student) (pe_as_text env (cell r ''context_ids'')));
          T3 = add_targets ''ask_nevo_interactions'' interactions T2;
          T4 = add_targets ''ask_nevo_threads'' (cells_of g ''ask_nevo_messages'' (\<lambda>m. refers_to (cell m ''interaction_id'') interactions) ''thread_id'') T3;
          names = learner_names u in
      case u_school_id u of
        None \<Rightarrow> T4
      | Some school \<Rightarrow>
          if names = [] then T4
          else
            (let school_threads = ids_where g ''ask_nevo_threads'' (\<lambda>r. cell r ''school_id'' = GUuid school);
                 named_threads = cells_of g ''ask_nevo_messages'' (\<lambda>m. mentions names (cell m ''body'')) ''thread_id'' \<inter> school_threads;
                 members = set (map u_id (filter (\<lambda>x. u_school_id x = Some school) us));
                 notes = ids_where g ''notifications'' (\<lambda>r. refers_to (cell r ''recipient_id'') members \<and>
                   (mentions names (cell r ''description'') \<or> text_contains (cell r ''navigates_to'') (uuid_str student)));
                 message_threads = ids_where g ''message_threads'' (\<lambda>r. cell r ''school_id'' = GUuid school);
                 messages = ids_where g ''messages'' (\<lambda>r. refers_to (cell r ''thread_id'') message_threads \<and> mentions names (cell r ''content'')) in
             add_targets ''messages'' messages (add_targets ''notifications'' notes (add_targets ''ask_nevo_threads'' named_threads T4))))"

subsection \<open>Dependent records\<close>

text \<open>The foreign keys the expansion follows: to the primary key of another table, but not to an account.\<close>

definition id_references :: "table \<Rightarrow> (string \<times> string) list" where
  "id_references t = concat (map (\<lambda>c. map (\<lambda>(target, _). (co_name c, target)) (filter (\<lambda>(target, k). k = ''id'' \<and> target \<noteq> ''users'') (co_fks c))) (tb_columns t))"

definition expands :: "table \<Rightarrow> bool" where
  "expands t = (tb_name t \<notin> set EXCLUDED \<and> has_id t)"

definition found_rows :: "gdb \<Rightarrow> targets \<Rightarrow> table \<Rightarrow> uuid set" where
  "found_rows g T t = ids_where g (tb_name t) (\<lambda>r. list_ex (\<lambda>(c, target). refers_to (cell r c) (T target)) (id_references t))"

definition expand_table :: "gdb \<Rightarrow> targets \<times> bool \<Rightarrow> table \<Rightarrow> targets \<times> bool" where
  "expand_table g st t =
     (if \<not> expands t then st
      else (let f = found_rows g (fst st) t in
            if f \<subseteq> fst st (tb_name t) then st else (add_targets (tb_name t) f (fst st), True)))"

definition expand_round :: "table list \<Rightarrow> gdb \<Rightarrow> targets \<Rightarrow> targets \<times> bool" where
  "expand_round schema g T = foldl (expand_table g) (T, False) schema"

definition expand_targets :: "table list \<Rightarrow> gdb \<Rightarrow> targets \<Rightarrow> targets option" where
  "expand_targets schema g T =
     map_option fst (while_option snd (\<lambda>st. expand_round schema g (fst st)) (T, True))"

subsection \<open>Deletion\<close>

definition delete_table :: "uuid \<Rightarrow> targets \<Rightarrow> gdb \<times> (string \<times> nat) list \<Rightarrow> table \<Rightarrow> gdb \<times> (string \<times> nat) list" where
  "delete_table student T st t =
     (let (g, counts) = st; n = tb_name t in
      if T n \<noteq> {} \<and> n \<notin> set EXCLUDED
      then (g(n := filter (\<lambda>r. \<not> in_table r (T n)) (g n)), counts @ [(n, card (T n))])
      else if composite t
      then (g(n := filter (\<lambda>r. \<not> owned_row t student r) (g n)), counts @ [(n, length (filter (owned_row t student) (g n)))])
      else st)"

definition clear_previews :: "uuid set \<Rightarrow> gdb \<Rightarrow> gdb" where
  "clear_previews threads g = g(''message_threads'' := map (\<lambda>r. if in_table r threads
     then r\<lparr>gr_cells := (''latest_preview'', GNull) # gr_cells r\<rparr> else r) (g ''message_threads''))"

definition delete_learner_records :: "purge_env \<Rightarrow> gdb \<Rightarrow> user_row list \<Rightarrow> user_row \<Rightarrow> (gdb \<times> (string \<times> nat) list) option" where
  "delete_learner_records env g us u =
     (let T0 = initial_targets env g us u;
          affected = cells_of g ''messages'' (\<lambda>r. in_table r (T0 ''messages'')) ''thread_id'' in
      case expand_targets (pe_schema env) g T0 of
        None \<Rightarrow> None
      | Some T \<Rightarrow>
          (let (g', counts) = foldl (delete_table (u_id u) T) (g, []) (rev (pe_schema env)) in
           Some (clear_previews (affected - T ''message_threads'') g', counts)))"

subsection \<open>The account\<close>

definition ANONYMISED_FIRST_NAME :: string where "ANONYMISED_FIRST_NAME = ''Former''"
definition ANONYMISED_LAST_NAME :: string where "ANONYMISED_LAST_NAME = ''Student''"

definition anonymise_student :: "string \<Rightarrow> datetime \<Rightarrow> user_row \<Rightarrow> user_row" where
  "anonymise_student token_hex now u = u\<lparr>u_first_name := Some ANONYMISED_FIRST_NAME, u_last_name := Some ANONYMISED_LAST_NAME, u_email := None,
     u_login_identifier := Some (''deleted-'' @ token_hex), u_password_hash := None, u_pin_hash := None, u_sso_external_id := None,
     u_baseline_profile := JObject [], u_engine_config := JObject [], u_preferences := JObject [], u_status := US_DEACTIVATED,
     u_anonymised_at := Some now, u_deactivated_at := (if u_deactivated_at u = None then Some now else u_deactivated_at u)\<rparr>"

definition clear_identity :: "string \<Rightarrow> datetime \<Rightarrow> user_row \<Rightarrow> user_row" where
  "clear_identity token_hex now u = (anonymise_student token_hex now u)\<lparr>u_admission_number := None, u_preferred_name := None,
     u_date_of_birth := None, u_age_band := None, u_avatar_tone := None, u_pin_cleared_at := None, u_email_confirmed_at := None,
     u_school_id := None, u_retention_purged_at := Some now\<rparr>"

subsection \<open>The sweep\<close>

record purge_receipt_row =
  lp_student_id :: "uuid option"
  lp_school_id :: "uuid option"
  lp_subject_digest :: string
  lp_status :: string
  lp_object_paths :: "string list"
  lp_counts :: "(string \<times> nat) list"
  lp_error_code :: "string option"
  lp_completed_at :: "datetime option"

record retention_db =
  rt_users :: "user_row list"
  rt_schools :: "school_row list"
  rt_tables :: gdb
  rt_receipts :: "purge_receipt_row list"

text \<open>
  The object storage as one purge meets it: the paths it lists below a prefix and whether deleting a path succeeds.  A call that raises is a
  \<open>None\<close>.
\<close>

record retention_env =
  re_purge :: purge_env
  re_receipt_key :: "string option"
  re_hmac :: "string \<Rightarrow> string \<Rightarrow> string"
  re_configured :: bool
  re_list_paths :: "string \<Rightarrow> string list option"
  re_delete :: "string \<Rightarrow> bool"
  re_token_hex :: "uuid \<Rightarrow> string"

definition subject_digest :: "retention_env \<Rightarrow> uuid \<Rightarrow> string" where
  "subject_digest env student = re_hmac env (present (re_receipt_key env)) (''retention-v1:'' @ uuid_str student)"

definition due :: "user_row \<Rightarrow> datetime \<Rightarrow> bool" where
  "due u now = (u_retention_purged_at u = None \<and> (case u_retention_due_at u of None \<Rightarrow> False | Some t \<Rightarrow> t \<le> now))"

definition open_receipt :: "retention_env \<Rightarrow> user_row \<Rightarrow> retention_db \<Rightarrow> retention_db" where
  "open_receipt env u d =
     (let digest = subject_digest env (u_id u) in
      if exists_where (\<lambda>p. lp_subject_digest p = digest) (rt_receipts d) then d
      else d\<lparr>rt_receipts := rt_receipts d @ [\<lparr>lp_student_id = Some (u_id u), lp_school_id = u_school_id u, lp_subject_digest = digest,
        lp_status = ''pending'', lp_object_paths = [], lp_counts = [], lp_error_code = None, lp_completed_at = None\<rparr>]\<rparr>)"

definition profile_prefix :: "uuid \<Rightarrow> string" where
  "profile_prefix student = ''images/profiles/'' @ uuid_str student"

definition written_prefix :: "uuid \<Rightarrow> string" where
  "written_prefix student = ''consent/written/'' @ uuid_str student"

definition own_path :: "uuid \<Rightarrow> string \<Rightarrow> bool" where
  "own_path student path = py_startswith path [profile_prefix student @ ''/'', written_prefix student @ ''/'']"

definition image_path :: "user_row \<Rightarrow> string list" where
  "image_path u = (case u_preferences u of
     JObject kvs \<Rightarrow> (case dict_get kvs ''profileImagePath'' of
        JString p \<Rightarrow> if py_startswith p [profile_prefix (u_id u) @ ''/''] then [p] else []
      | _ \<Rightarrow> [])
   | _ \<Rightarrow> [])"

definition evidence_paths :: "gdb \<Rightarrow> uuid \<Rightarrow> string list" where
  "evidence_paths g student =
     concat (map (\<lambda>r. case cell r ''evidence_storage_path'' of GText p \<Rightarrow> if p = [] then [] else [p] | _ \<Rightarrow> [])
       (filter (\<lambda>r. cell r ''subject_user_id'' = GUuid student) (g ''consent_records'')))"

text \<open>The objects to delete; \<open>None\<close> when the storage cannot be listed, an object is not the learner's own, or a deletion fails.\<close>

definition delete_objects :: "retention_env \<Rightarrow> retention_db \<Rightarrow> user_row \<Rightarrow> purge_receipt_row \<Rightarrow> string list option" where
  "delete_objects env d u job =
     (case (re_list_paths env (profile_prefix (u_id u)), re_list_paths env (written_prefix (u_id u))) of
        (Some ps, Some ws) \<Rightarrow>
          (let paths = remdups (lp_object_paths job @ ps @ ws @ image_path u @ evidence_paths (rt_tables d) (u_id u)) in
           if list_all (\<lambda>p. own_path (u_id u) p \<and> re_delete env p) paths then Some paths else None)
      | _ \<Rightarrow> None)"

text \<open>
  The database sets the deadline whenever an account is written: the purpose of a deactivated student ends with the deactivation, and the
  deadline is the school's retention period, 180 days at most, later.  The trigger also refuses to revive an account that was purged; the operations
  here never write one.
\<close>

definition deadline_trigger :: "school_row list \<Rightarrow> datetime \<Rightarrow> user_row \<Rightarrow> user_row" where
  "deadline_trigger scs now u =
     (if u_role u \<noteq> UR_STUDENT then u
      else
        (let ended = (if u_status u = US_DEACTIVATED \<and> u_purpose_ended_at u = None
                      then Some (case u_deactivated_at u of Some t \<Rightarrow> t | None \<Rightarrow> now) else u_purpose_ended_at u);
             days = (case u_school_id u of None \<Rightarrow> 180
                     | Some s \<Rightarrow> (case get_by sch_id s scs of None \<Rightarrow> 180 | Some sc \<Rightarrow> min (sch_data_retention_days sc) 180)) in
         u\<lparr>u_purpose_ended_at := ended, u_retention_due_at := map_option (\<lambda>t. t + td_days days) ended\<rparr>))"

text \<open>
  \<^verbatim>\<open>_purge\<close>: the receipt is committed first, so the state it leaves also after an exception carries it.  The result is \<open>None\<close> for an
  exception and the returned flag otherwise.
\<close>

definition completed :: "(string \<times> nat) list \<Rightarrow> datetime \<Rightarrow> purge_receipt_row \<Rightarrow> purge_receipt_row" where
  "completed counts now p = p\<lparr>lp_status := ''completed'', lp_error_code := None, lp_completed_at := Some now,
     lp_student_id := None, lp_object_paths := [], lp_counts := counts\<rparr>"

definition purge :: "retention_env \<Rightarrow> retention_db \<Rightarrow> uuid \<Rightarrow> datetime \<Rightarrow> retention_db \<times> bool option" where
  "purge env d student now =
     (if present (re_receipt_key env) = [] then (d, None)
      else
        (case get_by u_id student (rt_users d) of
           None \<Rightarrow> (d, Some False)
         | Some u \<Rightarrow>
             if \<not> due u now then (d, Some False)
             else
               (let d1 = open_receipt env u d in
                if \<not> re_configured env then (d1, None)
                else
                  (case get_by lp_student_id (Some student) (rt_receipts d1) of
                     None \<Rightarrow> (d1, None)
                   | Some job \<Rightarrow>
                       (case delete_objects env d1 u job of
                          None \<Rightarrow> (d1, None)
                        | Some _ \<Rightarrow>
                            (case delete_learner_records (re_purge env) (rt_tables d1) (rt_users d1) u of
                               None \<Rightarrow> (d1, None)
                             | Some (g, counts) \<Rightarrow>
                                 (d1\<lparr>rt_tables := g,
                                     rt_users := update_where (\<lambda>x. u_id x = student) (\<lambda>x. deadline_trigger (rt_schools d1) now (clear_identity (re_token_hex env student) now x)) (rt_users d1),
                                     rt_receipts := update_where (\<lambda>p. lp_student_id p = Some student) (completed counts now) (rt_receipts d1)\<rparr>,
                                  Some True)))))))"

definition retry_receipt :: "uuid \<Rightarrow> retention_db \<Rightarrow> retention_db" where
  "retry_receipt student d = d\<lparr>rt_receipts := update_where (\<lambda>p. lp_student_id p = Some student)
     (\<lambda>p. p\<lparr>lp_status := ''retry'', lp_error_code := Some ''purge_incomplete''\<rparr>) (rt_receipts d)\<rparr>"

definition DEFAULT_BATCH_SIZE :: nat where "DEFAULT_BATCH_SIZE = 200"

definition wanted :: "retention_db \<Rightarrow> datetime \<Rightarrow> nat \<Rightarrow> uuid list" where
  "wanted d now batch_size =
     map u_id (take batch_size (sort_key (\<lambda>u. the (u_retention_due_at u)) (filter (\<lambda>u. u_role u = UR_STUDENT \<and> due u now) (rt_users d))))"

fun purge_each :: "retention_env \<Rightarrow> datetime \<Rightarrow> uuid list \<Rightarrow> retention_db \<Rightarrow> retention_db \<times> nat \<times> nat" where
  "purge_each env now [] d = (d, 0, 0)"
| "purge_each env now (s # ss) d =
     (case purge env d s now of
        (d1, None) \<Rightarrow> (let (d2, anonymised, failed) = purge_each env now ss (retry_receipt s d1) in (d2, anonymised, Suc failed))
      | (d1, Some b) \<Rightarrow> (let (d2, anonymised, failed) = purge_each env now ss d1 in (d2, if b then Suc anonymised else anonymised, failed)))"

subsection \<open>Expired chats\<close>

definition retention_days_of :: "retention_db \<Rightarrow> gval \<Rightarrow> int" where
  "retention_days_of d v = min (case v of
       GUuid s \<Rightarrow> (case get_by sch_id s (rt_schools d) of None \<Rightarrow> 180 | Some sc \<Rightarrow> sch_data_retention_days sc)
     | _ \<Rightarrow> 180) 180"

definition expired_chat :: "retention_db \<Rightarrow> datetime \<Rightarrow> grow \<Rightarrow> bool" where
  "expired_chat d now r =
     (cell r ''deleted_at'' \<noteq> GNull \<or>
      (cell r ''role'' = GText ''teacher'' \<and> (case cell r ''created_at'' of GTime t \<Rightarrow> t \<le> now - td_days 90 | _ \<Rightarrow> False)) \<or>
      (case cell r ''last_message_at'' of GTime t \<Rightarrow> t < now - td_days (retention_days_of d (cell r ''school_id'')) | _ \<Rightarrow> False))"

definition expired_batch :: "retention_db \<Rightarrow> datetime \<Rightarrow> grow list" where
  "expired_batch d now = take DEFAULT_BATCH_SIZE (filter (\<lambda>r. gr_id r \<noteq> None \<and> expired_chat d now r) (rt_tables d ''ask_nevo_threads''))"

text \<open>The messages of a deleted thread go with it (\<^verbatim>\<open>ondelete="CASCADE"\<close>).\<close>

definition drop_chats :: "grow list \<Rightarrow> retention_db \<Rightarrow> retention_db" where
  "drop_chats rs d = (let gone = set (concat (map (\<lambda>r. case gr_id r of None \<Rightarrow> [] | Some i \<Rightarrow> [i]) rs)) in
     d\<lparr>rt_tables := (rt_tables d)(''ask_nevo_threads'' := filter (\<lambda>r. \<not> in_table r gone) (rt_tables d ''ask_nevo_threads''),
        ''ask_nevo_messages'' := filter (\<lambda>r. \<not> refers_to (cell r ''thread_id'') gone) (rt_tables d ''ask_nevo_messages''))\<rparr>)"

lemma refers_to_iff [simp]: "refers_to v S \<longleftrightarrow> (\<exists>j \<in> S. v = GUuid j)"
  by (cases v) (auto simp: refers_to_def)

lemma in_table_iff [simp]: "in_table r S \<longleftrightarrow> (\<exists>i \<in> S. gr_id r = Some i)"
  by (cases "gr_id r") (auto simp: in_table_def)

lemma drop_chats_fewer:
  assumes "expired_batch d now \<noteq> []"
  shows "length (rt_tables (drop_chats (expired_batch d now) d) ''ask_nevo_threads'') < length (rt_tables d ''ask_nevo_threads'')"
proof -
  obtain r where r: "r \<in> set (expired_batch d now)" using assms by (meson last_in_set)
  then have "r \<in> set (rt_tables d ''ask_nevo_threads'')" "gr_id r \<noteq> None"
    unfolding expired_batch_def using in_set_takeD by fastforce+
  then have "in_table r (set (concat (map (\<lambda>r. case gr_id r of None \<Rightarrow> [] | Some i \<Rightarrow> [i]) (expired_batch d now))))"
    using r by (auto intro!: bexI[of _ r])
  then show ?thesis using \<open>r \<in> set (rt_tables d ''ask_nevo_threads'')\<close> by (simp add: drop_chats_def Let_def del: in_table_iff) (blast intro: length_filter_less)
qed

function sweep_chats :: "retention_db \<Rightarrow> datetime \<Rightarrow> retention_db \<times> nat" where
  "sweep_chats d now =
     (let batch = expired_batch d now; d' = drop_chats batch d in
      if length batch < DEFAULT_BATCH_SIZE then (d', length batch)
      else (let (d2, more_removed) = sweep_chats d' now in (d2, length batch + more_removed)))"
  by auto
termination
proof (relation "measure (\<lambda>(d, now). length (rt_tables d ''ask_nevo_threads''))", goal_cases)
  case (2 d now batch d')
  then have "expired_batch d now \<noteq> []" by (auto simp: DEFAULT_BATCH_SIZE_def)
  then show ?case using 2(1,2) drop_chats_fewer by simp
qed simp

declare sweep_chats.simps [simp del]

record sweep_result =
  sw_scanned :: nat
  sw_anonymised :: nat
  sw_chats_removed :: nat
  sw_failed :: nat

definition sweep :: "retention_env \<Rightarrow> retention_db \<Rightarrow> datetime \<Rightarrow> nat \<Rightarrow> retention_db \<times> sweep_result" where
  "sweep env d now batch_size =
     (let students = wanted d now batch_size;
          (d1, anonymised, failed) = purge_each env now students d;
          (d2, chats) = sweep_chats d1 now in
      (d2, \<lparr>sw_scanned = length students, sw_anonymised = anonymised, sw_chats_removed = chats, sw_failed = failed\<rparr>))"

subsection \<open>Ending the purpose\<close>

definition end_purpose :: "retention_db \<Rightarrow> uuid \<Rightarrow> uuid \<Rightarrow> datetime \<Rightarrow> retention_db \<times> user_row option" where
  "end_purpose d actor_school student now =
     (case get_by u_id student (rt_users d) of
        None \<Rightarrow> (d, None)
      | Some u \<Rightarrow>
          if u_school_id u \<noteq> Some actor_school \<or> u_role u \<noteq> UR_STUDENT then (d, None)
          else
            (let ended = (case u_purpose_ended_at u of Some t \<Rightarrow> t | None \<Rightarrow> now);
                 u1 = u\<lparr>u_purpose_ended_at := Some ended, u_status := US_DEACTIVATED,
                        u_deactivated_at := (case u_deactivated_at u of Some t \<Rightarrow> Some t | None \<Rightarrow> Some ended)\<rparr>;
                 u2 = deadline_trigger (rt_schools d) now u1 in
             (d\<lparr>rt_users := update_where (\<lambda>x. u_id x = student) (\<lambda>_. u2) (rt_users d)\<rparr>, Some u2)))"

subsection \<open>The expansion reaches a fixed point\<close>

text \<open>A row belongs to the learner when it is selected at the start or points, through a foreign key to a primary key, at a row that does.\<close>

inductive dependent :: "table list \<Rightarrow> gdb \<Rightarrow> targets \<Rightarrow> string \<Rightarrow> uuid \<Rightarrow> bool" for schema g T where
  selected: "i \<in> T t \<Longrightarrow> dependent schema g T t i"
| refers: "\<lbrakk>dependent schema g T target j; t \<in> set schema; expands t; (c, target) \<in> set (id_references t); r \<in> set (g (tb_name t));
     gr_id r = Some i; cell r c = GUuid j\<rbrakk> \<Longrightarrow> dependent schema g T (tb_name t) i"

definition unreached :: "table list \<Rightarrow> gdb \<Rightarrow> targets \<Rightarrow> (string \<times> uuid) set" where
  "unreached schema g T = {(n, i). (\<exists>t \<in> set schema. n = tb_name t) \<and> i \<in> ids_where g n (\<lambda>_. True) \<and> i \<notin> T n}"

lemma ids_where_iff [simp]: "i \<in> ids_where g t P \<longleftrightarrow> (\<exists>r \<in> set (g t). gr_id r = Some i \<and> P r)"
  by (force simp: ids_where_def)

lemma found_rows_iff:
  "i \<in> found_rows g T t \<longleftrightarrow> (\<exists>r \<in> set (g (tb_name t)). gr_id r = Some i \<and> (\<exists>(c, target) \<in> set (id_references t). \<exists>j \<in> T target. cell r c = GUuid j))"
  by (simp add: found_rows_def list_ex_iff case_prod_beta)

lemma finite_unreached: "finite (unreached schema g T)"
proof (rule finite_subset)
  show "unreached schema g T \<subseteq> (\<Union>t \<in> set schema. (\<lambda>i. (tb_name t, i)) ` ids_where g (tb_name t) (\<lambda>_. True))"
    by (auto simp: unreached_def image_iff) blast
  show "finite (\<Union>t \<in> set schema. (\<lambda>i. (tb_name t, i)) ` ids_where g (tb_name t) (\<lambda>_. True))"
    by (simp add: ids_where_def)
qed

lemma expand_table_grows:
  assumes "expand_table g (T, b) t = (T', b')"
  shows "T n \<subseteq> T' n" and "b \<Longrightarrow> b'" and "\<not> b' \<Longrightarrow> T' = T"
    and "\<lbrakk>\<not> b'; expands t\<rbrakk> \<Longrightarrow> found_rows g T t \<subseteq> T (tb_name t)"
    and "t \<in> set schema \<Longrightarrow> unreached schema g T' \<subseteq> unreached schema g T"
    and "\<lbrakk>t \<in> set schema; b'; \<not> b\<rbrakk> \<Longrightarrow> unreached schema g T' \<noteq> unreached schema g T"
proof -
  have body: "(if \<not> expands t \<or> found_rows g T t \<subseteq> T (tb_name t) then (T, b) else (add_targets (tb_name t) (found_rows g T t) T, True)) = (T', b')"
    using assms by (simp add: expand_table_def Let_def split: if_splits)
  show "T n \<subseteq> T' n" "b \<Longrightarrow> b'" "\<not> b' \<Longrightarrow> T' = T" "\<lbrakk>\<not> b'; expands t\<rbrakk> \<Longrightarrow> found_rows g T t \<subseteq> T (tb_name t)"
    using body by (auto simp: add_targets_def split: if_splits)
  show "t \<in> set schema \<Longrightarrow> unreached schema g T' \<subseteq> unreached schema g T"
    using body by (auto simp: unreached_def add_targets_def split: if_splits)
  assume new: "t \<in> set schema" "b'" "\<not> b"
  then obtain i where i: "i \<in> found_rows g T t" "i \<notin> T (tb_name t)" and T': "T' = add_targets (tb_name t) (found_rows g T t) T"
    using body by (auto split: if_splits)
  have "(tb_name t, i) \<in> unreached schema g T" using i new(1) by (auto simp: unreached_def found_rows_iff)
  moreover have "(tb_name t, i) \<notin> unreached schema g T'" using i(1) by (simp add: T' unreached_def add_targets_def)
  ultimately show "unreached schema g T' \<noteq> unreached schema g T" by blast
qed

lemma expand_fold_grows_all:
  "\<lbrakk>foldl (expand_table g) (T, b) ts = (T', b'); set ts \<subseteq> set schema\<rbrakk> \<Longrightarrow>
   (\<forall>n. T n \<subseteq> T' n) \<and> (b \<longrightarrow> b') \<and> (\<not> b' \<longrightarrow> T' = T \<and> (\<forall>t \<in> set ts. expands t \<longrightarrow> found_rows g T t \<subseteq> T (tb_name t))) \<and>
   unreached schema g T' \<subseteq> unreached schema g T \<and> (b' \<and> \<not> b \<longrightarrow> unreached schema g T' \<noteq> unreached schema g T)"
proof (induction ts arbitrary: T b)
  case (Cons t ts)
  obtain T1 b1 where one: "expand_table g (T, b) t = (T1, b1)" by (metis surj_pair)
  then have rest: "foldl (expand_table g) (T1, b1) ts = (T', b')" "set ts \<subseteq> set schema" "t \<in> set schema" using Cons.prems by auto
  note grow = expand_table_grows[OF one] and grow_rest = Cons.IH[OF rest(1,2)]
  have "\<forall>n. T n \<subseteq> T' n" using grow(1) grow_rest by blast
  moreover have "b \<longrightarrow> b'" using grow(2) grow_rest by blast
  moreover have "\<not> b' \<longrightarrow> T' = T \<and> (\<forall>x \<in> set (t # ts). expands x \<longrightarrow> found_rows g T x \<subseteq> T (tb_name x))"
    using grow(3,4) grow_rest by (auto simp: subset_iff)
  moreover have "unreached schema g T' \<subseteq> unreached schema g T" using grow(5)[OF rest(3)] grow_rest by blast
  moreover have "b' \<and> \<not> b \<longrightarrow> unreached schema g T' \<noteq> unreached schema g T"
    using grow(5,6)[OF rest(3)] grow_rest by blast
  ultimately show ?case by blast
qed auto

lemma expand_round_grows:
  assumes "expand_round schema g T = (T', b')"
  shows "T n \<subseteq> T' n" and "\<not> b' \<Longrightarrow> T' = T \<and> (\<forall>t \<in> set schema. expands t \<longrightarrow> found_rows g T t \<subseteq> T (tb_name t))"
    and "unreached schema g T' \<subseteq> unreached schema g T" and "b' \<Longrightarrow> unreached schema g T' \<noteq> unreached schema g T"
  using expand_fold_grows_all[OF assms[unfolded expand_round_def] subset_refl] by blast+

lemma expand_table_sound:
  assumes "\<And>n i. i \<in> fst st n \<Longrightarrow> dependent schema g T0 n i" "t \<in> set schema" "i \<in> fst (expand_table g st t) n"
  shows "dependent schema g T0 n i"
  using assms(3) by (auto simp: expand_table_def Let_def add_targets_def found_rows_iff assms(1) split: if_splits
    intro: dependent.refers[OF assms(1) assms(2)])

lemma expand_fold_sound:
  "\<lbrakk>\<And>n i. i \<in> fst st n \<Longrightarrow> dependent schema g T0 n i; set ts \<subseteq> set schema; i \<in> fst (foldl (expand_table g) st ts) n\<rbrakk>
   \<Longrightarrow> dependent schema g T0 n i"
proof (induction ts arbitrary: st)
  case (Cons t ts)
  then show ?case using expand_table_sound[of st schema g T0 t] by (metis (no_types) foldl_Cons insert_subset list.simps(15))
qed simp

lemma expand_targets_returns: "\<exists>T'. expand_targets schema g T = Some T'"
proof -
  let ?m = "\<lambda>st. 2 * card (unreached schema g (fst st)) + (if snd st then 1 else 0)"
  have step: "?m (expand_round schema g (fst st)) < ?m st" if "snd st" for st
  proof -
    obtain T' b' where one: "expand_round schema g (fst st) = (T', b')" by (metis surj_pair)
    note grow = expand_round_grows[OF one]
    have "card (unreached schema g T') \<le> card (unreached schema g (fst st))" by (rule card_mono[OF finite_unreached grow(3)])
    moreover have "card (unreached schema g T') < card (unreached schema g (fst st))" if b'
      using grow(3) grow(4)[OF that] by (intro psubset_card_mono finite_unreached) blast
    ultimately show ?thesis using one that by auto
  qed
  have "\<exists>st. while_option snd (\<lambda>st. expand_round schema g (fst st)) (T, True) = Some st"
    by (rule measure_while_option_Some[where P = "\<lambda>_. True" and f = ?m]) (use step in auto)
  then show ?thesis by (auto simp: expand_targets_def)
qed

lemma expand_targets_closed:
  assumes "expand_targets schema g T = Some T'"
  shows "T n \<subseteq> T' n" and "\<lbrakk>t \<in> set schema; expands t\<rbrakk> \<Longrightarrow> found_rows g T' t \<subseteq> T' (tb_name t)"
    and "i \<in> T' n \<Longrightarrow> dependent schema g T n i"
proof -
  obtain st where loop: "while_option snd (\<lambda>st. expand_round schema g (fst st)) (T, True) = Some st" and T': "T' = fst st"
    using assms by (auto simp: expand_targets_def)
  let ?I = "\<lambda>st. (\<forall>n. T n \<subseteq> fst st n) \<and> (\<not> snd st \<longrightarrow> (\<forall>t \<in> set schema. expands t \<longrightarrow> found_rows g (fst st) t \<subseteq> fst st (tb_name t))) \<and>
    (\<forall>n i. i \<in> fst st n \<longrightarrow> dependent schema g T n i)"
  have "?I st"
  proof (rule while_option_rule[where P = ?I, OF _ loop])
    fix st assume inv: "?I st" and "snd st"
    obtain U b where one: "expand_round schema g (fst st) = (U, b)" by (metis surj_pair)
    note grow = expand_round_grows[OF one]
    have "T n \<subseteq> U n" for n using inv grow(1)[of n] by blast
    moreover have "\<not> b \<Longrightarrow> \<forall>t \<in> set schema. expands t \<longrightarrow> found_rows g U t \<subseteq> U (tb_name t)" using grow(2) by simp
    moreover have "i \<in> U n \<Longrightarrow> dependent schema g T n i" for n i
      using expand_fold_sound[of "(fst st, False)" schema g T schema i n] inv one by (simp add: expand_round_def)
    ultimately show "?I (expand_round schema g (fst st))" by (simp add: one)
  qed (auto intro: dependent.selected)
  moreover have "\<not> snd st" by (rule while_option_stop[OF loop])
  ultimately show "T n \<subseteq> T' n" "\<lbrakk>t \<in> set schema; expands t\<rbrakk> \<Longrightarrow> found_rows g T' t \<subseteq> T' (tb_name t)" "i \<in> T' n \<Longrightarrow> dependent schema g T n i"
    unfolding T' by blast+
qed

lemma purge_reaches:
  assumes "expand_targets schema g T = Some T'"
  shows "i \<in> T' n \<longleftrightarrow> dependent schema g T n i"
proof
  note closed = expand_targets_closed[OF assms]
  show "i \<in> T' n \<Longrightarrow> dependent schema g T n i" by (rule closed(3))
  show "dependent schema g T n i \<Longrightarrow> i \<in> T' n"
  proof (induction rule: dependent.induct)
    case (selected i t) then show ?case using closed(1) by blast
  next
    case (refers target j t c r i)
    then show ?case using closed(2)[OF refers.hyps(2,3)] by (force simp: found_rows_iff)
  qed
qed

text \<open>
  Claim C27.  The expansion of the selected records always ends, whatever the schema and its cycles of foreign keys, and it ends with exactly the
  records that are selected or depend on a selected one: it leaves no dependent behind and takes nothing that does not hang on the learner.
\<close>

theorem purge_reaches_exactly_the_dependents:
  "\<exists>T'. expand_targets schema g T = Some T' \<and> (\<forall>n i. i \<in> T' n \<longleftrightarrow> dependent schema g T n i)"
  using expand_targets_returns[of schema g T] purge_reaches by metis

subsection \<open>What a purge leaves in the tables\<close>

lemma delete_fold_shrinks:
  assumes "foldl (delete_table student T) (g, counts) ts = (g', counts')" "r \<in> set (g' n)"
  shows "r \<in> set (g n)"
  using assms
proof (induction ts arbitrary: g counts)
  case (Cons t ts)
  obtain g1 c1 where one: "delete_table student T (g, counts) t = (g1, c1)" by (metis surj_pair)
  have "r \<in> set (g1 n)" using Cons.IH[of g1 c1] Cons.prems one by simp
  then show ?case using one by (auto simp: delete_table_def Let_def split: if_splits)
qed simp

lemma delete_fold_removes:
  "\<lbrakk>foldl (delete_table student T) (g, counts) ts = (g', counts'); r \<in> set (g' (tb_name t)); t \<in> set ts; tb_name t \<notin> set EXCLUDED\<rbrakk>
   \<Longrightarrow> \<not> in_table r (T (tb_name t))"
proof (induction ts arbitrary: g counts)
  case (Cons a ts)
  obtain g1 c1 where one: "delete_table student T (g, counts) a = (g1, c1)" by (metis surj_pair)
  then have rest: "foldl (delete_table student T) (g1, c1) ts = (g', counts')" using Cons.prems(1) by simp
  then show ?case using Cons.IH[OF rest] Cons.prems(2-4) delete_fold_shrinks[OF rest Cons.prems(2)] one
    by (cases "t = a") (auto simp: delete_table_def Let_def split: if_splits)
qed simp

lemma clear_previews_row:
  assumes "r \<in> set (clear_previews ths g n)"
  obtains r0 where "r0 \<in> set (g n)" "gr_id r0 = gr_id r" "\<And>c j. cell r c = GUuid j \<Longrightarrow> cell r0 c = GUuid j"
proof (cases "n = ''message_threads''")
  case True
  then obtain r0 where "r0 \<in> set (g n)" "r = (if in_table r0 ths then r0\<lparr>gr_cells := (''latest_preview'', GNull) # gr_cells r0\<rparr> else r0)"
    using assms by (auto simp: clear_previews_def)
  then show thesis by (intro that[of r0]) (auto simp: cell_def split: if_splits)
qed (use assms that in \<open>simp add: clear_previews_def\<close>)

lemma owned_targets_keep: "T n \<subseteq> owned_targets schema g student T n"
  unfolding owned_targets_def
proof (induction schema arbitrary: T)
  case (Cons t ts)
  have "T n \<subseteq> add_targets m S T n" for m S by (simp add: add_targets_def)
  then show ?case using Cons.IH by (auto split: if_splits) blast+
qed simp

lemma owned_targets_hit:
  assumes "t \<in> set schema" "expands t" "r \<in> set (g (tb_name t))" "gr_id r = Some i" "owned_row t student r"
  shows "i \<in> owned_targets schema g student T (tb_name t)"
  using assms(1)
proof (induction schema arbitrary: T)
  case (Cons a ts)
  show ?case
  proof (cases "t = a")
    case True
    have "owner_columns t \<noteq> []" using assms(5) by (auto simp: owned_row_def)
    then have "owned_targets (a # ts) g student T = owned_targets ts g student (add_targets (tb_name t) (ids_where g (tb_name t) (owned_row t student)) T)"
      using assms(2) True by (simp add: owned_targets_def expands_def)
    moreover have "i \<in> add_targets (tb_name t) (ids_where g (tb_name t) (owned_row t student)) T (tb_name t)"
      using assms(3-5) by (auto simp: add_targets_def)
    ultimately show ?thesis using owned_targets_keep by fastforce
  next
    case False
    then show ?thesis using Cons by (simp add: owned_targets_def)
  qed
qed simp

lemma add_targets_keep: "S \<subseteq> T n \<Longrightarrow> S \<subseteq> add_targets m A T n"
  by (auto simp: add_targets_def)

lemma initial_targets_keep:
  "\<exists>T1. owned_targets (pe_schema env) g (u_id u) T1 n \<subseteq> initial_targets env g us u n"
  unfolding initial_targets_def Let_def
  by (rule exI) (auto split: option.split intro!: add_targets_keep subset_refl)

lemma initial_targets_owned:
  assumes "t \<in> set (pe_schema env)" "expands t" "r \<in> set (g (tb_name t))" "gr_id r = Some i" "owned_row t (u_id u) r"
  shows "i \<in> initial_targets env g us u (tb_name t)"
  using initial_targets_keep owned_targets_hit[where g = g and r = r, OF assms] by blast

lemma delete_learner_recordsE:
  assumes "delete_learner_records env g us u = Some (g', counts)"
  obtains T g1 ths where "expand_targets (pe_schema env) g (initial_targets env g us u) = Some T"
    "foldl (delete_table (u_id u) T) (g, []) (rev (pe_schema env)) = (g1, counts)" "g' = clear_previews ths g1"
  using assms by (auto simp: delete_learner_records_def Let_def split: option.splits prod.splits)

lemma delete_learner_records_returns: "\<exists>g' counts. delete_learner_records env g us u = Some (g', counts)"
  using expand_targets_returns[of "pe_schema env" g "initial_targets env g us u"]
  by (auto simp: delete_learner_records_def Let_def split: prod.split)


subsection \<open>A small schema\<close>

text \<open>Two tables of the assistant and one conversation of a learner past the deadline, which the witnesses below run on.\<close>

definition chat_threads :: table where
  "chat_threads = \<lparr>tb_name = ''ask_nevo_threads'', tb_columns = [\<lparr>co_name = ''id'', co_fks = []\<rparr>, \<lparr>co_name = ''user_id'', co_fks = [(''users'', ''id'')]\<rparr>]\<rparr>"

definition chat_messages :: table where
  "chat_messages = \<lparr>tb_name = ''ask_nevo_messages'', tb_columns = [\<lparr>co_name = ''id'', co_fks = []\<rparr>, \<lparr>co_name = ''thread_id'', co_fks = [(''ask_nevo_threads'', ''id'')]\<rparr>]\<rparr>"

definition chat_message :: grow where
  "chat_message = \<lparr>gr_id = Some 8, gr_cells = [(''thread_id'', GUuid 7)]\<rparr>"

definition chat_rows :: gdb where
  "chat_rows n = (if n = ''ask_nevo_threads'' then [\<lparr>gr_id = Some 7, gr_cells = [(''user_id'', GUuid 20)]\<rparr>]
     else if n = ''ask_nevo_messages'' then [chat_message] else [])"

definition due_learner :: user_row where
  "due_learner = (new_user 20 None UR_STUDENT AM_PIN)\<lparr>u_status := US_DEACTIVATED, u_purpose_ended_at := Some 0, u_retention_due_at := Some 10\<rparr>"

definition chat_purge :: purge_env where
  "chat_purge = \<lparr>pe_schema = [chat_threads, chat_messages], pe_sha256 = id, pe_as_text = (\<lambda>_. [])\<rparr>"

definition chat_env :: retention_env where
  "chat_env = \<lparr>re_purge = chat_purge, re_receipt_key = Some ''k'', re_hmac = (\<lambda>_. id), re_configured = True, re_list_paths = (\<lambda>_. Some []),
     re_delete = (\<lambda>_. True), re_token_hex = (\<lambda>_. ''0'')\<rparr>"

definition chat_db :: retention_db where
  "chat_db = \<lparr>rt_users = [due_learner], rt_schools = [], rt_tables = chat_rows, rt_receipts = []\<rparr>"


subsection \<open>What the sweep does to the accounts\<close>

definition erased :: "retention_env \<Rightarrow> school_row list \<Rightarrow> datetime \<Rightarrow> user_row \<Rightarrow> user_row" where
  "erased env scs now u = deadline_trigger scs now (clear_identity (re_token_hex env (u_id u)) now u)"

lemma erased_simps [simp]:
  "u_id (erased env scs now u) = u_id u" "u_role (erased env scs now u) = u_role u"
  "u_retention_purged_at (erased env scs now u) = Some now"
  "u_email (erased env scs now u) = None" "u_date_of_birth (erased env scs now u) = None"
  "u_school_id (erased env scs now u) = None" "\<not> due (erased env scs now u) t"
  by (simp_all add: erased_def deadline_trigger_def clear_identity_def anonymise_student_def Let_def due_def)

lemma open_receipt_keeps [simp]:
  "rt_users (open_receipt env u d) = rt_users d" "rt_tables (open_receipt env u d) = rt_tables d" "rt_schools (open_receipt env u d) = rt_schools d"
  by (simp_all add: open_receipt_def Let_def)

lemma retry_receipt_keeps [simp]:
  "rt_users (retry_receipt s d) = rt_users d" "rt_tables (retry_receipt s d) = rt_tables d" "rt_schools (retry_receipt s d) = rt_schools d"
  by (simp_all add: retry_receipt_def)

lemma purgeE [consumes 1, case_names idle failed finished]:
  assumes "purge env d s now = (d', res)"
  obtains "d' = d" "res = Some False" "\<And>u. get_by u_id s (rt_users d) = Some u \<Longrightarrow> \<not> due u now"
  | "res = None" "rt_users d' = rt_users d" "rt_tables d' = rt_tables d" "rt_schools d' = rt_schools d"
  | u job counts where "get_by u_id s (rt_users d) = Some u" "due u now" "present (re_receipt_key env) \<noteq> []" "re_configured env" "res = Some True"
      "get_by lp_student_id (Some s) (rt_receipts (open_receipt env u d)) = Some job"
      "delete_learner_records (re_purge env) (rt_tables d) (rt_users d) u = Some (rt_tables d', counts)"
      "rt_users d' = update_where (\<lambda>x. u_id x = s) (erased env (rt_schools d) now) (rt_users d)" "rt_schools d' = rt_schools d"
      "rt_receipts d' = update_where (\<lambda>p. lp_student_id p = Some s) (completed counts now) (rt_receipts (open_receipt env u d))"
proof -
  have users: "update_where (\<lambda>x. u_id x = s) (\<lambda>x. deadline_trigger scs now (clear_identity (re_token_hex env s) now x)) us =
    update_where (\<lambda>x. u_id x = s) (erased env scs now) us" for scs us
    by (simp add: update_where_def erased_def)
  show thesis
  proof (cases "present (re_receipt_key env) = []")
    case True then show thesis using assms that(2) by (simp add: purge_def)
  next
    case key: False
    show thesis
    proof (cases "get_by u_id s (rt_users d)")
      case None then show thesis using assms key that(1) by (simp add: purge_def)
    next
      case (Some u)
      show thesis
      proof (cases "due u now")
        case False then show thesis using assms key Some that(1) by (simp add: purge_def)
      next
        case True
        then show thesis using assms key Some
          by (auto simp: purge_def Let_def users split: if_splits option.splits prod.splits intro: that(2) that(3))
      qed
    qed
  qed
qed

lemma update_where_as_map: "update_where (\<lambda>x. u_id x = s) f us = map (\<lambda>u. if u_id u \<in> {s} then f u else u) us"
  by (simp add: update_where_def)

lemma purge_each_accounts:
  assumes "purge_each env now ss d = (d', anonymised, failed)" "distinct ss" "distinct (map u_id (rt_users d))"
    "\<And>s. s \<in> set ss \<Longrightarrow> \<exists>u. get_by u_id s (rt_users d) = Some u \<and> due u now"
  shows "\<exists>S \<subseteq> set ss. card S = anonymised \<and> length ss = anonymised + failed \<and> rt_schools d' = rt_schools d \<and>
    rt_users d' = map (\<lambda>u. if u_id u \<in> S then erased env (rt_schools d) now u else u) (rt_users d)"
  using assms
proof (induction ss arbitrary: d d' anonymised failed)
  case (Cons s ss)
  obtain d1 res where one: "purge env d s now = (d1, res)" by (metis surj_pair)
  from one show ?case
  proof (cases rule: purgeE)
    case idle then show ?thesis using Cons.prems(4)[of s] by auto
  next
    case failed
    obtain f where rest: "purge_each env now ss (retry_receipt s d1) = (d', anonymised, f)" "failed = Suc f"
      using Cons.prems(1) one failed(1) by (auto split: prod.splits)
    then show ?thesis using Cons.IH[OF rest(1)] Cons.prems(2-4) failed by (auto intro: subset_insertI2)
  next
    case (finished u job counts)
    obtain a where rest: "purge_each env now ss d1 = (d', a, failed)" "anonymised = Suc a"
      using Cons.prems(1) one finished(5) by (auto split: prod.splits)
    have "distinct (map u_id (rt_users d1))" using Cons.prems(3) by (simp add: finished(8) map_update_where)
    moreover have "\<exists>u. get_by u_id x (rt_users d1) = Some u \<and> due u now" if x: "x \<in> set ss" for x
    proof -
      obtain v where v: "get_by u_id x (rt_users d) = Some v" "due v now" using Cons.prems(4)[of x] x by auto
      then have "u_id v \<noteq> s" using Cons.prems(2) x get_by_SomeD[OF v(1)] by auto
      then show ?thesis using v by (simp add: finished(8) get_by_update_where)
    qed
    ultimately obtain S where S: "S \<subseteq> set ss" "card S = a" "length ss = a + failed" "rt_schools d' = rt_schools d1"
      "rt_users d' = map (\<lambda>u. if u_id u \<in> S then erased env (rt_schools d1) now u else u) (rt_users d1)"
      using Cons.IH[OF rest(1)] Cons.prems(2) by auto
    have new: "s \<notin> S" "finite S" using S(1) Cons.prems(2) by (auto intro: finite_subset)
    have "rt_users d' = map (\<lambda>u. if u_id u \<in> insert s S then erased env (rt_schools d) now u else u) (rt_users d)"
      using new by (auto simp: S(5) finished(8,9) update_where_as_map)
    then show ?thesis using S new rest(2) finished(9) by (intro exI[of _ "insert s S"]) auto
  qed
qed auto

lemma sweep_chats_keeps: "sweep_chats d now = (d', n) \<Longrightarrow> rt_users d' = rt_users d \<and> rt_schools d' = rt_schools d \<and> rt_receipts d' = rt_receipts d"
proof (induction d now arbitrary: d' n rule: sweep_chats.induct)
  case (1 d now)
  have keep: "rt_users (drop_chats b d) = rt_users d \<and> rt_schools (drop_chats b d) = rt_schools d \<and> rt_receipts (drop_chats b d) = rt_receipts d" for b
    by (simp add: drop_chats_def Let_def)
  show ?case
  proof (cases "length (expired_batch d now) < DEFAULT_BATCH_SIZE")
    case True then show ?thesis using 1(2) keep by (auto simp: sweep_chats.simps[of d] Let_def)
  next
    case False
    obtain d2 m where rest: "sweep_chats (drop_chats (expired_batch d now) d) now = (d2, m)" by (metis surj_pair)
    then have "d' = d2" using 1(2) False by (simp add: sweep_chats.simps[of d] Let_def)
    then show ?thesis using 1(1)[OF refl refl False rest] keep by simp
  qed
qed

lemma wanted_due:
  assumes "distinct (map u_id (rt_users d))"
  shows "distinct (wanted d now n)" and "s \<in> set (wanted d now n) \<Longrightarrow> \<exists>u. get_by u_id s (rt_users d) = Some u \<and> due u now \<and> u_role u = UR_STUDENT"
proof -
  let ?xs = "sort_key (\<lambda>u. the (u_retention_due_at u)) (filter (\<lambda>u. u_role u = UR_STUDENT \<and> due u now) (rt_users d))"
  have "inj_on u_id (set (rt_users d))" "distinct (rt_users d)" using assms by (auto simp: distinct_map)
  then have "distinct (map u_id ?xs)" by (auto simp: distinct_map intro: inj_on_subset)
  then have "distinct (take n (map u_id ?xs))" by (rule distinct_take)
  then show "distinct (wanted d now n)" by (simp add: wanted_def take_map)
  assume "s \<in> set (wanted d now n)"
  then obtain u where u: "u \<in> set (take n ?xs)" "s = u_id u" by (auto simp: wanted_def)
  have "u \<in> set ?xs" by (rule in_set_takeD[OF u(1)])
  then show "\<exists>u. get_by u_id s (rt_users d) = Some u \<and> due u now \<and> u_role u = UR_STUDENT"
    using u(2) get_by_in[OF assms] by auto
qed


lemma chat_db_distinct: "distinct (map u_id (rt_users chat_db))"
  by (simp add: chat_db_def)


subsection \<open>A sweep that can reach the storage\<close>

definition storage_works :: "retention_env \<Rightarrow> bool" where
  "storage_works env = (re_configured env \<and> (\<forall>p. re_delete env p) \<and>
     (\<forall>s. (\<exists>ps. re_list_paths env (profile_prefix s) = Some ps \<and> list_all (own_path s) ps) \<and>
          (\<exists>ws. re_list_paths env (written_prefix s) = Some ws \<and> list_all (own_path s) ws)))"

definition evidence_own :: "gdb \<Rightarrow> bool" where
  "evidence_own g = (\<forall>s. list_all (own_path s) (evidence_paths g s))"

definition receipts_ready :: "retention_env \<Rightarrow> retention_db \<Rightarrow> bool" where
  "receipts_ready env d =
     (list_all (\<lambda>u. u_retention_purged_at u = None \<longrightarrow>
        list_all (\<lambda>p. (lp_subject_digest p = subject_digest env (u_id u)) = (lp_student_id p = Some (u_id u))) (rt_receipts d)) (rt_users d) \<and>
      list_all (\<lambda>p. case lp_student_id p of None \<Rightarrow> True | Some s \<Rightarrow> list_all (own_path s) (lp_object_paths p)) (rt_receipts d))"

lemma receipts_readyI:
  assumes "\<And>u p. \<lbrakk>u \<in> set (rt_users d); u_retention_purged_at u = None; p \<in> set (rt_receipts d)\<rbrakk> \<Longrightarrow>
      (lp_subject_digest p = subject_digest env (u_id u)) = (lp_student_id p = Some (u_id u))"
    "\<And>p s. \<lbrakk>p \<in> set (rt_receipts d); lp_student_id p = Some s\<rbrakk> \<Longrightarrow> list_all (own_path s) (lp_object_paths p)"
  shows "receipts_ready env d"
  unfolding receipts_ready_def list_all_iff[of _ "rt_users d"] list_all_iff[of _ "rt_receipts d"]
  using assms by (auto split: option.split)

lemma receipts_readyD:
  assumes "receipts_ready env d" "p \<in> set (rt_receipts d)"
  shows "\<lbrakk>u \<in> set (rt_users d); u_retention_purged_at u = None\<rbrakk> \<Longrightarrow>
      (lp_subject_digest p = subject_digest env (u_id u)) = (lp_student_id p = Some (u_id u))"
    and "lp_student_id p = Some s \<Longrightarrow> list_all (own_path s) (lp_object_paths p)"
  using assms unfolding receipts_ready_def list_all_iff[of _ "rt_users d"] list_all_iff[of _ "rt_receipts d"]
  by (auto split: option.splits)

lemma open_receipt_ready:
  assumes "receipts_ready env d" "u \<in> set (rt_users d)" "u_retention_purged_at u = None" "inj_on (subject_digest env) (u_id ` set (rt_users d))"
  shows "receipts_ready env (open_receipt env u d)"
    and "\<exists>job. get_by lp_student_id (Some (u_id u)) (rt_receipts (open_receipt env u d)) = Some job"
proof -
  let ?new = "\<lparr>lp_student_id = Some (u_id u), lp_school_id = u_school_id u, lp_subject_digest = subject_digest env (u_id u),
        lp_status = ''pending'', lp_object_paths = [], lp_counts = [], lp_error_code = None, lp_completed_at = None\<rparr>"
  have rows: "p \<in> set (rt_receipts d) \<or> p = ?new" if "p \<in> set (rt_receipts (open_receipt env u d))" for p
    using that by (auto simp: open_receipt_def Let_def split: if_splits)
  show "receipts_ready env (open_receipt env u d)"
  proof (rule receipts_readyI)
    fix v p assume v: "v \<in> set (rt_users (open_receipt env u d))" "u_retention_purged_at v = None"
      and p: "p \<in> set (rt_receipts (open_receipt env u d))"
    have "subject_digest env (u_id u) = subject_digest env (u_id v) \<longleftrightarrow> u_id u = u_id v"
      using inj_onD[OF assms(4)] v(1) assms(2) by auto
    then show "(lp_subject_digest p = subject_digest env (u_id v)) = (lp_student_id p = Some (u_id v))"
      using rows[OF p] receipts_readyD(1)[OF assms(1)] v by auto
  qed (use rows receipts_readyD(2)[OF assms(1)] in force)
  have "Some (u_id u) \<in> lp_student_id ` set (rt_receipts (open_receipt env u d))"
  proof (cases "\<exists>p \<in> set (rt_receipts d). lp_subject_digest p = subject_digest env (u_id u)")
    case True
    then obtain p where p: "p \<in> set (rt_receipts d)" "lp_subject_digest p = subject_digest env (u_id u)" by blast
    have "lp_student_id p = Some (u_id u)" using receipts_readyD(1)[OF assms(1) p(1) assms(2,3)] p(2) by blast
    then show ?thesis using p True by (force simp: open_receipt_def Let_def)
  qed (simp add: open_receipt_def Let_def)
  then show "\<exists>job. get_by lp_student_id (Some (u_id u)) (rt_receipts (open_receipt env u d)) = Some job"
    using get_by_None_iff[of lp_student_id "Some (u_id u)"] by (metis not_None_eq)
qed

lemma image_path_own: "list_all (own_path (u_id u)) (image_path u)"
  by (auto simp: image_path_def own_path_def py_startswith_def list_ex_iff split: json.split)

lemma delete_objects_succeeds:
  assumes "storage_works env" "evidence_own (rt_tables d)" "list_all (own_path (u_id u)) (lp_object_paths job)"
  shows "\<exists>paths. delete_objects env d u job = Some paths"
proof -
  obtain ps ws where "re_list_paths env (profile_prefix (u_id u)) = Some ps" "list_all (own_path (u_id u)) ps"
    "re_list_paths env (written_prefix (u_id u)) = Some ws" "list_all (own_path (u_id u)) ws"
    using assms(1) unfolding storage_works_def by blast
  then show ?thesis using assms image_path_own[of u] by (auto simp: delete_objects_def Let_def list_all_iff storage_works_def evidence_own_def)
qed

lemma evidence_own_purged:
  assumes "delete_learner_records env g us u = Some (g', counts)" "evidence_own g"
  shows "evidence_own g'"
proof -
  obtain T g1 ths where fold: "foldl (delete_table (u_id u) T) (g, []) (rev (pe_schema env)) = (g1, counts)" and g': "g' = clear_previews ths g1"
    using assms(1) by (rule delete_learner_recordsE)
  have "set (g' ''consent_records'') \<subseteq> set (g ''consent_records'')"
    using delete_fold_shrinks[OF fold] by (auto simp: g' clear_previews_def)
  then have "set (evidence_paths g' s) \<subseteq> set (evidence_paths g s)" for s by (auto simp: evidence_paths_def)
  then show ?thesis using assms(2) by (auto simp: evidence_own_def list_all_iff)
qed

lemma working_purge:
  assumes "present (re_receipt_key env) \<noteq> []" "storage_works env" "evidence_own (rt_tables d)" "receipts_ready env d"
    "inj_on (subject_digest env) (u_id ` set (rt_users d))" "get_by u_id s (rt_users d) = Some u" "due u now"
  shows "\<exists>d'. purge env d s now = (d', Some True) \<and> evidence_own (rt_tables d') \<and> receipts_ready env d'"
proof -
  have u: "u \<in> set (rt_users d)" "u_id u = s" "u_retention_purged_at u = None" using get_by_SomeD[OF assms(6)] assms(7) by (auto simp: due_def)
  note opened = open_receipt_ready[OF assms(4) u(1,3) assms(5)]
  obtain job where job: "get_by lp_student_id (Some s) (rt_receipts (open_receipt env u d)) = Some job" using opened(2) u(2) by blast
  have "list_all (own_path (u_id u)) (lp_object_paths job)" using receipts_readyD(2)[OF opened(1)] get_by_SomeD[OF job] u(2) by blast
  then obtain paths where paths: "delete_objects env (open_receipt env u d) u job = Some paths"
    using delete_objects_succeeds[OF assms(2), of "open_receipt env u d"] assms(3) by auto
  obtain g counts where del: "delete_learner_records (re_purge env) (rt_tables d) (rt_users d) u = Some (g, counts)"
    using delete_learner_records_returns by blast
  have "re_configured env" using assms(2) by (simp add: storage_works_def)
  then obtain d' where run: "purge env d s now = (d', Some True)"
    using assms(1,6,7) job paths del by (simp add: purge_def Let_def)
  moreover have "evidence_own (rt_tables d') \<and> receipts_ready env d'" using run
  proof (cases rule: purgeE)
    case (finished v job' counts')
    have v: "v = u" using finished(1) assms(6) by simp
    note ready = receipts_readyD[OF opened(1)]
    have "receipts_ready env d'"
    proof (rule receipts_readyI)
      fix x p assume x: "x \<in> set (rt_users d')" "u_retention_purged_at x = None" and p: "p \<in> set (rt_receipts d')"
      obtain x0 where x0: "x0 \<in> set (rt_users d)" "x = (if u_id x0 = s then erased env (rt_schools d) now x0 else x0)"
        using x(1) unfolding finished(8) update_where_def set_map by blast
      have x': "x \<in> set (rt_users d)" "u_id x \<noteq> s" using x0 x(2) by (cases "u_id x0 = s"; simp)+
      obtain p0 where p0: "p0 \<in> set (rt_receipts (open_receipt env u d))" "p = (if lp_student_id p0 = Some s then completed counts' now p0 else p0)"
        using p by (auto simp: finished(10) v update_where_def)
      show "(lp_subject_digest p = subject_digest env (u_id x)) = (lp_student_id p = Some (u_id x))"
        using ready(1)[OF p0(1), of x] x x' by (auto simp: p0(2) completed_def)
    next
      fix p t assume p: "p \<in> set (rt_receipts d')" "lp_student_id p = Some t"
      then show "list_all (own_path t) (lp_object_paths p)"
        using ready(2) by (auto simp: finished(10) v update_where_def completed_def split: if_splits)
    qed
    then show ?thesis using evidence_own_purged[OF finished(7) assms(3)] by blast
  qed (use run in auto)
  ultimately show ?thesis by blast
qed

lemma working_purge_each:
  assumes "present (re_receipt_key env) \<noteq> []" "storage_works env"
  shows "\<lbrakk>evidence_own (rt_tables d); receipts_ready env d; inj_on (subject_digest env) (u_id ` set (rt_users d)); distinct ss;
     \<And>s. s \<in> set ss \<Longrightarrow> \<exists>u. get_by u_id s (rt_users d) = Some u \<and> due u now\<rbrakk>
   \<Longrightarrow> \<exists>d'. purge_each env now ss d = (d', length ss, 0)"
proof (induction ss arbitrary: d)
  case (Cons s ss)
  obtain u where u: "get_by u_id s (rt_users d) = Some u" "due u now" using Cons.prems(5)[of s] by auto
  obtain d1 where one: "purge env d s now = (d1, Some True)" "evidence_own (rt_tables d1)" "receipts_ready env d1"
    using working_purge[OF assms Cons.prems(1-3) u] by blast
  from one(1) have users: "rt_users d1 = update_where (\<lambda>x. u_id x = s) (erased env (rt_schools d) now) (rt_users d)"
    by (cases rule: purgeE) auto
  have "u_id ` set (rt_users d1) = u_id ` set (rt_users d)" by (simp add: users flip: set_map) (simp add: map_update_where)
  then have inj: "inj_on (subject_digest env) (u_id ` set (rt_users d1))" using Cons.prems(3) by simp
  have "\<exists>u. get_by u_id x (rt_users d1) = Some u \<and> due u now" if x: "x \<in> set ss" for x
  proof -
    obtain v where v: "get_by u_id x (rt_users d) = Some v" "due v now" using Cons.prems(5)[of x] x by auto
    then have "u_id v \<noteq> s" using Cons.prems(4) x get_by_SomeD[OF v(1)] by auto
    then show ?thesis using v by (simp add: users get_by_update_where)
  qed
  then obtain d2 where "purge_each env now ss d1 = (d2, length ss, 0)" using Cons.IH[OF one(2,3) inj] Cons.prems(4) by auto
  then show ?case using one(1) by simp
qed simp



end
