(* ===== verification/LearningVocabulary.thy ===== *)
theory LearningVocabulary
  imports Database
begin

text \<open>
  The vocabularies of the learning engine (\<^verbatim>\<open>nevo/domain/intelligence\<close>, \<^verbatim>\<open>learner_profiles\<close>,
  \<^verbatim>\<open>signal_events\<close>), in the form theory \<open>Vocabulary\<close> gives the others, and the exact arithmetic that stands
  for the engine's floating-point numbers.
\<close>

datatype adaptation_mode = MODE_LESSON_LOAD | MODE_IN_LESSON

primrec adaptation_mode_value :: "adaptation_mode \<Rightarrow> string" where
  "adaptation_mode_value MODE_LESSON_LOAD = ''lesson_load''"
| "adaptation_mode_value MODE_IN_LESSON = ''in_lesson''"

datatype content_modality = MOD_VISUAL | MOD_AUDIO | MOD_TEXT | MOD_INTERACTIVE

primrec content_modality_value :: "content_modality \<Rightarrow> string" where
  "content_modality_value MOD_VISUAL = ''visual''"
| "content_modality_value MOD_AUDIO = ''audio''"
| "content_modality_value MOD_TEXT = ''text''"
| "content_modality_value MOD_INTERACTIVE = ''interactive''"

datatype content_segment_type =
    SEG_DIAGRAM
  | SEG_WORKED_EXAMPLE
  | SEG_EXPLANATION
  | SEG_DEFINITION
  | SEG_SUMMARY
  | SEG_PRACTICE
  | SEG_INTERACTION
  | SEG_CHECKPOINT
  | SEG_CALCULATION

primrec content_segment_type_value :: "content_segment_type \<Rightarrow> string" where
  "content_segment_type_value SEG_DIAGRAM = ''diagram''"
| "content_segment_type_value SEG_WORKED_EXAMPLE = ''worked_example''"
| "content_segment_type_value SEG_EXPLANATION = ''explanation''"
| "content_segment_type_value SEG_DEFINITION = ''definition''"
| "content_segment_type_value SEG_SUMMARY = ''summary''"
| "content_segment_type_value SEG_PRACTICE = ''practice''"
| "content_segment_type_value SEG_INTERACTION = ''interaction''"
| "content_segment_type_value SEG_CHECKPOINT = ''checkpoint''"
| "content_segment_type_value SEG_CALCULATION = ''calculation''"

datatype density_level = DEN_LOW | DEN_MEDIUM | DEN_HIGH

primrec density_level_value :: "density_level \<Rightarrow> string" where
  "density_level_value DEN_LOW = ''low''"
| "density_level_value DEN_MEDIUM = ''medium''"
| "density_level_value DEN_HIGH = ''high''"

datatype scaffolding_level = SL_NONE | SL_LIGHT | SL_STANDARD | SL_STRONG

primrec scaffolding_level_value :: "scaffolding_level \<Rightarrow> string" where
  "scaffolding_level_value SL_NONE = ''none''"
| "scaffolding_level_value SL_LIGHT = ''light''"
| "scaffolding_level_value SL_STANDARD = ''standard''"
| "scaffolding_level_value SL_STRONG = ''strong''"

datatype break_type = BT_MICRO | BT_MOVEMENT | BT_CONSOLIDATION | BT_FULL | BT_STOP_FOR_DAY

primrec break_type_value :: "break_type \<Rightarrow> string" where
  "break_type_value BT_MICRO = ''micro''"
| "break_type_value BT_MOVEMENT = ''movement''"
| "break_type_value BT_CONSOLIDATION = ''consolidation''"
| "break_type_value BT_FULL = ''full''"
| "break_type_value BT_STOP_FOR_DAY = ''stop_for_day''"

datatype accommodation_type = ACC_READING | ACC_ATTENTION | ACC_NUMERICAL

primrec accommodation_type_value :: "accommodation_type \<Rightarrow> string" where
  "accommodation_type_value ACC_READING = ''reading''"
| "accommodation_type_value ACC_ATTENTION = ''attention''"
| "accommodation_type_value ACC_NUMERICAL = ''numerical''"

datatype break_threshold =
    BTH_TIME_THRESHOLD
  | BTH_PERSISTENT_STALL
  | BTH_ENGAGEMENT_DECLINE
  | BTH_COMPREHENSION_DROP
  | BTH_REPEATED_ERRORS
  | BTH_REPLAY_ACCUMULATION
  | BTH_FRUSTRATION_HIGH

primrec break_threshold_value :: "break_threshold \<Rightarrow> string" where
  "break_threshold_value BTH_TIME_THRESHOLD = ''time_threshold''"
| "break_threshold_value BTH_PERSISTENT_STALL = ''persistent_stall''"
| "break_threshold_value BTH_ENGAGEMENT_DECLINE = ''engagement_decline''"
| "break_threshold_value BTH_COMPREHENSION_DROP = ''comprehension_drop''"
| "break_threshold_value BTH_REPEATED_ERRORS = ''repeated_errors''"
| "break_threshold_value BTH_REPLAY_ACCUMULATION = ''replay_accumulation''"
| "break_threshold_value BTH_FRUSTRATION_HIGH = ''frustration_high''"

datatype break_severity = BS_NONE | BS_MILD | BS_MEDIUM | BS_HIGH

primrec break_severity_value :: "break_severity \<Rightarrow> string" where
  "break_severity_value BS_NONE = ''none''"
| "break_severity_value BS_MILD = ''mild''"
| "break_severity_value BS_MEDIUM = ''medium''"
| "break_severity_value BS_HIGH = ''high''"

datatype confidence_level = CONF_LOW | CONF_MEDIUM | CONF_HIGH

primrec confidence_level_value :: "confidence_level \<Rightarrow> string" where
  "confidence_level_value CONF_LOW = ''low''"
| "confidence_level_value CONF_MEDIUM = ''medium''"
| "confidence_level_value CONF_HIGH = ''high''"

datatype signal_event_type =
    SE_TIME_ON_SEGMENT
  | SE_REPLAY
  | SE_SCROLL
  | SE_READING_CHUNK_VIEWED
  | SE_SIMPLIFY_TRIGGER
  | SE_EXPAND_TRIGGER
  | SE_SLOWER_TRIGGER
  | SE_COMPREHENSION_RESPONSE
  | SE_EXIT_ATTEMPT
  | SE_BREAK_SUGGESTED
  | SE_BREAK_TAKEN
  | SE_BREAK_DECLINED
  | SE_BREAK_START
  | SE_BREAK_END
  | SE_FEELING_CHECKIN
  | SE_MODULE_BOUNDARY_REACHED
  | SE_MODULE_BOUNDARY_ACTION
  | SE_ENGAGEMENT_SIGNAL
  | SE_MODALITY_SUGGESTION_SHOWN
  | SE_MODALITY_SUGGESTION_ACCEPTED
  | SE_MODALITY_SUGGESTION_DECLINED
  | SE_MODALITY_SUGGESTION_IGNORED
  | SE_MODALITY_SWITCH_OUTCOME
  | SE_MODALITY_MANUAL_SWITCH
  | SE_CALCULATION_STEP_RESPONSE
  | SE_CALCULATION_COMPLETE
  | SE_NARRATION_PLAYED
  | SE_NARRATION_REPLAYED
  | SE_MANIPULATIVE_PIECE_PLACED
  | SE_ASK_NEVO_QUESTION_STUDENT
  | SE_ASK_NEVO_QUESTION_TEACHER
  | SE_ASK_NEVO_CANNOT_HELP
  | SE_ASK_NEVO_REDIRECT_USED
  | SE_ADAPTATION_SUPPRESSED
  | SE_MEDIA_LOAD_FAILED
  | SE_SYSTEM_BUSY
  | SE_TAP_BLOCKED
  | SE_SESSION_CONTEXT
  | SE_BASELINE_MODULE_START
  | SE_BASELINE_MODULE_COMPLETE
  | SE_BASELINE_SUBMITTED
  | SE_HINT_OFFERED
  | SE_HINT_USED
  | SE_STEP_UP_OFFERED
  | SE_STEP_UP_ACCEPTED
  | SE_STEP_UP_DECLINED
  | SE_GUIDED_QUESTION_SHOWN
  | SE_GUIDED_QUESTION_ANSWERED

primrec signal_event_type_value :: "signal_event_type \<Rightarrow> string" where
  "signal_event_type_value SE_TIME_ON_SEGMENT = ''time_on_segment''"
| "signal_event_type_value SE_REPLAY = ''replay''"
| "signal_event_type_value SE_SCROLL = ''scroll''"
| "signal_event_type_value SE_READING_CHUNK_VIEWED = ''reading_chunk_viewed''"
| "signal_event_type_value SE_SIMPLIFY_TRIGGER = ''simplify_trigger''"
| "signal_event_type_value SE_EXPAND_TRIGGER = ''expand_trigger''"
| "signal_event_type_value SE_SLOWER_TRIGGER = ''slower_trigger''"
| "signal_event_type_value SE_COMPREHENSION_RESPONSE = ''comprehension_response''"
| "signal_event_type_value SE_EXIT_ATTEMPT = ''exit_attempt''"
| "signal_event_type_value SE_BREAK_SUGGESTED = ''break_suggested''"
| "signal_event_type_value SE_BREAK_TAKEN = ''break_taken''"
| "signal_event_type_value SE_BREAK_DECLINED = ''break_declined''"
| "signal_event_type_value SE_BREAK_START = ''break_start''"
| "signal_event_type_value SE_BREAK_END = ''break_end''"
| "signal_event_type_value SE_FEELING_CHECKIN = ''feeling_checkin''"
| "signal_event_type_value SE_MODULE_BOUNDARY_REACHED = ''module_boundary_reached''"
| "signal_event_type_value SE_MODULE_BOUNDARY_ACTION = ''module_boundary_action''"
| "signal_event_type_value SE_ENGAGEMENT_SIGNAL = ''engagement_signal''"
| "signal_event_type_value SE_MODALITY_SUGGESTION_SHOWN = ''modality_suggestion_shown''"
| "signal_event_type_value SE_MODALITY_SUGGESTION_ACCEPTED = ''modality_suggestion_accepted''"
| "signal_event_type_value SE_MODALITY_SUGGESTION_DECLINED = ''modality_suggestion_declined''"
| "signal_event_type_value SE_MODALITY_SUGGESTION_IGNORED = ''modality_suggestion_ignored''"
| "signal_event_type_value SE_MODALITY_SWITCH_OUTCOME = ''modality_switch_outcome''"
| "signal_event_type_value SE_MODALITY_MANUAL_SWITCH = ''modality_manual_switch''"
| "signal_event_type_value SE_CALCULATION_STEP_RESPONSE = ''calculation_step_response''"
| "signal_event_type_value SE_CALCULATION_COMPLETE = ''calculation_complete''"
| "signal_event_type_value SE_NARRATION_PLAYED = ''narration_played''"
| "signal_event_type_value SE_NARRATION_REPLAYED = ''narration_replayed''"
| "signal_event_type_value SE_MANIPULATIVE_PIECE_PLACED = ''manipulative_piece_placed''"
| "signal_event_type_value SE_ASK_NEVO_QUESTION_STUDENT = ''ask_nevo_question_student''"
| "signal_event_type_value SE_ASK_NEVO_QUESTION_TEACHER = ''ask_nevo_question_teacher''"
| "signal_event_type_value SE_ASK_NEVO_CANNOT_HELP = ''ask_nevo_cannot_help''"
| "signal_event_type_value SE_ASK_NEVO_REDIRECT_USED = ''ask_nevo_redirect_used''"
| "signal_event_type_value SE_ADAPTATION_SUPPRESSED = ''adaptation_suppressed''"
| "signal_event_type_value SE_MEDIA_LOAD_FAILED = ''media_load_failed''"
| "signal_event_type_value SE_SYSTEM_BUSY = ''system_busy''"
| "signal_event_type_value SE_TAP_BLOCKED = ''tap_blocked''"
| "signal_event_type_value SE_SESSION_CONTEXT = ''session_context''"
| "signal_event_type_value SE_BASELINE_MODULE_START = ''baseline_module_start''"
| "signal_event_type_value SE_BASELINE_MODULE_COMPLETE = ''baseline_module_complete''"
| "signal_event_type_value SE_BASELINE_SUBMITTED = ''baseline_submitted''"
| "signal_event_type_value SE_HINT_OFFERED = ''hint_offered''"
| "signal_event_type_value SE_HINT_USED = ''hint_used''"
| "signal_event_type_value SE_STEP_UP_OFFERED = ''step_up_offered''"
| "signal_event_type_value SE_STEP_UP_ACCEPTED = ''step_up_accepted''"
| "signal_event_type_value SE_STEP_UP_DECLINED = ''step_up_declined''"
| "signal_event_type_value SE_GUIDED_QUESTION_SHOWN = ''guided_question_shown''"
| "signal_event_type_value SE_GUIDED_QUESTION_ANSWERED = ''guided_question_answered''"

datatype lesson_completion_status = LC_IN_PROGRESS | LC_COMPLETED | LC_EXITED

primrec lesson_completion_status_value :: "lesson_completion_status \<Rightarrow> string" where
  "lesson_completion_status_value LC_IN_PROGRESS = ''in_progress''"
| "lesson_completion_status_value LC_COMPLETED = ''completed''"
| "lesson_completion_status_value LC_EXITED = ''exited''"

subsection \<open>Numbers\<close>

text \<open>
  The engine computes with Python floats.  They are modelled as rationals, so every sum, product and comparison
  is exact; a float comparison may differ where the two sides are equal up to the last bit.  \<^verbatim>\<open>round(x, n)\<close>
  rounds halves to the even neighbour.
\<close>

type_synonym score = rat

definition round_half_even :: "rat \<Rightarrow> int" where
  "round_half_even x =
     (let f = \<lfloor>x\<rfloor>; r = x - of_int f in
      if r < 1 / 2 then f else if 1 / 2 < r then f + 1 else if even f then f else f + 1)"

definition round_to :: "nat \<Rightarrow> rat \<Rightarrow> rat" where
  "round_to n x = of_int (round_half_even (x * 10 ^ n)) / 10 ^ n"

lemma round_half_even_near: "\<bar>of_int (round_half_even x) - x\<bar> \<le> 1 / 2"
proof -
  have "of_int \<lfloor>x\<rfloor> \<le> x" "x < of_int \<lfloor>x\<rfloor> + 1" by linarith+
  then show ?thesis by (simp add: round_half_even_def Let_def abs_le_iff)
qed

lemma round_half_even_of_int [simp]: "round_half_even (of_int n) = n"
  by (simp add: round_half_even_def)

lemma round_half_even_mono: "x \<le> y \<Longrightarrow> round_half_even x \<le> round_half_even y"
proof -
  assume le: "x \<le> y"
  show ?thesis
  proof (cases "\<lfloor>x\<rfloor> = \<lfloor>y\<rfloor>")
    case True
    then show ?thesis using le unfolding round_half_even_def Let_def by auto
  next
    case False
    then have "\<lfloor>x\<rfloor> + 1 \<le> \<lfloor>y\<rfloor>" using floor_mono[OF le] by linarith
    then show ?thesis unfolding round_half_even_def Let_def by auto
  qed
qed

lemma round_to_mono: "x \<le> y \<Longrightarrow> round_to n x \<le> round_to n y"
  unfolding round_to_def by (intro divide_right_mono) (simp_all add: round_half_even_mono)

text \<open>A number with at most \<open>n\<close> decimals is not changed.\<close>

lemma round_to_fixed: "x * 10 ^ n = of_int k \<Longrightarrow> round_to n x = x"
  unfolding round_to_def by (metis nonzero_mult_div_cancel_right power_not_zero round_half_even_of_int zero_neq_numeral)

end
