(* ===== verification/LearningTables.thy ===== *)
theory LearningTables
  imports LearningVocabulary
begin

text \<open>
  What the learning components share: the exceptions they raise, the JSON reads, and the tables more than one of them
  uses (\<^verbatim>\<open>db/models/signal_event.py\<close>, \<^verbatim>\<open>product.py\<close>, \<^verbatim>\<open>frontend_support.py\<close>).
\<close>

datatype learning_fault = AttributeError | TypeError | ValueError | OverflowError | KeyError | DatabaseRefused

text \<open>\<^verbatim>\<open>value.get(key)\<close> on a JSON value, which only an object has.\<close>

definition json_get :: "json \<Rightarrow> string \<Rightarrow> learning_fault + json" where
  "json_get v k = (case v of JObject kvs \<Rightarrow> Inr (dict_get kvs k) | _ \<Rightarrow> Inl AttributeError)"

text \<open>A JSON value used as a number; \<open>None\<close> for \<^verbatim>\<open>None\<close>.\<close>

definition as_number :: "json \<Rightarrow> learning_fault + score option" where
  "as_number v =
     (case v of
        JNull \<Rightarrow> Inr None
      | JInt n \<Rightarrow> Inr (Some (of_int n))
      | JFloat x \<Rightarrow> Inr (Some x)
      | JBool b \<Rightarrow> Inr (Some (if b then 1 else 0))
      | _ \<Rightarrow> Inl TypeError)"

text \<open>
  \<^verbatim>\<open>uuid.UUID(text)\<close>: the prefixes, braces and hyphens are dropped and 32 hexadecimal digits have to be left.  The
  underscores and signs Python's integer parser would also let through there count as malformed here.
\<close>

definition hex_value :: "char \<Rightarrow> nat option" where
  "hex_value c = (let n = (of_char c :: nat) in
     if 48 \<le> n \<and> n \<le> 57 then Some (n - 48)
     else if 65 \<le> n \<and> n \<le> 70 then Some (n - 55)
     else if 97 \<le> n \<and> n \<le> 102 then Some (n - 87) else None)"

fun hex_number :: "nat \<Rightarrow> string \<Rightarrow> nat option" where
  "hex_number acc [] = Some acc"
| "hex_number acc (c # cs) = (case hex_value c of None \<Rightarrow> None | Some v \<Rightarrow> hex_number (16 * acc + v) cs)"

fun drop_prefixes :: "string \<Rightarrow> string \<Rightarrow> string" where
  "drop_prefixes p [] = []"
| "drop_prefixes p (c # cs) =
     (if p \<noteq> [] \<and> take (length p) (c # cs) = p then drop_prefixes p (drop (length p - 1) cs) else c # drop_prefixes p cs)"

definition strip_chars :: "char set \<Rightarrow> string \<Rightarrow> string" where
  "strip_chars C s = rev (dropWhile (\<lambda>c. c \<in> C) (rev (dropWhile (\<lambda>c. c \<in> C) s)))"

definition parse_uuid :: "string \<Rightarrow> learning_fault + uuid" where
  "parse_uuid s = (let h = filter (\<lambda>c. c \<noteq> CHR ''-'') (strip_chars {CHR ''{'', CHR ''}''} (drop_prefixes ''uuid:'' (drop_prefixes ''urn:'' s))) in
     if length h = 32 then (case hex_number 0 h of None \<Rightarrow> Inl ValueError | Some n \<Rightarrow> Inr n) else Inl ValueError)"

subsection \<open>Tables\<close>

record lesson_session_row =
  ls_id :: uuid
  ls_student_id :: uuid
  ls_lesson_id :: "uuid option"
  ls_session_type :: string
  ls_started_at :: datetime
  ls_ended_at :: "datetime option"
  ls_completion_status :: lesson_completion_status
  ls_exit_position :: "string option"
  ls_break_count :: int
  ls_proactive_adjustments_count :: int
  ls_delivery_depth :: string
  ls_delivery_state :: json
  ls_rerouted_from_session_id :: "uuid option"

record question_attempt_row =
  qa_id :: uuid
  qa_student_id :: uuid
  qa_lesson_id :: uuid
  qa_session_id :: uuid
  qa_question_id :: string
  qa_segment_id :: "uuid option"
  qa_source :: string
  qa_client_attempt_id :: "uuid option"
  qa_attempt_number :: int
  qa_question_snapshot :: json
  qa_answer :: json
  qa_offline_marked :: bool
  qa_marking_key_version :: "string option"
  qa_server_verified_at :: "datetime option"
  qa_correct :: "bool option"
  qa_response_time_ms :: "int option"
  qa_hint_count :: int
  qa_submitted_at :: datetime

record concept_row =
  cn_id :: uuid
  cn_school_id :: "uuid option"
  cn_lesson_id :: "uuid option"
  cn_name :: string
  cn_subject :: "string option"
  cn_curriculum_position :: score
  cn_prerequisite_ids :: "string list"
  cn_source :: string

subsection \<open>Insertion-ordered grouping\<close>

text \<open>The keys of a Python dict filled from a list: each value once, in the order of its first occurrence.\<close>

fun first_seen :: "'a list \<Rightarrow> 'a list" where
  "first_seen [] = []"
| "first_seen (x # xs) = x # filter (\<lambda>y. y \<noteq> x) (first_seen xs)"

lemma set_first_seen [simp]: "set (first_seen xs) = set xs"
  by (induction xs) auto

lemma distinct_first_seen [simp]: "distinct (first_seen xs)"
  by (induction xs) auto

subsection \<open>Update or insert\<close>

text \<open>
  The write most repositories here make: read the row of a unique key, update that row by its identifier if there is one
  and add a new row otherwise.
\<close>

definition upsert :: "('r \<Rightarrow> 'k) \<Rightarrow> ('r \<Rightarrow> 'i) \<Rightarrow> 'k \<Rightarrow> ('r \<Rightarrow> 'r) \<Rightarrow> 'r \<Rightarrow> 'r list \<Rightarrow> 'r list" where
  "upsert key ident k f new rows =
     (case get_by key k rows of
        None \<Rightarrow> rows @ [new]
      | Some r \<Rightarrow> update_where (\<lambda>x. ident x = ident r) f rows)"

lemma distinct_map_eqD: "\<lbrakk>distinct (map f xs); x \<in> set xs; y \<in> set xs; f x = f y\<rbrakk> \<Longrightarrow> x = y"
  by (meson distinct_map inj_onD)

lemma get_by_upsert_same:
  assumes "\<And>r. key (f r) = key r" "key new = k"
  shows "get_by key k (upsert key ident k f new rows) = Some (case get_by key k rows of None \<Rightarrow> new | Some r \<Rightarrow> f r)"
  using assms by (cases "get_by key k rows") (simp_all add: upsert_def get_by_append get_by_update_where)

lemma get_by_upsert_other:
  assumes "\<And>r. key (f r) = key r" "key new = k" "distinct (map ident rows)" "k' \<noteq> k"
  shows "get_by key k' (upsert key ident k f new rows) = get_by key k' rows"
proof (cases "get_by key k rows")
  case None
  then show ?thesis using assms(2,4) by (simp add: upsert_def get_by_append split: option.split)
next
  case (Some r)
  have "ident q \<noteq> ident r" if "get_by key k' rows = Some q" for q
    using get_by_SomeD[OF that] get_by_SomeD[OF Some] distinct_map_eqD[OF assms(3)] assms(4) by metis
  then show ?thesis using Some assms(1)
    by (cases "get_by key k' rows") (simp_all add: upsert_def get_by_update_where)
qed

lemma upsert_rows:
  assumes "x \<in> set (upsert key ident k f new rows)"
  shows "x \<in> set rows \<or> x = new \<or> (\<exists>r \<in> set rows. x = f r)"
proof (cases "get_by key k rows")
  case None
  then show ?thesis using assms by (auto simp: upsert_def)
next
  case (Some q)
  from assms obtain z where "z \<in> set rows" "x = (if ident z = ident q then f z else z)"
    unfolding upsert_def Some option.case set_update_where by (rule imageE) blast
  then show ?thesis by (cases "ident z = ident q") auto
qed

lemma distinct_key_upsert:
  assumes "\<And>r. key (f r) = key r" "key new = k" "distinct (map key rows)"
  shows "distinct (map key (upsert key ident k f new rows))"
  using assms get_by_None_iff[of key k rows] by (cases "get_by key k rows") (auto simp: upsert_def map_update_where)

lemma distinct_ident_upsert:
  assumes "\<And>r. ident (f r) = ident r" "distinct (map ident rows)" "get_by key k rows = None \<Longrightarrow> ident new \<notin> ident ` set rows"
  shows "distinct (map ident (upsert key ident k f new rows))"
  using assms by (cases "get_by key k rows") (simp_all add: upsert_def map_update_where)

subsection \<open>Identifiers print and parse\<close>

lemma hex_value_digit: "d < 16 \<Longrightarrow> hex_value (hex_digit d) = Some d"
  by (auto simp: hex_value_def hex_digit_def Let_def)

lemma hex_number_append:
  "hex_number acc (xs @ ys) = (case hex_number acc xs of None \<Rightarrow> None | Some a \<Rightarrow> hex_number a ys)"
  by (induction acc xs rule: hex_number.induct) (auto split: option.split)

lemma length_padded_digits [simp]: "length (padded_digits b w n) = w"
  by (induction b w n rule: padded_digits.induct) simp_all

lemma hex_number_padded: "n < 16 ^ w \<Longrightarrow> hex_number 0 (padded_digits 16 w n) = Some n"
proof (induction w arbitrary: n)
  case (Suc w)
  then have "n div 16 < 16 ^ w" by (simp add: less_mult_imp_div_less mult.commute)
  then show ?case using Suc.IH by (simp add: hex_number_append hex_value_digit)
qed simp

lemma padded_digits_hex: "c \<in> set (padded_digits 16 w n) \<Longrightarrow> \<exists>d < 16. c = hex_digit d"
  by (induction w arbitrary: n) (auto intro: exI[of _ "n mod 16" for n])

lemma hex_digit_plain: "d < 16 \<Longrightarrow> hex_digit d \<notin> {CHR ''-'', CHR ''{'', CHR ''}'', CHR ''u''}"
proof -
  have "list_all (\<lambda>d. hex_digit d \<notin> {CHR ''-'', CHR ''{'', CHR ''}'', CHR ''u''}) [0..<16]" by code_simp
  moreover assume "d < 16"
  then have "d \<in> set [0..<16]" by simp
  ultimately show ?thesis unfolding list_all_iff by (rule bspec)
qed

lemma padded_digits_plain: "c \<in> set (padded_digits 16 w n) \<Longrightarrow> c \<notin> {CHR ''-'', CHR ''{'', CHR ''}'', CHR ''u''}"
  by (drule padded_digits_hex, elim exE conjE) (simp only: hex_digit_plain simp_thms)

lemma drop_prefixes_absent: "\<lbrakk>p = c # cs; c \<notin> set s\<rbrakk> \<Longrightarrow> drop_prefixes p s = s"
  by (induction s) auto

lemma strip_chars_absent: "C \<inter> set s = {} \<Longrightarrow> strip_chars C s = s"
proof -
  assume "C \<inter> set s = {}"
  moreover have "dropWhile (\<lambda>c. c \<in> C) xs = xs" if "C \<inter> set xs = {}" for xs using that by (cases xs) auto
  ultimately show ?thesis by (simp add: strip_chars_def)
qed

lemma uuid_str_dashes: "filter (\<lambda>c. c \<noteq> CHR ''-'') (uuid_str n) = padded_digits 16 32 n"
proof -
  let ?h = "padded_digits 16 32 n"
  have plain: "filter (\<lambda>c. c \<noteq> CHR ''-'') xs = xs" if "set xs \<subseteq> set ?h" for xs
  proof (rule filter_True, rule ballI)
    fix c assume "c \<in> set xs"
    then have "c \<in> set ?h" using that by blast
    then show "c \<noteq> CHR ''-''" by (drule_tac padded_digits_plain) simp
  qed
  have parts: "set (take k (drop j ?h)) \<subseteq> set ?h" "set (take k ?h) \<subseteq> set ?h" "set (drop j ?h) \<subseteq> set ?h" for j k
    by (auto dest: in_set_takeD in_set_dropD)
  have cut: "take k (drop j xs) @ drop (j + k) xs = drop j xs" for j k and xs :: string
    by (metis add.commute append_take_drop_id drop_drop)
  have "take 8 ?h @ take 4 (drop 8 ?h) @ take 4 (drop 12 ?h) @ take 4 (drop 16 ?h) @ drop 20 ?h = ?h"
    using cut[of 4 8 ?h] cut[of 4 12 ?h] cut[of 4 16 ?h] append_take_drop_id[of 8 ?h] by simp
  then show ?thesis unfolding uuid_str_def Let_def py_join.simps filter_append plain[OF parts(1)] plain[OF parts(2)] plain[OF parts(3)]
    by simp
qed

lemma parse_uuid_str: "n < 16 ^ 32 \<Longrightarrow> parse_uuid (uuid_str n) = Inr n"
proof -
  assume n: "n < 16 ^ 32"
  have "set (uuid_str n) \<subseteq> insert (CHR ''-'') (set (padded_digits 16 32 n))"
    by (auto simp: uuid_str_dashes[symmetric])
  then have "CHR ''u'' \<notin> set (uuid_str n)" "{CHR ''{'', CHR ''}''} \<inter> set (uuid_str n) = {}"
    using padded_digits_plain[of _ 32 n] by auto
  then have "filter (\<lambda>c. c \<noteq> CHR ''-'') (strip_chars {CHR ''{'', CHR ''}''} (drop_prefixes ''uuid:'' (drop_prefixes ''urn:'' (uuid_str n))))
      = padded_digits 16 32 n"
    by (simp add: drop_prefixes_absent strip_chars_absent uuid_str_dashes)
  then show ?thesis using hex_number_padded[OF n] by (simp add: parse_uuid_def)
qed

end
