(* ===== verification/Scaffolds.thy ===== *)
theory Scaffolds
  imports LearningTables
begin

text \<open>
  Progressive scaffold fading (\<^verbatim>\<open>intelligence/scaffolds.py\<close>, \<^verbatim>\<open>scaffold_service.py\<close>, \<^verbatim>\<open>scaffold_repositories.py\<close>):
  how much help a child gets with a concept, one rung up or down a ladder of four.  The engine decides from the
  stored state and one attempt; the service reads the state, asks the engine, and stores the new state and a log
  entry through a repository, which the source states as a protocol and this theory as the locale
  \<open>scaffold_repository\<close>, interpreted on the SQL implementation.

  The engine is proved to implement a small specification, \<open>ladder_step\<close>, on pairs of a rung and a streak.
\<close>

subsection \<open>Tables\<close>

record scaffold_state_row =
  ss_id :: uuid
  ss_student_id :: uuid
  ss_concept_id :: uuid
  ss_current_intensity :: scaffold_intensity
  ss_consecutive_correct :: int
  ss_response_time_improvement_streak :: int
  ss_reduced_hint_streak :: int
  ss_last_response_time_ms :: "int option"
  ss_last_hint_count :: "int option"
  ss_updated_at :: datetime

record scaffold_log_row =
  sl_id :: uuid
  sl_student_id :: uuid
  sl_concept_id :: uuid
  sl_problem_id :: string
  sl_scaffold_intensity :: scaffold_intensity
  sl_outcome :: scaffold_outcome
  sl_response_time_ms :: "int option"
  sl_expected_response_time_ms :: "int option"
  sl_hint_count :: int
  sl_next_scaffold_intensity :: scaffold_intensity
  sl_level_changed :: bool
  sl_change_reason :: "string option"
  sl_created_at :: datetime

text \<open>The tables the repository reads and writes.\<close>

record scaffold_db =
  sd_users :: "user_row list"
  sd_lesson_sessions :: "lesson_session_row list"
  sd_states :: "scaffold_state_row list"
  sd_logs :: "scaffold_log_row list"

text \<open>Unique keys, CHECK constraints, the foreign key to \<^verbatim>\<open>users\<close> and the lengths of the text columns.\<close>

definition scaffold_state_ok :: "user_row list \<Rightarrow> scaffold_state_row \<Rightarrow> bool" where
  "scaffold_state_ok us r = (0 \<le> ss_consecutive_correct r \<and> 0 \<le> ss_response_time_improvement_streak r \<and>
     0 \<le> ss_reduced_hint_streak r \<and> ss_student_id r \<in> u_id ` set us)"

definition scaffold_log_ok :: "user_row list \<Rightarrow> scaffold_log_row \<Rightarrow> bool" where
  "scaffold_log_ok us r = (0 \<le> sl_hint_count r \<and>
     (case sl_response_time_ms r of None \<Rightarrow> True | Some t \<Rightarrow> 0 \<le> t) \<and>
     (case sl_expected_response_time_ms r of None \<Rightarrow> True | Some t \<Rightarrow> 0 < t) \<and>
     length (sl_problem_id r) \<le> 120 \<and> sl_student_id r \<in> u_id ` set us)"

definition scaffold_db_ok :: "scaffold_db \<Rightarrow> bool" where
  "scaffold_db_ok d = (distinct (map ss_id (sd_states d)) \<and>
     distinct (map (\<lambda>r. (ss_student_id r, ss_concept_id r)) (sd_states d)) \<and>
     distinct (map sl_id (sd_logs d)) \<and>
     list_all (scaffold_state_ok (sd_users d)) (sd_states d) \<and>
     list_all (scaffold_log_ok (sd_users d)) (sd_logs d))"

definition scaffold_commit :: "scaffold_db \<Rightarrow> learning_fault + scaffold_db" where
  "scaffold_commit d = (if scaffold_db_ok d then Inr d else Inl DatabaseRefused)"

subsection \<open>Entities\<close>

record scaffold_concept_state =
  cs_student_id :: uuid
  cs_concept_id :: uuid
  cs_current_intensity :: scaffold_intensity
  cs_consecutive_correct :: int
  cs_response_time_improvement_streak :: int
  cs_reduced_hint_streak :: int
  cs_last_response_time_ms :: "int option"
  cs_last_hint_count :: "int option"

record scaffold_problem_attempt =
  pa_student_id :: uuid
  pa_concept_id :: uuid
  pa_problem_id :: string
  pa_response_correct :: bool
  pa_scaffold_intensity :: "scaffold_intensity option"
  pa_response_time_ms :: "int option"
  pa_expected_response_time_ms :: "int option"
  pa_hint_count :: int
  pa_counts_as_independent :: bool

record scaffold_decision =
  sdn_state :: scaffold_concept_state
  sdn_previous_intensity :: scaffold_intensity
  sdn_next_intensity :: scaffold_intensity
  sdn_outcome :: scaffold_outcome
  sdn_level_changed :: bool
  sdn_change_reason :: "string option"
  sdn_student_message :: string

record scaffold_problem_log_entry =
  le_student_id :: uuid
  le_concept_id :: uuid
  le_problem_id :: string
  le_scaffold_intensity :: scaffold_intensity
  le_outcome :: scaffold_outcome
  le_response_time_ms :: "int option"
  le_expected_response_time_ms :: "int option"
  le_hint_count :: int
  le_next_scaffold_intensity :: scaffold_intensity
  le_level_changed :: bool
  le_change_reason :: "string option"

text \<open>A state with the defaults of the dataclass.\<close>

definition fresh_concept_state :: "uuid \<Rightarrow> uuid \<Rightarrow> scaffold_intensity \<Rightarrow> scaffold_concept_state" where
  "fresh_concept_state student concept intensity = \<lparr>cs_student_id = student, cs_concept_id = concept,
     cs_current_intensity = intensity, cs_consecutive_correct = 0, cs_response_time_improvement_streak = 0,
     cs_reduced_hint_streak = 0, cs_last_response_time_ms = None, cs_last_hint_count = None\<rparr>"

subsection \<open>The engine\<close>

definition FADE_AFTER_CONSECUTIVE_CORRECT :: int where
  "FADE_AFTER_CONSECUTIVE_CORRECT = 3"

definition INTENSITY_ORDER :: "scaffold_intensity list" where
  "INTENSITY_ORDER = [SI_FULL_SUPPORT, SI_PARTIAL_SUPPORT, SI_HINTS_ONLY, SI_INDEPENDENT]"

text \<open>\<^verbatim>\<open>tuple.index\<close>: the position of the first equal element; every intensity is in the order.\<close>

fun index_of :: "'a list \<Rightarrow> 'a \<Rightarrow> nat" where
  "index_of [] y = 0"
| "index_of (x # xs) y = (if x = y then 0 else Suc (index_of xs y))"

text \<open>The last look-up is in a dict, so its key has to be hashable.\<close>

definition initial_scaffold_intensity :: "json \<Rightarrow> learning_fault + scaffold_intensity" where
  "initial_scaffold_intensity config =
     (case json_get config ''support'' of
        Inl e \<Rightarrow> Inl e
      | Inr support \<Rightarrow>
          (case (if truthy support then support else JObject []) of
             JObject kvs \<Rightarrow>
               (case (case map_of kvs ''initialScaffoldLevel'' of None \<Rightarrow> JString ''standard'' | Some v \<Rightarrow> v) of
                  JList _ \<Rightarrow> Inl TypeError
                | JObject _ \<Rightarrow> Inl TypeError
                | JString s \<Rightarrow> Inr
                    (if s = ''strong'' then SI_FULL_SUPPORT
                     else if s = ''standard'' then SI_PARTIAL_SUPPORT
                     else if s = ''light'' then SI_HINTS_ONLY
                     else if s = ''none'' then SI_INDEPENDENT
                     else SI_PARTIAL_SUPPORT)
                | _ \<Rightarrow> Inr SI_PARTIAL_SUPPORT)
           | _ \<Rightarrow> Inl AttributeError))"

definition initial_state :: "uuid \<Rightarrow> uuid \<Rightarrow> scaffold_concept_state" where
  "initial_state student concept = fresh_concept_state student concept SI_FULL_SUPPORT"

definition mastery_signal_met :: "scaffold_concept_state \<Rightarrow> scaffold_problem_attempt \<Rightarrow> bool" where
  "mastery_signal_met st a =
     (if \<not> pa_response_correct a \<or> pa_hint_count a > 0 then False
      else if (case cs_last_hint_count st of None \<Rightarrow> False | Some n \<Rightarrow> pa_hint_count a > n) then False
      else if \<not> pa_counts_as_independent a then False
      else True)"

definition response_time_streak :: "scaffold_concept_state \<Rightarrow> scaffold_problem_attempt \<Rightarrow> int" where
  "response_time_streak st a =
     (case (cs_last_response_time_ms st, pa_response_time_ms a) of
        (Some before, Some now) \<Rightarrow> if now \<le> before then cs_response_time_improvement_streak st + 1 else 0
      | _ \<Rightarrow> cs_response_time_improvement_streak st)"

definition hint_streak :: "scaffold_concept_state \<Rightarrow> scaffold_problem_attempt \<Rightarrow> int" where
  "hint_streak st a =
     (case cs_last_hint_count st of
        None \<Rightarrow> cs_reduced_hint_streak st
      | Some n \<Rightarrow> if pa_hint_count a \<le> n then cs_reduced_hint_streak st + 1 else 0)"

definition fade_if_ready :: "scaffold_intensity \<Rightarrow> int \<Rightarrow> scaffold_intensity \<times> string option" where
  "fade_if_ready current consecutive_correct =
     (if consecutive_correct < FADE_AFTER_CONSECUTIVE_CORRECT then (current, None)
      else let index = index_of INTENSITY_ORDER current in
        if index = length INTENSITY_ORDER - 1 then (current, None)
        else (INTENSITY_ORDER ! (index + 1), Some ''mastery_signals_accumulated''))"

definition support_if_needed :: "scaffold_intensity \<Rightarrow> scaffold_intensity \<times> string option" where
  "support_if_needed current =
     (let index = index_of INTENSITY_ORDER current in
      if index = 0 then (current, None) else (INTENSITY_ORDER ! (index - 1), Some ''support_reengaged''))"

definition engine_record_attempt :: "scaffold_concept_state \<Rightarrow> scaffold_problem_attempt \<Rightarrow> scaffold_decision" where
  "engine_record_attempt st a =
     (let intensity_used = (case pa_scaffold_intensity a of None \<Rightarrow> cs_current_intensity st | Some i \<Rightarrow> i);
          supported_pass = (pa_response_correct a \<and> (\<not> pa_counts_as_independent a \<or> pa_hint_count a > 0));
          outcome = (if supported_pass \<or> mastery_signal_met st a then SO_CORRECT else SO_STRUGGLED);
          (consecutive_correct, response_streak, hints, next_intensity, reason) =
            (if supported_pass then (0, 0, 0, intensity_used, Some ''supported_pass'')
             else if outcome = SO_CORRECT then
               (let n = cs_consecutive_correct st + 1
                in (n, response_time_streak st a, hint_streak st a, fade_if_ready intensity_used n))
             else (0, 0, 0, support_if_needed intensity_used))
      in \<lparr>sdn_state = \<lparr>cs_student_id = cs_student_id st, cs_concept_id = cs_concept_id st,
              cs_current_intensity = next_intensity,
              cs_consecutive_correct = (if next_intensity \<noteq> intensity_used then 0 else consecutive_correct),
              cs_response_time_improvement_streak = response_streak, cs_reduced_hint_streak = hints,
              cs_last_response_time_ms = pa_response_time_ms a, cs_last_hint_count = Some (pa_hint_count a)\<rparr>,
          sdn_previous_intensity = intensity_used, sdn_next_intensity = next_intensity, sdn_outcome = outcome,
          sdn_level_changed = (next_intensity \<noteq> intensity_used), sdn_change_reason = reason,
          sdn_student_message = []\<rparr>)"

subsection \<open>The repository\<close>

definition state_from_record :: "scaffold_state_row \<Rightarrow> scaffold_concept_state" where
  "state_from_record r = \<lparr>cs_student_id = ss_student_id r, cs_concept_id = ss_concept_id r,
     cs_current_intensity = ss_current_intensity r, cs_consecutive_correct = ss_consecutive_correct r,
     cs_response_time_improvement_streak = ss_response_time_improvement_streak r,
     cs_reduced_hint_streak = ss_reduced_hint_streak r, cs_last_response_time_ms = ss_last_response_time_ms r,
     cs_last_hint_count = ss_last_hint_count r\<rparr>"

definition log_from_record :: "scaffold_log_row \<Rightarrow> scaffold_problem_log_entry" where
  "log_from_record r = \<lparr>le_student_id = sl_student_id r, le_concept_id = sl_concept_id r, le_problem_id = sl_problem_id r,
     le_scaffold_intensity = sl_scaffold_intensity r, le_outcome = sl_outcome r,
     le_response_time_ms = sl_response_time_ms r, le_expected_response_time_ms = sl_expected_response_time_ms r,
     le_hint_count = sl_hint_count r, le_next_scaffold_intensity = sl_next_scaffold_intensity r,
     le_level_changed = sl_level_changed r, le_change_reason = sl_change_reason r\<rparr>"

definition scaffold_key :: "scaffold_state_row \<Rightarrow> uuid \<times> uuid" where
  "scaffold_key r = (ss_student_id r, ss_concept_id r)"

definition scaffold_row :: "scaffold_db \<Rightarrow> uuid \<Rightarrow> uuid \<Rightarrow> scaffold_state_row option" where
  "scaffold_row d student concept =
     get_by scaffold_key (student, concept) (sd_states d)"

text \<open>The newest sitting in progress; \<^verbatim>\<open>ORDER BY ... DESC LIMIT 1\<close>.\<close>

definition current_sitting :: "scaffold_db \<Rightarrow> uuid \<Rightarrow> lesson_session_row option" where
  "current_sitting d student =
     (case sort_key (\<lambda>r. - ls_started_at r)
             (filter (\<lambda>r. ls_student_id r = student \<and> ls_completion_status r = LC_IN_PROGRESS) (sd_lesson_sessions d)) of
        [] \<Rightarrow> None | r # _ \<Rightarrow> Some r)"

text \<open>
  \<^verbatim>\<open>(... get("engineConfig") if sitting else None) or user.engine_config or {}\<close>.
\<close>

definition effective_engine_config :: "lesson_session_row option \<Rightarrow> user_row \<Rightarrow> learning_fault + json" where
  "effective_engine_config sitting user =
     (let fallback = (if truthy (u_engine_config user) then u_engine_config user else JObject []) in
      case sitting of
        None \<Rightarrow> Inr fallback
      | Some s \<Rightarrow>
          (case json_get (if truthy (ls_delivery_state s) then ls_delivery_state s else JObject []) ''engineConfig'' of
             Inl e \<Rightarrow> Inl e
           | Inr c \<Rightarrow> Inr (if truthy c then c else fallback)))"

definition repo_state :: "scaffold_db \<Rightarrow> uuid \<Rightarrow> uuid \<Rightarrow> learning_fault + scaffold_concept_state option" where
  "repo_state d student concept =
     (case scaffold_row d student concept of
        Some r \<Rightarrow> Inr (Some (state_from_record r))
      | None \<Rightarrow>
          (case get_by u_id student (sd_users d) of
             None \<Rightarrow> Inr None
           | Some user \<Rightarrow>
               (case effective_engine_config (current_sitting d student) user of
                  Inl e \<Rightarrow> Inl e
                | Inr config \<Rightarrow>
                    (case initial_scaffold_intensity config of
                       Inl e \<Rightarrow> Inl e
                     | Inr i \<Rightarrow> Inr (Some (fresh_concept_state student concept i))))))"

text \<open>
  The two inserts draw their keys from \<^verbatim>\<open>gen_random_uuid()\<close>; \<open>stamp\<close> holds them and the transaction's \<^verbatim>\<open>now()\<close>.
\<close>

record save_stamp =
  st_state_id :: uuid
  st_log_id :: uuid
  st_now :: datetime

definition with_state_values :: "scaffold_concept_state \<Rightarrow> datetime \<Rightarrow> scaffold_state_row \<Rightarrow> scaffold_state_row" where
  "with_state_values st now r = r\<lparr>ss_current_intensity := cs_current_intensity st,
     ss_consecutive_correct := cs_consecutive_correct st,
     ss_response_time_improvement_streak := cs_response_time_improvement_streak st,
     ss_reduced_hint_streak := cs_reduced_hint_streak st,
     ss_last_response_time_ms := cs_last_response_time_ms st,
     ss_last_hint_count := cs_last_hint_count st, ss_updated_at := now\<rparr>"

definition log_row :: "save_stamp \<Rightarrow> scaffold_problem_log_entry \<Rightarrow> scaffold_log_row" where
  "log_row stamp l = \<lparr>sl_id = st_log_id stamp, sl_student_id = le_student_id l, sl_concept_id = le_concept_id l,
     sl_problem_id = le_problem_id l, sl_scaffold_intensity = le_scaffold_intensity l, sl_outcome = le_outcome l,
     sl_response_time_ms = le_response_time_ms l, sl_expected_response_time_ms = le_expected_response_time_ms l,
     sl_hint_count = le_hint_count l, sl_next_scaffold_intensity = le_next_scaffold_intensity l,
     sl_level_changed = le_level_changed l, sl_change_reason = le_change_reason l, sl_created_at = st_now stamp\<rparr>"

definition state_row :: "save_stamp \<Rightarrow> scaffold_concept_state \<Rightarrow> scaffold_state_row" where
  "state_row stamp st = with_state_values st (st_now stamp)
     \<lparr>ss_id = st_state_id stamp, ss_student_id = cs_student_id st, ss_concept_id = cs_concept_id st,
      ss_current_intensity = SI_FULL_SUPPORT, ss_consecutive_correct = 0, ss_response_time_improvement_streak = 0,
      ss_reduced_hint_streak = 0, ss_last_response_time_ms = None, ss_last_hint_count = None,
      ss_updated_at = st_now stamp\<rparr>"

definition save_decision ::
  "save_stamp \<Rightarrow> scaffold_db \<Rightarrow> scaffold_decision \<Rightarrow> scaffold_problem_log_entry \<Rightarrow> learning_fault + scaffold_db" where
  "save_decision stamp d dec l =
     (let st = sdn_state dec;
          states = upsert scaffold_key ss_id (cs_student_id st, cs_concept_id st)
            (with_state_values st (st_now stamp)) (state_row stamp st) (sd_states d)
      in scaffold_commit (d\<lparr>sd_states := states, sd_logs := sd_logs d @ [log_row stamp l]\<rparr>))"

definition repo_logs :: "scaffold_db \<Rightarrow> uuid \<Rightarrow> uuid option \<Rightarrow> nat \<Rightarrow> scaffold_problem_log_entry list" where
  "repo_logs d student concept limit = map log_from_record (take limit
     (sort_key (\<lambda>r. - sl_created_at r)
       (filter (\<lambda>r. sl_student_id r = student \<and> (case concept of None \<Rightarrow> True | Some c \<Rightarrow> sl_concept_id r = c))
         (sd_logs d))))"

subsection \<open>The service, over any repository\<close>

definition current_state ::
  "('s \<Rightarrow> uuid \<Rightarrow> uuid \<Rightarrow> learning_fault + scaffold_concept_state option) \<Rightarrow> 's \<Rightarrow> uuid \<Rightarrow> uuid \<Rightarrow>
   learning_fault + scaffold_concept_state" where
  "current_state state_of s student concept =
     (case state_of s student concept of
        Inl e \<Rightarrow> Inl e
      | Inr None \<Rightarrow> Inr (initial_state student concept)
      | Inr (Some st) \<Rightarrow> Inr st)"

definition service_record_attempt ::
  "('s \<Rightarrow> uuid \<Rightarrow> uuid \<Rightarrow> learning_fault + scaffold_concept_state option) \<Rightarrow>
   ('s \<Rightarrow> scaffold_decision \<Rightarrow> scaffold_problem_log_entry \<Rightarrow> learning_fault + 's) \<Rightarrow>
   's \<Rightarrow> scaffold_problem_attempt \<Rightarrow> learning_fault + scaffold_decision \<times> 's" where
  "service_record_attempt state_of save s a =
     (case current_state state_of s (pa_student_id a) (pa_concept_id a) of
        Inl e \<Rightarrow> Inl e
      | Inr st \<Rightarrow>
          (let decision = engine_record_attempt st a;
               l = \<lparr>le_student_id = pa_student_id a, le_concept_id = pa_concept_id a, le_problem_id = pa_problem_id a,
                    le_scaffold_intensity = sdn_previous_intensity decision, le_outcome = sdn_outcome decision,
                    le_response_time_ms = pa_response_time_ms a,
                    le_expected_response_time_ms = pa_expected_response_time_ms a,
                    le_hint_count = pa_hint_count a, le_next_scaffold_intensity = sdn_next_intensity decision,
                    le_level_changed = sdn_level_changed decision, le_change_reason = sdn_change_reason decision\<rparr>
           in case save s decision l of Inl e \<Rightarrow> Inl e | Inr s' \<Rightarrow> Inr (decision, s')))"

definition history :: "scaffold_db \<Rightarrow> uuid \<Rightarrow> uuid option \<Rightarrow> nat \<Rightarrow> scaffold_problem_log_entry list" where
  "history d student concept limit = repo_logs d student concept limit"

text \<open>
  A sequence of requests: each attempt is one call of the service in a transaction of its own, so a call that
  raises leaves the store as it was and the next one goes on.  The result lists the attempts that were recorded.
\<close>

fun scaffold_run ::
  "('s \<Rightarrow> uuid \<Rightarrow> uuid \<Rightarrow> learning_fault + scaffold_concept_state option) \<Rightarrow>
   ('k \<Rightarrow> 's \<Rightarrow> scaffold_decision \<Rightarrow> scaffold_problem_log_entry \<Rightarrow> learning_fault + 's) \<Rightarrow>
   ('k \<times> scaffold_problem_attempt) list \<Rightarrow> 's \<Rightarrow> scaffold_problem_attempt list \<times> 's" where
  "scaffold_run state_of save [] s = ([], s)"
| "scaffold_run state_of save ((k, a) # rest) s =
     (case service_record_attempt state_of (save k) s a of
        Inl _ \<Rightarrow> scaffold_run state_of save rest s
      | Inr (_, s') \<Rightarrow> (let (acc, s'') = scaffold_run state_of save rest s' in (a # acc, s'')))"

subsection \<open>The specification\<close>

text \<open>
  A rung (0 is full support, 3 is independence) and the number of unaided successes in a row on it.  The rung an
  attempt was made on may be chosen by the caller.
\<close>

datatype attempt_kind = Unaided | Aided | Unsuccessful

definition kind_of :: "scaffold_problem_attempt \<Rightarrow> attempt_kind" where
  "kind_of a = (if \<not> pa_response_correct a then Unsuccessful
     else if pa_counts_as_independent a \<and> pa_hint_count a \<le> 0 then Unaided else Aided)"

definition rung :: "scaffold_intensity \<Rightarrow> nat" where
  "rung i = index_of INTENSITY_ORDER i"

fun ladder_step :: "nat option \<times> attempt_kind \<Rightarrow> nat \<times> nat \<Rightarrow> nat \<times> nat" where
  "ladder_step (chosen, Unaided) (r, k) =
     (let r0 = (case chosen of None \<Rightarrow> r | Some c \<Rightarrow> c)
      in if k + 1 < 3 \<or> r0 = 3 then (r0, k + 1) else (r0 + 1, 0))"
| "ladder_step (chosen, Aided) (r, k) = ((case chosen of None \<Rightarrow> r | Some c \<Rightarrow> c), 0)"
| "ladder_step (chosen, Unsuccessful) (r, k) = ((case chosen of None \<Rightarrow> r | Some c \<Rightarrow> c) - 1, 0)"

definition ladder_event :: "scaffold_problem_attempt \<Rightarrow> nat option \<times> attempt_kind" where
  "ladder_event a = (map_option rung (pa_scaffold_intensity a), kind_of a)"

definition ladder_abs :: "scaffold_concept_state \<Rightarrow> nat \<times> nat" where
  "ladder_abs st = (rung (cs_current_intensity st), nat (cs_consecutive_correct st))"

definition attempts_for :: "uuid \<Rightarrow> uuid \<Rightarrow> scaffold_problem_attempt list \<Rightarrow> scaffold_problem_attempt list" where
  "attempts_for student concept xs = filter (\<lambda>a. pa_student_id a = student \<and> pa_concept_id a = concept) xs"

definition concept_state_ok :: "scaffold_concept_state \<Rightarrow> bool" where
  "concept_state_ok st = (0 \<le> cs_consecutive_correct st \<and> 0 \<le> cs_response_time_improvement_streak st \<and>
     0 \<le> cs_reduced_hint_streak st \<and> (case cs_last_hint_count st of None \<Rightarrow> True | Some n \<Rightarrow> 0 \<le> n))"

subsection \<open>The engine implements the specification\<close>

lemma rung_simps [simp]:
  "rung SI_FULL_SUPPORT = 0" "rung SI_PARTIAL_SUPPORT = 1" "rung SI_HINTS_ONLY = 2" "rung SI_INDEPENDENT = 3"
  by (simp_all add: rung_def INTENSITY_ORDER_def)

lemma rung_le: "rung i \<le> 3"
  by (cases i) simp_all

lemma rung_inject [simp]: "rung i = rung j \<longleftrightarrow> i = j"
  by (cases i; cases j) simp_all

lemma fade_rung:
  "rung (fst (fade_if_ready i n)) = (if n < 3 \<or> rung i = 3 then rung i else rung i + 1)"
  by (cases i) (simp_all add: fade_if_ready_def FADE_AFTER_CONSECUTIVE_CORRECT_def INTENSITY_ORDER_def Let_def)

lemma support_rung: "rung (fst (support_if_needed i)) = rung i - 1"
  by (cases i) (simp_all add: support_if_needed_def INTENSITY_ORDER_def Let_def)

lemma fade_same_iff: "fst (fade_if_ready i n) = i \<longleftrightarrow> n < 3 \<or> rung i = 3"
  by (metis fade_rung n_not_Suc_n Suc_eq_plus1 rung_inject)

lemma engine_keeps_key [simp]:
  "cs_student_id (sdn_state (engine_record_attempt st a)) = cs_student_id st"
  "cs_concept_id (sdn_state (engine_record_attempt st a)) = cs_concept_id st"
  "cs_last_hint_count (sdn_state (engine_record_attempt st a)) = Some (pa_hint_count a)"
  by (simp_all add: engine_record_attempt_def Let_def split: prod.split)

lemma engine_state_ok:
  assumes "concept_state_ok st" "0 \<le> pa_hint_count a"
  shows "concept_state_ok (sdn_state (engine_record_attempt st a))"
  using assms
  by (auto simp: concept_state_ok_def engine_record_attempt_def Let_def response_time_streak_def hint_streak_def
      split: prod.split option.split)

lemma mastery_signal_iff:
  assumes "concept_state_ok st"
  shows "mastery_signal_met st a \<longleftrightarrow> kind_of a = Unaided"
  using assms by (auto simp: mastery_signal_met_def kind_of_def concept_state_ok_def split: option.splits)

lemma supported_pass_iff:
  "(pa_response_correct a \<and> (\<not> pa_counts_as_independent a \<or> pa_hint_count a > 0)) \<longleftrightarrow> kind_of a = Aided"
  by (auto simp: kind_of_def)

definition intensity_used :: "scaffold_concept_state \<Rightarrow> scaffold_problem_attempt \<Rightarrow> scaffold_intensity" where
  "intensity_used st a = (case pa_scaffold_intensity a of None \<Rightarrow> cs_current_intensity st | Some i \<Rightarrow> i)"

lemma engine_cases:
  assumes "concept_state_ok st"
  shows "kind_of a = Aided \<Longrightarrow> ladder_abs (sdn_state (engine_record_attempt st a)) = (rung (intensity_used st a), 0)"
    and "kind_of a = Unaided \<Longrightarrow> ladder_abs (sdn_state (engine_record_attempt st a)) =
           (let n = cs_consecutive_correct st + 1; i = fst (fade_if_ready (intensity_used st a) n)
            in (rung i, if i = intensity_used st a then nat n else 0))"
    and "kind_of a = Unsuccessful \<Longrightarrow> ladder_abs (sdn_state (engine_record_attempt st a)) =
           (rung (fst (support_if_needed (intensity_used st a))), 0)"
  unfolding engine_record_attempt_def supported_pass_iff mastery_signal_iff[OF assms] intensity_used_def[symmetric]
  by (simp_all add: ladder_abs_def Let_def split: prod.split)

lemma engine_levels:
  assumes "concept_state_ok st"
  shows "sdn_previous_intensity (engine_record_attempt st a) = intensity_used st a"
    and "sdn_next_intensity (engine_record_attempt st a) =
           (case kind_of a of
              Aided \<Rightarrow> intensity_used st a
            | Unaided \<Rightarrow> fst (fade_if_ready (intensity_used st a) (cs_consecutive_correct st + 1))
            | Unsuccessful \<Rightarrow> fst (support_if_needed (intensity_used st a)))"
  unfolding engine_record_attempt_def supported_pass_iff mastery_signal_iff[OF assms] intensity_used_def[symmetric]
  by (auto simp: Let_def split: prod.split attempt_kind.split)

lemma engine_refines_ladder:
  assumes "concept_state_ok st"
  shows "ladder_abs (sdn_state (engine_record_attempt st a)) = ladder_step (ladder_event a) (ladder_abs st)"
proof -
  have n: "nat (cs_consecutive_correct st + 1) = nat (cs_consecutive_correct st) + 1"
    "cs_consecutive_correct st + 1 < 3 \<longleftrightarrow> nat (cs_consecutive_correct st) + 1 < 3"
    using assms by (auto simp: concept_state_ok_def)
  show ?thesis
    by (cases "kind_of a"; cases "pa_scaffold_intensity a")
      (simp_all add: engine_cases[OF assms] ladder_event_def ladder_abs_def[of st] intensity_used_def support_rung
        Let_def fade_rung fade_same_iff n)
qed

subsection \<open>The service over any repository that keeps its promises\<close>

text \<open>
  What \<^verbatim>\<open>ScaffoldRepository\<close> promises: a saved decision is what the next read of its key returns, nothing else
  changes, a negative hint count is refused, and the states it returns are well formed and have the key asked for.
\<close>

locale scaffold_repository =
  fixes state_of :: "'s \<Rightarrow> uuid \<Rightarrow> uuid \<Rightarrow> learning_fault + scaffold_concept_state option"
    and save :: "'k \<Rightarrow> 's \<Rightarrow> scaffold_decision \<Rightarrow> scaffold_problem_log_entry \<Rightarrow> learning_fault + 's"
    and good :: "'s \<Rightarrow> bool"
  assumes read_back: "\<lbrakk>good s; save k s dec l = Inr s'\<rbrakk> \<Longrightarrow>
      state_of s' (cs_student_id (sdn_state dec)) (cs_concept_id (sdn_state dec)) = Inr (Some (sdn_state dec))"
    and frame: "\<lbrakk>good s; save k s dec l = Inr s';
      (x, y) \<noteq> (cs_student_id (sdn_state dec), cs_concept_id (sdn_state dec))\<rbrakk> \<Longrightarrow> state_of s' x y = state_of s x y"
    and hints: "save k s dec l = Inr s' \<Longrightarrow> 0 \<le> le_hint_count l"
    and save_good: "\<lbrakk>good s; save k s dec l = Inr s'; concept_state_ok (sdn_state dec)\<rbrakk> \<Longrightarrow> good s'"
    and state_ok: "\<lbrakk>good s; state_of s x y = Inr (Some st)\<rbrakk> \<Longrightarrow>
      concept_state_ok st \<and> cs_student_id st = x \<and> cs_concept_id st = y"
begin

lemma current_state_ok:
  "\<lbrakk>good s; current_state state_of s x y = Inr st\<rbrakk> \<Longrightarrow> concept_state_ok st \<and> cs_student_id st = x \<and> cs_concept_id st = y"
  by (auto simp: current_state_def initial_state_def fresh_concept_state_def concept_state_ok_def state_ok
      dest!: state_ok split: sum.splits option.splits)

lemma service_step:
  assumes "good s" "service_record_attempt state_of (save k) s a = Inr (dec, s')"
  obtains st where "current_state state_of s (pa_student_id a) (pa_concept_id a) = Inr st"
    "dec = engine_record_attempt st a" "concept_state_ok st" "0 \<le> pa_hint_count a" "good s'"
    "current_state state_of s' (pa_student_id a) (pa_concept_id a) = Inr (sdn_state dec)"
    "\<And>x y. (x, y) \<noteq> (pa_student_id a, pa_concept_id a) \<Longrightarrow> current_state state_of s' x y = current_state state_of s x y"
proof -
  from assms(2) obtain st l where st: "current_state state_of s (pa_student_id a) (pa_concept_id a) = Inr st"
    and dec: "dec = engine_record_attempt st a" and sv: "save k s dec l = Inr s'" and l: "le_hint_count l = pa_hint_count a"
    by (auto simp: service_record_attempt_def Let_def split: sum.splits)
  have ok: "concept_state_ok st" "cs_student_id st = pa_student_id a" "cs_concept_id st = pa_concept_id a"
    using current_state_ok[OF assms(1) st] by auto
  have h: "0 \<le> pa_hint_count a" using hints[OF sv] l by simp
  have g: "good s'" using save_good[OF assms(1) sv] engine_state_ok[OF ok(1) h] dec by simp
  have r: "current_state state_of s' (pa_student_id a) (pa_concept_id a) = Inr (sdn_state dec)"
    using read_back[OF assms(1) sv] dec ok by (simp add: current_state_def)
  have f: "current_state state_of s' x y = current_state state_of s x y" if "(x, y) \<noteq> (pa_student_id a, pa_concept_id a)" for x y
    using frame[OF assms(1) sv, of x y] that dec ok by (simp add: current_state_def)
  show ?thesis by (rule that[OF st dec ok(1) h g r f])
qed

lemma run_refines:
  assumes "good s" "scaffold_run state_of save xs s = (acc, s')" "current_state state_of s x y = Inr st"
  shows "good s' \<and> (\<exists>st'. current_state state_of s' x y = Inr st' \<and>
           ladder_abs st' = fold (ladder_step \<circ> ladder_event) (attempts_for x y acc) (ladder_abs st))"
  using assms
proof (induction xs arbitrary: s acc st)
  case Nil
  then show ?case by (simp add: attempts_for_def)
next
  case (Cons ka rest)
  obtain k a where ka: "ka = (k, a)" by (cases ka)
  show ?case
  proof (cases "service_record_attempt state_of (save k) s a")
    case (Inl e)
    then show ?thesis using Cons.IH[OF Cons.prems(1) _ Cons.prems(3)] Cons.prems(2) ka by simp
  next
    case (Inr r)
    obtain dec s1 where r: "r = (dec, s1)" by (cases r)
    obtain acc1 where run: "scaffold_run state_of save rest s1 = (acc1, s')" "acc = a # acc1"
      using Cons.prems(2) Inr r ka by (auto split: prod.splits)
    obtain st0 where st0: "current_state state_of s (pa_student_id a) (pa_concept_id a) = Inr st0"
      "dec = engine_record_attempt st0 a" "concept_state_ok st0" "good s1"
      "current_state state_of s1 (pa_student_id a) (pa_concept_id a) = Inr (sdn_state dec)"
      "\<And>x y. (x, y) \<noteq> (pa_student_id a, pa_concept_id a) \<Longrightarrow> current_state state_of s1 x y = current_state state_of s x y"
      using service_step[OF Cons.prems(1) Inr[unfolded r]] by blast
    show ?thesis
    proof (cases "(x, y) = (pa_student_id a, pa_concept_id a)")
      case True
      then have "st0 = st" using st0(1) Cons.prems(3) by simp
      then show ?thesis
        using Cons.IH[OF st0(4) run(1), of "sdn_state dec"] st0(2,3,5) True run(2)
        by (simp add: attempts_for_def engine_refines_ladder)
    next
      case False
      then show ?thesis
        using Cons.IH[OF st0(4) run(1), of st] st0(6)[OF False] Cons.prems(3) run(2)
        by (auto simp: attempts_for_def)
    qed
  qed
qed

end

subsection \<open>The SQL repository keeps those promises\<close>

definition scaffold_store_ok :: "scaffold_db \<Rightarrow> bool" where
  "scaffold_store_ok d = (scaffold_db_ok d \<and>
     list_all (\<lambda>r. case ss_last_hint_count r of None \<Rightarrow> True | Some n \<Rightarrow> 0 \<le> n) (sd_states d))"

lemma with_state_values_simps [simp]:
  "ss_id (with_state_values st now r) = ss_id r"
  "scaffold_key (with_state_values st now r) = scaffold_key r"
  "ss_last_hint_count (with_state_values st now r) = cs_last_hint_count st"
  "scaffold_key (state_row stamp st) = (cs_student_id st, cs_concept_id st)"
  "ss_last_hint_count (state_row stamp st) = cs_last_hint_count st"
  "state_from_record (state_row stamp st) = st"
  by (simp_all add: with_state_values_def scaffold_key_def state_row_def state_from_record_def)

lemma with_state_values_reads:
  "scaffold_key r = (cs_student_id st, cs_concept_id st) \<Longrightarrow> state_from_record (with_state_values st now r) = st"
  by (simp add: state_from_record_def with_state_values_def scaffold_key_def)

lemma scaffold_rowD: "scaffold_row d x y = Some r \<Longrightarrow> r \<in> set (sd_states d) \<and> scaffold_key r = (x, y)"
  unfolding scaffold_row_def by (rule get_by_SomeD)

lemma save_decision_InrD:
  "save_decision stamp d dec l = Inr d' \<Longrightarrow> scaffold_db_ok d' \<and> sd_users d' = sd_users d \<and>
     sd_lesson_sessions d' = sd_lesson_sessions d \<and> sd_logs d' = sd_logs d @ [log_row stamp l] \<and>
     sd_states d' = upsert scaffold_key ss_id (cs_student_id (sdn_state dec), cs_concept_id (sdn_state dec))
       (with_state_values (sdn_state dec) (st_now stamp)) (state_row stamp (sdn_state dec)) (sd_states d)"
  by (auto simp: save_decision_def scaffold_commit_def Let_def split: if_splits)

lemma saved_row:
  assumes "save_decision stamp d dec l = Inr d'"
  shows "\<exists>r. scaffold_row d' (cs_student_id (sdn_state dec)) (cs_concept_id (sdn_state dec)) = Some r \<and>
           state_from_record r = sdn_state dec"
  using save_decision_InrD[OF assms]
  by (auto simp: scaffold_row_def get_by_upsert_same with_state_values_reads dest: get_by_SomeD split: option.split)

lemma other_row:
  assumes "scaffold_db_ok d" "save_decision stamp d dec l = Inr d'"
    and "(x, y) \<noteq> (cs_student_id (sdn_state dec), cs_concept_id (sdn_state dec))"
  shows "scaffold_row d' x y = scaffold_row d x y"
  using assms save_decision_InrD[OF assms(2)] by (simp add: scaffold_row_def scaffold_db_ok_def get_by_upsert_other)

lemma saved_hint_counts:
  assumes "save_decision stamp d dec l = Inr d'" "r \<in> set (sd_states d')"
  shows "r \<in> set (sd_states d) \<or> ss_last_hint_count r = cs_last_hint_count (sdn_state dec)"
  using save_decision_InrD[OF assms(1)] assms(2) by (auto dest!: upsert_rows)

lemma repo_state_frame:
  "\<lbrakk>scaffold_row d' x y = scaffold_row d x y; sd_users d' = sd_users d; sd_lesson_sessions d' = sd_lesson_sessions d\<rbrakk> \<Longrightarrow>
   repo_state d' x y = repo_state d x y"
  by (simp add: repo_state_def current_sitting_def cong: option.case_cong sum.case_cong)

lemma repo_state_ok:
  assumes "scaffold_store_ok d" "repo_state d x y = Inr (Some st)"
  shows "concept_state_ok st \<and> cs_student_id st = x \<and> cs_concept_id st = y"
proof (cases "scaffold_row d x y")
  case None
  then show ?thesis using assms(2)
    by (auto simp: repo_state_def fresh_concept_state_def concept_state_ok_def split: option.splits sum.splits)
next
  case (Some r)
  then have "r \<in> set (sd_states d)" "ss_student_id r = x" "ss_concept_id r = y"
    using scaffold_rowD[OF Some] by (simp_all add: scaffold_key_def)
  then show ?thesis using assms Some
    by (auto simp: repo_state_def state_from_record_def concept_state_ok_def scaffold_store_ok_def scaffold_db_ok_def
        scaffold_state_ok_def list_all_iff)
qed

lemma save_decision_hints: "save_decision stamp d dec l = Inr d' \<Longrightarrow> 0 \<le> le_hint_count l"
  by (drule save_decision_InrD) (auto simp: scaffold_db_ok_def scaffold_log_ok_def log_row_def)

lemma save_decision_store_ok:
  assumes "scaffold_store_ok d" "save_decision stamp d dec l = Inr d'" "concept_state_ok (sdn_state dec)"
  shows "scaffold_store_ok d'"
  using assms(1,3) save_decision_InrD[OF assms(2)] saved_hint_counts[OF assms(2)]
  unfolding scaffold_store_ok_def list_all_iff concept_state_ok_def by metis

interpretation sql: scaffold_repository repo_state save_decision scaffold_store_ok
proof
  fix d d' stamp dec l x y st
  assume ok: "scaffold_store_ok d" and sv: "save_decision stamp d dec l = Inr d'"
  have dok: "scaffold_db_ok d" using ok by (simp add: scaffold_store_ok_def)
  show "repo_state d' (cs_student_id (sdn_state dec)) (cs_concept_id (sdn_state dec)) = Inr (Some (sdn_state dec))"
    using saved_row[OF sv] by (auto simp: repo_state_def)
  show "repo_state d' x y = repo_state d x y"
    if "(x, y) \<noteq> (cs_student_id (sdn_state dec), cs_concept_id (sdn_state dec))"
    using save_decision_InrD[OF sv] other_row[OF dok sv that] by (intro repo_state_frame) auto
qed (use save_decision_hints save_decision_store_ok repo_state_ok in blast)+

subsection \<open>Properties\<close>

text \<open>A child whose profile starts at light support, and four requests, one of which the database refuses.\<close>

definition scaffold_sample :: scaffold_db where
  "scaffold_sample = \<lparr>sd_users = [(new_user 10 (Some 1) UR_STUDENT AM_PIN)
       \<lparr>u_engine_config := JObject [(''support'', JObject [(''initialScaffoldLevel'', JString ''light'')])]\<rparr>],
     sd_lesson_sessions = [], sd_states = [], sd_logs = []\<rparr>"

definition sample_attempt :: "bool \<Rightarrow> int \<Rightarrow> scaffold_problem_attempt" where
  "sample_attempt correct hints = \<lparr>pa_student_id = 10, pa_concept_id = 7, pa_problem_id = ''p'',
     pa_response_correct = correct, pa_scaffold_intensity = None, pa_response_time_ms = Some 900,
     pa_expected_response_time_ms = None, pa_hint_count = hints, pa_counts_as_independent = True\<rparr>"

definition sample_stamp :: "nat \<Rightarrow> save_stamp" where
  "sample_stamp n = \<lparr>st_state_id = n, st_log_id = n, st_now = int n\<rparr>"

definition sample_run :: "scaffold_problem_attempt list \<times> scaffold_db" where
  "sample_run = scaffold_run repo_state save_decision
     [(sample_stamp 1, sample_attempt False 0), (sample_stamp 2, sample_attempt True 0),
      (sample_stamp 2, sample_attempt True 0), (sample_stamp 3, sample_attempt True 0)] scaffold_sample"

text \<open>
  Claim C33.  Refinement.  From any well-formed store, after any sequence of attempts on any students and concepts (the ones
  the database refuses included), the stored scaffold of each student and concept is the one the ladder specification
  computes from the recorded attempts on that concept alone, in order: one rung towards independence after three unaided
  successes in a row, one rung of support back after a failure, nothing but the streak lost on a success with help.
\<close>

theorem scaffolds_refine_the_ladder:
  assumes "scaffold_store_ok d" "scaffold_run repo_state save_decision xs d = (acc, d')"
    and "current_state repo_state d x y = Inr st"
  shows "scaffold_store_ok d' \<and> (\<exists>st'. current_state repo_state d' x y = Inr st' \<and>
           ladder_abs st' = fold (ladder_step \<circ> ladder_event) (attempts_for x y acc) (ladder_abs st))"
  using assms by (rule sql.run_refines)

lemma sample_store: "scaffold_store_ok scaffold_sample" "current_state repo_state scaffold_sample 10 7 = Inr (fresh_concept_state 10 7 SI_HINTS_ONLY)"
  by code_simp+

theorem scaffolds_refine_the_ladder_witness:
  "\<exists>st'. current_state repo_state (snd sample_run) 10 7 = Inr st' \<and> ladder_abs st' = (1, 2) \<and> length (fst sample_run) = 3"
proof -
  have "scaffold_run repo_state save_decision
     [(sample_stamp 1, sample_attempt False 0), (sample_stamp 2, sample_attempt True 0),
      (sample_stamp 2, sample_attempt True 0), (sample_stamp 3, sample_attempt True 0)] scaffold_sample
    = (fst sample_run, snd sample_run)" by (simp add: sample_run_def)
  from scaffolds_refine_the_ladder[OF sample_store(1) this sample_store(2)]
  obtain st' where "current_state repo_state (snd sample_run) 10 7 = Inr st'"
    "ladder_abs st' = fold (ladder_step \<circ> ladder_event) (attempts_for 10 7 (fst sample_run)) (ladder_abs (fresh_concept_state 10 7 SI_HINTS_ONLY))"
    by blast
  moreover have "fold (ladder_step \<circ> ladder_event) (attempts_for 10 7 (fst sample_run)) (ladder_abs (fresh_concept_state 10 7 SI_HINTS_ONLY)) = (1, 2)"
    "length (fst sample_run) = 3" by code_simp+
  ultimately show ?thesis by auto
qed

text \<open>The streak counts unaided successes at the end of the history.\<close>

lemma ladder_streak:
  assumes "fold (ladder_step \<circ> ladder_event) as (r, 0) = (r', k)"
  shows "k \<le> length as \<and> list_all (\<lambda>a. kind_of a = Unaided) (take k (rev as))"
  using assms
proof (induction as arbitrary: r' k rule: rev_induct)
  case (snoc a as)
  obtain r1 k1 where mid: "fold (ladder_step \<circ> ladder_event) as (r, 0) = (r1, k1)"
    by (cases "fold (ladder_step \<circ> ladder_event) as (r, 0)")
  have step: "ladder_step (ladder_event a) (r1, k1) = (r', k)" using snoc.prems mid by (simp add: comp_def)
  show ?case
  proof (cases k)
    case (Suc j)
    then have "kind_of a = Unaided" "k1 = j"
      using step by (cases "kind_of a"; auto simp: ladder_event_def Let_def split: if_splits)+
    then show ?thesis using snoc.IH[OF mid] Suc by simp
  qed simp
qed simp

lemma last_two_of_streak:
  assumes "2 \<le> k" "k \<le> length xs \<and> list_all P (take k (rev xs))"
  shows "\<exists>pre b c. xs = pre @ [b, c] \<and> P b \<and> P c"
proof -
  obtain j where k: "k = Suc (Suc j)" using assms(1) by (metis add_2_eq_Suc le_Suc_ex)
  obtain c b pre where r: "rev xs = c # b # pre" using assms(2) k by (metis Suc_le_length_iff length_rev)
  then have "xs = rev pre @ [b, c]" by (metis append.assoc append_Cons append_Nil rev.simps(2) rev_swap)
  then show ?thesis using assms(2) k r by auto
qed

text \<open>
  Support is taken away only on evidence.  When a recorded attempt moves a child who had no stored state for the
  concept before to a rung of less support, it was an unaided success and so were the two recorded attempts on that concept just
  before it.
\<close>

theorem fading_needs_three_unaided:
  assumes "scaffold_store_ok d" "scaffold_row d x y = None" "scaffold_run repo_state save_decision xs d = (acc, d')"
    and "current_state repo_state d x y = Inr st"
    and "service_record_attempt repo_state (save_decision stamp) d' a = Inr (dec, d'')"
    and "pa_student_id a = x" "pa_concept_id a = y"
    and "rung (sdn_previous_intensity dec) < rung (sdn_next_intensity dec)"
  shows "kind_of a = Unaided \<and> (\<exists>pre b c. attempts_for x y acc = pre @ [b, c] \<and> kind_of b = Unaided \<and> kind_of c = Unaided)"
proof -
  obtain st' where st': "current_state repo_state d' x y = Inr st'" "scaffold_store_ok d'"
      "ladder_abs st' = fold (ladder_step \<circ> ladder_event) (attempts_for x y acc) (ladder_abs st)"
    using sql.run_refines[OF assms(1,3,4)] by blast
  have "cs_consecutive_correct st = 0" using assms(2,4)
    by (auto simp: current_state_def repo_state_def fresh_concept_state_def initial_state_def split: option.splits sum.splits)
  then have fold: "fold (ladder_step \<circ> ladder_event) (attempts_for x y acc) (rung (cs_current_intensity st), 0)
      = (rung (cs_current_intensity st'), nat (cs_consecutive_correct st'))"
    using st'(3) by (simp add: ladder_abs_def)
  have dec: "dec = engine_record_attempt st' a" and ok: "concept_state_ok st'"
    using sql.service_step[OF st'(2) assms(5)] st'(1) assms(6,7) by auto
  have "kind_of a = Unaided \<and> 3 \<le> cs_consecutive_correct st' + 1"
    using assms(8) unfolding dec engine_levels[OF ok]
    by (cases "kind_of a") (simp_all add: fade_rung support_rung split: if_splits)
  then have up: "kind_of a = Unaided" "2 \<le> nat (cs_consecutive_correct st')" by linarith+
  then show ?thesis using ladder_streak[OF fold] last_two_of_streak by blast
qed

theorem fading_needs_three_unaided_witness:
  "kind_of (sample_attempt True 0) = Unaided \<and> (\<exists>pre b c. attempts_for 10 7 (fst sample_run) = pre @ [b, c] \<and>
     kind_of b = Unaided \<and> kind_of c = Unaided)"
proof -
  let ?r = "service_record_attempt repo_state (save_decision (sample_stamp 4)) (snd sample_run) (sample_attempt True 0)"
  have row: "scaffold_row scaffold_sample 10 7 = None" by code_simp
  have run: "scaffold_run repo_state save_decision
     [(sample_stamp 1, sample_attempt False 0), (sample_stamp 2, sample_attempt True 0),
      (sample_stamp 2, sample_attempt True 0), (sample_stamp 3, sample_attempt True 0)] scaffold_sample
    = (fst sample_run, snd sample_run)" by (simp add: sample_run_def)
  have "(case ?r of Inl _ \<Rightarrow> False
     | Inr (dec, _) \<Rightarrow> rung (sdn_previous_intensity dec) < rung (sdn_next_intensity dec))" by code_simp
  then obtain dec d'' where "?r = Inr (dec, d'')" "rung (sdn_previous_intensity dec) < rung (sdn_next_intensity dec)"
    by (auto split: sum.splits)
  then show ?thesis
    by (intro fading_needs_three_unaided[OF sample_store(1) row run sample_store(2)]) (simp_all add: sample_attempt_def)
qed

end
