(* ===== verification/Reviews.thy ===== *)
theory Reviews
  imports LearningTables
begin

text \<open>
  Spaced reviews (\<^verbatim>\<open>scheduler/fsrs.py\<close>, \<^verbatim>\<open>scheduler/repositories.py\<close>, \<^verbatim>\<open>scheduler/service.py\<close> and
  \<^verbatim>\<open>intelligence/reviews.py\<close>): when a concept is due again, from how well it was recalled.  The forgetting curve is
  evaluated with the default exponents, the only ones the program uses, so its powers are inverses.  A date past
  \<^verbatim>\<open>datetime.max\<close> raises \<^const>\<open>OverflowError\<close>.
\<close>

subsection \<open>The forgetting curve\<close>

record concept_schedule =
  fs_student_id :: uuid
  fs_concept_id :: uuid
  fs_stability :: score
  fs_difficulty :: score
  fs_retrievability :: score
  fs_last_review :: datetime
  fs_review_count :: int
  fs_next_review_due :: datetime
  fs_lesson_id :: "uuid option"

definition FSRS_ALPHA :: score where "FSRS_ALPHA = 1"
definition REVIEW_THRESHOLD :: score where "REVIEW_THRESHOLD = 85 / 100"
definition INITIAL_SUCCESS_STABILITY_DAYS :: score where "INITIAL_SUCCESS_STABILITY_DAYS = 10"
definition INITIAL_FAILURE_STABILITY_DAYS :: score where "INITIAL_FAILURE_STABILITY_DAYS = 3"
definition INITIAL_DIFFICULTY :: score where "INITIAL_DIFFICULTY = 5"

definition retrievability :: "score \<Rightarrow> score \<Rightarrow> score" where
  "retrievability elapsed_days stability =
     (let s = max stability (1 / 10); e = max elapsed_days 0 in inverse (1 + FSRS_ALPHA * e / s))"

definition days_until_review_due :: "score \<Rightarrow> score" where
  "days_until_review_due stability =
     (let s = max stability (1 / 10); t = min (max REVIEW_THRESHOLD (1 / 100)) (99 / 100); a = max FSRS_ALPHA (1 / 100)
      in s / a * (inverse t - 1))"

text \<open>\<^verbatim>\<open>timedelta(days=x)\<close> rounds to a microsecond; \<^verbatim>\<open>datetime.max\<close> is the last microsecond of the year 9999.\<close>

definition td_of_days :: "score \<Rightarrow> timedelta" where
  "td_of_days x = round_half_even (x * of_int (td_days 1))"

definition DATETIME_MAX :: datetime where
  "DATETIME_MAX = 253402300800 * microseconds_per_second - 1"

definition next_review_due :: "datetime \<Rightarrow> score \<Rightarrow> learning_fault + datetime" where
  "next_review_due reviewed_at stability =
     (let due = reviewed_at + td_of_days (days_until_review_due stability)
      in if due \<le> DATETIME_MAX then Inr due else Inl OverflowError)"

definition make_schedule ::
  "uuid \<Rightarrow> uuid \<Rightarrow> score \<Rightarrow> score \<Rightarrow> int \<Rightarrow> datetime \<Rightarrow> learning_fault + concept_schedule" where
  "make_schedule student concept stability difficulty review_count reviewed_at =
     (let s = round_to 6 (max stability (1 / 10)); f = round_to 6 (min (max difficulty 1) 10) in
      case next_review_due reviewed_at s of
        Inl e \<Rightarrow> Inl e
      | Inr due \<Rightarrow> Inr \<lparr>fs_student_id = student, fs_concept_id = concept, fs_stability = s, fs_difficulty = f,
          fs_retrievability = 1, fs_last_review = reviewed_at, fs_review_count = review_count,
          fs_next_review_due = due, fs_lesson_id = None\<rparr>)"

definition initial_schedule :: "uuid \<Rightarrow> uuid \<Rightarrow> bool \<Rightarrow> datetime \<Rightarrow> learning_fault + concept_schedule" where
  "initial_schedule student concept recall_successful reviewed_at =
     make_schedule student concept
       (if recall_successful then INITIAL_SUCCESS_STABILITY_DAYS else INITIAL_FAILURE_STABILITY_DAYS)
       (if recall_successful then INITIAL_DIFFICULTY - 1 / 2 else INITIAL_DIFFICULTY + 1)
       1 reviewed_at"

definition stability_after :: "score \<Rightarrow> score \<Rightarrow> bool \<Rightarrow> score" where
  "stability_after stability difficulty recall_successful =
     (if recall_successful then stability * (135 / 100 + max 0 (10 - difficulty) * (5 / 100)) + 1
      else max (1 / 2) (stability * (55 / 100)))"

definition update_schedule :: "concept_schedule \<Rightarrow> bool \<Rightarrow> datetime \<Rightarrow> learning_fault + concept_schedule" where
  "update_schedule current recall_successful reviewed_at =
     make_schedule (fs_student_id current) (fs_concept_id current)
       (stability_after (fs_stability current) (fs_difficulty current) recall_successful)
       (if recall_successful then fs_difficulty current - 25 / 100 else fs_difficulty current + 75 / 100)
       (fs_review_count current + 1) reviewed_at"

definition elapsed_days :: "datetime \<Rightarrow> datetime \<Rightarrow> score" where
  "elapsed_days now before = of_int (now - before) / of_int (td_days 1)"

definition refresh_due_date :: "concept_schedule \<Rightarrow> datetime \<Rightarrow> learning_fault + concept_schedule" where
  "refresh_due_date current now =
     (case next_review_due (fs_last_review current) (fs_stability current) of
        Inl e \<Rightarrow> Inl e
      | Inr due \<Rightarrow> Inr \<lparr>fs_student_id = fs_student_id current, fs_concept_id = fs_concept_id current,
          fs_stability = fs_stability current, fs_difficulty = fs_difficulty current,
          fs_retrievability = retrievability (elapsed_days now (fs_last_review current)) (fs_stability current),
          fs_last_review = fs_last_review current, fs_review_count = fs_review_count current,
          fs_next_review_due = due, fs_lesson_id = None\<rparr>)"

subsection \<open>Tables\<close>

record scheduling_row =
  sr_id :: uuid
  sr_student_id :: uuid
  sr_concept_id :: uuid
  sr_stability :: score
  sr_difficulty :: score
  sr_last_review :: datetime
  sr_review_count :: int
  sr_next_review_due :: datetime

record review_evidence_row =
  ev_id :: uuid
  ev_student_id :: uuid
  ev_concept_id :: uuid
  ev_session_id :: uuid
  ev_outcome :: string
  ev_schedule_snapshot :: json

record reviews_db =
  rv_users :: "user_row list"
  rv_sessions :: "lesson_session_row list"
  rv_attempts :: "question_attempt_row list"
  rv_concepts :: "concept_row list"
  rv_schedules :: "scheduling_row list"
  rv_evidence :: "review_evidence_row list"

definition scheduling_key :: "scheduling_row \<Rightarrow> uuid \<times> uuid" where
  "scheduling_key r = (sr_student_id r, sr_concept_id r)"

definition scheduling_row_ok :: "scheduling_row \<Rightarrow> bool" where
  "scheduling_row_ok r = (0 < sr_stability r \<and> 1 \<le> sr_difficulty r \<and> sr_difficulty r \<le> 10 \<and> 0 \<le> sr_review_count r)"

definition evidence_key :: "review_evidence_row \<Rightarrow> uuid \<times> uuid \<times> uuid" where
  "evidence_key r = (ev_student_id r, ev_concept_id r, ev_session_id r)"

definition reviews_db_ok :: "reviews_db \<Rightarrow> bool" where
  "reviews_db_ok d = (distinct (map sr_id (rv_schedules d)) \<and> distinct (map scheduling_key (rv_schedules d)) \<and>
     list_all scheduling_row_ok (rv_schedules d) \<and>
     distinct (map ev_id (rv_evidence d)) \<and> distinct (map evidence_key (rv_evidence d)))"

definition reviews_flush :: "reviews_db \<Rightarrow> learning_fault + reviews_db" where
  "reviews_flush d = (if reviews_db_ok d then Inr d else Inl DatabaseRefused)"

definition find_schedule :: "reviews_db \<Rightarrow> uuid \<Rightarrow> uuid \<Rightarrow> scheduling_row option" where
  "find_schedule d student concept = get_by scheduling_key (student, concept) (rv_schedules d)"

subsection \<open>The repository and the service\<close>

definition schedule_from_record :: "scheduling_row \<Rightarrow> datetime \<Rightarrow> uuid option \<Rightarrow> learning_fault + concept_schedule" where
  "schedule_from_record r now lesson =
     refresh_due_date \<lparr>fs_student_id = sr_student_id r, fs_concept_id = sr_concept_id r,
       fs_stability = sr_stability r, fs_difficulty = sr_difficulty r,
       fs_retrievability = retrievability (elapsed_days now (sr_last_review r)) (sr_stability r),
       fs_last_review = sr_last_review r, fs_review_count = sr_review_count r,
       fs_next_review_due = sr_next_review_due r, fs_lesson_id = lesson\<rparr> now"

fun collect :: "('e + 'a) list \<Rightarrow> 'e + 'a list" where
  "collect [] = Inr []"
| "collect (Inl e # xs) = Inl e"
| "collect (Inr x # xs) = (case collect xs of Inl e \<Rightarrow> Inl e | Inr ys \<Rightarrow> Inr (x # ys))"

definition repo_schedule :: "reviews_db \<Rightarrow> uuid \<Rightarrow> uuid \<Rightarrow> datetime \<Rightarrow> learning_fault + concept_schedule option" where
  "repo_schedule d student concept now =
     (case find_schedule d student concept of
        None \<Rightarrow> Inr None
      | Some r \<Rightarrow> (case schedule_from_record r now None of Inl e \<Rightarrow> Inl e | Inr s \<Rightarrow> Inr (Some s)))"

definition concept_lesson :: "reviews_db \<Rightarrow> uuid \<Rightarrow> uuid option" where
  "concept_lesson d concept = (case get_by cn_id concept (rv_concepts d) of None \<Rightarrow> None | Some c \<Rightarrow> cn_lesson_id c)"

definition due_rows :: "reviews_db \<Rightarrow> uuid \<Rightarrow> datetime \<Rightarrow> scheduling_row list" where
  "due_rows d student now =
     sort_key sr_next_review_due (filter (\<lambda>r. sr_student_id r = student \<and> sr_next_review_due r \<le> now) (rv_schedules d))"

definition due_reviews :: "reviews_db \<Rightarrow> uuid \<Rightarrow> datetime \<Rightarrow> learning_fault + concept_schedule list" where
  "due_reviews d student now =
     collect (map (\<lambda>r. schedule_from_record r now (concept_lesson d (sr_concept_id r))) (due_rows d student now))"

definition all_schedules :: "reviews_db \<Rightarrow> datetime \<Rightarrow> learning_fault + concept_schedule list" where
  "all_schedules d now =
     collect (map (\<lambda>r. schedule_from_record r now None)
       (sort_key sr_student_id (sort_key sr_concept_id (rv_schedules d))))"

definition with_schedule :: "concept_schedule \<Rightarrow> scheduling_row \<Rightarrow> scheduling_row" where
  "with_schedule s r = r\<lparr>sr_stability := fs_stability s, sr_difficulty := fs_difficulty s,
     sr_last_review := fs_last_review s, sr_review_count := fs_review_count s, sr_next_review_due := fs_next_review_due s\<rparr>"

definition schedule_row :: "uuid \<Rightarrow> concept_schedule \<Rightarrow> scheduling_row" where
  "schedule_row i s = \<lparr>sr_id = i, sr_student_id = fs_student_id s, sr_concept_id = fs_concept_id s,
     sr_stability = fs_stability s, sr_difficulty = fs_difficulty s, sr_last_review = fs_last_review s,
     sr_review_count = fs_review_count s, sr_next_review_due = fs_next_review_due s\<rparr>"

text \<open>The row of the schedule's key is updated, or added with the drawn key \<open>i\<close>.\<close>

definition put_schedule :: "uuid \<Rightarrow> concept_schedule \<Rightarrow> reviews_db \<Rightarrow> reviews_db" where
  "put_schedule i s d =
     d\<lparr>rv_schedules := upsert scheduling_key sr_id (fs_student_id s, fs_concept_id s) (with_schedule s) (schedule_row i s)
        (rv_schedules d)\<rparr>"

definition save_schedule :: "uuid \<Rightarrow> reviews_db \<Rightarrow> concept_schedule \<Rightarrow> learning_fault + reviews_db" where
  "save_schedule i d s = reviews_flush (put_schedule i s d)"

definition record_review ::
  "uuid \<Rightarrow> reviews_db \<Rightarrow> uuid \<Rightarrow> uuid \<Rightarrow> bool \<Rightarrow> datetime \<Rightarrow> learning_fault + concept_schedule \<times> reviews_db" where
  "record_review i d student concept recall_successful now =
     (case repo_schedule d student concept now of
        Inl e \<Rightarrow> Inl e
      | Inr current \<Rightarrow>
          (case (case current of
                   None \<Rightarrow> initial_schedule student concept recall_successful now
                 | Some c \<Rightarrow> update_schedule c recall_successful now) of
             Inl e \<Rightarrow> Inl e
           | Inr s \<Rightarrow> (case save_schedule i d s of Inl e \<Rightarrow> Inl e | Inr d' \<Rightarrow> Inr (s, d'))))"

text \<open>Each save is a transaction of its own; every row already exists, so no key is drawn.\<close>

fun save_each :: "concept_schedule list \<Rightarrow> reviews_db \<Rightarrow> learning_fault option \<times> reviews_db" where
  "save_each [] d = (None, d)"
| "save_each (s # rest) d = (case save_schedule 0 d s of Inl e \<Rightarrow> (Some e, d) | Inr d' \<Rightarrow> save_each rest d')"

definition refresh_all_due_dates :: "reviews_db \<Rightarrow> datetime \<Rightarrow> learning_fault option \<times> reviews_db" where
  "refresh_all_due_dates d now =
     (case all_schedules d now of Inl e \<Rightarrow> (Some e, d) | Inr schedules \<Rightarrow> save_each schedules d)"

subsection \<open>Evidence from a sitting\<close>

text \<open>
  What a transaction takes from outside: how floats, lists and dicts print, how a datetime prints, the clock, and the
  keys \<^verbatim>\<open>gen_random_uuid()\<close> and \<^verbatim>\<open>uuid4()\<close> give the rows added for a concept.
\<close>

record review_env =
  re_repr :: "json \<Rightarrow> string"
  re_isoformat :: "datetime \<Rightarrow> string"
  re_now :: datetime
  re_schedule_id :: "uuid \<Rightarrow> uuid"
  re_evidence_id :: "uuid \<Rightarrow> uuid"

text \<open>
  \<^verbatim>\<open>question.get("prompt") or question.get("question") or ""\<close> with the labels of the options that are dicts.  Options
  that are no list are not iterable, apart from text and dicts, whose items are no dicts.
\<close>

definition option_label :: "(json \<Rightarrow> string) \<Rightarrow> json \<Rightarrow> string list" where
  "option_label repr v =
     (case v of JObject kvs \<Rightarrow> [json_str repr (case map_of kvs ''label'' of None \<Rightarrow> JString [] | Some l \<Rightarrow> l)] | _ \<Rightarrow> [])"

definition option_labels :: "(json \<Rightarrow> string) \<Rightarrow> json \<Rightarrow> learning_fault + string list" where
  "option_labels repr v =
     (if \<not> truthy v then Inr [] else
      case v of
        JList xs \<Rightarrow> Inr (concat (map (option_label repr) xs))
      | JString _ \<Rightarrow> Inr []
      | JObject _ \<Rightarrow> Inr []
      | _ \<Rightarrow> Inl TypeError)"

definition minimum_reading_time :: "(json \<Rightarrow> string) \<Rightarrow> json \<Rightarrow> learning_fault + int" where
  "minimum_reading_time repr question =
     (case question of
        JObject q \<Rightarrow>
          (let prompt = dict_get q ''prompt''; alt = dict_get q ''question'';
               text = json_str repr (if truthy prompt then prompt else if truthy alt then alt else JString [])
           in case option_labels repr (dict_get q ''options'') of
                Inl e \<Rightarrow> Inl e
              | Inr labels \<Rightarrow>
                  Inr (max 800 (min 15000 (int (length (py_split (text @ '' '' @ py_join '' '' labels))) * 100))))
      | _ \<Rightarrow> Inl AttributeError)"

definition session_attempts :: "reviews_db \<Rightarrow> uuid \<Rightarrow> uuid \<Rightarrow> question_attempt_row list" where
  "session_attempts d student sitting =
     sort_key qa_submitted_at (sort_key qa_id
       (filter (\<lambda>a. qa_student_id a = student \<and> qa_session_id a = sitting \<and> qa_correct a \<noteq> None) (rv_attempts d)))"

text \<open>The concept an answered question is about; \<open>None\<close> when its snapshot names none.\<close>

definition attempt_concept :: "(json \<Rightarrow> string) \<Rightarrow> question_attempt_row \<Rightarrow> learning_fault + uuid option" where
  "attempt_concept repr a =
     (case json_get (qa_question_snapshot a) ''conceptId'' of
        Inl e \<Rightarrow> Inl e
      | Inr key \<Rightarrow> if truthy key then (case parse_uuid (json_str repr key) of Inl e \<Rightarrow> Inl e | Inr c \<Rightarrow> Inr (Some c)) else Inr None)"

definition concept_groups ::
  "(json \<Rightarrow> string) \<Rightarrow> question_attempt_row list \<Rightarrow> learning_fault + (uuid \<times> question_attempt_row list) list" where
  "concept_groups repr attempts =
     (case collect (map (attempt_concept repr) attempts) of
        Inl e \<Rightarrow> Inl e
      | Inr keys \<Rightarrow>
          (let keyed = concat (map (\<lambda>(k, a). case k of None \<Rightarrow> [] | Some c \<Rightarrow> [(c, a)]) (zip keys attempts))
           in Inr (map (\<lambda>c. (c, map snd (filter (\<lambda>(k, _). k = c) keyed))) (first_seen (map fst keyed)))))"

text \<open>The attempt kept for each question: a later one replaces it when its number is better.\<close>

fun keep_per_question ::
  "(int \<Rightarrow> int \<Rightarrow> bool) \<Rightarrow> (string \<times> question_attempt_row) list \<Rightarrow> question_attempt_row list \<Rightarrow>
   (string \<times> question_attempt_row) list" where
  "keep_per_question better kept [] = kept"
| "keep_per_question better kept (a # rest) =
     keep_per_question better
       (case map_of kept (qa_question_id a) of
          None \<Rightarrow> kept @ [(qa_question_id a, a)]
        | Some p \<Rightarrow> if better (qa_attempt_number a) (qa_attempt_number p)
                    then map (\<lambda>(q, b). (q, if q = qa_question_id a then a else b)) kept else kept) rest"

definition first_attempts :: "question_attempt_row list \<Rightarrow> question_attempt_row list" where
  "first_attempts rows = map snd (keep_per_question (<) [] rows)"

definition last_attempts :: "question_attempt_row list \<Rightarrow> question_attempt_row list" where
  "last_attempts rows = map snd (keep_per_question (>) [] rows)"

text \<open>\<^verbatim>\<open>all(...)\<close> over the first attempts, which stops at the first that fails.\<close>

fun all_read_and_right :: "(json \<Rightarrow> string) \<Rightarrow> question_attempt_row list \<Rightarrow> learning_fault + bool" where
  "all_read_and_right repr [] = Inr True"
| "all_read_and_right repr (a # rest) =
     (case qa_response_time_ms a of
        Some t \<Rightarrow>
          if qa_correct a = Some True \<and> qa_hint_count a = 0 then
            (case minimum_reading_time repr (qa_question_snapshot a) of
               Inl e \<Rightarrow> Inl e
             | Inr least \<Rightarrow> if least \<le> t then all_read_and_right repr rest else Inr False)
          else Inr False
      | None \<Rightarrow> Inr False)"

definition recalled_unaided :: "(json \<Rightarrow> string) \<Rightarrow> question_attempt_row list \<Rightarrow> learning_fault + bool" where
  "recalled_unaided repr rows =
     (case all_read_and_right repr (first_attempts rows) of
        Inl e \<Rightarrow> Inl e
      | Inr b \<Rightarrow> Inr (b \<and> \<not> list_ex (\<lambda>a. qa_hint_count a > 0) rows))"

definition review_outcome :: "bool \<Rightarrow> question_attempt_row list \<Rightarrow> string" where
  "review_outcome unaided rows =
     (if unaided then ''first_time''
      else if list_ex (\<lambda>a. qa_hint_count a \<noteq> 0) rows then ''after_hint''
      else if list_all (\<lambda>a. qa_correct a = Some True) (last_attempts rows) then ''second_attempt''
      else ''not_recalled'')"

definition schedule_of_row :: "uuid \<Rightarrow> uuid \<Rightarrow> scheduling_row \<Rightarrow> concept_schedule" where
  "schedule_of_row student concept r = \<lparr>fs_student_id = student, fs_concept_id = concept, fs_stability = sr_stability r,
     fs_difficulty = sr_difficulty r, fs_retrievability = 1, fs_last_review = sr_last_review r,
     fs_review_count = sr_review_count r, fs_next_review_due = sr_next_review_due r, fs_lesson_id = None\<rparr>"

definition stale :: "scheduling_row option \<Rightarrow> datetime \<Rightarrow> bool" where
  "stale current now = (case current of None \<Rightarrow> False | Some r \<Rightarrow> sr_last_review r \<ge> now)"

definition reviewed_schedule ::
  "uuid \<Rightarrow> uuid \<Rightarrow> scheduling_row option \<Rightarrow> datetime \<Rightarrow> datetime \<Rightarrow> bool \<Rightarrow> learning_fault + concept_schedule" where
  "reviewed_schedule student concept current first_submitted now unaided =
     (case current of
        Some r \<Rightarrow>
          if sr_last_review r \<ge> now then Inr (schedule_of_row student concept r)
          else if sr_last_review r < first_submitted then update_schedule (schedule_of_row student concept r) unaided now
          else initial_schedule student concept unaided now
      | None \<Rightarrow> initial_schedule student concept unaided now)"

definition schedule_snapshot ::
  "review_env \<Rightarrow> question_attempt_row \<Rightarrow> concept_schedule \<Rightarrow> bool \<Rightarrow> json" where
  "schedule_snapshot env a s applied = JObject
     [(''studentId'', JString (uuid_str (fs_student_id s))), (''conceptId'', JString (uuid_str (fs_concept_id s))),
      (''lessonId'', JString (uuid_str (qa_lesson_id a))), (''retrievability'', JFloat 1),
      (''stability'', JFloat (fs_stability s)), (''difficulty'', JFloat (fs_difficulty s)),
      (''lastReview'', JString (re_isoformat env (fs_last_review s))), (''reviewCount'', JInt (fs_review_count s)),
      (''nextReviewDue'', JString (re_isoformat env (fs_next_review_due s))), (''applied'', JBool applied)]"

definition evidence_for :: "reviews_db \<Rightarrow> uuid \<Rightarrow> uuid \<Rightarrow> uuid \<Rightarrow> review_evidence_row option" where
  "evidence_for d student concept sitting = get_by evidence_key (student, concept, sitting) (rv_evidence d)"

text \<open>The body of the loop, for one concept and the attempts on it.\<close>

definition review_concept ::
  "review_env \<Rightarrow> uuid \<Rightarrow> uuid \<Rightarrow> uuid \<times> question_attempt_row list \<Rightarrow> reviews_db \<Rightarrow> learning_fault + reviews_db" where
  "review_concept env student sitting grp d =
     (case grp of (concept, rows) \<Rightarrow>
      case get_by cn_id concept (rv_concepts d) of
        None \<Rightarrow> Inr d
      | Some c \<Rightarrow>
        (case get_by u_id student (rv_users d) of
           None \<Rightarrow> Inl AttributeError
         | Some u \<Rightarrow>
           if cn_school_id c \<noteq> u_school_id u then Inr d
           else if evidence_for d student concept sitting \<noteq> None then Inr d
           else case recalled_unaided (re_repr env) rows of
             Inl e \<Rightarrow> Inl e
           | Inr unaided \<Rightarrow>
             (case get_by ls_id sitting (rv_sessions d) of
                None \<Rightarrow> Inl AttributeError
              | Some s \<Rightarrow>
                (let now = (case ls_ended_at s of None \<Rightarrow> re_now env | Some t \<Rightarrow> t);
                     current = find_schedule d student concept
                 in case reviewed_schedule student concept current (qa_submitted_at (hd rows)) now unaided of
                      Inl e \<Rightarrow> Inl e
                    | Inr schedule \<Rightarrow>
                        (let d1 = put_schedule (re_schedule_id env concept) schedule d
                         in Inr (d1\<lparr>rv_evidence := rv_evidence d1 @
                              [\<lparr>ev_id = re_evidence_id env concept, ev_student_id = student, ev_concept_id = concept,
                                ev_session_id = sitting, ev_outcome = review_outcome unaided rows,
                                ev_schedule_snapshot = schedule_snapshot env (hd rows) schedule (\<not> stale current now)\<rparr>]\<rparr>))))))"

fun review_groups ::
  "review_env \<Rightarrow> uuid \<Rightarrow> uuid \<Rightarrow> (uuid \<times> question_attempt_row list) list \<Rightarrow> reviews_db \<Rightarrow> learning_fault + reviews_db" where
  "review_groups env student sitting [] d = Inr d"
| "review_groups env student sitting (g # gs) d =
     (case review_concept env student sitting g d of Inl e \<Rightarrow> Inl e | Inr d' \<Rightarrow> review_groups env student sitting gs d')"

definition record_session_reviews :: "review_env \<Rightarrow> reviews_db \<Rightarrow> uuid \<Rightarrow> uuid \<Rightarrow> learning_fault + reviews_db" where
  "record_session_reviews env d student sitting =
     (case concept_groups (re_repr env) (session_attempts d student sitting) of
        Inl e \<Rightarrow> Inl e
      | Inr groups \<Rightarrow>
          (case review_groups env student sitting groups d of Inl e \<Rightarrow> Inl e | Inr d' \<Rightarrow> reviews_flush d'))"

subsection \<open>Sample data\<close>

definition reviews_sample :: reviews_db where
  "reviews_sample = \<lparr>rv_users = [sample_student],
     rv_sessions = [\<lparr>ls_id = 3, ls_student_id = 10, ls_lesson_id = Some 4, ls_session_type = ''lesson'', ls_started_at = 100,
       ls_ended_at = Some 9000000, ls_completion_status = LC_COMPLETED, ls_exit_position = None, ls_break_count = 0,
       ls_proactive_adjustments_count = 0, ls_delivery_depth = ''standard'', ls_delivery_state = JObject [],
       ls_rerouted_from_session_id = None\<rparr>],
     rv_attempts = [\<lparr>qa_id = 1, qa_student_id = 10, qa_lesson_id = 4, qa_session_id = 3, qa_question_id = ''q1'',
       qa_segment_id = None, qa_source = ''checkpoint'', qa_client_attempt_id = None, qa_attempt_number = 1,
       qa_question_snapshot = JObject [(''conceptId'', JString ''00000000-0000-0000-0000-000000000007''), (''prompt'', JString ''2+2'')],
       qa_answer = JString ''4'', qa_offline_marked = False, qa_marking_key_version = None, qa_server_verified_at = None,
       qa_correct = Some True, qa_response_time_ms = Some 4000, qa_hint_count = 0, qa_submitted_at = 8000000\<rparr>],
     rv_concepts = [\<lparr>cn_id = 7, cn_school_id = Some 1, cn_lesson_id = Some 4, cn_name = ''adding'', cn_subject = None,
       cn_curriculum_position = 0, cn_prerequisite_ids = [], cn_source = ''manual''\<rparr>],
     rv_schedules = [], rv_evidence = []\<rparr>"

definition sample_env :: "datetime \<Rightarrow> review_env" where
  "sample_env now = \<lparr>re_repr = (\<lambda>_. []), re_isoformat = (\<lambda>_. []), re_now = now, re_schedule_id = (\<lambda>c. c), re_evidence_id = (\<lambda>c. c)\<rparr>"

definition sample_schedule :: concept_schedule where
  "sample_schedule = \<lparr>fs_student_id = 10, fs_concept_id = 7, fs_stability = 10, fs_difficulty = 5, fs_retrievability = 1,
     fs_last_review = 0, fs_review_count = 1, fs_next_review_due = 1, fs_lesson_id = None\<rparr>"

subsection \<open>Bounds of the forgetting curve\<close>

definition schedule_ok :: "concept_schedule \<Rightarrow> bool" where
  "schedule_ok s = (1 / 10 \<le> fs_stability s \<and> 1 \<le> fs_difficulty s \<and> fs_difficulty s \<le> 10 \<and>
     fs_last_review s < fs_next_review_due s \<and> fs_next_review_due s \<le> DATETIME_MAX)"

lemma days_until_review_due_eq: "1 / 10 \<le> s \<Longrightarrow> days_until_review_due s = s * (3 / 17)"
  by (simp add: days_until_review_due_def REVIEW_THRESHOLD_def FSRS_ALPHA_def Let_def max_def)

lemma td_of_days_mono: "x \<le> y \<Longrightarrow> td_of_days x \<le> td_of_days y"
  by (simp add: td_of_days_def td_defs round_half_even_mono)

lemma td_of_days_positive: "1 / 10 \<le> s \<Longrightarrow> 0 < td_of_days (days_until_review_due s)"
proof -
  assume "1 / 10 \<le> s"
  then have "td_of_days (1 / 100) \<le> td_of_days (days_until_review_due s)"
    by (intro td_of_days_mono) (simp add: days_until_review_due_eq)
  moreover have "td_of_days (1 / 100) = 864000000" by code_simp
  ultimately show ?thesis by simp
qed

lemma round_6_ge_tenth: "1 / 10 \<le> x \<Longrightarrow> 1 / 10 \<le> round_to 6 x"
  using round_to_mono[of "1 / 10" x 6] round_to_fixed[of "1 / 10" 6 100000] by simp

lemma round_6_difficulty: "\<lbrakk>1 \<le> x; x \<le> 10\<rbrakk> \<Longrightarrow> 1 \<le> round_to 6 x \<and> round_to 6 x \<le> 10"
  using round_to_mono[of 1 x 6] round_to_mono[of x 10 6] round_to_fixed[of 1 6 1000000] round_to_fixed[of 10 6 10000000]
  by simp

lemma make_schedule_InrD:
  assumes "make_schedule student concept stability difficulty n at_time = Inr s"
  shows "schedule_ok s" "fs_student_id s = student" "fs_concept_id s = concept" "fs_last_review s = at_time"
    "fs_review_count s = n" "fs_stability s = round_to 6 (max stability (1 / 10))"
    "fs_next_review_due s = at_time + td_of_days (days_until_review_due (fs_stability s))"
proof -
  let ?s = "round_to 6 (max stability (1 / 10))" and ?f = "round_to 6 (min (max difficulty 1) 10)"
  have st: "1 / 10 \<le> ?s" by (rule round_6_ge_tenth) simp
  have f: "1 \<le> ?f \<and> ?f \<le> 10" by (rule round_6_difficulty) simp_all
  show "schedule_ok s" "fs_student_id s = student" "fs_concept_id s = concept" "fs_last_review s = at_time"
    "fs_review_count s = n" "fs_stability s = ?s"
    "fs_next_review_due s = at_time + td_of_days (days_until_review_due (fs_stability s))"
    using assms st f td_of_days_positive[OF st]
    by (auto simp: make_schedule_def next_review_due_def schedule_ok_def Let_def split: if_splits)
qed

lemma make_schedule_faults:
  "make_schedule student concept stability difficulty n at_time = Inl e \<Longrightarrow> e = OverflowError"
  by (auto simp: make_schedule_def next_review_due_def Let_def split: if_splits)

lemmas schedule_steps = initial_schedule_def update_schedule_def

lemma initial_schedule_InrD:
  "initial_schedule student concept b t = Inr s \<Longrightarrow> schedule_ok s \<and> fs_student_id s = student \<and>
     fs_concept_id s = concept \<and> fs_last_review s = t \<and> fs_review_count s = 1"
  unfolding schedule_steps by (simp add: make_schedule_InrD)

lemma update_schedule_InrD:
  "update_schedule c b t = Inr s \<Longrightarrow> schedule_ok s \<and> fs_student_id s = fs_student_id c \<and>
     fs_concept_id s = fs_concept_id c \<and> fs_last_review s = t \<and> fs_review_count s = fs_review_count c + 1"
  unfolding schedule_steps by (simp add: make_schedule_InrD)

subsection \<open>Stability only grows under success\<close>

lemma round_to_6_near: "x - 1 / 1000000 \<le> round_to 6 x"
proof -
  have "\<bar>of_int (round_half_even (x * 1000000)) - x * 1000000\<bar> \<le> 1 / 2" by (rule round_half_even_near)
  then have "x * 1000000 - 1 \<le> of_int (round_half_even (x * 1000000))" by linarith
  then have "(x * 1000000 - 1) / 1000000 \<le> of_int (round_half_even (x * 1000000)) / 1000000" by (simp only: divide_right_mono)
  then show ?thesis by (simp add: round_to_def diff_divide_distrib)
qed

lemma success_grows_stability:
  assumes "update_schedule c True t = Inr s" "0 \<le> fs_stability c"
  shows "135 / 100 * fs_stability c \<le> fs_stability s"
proof -
  let ?x = "stability_after (fs_stability c) (fs_difficulty c) True"
  have "135 / 100 * fs_stability c + 1 \<le> ?x"
    using mult_left_mono[of "135 / 100" "135 / 100 + max 0 (10 - fs_difficulty c) * (5 / 100)" "fs_stability c"] assms(2)
    by (simp add: stability_after_def mult.commute)
  moreover then have "fs_stability s = round_to 6 ?x"
    using make_schedule_InrD(6)[OF assms(1)[unfolded update_schedule_def]] assms(2) by (simp add: max_absorb1)
  ultimately show ?thesis using round_to_6_near[of ?x] by linarith
qed

fun recall_all :: "concept_schedule \<Rightarrow> datetime list \<Rightarrow> learning_fault + concept_schedule" where
  "recall_all c [] = Inr c"
| "recall_all c (t # ts) = (case update_schedule c True t of Inl e \<Rightarrow> Inl e | Inr s \<Rightarrow> recall_all s ts)"

lemma recall_all_grows:
  assumes "recall_all c ts = Inr s" "1 / 10 \<le> fs_stability c"
  shows "(135 / 100) ^ length ts * fs_stability c \<le> fs_stability s"
  using assms
proof (induction ts arbitrary: c)
  case (Cons t ts)
  then obtain c1 where c1: "update_schedule c True t = Inr c1" "recall_all c1 ts = Inr s" by (auto split: sum.splits)
  have g: "135 / 100 * fs_stability c \<le> fs_stability c1" using success_grows_stability[OF c1(1)] Cons.prems(2) by simp
  have "1 / 10 \<le> fs_stability c1" using g Cons.prems(2) by linarith
  then have "(135 / 100) ^ length ts * fs_stability c1 \<le> fs_stability s" by (rule Cons.IH[OF c1(2)])
  moreover have "(135 / 100) ^ length ts * (135 / 100 * fs_stability c) \<le> (135 / 100) ^ length ts * fs_stability c1"
    using g by (intro mult_left_mono) simp_all
  ultimately have "(135 / 100) ^ length ts * (135 / 100 * fs_stability c) \<le> fs_stability s" by linarith
  then show ?case by (simp only: list.size power_Suc add_Suc_right add_0_right mult_ac)
qed simp

lemma recall_all_last:
  "\<lbrakk>recall_all c ts = Inr s; ts \<noteq> []\<rbrakk> \<Longrightarrow> \<exists>c'. update_schedule c' True (last ts) = Inr s"
proof (induction ts arbitrary: c)
  case (Cons t ts)
  then obtain c1 where c1: "update_schedule c True t = Inr c1" "recall_all c1 ts = Inr s" by (auto split: sum.splits)
  show ?case
  proof (cases "ts = []")
    case True
    then show ?thesis using c1 by auto
  next
    case False
    then show ?thesis using Cons.IH[OF c1(2)] by simp
  qed
qed simp

lemma recall_all_faults: "recall_all c ts = Inl e \<Longrightarrow> e = OverflowError"
  by (induction ts arbitrary: c) (auto simp: update_schedule_def dest: make_schedule_faults split: sum.splits)

text \<open>
  Repeated success ends in an error.  Stability grows by more than a third with every successful recall however
  soon it comes after the one before, so after at most 64 of them, whatever the dates (from 1970 on), the next due date lies past
  the year 9999 and the update raises.
\<close>

theorem sixty_four_recalls_overflow:
  assumes "1 / 10 \<le> fs_stability c" "64 \<le> length ts" "\<forall>t \<in> set ts. 0 \<le> t"
  shows "recall_all c ts = Inl OverflowError"
proof (cases "recall_all c ts")
  case (Inl e)
  then show ?thesis using recall_all_faults by blast
next
  case (Inr s)
  have "ts \<noteq> []" using assms(2) by auto
  then obtain c' where "update_schedule c' True (last ts) = Inr s" using recall_all_last[OF Inr] by blast
  note s = make_schedule_InrD[OF this[unfolded update_schedule_def]]
  define K :: rat where "K = (135 / 100) ^ 64 * (1 / 10)"
  have "(135 / 100 :: rat) ^ 64 \<le> (135 / 100) ^ length ts" by (rule power_increasing[OF assms(2)]) simp
  from mult_mono[OF this assms(1)] have "K \<le> (135 / 100) ^ length ts * fs_stability c"
    unfolding K_def by simp
  then have "K \<le> fs_stability s" using recall_all_grows[OF Inr assms(1)] by linarith
  then have "td_of_days (K * (3 / 17)) \<le> td_of_days (days_until_review_due (fs_stability s))"
    using s(1) by (intro td_of_days_mono) (simp add: days_until_review_due_eq schedule_ok_def)
  moreover have "td_of_days 3000000 \<le> td_of_days (K * (3 / 17))"
    unfolding K_def by (rule td_of_days_mono) (simp add: power_divide)
  moreover have "DATETIME_MAX < td_of_days 3000000" by code_simp
  moreover have "0 \<le> last ts" using assms(3) \<open>ts \<noteq> []\<close> by simp
  ultimately show ?thesis using s(1,7) by (simp add: schedule_ok_def)
qed

theorem sixty_four_recalls_overflow_witness: "recall_all sample_schedule (map int [0..<64]) = Inl OverflowError"
  by (rule sixty_four_recalls_overflow) (auto simp: sample_schedule_def)

subsection \<open>The schedule table\<close>

lemma with_schedule_simps [simp]:
  "sr_id (with_schedule s r) = sr_id r" "scheduling_key (with_schedule s r) = scheduling_key r"
  "scheduling_key (schedule_row i s) = (fs_student_id s, fs_concept_id s)" "sr_id (schedule_row i s) = i"
  "sr_last_review (with_schedule s r) = fs_last_review s" "sr_last_review (schedule_row i s) = fs_last_review s"
  by (simp_all add: with_schedule_def scheduling_key_def schedule_row_def)

lemma put_schedule_frame [simp]:
  "rv_users (put_schedule i s d) = rv_users d" "rv_sessions (put_schedule i s d) = rv_sessions d"
  "rv_attempts (put_schedule i s d) = rv_attempts d" "rv_concepts (put_schedule i s d) = rv_concepts d"
  "rv_evidence (put_schedule i s d) = rv_evidence d"
  by (simp_all add: put_schedule_def)

lemma find_put_same:
  "find_schedule (put_schedule i s d) (fs_student_id s) (fs_concept_id s) =
     Some (case find_schedule d (fs_student_id s) (fs_concept_id s) of None \<Rightarrow> schedule_row i s | Some r \<Rightarrow> with_schedule s r)"
  by (simp add: find_schedule_def put_schedule_def get_by_upsert_same)

lemma find_put_other:
  "\<lbrakk>distinct (map sr_id (rv_schedules d)); (x, y) \<noteq> (fs_student_id s, fs_concept_id s)\<rbrakk> \<Longrightarrow>
   find_schedule (put_schedule i s d) x y = find_schedule d x y"
  by (simp add: find_schedule_def put_schedule_def get_by_upsert_other)

definition schedules_ok :: "reviews_db \<Rightarrow> bool" where
  "schedules_ok d = (distinct (map sr_id (rv_schedules d)) \<and> distinct (map scheduling_key (rv_schedules d)) \<and>
     list_all scheduling_row_ok (rv_schedules d))"

lemma put_schedule_ok:
  assumes "schedules_ok d" "schedule_ok s" "0 \<le> fs_review_count s"
    and "find_schedule d (fs_student_id s) (fs_concept_id s) = None \<Longrightarrow> i \<notin> sr_id ` set (rv_schedules d)"
  shows "schedules_ok (put_schedule i s d)"
proof -
  have row: "scheduling_row_ok (with_schedule s r)" "scheduling_row_ok (schedule_row i s)" for r
    using assms(2,3) by (simp_all add: scheduling_row_ok_def with_schedule_def schedule_row_def schedule_ok_def)
  show ?thesis
    using assms(1,4) row
    by (auto simp: schedules_ok_def put_schedule_def find_schedule_def list_all_iff
        intro!: distinct_key_upsert distinct_ident_upsert dest!: upsert_rows)
qed

lemma reviews_db_ok_split:
  "reviews_db_ok d \<longleftrightarrow> schedules_ok d \<and> distinct (map ev_id (rv_evidence d)) \<and> distinct (map evidence_key (rv_evidence d))"
  by (auto simp: reviews_db_ok_def schedules_ok_def)

lemma repo_schedule_SomeD:
  assumes "repo_schedule d x y now = Inr (Some c)"
  obtains r where "find_schedule d x y = Some r" "fs_student_id c = x" "fs_concept_id c = y"
    "fs_stability c = sr_stability r" "fs_review_count c = sr_review_count r" "fs_last_review c = sr_last_review r"
proof -
  obtain r where r: "find_schedule d x y = Some r" "schedule_from_record r now None = Inr c"
    using assms by (auto simp: repo_schedule_def split: option.splits sum.splits)
  then have "scheduling_key r = (x, y)" using get_by_SomeD by (fastforce simp: find_schedule_def)
  then show ?thesis using r(2)
    by (intro that[OF r(1)]) (auto simp: schedule_from_record_def refresh_due_date_def scheduling_key_def split: sum.splits)
qed

lemma repo_schedule_faults: "repo_schedule d x y now = Inl e \<Longrightarrow> e = OverflowError"
  by (auto simp: repo_schedule_def schedule_from_record_def refresh_due_date_def next_review_due_def Let_def
      split: option.splits sum.splits if_splits)

text \<open>
  A review is recorded whole or the date overflows.  On a table that meets its constraints and with a fresh
  key, recording a review either raises the overflow error or stores a schedule with stability at least 0.1, difficulty between 1
  and 10, this review as the last one, a due date strictly after it and one more review than before; the table still meets its constraints
  and every other schedule is what it was.
\<close>

theorem review_is_recorded_or_overflows:
  assumes "reviews_db_ok d" "i \<notin> sr_id ` set (rv_schedules d)"
  shows "record_review i d x y b now = Inl OverflowError \<or>
    (\<exists>s d' r. record_review i d x y b now = Inr (s, d') \<and> schedule_ok s \<and> reviews_db_ok d' \<and>
       find_schedule d' x y = Some r \<and> sr_stability r = fs_stability s \<and> sr_difficulty r = fs_difficulty s \<and>
       sr_next_review_due r = fs_next_review_due s \<and> sr_last_review r = now \<and>
       sr_review_count r = 1 + (case find_schedule d x y of None \<Rightarrow> 0 | Some q \<Rightarrow> sr_review_count q) \<and>
       \<not> (\<exists>x' y'. (x', y') \<noteq> (x, y) \<and> find_schedule d' x' y' \<noteq> find_schedule d x' y'))"
proof (cases "repo_schedule d x y now")
  case (Inl e)
  then show ?thesis using repo_schedule_faults[OF Inl] by (simp add: record_review_def)
next
  case (Inr current)
  define nxt where "nxt = (case current of None \<Rightarrow> initial_schedule x y b now | Some c \<Rightarrow> update_schedule c b now)"
  define before where "before = (case find_schedule d x y of None \<Rightarrow> 0 | Some q \<Rightarrow> sr_review_count q)"
  have nonneg: "0 \<le> before" using assms(1)
    by (auto simp: before_def reviews_db_ok_def list_all_iff scheduling_row_ok_def find_schedule_def
        dest!: get_by_SomeD split: option.split)
  show ?thesis
  proof (cases nxt)
    case (Inl e)
    then have "e = OverflowError" unfolding nxt_def schedule_steps by (auto split: option.splits dest: make_schedule_faults)
    then show ?thesis using Inr Inl by (simp add: record_review_def nxt_def)
  next
    case s: (Inr s)
    have ok: "schedule_ok s \<and> fs_student_id s = x \<and> fs_concept_id s = y \<and> fs_last_review s = now \<and> fs_review_count s = before + 1"
    proof (cases current)
      case None
      then have "find_schedule d x y = None" using Inr by (auto simp: repo_schedule_def split: option.splits sum.splits)
      then show ?thesis using initial_schedule_InrD[of x y b now s] s None by (simp add: nxt_def before_def)
    next
      case (Some c)
      obtain r where "find_schedule d x y = Some r" "fs_student_id c = x" "fs_concept_id c = y" "fs_review_count c = sr_review_count r"
        using repo_schedule_SomeD[OF Inr[unfolded Some]] by metis
      then show ?thesis using update_schedule_InrD[of c b now s] s Some by (simp add: nxt_def before_def)
    qed
    have "schedules_ok (put_schedule i s d)"
      using assms ok nonneg by (intro put_schedule_ok) (simp_all add: reviews_db_ok_split)
    then have "record_review i d x y b now = Inr (s, put_schedule i s d)" "reviews_db_ok (put_schedule i s d)"
      using Inr s assms(1) by (simp_all add: record_review_def save_schedule_def reviews_flush_def reviews_db_ok_split nxt_def[symmetric])
    moreover have "find_schedule (put_schedule i s d) x' y' = find_schedule d x' y'" if "(x', y') \<noteq> (x, y)" for x' y'
      using that ok assms(1) by (intro find_put_other) (simp_all add: reviews_db_ok_def)
    ultimately show ?thesis using ok find_put_same[of i s d]
      by (intro disjI2 exI[of _ s] exI[of _ "put_schedule i s d"])
        (auto simp: before_def with_schedule_def schedule_row_def split: option.splits)
  qed
qed

theorem review_is_recorded_or_overflows_witness:
  "\<exists>s d' r. record_review 5 reviews_sample 10 7 True 1000 = Inr (s, d') \<and> schedule_ok s \<and>
     find_schedule d' 10 7 = Some r \<and> sr_review_count r = 1"
proof -
  have "reviews_db_ok reviews_sample" "5 \<notin> sr_id ` set (rv_schedules reviews_sample)"
    "record_review 5 reviews_sample 10 7 True 1000 \<noteq> Inl OverflowError" "find_schedule reviews_sample 10 7 = None"
    by code_simp+
  then show ?thesis using review_is_recorded_or_overflows[of reviews_sample 5 10 7 True 1000] by auto
qed

subsection \<open>A sitting counts once\<close>

text \<open>A concept is settled for a sitting when a further pass over it does nothing.\<close>

definition settled :: "uuid \<Rightarrow> uuid \<Rightarrow> uuid \<Rightarrow> reviews_db \<Rightarrow> bool" where
  "settled student sitting concept d =
     (case get_by cn_id concept (rv_concepts d) of
        None \<Rightarrow> True
      | Some c \<Rightarrow> (case get_by u_id student (rv_users d) of
          None \<Rightarrow> False
        | Some u \<Rightarrow> cn_school_id c \<noteq> u_school_id u \<or> evidence_for d student concept sitting \<noteq> None))"

lemma settled_stays: "settled student sitting (fst g) d \<Longrightarrow> review_concept env student sitting g d = Inr d"
  by (auto simp: settled_def review_concept_def split: option.splits prod.split)

text \<open>What a pass that is not settled does.\<close>

lemma review_concept_cases:
  assumes "review_concept env student sitting (concept, rows) d = Inr d'"
  obtains (same) "d' = d" "settled student sitting concept d"
    | (applied) s e t now unaided where
      "reviewed_schedule student concept (find_schedule d student concept) t now unaided = Inr s"
      "d' = (put_schedule (re_schedule_id env concept) s d)\<lparr>rv_evidence := rv_evidence d @ [e]\<rparr>"
      "evidence_key e = (student, concept, sitting)"
      "get_by cn_id concept (rv_concepts d) \<noteq> None" "get_by u_id student (rv_users d) \<noteq> None"
proof (cases "settled student sitting concept d")
  case True
  then show ?thesis using settled_stays[of student sitting "(concept, rows)" d env] assms same by simp
next
  case False
  then obtain c u where cu: "get_by cn_id concept (rv_concepts d) = Some c" "get_by u_id student (rv_users d) = Some u"
      "cn_school_id c = u_school_id u" "evidence_for d student concept sitting = None"
    using assms by (auto simp: settled_def review_concept_def split: option.splits)
  note body = assms[unfolded review_concept_def prod.case cu option.case]
  obtain unaided where una: "recalled_unaided (re_repr env) rows = Inr unaided"
    using body cu(3,4) by (cases "recalled_unaided (re_repr env) rows") simp_all
  obtain w where w: "get_by ls_id sitting (rv_sessions d) = Some w"
    using body cu(3,4) una by (cases "get_by ls_id sitting (rv_sessions d)") simp_all
  let ?now = "case ls_ended_at w of None \<Rightarrow> re_now env | Some t \<Rightarrow> t"
  obtain s where s: "reviewed_schedule student concept (find_schedule d student concept) (qa_submitted_at (hd rows)) ?now unaided = Inr s"
    using body cu(3,4) una w
    by (cases "reviewed_schedule student concept (find_schedule d student concept) (qa_submitted_at (hd rows)) ?now unaided")
      (simp_all add: Let_def)
  then obtain e where "d' = (put_schedule (re_schedule_id env concept) s d)\<lparr>rv_evidence := rv_evidence d @ [e]\<rparr>"
      "evidence_key e = (student, concept, sitting)"
    using body cu(3,4) una w by (auto simp: Let_def evidence_key_def)
  then show ?thesis using applied[OF s] cu(1,2) by simp
qed

lemma reviewed_schedule_InrD:
  assumes "reviewed_schedule student concept current t now unaided = Inr s"
  shows "fs_student_id s = student" "fs_concept_id s = concept"
    "current = Some r \<Longrightarrow> sr_last_review r \<le> fs_last_review s"
  using assms by (auto simp: reviewed_schedule_def schedule_of_row_def dest!: initial_schedule_InrD update_schedule_InrD
      split: option.splits if_splits)

definition same_frame :: "reviews_db \<Rightarrow> reviews_db \<Rightarrow> bool" where
  "same_frame d d' = (rv_users d' = rv_users d \<and> rv_concepts d' = rv_concepts d \<and> rv_attempts d' = rv_attempts d \<and>
     (\<exists>es. rv_evidence d' = rv_evidence d @ es) \<and> (\<exists>is. map sr_id (rv_schedules d') = map sr_id (rv_schedules d) @ is))"

lemma same_frame_refl [simp]: "same_frame d d"
  by (simp add: same_frame_def)

lemma same_frame_trans: "\<lbrakk>same_frame a b; same_frame b c\<rbrakk> \<Longrightarrow> same_frame a c"
  by (auto simp: same_frame_def)

lemma put_schedule_ids: "\<exists>is. map sr_id (rv_schedules (put_schedule i s d)) = map sr_id (rv_schedules d) @ is"
  by (simp add: put_schedule_def upsert_def map_update_where split: option.split)

lemma settled_mono: "\<lbrakk>same_frame d d'; settled student sitting concept d\<rbrakk> \<Longrightarrow> settled student sitting concept d'"
  by (auto simp: settled_def same_frame_def evidence_for_def get_by_append split: option.splits)

lemma review_concept_settles:
  assumes "review_concept env student sitting g d = Inr d'"
  shows "same_frame d d' \<and> settled student sitting (fst g) d'"
proof (cases g)
  case (Pair concept rows)
  show ?thesis using assms[unfolded Pair]
  proof (cases rule: review_concept_cases)
    case same
    then show ?thesis using Pair by simp
  next
    case (applied s e t now unaided)
    have "evidence_for d' student concept sitting \<noteq> None"
      using applied(2,3) by (simp add: evidence_for_def get_by_append split: option.split)
    then show ?thesis using applied(2,4,5) Pair put_schedule_ids[of "re_schedule_id env concept" s d]
      by (auto simp: same_frame_def settled_def)
  qed
qed

lemma review_groups_settle:
  assumes "review_groups env student sitting gs d = Inr d'"
  shows "same_frame d d' \<and> list_all (\<lambda>g. settled student sitting (fst g) d') gs"
  using assms
proof (induction gs arbitrary: d)
  case (Cons g gs)
  then obtain d1 where d1: "review_concept env student sitting g d = Inr d1" "review_groups env student sitting gs d1 = Inr d'"
    by (auto split: sum.splits)
  show ?case using Cons.IH[OF d1(2)] review_concept_settles[OF d1(1)]
    by (auto intro: same_frame_trans settled_mono)
qed simp

lemma review_groups_settled:
  "list_all (\<lambda>g. settled student sitting (fst g) d) gs \<Longrightarrow> review_groups env student sitting gs d = Inr d"
  by (induction gs) (simp_all add: settled_stays)

definition no_earlier :: "reviews_db \<Rightarrow> reviews_db \<Rightarrow> bool" where
  "no_earlier d d' = (\<forall>x y r. find_schedule d x y = Some r \<longrightarrow>
     (\<exists>r'. find_schedule d' x y = Some r' \<and> sr_last_review r \<le> sr_last_review r'))"

lemma no_earlier_trans: "\<lbrakk>no_earlier a b; no_earlier b c\<rbrakk> \<Longrightarrow> no_earlier a c"
  unfolding no_earlier_def by (meson order_trans)

lemma review_concept_forward:
  assumes "review_concept env student sitting g d = Inr d'" "distinct (map sr_id (rv_schedules d))"
  shows "no_earlier d d'"
proof (cases g)
  case (Pair concept rows)
  show ?thesis using assms(1)[unfolded Pair]
  proof (cases rule: review_concept_cases)
    case same
    then show ?thesis by (simp add: no_earlier_def)
  next
    case (applied s e t now unaided)
    note s = reviewed_schedule_InrD[OF applied(1)]
    have f: "find_schedule d' x y = find_schedule (put_schedule (re_schedule_id env concept) s d) x y" for x y
      using applied(2) by (simp add: find_schedule_def)
    show ?thesis unfolding no_earlier_def f
    proof (intro allI impI)
      fix x y r assume r: "find_schedule d x y = Some r"
      show "\<exists>r'. find_schedule (put_schedule (re_schedule_id env concept) s d) x y = Some r' \<and> sr_last_review r \<le> sr_last_review r'"
      proof (cases "(x, y) = (student, concept)")
        case True
        then show ?thesis using find_put_same[of "re_schedule_id env concept" s d] s r by simp
      next
        case False
        then show ?thesis using find_put_other[OF assms(2)] s(1,2) r by auto
      qed
    qed
  qed
qed

lemma review_groups_forward:
  assumes "review_groups env student sitting gs d = Inr d'" "distinct (map sr_id (rv_schedules d'))"
  shows "no_earlier d d'"
  using assms
proof (induction gs arbitrary: d)
  case (Cons g gs)
  then obtain d1 where d1: "review_concept env student sitting g d = Inr d1" "review_groups env student sitting gs d1 = Inr d'"
    by (auto split: sum.splits)
  have "same_frame d d'" using review_groups_settle[OF Cons.prems(1)] by simp
  then have "distinct (map sr_id (rv_schedules d))" using Cons.prems(2) unfolding same_frame_def by (metis distinct_append)
  then show ?case using Cons.IH[OF d1(2) Cons.prems(2)] review_concept_forward[OF d1(1)] no_earlier_trans by blast
qed (simp add: no_earlier_def)

text \<open>
  The evidence of a sitting is applied once and never rewinds a schedule.  After the completion of a sitting has
  recorded its reviews, recording them again (at any later time, with any keys drawn) changes nothing; and no schedule of any
  child has a last review earlier than before.
\<close>

theorem session_reviews_apply_once:
  assumes "record_session_reviews env d student sitting = Inr d'" "re_repr env' = re_repr env"
  shows "record_session_reviews env' d' student sitting = Inr d' \<and> no_earlier d d'"
proof -
  obtain gs where gs: "concept_groups (re_repr env) (session_attempts d student sitting) = Inr gs"
    "review_groups env student sitting gs d = Inr d'" "reviews_db_ok d'"
    using assms(1) by (auto simp: record_session_reviews_def reviews_flush_def split: sum.splits if_splits)
  have "same_frame d d'" "list_all (\<lambda>g. settled student sitting (fst g) d') gs"
    using review_groups_settle[OF gs(2)] by auto
  moreover from this(1) have "session_attempts d' student sitting = session_attempts d student sitting"
    by (simp add: same_frame_def session_attempts_def)
  ultimately have "record_session_reviews env' d' student sitting = Inr d'"
    using gs(1,3) assms(2) by (simp add: record_session_reviews_def review_groups_settled reviews_flush_def)
  moreover have "no_earlier d d'" using review_groups_forward[OF gs(2)] gs(3) by (simp add: reviews_db_ok_def)
  ultimately show ?thesis by simp
qed

theorem session_reviews_apply_once_witness:
  "\<exists>d'. record_session_reviews (sample_env 0) reviews_sample 10 3 = Inr d' \<and> length (rv_evidence d') = 1 \<and>
     record_session_reviews (sample_env 99) d' 10 3 = Inr d'"
proof -
  have "(case record_session_reviews (sample_env 0) reviews_sample 10 3 of Inl _ \<Rightarrow> False | Inr d' \<Rightarrow> length (rv_evidence d') = 1)"
    by code_simp
  then obtain d' where "record_session_reviews (sample_env 0) reviews_sample 10 3 = Inr d'" "length (rv_evidence d') = 1"
    by (auto split: sum.splits)
  then show ?thesis using session_reviews_apply_once[of "sample_env 0" reviews_sample 10 3 d' "sample_env 99"]
    by (simp add: sample_env_def)
qed

text \<open>
  The repository joins each due review with the lesson of its concept, and the last step of building the result drops it.
\<close>

lemma collect_InrD: "collect xs = Inr ys \<Longrightarrow> y \<in> set ys \<Longrightarrow> Inr y \<in> set xs"
  by (induction xs arbitrary: ys rule: collect.induct) (auto split: sum.splits)

lemma due_reviews_lose_the_lesson:
  assumes "due_reviews d student now = Inr ss"
  shows "list_all (\<lambda>s. fs_lesson_id s = None) ss"
  using collect_InrD[OF assms[unfolded due_reviews_def]]
  by (fastforce simp: list_all_iff schedule_from_record_def refresh_due_date_def split: sum.splits)

end
