(* ===== verification/Mastery.thy ===== *)
theory Mastery
  imports LearningTables
begin

text \<open>
  Knowledge tracing (\<^verbatim>\<open>mastery/engine.py\<close>, \<^verbatim>\<open>mastery/repositories.py\<close>, \<^verbatim>\<open>mastery/service.py\<close>): the estimate of
  what a child has mastered.  The engine is a four-parameter Bayesian update with a reading attribution for failures
  and a transfer from related concepts; the service reads a state or seeds one from the onboarding profile, updates it
  and stores it.
\<close>

subsection \<open>Entities\<close>

record baseline_mastery_seed =
  sd_concept_probability :: score
  sd_reading_probability :: score
  sd_source :: string

record mastery_state =
  ms_student_id :: uuid
  ms_concept_id :: uuid
  ms_concept_name :: "string option"
  ms_mastery_probability_concept :: score
  ms_mastery_probability_reading :: score
  ms_attention_weights :: "(string \<times> score) list"
  ms_guess_probability :: score
  ms_slip_probability :: score
  ms_practice_count :: int
  ms_last_response_correct :: "bool option"
  ms_last_failure_attribution :: failure_attribution
  ms_seeding_source :: string
  ms_transition_probability :: score
  ms_model_version :: string

record mastery_update =
  mu_student_id :: uuid
  mu_concept_id :: uuid
  mu_response_correct :: bool
  mu_item_text_density :: score
  mu_related_concept_ids :: "uuid list"
  mu_response_time_ms :: "int option"
  mu_minimum_response_time_ms :: int
  mu_hint_count :: int

record mastery_update_result =
  mr_state :: mastery_state
  mr_attention_transfer :: score
  mr_recommended_modality_shift :: bool

record concept_mastery_aggregate =
  ca_concept_id :: uuid
  ca_concept_name :: string
  ca_student_count :: nat
  ca_mastery_probability_concept :: score
  ca_mastery_probability_reading :: score

subsection \<open>The engine\<close>

definition DEFAULT_GUESS_PROBABILITY :: score where "DEFAULT_GUESS_PROBABILITY = 2 / 10"
definition DEFAULT_SLIP_PROBABILITY :: score where "DEFAULT_SLIP_PROBABILITY = 1 / 10"
definition BASELINE_CONCEPT_CAP :: score where "BASELINE_CONCEPT_CAP = 7 / 10"
definition TEXT_HEAVY_THRESHOLD :: score where "TEXT_HEAVY_THRESHOLD = 65 / 100"
definition LOW_READING_THRESHOLD :: score where "LOW_READING_THRESHOLD = 45 / 100"
definition BORDERLINE_READING_THRESHOLD :: score where "BORDERLINE_READING_THRESHOLD = 6 / 10"
definition READING_LEARNING_RATE :: score where "READING_LEARNING_RATE = 10 / 100"
definition NEGATIVE_READING_RATE :: score where "NEGATIVE_READING_RATE = 12 / 100"
definition TRANSFER_RATE :: score where "TRANSFER_RATE = 8 / 100"
definition ATTENTION_LEARNING_RATE :: score where "ATTENTION_LEARNING_RATE = 4 / 100"

definition clamp :: "score \<Rightarrow> score" where
  "clamp value = min 1 (max 0 value)"

definition bkt_update :: "score \<Rightarrow> bool \<Rightarrow> score \<Rightarrow> score \<Rightarrow> score \<Rightarrow> score" where
  "bkt_update prior0 correct guess0 slip0 transition0 =
     (let prior = clamp prior0; guess = clamp guess0; slip = clamp slip0; transition = clamp transition0;
          known = prior * (if correct then 1 - slip else slip);
          unknown = (1 - prior) * (if correct then guess else 1 - guess);
          posterior = (if known + unknown \<noteq> 0 then known / (known + unknown) else prior)
      in clamp (posterior + (1 - posterior) * transition))"

definition uniform_attention :: "uuid list \<Rightarrow> (string \<times> score) list" where
  "uniform_attention related =
     (if related = [] then []
      else let weight = 1 / of_nat (length related) in map (\<lambda>k. (k, weight)) (first_seen (map uuid_str related)))"

definition attention_transfer :: "(string \<times> score) list \<Rightarrow> (uuid \<times> score) list \<Rightarrow> score" where
  "attention_transfer weights related =
     (if weights = [] \<or> related = [] then 0
      else clamp (sum_list (map (\<lambda>(c, mastery). (case map_of weights (uuid_str c) of None \<Rightarrow> 0 | Some w \<Rightarrow> w) * mastery) related)))"

text \<open>The keys of the stored weights are read back with \<^verbatim>\<open>UUID(key)\<close>.\<close>

fun shifted_weights ::
  "(uuid \<times> score) list \<Rightarrow> bool \<Rightarrow> (string \<times> score) list \<Rightarrow> learning_fault + (string \<times> score) list" where
  "shifted_weights related correct [] = Inr []"
| "shifted_weights related correct ((k, w) # rest) =
     (case parse_uuid k of
        Inl e \<Rightarrow> Inl e
      | Inr c \<Rightarrow>
          (case shifted_weights related correct rest of
             Inl e \<Rightarrow> Inl e
           | Inr ws \<Rightarrow>
               (let mastery = (case map_of related c of None \<Rightarrow> 1 / 2 | Some v \<Rightarrow> v);
                    direction = (if correct then 1 else - 1)
                in Inr ((k, max (1 / 1000) (w + direction * ATTENTION_LEARNING_RATE * (mastery - 1 / 2))) # ws))))"

definition normalised :: "(string \<times> score) list \<Rightarrow> (string \<times> score) list" where
  "normalised ws = (let total = sum_list (map snd ws) in map (\<lambda>(k, v). (k, v / total)) ws)"

definition updated_attention_weights ::
  "(string \<times> score) list \<Rightarrow> (uuid \<times> score) list \<Rightarrow> bool \<Rightarrow> learning_fault + (string \<times> score) list" where
  "updated_attention_weights current0 related correct =
     (let current = (if current0 = [] \<and> related \<noteq> [] then uniform_attention (map fst related) else current0)
      in if current = [] then Inr []
         else case shifted_weights related correct current of Inl e \<Rightarrow> Inl e | Inr ws \<Rightarrow> Inr (normalised ws))"

definition exponential_increase :: "score \<Rightarrow> score \<Rightarrow> score" where
  "exponential_increase probability rate = probability + (1 - probability) * rate"

definition exponential_decrease :: "score \<Rightarrow> score \<Rightarrow> score" where
  "exponential_decrease probability rate = probability * (1 - rate)"

definition EXPECTED_WPM :: "age_band \<Rightarrow> score" where
  "EXPECTED_WPM b = (case b of AB_EARLY_PRIMARY \<Rightarrow> 70 | AB_UPPER_PRIMARY \<Rightarrow> 110 | AB_JUNIOR_SECONDARY \<Rightarrow> 140 | AB_SENIOR_SECONDARY \<Rightarrow> 165)"

definition DEFAULT_EXPECTED_WPM :: score where
  "DEFAULT_EXPECTED_WPM = 120"

text \<open>No date of birth is given to \<^verbatim>\<open>coerce_band\<close> here, so the day does not matter.\<close>

definition expected_wpm :: "date \<Rightarrow> string option \<Rightarrow> score" where
  "expected_wpm today band =
     (case coerce_band band None today of None \<Rightarrow> DEFAULT_EXPECTED_WPM | Some b \<Rightarrow> EXPECTED_WPM b)"

definition concept_seed_from_theta :: "score option \<Rightarrow> score" where
  "concept_seed_from_theta theta_domain =
     (case theta_domain of
        None \<Rightarrow> 15 / 100
      | Some t \<Rightarrow> min BASELINE_CONCEPT_CAP (5 / 100 + clamp ((t + 3) / 6) * (55 / 100)))"

definition reading_seed_from_wpm :: "date \<Rightarrow> score option \<Rightarrow> string option \<Rightarrow> score" where
  "reading_seed_from_wpm today reading_wpm band =
     (case reading_wpm of None \<Rightarrow> 1 / 2 | Some w \<Rightarrow> clamp (w / expected_wpm today band))"

definition initial_mastery_state :: "uuid \<Rightarrow> uuid \<Rightarrow> baseline_mastery_seed \<Rightarrow> uuid list \<Rightarrow> mastery_state" where
  "initial_mastery_state student concept seed related = \<lparr>ms_student_id = student, ms_concept_id = concept,
     ms_concept_name = None,
     ms_mastery_probability_concept = clamp (min (sd_concept_probability seed) BASELINE_CONCEPT_CAP),
     ms_mastery_probability_reading = clamp (sd_reading_probability seed),
     ms_attention_weights = uniform_attention related, ms_guess_probability = DEFAULT_GUESS_PROBABILITY,
     ms_slip_probability = DEFAULT_SLIP_PROBABILITY, ms_practice_count = 0, ms_last_response_correct = None,
     ms_last_failure_attribution = FA_NONE, ms_seeding_source = sd_source seed, ms_transition_probability = 16 / 100,
     ms_model_version = ''bkt_reading_v2''\<rparr>"

definition failure_attribution_of :: "score \<Rightarrow> score \<Rightarrow> failure_attribution" where
  "failure_attribution_of reading_probability item_text_density =
     (if reading_probability < LOW_READING_THRESHOLD \<and> item_text_density \<ge> TEXT_HEAVY_THRESHOLD then FA_READING
      else if reading_probability < BORDERLINE_READING_THRESHOLD \<and> item_text_density \<ge> 45 / 100 then FA_MIXED
      else FA_CONCEPT)"

definition untrusted_success :: "mastery_update \<Rightarrow> bool" where
  "untrusted_success i = (mu_response_correct i \<and> (mu_hint_count i > 0 \<or> (mu_minimum_response_time_ms i > 0 \<and>
     (case mu_response_time_ms i of None \<Rightarrow> True | Some t \<Rightarrow> t < mu_minimum_response_time_ms i))))"

text \<open>The new concept and reading estimates and the attribution of a failure.\<close>

definition traced :: "mastery_state \<Rightarrow> mastery_update \<Rightarrow> score \<Rightarrow> score \<times> score \<times> failure_attribution" where
  "traced st i transfer =
     (let concept = clamp (ms_mastery_probability_concept st + (1 - ms_mastery_probability_concept st) * transfer * TRANSFER_RATE);
          reading = ms_mastery_probability_reading st;
          bkt = (\<lambda>correct. bkt_update concept correct (ms_guess_probability st) (ms_slip_probability st) (ms_transition_probability st));
          density = mu_item_text_density i
      in if mu_response_correct i then
           (bkt True, if density \<ge> TEXT_HEAVY_THRESHOLD then exponential_increase reading READING_LEARNING_RATE else reading, FA_NONE)
         else case failure_attribution_of reading density of
             FA_READING \<Rightarrow> (concept, exponential_decrease reading (NEGATIVE_READING_RATE * density), FA_READING)
           | FA_CONCEPT \<Rightarrow> (bkt False, reading, FA_CONCEPT)
           | a \<Rightarrow> (concept + (bkt False - concept) * (1 - density), exponential_decrease reading (NEGATIVE_READING_RATE * density), a))"

definition engine_update ::
  "mastery_state \<Rightarrow> mastery_update \<Rightarrow> (uuid \<times> score) list \<Rightarrow> learning_fault + mastery_update_result" where
  "engine_update st i related =
     (if untrusted_success i then Inr \<lparr>mr_state = st, mr_attention_transfer = 0, mr_recommended_modality_shift = False\<rparr>
      else let transfer = attention_transfer (ms_attention_weights st) related;
               (concept, reading, attribution) = traced st i transfer
        in case updated_attention_weights (ms_attention_weights st) related (mu_response_correct i) of
             Inl e \<Rightarrow> Inl e
           | Inr weights \<Rightarrow> Inr
               \<lparr>mr_state = st\<lparr>ms_mastery_probability_concept := clamp concept, ms_mastery_probability_reading := clamp reading,
                    ms_attention_weights := weights, ms_practice_count := ms_practice_count st + 1,
                    ms_last_response_correct := Some (mu_response_correct i), ms_last_failure_attribution := attribution,
                    ms_model_version := ''bkt_reading_v2''\<rparr>,
                mr_attention_transfer = round_to 6 transfer,
                mr_recommended_modality_shift = (attribution = FA_READING \<or> attribution = FA_MIXED)\<rparr>)"

subsection \<open>The repository\<close>

record mastery_row =
  my_id :: uuid
  my_student_id :: uuid
  my_concept_id :: uuid
  my_mastery_probability_concept :: score
  my_mastery_probability_reading :: score
  my_attention_weights :: "(string \<times> score) list"
  my_guess_probability :: score
  my_slip_probability :: score
  my_practice_count :: int
  my_last_response_correct :: "bool option"
  my_last_failure_attribution :: failure_attribution
  my_seeding_source :: string
  my_transition_probability :: score
  my_model_version :: string
  my_last_updated :: datetime

record mastery_db =
  md_users :: "user_row list"
  md_classes :: "class_row list"
  md_enrollments :: "enrollment_row list"
  md_concepts :: "concept_row list"
  md_mastery :: "mastery_row list"

definition probability :: "score \<Rightarrow> bool" where
  "probability p = (0 \<le> p \<and> p \<le> 1)"

definition mastery_key :: "mastery_row \<Rightarrow> uuid \<times> uuid" where
  "mastery_key r = (my_student_id r, my_concept_id r)"

definition mastery_row_ok :: "mastery_row \<Rightarrow> bool" where
  "mastery_row_ok r = (probability (my_transition_probability r) \<and> probability (my_mastery_probability_concept r) \<and>
     probability (my_mastery_probability_reading r) \<and> probability (my_guess_probability r) \<and>
     probability (my_slip_probability r) \<and> 0 \<le> my_practice_count r)"

definition mastery_rows_ok :: "mastery_row list \<Rightarrow> bool" where
  "mastery_rows_ok rows = (distinct (map my_id rows) \<and> distinct (map mastery_key rows) \<and> list_all mastery_row_ok rows)"

definition mastery_flush :: "mastery_db \<Rightarrow> learning_fault + mastery_db" where
  "mastery_flush d =
     (if mastery_rows_ok (md_mastery d) \<and> list_all (\<lambda>r. my_student_id r \<in> u_id ` set (md_users d)) (md_mastery d)
      then Inr d else Inl DatabaseRefused)"

definition fallback_concept_name :: "uuid \<Rightarrow> string" where
  "fallback_concept_name concept = ''Concept '' @ take 8 (uuid_str concept)"

definition mastery_state_from_record :: "mastery_row \<Rightarrow> string option \<Rightarrow> mastery_state" where
  "mastery_state_from_record r name = \<lparr>ms_student_id = my_student_id r, ms_concept_id = my_concept_id r,
     ms_concept_name = Some (if present name \<noteq> [] then present name else fallback_concept_name (my_concept_id r)),
     ms_mastery_probability_concept = my_mastery_probability_concept r,
     ms_mastery_probability_reading = my_mastery_probability_reading r,
     ms_attention_weights = my_attention_weights r, ms_guess_probability = my_guess_probability r,
     ms_slip_probability = my_slip_probability r, ms_practice_count = my_practice_count r,
     ms_last_response_correct = my_last_response_correct r, ms_last_failure_attribution = my_last_failure_attribution r,
     ms_seeding_source = my_seeding_source r, ms_transition_probability = my_transition_probability r,
     ms_model_version = my_model_version r\<rparr>"

definition find_mastery :: "mastery_db \<Rightarrow> uuid \<Rightarrow> uuid \<Rightarrow> mastery_row option" where
  "find_mastery d student concept = get_by mastery_key (student, concept) (md_mastery d)"

definition repo_mastery_state :: "mastery_db \<Rightarrow> uuid \<Rightarrow> uuid \<Rightarrow> mastery_state option" where
  "repo_mastery_state d student concept =
     map_option (\<lambda>r. mastery_state_from_record r None) (find_mastery d student concept)"

text \<open>\<^verbatim>\<open>float(value)\<close>, \<open>None\<close> where it raises; how text is read is a parameter.\<close>

definition float_or_none :: "(string \<Rightarrow> score option) \<Rightarrow> json \<Rightarrow> score option" where
  "float_or_none parse_float v =
     (case v of
        JInt n \<Rightarrow> Some (of_int n)
      | JFloat x \<Rightarrow> Some x
      | JBool b \<Rightarrow> Some (if b then 1 else 0)
      | JString s \<Rightarrow> parse_float s
      | _ \<Rightarrow> None)"

record mastery_env =
  me_parse_float :: "string \<Rightarrow> score option"
  me_repr :: "json \<Rightarrow> string"
  me_today :: date
  me_now :: datetime
  me_row_id :: uuid

definition baseline_seed :: "mastery_env \<Rightarrow> mastery_db \<Rightarrow> uuid \<Rightarrow> baseline_mastery_seed" where
  "baseline_seed env d student =
     (case List.find (\<lambda>u. u_id u = student \<and> u_status u \<noteq> US_DEACTIVATED) (md_users d) of
        Some u \<Rightarrow>
          (case u_baseline_profile u of
             JObject payload \<Rightarrow>
               (let band = dict_get payload ''age_band'' in
                \<lparr>sd_concept_probability = concept_seed_from_theta (float_or_none (me_parse_float env) (dict_get payload ''theta_domain'')),
                 sd_reading_probability = reading_seed_from_wpm (me_today env)
                    (float_or_none (me_parse_float env) (dict_get payload ''reading_wpm''))
                    (if truthy band then Some (json_str (me_repr env) band) else None),
                 sd_source = ''baseline_profile''\<rparr>)
           | _ \<Rightarrow> \<lparr>sd_concept_probability = concept_seed_from_theta None,
                   sd_reading_probability = reading_seed_from_wpm (me_today env) None None,
                   sd_source = ''default_until_scrum_104''\<rparr>)
      | None \<Rightarrow> \<lparr>sd_concept_probability = concept_seed_from_theta None,
                 sd_reading_probability = reading_seed_from_wpm (me_today env) None None,
                 sd_source = ''default_until_scrum_104''\<rparr>)"

definition related_mastery :: "mastery_db \<Rightarrow> uuid \<Rightarrow> uuid list \<Rightarrow> (uuid \<times> score) list" where
  "related_mastery d student concepts =
     (if concepts = [] then []
      else map (\<lambda>r. (my_concept_id r, my_mastery_probability_concept r))
        (filter (\<lambda>r. my_student_id r = student \<and> my_concept_id r \<in> set concepts) (md_mastery d)))"

definition with_mastery_values :: "mastery_state \<Rightarrow> datetime \<Rightarrow> mastery_row \<Rightarrow> mastery_row" where
  "with_mastery_values st now r = r\<lparr>my_mastery_probability_concept := ms_mastery_probability_concept st,
     my_mastery_probability_reading := ms_mastery_probability_reading st,
     my_attention_weights := ms_attention_weights st, my_guess_probability := ms_guess_probability st,
     my_slip_probability := ms_slip_probability st, my_practice_count := ms_practice_count st,
     my_last_response_correct := ms_last_response_correct st,
     my_last_failure_attribution := ms_last_failure_attribution st, my_seeding_source := ms_seeding_source st,
     my_transition_probability := ms_transition_probability st, my_model_version := ms_model_version st,
     my_last_updated := now\<rparr>"

definition new_mastery_row :: "uuid \<Rightarrow> mastery_state \<Rightarrow> datetime \<Rightarrow> mastery_row" where
  "new_mastery_row i st now = with_mastery_values st now \<lparr>my_id = i, my_student_id = ms_student_id st,
     my_concept_id = ms_concept_id st, my_mastery_probability_concept = 0, my_mastery_probability_reading = 0,
     my_attention_weights = [], my_guess_probability = 2 / 10, my_slip_probability = 1 / 10, my_practice_count = 0,
     my_last_response_correct = None, my_last_failure_attribution = FA_NONE, my_seeding_source = ''default'',
     my_transition_probability = 16 / 100, my_model_version = ''bkt_reading_v2'', my_last_updated = now\<rparr>"

definition save_mastery :: "mastery_env \<Rightarrow> mastery_db \<Rightarrow> mastery_state \<Rightarrow> learning_fault + mastery_db" where
  "save_mastery env d st = mastery_flush (d\<lparr>md_mastery :=
     upsert mastery_key my_id (ms_student_id st, ms_concept_id st) (with_mastery_values st (me_now env))
       (new_mastery_row (me_row_id env) st (me_now env)) (md_mastery d)\<rparr>)"

definition student_mastery :: "mastery_db \<Rightarrow> uuid \<Rightarrow> mastery_state list" where
  "student_mastery d student =
     map (\<lambda>r. mastery_state_from_record r (map_option cn_name (get_by cn_id (my_concept_id r) (md_concepts d))))
       (sort_key my_concept_id (filter (\<lambda>r. my_student_id r = student) (md_mastery d)))"

text \<open>
  The aggregates group the joined rows by concept; \<open>collate\<close> is the database's order on names, in which a missing name
  comes last.
\<close>

definition average :: "score list \<Rightarrow> score" where
  "average xs = sum_list xs / of_nat (length xs)"

definition aggregate_of :: "mastery_db \<Rightarrow> uuid \<Rightarrow> mastery_row list \<Rightarrow> concept_mastery_aggregate" where
  "aggregate_of d concept rows =
     (let name = present (map_option cn_name (get_by cn_id concept (md_concepts d))) in
      \<lparr>ca_concept_id = concept, ca_concept_name = (if name \<noteq> [] then name else fallback_concept_name concept),
       ca_student_count = length rows,
       ca_mastery_probability_concept = round_to 6 (average (map my_mastery_probability_concept rows)),
       ca_mastery_probability_reading = round_to 6 (average (map my_mastery_probability_reading rows))\<rparr>)"

definition aggregates :: "(string \<Rightarrow> nat) \<Rightarrow> mastery_db \<Rightarrow> mastery_row list \<Rightarrow> concept_mastery_aggregate list" where
  "aggregates collate d rows =
     (let concepts = first_seen (map my_concept_id rows);
          named = (\<lambda>c. get_by cn_id c (md_concepts d));
          ordered = sort_key (\<lambda>c. collate (present (map_option cn_name (named c)))) (filter (\<lambda>c. named c \<noteq> None) (sort concepts))
            @ filter (\<lambda>c. named c = None) (sort concepts)
      in map (\<lambda>c. aggregate_of d c (filter (\<lambda>r. my_concept_id r = c) rows)) ordered)"

definition class_mastery :: "(string \<Rightarrow> nat) \<Rightarrow> mastery_db \<Rightarrow> uuid \<Rightarrow> concept_mastery_aggregate list" where
  "class_mastery collate d class_id =
     (if get_by cl_id class_id (md_classes d) = None then []
      else aggregates collate d (concat (map (\<lambda>r. map (\<lambda>_. r)
        (filter (\<lambda>e. en_student_id e = my_student_id r \<and> en_class_id e = class_id) (md_enrollments d))) (md_mastery d))))"

definition school_mastery :: "(string \<Rightarrow> nat) \<Rightarrow> mastery_db \<Rightarrow> uuid \<Rightarrow> concept_mastery_aggregate list" where
  "school_mastery collate d school_id =
     aggregates collate d (filter (\<lambda>r. \<exists>u \<in> set (md_users d). u_id u = my_student_id r \<and> u_school_id u = Some school_id) (md_mastery d))"

subsection \<open>The service\<close>

definition service_update :: "mastery_env \<Rightarrow> mastery_db \<Rightarrow> mastery_update \<Rightarrow> learning_fault + mastery_update_result \<times> mastery_db" where
  "service_update env d i =
     (let st = (case repo_mastery_state d (mu_student_id i) (mu_concept_id i) of
          Some st \<Rightarrow> st
        | None \<Rightarrow> initial_mastery_state (mu_student_id i) (mu_concept_id i) (baseline_seed env d (mu_student_id i)) (mu_related_concept_ids i))
      in case engine_update st i (related_mastery d (mu_student_id i) (mu_related_concept_ids i)) of
           Inl e \<Rightarrow> Inl e
         | Inr result \<Rightarrow> (case save_mastery env d (mr_state result) of Inl e \<Rightarrow> Inl e | Inr d' \<Rightarrow> Inr (result, d')))"

subsection \<open>The estimates stay probabilities\<close>

definition mastery_state_ok :: "mastery_state \<Rightarrow> bool" where
  "mastery_state_ok st = (probability (ms_mastery_probability_concept st) \<and> probability (ms_mastery_probability_reading st) \<and>
     probability (ms_guess_probability st) \<and> probability (ms_slip_probability st) \<and>
     probability (ms_transition_probability st) \<and> 0 \<le> ms_practice_count st)"

definition weights_ok :: "(string \<times> score) list \<Rightarrow> bool" where
  "weights_ok ws = (ws = [] \<or> (list_all (\<lambda>(k, w). 0 < w) ws \<and> sum_list (map snd ws) = 1))"

lemma probability_clamp [simp]: "probability (clamp x)"
  by (simp add: probability_def clamp_def)

lemma clamp_probability: "probability x \<Longrightarrow> clamp x = x"
  by (simp add: probability_def clamp_def)

lemma shifted_weights_positive:
  "shifted_weights related correct ws = Inr vs \<Longrightarrow> map fst vs = map fst ws \<and> list_all (\<lambda>(k, w). 0 < w) vs"
proof (induction related correct ws arbitrary: vs rule: shifted_weights.induct)
  case (2 related correct k w rest)
  then obtain c us where "parse_uuid k = Inr c" "shifted_weights related correct rest = Inr us"
    "fst (hd vs) = k" "0 < snd (hd vs)" "vs = hd vs # us"
    by (auto simp: Let_def split: sum.splits)
  then show ?case using "2.IH" by (cases vs) (auto split: prod.splits)
qed simp

lemma normalised_ok:
  assumes "list_all (\<lambda>(k, w). 0 < w) ws" "ws \<noteq> []"
  shows "weights_ok (normalised ws)"
proof -
  have pos: "0 < sum_list (map snd ws)"
    using assms
  proof (induction ws)
    case (Cons x xs)
    then show ?case by (cases "xs = []") (auto simp: add_pos_pos)
  qed simp
  have "map snd (normalised ws) = map (\<lambda>x. snd x * inverse (sum_list (map snd ws))) ws"
    by (simp add: normalised_def Let_def comp_def case_prod_unfold divide_inverse)
  then have "sum_list (map snd (normalised ws)) = sum_list (map snd ws) * inverse (sum_list (map snd ws))"
    by (simp add: sum_list_mult_const)
  moreover have "list_all (\<lambda>(k, w). 0 < w) (normalised ws)"
    using assms(1) pos by (auto simp: normalised_def Let_def list_all_iff)
  ultimately show ?thesis using pos by (simp add: weights_ok_def)
qed

lemma updated_weights_ok:
  "updated_attention_weights ws related correct = Inr vs \<Longrightarrow> weights_ok vs"
proof -
  assume u: "updated_attention_weights ws related correct = Inr vs"
  let ?c = "if ws = [] \<and> related \<noteq> [] then uniform_attention (map fst related) else ws"
  show ?thesis
  proof (cases "?c = []")
    case True
    then show ?thesis using u by (simp add: updated_attention_weights_def weights_ok_def Let_def)
  next
    case False
    then obtain us where us: "shifted_weights related correct ?c = Inr us" "vs = normalised us"
      using u unfolding updated_attention_weights_def Let_def by (auto split: sum.splits)
    then show ?thesis using shifted_weights_positive[OF us(1)] False normalised_ok by (metis Nil_is_map_conv)
  qed
qed

lemma engine_update_cases:
  assumes "engine_update st i related = Inr r"
  obtains (untrusted) "untrusted_success i" "mr_state r = st" "\<not> mr_recommended_modality_shift r"
    | (counted) concept reading attribution weights where "\<not> untrusted_success i"
      "traced st i (attention_transfer (ms_attention_weights st) related) = (concept, reading, attribution)"
      "updated_attention_weights (ms_attention_weights st) related (mu_response_correct i) = Inr weights"
      "mr_state r = st\<lparr>ms_mastery_probability_concept := clamp concept, ms_mastery_probability_reading := clamp reading,
         ms_attention_weights := weights, ms_practice_count := ms_practice_count st + 1,
         ms_last_response_correct := Some (mu_response_correct i), ms_last_failure_attribution := attribution,
         ms_model_version := ''bkt_reading_v2''\<rparr>"
  using assms by (cases "untrusted_success i") (auto simp: engine_update_def Let_def split: prod.splits sum.splits)

lemma engine_update_ok:
  assumes "engine_update st i related = Inr r" "mastery_state_ok st"
  shows "mastery_state_ok (mr_state r) \<and> (untrusted_success i \<or> weights_ok (ms_attention_weights (mr_state r)))"
  using assms(1)
proof (cases rule: engine_update_cases)
  case untrusted
  then show ?thesis using assms(2) by simp
next
  case counted
  then show ?thesis using assms(2) updated_weights_ok by (simp add: mastery_state_ok_def)
qed

subsection \<open>Evidence moves the estimate in its own direction\<close>

lemma bkt_update_posterior:
  assumes "probability p" "probability g" "probability sl" "probability t" "g + sl \<le> 1"
  shows "p \<le> bkt_update p True g sl t"
proof -
  let ?k = "p * (1 - sl)" and ?u = "(1 - p) * g"
  define post where "post = (if ?k + ?u \<noteq> 0 then ?k / (?k + ?u) else p)"
  have nn: "0 \<le> ?k" "0 \<le> ?u" "0 \<le> p" "p \<le> 1" "0 \<le> t" "t \<le> 1" using assms by (simp_all add: probability_def)
  have "p * (?k + ?u) \<le> ?k"
  proof -
    have "0 \<le> p * (1 - p) * (1 - sl - g)" using nn assms(5) by (intro mult_nonneg_nonneg) simp_all
    then show ?thesis by (simp add: algebra_simps)
  qed
  then have post: "p \<le> post" "post \<le> 1" using nn
    by (auto simp: post_def field_simps divide_le_eq_1 le_divide_eq)
  have "0 \<le> (1 - post) * t" using post nn by simp
  moreover have "bkt_update p True g sl t = clamp (post + (1 - post) * t)"
    using assms by (simp add: bkt_update_def clamp_probability post_def Let_def)
  ultimately show ?thesis using post(1) nn(4) by (simp add: clamp_def)
qed

lemma clamp_ge: "\<lbrakk>probability x; x \<le> y\<rbrakk> \<Longrightarrow> x \<le> clamp y"
  by (simp add: clamp_def probability_def)

lemma transfer_probability: "probability (attention_transfer ws related)"
  by (simp add: attention_transfer_def) (simp add: probability_def)

lemma transfer_raises:
  assumes "probability c" "probability t"
  shows "c \<le> clamp (c + (1 - c) * t * TRANSFER_RATE)"
proof -
  have "0 \<le> (1 - c) * t * TRANSFER_RATE" using assms by (simp add: probability_def TRANSFER_RATE_def)
  then show ?thesis using assms(1) by (simp add: clamp_def probability_def)
qed

text \<open>
  The estimate follows the evidence.  A correct answer given with hints, or faster than the question can be read, changes
  nothing; any other correct answer never lowers the concept or the reading estimate (for parameters with guess and slip summing to at
  most one, which the defaults do); and a failure put down to reading lowers the reading estimate only.
\<close>

theorem mastery_follows_evidence:
  assumes "engine_update st i related = Inr r" "mastery_state_ok st" "ms_guess_probability st + ms_slip_probability st \<le> 1"
  shows "(untrusted_success i \<longrightarrow> mr_state r = st) \<and>
    (mu_response_correct i \<longrightarrow>
       ms_mastery_probability_concept st \<le> ms_mastery_probability_concept (mr_state r) \<and>
       ms_mastery_probability_reading st \<le> ms_mastery_probability_reading (mr_state r)) \<and>
    (\<not> mu_response_correct i \<and> ms_last_failure_attribution (mr_state r) = FA_READING \<longrightarrow>
       ms_mastery_probability_concept st \<le> ms_mastery_probability_concept (mr_state r) \<and>
       ms_mastery_probability_reading (mr_state r) \<le> ms_mastery_probability_reading st)"
  using assms(1)
proof (cases rule: engine_update_cases)
  case untrusted
  then show ?thesis by (simp add: untrusted_success_def)
next
  case (counted concept reading attribution weights)
  let ?t = "attention_transfer (ms_attention_weights st) related" and ?c0 = "ms_mastery_probability_concept st"
    and ?r0 = "ms_mastery_probability_reading st" and ?d = "mu_item_text_density i"
  define c1 where "c1 = clamp (?c0 + (1 - ?c0) * ?t * TRANSFER_RATE)"
  have ok: "probability ?c0" "probability ?r0" "probability (ms_guess_probability st)" "probability (ms_slip_probability st)"
    "probability (ms_transition_probability st)"
    using assms(2) by (simp_all add: mastery_state_ok_def)
  have c1: "?c0 \<le> c1" "probability c1" unfolding c1_def using transfer_raises[OF ok(1) transfer_probability] by simp_all
  have r0: "0 \<le> ?r0" "?r0 \<le> 1" using ok(2) by (simp_all add: probability_def)
  show ?thesis
  proof (cases "mu_response_correct i")
    case True
    have "concept = bkt_update c1 True (ms_guess_probability st) (ms_slip_probability st) (ms_transition_probability st)"
      "reading = (if ?d \<ge> TEXT_HEAVY_THRESHOLD then exponential_increase ?r0 READING_LEARNING_RATE else ?r0)"
      using counted(2) True by (simp_all add: traced_def Let_def c1_def split: if_splits)
    moreover have "c1 \<le> bkt_update c1 True (ms_guess_probability st) (ms_slip_probability st) (ms_transition_probability st)"
      by (rule bkt_update_posterior[OF c1(2) ok(3,4,5) assms(3)])
    moreover have "?r0 \<le> exponential_increase ?r0 READING_LEARNING_RATE"
      using r0 by (simp add: exponential_increase_def READING_LEARNING_RATE_def)
    ultimately have "?c0 \<le> clamp concept" "?r0 \<le> clamp reading"
      using c1(1) by (intro clamp_ge[OF ok(1)] clamp_ge[OF ok(2)]; simp)+
    then show ?thesis using counted(1,4) True by simp
  next
    case False
    show ?thesis
    proof (cases "failure_attribution_of ?r0 ?d = FA_READING")
      case read: True
      then have "TEXT_HEAVY_THRESHOLD \<le> ?d" by (simp add: failure_attribution_of_def split: if_splits)
      then have "0 \<le> ?r0 * (NEGATIVE_READING_RATE * ?d)" using r0 by (simp add: NEGATIVE_READING_RATE_def TEXT_HEAVY_THRESHOLD_def)
      then have "exponential_decrease ?r0 (NEGATIVE_READING_RATE * ?d) \<le> ?r0" by (simp add: exponential_decrease_def algebra_simps)
      moreover have "concept = c1" "reading = exponential_decrease ?r0 (NEGATIVE_READING_RATE * ?d)"
        using counted(2) False read by (simp_all add: traced_def Let_def c1_def)
      ultimately show ?thesis using counted(1,4) False c1 r0 by (simp add: clamp_def probability_def)
    next
      case other: False
      then have "attribution \<noteq> FA_READING" using counted(2) False
        by (auto simp: traced_def Let_def split: failure_attribution.splits)
      then show ?thesis using counted(1,4) False by simp
    qed
  qed
qed

subsection \<open>Every interaction is recorded\<close>

definition valid_uuid :: "uuid \<Rightarrow> bool" where
  "valid_uuid i = (i < 16 ^ 32)"

definition weight_keys_ok :: "(string \<times> score) list \<Rightarrow> bool" where
  "weight_keys_ok ws = list_all (\<lambda>(k, w). \<not> isl (parse_uuid k)) ws"

definition mastery_store_ok :: "mastery_db \<Rightarrow> bool" where
  "mastery_store_ok d = (mastery_rows_ok (md_mastery d) \<and>
     list_all (\<lambda>r. my_student_id r \<in> u_id ` set (md_users d) \<and> valid_uuid (my_concept_id r) \<and>
       weight_keys_ok (my_attention_weights r)) (md_mastery d))"

lemma uniform_keys_ok: "list_all valid_uuid cs \<Longrightarrow> weight_keys_ok (uniform_attention cs)"
  by (auto simp: weight_keys_ok_def uniform_attention_def Let_def list_all_iff parse_uuid_str valid_uuid_def)

lemma shifted_weights_total: "weight_keys_ok ws \<Longrightarrow> \<exists>vs. shifted_weights related correct ws = Inr vs"
proof (induction related correct ws rule: shifted_weights.induct)
  case (2 related correct k w rest)
  then obtain c where "parse_uuid k = Inr c" by (cases "parse_uuid k") (auto simp: weight_keys_ok_def)
  moreover then obtain vs where "shifted_weights related correct rest = Inr vs"
    using 2 by (auto simp: weight_keys_ok_def)
  ultimately show ?case by (simp add: Let_def)
qed simp

lemma normalised_keys: "map fst (normalised ws) = map fst ws"
  by (simp add: normalised_def Let_def comp_def case_prod_unfold)

lemma weight_keys_cong: "map fst vs = map fst ws \<Longrightarrow> weight_keys_ok vs = weight_keys_ok ws"
proof -
  have "weight_keys_ok us = list_all (\<lambda>k. \<not> isl (parse_uuid k)) (map fst us)" for us
    by (simp add: weight_keys_ok_def list_all_iff case_prod_unfold)
  then show "map fst vs = map fst ws \<Longrightarrow> ?thesis" by simp
qed

lemma updated_weights_total:
  assumes "weight_keys_ok ws" "list_all valid_uuid (map fst related)"
  shows "\<exists>vs. updated_attention_weights ws related correct = Inr vs \<and> weight_keys_ok vs"
proof -
  let ?c = "if ws = [] \<and> related \<noteq> [] then uniform_attention (map fst related) else ws"
  have "weight_keys_ok ?c" using assms uniform_keys_ok by simp
  then obtain us where us: "shifted_weights related correct ?c = Inr us" using shifted_weights_total by blast
  then have "weight_keys_ok (normalised us)"
    using \<open>weight_keys_ok ?c\<close> shifted_weights_positive[OF us] weight_keys_cong normalised_keys by metis
  then show ?thesis using us unfolding updated_attention_weights_def Let_def by (auto simp: weight_keys_ok_def)
qed

lemma engine_update_total:
  assumes "weight_keys_ok (ms_attention_weights st)" "list_all valid_uuid (map fst related)"
  shows "\<exists>r. engine_update st i related = Inr r \<and> weight_keys_ok (ms_attention_weights (mr_state r)) \<and>
           ms_student_id (mr_state r) = ms_student_id st \<and> ms_concept_id (mr_state r) = ms_concept_id st"
proof -
  obtain vs where "updated_attention_weights (ms_attention_weights st) related (mu_response_correct i) = Inr vs" "weight_keys_ok vs"
    using updated_weights_total[OF assms] by blast
  then show ?thesis using assms(1) by (simp add: engine_update_def Let_def split: prod.split)
qed

lemma initial_mastery_ok: "mastery_state_ok (initial_mastery_state x y seed related)"
  by (simp add: mastery_state_ok_def initial_mastery_state_def DEFAULT_GUESS_PROBABILITY_def DEFAULT_SLIP_PROBABILITY_def)
    (simp add: probability_def)

definition working_state :: "mastery_env \<Rightarrow> mastery_db \<Rightarrow> mastery_update \<Rightarrow> mastery_state" where
  "working_state env d i = (case repo_mastery_state d (mu_student_id i) (mu_concept_id i) of
     Some st \<Rightarrow> st
   | None \<Rightarrow> initial_mastery_state (mu_student_id i) (mu_concept_id i) (baseline_seed env d (mu_student_id i)) (mu_related_concept_ids i))"

lemma stored_state_ok:
  assumes "mastery_store_ok d" "r \<in> set (md_mastery d)"
  shows "mastery_state_ok (mastery_state_from_record r n)" "weight_keys_ok (ms_attention_weights (mastery_state_from_record r n))"
proof -
  have r: "mastery_row_ok r" "weight_keys_ok (my_attention_weights r)"
    using assms by (simp_all add: mastery_store_ok_def mastery_rows_ok_def list_all_iff)
  then show "mastery_state_ok (mastery_state_from_record r n)" "weight_keys_ok (ms_attention_weights (mastery_state_from_record r n))"
    by (simp_all add: mastery_state_ok_def mastery_row_ok_def mastery_state_from_record_def)
qed

lemma working_state_ok:
  assumes "mastery_store_ok d" "list_all valid_uuid (mu_related_concept_ids i)"
  shows "mastery_state_ok (working_state env d i) \<and> weight_keys_ok (ms_attention_weights (working_state env d i)) \<and>
    ms_student_id (working_state env d i) = mu_student_id i \<and> ms_concept_id (working_state env d i) = mu_concept_id i"
proof (cases "find_mastery d (mu_student_id i) (mu_concept_id i)")
  case None
  then have "working_state env d i = initial_mastery_state (mu_student_id i) (mu_concept_id i)
        (baseline_seed env d (mu_student_id i)) (mu_related_concept_ids i)"
    by (simp add: working_state_def repo_mastery_state_def)
  then show ?thesis using uniform_keys_ok[OF assms(2)] initial_mastery_ok
    by (simp add: initial_mastery_ok) (simp add: initial_mastery_state_def)
next
  case (Some r)
  then have "working_state env d i = mastery_state_from_record r None"
    by (simp add: working_state_def repo_mastery_state_def)
  moreover have "r \<in> set (md_mastery d)" "mastery_key r = (mu_student_id i, mu_concept_id i)"
    using get_by_SomeD[OF Some[unfolded find_mastery_def]] by simp_all
  ultimately show ?thesis using stored_state_ok[OF assms(1)]
    by simp (simp add: mastery_state_from_record_def mastery_key_def)
qed

lemma with_mastery_values_simps [simp]:
  "my_id (with_mastery_values st now r) = my_id r" "mastery_key (with_mastery_values st now r) = mastery_key r"
  "mastery_key (new_mastery_row i st now) = (ms_student_id st, ms_concept_id st)" "my_id (new_mastery_row i st now) = i"
  "my_student_id (with_mastery_values st now r) = my_student_id r" "my_concept_id (with_mastery_values st now r) = my_concept_id r"
  "my_attention_weights (with_mastery_values st now r) = ms_attention_weights st"
  by (simp_all add: with_mastery_values_def mastery_key_def new_mastery_row_def)

lemma with_mastery_values_ok: "mastery_state_ok st \<Longrightarrow> mastery_row_ok (with_mastery_values st now r)"
  by (simp add: mastery_state_ok_def mastery_row_ok_def with_mastery_values_def)

lemma new_mastery_row_ok:
  "mastery_state_ok st \<Longrightarrow> mastery_row_ok (new_mastery_row i st now) \<and> my_attention_weights (new_mastery_row i st now) = ms_attention_weights st \<and>
   my_student_id (new_mastery_row i st now) = ms_student_id st \<and> my_concept_id (new_mastery_row i st now) = ms_concept_id st"
  unfolding new_mastery_row_def by (simp add: with_mastery_values_ok)

lemma save_mastery_total:
  assumes "mastery_store_ok d" "mastery_state_ok st" "weight_keys_ok (ms_attention_weights st)"
    and "ms_student_id st \<in> u_id ` set (md_users d)" "valid_uuid (ms_concept_id st)"
    and "me_row_id env \<notin> my_id ` set (md_mastery d)"
  shows "\<exists>d'. save_mastery env d st = Inr d' \<and> mastery_store_ok d' \<and>
    (\<exists>r. find_mastery d' (ms_student_id st) (ms_concept_id st) = Some r \<and> mastery_state_from_record r n =
       st\<lparr>ms_concept_name := ms_concept_name (mastery_state_from_record r n)\<rparr>)"
proof -
  let ?new = "new_mastery_row (me_row_id env) st (me_now env)" and ?f = "with_mastery_values st (me_now env)"
  let ?rows = "upsert mastery_key my_id (ms_student_id st, ms_concept_id st) ?f ?new (md_mastery d)"
  have dist: "distinct (map my_id (md_mastery d))" "distinct (map mastery_key (md_mastery d))"
    using assms(1) by (simp_all add: mastery_store_ok_def mastery_rows_ok_def)
  have "distinct (map my_id ?rows)" using dist(1) assms(6) by (intro distinct_ident_upsert) simp_all
  moreover have "distinct (map mastery_key ?rows)" using dist(2) by (intro distinct_key_upsert) simp_all
  moreover have rows: "mastery_row_ok r \<and> my_student_id r \<in> u_id ` set (md_users d) \<and> valid_uuid (my_concept_id r) \<and>
      weight_keys_ok (my_attention_weights r)" if "r \<in> set ?rows" for r
    using upsert_rows[OF that] assms(1-5) with_mastery_values_ok[OF assms(2)] new_mastery_row_ok[OF assms(2)]
    unfolding mastery_store_ok_def mastery_rows_ok_def list_all_iff by fastforce
  ultimately have store: "mastery_store_ok (d\<lparr>md_mastery := ?rows\<rparr>)"
    by (simp add: mastery_store_ok_def mastery_rows_ok_def list_all_iff)
  then have "save_mastery env d st = Inr (d\<lparr>md_mastery := ?rows\<rparr>)"
    by (simp add: save_mastery_def mastery_flush_def mastery_store_ok_def list_all_iff)
  moreover obtain r where r: "find_mastery (d\<lparr>md_mastery := ?rows\<rparr>) (ms_student_id st) (ms_concept_id st) = Some r"
      "r = ?new \<or> (\<exists>q. r = ?f q \<and> mastery_key q = (ms_student_id st, ms_concept_id st))"
    by (cases "get_by mastery_key (ms_student_id st, ms_concept_id st) (md_mastery d)")
      (auto simp: find_mastery_def get_by_upsert_same dest: get_by_SomeD)
  moreover have "mastery_state_from_record (?f q) n = st\<lparr>ms_concept_name := ms_concept_name (mastery_state_from_record (?f q) n)\<rparr>"
    if "mastery_key q = (ms_student_id st, ms_concept_id st)" for q
    using that by (simp add: mastery_state_from_record_def with_mastery_values_def mastery_key_def)
  moreover have "\<exists>q. ?new = ?f q \<and> mastery_key q = (ms_student_id st, ms_concept_id st)"
    by (auto simp: new_mastery_row_def mastery_key_def)
  ultimately show ?thesis using store by metis
qed

text \<open>
  Claim C34.  Every answer is recorded.  On a store that meets its constraints, for a student who has an account and with a fresh row
  key, an update always succeeds (it neither violates a constraint nor trips over the stored weights); the store still meets its
  constraints, every estimate in it is a probability, and reading the concept back gives the state the engine computed.
\<close>

theorem every_answer_is_recorded:
  assumes "mastery_store_ok d" "mu_student_id i \<in> u_id ` set (md_users d)" "valid_uuid (mu_concept_id i)"
    and "list_all valid_uuid (mu_related_concept_ids i)" "me_row_id env \<notin> my_id ` set (md_mastery d)"
  shows "\<exists>r d' row. service_update env d i = Inr (r, d') \<and> mastery_store_ok d' \<and> mastery_state_ok (mr_state r) \<and>
    (untrusted_success i \<or> weights_ok (ms_attention_weights (mr_state r))) \<and>
    find_mastery d' (mu_student_id i) (mu_concept_id i) = Some row \<and>
    mastery_state_from_record row None = (mr_state r)\<lparr>ms_concept_name := ms_concept_name (mastery_state_from_record row None)\<rparr>"
proof -
  let ?st = "working_state env d i" and ?rel = "related_mastery d (mu_student_id i) (mu_related_concept_ids i)"
  note st = working_state_ok[OF assms(1,4), of env]
  have "list_all valid_uuid (map fst ?rel)"
    using assms(1) by (auto simp: related_mastery_def mastery_store_ok_def list_all_iff)
  then obtain r where r: "engine_update ?st i ?rel = Inr r" "weight_keys_ok (ms_attention_weights (mr_state r))"
      "ms_student_id (mr_state r) = mu_student_id i" "ms_concept_id (mr_state r) = mu_concept_id i"
    using engine_update_total st by metis
  have ok: "mastery_state_ok (mr_state r)" "untrusted_success i \<or> weights_ok (ms_attention_weights (mr_state r))"
    using engine_update_ok[OF r(1)] st by simp_all
  obtain d' row where "save_mastery env d (mr_state r) = Inr d'" "mastery_store_ok d'"
      "find_mastery d' (mu_student_id i) (mu_concept_id i) = Some row"
      "mastery_state_from_record row None = (mr_state r)\<lparr>ms_concept_name := ms_concept_name (mastery_state_from_record row None)\<rparr>"
    using save_mastery_total[OF assms(1) ok(1) r(2), of env None] r(3,4) assms(2,3,5) by auto
  moreover have "service_update env d i = Inr (r, d')"
    using r(1) calculation(1) by (simp add: service_update_def working_state_def Let_def)
  ultimately show ?thesis using ok by blast
qed

subsection \<open>Witnesses\<close>

definition mastery_sample :: mastery_db where
  "mastery_sample = \<lparr>md_users = [sample_student], md_classes = [], md_enrollments = [], md_concepts = [], md_mastery = []\<rparr>"

definition mastery_sample_env :: mastery_env where
  "mastery_sample_env = \<lparr>me_parse_float = (\<lambda>_. None), me_repr = (\<lambda>_. []), me_today = Date 2026 1 1, me_now = 0, me_row_id = 1\<rparr>"

definition sample_interaction :: mastery_update where
  "sample_interaction = \<lparr>mu_student_id = 10, mu_concept_id = 7, mu_response_correct = True, mu_item_text_density = 1 / 2,
     mu_related_concept_ids = [8, 9], mu_response_time_ms = Some 5000, mu_minimum_response_time_ms = 800, mu_hint_count = 0\<rparr>"

theorem every_answer_is_recorded_witness:
  "\<exists>r d' row. service_update mastery_sample_env mastery_sample sample_interaction = Inr (r, d') \<and> mastery_store_ok d' \<and>
     weights_ok (ms_attention_weights (mr_state r)) \<and> find_mastery d' 10 7 = Some row"
proof -
  have "mastery_store_ok mastery_sample" "10 \<in> u_id ` set (md_users mastery_sample)"
    "me_row_id mastery_sample_env \<notin> my_id ` set (md_mastery mastery_sample)" "\<not> untrusted_success sample_interaction"
    by code_simp+
  moreover have "valid_uuid 7" "list_all valid_uuid [8, 9]" by (simp_all add: valid_uuid_def)
  ultimately show ?thesis
    using every_answer_is_recorded[of mastery_sample sample_interaction mastery_sample_env]
    by (simp add: sample_interaction_def) blast
qed

theorem mastery_follows_evidence_witness:
  "\<exists>r. engine_update (initial_mastery_state 10 7 \<lparr>sd_concept_probability = 3 / 10, sd_reading_probability = 1 / 2, sd_source = []\<rparr> [])
     sample_interaction [] = Inr r \<and> 3 / 10 \<le> ms_mastery_probability_concept (mr_state r)"
proof -
  define st where "st = initial_mastery_state 10 7 \<lparr>sd_concept_probability = 3 / 10, sd_reading_probability = 1 / 2, sd_source = []\<rparr> []"
  have "\<not> isl (engine_update st sample_interaction [])" unfolding st_def by code_simp
  then obtain r where r: "engine_update st sample_interaction [] = Inr r" by (cases "engine_update st sample_interaction []") auto
  have "ms_mastery_probability_concept st = 3 / 10" "ms_guess_probability st + ms_slip_probability st \<le> 1"
    unfolding st_def by code_simp+
  moreover have "mastery_state_ok st" unfolding st_def by (rule initial_mastery_ok)
  ultimately show ?thesis using mastery_follows_evidence[OF r] r unfolding st_def[symmetric]
    by (simp add: sample_interaction_def)
qed

end
