(* ===== verification/LearningRuntime.thy ===== *)
theory LearningRuntime
  imports Scaffolds Reviews Mastery
begin

text \<open>
  What one marked answer does (\<^verbatim>\<open>intelligence/learning_runtime.py\<close>): in the transaction that stores the answer, the
  mastery estimate, the estimate per level, the scaffold and the first review of the concept are brought up to date.
  This is where theories \<open>Mastery\<close>, \<open>Scaffolds\<close> and \<open>Reviews\<close> meet.  The functions return the tables as the session
  holds them; the caller's commit is not part of them.  A question's snapshot is a JSON object, as its column says.
\<close>

definition MASTERY_THRESHOLD :: score where
  "MASTERY_THRESHOLD = 7 / 10"

record level_mastery_row =
  lv_id :: uuid
  lv_student_id :: uuid
  lv_concept_id :: uuid
  lv_mastery_level :: string
  lv_mastery_probability :: score
  lv_practice_count :: int
  lv_supported_pass_count :: int
  lv_independent_pass_count :: int
  lv_strengthened_at :: "datetime option"
  lv_last_response_correct :: "bool option"

record runtime_db =
  rt_sessions :: "lesson_session_row list"
  rt_attempts :: "question_attempt_row list"
  rt_concepts :: "concept_row list"
  rt_mastery :: "mastery_row list"
  rt_levels :: "level_mastery_row list"
  rt_scaffolds :: "scaffold_state_row list"
  rt_scaffold_logs :: "scaffold_log_row list"
  rt_schedules :: "scheduling_row list"

text \<open>
  From outside: printing and reading of values, SHA-256 as \<^verbatim>\<open>hexdigest\<close>, the day, the clock, the setting
  \<^verbatim>\<open>collect_level_mastery\<close>, the question levels a person signed off (\<^verbatim>\<open>approved_level_ids\<close>), and the keys drawn.
\<close>

record runtime_env =
  rx_repr :: "json \<Rightarrow> string"
  rx_parse_float :: "string \<Rightarrow> score option"
  rx_sha256 :: "string \<Rightarrow> string"
  rx_today :: date
  rx_now :: datetime
  rx_collect_level_mastery :: bool
  rx_approved_levels :: "(string \<times> string) list"
  rx_mastery_id :: uuid
  rx_level_id :: uuid
  rx_scaffold_id :: uuid
  rx_log_id :: uuid
  rx_schedule_id :: uuid

definition snapshot_get :: "question_attempt_row \<Rightarrow> string \<Rightarrow> json" where
  "snapshot_get a k = (case qa_question_snapshot a of JObject kvs \<Rightarrow> dict_get kvs k | _ \<Rightarrow> JNull)"

definition supported_snapshot :: "question_attempt_row \<Rightarrow> bool" where
  "supported_snapshot a = (snapshot_get a ''supportStatus'' = JString ''supported'')"

subsection \<open>Hints over the parts of a calculation\<close>

definition calculation_parts :: "runtime_db \<Rightarrow> question_attempt_row \<Rightarrow> question_attempt_row list" where
  "calculation_parts d a = filter (\<lambda>p. qa_session_id p = qa_session_id a \<and> qa_segment_id p = qa_segment_id a \<and>
     qa_source p = ''calculation'') (rt_attempts d)"

text \<open>The most hints used on each question, added up.\<close>

definition hints_total :: "question_attempt_row list \<Rightarrow> int" where
  "hints_total parts = sum_list (map (\<lambda>q. foldr max (map qa_hint_count (filter (\<lambda>p. qa_question_id p = q) parts)) 0)
     (first_seen (map qa_question_id parts)))"

definition effective_hints :: "runtime_db \<Rightarrow> question_attempt_row \<Rightarrow> int" where
  "effective_hints d a =
     (let base = max (qa_hint_count a) (if supported_snapshot a then 1 else 0) in
      if snapshot_get a ''calculationComplete'' = JBool True then
        (let parts = calculation_parts d a
         in max (max base (hints_total parts))
              (if list_ex (\<lambda>p. qa_correct p = Some False \<or> supported_snapshot p) parts then 1 else 0))
      else base)"

subsection \<open>The mastery estimate\<close>

text \<open>\<^verbatim>\<open>float(value)\<close>.\<close>

definition to_float :: "(string \<Rightarrow> score option) \<Rightarrow> json \<Rightarrow> learning_fault + score" where
  "to_float parse_float v =
     (case v of
        JInt n \<Rightarrow> Inr (of_int n)
      | JFloat x \<Rightarrow> Inr x
      | JBool b \<Rightarrow> Inr (if b then 1 else 0)
      | JString s \<Rightarrow> (case parse_float s of None \<Rightarrow> Inl ValueError | Some x \<Rightarrow> Inr x)
      | _ \<Rightarrow> Inl TypeError)"

definition subject_key :: "concept_row \<Rightarrow> string" where
  "subject_key c = py_casefold (present (cn_subject c))"

definition placement_seed :: "runtime_env \<Rightarrow> user_row \<Rightarrow> concept_row \<Rightarrow> learning_fault + baseline_mastery_seed" where
  "placement_seed env user c =
     (case (if truthy (u_baseline_profile user) then u_baseline_profile user else JObject []) of
        JObject profile \<Rightarrow>
          (let stored = dict_get profile ''subject_placements'' in
           case (if truthy stored then stored else JObject []) of
             JObject placements \<Rightarrow>
               (case to_float (rx_parse_float env) (case map_of placements (subject_key c) of None \<Rightarrow> JFloat (15 / 100) | Some v \<Rightarrow> v) of
                  Inl e \<Rightarrow> Inl e
                | Inr p \<Rightarrow>
                    (case as_number (dict_get profile ''reading_wpm'') of
                       Inl e \<Rightarrow> Inl e
                     | Inr wpm \<Rightarrow> Inr \<lparr>sd_concept_probability = p,
                         sd_reading_probability = reading_seed_from_wpm (rx_today env) wpm (u_age_band user),
                         sd_source = (if map_of placements (subject_key c) \<noteq> None then ''subject_probe''
                                      else ''unestablished_conservative'')\<rparr>))
           | _ \<Rightarrow> Inl AttributeError)
      | _ \<Rightarrow> Inl AttributeError)"

definition own_related_mastery :: "runtime_db \<Rightarrow> user_row \<Rightarrow> uuid list \<Rightarrow> (uuid \<times> score) list" where
  "own_related_mastery d user related =
     map (\<lambda>r. (my_concept_id r, my_mastery_probability_concept r))
       (filter (\<lambda>r. my_student_id r = u_id user \<and> my_concept_id r \<in> set related \<and>
          (\<exists>c \<in> set (rt_concepts d). cn_id c = my_concept_id r \<and> cn_school_id c = u_school_id user)) (rt_mastery d))"

definition mastery_before ::
  "runtime_env \<Rightarrow> user_row \<Rightarrow> concept_row \<Rightarrow> uuid list \<Rightarrow> mastery_row option \<Rightarrow> learning_fault + mastery_state" where
  "mastery_before env user c related row =
     (case row of
        Some r \<Rightarrow> Inr ((mastery_state_from_record r None)\<lparr>ms_concept_name := Some (cn_name c)\<rparr>)
      | None \<Rightarrow>
          (case placement_seed env user c of
             Inl e \<Rightarrow> Inl e
           | Inr seed \<Rightarrow> Inr (initial_mastery_state (u_id user) (cn_id c) seed related)))"

definition text_density :: "runtime_env \<Rightarrow> question_attempt_row \<Rightarrow> learning_fault + score" where
  "text_density env a =
     (let t = snapshot_get a ''textDensity'' in
      to_float (rx_parse_float env)
        (if t \<noteq> JNull then t
         else if snapshot_get a ''answerType'' = JString ''numeric'' then JFloat (1 / 10) else JFloat (8 / 10)))"

definition put_mastery :: "runtime_env \<Rightarrow> mastery_state \<Rightarrow> runtime_db \<Rightarrow> runtime_db" where
  "put_mastery env st d = d\<lparr>rt_mastery := upsert mastery_key my_id (ms_student_id st, ms_concept_id st)
     (with_mastery_values st (rx_now env)) (new_mastery_row (rx_mastery_id env) st (rx_now env)) (rt_mastery d)\<rparr>"

subsection \<open>The estimate per level\<close>

definition level_key :: "level_mastery_row \<Rightarrow> uuid \<times> uuid \<times> string" where
  "level_key r = (lv_student_id r, lv_concept_id r, lv_mastery_level r)"

definition collected_level :: "runtime_env \<Rightarrow> question_attempt_row \<Rightarrow> learning_fault + string option" where
  "collected_level env a =
     (if \<not> rx_collect_level_mastery env \<or> qa_source a \<notin> {''checkpoint'', ''assessment''} then Inr None
      else case snapshot_get a ''masteryLevel'' of
          JList _ \<Rightarrow> Inl TypeError
        | JObject _ \<Rightarrow> Inl TypeError
        | JString level \<Rightarrow>
            (let scope = (if qa_source a = ''assessment'' then uuid_str (qa_lesson_id a)
                          else case qa_segment_id a of None \<Rightarrow> ''None'' | Some s \<Rightarrow> uuid_str s)
             in Inr (if level \<in> {''knowledge'', ''application'', ''analysis''} \<and> snapshot_get a ''teacherReviewed'' = JBool True \<and>
                  qa_response_time_ms a \<noteq> None \<and> (scope, qa_question_id a) \<in> set (rx_approved_levels env)
                then Some level else None))
        | _ \<Rightarrow> Inr None)"

definition strengthen :: "datetime \<Rightarrow> level_mastery_row \<Rightarrow> level_mastery_row" where
  "strengthen now r =
     (if lv_strengthened_at r = None \<and> lv_mastery_probability r \<ge> MASTERY_THRESHOLD \<and> lv_independent_pass_count r \<ge> 2
      then r\<lparr>lv_strengthened_at := Some now\<rparr> else r)"

definition with_level_result ::
  "runtime_env \<Rightarrow> mastery_state \<Rightarrow> bool \<Rightarrow> bool \<Rightarrow> bool \<Rightarrow> level_mastery_row \<Rightarrow> level_mastery_row" where
  "with_level_result env st correct supported read_in_time r =
     (strengthen (rx_now env) (r\<lparr>lv_mastery_probability := ms_mastery_probability_concept st,
        lv_practice_count := ms_practice_count st,
        lv_supported_pass_count := lv_supported_pass_count r + (if correct \<and> supported then 1 else 0),
        lv_independent_pass_count := lv_independent_pass_count r + (if correct \<and> \<not> supported \<and> read_in_time then 1 else 0)\<rparr>))
     \<lparr>lv_last_response_correct := Some correct\<rparr>"

definition new_level_row :: "uuid \<Rightarrow> uuid \<Rightarrow> uuid \<Rightarrow> string \<Rightarrow> level_mastery_row" where
  "new_level_row i student concept level = \<lparr>lv_id = i, lv_student_id = student, lv_concept_id = concept,
     lv_mastery_level = level, lv_mastery_probability = 15 / 100, lv_practice_count = 0, lv_supported_pass_count = 0,
     lv_independent_pass_count = 0, lv_strengthened_at = None, lv_last_response_correct = None\<rparr>"

definition read_in_time :: "question_attempt_row \<Rightarrow> int \<Rightarrow> bool" where
  "read_in_time a least = (case qa_response_time_ms a of None \<Rightarrow> False | Some t \<Rightarrow> least \<le> t)"

definition update_level ::
  "runtime_env \<Rightarrow> question_attempt_row \<Rightarrow> bool \<Rightarrow> mastery_state \<Rightarrow> int \<Rightarrow> int \<Rightarrow> string \<Rightarrow> runtime_db \<Rightarrow> learning_fault + runtime_db" where
  "update_level env a correct st hints least level d =
     (let key = (ms_student_id st, ms_concept_id st, level);
          before = (case get_by level_key key (rt_levels d) of
             None \<Rightarrow> new_level_row (rx_level_id env) (ms_student_id st) (ms_concept_id st) level | Some r \<Rightarrow> r);
          t = snapshot_get a ''textDensity''
      in case to_float (rx_parse_float env) (if truthy t then t else JFloat (8 / 10)) of
           Inl e \<Rightarrow> Inl e
         | Inr density \<Rightarrow>
             (case engine_update
                (st\<lparr>ms_mastery_probability_concept := lv_mastery_probability before, ms_practice_count := lv_practice_count before\<rparr>)
                \<lparr>mu_student_id = ms_student_id st, mu_concept_id = ms_concept_id st, mu_response_correct = correct,
                 mu_item_text_density = density, mu_related_concept_ids = [], mu_response_time_ms = qa_response_time_ms a,
                 mu_minimum_response_time_ms = least, mu_hint_count = hints\<rparr> [] of
                Inl e \<Rightarrow> Inl e
              | Inr result \<Rightarrow>
                  (let supported = (hints \<noteq> 0 \<or> supported_snapshot a);
                       f = with_level_result env (mr_state result) correct supported (read_in_time a least)
                   in Inr (d\<lparr>rt_levels := upsert level_key lv_id key f (f before) (rt_levels d)\<rparr>))))"

subsection \<open>The scaffold\<close>

definition problem_key :: "runtime_env \<Rightarrow> question_attempt_row \<Rightarrow> string" where
  "problem_key env a = rx_sha256 env (uuid_str (qa_session_id a) @ '':'' @ qa_question_id a)"

definition log_key :: "scaffold_log_row \<Rightarrow> uuid \<times> string" where
  "log_key l = (sl_student_id l, sl_problem_id l)"

definition attempt_of_answer :: "runtime_db \<Rightarrow> uuid \<Rightarrow> uuid \<Rightarrow> question_attempt_row \<Rightarrow> scaffold_problem_attempt" where
  "attempt_of_answer d student concept a =
     (let correct = (qa_correct a = Some True); first_go = (correct \<and> qa_attempt_number a = 1);
          steps = calculation_parts d a; calculation = (qa_source a = ''calculation'')
      in \<lparr>pa_student_id = student, pa_concept_id = concept,
          pa_problem_id = uuid_str (qa_session_id a) @ '':'' @ qa_question_id a,
          pa_response_correct = correct, pa_scaffold_intensity = None, pa_response_time_ms = qa_response_time_ms a,
          pa_expected_response_time_ms = None,
          pa_hint_count = (if calculation then hints_total steps else qa_hint_count a),
          pa_counts_as_independent = ((if calculation then first_go \<and> \<not> list_ex (\<lambda>s. qa_correct s = Some False) steps else first_go)
             \<and> \<not> supported_snapshot a)\<rparr>)"

text \<open>The first log row of the question, whose outcome a later success corrects.\<close>

definition late_success :: "uuid \<times> string \<Rightarrow> question_attempt_row \<Rightarrow> scaffold_log_row list \<Rightarrow> scaffold_log_row list" where
  "late_success key a logs =
     (case get_by log_key key logs of
        None \<Rightarrow> logs
      | Some l \<Rightarrow>
          if qa_correct a = Some True \<and> sl_outcome l = SO_STRUGGLED
          then update_where (\<lambda>x. sl_id x = sl_id l) (\<lambda>x. x\<lparr>sl_outcome := SO_CORRECT, sl_change_reason := Some ''supported_pass''\<rparr>) logs
          else logs)"

definition scaffold_attempt ::
  "runtime_env \<Rightarrow> user_row \<Rightarrow> uuid \<Rightarrow> question_attempt_row \<Rightarrow> runtime_db \<Rightarrow> learning_fault + runtime_db" where
  "scaffold_attempt env user concept a d =
     (let student = u_id user; key = (student, problem_key env a) in
      if get_by log_key key (rt_scaffold_logs d) \<noteq> None
      then Inr (d\<lparr>rt_scaffold_logs := late_success key a (rt_scaffold_logs d)\<rparr>)
      else case effective_engine_config (get_by ls_id (qa_session_id a) (rt_sessions d)) user of
          Inl e \<Rightarrow> Inl e
        | Inr config \<Rightarrow>
          (case initial_scaffold_intensity config of
             Inl e \<Rightarrow> Inl e
           | Inr initial \<Rightarrow>
             (let st = (case get_by scaffold_key (student, concept) (rt_scaffolds d) of
                    Some r \<Rightarrow> state_from_record r | None \<Rightarrow> fresh_concept_state student concept initial);
                  attempt = attempt_of_answer d student concept a;
                  decision = engine_record_attempt st attempt;
                  stamp = \<lparr>st_state_id = rx_scaffold_id env, st_log_id = rx_log_id env, st_now = rx_now env\<rparr>
              in Inr (d\<lparr>rt_scaffolds := upsert scaffold_key ss_id (student, concept)
                          (with_state_values (sdn_state decision) (rx_now env)) (state_row stamp (sdn_state decision)) (rt_scaffolds d),
                        rt_scaffold_logs := rt_scaffold_logs d @
                          [\<lparr>sl_id = rx_log_id env, sl_student_id = student, sl_concept_id = concept,
                            sl_problem_id = problem_key env a, sl_scaffold_intensity = sdn_previous_intensity decision,
                            sl_outcome = sdn_outcome decision, sl_response_time_ms = qa_response_time_ms a,
                            sl_expected_response_time_ms = None, sl_hint_count = pa_hint_count attempt,
                            sl_next_scaffold_intensity = sdn_next_intensity decision,
                            sl_level_changed = sdn_level_changed decision,
                            sl_change_reason = sdn_change_reason decision, sl_created_at = rx_now env\<rparr>]\<rparr>))))"

subsection \<open>The first review\<close>

definition seed_review :: "runtime_env \<Rightarrow> uuid \<Rightarrow> uuid \<Rightarrow> runtime_db \<Rightarrow> learning_fault + runtime_db" where
  "seed_review env student concept d =
     (if get_by scheduling_key (student, concept) (rt_schedules d) \<noteq> None then Inr d
      else case initial_schedule student concept True (rx_now env) of
          Inl e \<Rightarrow> Inl e
        | Inr s \<Rightarrow> Inr (d\<lparr>rt_schedules := rt_schedules d @ [schedule_row (rx_schedule_id env) s]\<rparr>))"

subsection \<open>One marked answer\<close>

definition already_right :: "runtime_db \<Rightarrow> question_attempt_row \<Rightarrow> bool" where
  "already_right d a = list_ex (\<lambda>p. qa_session_id p = qa_session_id a \<and> qa_question_id p = qa_question_id a \<and>
     qa_source p = qa_source a \<and> qa_attempt_number p < qa_attempt_number a \<and> qa_correct p = Some True) (rt_attempts d)"

text \<open>After the mastery estimate: the level, the scaffold and the review.\<close>

definition after_mastery ::
  "runtime_env \<Rightarrow> user_row \<Rightarrow> concept_row \<Rightarrow> question_attempt_row \<Rightarrow> bool \<Rightarrow> mastery_state \<Rightarrow> mastery_state \<Rightarrow> int \<Rightarrow> int \<Rightarrow>
   runtime_db \<Rightarrow> learning_fault + runtime_db" where
  "after_mastery env user c a correct before updated hints least d =
     (case collected_level env a of
        Inl e \<Rightarrow> Inl e
      | Inr level \<Rightarrow>
        (case (case level of None \<Rightarrow> Inr d | Some l \<Rightarrow> update_level env a correct before hints least l d) of
           Inl e \<Rightarrow> Inl e
         | Inr d1 \<Rightarrow>
           if correct \<and> \<not> read_in_time a least then Inr d1
           else case (if qa_source a \<noteq> ''calculation'' \<or> snapshot_get a ''calculationComplete'' = JBool True
                      then scaffold_attempt env user (cn_id c) a d1 else Inr d1) of
               Inl e \<Rightarrow> Inl e
             | Inr d2 \<Rightarrow>
               if ms_mastery_probability_concept updated \<ge> MASTERY_THRESHOLD \<and> ms_practice_count updated \<ge> 3
               then seed_review env (u_id user) (cn_id c) d2 else Inr d2))"

definition apply_to_concept ::
  "runtime_env \<Rightarrow> user_row \<Rightarrow> concept_row \<Rightarrow> question_attempt_row \<Rightarrow> bool \<Rightarrow> runtime_db \<Rightarrow> learning_fault + runtime_db" where
  "apply_to_concept env user c a correct d =
     (case collect (map parse_uuid (cn_prerequisite_ids c)) of
        Inl e \<Rightarrow> Inl e
      | Inr related \<Rightarrow>
        (case mastery_before env user c related (get_by mastery_key (u_id user, cn_id c) (rt_mastery d)) of
           Inl e \<Rightarrow> Inl e
         | Inr before \<Rightarrow>
           (case text_density env a of
              Inl e \<Rightarrow> Inl e
            | Inr density \<Rightarrow>
              (case minimum_reading_time (rx_repr env) (qa_question_snapshot a) of
                 Inl e \<Rightarrow> Inl e
               | Inr least \<Rightarrow>
                 (let hints = effective_hints d a in
                  case engine_update before
                     \<lparr>mu_student_id = u_id user, mu_concept_id = cn_id c, mu_response_correct = correct,
                      mu_item_text_density = density, mu_related_concept_ids = related,
                      mu_response_time_ms = qa_response_time_ms a, mu_minimum_response_time_ms = least, mu_hint_count = hints\<rparr>
                     (own_related_mastery d user related) of
                    Inl e \<Rightarrow> Inl e
                  | Inr result \<Rightarrow>
                      after_mastery env user c a correct before (mr_state result) hints least
                        (put_mastery env (mr_state result) d))))))"

definition apply_marked_attempt ::
  "runtime_env \<Rightarrow> user_row \<Rightarrow> question_attempt_row \<Rightarrow> runtime_db \<Rightarrow> learning_fault + runtime_db" where
  "apply_marked_attempt env user a d =
     (case qa_correct a of
        None \<Rightarrow> Inr d
      | Some correct \<Rightarrow>
        if correct \<and> already_right d a then Inr d
        else case attempt_concept (rx_repr env) a of
            Inl e \<Rightarrow> Inl e
          | Inr None \<Rightarrow> Inr d
          | Inr (Some concept) \<Rightarrow>
            (case get_by cn_id concept (rt_concepts d) of
               None \<Rightarrow> Inr d
             | Some c \<Rightarrow> if cn_school_id c \<noteq> u_school_id user then Inr d else apply_to_concept env user c a correct d))"

subsection \<open>What each part touches\<close>

lemma put_mastery_frame [simp]:
  "rt_scaffolds (put_mastery env st d) = rt_scaffolds d" "rt_scaffold_logs (put_mastery env st d) = rt_scaffold_logs d"
  "rt_schedules (put_mastery env st d) = rt_schedules d"
  by (simp_all add: put_mastery_def)

lemma update_level_frame:
  "update_level env a correct st hints least level d = Inr d' \<Longrightarrow> rt_scaffolds d' = rt_scaffolds d \<and>
     rt_scaffold_logs d' = rt_scaffold_logs d \<and> rt_schedules d' = rt_schedules d \<and> rt_mastery d' = rt_mastery d"
  by (auto simp: update_level_def Let_def split: sum.splits)

lemma seed_review_frame:
  "seed_review env student concept d = Inr d' \<Longrightarrow> rt_scaffolds d' = rt_scaffolds d \<and> rt_scaffold_logs d' = rt_scaffold_logs d"
  by (auto simp: seed_review_def split: sum.splits if_splits)

lemma after_mastery_cases:
  assumes "after_mastery env user c a correct before updated hints least d = Inr d'"
  obtains d1 d2 where
    "rt_scaffolds d1 = rt_scaffolds d \<and> rt_scaffold_logs d1 = rt_scaffold_logs d \<and> rt_schedules d1 = rt_schedules d \<and> rt_mastery d1 = rt_mastery d"
    "correct \<and> \<not> read_in_time a least \<Longrightarrow> d' = d1"
    "d2 = d1 \<or> scaffold_attempt env user (cn_id c) a d1 = Inr d2"
    "rt_scaffolds d' = rt_scaffolds d2" "rt_scaffold_logs d' = rt_scaffold_logs d2"
proof -
  obtain level where level: "collected_level env a = Inr level"
    using assms by (cases "collected_level env a") (simp_all add: after_mastery_def)
  obtain d1 where d1: "(case level of None \<Rightarrow> Inr d | Some l \<Rightarrow> update_level env a correct before hints least l d) = Inr d1"
    using assms level
    by (cases "case level of None \<Rightarrow> Inr d | Some l \<Rightarrow> update_level env a correct before hints least l d")
      (simp_all add: after_mastery_def)
  have frame: "rt_scaffolds d1 = rt_scaffolds d \<and> rt_scaffold_logs d1 = rt_scaffold_logs d \<and> rt_schedules d1 = rt_schedules d \<and> rt_mastery d1 = rt_mastery d"
    using d1 by (cases level) (auto dest: update_level_frame)
  note rest = assms[unfolded after_mastery_def level sum.case d1]
  show ?thesis
  proof (cases "correct \<and> \<not> read_in_time a least")
    case True
    then show ?thesis using rest by (intro that[OF frame, of d1]) auto
  next
    case False
    let ?s = "if qa_source a \<noteq> ''calculation'' \<or> snapshot_get a ''calculationComplete'' = JBool True
      then scaffold_attempt env user (cn_id c) a d1 else Inr d1"
    obtain d2 where d2: "?s = Inr d2" using rest False by (cases ?s) simp_all
    have "d2 = d1 \<or> scaffold_attempt env user (cn_id c) a d1 = Inr d2" using d2 by (auto split: if_splits)
    moreover have "rt_scaffolds d' = rt_scaffolds d2 \<and> rt_scaffold_logs d' = rt_scaffold_logs d2"
      using rest False d2 seed_review_frame by (auto split: if_splits)
    ultimately show ?thesis using False by (intro that[OF frame, of d2]) auto
  qed
qed

lemma apply_cases:
  assumes "apply_marked_attempt env user a d = Inr d'"
  obtains (same) "d' = d"
    | (applied) c correct related before density least result where "qa_correct a = Some correct"
      "mastery_before env user c related (get_by mastery_key (u_id user, cn_id c) (rt_mastery d)) = Inr before"
      "minimum_reading_time (rx_repr env) (qa_question_snapshot a) = Inr least"
      "engine_update before
         \<lparr>mu_student_id = u_id user, mu_concept_id = cn_id c, mu_response_correct = correct,
          mu_item_text_density = density, mu_related_concept_ids = related,
          mu_response_time_ms = qa_response_time_ms a, mu_minimum_response_time_ms = least, mu_hint_count = effective_hints d a\<rparr>
         (own_related_mastery d user related) = Inr result"
      "after_mastery env user c a correct before (mr_state result) (effective_hints d a) least
         (put_mastery env (mr_state result) d) = Inr d'"
proof -
  show ?thesis
  proof (cases "\<exists>c correct. qa_correct a = Some correct \<and> apply_to_concept env user c a correct d = Inr d'")
    case True
    then obtain c correct where c: "qa_correct a = Some correct" "apply_to_concept env user c a correct d = Inr d'" by blast
    note body = c(2)[unfolded apply_to_concept_def]
    obtain related where related: "collect (map parse_uuid (cn_prerequisite_ids c)) = Inr related"
      using body by (cases "collect (map parse_uuid (cn_prerequisite_ids c))") simp_all
    let ?m = "mastery_before env user c related (get_by mastery_key (u_id user, cn_id c) (rt_mastery d))"
    obtain before where before: "?m = Inr before" using body related by (cases ?m) simp_all
    obtain density where density: "text_density env a = Inr density" using body related before by (cases "text_density env a") simp_all
    let ?l = "minimum_reading_time (rx_repr env) (qa_question_snapshot a)"
    obtain least where least: "?l = Inr least" using body related before density by (cases ?l) simp_all
    note body' = body[unfolded related before density least sum.case Let_def]
    show ?thesis
      by (rule sumE[of "engine_update before
         \<lparr>mu_student_id = u_id user, mu_concept_id = cn_id c, mu_response_correct = correct,
          mu_item_text_density = density, mu_related_concept_ids = related,
          mu_response_time_ms = qa_response_time_ms a, mu_minimum_response_time_ms = least, mu_hint_count = effective_hints d a\<rparr>
         (own_related_mastery d user related)"]) (use body' applied[OF c(1) before least] in simp_all)
  next
    case False
    then show ?thesis using assms same by (auto simp: apply_marked_attempt_def split: option.splits if_splits sum.splits)
  qed
qed

subsection \<open>A question counts once for the scaffold\<close>

lemma late_success_keys: "map log_key (late_success key a logs) = map log_key logs"
  by (simp add: late_success_def map_update_where log_key_def split: option.split)

lemma scaffold_attempt_logs:
  assumes "scaffold_attempt env user concept a d = Inr d'"
  shows "if (u_id user, problem_key env a) \<in> log_key ` set (rt_scaffold_logs d)
    then rt_scaffolds d' = rt_scaffolds d \<and> map log_key (rt_scaffold_logs d') = map log_key (rt_scaffold_logs d)
    else map log_key (rt_scaffold_logs d') = map log_key (rt_scaffold_logs d) @ [(u_id user, problem_key env a)]"
proof (cases "get_by log_key (u_id user, problem_key env a) (rt_scaffold_logs d)")
  case None
  then show ?thesis using assms None[unfolded get_by_None_iff]
    by (auto simp: scaffold_attempt_def Let_def log_key_def split: sum.splits)
next
  case (Some l)
  then have "(u_id user, problem_key env a) \<in> log_key ` set (rt_scaffold_logs d)" by (metis get_by_SomeD imageI)
  then show ?thesis using assms Some by (auto simp: scaffold_attempt_def Let_def late_success_keys)
qed

definition logs_unique :: "runtime_db \<Rightarrow> bool" where
  "logs_unique d = distinct (map log_key (rt_scaffold_logs d))"


text \<open>
  A guess teaches the engine nothing.  A correct answer that came faster than the question can be read (or with no time
  reported) leaves every scaffold, every decision log and every review as it was, and an existing estimate of the concept keeps its
  probabilities and its practice count.
\<close>

theorem rushed_success_teaches_nothing:
  assumes "apply_marked_attempt env user a d = Inr d'" "qa_correct a = Some True"
    and "minimum_reading_time (rx_repr env) (qa_question_snapshot a) = Inr least" "\<not> read_in_time a least"
  shows "rt_scaffolds d' = rt_scaffolds d \<and> rt_scaffold_logs d' = rt_scaffold_logs d \<and> rt_schedules d' = rt_schedules d \<and>
    (\<forall>k r. get_by mastery_key k (rt_mastery d) = Some r \<and> distinct (map my_id (rt_mastery d)) \<longrightarrow>
       (\<exists>r'. get_by mastery_key k (rt_mastery d') = Some r' \<and>
          my_mastery_probability_concept r' = my_mastery_probability_concept r \<and>
          my_mastery_probability_reading r' = my_mastery_probability_reading r \<and> my_practice_count r' = my_practice_count r))"
  using assms(1)
proof (cases rule: apply_cases)
  case same
  then show ?thesis by auto
next
  case (applied c correct related before density least' result)
  have eq: "least' = least" "correct" using applied(1,3) assms(2,3) by simp_all
  obtain d1 where d1: "rt_scaffolds d1 = rt_scaffolds d" "rt_scaffold_logs d1 = rt_scaffold_logs d"
      "rt_schedules d1 = rt_schedules d" "rt_mastery d1 = rt_mastery (put_mastery env (mr_state result) d)" "d' = d1"
    by (rule after_mastery_cases[OF applied(5)]) (use eq assms(4) in auto)
  have "800 \<le> least" using assms(3) by (auto simp: minimum_reading_time_def Let_def split: json.splits sum.splits)
  then have same_state: "mr_state result = before"
    using applied(4) eq assms(4)
    by (auto simp: engine_update_def untrusted_success_def read_in_time_def split: option.splits)
  have "\<exists>r'. get_by mastery_key k (rt_mastery d') = Some r' \<and>
          my_mastery_probability_concept r' = my_mastery_probability_concept r \<and>
          my_mastery_probability_reading r' = my_mastery_probability_reading r \<and> my_practice_count r' = my_practice_count r"
    if r: "get_by mastery_key k (rt_mastery d) = Some r" and dist: "distinct (map my_id (rt_mastery d))" for k r
  proof (cases "k = (ms_student_id before, ms_concept_id before)")
    case True
    have "k = (u_id user, cn_id c)"
      using applied(2) True get_by_SomeD
      by (fastforce simp: mastery_before_def initial_mastery_state_def mastery_state_from_record_def mastery_key_def split: option.splits sum.splits)
    then have "before = (mastery_state_from_record r None)\<lparr>ms_concept_name := Some (cn_name c)\<rparr>"
      using applied(2) r by (simp add: mastery_before_def)
    then show ?thesis unfolding d1(5) d1(4) put_mastery_def same_state using r True
      by (simp add: get_by_upsert_same) (simp add: with_mastery_values_def mastery_state_from_record_def)
  next
    case False
    then show ?thesis unfolding d1(5) d1(4) put_mastery_def same_state using r dist by (simp add: get_by_upsert_other)
  qed
  then show ?thesis using d1 by blast
qed

subsection \<open>Witnesses\<close>

definition runtime_sample :: runtime_db where
  "runtime_sample = \<lparr>rt_sessions = rv_sessions reviews_sample, rt_attempts = [], rt_concepts = rv_concepts reviews_sample,
     rt_mastery = [], rt_levels = [], rt_scaffolds = [], rt_scaffold_logs = [], rt_schedules = []\<rparr>"

definition runtime_sample_env :: runtime_env where
  "runtime_sample_env = \<lparr>rx_repr = (\<lambda>_. []), rx_parse_float = (\<lambda>_. None), rx_sha256 = (\<lambda>s. s), rx_today = Date 2026 1 1,
     rx_now = 0, rx_collect_level_mastery = False, rx_approved_levels = [], rx_mastery_id = 1, rx_level_id = 1,
     rx_scaffold_id = 1, rx_log_id = 1, rx_schedule_id = 1\<rparr>"

definition sample_answer :: "int option \<Rightarrow> question_attempt_row" where
  "sample_answer t = (hd (rv_attempts reviews_sample))\<lparr>qa_response_time_ms := t\<rparr>"

text \<open>The store after a first, failed go at the question.\<close>

definition ran_once :: runtime_db where
  "ran_once = runtime_sample\<lparr>
     rt_scaffolds := [state_row \<lparr>st_state_id = 2, st_log_id = 2, st_now = 0\<rparr> (fresh_concept_state 10 7 SI_FULL_SUPPORT)],
     rt_scaffold_logs := [\<lparr>sl_id = 2, sl_student_id = 10, sl_concept_id = 7,
       sl_problem_id = problem_key runtime_sample_env (sample_answer (Some 4000)), sl_scaffold_intensity = SI_PARTIAL_SUPPORT,
       sl_outcome = SO_STRUGGLED, sl_response_time_ms = None, sl_expected_response_time_ms = None, sl_hint_count = 0,
       sl_next_scaffold_intensity = SI_FULL_SUPPORT, sl_level_changed = True, sl_change_reason = Some ''support_reengaged'',
       sl_created_at = 0\<rparr>]\<rparr>"


theorem rushed_success_teaches_nothing_witness:
  "\<exists>d'. apply_marked_attempt runtime_sample_env sample_student (sample_answer (Some 100)) runtime_sample = Inr d' \<and>
     rt_scaffolds d' = [] \<and> rt_schedules d' = []"
proof -
  let ?r = "apply_marked_attempt runtime_sample_env sample_student (sample_answer (Some 100)) runtime_sample"
  have "\<not> isl ?r" "qa_correct (sample_answer (Some 100)) = Some True" "\<not> read_in_time (sample_answer (Some 100)) 800"
    "minimum_reading_time (rx_repr runtime_sample_env) (qa_question_snapshot (sample_answer (Some 100))) = Inr 800"
    "rt_scaffolds runtime_sample = []" "rt_schedules runtime_sample = []"
    by code_simp+
  moreover then obtain d' where "?r = Inr d'" by (cases ?r) auto
  ultimately show ?thesis
    using rushed_success_teaches_nothing[of runtime_sample_env sample_student "sample_answer (Some 100)" runtime_sample d' 800]
    by simp
qed

end
