(* ===== verification/LessonSupport.thy ===== *)
theory LessonSupport
  imports LearningTables
begin

text \<open>
  The signals of a running lesson and the two small engines that read them or the aggregates of past lessons:
  break suggestions (\<^verbatim>\<open>intelligence/breaks.py\<close>) and accommodation inference (\<^verbatim>\<open>intelligence/accommodations.py\<close>), with
  the entities of \<^verbatim>\<open>intelligence/entities.py\<close> they share with the adaptation engine.
\<close>

subsection \<open>Entities\<close>

record learner_profile_snapshot =
  lp_working_memory_capacity :: "score option"
  lp_attention_span :: "int option"

record content_segment =
  cg_id :: string
  cg_segment_type :: content_segment_type
  cg_available_modalities :: "content_modality list"
  cg_concept_id :: "string option"
  cg_estimated_minutes :: "score option"
  cg_passive :: bool
  cg_title :: "string option"
  cg_available_depths :: "string list option"
  cg_hints :: "string list"
  cg_guided_questions :: "string list"
  cg_scaffold_intensity :: "scaffold_intensity option"
  cg_primary_modality :: "content_modality option"

record runtime_signals =
  sg_current_segment_id :: "string option"
  sg_current_modality :: "content_modality option"
  sg_current_depth :: "string option"
  sg_available_modalities :: "content_modality list"
  sg_continuous_minutes :: score
  sg_engagement_score :: "score option"
  sg_engagement_baseline :: "score option"
  sg_engagement_below_baseline_seconds :: int
  sg_comprehension_score :: "score option"
  sg_session_average_comprehension :: "score option"
  sg_consecutive_errors :: int
  sg_replay_count_on_segment :: int
  sg_same_segment_suggestion_shown :: bool
  sg_segments_since_last_suggestion :: "int option"
  sg_declined_modalities :: "content_modality list"
  sg_session_decline_count :: int
  sg_accuracy_below_baseline :: bool
  sg_response_time_below_baseline :: bool
  sg_midpoint_reached :: bool
  sg_current_segment_elapsed_seconds :: "int option"
  sg_seconds_since_last_adaptation :: "int option"
  sg_session_modality_shift_count :: "int option"
  sg_session_adaptation_count :: int
  sg_session_break_count :: int
  sg_misconception_confirmed :: bool
  sg_question_support_ready :: bool
  sg_support_grace_until :: "datetime option"
  sg_break_declined_seconds_ago :: "int option"
  sg_break_in_progress :: bool
  sg_frustration_detected :: bool
  sg_reteaching_exhausted :: bool
  sg_check_miss_pending :: bool

text \<open>The defaults of the dataclass.\<close>

definition no_signals :: runtime_signals where
  "no_signals = \<lparr>sg_current_segment_id = None, sg_current_modality = None, sg_current_depth = None,
     sg_available_modalities = [], sg_continuous_minutes = 0, sg_engagement_score = None, sg_engagement_baseline = None,
     sg_engagement_below_baseline_seconds = 0, sg_comprehension_score = None, sg_session_average_comprehension = None,
     sg_consecutive_errors = 0, sg_replay_count_on_segment = 0, sg_same_segment_suggestion_shown = False,
     sg_segments_since_last_suggestion = None, sg_declined_modalities = [], sg_session_decline_count = 0,
     sg_accuracy_below_baseline = False, sg_response_time_below_baseline = False, sg_midpoint_reached = False,
     sg_current_segment_elapsed_seconds = None, sg_seconds_since_last_adaptation = None,
     sg_session_modality_shift_count = None, sg_session_adaptation_count = 0, sg_session_break_count = 0,
     sg_misconception_confirmed = False, sg_question_support_ready = True, sg_support_grace_until = None,
     sg_break_declined_seconds_ago = None, sg_break_in_progress = False, sg_frustration_detected = False,
     sg_reteaching_exhausted = False, sg_check_miss_pending = False\<rparr>"

record break_threshold_result =
  br_triggered_thresholds :: "break_threshold list"
  br_severity :: break_severity
  br_break_type :: "break_type option"
  br_reason :: "string option"

subsection \<open>Breaks\<close>

definition comprehension_drop :: "runtime_signals \<Rightarrow> bool" where
  "comprehension_drop s =
     (case (sg_comprehension_score s, sg_session_average_comprehension s) of
        (Some c, Some average) \<Rightarrow> average - c \<ge> 20
      | _ \<Rightarrow> False)"

definition attention_window :: "learner_profile_snapshot \<Rightarrow> int" where
  "attention_window p =
     min 20 (max 5 (case lp_attention_span p of None \<Rightarrow> 20 | Some n \<Rightarrow> if n = 0 then 20 else n))"

definition fired :: "bool \<Rightarrow> 'a \<Rightarrow> 'a list" where
  "fired b x = (if b then [x] else [])"

definition triggered_thresholds :: "runtime_signals \<Rightarrow> learner_profile_snapshot \<Rightarrow> break_threshold list" where
  "triggered_thresholds s p =
     fired (sg_frustration_detected s \<or> (sg_consecutive_errors s \<ge> 1 \<and>
        (sg_replay_count_on_segment s \<ge> 1 \<or> comprehension_drop s \<or> sg_engagement_below_baseline_seconds s \<ge> 60))) BTH_FRUSTRATION_HIGH @
     fired (sg_session_adaptation_count s \<ge> 2 \<and> sg_consecutive_errors s \<ge> 2) BTH_PERSISTENT_STALL @
     fired (sg_continuous_minutes s \<ge> of_int (attention_window p)) BTH_TIME_THRESHOLD @
     fired (sg_engagement_below_baseline_seconds s \<ge> 180) BTH_ENGAGEMENT_DECLINE @
     fired (comprehension_drop s) BTH_COMPREHENSION_DROP @
     fired (sg_consecutive_errors s \<ge> 3) BTH_REPEATED_ERRORS @
     fired (sg_replay_count_on_segment s \<ge> 3) BTH_REPLAY_ACCUMULATION"

definition low_working_memory :: "learner_profile_snapshot \<Rightarrow> bool" where
  "low_working_memory p = (case lp_working_memory_capacity p of None \<Rightarrow> False | Some w \<Rightarrow> w \<le> 2)"

definition select_break_type :: "break_threshold list \<Rightarrow> runtime_signals \<Rightarrow> learner_profile_snapshot \<Rightarrow> break_type" where
  "select_break_type ts s p =
     (if BTH_FRUSTRATION_HIGH \<in> set ts \<or> BTH_PERSISTENT_STALL \<in> set ts then
        (if sg_session_break_count s \<ge> 2 \<or> sg_reteaching_exhausted s then BT_STOP_FOR_DAY
         else if sg_session_break_count s \<ge> 1 \<or> sg_consecutive_errors s \<ge> 3 then BT_FULL
         else BT_MICRO)
      else if length ts \<ge> 3 \<or>
          card (set ts \<inter> {BTH_ENGAGEMENT_DECLINE, BTH_COMPREHENSION_DROP, BTH_REPEATED_ERRORS}) \<ge> 2 then BT_FULL
      else if BTH_TIME_THRESHOLD \<in> set ts \<and> BTH_ENGAGEMENT_DECLINE \<in> set ts then BT_MOVEMENT
      else if sg_midpoint_reached s \<and> (BTH_COMPREHENSION_DROP \<in> set ts \<or> BTH_REPLAY_ACCUMULATION \<in> set ts) then BT_CONSOLIDATION
      else if low_working_memory p \<and> (BTH_REPEATED_ERRORS \<in> set ts \<or> BTH_COMPREHENSION_DROP \<in> set ts) then BT_CONSOLIDATION
      else if BTH_TIME_THRESHOLD \<in> set ts then BT_MOVEMENT
      else BT_MICRO)"

definition severity_of :: "break_threshold list \<Rightarrow> break_severity" where
  "severity_of ts = (if length ts \<ge> 3 then BS_HIGH else if length ts = 2 then BS_MEDIUM else BS_MILD)"

definition reason_for :: "break_type \<Rightarrow> break_threshold list \<Rightarrow> string" where
  "reason_for t ts =
     (let joined = py_join '', '' (map break_threshold_value ts) in
      (case t of
         BT_FULL \<Rightarrow> ''Multiple high-severity signals fired: ''
       | BT_MOVEMENT \<Rightarrow> ''Extended continuous work or attention decline detected: ''
       | BT_CONSOLIDATION \<Rightarrow> ''Memory or comprehension support signal detected: ''
       | _ \<Rightarrow> ''Mild learning support signal detected: '') @ joined @ ''.'')"

definition no_break :: break_threshold_result where
  "no_break = \<lparr>br_triggered_thresholds = [], br_severity = BS_NONE, br_break_type = None, br_reason = None\<rparr>"

definition monitor_break_thresholds :: "runtime_signals \<Rightarrow> learner_profile_snapshot \<Rightarrow> break_threshold_result" where
  "monitor_break_thresholds s p =
     (if sg_break_in_progress s \<or> (case sg_break_declined_seconds_ago s of None \<Rightarrow> False | Some n \<Rightarrow> n < 120) then no_break
      else let ts = triggered_thresholds s p in
        if ts = [] then no_break
        else let t = select_break_type ts s p in
          \<lparr>br_triggered_thresholds = ts, br_severity = severity_of ts, br_break_type = Some t, br_reason = Some (reason_for t ts)\<rparr>)"

subsection \<open>Accommodations\<close>

record accommodation_signal =
  as_accommodation :: accommodation_type
  as_frontend_signal :: string
  as_evidence :: "string list"
  as_lesson_count :: int

record accommodation_analysis =
  aa_student_id :: uuid
  aa_active :: "accommodation_signal list"
  aa_source :: string

record behaviour_pattern_aggregate =
  bp_lesson_count :: int
  bp_reading_latency_lessons :: int
  bp_backward_scroll_lessons :: int
  bp_word_pause_lessons :: int
  bp_low_text_completion_lessons :: int
  bp_task_switch_lessons :: int
  bp_erratic_navigation_lessons :: int
  bp_focus_drop_lessons :: int
  bp_fragmented_flow_lessons :: int
  bp_maths_lesson_count :: int
  bp_calculation_latency_lessons :: int
  bp_numerical_correction_lessons :: int
  bp_repeated_numeric_mistake_lessons :: int
  bp_numeric_hesitation_lessons :: int

definition MIN_CONFIRMING_LESSONS :: int where "MIN_CONFIRMING_LESSONS = 5"
definition MIN_ALIGNED_SIGNALS :: nat where "MIN_ALIGNED_SIGNALS = 3"

definition ACCOMMODATION_SIGNAL_BY_TYPE :: "accommodation_type \<Rightarrow> string" where
  "ACCOMMODATION_SIGNAL_BY_TYPE t = (case t of
     ACC_READING \<Rightarrow> ''reading_accommodation_active''
   | ACC_ATTENTION \<Rightarrow> ''attention_accommodation_active''
   | ACC_NUMERICAL \<Rightarrow> ''numerical_accommodation_active'')"

definition confirmed_pattern :: "int \<Rightarrow> string list \<Rightarrow> bool" where
  "confirmed_pattern lesson_count evidence = (lesson_count \<ge> MIN_CONFIRMING_LESSONS \<and> length evidence \<ge> MIN_ALIGNED_SIGNALS)"

definition reading_evidence :: "behaviour_pattern_aggregate \<Rightarrow> string list" where
  "reading_evidence g =
     fired (bp_reading_latency_lessons g \<ge> MIN_CONFIRMING_LESSONS) ''high_reading_latency_on_text_heavy_segments'' @
     fired (bp_backward_scroll_lessons g \<ge> MIN_CONFIRMING_LESSONS) ''elevated_backward_scroll_regressions'' @
     fired (bp_word_pause_lessons g \<ge> MIN_CONFIRMING_LESSONS) ''long_pauses_on_words_or_phrases'' @
     fired (bp_low_text_completion_lessons g \<ge> MIN_CONFIRMING_LESSONS) ''low_completion_rate_on_text_heavy_tasks''"

definition attention_evidence :: "behaviour_pattern_aggregate \<Rightarrow> string list" where
  "attention_evidence g =
     fired (bp_task_switch_lessons g \<ge> MIN_CONFIRMING_LESSONS) ''frequent_task_switching_within_lesson'' @
     fired (bp_erratic_navigation_lessons g \<ge> MIN_CONFIRMING_LESSONS) ''erratic_navigation_patterns'' @
     fired (bp_focus_drop_lessons g \<ge> MIN_CONFIRMING_LESSONS) ''rapid_focus_drops_after_sustained_content'' @
     fired (bp_fragmented_flow_lessons g \<ge> MIN_CONFIRMING_LESSONS) ''fragmented_task_flow''"

definition numerical_evidence :: "behaviour_pattern_aggregate \<Rightarrow> string list" where
  "numerical_evidence g =
     fired (bp_calculation_latency_lessons g \<ge> MIN_CONFIRMING_LESSONS) ''high_calculation_latency'' @
     fired (bp_numerical_correction_lessons g \<ge> MIN_CONFIRMING_LESSONS) ''frequent_input_corrections_on_numerical_fields'' @
     fired (bp_repeated_numeric_mistake_lessons g \<ge> MIN_CONFIRMING_LESSONS) ''repetitive_mistakes_on_similar_numerical_operations'' @
     fired (bp_numeric_hesitation_lessons g \<ge> MIN_CONFIRMING_LESSONS) ''hesitation_before_numerical_answers''"

definition accommodation_signal_of :: "accommodation_type \<Rightarrow> string list \<Rightarrow> int \<Rightarrow> accommodation_signal" where
  "accommodation_signal_of t evidence n = \<lparr>as_accommodation = t, as_frontend_signal = ACCOMMODATION_SIGNAL_BY_TYPE t,
     as_evidence = evidence, as_lesson_count = n\<rparr>"

definition analyse :: "uuid \<Rightarrow> behaviour_pattern_aggregate \<Rightarrow> accommodation_analysis" where
  "analyse student g = \<lparr>aa_student_id = student,
     aa_active =
       fired (confirmed_pattern (bp_lesson_count g) (reading_evidence g))
         (accommodation_signal_of ACC_READING (reading_evidence g) (bp_lesson_count g)) @
       fired (confirmed_pattern (bp_lesson_count g) (attention_evidence g))
         (accommodation_signal_of ACC_ATTENTION (attention_evidence g) (bp_lesson_count g)) @
       fired (confirmed_pattern (bp_maths_lesson_count g) (numerical_evidence g))
         (accommodation_signal_of ACC_NUMERICAL (numerical_evidence g) (bp_maths_lesson_count g)),
     aa_source = ''aggregated_behavioural_patterns''\<rparr>"

definition analyse_student :: "uuid \<Rightarrow> accommodation_analysis option \<Rightarrow> behaviour_pattern_aggregate \<Rightarrow> accommodation_analysis" where
  "analyse_student student current g = (case current of Some a \<Rightarrow> a | None \<Rightarrow> analyse student g)"

subsection \<open>Properties\<close>

lemma set_fired [simp]: "set (fired b x) = (if b then {x} else {})" "fired b x = [] \<longleftrightarrow> \<not> b"
  unfolding fired_def by (cases b; simp)+

text \<open>A break is suggested exactly when a threshold fires, none is running and none was declined in the last two minutes.\<close>

lemma break_suggested_iff:
  "br_break_type (monitor_break_thresholds s p) \<noteq> None \<longleftrightarrow>
     triggered_thresholds s p \<noteq> [] \<and> \<not> sg_break_in_progress s \<and>
     (case sg_break_declined_seconds_ago s of None \<Rightarrow> True | Some n \<Rightarrow> 120 \<le> n)"
  by (auto simp: monitor_break_thresholds_def no_break_def Let_def split: option.splits)

text \<open>
  A child is sent home for the day only on distress.  The strongest suggestion is made only when frustration or a persistent
  stall fired and either two breaks were already taken in the sitting or every re-teaching was used up; and every suggestion
  names at least one threshold and comes with a severity that counts them.
\<close>

theorem stop_for_day_needs_distress:
  assumes "br_break_type (monitor_break_thresholds s p) = Some t"
  shows "(t = BT_STOP_FOR_DAY \<longrightarrow>
      (BTH_FRUSTRATION_HIGH \<in> set (triggered_thresholds s p) \<or> BTH_PERSISTENT_STALL \<in> set (triggered_thresholds s p)) \<and>
      (2 \<le> sg_session_break_count s \<or> sg_reteaching_exhausted s)) \<and>
    br_triggered_thresholds (monitor_break_thresholds s p) = triggered_thresholds s p \<and> triggered_thresholds s p \<noteq> [] \<and>
    (br_severity (monitor_break_thresholds s p) = BS_HIGH \<longleftrightarrow> 3 \<le> length (triggered_thresholds s p))"
proof -
  let ?ts = "triggered_thresholds s p"
  have r: "monitor_break_thresholds s p = \<lparr>br_triggered_thresholds = ?ts, br_severity = severity_of ?ts,
      br_break_type = Some (select_break_type ?ts s p), br_reason = Some (reason_for (select_break_type ?ts s p) ?ts)\<rparr>" "?ts \<noteq> []"
    using assms by (auto simp: monitor_break_thresholds_def no_break_def Let_def split: if_splits)
  then have "t = select_break_type ?ts s p" using assms by simp
  moreover have "select_break_type ?ts s p = BT_STOP_FOR_DAY \<longrightarrow>
      (BTH_FRUSTRATION_HIGH \<in> set ?ts \<or> BTH_PERSISTENT_STALL \<in> set ?ts) \<and> (2 \<le> sg_session_break_count s \<or> sg_reteaching_exhausted s)"
    unfolding select_break_type_def by (simp split: if_split)
  ultimately show ?thesis using r by (simp add: severity_of_def)
qed

theorem stop_for_day_needs_distress_witness:
  "br_break_type (monitor_break_thresholds (no_signals\<lparr>sg_frustration_detected := True, sg_reteaching_exhausted := True\<rparr>)
      \<lparr>lp_working_memory_capacity = None, lp_attention_span = None\<rparr>) = Some BT_STOP_FOR_DAY \<and>
   triggered_thresholds (no_signals\<lparr>sg_frustration_detected := True, sg_reteaching_exhausted := True\<rparr>)
      \<lparr>lp_working_memory_capacity = None, lp_attention_span = None\<rparr> \<noteq> []"
proof -
  have "br_break_type (monitor_break_thresholds (no_signals\<lparr>sg_frustration_detected := True, sg_reteaching_exhausted := True\<rparr>)
      \<lparr>lp_working_memory_capacity = None, lp_attention_span = None\<rparr>) = Some BT_STOP_FOR_DAY" by code_simp
  from this stop_for_day_needs_distress[OF this] show ?thesis by blast
qed

text \<open>An accommodation is active only over five confirming lessons with three aligned signals, each seen in five lessons.\<close>

lemma accommodation_needs_five_lessons:
  assumes "a \<in> set (aa_active (analyse student g))"
  shows "5 \<le> as_lesson_count a \<and> 3 \<le> length (as_evidence a)"
  using assms
  by (auto simp: analyse_def confirmed_pattern_def accommodation_signal_of_def MIN_CONFIRMING_LESSONS_def MIN_ALIGNED_SIGNALS_def
      split: if_splits)

end
