(* ===== verification/Adaptation.thy ===== *)
theory Adaptation
  imports LessonSupport
begin

text \<open>
  The adaptation engine (\<^verbatim>\<open>intelligence/adaptation.py\<close>): from the signals of a running lesson it decides whether to change
  the lesson or to suggest another modality, under a rule of several aligned signals and rate limits taken from the request
  and from the history of the sitting; what it holds back is logged.  Its two repositories are modelled on the tables they
  read and write; the clock is an argument.
\<close>

subsection \<open>Entities\<close>

record segment_adaptation =
  sa_segment_id :: string
  sa_modality :: content_modality
  sa_density :: density_level
  sa_scaffolding :: scaffolding_level
  sa_priority :: int

record trigger_signal =
  tg_category :: string
  tg_name :: string
  tg_confidence :: score

record proactive_adjustment =
  pj_action :: string
  pj_reason :: string
  pj_confidence :: score
  pj_trigger_signals :: "trigger_signal list"
  pj_hint :: "string option"
  pj_guided_questions :: "string list"
  pj_segment_id :: "string option"
  pj_suggested_modality :: "content_modality option"

record modality_suggestion =
  mg_suggested :: content_modality
  mg_trigger_reason :: string
  mg_confidence :: confidence_level
  mg_adaptation_confidence :: score
  mg_trigger_signals :: "trigger_signal list"

record suppressed_attempt =
  su_attempted_type :: string
  su_reason :: string
  su_current_segment_id :: "string option"
  su_current_modality :: "content_modality option"
  su_suggested_modality :: "content_modality option"
  su_confidence :: score
  su_trigger_signals :: "trigger_signal list"

record adaptation_request =
  aq_student_id :: uuid
  aq_lesson_id :: uuid
  aq_mode :: adaptation_mode
  aq_segments :: "content_segment list"
  aq_signals :: runtime_signals
  aq_session_id :: "uuid option"

record adaptation_plan =
  ap_lesson_id :: uuid
  ap_segments :: "segment_adaptation list"
  ap_break_suggestion :: break_threshold_result
  ap_proactive_adjustment :: "proactive_adjustment option"
  ap_modality_suggestion :: "modality_suggestion option"
  ap_source :: string
  ap_suppressed_attempt :: "suppressed_attempt option"

subsection \<open>Limits\<close>

definition FIRST_ADAPTATION_CONFIDENCE_THRESHOLD :: score where "FIRST_ADAPTATION_CONFIDENCE_THRESHOLD = 60 / 100"
definition SUBSEQUENT_ADAPTATION_CONFIDENCE_THRESHOLD :: score where "SUBSEQUENT_ADAPTATION_CONFIDENCE_THRESHOLD = 70 / 100"
definition MIN_ALIGNED_SIGNAL_COUNT :: nat where "MIN_ALIGNED_SIGNAL_COUNT = 3"
definition MIN_ALIGNED_SIGNAL_CATEGORIES :: nat where "MIN_ALIGNED_SIGNAL_CATEGORIES = 2"
definition MIN_MODALITY_DWELL_SECONDS :: int where "MIN_MODALITY_DWELL_SECONDS = 90"
definition ADAPTATION_COOLDOWN_SECONDS :: int where "ADAPTATION_COOLDOWN_SECONDS = 120"
definition MAX_MODALITY_SHIFTS_PER_SESSION :: int where "MAX_MODALITY_SHIFTS_PER_SESSION = 3"
definition ERRORS_BEFORE_A_HINT :: int where "ERRORS_BEFORE_A_HINT = 2"
definition ERRORS_BEFORE_STEPPING_THROUGH :: int where "ERRORS_BEFORE_STEPPING_THROUGH = 3"

definition ADAPTATION_HISTORY_EVENT_TYPES :: "signal_event_type list" where
  "ADAPTATION_HISTORY_EVENT_TYPES = [SE_SIMPLIFY_TRIGGER, SE_EXPAND_TRIGGER, SE_SLOWER_TRIGGER,
     SE_MODALITY_SUGGESTION_ACCEPTED, SE_HINT_OFFERED, SE_GUIDED_QUESTION_SHOWN]"

definition MODALITY_SHIFT_EVENT_TYPES :: "signal_event_type list" where
  "MODALITY_SHIFT_EVENT_TYPES = [SE_MODALITY_SUGGESTION_ACCEPTED]"

definition DEPTH_BY_ACTION :: "string \<Rightarrow> string option" where
  "DEPTH_BY_ACTION action =
     (if action = ''simplify'' then Some ''simplified'' else if action = ''expand'' then Some ''expanded'' else None)"

subsection \<open>Evidence\<close>

definition trigger :: "string \<Rightarrow> string \<Rightarrow> score \<Rightarrow> trigger_signal" where
  "trigger category name confidence = \<lparr>tg_category = category, tg_name = name, tg_confidence = confidence\<rparr>"

text \<open>\<^verbatim>\<open>x is not None and y is not None and P(x, y)\<close>.\<close>

definition both :: "'a option \<Rightarrow> 'b option \<Rightarrow> ('a \<Rightarrow> 'b \<Rightarrow> bool) \<Rightarrow> bool" where
  "both x y P = (case (x, y) of (Some a, Some b) \<Rightarrow> P a b | _ \<Rightarrow> False)"

definition comprehension_declining :: "runtime_signals \<Rightarrow> bool" where
  "comprehension_declining s = (sg_accuracy_below_baseline s \<or> sg_response_time_below_baseline s)"

definition engagement_declining :: "runtime_signals \<Rightarrow> bool" where
  "engagement_declining s =
     (if sg_engagement_below_baseline_seconds s \<ge> 180 then True
      else if sg_replay_count_on_segment s \<ge> 3 then True
      else both (sg_engagement_score s) (sg_engagement_baseline s) (\<lambda>x b. x \<le> b - 15 / 100))"

definition trigger_signals :: "runtime_signals \<Rightarrow> learner_profile_snapshot \<Rightarrow> trigger_signal list" where
  "trigger_signals s p =
     (case (sg_comprehension_score s, sg_session_average_comprehension s) of
        (Some c, Some average) \<Rightarrow>
          fired (average - c \<ge> 20) (trigger ''comprehension'' ''comprehension_drop'' (min (95 / 100) (60 / 100 + (average - c) / 100)))
      | _ \<Rightarrow> []) @
     fired (sg_accuracy_below_baseline s) (trigger ''comprehension'' ''accuracy_below_baseline'' (72 / 100)) @
     fired (sg_response_time_below_baseline s \<and> (sg_accuracy_below_baseline s \<or>
         both (sg_comprehension_score s) (sg_session_average_comprehension s) (\<lambda>c average. average > c)))
       (trigger ''comprehension'' ''response_time_with_accuracy_shift'' (64 / 100)) @
     fired (sg_engagement_below_baseline_seconds s \<ge> 180) (trigger ''engagement'' ''engagement_below_baseline'' (70 / 100)) @
     fired (both (sg_engagement_score s) (sg_engagement_baseline s) (\<lambda>x b. x \<le> b - 15 / 100))
       (trigger ''engagement'' ''engagement_score_drop'' (70 / 100)) @
     fired (sg_replay_count_on_segment s \<ge> 3 \<and> comprehension_declining s)
       (trigger ''engagement'' ''replay_accumulation_with_comprehension_shift'' (68 / 100)) @
     fired (sg_consecutive_errors s \<ge> 2) (trigger ''performance'' ''repeated_errors'' (76 / 100)) @
     fired (low_working_memory p) (trigger ''profile'' ''working_memory_support_pattern'' (62 / 100))"

definition positive_trigger_signals :: "runtime_signals \<Rightarrow> trigger_signal list" where
  "positive_trigger_signals s =
     fired (both (sg_engagement_score s) (sg_engagement_baseline s) (\<lambda>x b. x \<ge> b + 2 / 10))
       (trigger ''engagement'' ''engagement_above_baseline'' (72 / 100)) @
     (case (sg_comprehension_score s, sg_session_average_comprehension s) of
        (Some c, Some average) \<Rightarrow>
          fired (c \<ge> average + 10) (trigger ''comprehension'' ''comprehension_at_or_above_session_average''
            (min (95 / 100) (70 / 100 + (c - average) / 100)))
      | _ \<Rightarrow> []) @
     fired (sg_consecutive_errors s = 0 \<and> sg_replay_count_on_segment s = 0)
       (trigger ''performance'' ''no_current_error_or_replay_pattern'' (66 / 100))"

definition combined_confidence :: "trigger_signal list \<Rightarrow> score" where
  "combined_confidence evidence =
     (if evidence = [] then 0 else round_to 2 (sum_list (map tg_confidence evidence) / of_nat (length evidence)))"

definition evidence_by_category :: "trigger_signal list \<Rightarrow> string set" where
  "evidence_by_category evidence = tg_category ` set evidence"

definition confidence_threshold :: "runtime_signals \<Rightarrow> score" where
  "confidence_threshold s =
     (if sg_session_adaptation_count s > 0 \<or> (case sg_session_modality_shift_count s of None \<Rightarrow> False | Some n \<Rightarrow> n > 0)
      then SUBSEQUENT_ADAPTATION_CONFIDENCE_THRESHOLD else FIRST_ADAPTATION_CONFIDENCE_THRESHOLD)"

definition evidence_allows_adaptation :: "runtime_signals \<Rightarrow> trigger_signal list \<Rightarrow> bool" where
  "evidence_allows_adaptation s evidence =
     (if length evidence < MIN_ALIGNED_SIGNAL_COUNT then False
      else if card (evidence_by_category evidence) < MIN_ALIGNED_SIGNAL_CATEGORIES then False
      else combined_confidence evidence \<ge> confidence_threshold s)"

subsection \<open>What to change\<close>

definition current_segment :: "adaptation_request \<Rightarrow> content_segment option" where
  "current_segment q =
     (case sg_current_segment_id (aq_signals q) of None \<Rightarrow> None | Some i \<Rightarrow> List.find (\<lambda>g. cg_id g = i) (aq_segments q))"

definition adjustment :: "string \<Rightarrow> string \<Rightarrow> score \<Rightarrow> trigger_signal list \<Rightarrow> string option \<Rightarrow> proactive_adjustment" where
  "adjustment action reason confidence evidence segment = \<lparr>pj_action = action, pj_reason = reason, pj_confidence = confidence,
     pj_trigger_signals = evidence, pj_hint = None, pj_guided_questions = [], pj_segment_id = segment, pj_suggested_modality = None\<rparr>"

definition stuck_adjustment ::
  "runtime_signals \<Rightarrow> content_segment option \<Rightarrow> score \<Rightarrow> trigger_signal list \<Rightarrow> proactive_adjustment option" where
  "stuck_adjustment s segment confidence evidence =
     (case segment of
        None \<Rightarrow> None
      | Some g \<Rightarrow>
        if sg_consecutive_errors s < ERRORS_BEFORE_A_HINT then None
        else let stepping_through = (sg_consecutive_errors s \<ge> ERRORS_BEFORE_STEPPING_THROUGH \<or>
                   sg_replay_count_on_segment s \<ge> 1 \<or> sg_misconception_confirmed s)
          in if stepping_through \<and> cg_guided_questions g \<noteq> [] \<and> sg_question_support_ready s then
               Some ((adjustment ''show_socratic_panel'' ''Several wrong answers after going back over this part.'' confidence evidence None)
                 \<lparr>pj_guided_questions := cg_guided_questions g\<rparr>)
             else (case cg_hints g of
                 h # _ \<Rightarrow> Some ((adjustment ''offer_hint'' ''Two wrong answers in a row on this part.'' confidence evidence None)\<lparr>pj_hint := Some h\<rparr>)
               | [] \<Rightarrow> None))"

definition expansion_due :: "runtime_signals \<Rightarrow> bool" where
  "expansion_due s =
     (let evidence = positive_trigger_signals s in
      length evidence \<ge> MIN_ALIGNED_SIGNAL_COUNT \<and>
      both (sg_comprehension_score s) (sg_session_average_comprehension s) (\<lambda>c average. c \<ge> average + 10) \<and>
      card (evidence_by_category evidence) \<ge> 2 \<and> combined_confidence evidence \<ge> confidence_threshold s)"

definition proactive_adjustment_for ::
  "runtime_signals \<Rightarrow> learner_profile_snapshot \<Rightarrow> content_segment option \<Rightarrow> proactive_adjustment option" where
  "proactive_adjustment_for s p segment =
     (if expansion_due s then
        Some (adjustment ''expand'' ''Engagement and comprehension are both above the current baseline.''
          (combined_confidence (positive_trigger_signals s)) (positive_trigger_signals s) (sg_current_segment_id s))
      else
        (let evidence = trigger_signals s p; confidence = combined_confidence evidence; categories = evidence_by_category evidence in
         if \<not> evidence_allows_adaptation s evidence then None
         else case stuck_adjustment s segment confidence evidence of
             Some a \<Rightarrow> Some (a\<lparr>pj_segment_id := sg_current_segment_id s\<rparr>)
           | None \<Rightarrow>
             if ''performance'' \<in> categories then
               Some (adjustment ''simplify'' ''Comprehension has dropped below this session's average.'' confidence evidence (sg_current_segment_id s))
             else if ''engagement'' \<in> categories \<and> ''comprehension'' \<in> categories then
               Some (adjustment ''slower'' ''Multiple signals suggest the current pace may be too high.'' confidence evidence (sg_current_segment_id s))
             else if ''comprehension'' \<in> categories then
               Some (adjustment ''simplify'' ''Comprehension has dropped below this session's average.'' confidence evidence (sg_current_segment_id s))
             else None))"

definition servable_adjustment :: "proactive_adjustment option \<Rightarrow> adaptation_request \<Rightarrow> proactive_adjustment option" where
  "servable_adjustment a q =
     (case a of
        None \<Rightarrow> None
      | Some j \<Rightarrow>
        (case DEPTH_BY_ACTION (pj_action j) of
           None \<Rightarrow> Some j
         | Some depth \<Rightarrow>
           if sg_current_depth (aq_signals q) = Some depth then None
           else case current_segment q of
               None \<Rightarrow> Some j
             | Some g \<Rightarrow> (case cg_available_depths g of None \<Rightarrow> Some j | Some ds \<Rightarrow> if depth \<in> set ds then Some j else None)))"

definition depth_suppression_reason :: "string \<Rightarrow> adaptation_request \<Rightarrow> string" where
  "depth_suppression_reason action q =
     (if DEPTH_BY_ACTION action \<noteq> None \<and> sg_current_depth (aq_signals q) = DEPTH_BY_ACTION action
      then ''depth_already_applied'' else ''depth_variant_unavailable'')"

definition modality_constraints_allow :: "runtime_signals \<Rightarrow> bool" where
  "modality_constraints_allow s =
     (if sg_same_segment_suggestion_shown s then False
      else if (case sg_segments_since_last_suggestion s of None \<Rightarrow> False | Some n \<Rightarrow> n < 2) then False
      else if sg_session_decline_count s \<ge> 2 then False else True)"

definition modality_suggestion_for :: "runtime_signals \<Rightarrow> learner_profile_snapshot \<Rightarrow> modality_suggestion option" where
  "modality_suggestion_for s p =
     (if \<not> modality_constraints_allow s then None
      else if \<not> comprehension_declining s \<or> \<not> engagement_declining s then None
      else case sg_current_modality s of
          None \<Rightarrow> None
        | Some current \<Rightarrow>
          (case List.find (\<lambda>v. v \<noteq> current \<and> v \<notin> set (sg_declined_modalities s)) (sg_available_modalities s) of
             None \<Rightarrow> None
           | Some candidate \<Rightarrow>
             (let evidence = trigger_signals s p in
              if \<not> evidence_allows_adaptation s evidence then None
              else Some \<lparr>mg_suggested = candidate, mg_trigger_reason = ''combined'', mg_confidence = CONF_MEDIUM,
                     mg_adaptation_confidence = combined_confidence evidence, mg_trigger_signals = evidence\<rparr>)))"

subsection \<open>The plan\<close>

definition preferred_modality :: "content_segment \<Rightarrow> content_modality" where
  "preferred_modality g = (case cg_available_modalities g of v # _ \<Rightarrow> v | [] \<Rightarrow> MOD_TEXT)"

definition adapt_segment :: "learner_profile_snapshot \<Rightarrow> content_segment \<Rightarrow> segment_adaptation" where
  "adapt_segment p g =
     \<lparr>sa_segment_id = cg_id g,
      sa_modality = (case cg_primary_modality g of Some v \<Rightarrow> v | None \<Rightarrow> preferred_modality g),
      sa_density = (if low_working_memory p then DEN_LOW else DEN_MEDIUM),
      sa_scaffolding = (case cg_scaffold_intensity g of
          Some SI_FULL_SUPPORT \<Rightarrow> SL_STRONG
        | Some SI_PARTIAL_SUPPORT \<Rightarrow> SL_STANDARD
        | Some SI_HINTS_ONLY \<Rightarrow> SL_LIGHT
        | Some SI_INDEPENDENT \<Rightarrow> SL_NONE
        | None \<Rightarrow> if low_working_memory p then SL_STRONG else SL_STANDARD),
      sa_priority = 50\<rparr>"

definition rule_based_adaptation_plan :: "adaptation_request \<Rightarrow> learner_profile_snapshot \<Rightarrow> adaptation_plan" where
  "rule_based_adaptation_plan q p =
     \<lparr>ap_lesson_id = aq_lesson_id q,
      ap_segments = sort_key (\<lambda>a. - sa_priority a) (map (adapt_segment p) (aq_segments q)),
      ap_break_suggestion = monitor_break_thresholds (aq_signals q) p,
      ap_proactive_adjustment = (if aq_mode q = MODE_IN_LESSON
        then servable_adjustment (proactive_adjustment_for (aq_signals q) p (current_segment q)) q else None),
      ap_modality_suggestion = (if aq_mode q = MODE_IN_LESSON then modality_suggestion_for (aq_signals q) p else None),
      ap_source = ''rule_based'', ap_suppressed_attempt = None\<rparr>"

subsection \<open>Suppression\<close>

definition has_suppressible_adaptation :: "adaptation_plan \<Rightarrow> bool" where
  "has_suppressible_adaptation plan = (ap_modality_suggestion plan \<noteq> None \<or> ap_proactive_adjustment plan \<noteq> None)"

definition plan_confidence :: "adaptation_plan \<Rightarrow> score" where
  "plan_confidence plan = (case ap_modality_suggestion plan of
     Some m \<Rightarrow> mg_adaptation_confidence m
   | None \<Rightarrow> (case ap_proactive_adjustment plan of Some a \<Rightarrow> pj_confidence a | None \<Rightarrow> 0))"

definition plan_trigger_signals :: "adaptation_plan \<Rightarrow> trigger_signal list" where
  "plan_trigger_signals plan = (case ap_modality_suggestion plan of
     Some m \<Rightarrow> mg_trigger_signals m
   | None \<Rightarrow> (case ap_proactive_adjustment plan of Some a \<Rightarrow> pj_trigger_signals a | None \<Rightarrow> []))"

definition suppression_attempt :: "adaptation_request \<Rightarrow> adaptation_plan \<Rightarrow> string \<Rightarrow> suppressed_attempt" where
  "suppression_attempt q plan reason =
     \<lparr>su_attempted_type = (if ap_modality_suggestion plan \<noteq> None then ''modality_shift'' else ''proactive_adjustment''),
      su_reason = reason, su_current_segment_id = sg_current_segment_id (aq_signals q),
      su_current_modality = sg_current_modality (aq_signals q),
      su_suggested_modality = map_option mg_suggested (ap_modality_suggestion plan),
      su_confidence = plan_confidence plan, su_trigger_signals = plan_trigger_signals plan\<rparr>"

definition suppress_plan :: "adaptation_plan \<Rightarrow> suppressed_attempt \<Rightarrow> adaptation_plan" where
  "suppress_plan plan attempt = plan\<lparr>ap_proactive_adjustment := None, ap_modality_suggestion := None, ap_suppressed_attempt := Some attempt\<rparr>"

definition rate_limit_violation_from_signals :: "adaptation_request \<Rightarrow> adaptation_plan \<Rightarrow> suppressed_attempt option" where
  "rate_limit_violation_from_signals q plan =
     (let s = aq_signals q in
      if \<not> has_suppressible_adaptation plan then None
      else if ap_modality_suggestion plan \<noteq> None \<and>
          (case sg_current_segment_elapsed_seconds s of None \<Rightarrow> False | Some n \<Rightarrow> n < MIN_MODALITY_DWELL_SECONDS) \<and> \<not> sg_check_miss_pending s
        then Some (suppression_attempt q plan ''minimum_dwell_time'')
      else if (case sg_seconds_since_last_adaptation s of None \<Rightarrow> False | Some n \<Rightarrow> n < ADAPTATION_COOLDOWN_SECONDS) \<and> \<not> sg_check_miss_pending s
        then Some (suppression_attempt q plan ''adaptation_cooldown'')
      else if ap_modality_suggestion plan \<noteq> None \<and>
          (case sg_session_modality_shift_count s of None \<Rightarrow> False | Some n \<Rightarrow> n \<ge> MAX_MODALITY_SHIFTS_PER_SESSION)
        then Some (suppression_attempt q plan ''session_modality_shift_cap'')
      else None)"

record rate_limit_state =
  rs_last_adaptation_at :: "datetime option"
  rs_modality_shift_count :: int

definition rate_limit_violation_from_history ::
  "adaptation_request \<Rightarrow> adaptation_plan \<Rightarrow> rate_limit_state \<Rightarrow> datetime \<Rightarrow> suppressed_attempt option" where
  "rate_limit_violation_from_history q plan st now =
     (if \<not> has_suppressible_adaptation plan then None
      else if (case rs_last_adaptation_at st of None \<Rightarrow> False
               | Some t \<Rightarrow> now - t < ADAPTATION_COOLDOWN_SECONDS * microseconds_per_second \<and> \<not> sg_check_miss_pending (aq_signals q))
        then Some (suppression_attempt q plan ''adaptation_cooldown'')
      else if ap_modality_suggestion plan \<noteq> None \<and> rs_modality_shift_count st \<ge> MAX_MODALITY_SHIFTS_PER_SESSION
        then Some (suppression_attempt q plan ''session_modality_shift_cap'')
      else None)"

subsection \<open>The repositories\<close>

record signal_event_row =
  se_student_id :: uuid
  se_session_id :: uuid
  se_event_type :: signal_event_type
  se_event_data :: json
  se_timestamp :: datetime

record learner_profile_row =
  pr_learner_id :: uuid
  pr_working_memory_capacity :: "int option"
  pr_attention_span :: "int option"

definition session_events :: "signal_event_row list \<Rightarrow> uuid \<Rightarrow> uuid \<Rightarrow> signal_event_type list \<Rightarrow> signal_event_row list" where
  "session_events events student sitting types =
     filter (\<lambda>e. se_student_id e = student \<and> se_session_id e = sitting \<and> se_event_type e \<in> set types) events"

definition rate_state :: "signal_event_row list \<Rightarrow> uuid \<Rightarrow> uuid \<Rightarrow> rate_limit_state" where
  "rate_state events student sitting =
     (let past = map se_timestamp (session_events events student sitting ADAPTATION_HISTORY_EVENT_TYPES)
      in \<lparr>rs_last_adaptation_at = (case past of [] \<Rightarrow> None | t # ts \<Rightarrow> Some (fold max ts t)),
          rs_modality_shift_count = int (length (session_events events student sitting MODALITY_SHIFT_EVENT_TYPES))\<rparr>)"

definition json_opt :: "('a \<Rightarrow> json) \<Rightarrow> 'a option \<Rightarrow> json" where
  "json_opt f x = (case x of None \<Rightarrow> JNull | Some v \<Rightarrow> f v)"

definition signal_snapshot :: "runtime_signals \<Rightarrow> json" where
  "signal_snapshot s = JObject
     [(''currentSegmentElapsedSeconds'', json_opt JInt (sg_current_segment_elapsed_seconds s)),
      (''secondsSinceLastAdaptation'', json_opt JInt (sg_seconds_since_last_adaptation s)),
      (''sessionModalityShiftCount'', json_opt JInt (sg_session_modality_shift_count s)),
      (''engagementBelowBaselineSeconds'', JInt (sg_engagement_below_baseline_seconds s)),
      (''comprehensionScore'', json_opt JFloat (sg_comprehension_score s)),
      (''sessionAverageComprehension'', json_opt JFloat (sg_session_average_comprehension s)),
      (''consecutiveErrors'', JInt (sg_consecutive_errors s)), (''replayCountOnSegment'', JInt (sg_replay_count_on_segment s)),
      (''accuracyBelowBaseline'', JBool (sg_accuracy_below_baseline s)),
      (''responseTimeBelowBaseline'', JBool (sg_response_time_below_baseline s))]"

definition suppressed_event_data :: "adaptation_request \<Rightarrow> suppressed_attempt \<Rightarrow> json" where
  "suppressed_event_data q a = JObject
     ([(''lessonId'', JString (uuid_str (aq_lesson_id q))), (''attemptedType'', JString (su_attempted_type a)), (''reason'', JString (su_reason a))] @
      (case su_current_segment_id a of None \<Rightarrow> [] | Some i \<Rightarrow> [(''segmentId'', JString i)]) @
      (case su_current_modality a of None \<Rightarrow> [] | Some v \<Rightarrow> [(''currentModality'', JString (content_modality_value v))]) @
      (case su_suggested_modality a of None \<Rightarrow> [] | Some v \<Rightarrow> [(''suggestedModality'', JString (content_modality_value v))]) @
      [(''adaptationConfidence'', JFloat (su_confidence a)),
       (''triggerSignals'', JList (map (\<lambda>t. JObject [(''category'', JString (tg_category t)), (''name'', JString (tg_name t)),
          (''confidence'', JFloat (tg_confidence t))]) (su_trigger_signals a))),
       (''signalSnapshot'', signal_snapshot (aq_signals q))])"

definition log_suppressed :: "signal_event_row list \<Rightarrow> adaptation_request \<Rightarrow> suppressed_attempt \<Rightarrow> datetime \<Rightarrow> signal_event_row list" where
  "log_suppressed events q a now =
     (case aq_session_id q of
        None \<Rightarrow> events
      | Some sitting \<Rightarrow> events @ [\<lparr>se_student_id = aq_student_id q, se_session_id = sitting,
          se_event_type = SE_ADAPTATION_SUPPRESSED, se_event_data = suppressed_event_data q a, se_timestamp = now\<rparr>])"

text \<open>A baseline value that is no number raises where it is first used as one; here that is where it is read.\<close>

definition get_profile ::
  "user_row list \<Rightarrow> learner_profile_row list \<Rightarrow> uuid \<Rightarrow> learning_fault + learner_profile_snapshot" where
  "get_profile us profiles student =
     (let profile = get_by pr_learner_id student profiles;
          stored = (case get_by u_id student us of None \<Rightarrow> JObject [] | Some u \<Rightarrow>
             if truthy (u_baseline_profile u) then u_baseline_profile u else JObject [])
      in case stored of
           JObject baseline \<Rightarrow>
             (case as_number (case map_of baseline ''working_memory_capacity'' of
                 Some v \<Rightarrow> v
               | None \<Rightarrow> (case profile of None \<Rightarrow> JNull | Some p \<Rightarrow> json_opt JInt (pr_working_memory_capacity p))) of
                Inl e \<Rightarrow> Inl e
              | Inr wm \<Rightarrow>
                (let span = dict_get baseline ''attention_span_minutes'' in
                 if truthy span then
                   (case as_number span of
                      Inr (Some x) \<Rightarrow> Inr \<lparr>lp_working_memory_capacity = wm, lp_attention_span = Some (round_half_even x)\<rparr>
                    | _ \<Rightarrow> Inl TypeError)
                 else Inr \<lparr>lp_working_memory_capacity = wm,
                       lp_attention_span = (case profile of None \<Rightarrow> None | Some p \<Rightarrow> pr_attention_span p)\<rparr>))
         | _ \<Rightarrow> Inl AttributeError)"

subsection \<open>The service\<close>

definition replay_attempt :: "adaptation_request \<Rightarrow> suppressed_attempt" where
  "replay_attempt q = \<lparr>su_attempted_type = ''modality_shift'', su_reason = ''insufficient_aligned_signals'',
     su_current_segment_id = sg_current_segment_id (aq_signals q), su_current_modality = sg_current_modality (aq_signals q),
     su_suggested_modality = None, su_confidence = 68 / 100,
     su_trigger_signals = [trigger ''engagement'' ''replay_accumulation_without_comprehension_confirmation'' (68 / 100)]\<rparr>"

text \<open>
  The rate-limit repository is optional: \<open>limits\<close> says whether the service has one.  The result is the plan and the
  signal events after the call.
\<close>

definition log_if :: "bool \<Rightarrow> signal_event_row list \<Rightarrow> adaptation_request \<Rightarrow> suppressed_attempt \<Rightarrow> datetime \<Rightarrow> signal_event_row list" where
  "log_if limits events q a now = (if limits \<and> aq_session_id q \<noteq> None then log_suppressed events q a now else events)"

definition apply_rate_limits ::
  "bool \<Rightarrow> datetime \<Rightarrow> adaptation_request \<Rightarrow> adaptation_plan \<Rightarrow> signal_event_row list \<Rightarrow> adaptation_plan \<times> signal_event_row list" where
  "apply_rate_limits limits now q plan events =
     (let attempt = (case rate_limit_violation_from_signals q plan of
          Some a \<Rightarrow> Some a
        | None \<Rightarrow> (case aq_session_id q of
            Some sitting \<Rightarrow> if limits then rate_limit_violation_from_history q plan (rate_state events (aq_student_id q) sitting) now else None
          | None \<Rightarrow> None))
      in case attempt of
           None \<Rightarrow> (plan, events)
         | Some a \<Rightarrow> (suppress_plan plan a, log_if limits events q a now))"

definition adapt_for :: "bool \<Rightarrow> datetime \<Rightarrow> adaptation_request \<Rightarrow> learner_profile_snapshot \<Rightarrow> signal_event_row list \<Rightarrow>
    adaptation_plan \<times> signal_event_row list" where
  "adapt_for limits now q p events =
     (let plan = rule_based_adaptation_plan q p in
      if aq_mode q = MODE_IN_LESSON then
        (let candidate = proactive_adjustment_for (aq_signals q) p (current_segment q);
             (plan1, events1) =
               (case (candidate, ap_proactive_adjustment plan) of
                  (Some c, None) \<Rightarrow>
                    (let a = suppression_attempt q (plan\<lparr>ap_proactive_adjustment := Some c\<rparr>) (depth_suppression_reason (pj_action c) q)
                     in (plan\<lparr>ap_suppressed_attempt := Some a\<rparr>, log_if limits events q a now))
                | _ \<Rightarrow>
                  if sg_replay_count_on_segment (aq_signals q) \<ge> 3 then
                    (plan\<lparr>ap_suppressed_attempt := Some (replay_attempt q)\<rparr>, log_if limits events q (replay_attempt q) now)
                  else (plan, events))
         in apply_rate_limits limits now q plan1 events1)
      else (plan, events))"

definition adapt :: "bool \<Rightarrow> datetime \<Rightarrow> adaptation_request \<Rightarrow> user_row list \<Rightarrow> learner_profile_row list \<Rightarrow> signal_event_row list \<Rightarrow>
    learning_fault + adaptation_plan \<times> signal_event_row list" where
  "adapt limits now q us profiles events =
     (case get_profile us profiles (aq_student_id q) of Inl e \<Rightarrow> Inl e | Inr p \<Rightarrow> Inr (adapt_for limits now q p events))"

subsection \<open>Which plans change a lesson\<close>

lemma logged_history:
  "SE_ADAPTATION_SUPPRESSED \<notin> set types \<Longrightarrow> session_events (log_if limits events q a now) student sitting types = session_events events student sitting types"
  by (simp add: log_if_def log_suppressed_def session_events_def split: option.split)

lemma rate_state_logged [simp]: "rate_state (log_if limits events q a now) student sitting = rate_state events student sitting"
  by (simp add: rate_state_def logged_history ADAPTATION_HISTORY_EVENT_TYPES_def MODALITY_SHIFT_EVENT_TYPES_def)

lemma apply_rate_limits_passed:
  assumes "apply_rate_limits limits now q plan events = (plan', events')" "has_suppressible_adaptation plan'"
  shows "plan' = plan \<and> rate_limit_violation_from_signals q plan = None \<and>
    (\<forall>sitting. limits \<and> aq_session_id q = Some sitting \<longrightarrow>
       rate_limit_violation_from_history q plan (rate_state events (aq_student_id q) sitting) now = None)"
  using assms by (auto simp: apply_rate_limits_def suppress_plan_def has_suppressible_adaptation_def Let_def split: option.splits if_splits)

lemma violation_cong:
  assumes "ap_proactive_adjustment plan' = ap_proactive_adjustment plan" "ap_modality_suggestion plan' = ap_modality_suggestion plan"
  shows "rate_limit_violation_from_signals q plan' = rate_limit_violation_from_signals q plan"
    "rate_limit_violation_from_history q plan' st now = rate_limit_violation_from_history q plan st now"
    "has_suppressible_adaptation plan' = has_suppressible_adaptation plan"
proof -
  have eq: "suppression_attempt q plan' r = suppression_attempt q plan r" for r
    using assms by (cases "ap_modality_suggestion plan")
      (simp_all add: suppression_attempt_def plan_confidence_def plan_trigger_signals_def)
  show "rate_limit_violation_from_signals q plan' = rate_limit_violation_from_signals q plan"
    "rate_limit_violation_from_history q plan' st now = rate_limit_violation_from_history q plan st now"
    "has_suppressible_adaptation plan' = has_suppressible_adaptation plan"
    unfolding rate_limit_violation_from_signals_def rate_limit_violation_from_history_def has_suppressible_adaptation_def assms
      Let_def eq
    by (rule refl)+
qed

lemma served_plan:
  assumes "adapt_for limits now q p events = (plan, events')" "has_suppressible_adaptation plan"
  defines "base \<equiv> rule_based_adaptation_plan q p"
  shows "aq_mode q = MODE_IN_LESSON \<and> ap_proactive_adjustment plan = ap_proactive_adjustment base \<and>
    ap_modality_suggestion plan = ap_modality_suggestion base \<and> rate_limit_violation_from_signals q base = None \<and>
    (\<forall>sitting. limits \<and> aq_session_id q = Some sitting \<longrightarrow>
       rate_limit_violation_from_history q base (rate_state events (aq_student_id q) sitting) now = None)"
proof (cases "aq_mode q = MODE_IN_LESSON")
  case False
  then have "plan = base" using assms(1) by (simp add: adapt_for_def base_def Let_def)
  then show ?thesis using False assms(2) by (simp add: base_def rule_based_adaptation_plan_def has_suppressible_adaptation_def)
next
  case True
  obtain plan1 events1 where run: "apply_rate_limits limits now q plan1 events1 = (plan, events')"
    and same: "ap_proactive_adjustment plan1 = ap_proactive_adjustment base" "ap_modality_suggestion plan1 = ap_modality_suggestion base"
    and ev: "\<And>x y. rate_state events1 x y = rate_state events x y"
    using assms(1) True unfolding adapt_for_def base_def Let_def by (auto split: option.splits if_splits prod.splits)
  show ?thesis using apply_rate_limits_passed[OF run assms(2)] same violation_cong[OF same] ev True by auto
qed

lemma servable_is_candidate: "servable_adjustment a q = Some j \<Longrightarrow> a = Some j"
  by (auto simp: servable_adjustment_def split: option.splits if_splits)

lemma stuck_evidence:
  "stuck_adjustment s g c ev = Some j \<Longrightarrow> pj_trigger_signals j = ev \<and> pj_confidence j = c"
  by (auto simp: stuck_adjustment_def adjustment_def Let_def split: option.splits if_splits list.splits)

definition well_evidenced :: "runtime_signals \<Rightarrow> trigger_signal list \<Rightarrow> score \<Rightarrow> bool" where
  "well_evidenced s evidence confidence = (3 \<le> length evidence \<and> 2 \<le> card (evidence_by_category evidence) \<and>
     confidence = combined_confidence evidence \<and> confidence_threshold s \<le> confidence)"

lemma evidence_allows_iff: "evidence_allows_adaptation s ev \<longleftrightarrow> well_evidenced s ev (combined_confidence ev)"
  by (auto simp: evidence_allows_adaptation_def well_evidenced_def MIN_ALIGNED_SIGNAL_COUNT_def MIN_ALIGNED_SIGNAL_CATEGORIES_def)

lemma adjustment_evidence:
  assumes "proactive_adjustment_for s p g = Some j"
  shows "well_evidenced s (pj_trigger_signals j) (pj_confidence j)"
proof (cases "expansion_due s")
  case True
  then show ?thesis using assms
    by (auto simp: proactive_adjustment_for_def expansion_due_def well_evidenced_def adjustment_def MIN_ALIGNED_SIGNAL_COUNT_def Let_def)
next
  case False
  let ?ev = "trigger_signals s p"
  have ok: "well_evidenced s ?ev (combined_confidence ?ev)"
    using assms False by (auto simp: proactive_adjustment_for_def evidence_allows_iff Let_def split: if_splits)
  moreover have "pj_trigger_signals j = ?ev \<and> pj_confidence j = combined_confidence ?ev"
    using assms False
    by (cases "stuck_adjustment s g (combined_confidence ?ev) ?ev")
      (auto simp: proactive_adjustment_for_def adjustment_def Let_def dest: stuck_evidence split: if_splits)
  ultimately show ?thesis by simp
qed

lemma suggestion_evidence:
  assumes "modality_suggestion_for s p = Some m"
  shows "well_evidenced s (mg_trigger_signals m) (mg_adaptation_confidence m) \<and> mg_suggested m \<in> set (sg_available_modalities s) \<and>
    sg_current_modality s \<noteq> None \<and> sg_current_modality s \<noteq> Some (mg_suggested m) \<and> mg_suggested m \<notin> set (sg_declined_modalities s)"
  using assms
  by (auto simp: modality_suggestion_for_def Let_def evidence_allows_iff dest: find_SomeD split: if_splits option.splits)

text \<open>
  Claim C36.  A lesson is changed on evidence only.  Whatever the engine serves, an adjustment or a suggestion of another modality, it serves
  inside a lesson, on at least three aligned signals of at least two kinds whose combined confidence reaches the threshold in
  force; and a suggested modality is one the lesson has, not the current one and not one the child turned down.
\<close>

theorem lesson_changes_need_evidence:
  assumes "adapt_for limits now q p events = (plan, events')"
  shows "(\<forall>j. ap_proactive_adjustment plan = Some j \<longrightarrow>
        aq_mode q = MODE_IN_LESSON \<and> well_evidenced (aq_signals q) (pj_trigger_signals j) (pj_confidence j)) \<and>
    (\<forall>m. ap_modality_suggestion plan = Some m \<longrightarrow>
        aq_mode q = MODE_IN_LESSON \<and> well_evidenced (aq_signals q) (mg_trigger_signals m) (mg_adaptation_confidence m) \<and>
        mg_suggested m \<in> set (sg_available_modalities (aq_signals q)) \<and> sg_current_modality (aq_signals q) \<noteq> Some (mg_suggested m) \<and>
        mg_suggested m \<notin> set (sg_declined_modalities (aq_signals q)))"
proof (cases "has_suppressible_adaptation plan")
  case True
  note served = served_plan[OF assms True]
  have "proactive_adjustment_for (aq_signals q) p (current_segment q) = Some j" if "ap_proactive_adjustment plan = Some j" for j
    using that served servable_is_candidate by (auto simp: rule_based_adaptation_plan_def)
  moreover have "modality_suggestion_for (aq_signals q) p = Some m" if "ap_modality_suggestion plan = Some m" for m
    using that served by (auto simp: rule_based_adaptation_plan_def)
  ultimately show ?thesis using adjustment_evidence suggestion_evidence served by blast
qed (simp add: has_suppressible_adaptation_def)

subsection \<open>Rate limits\<close>

lemma fold_max_start: "(t :: 'a :: linorder) \<le> fold max ts t"
proof (induction ts arbitrary: t)
  case (Cons u us)
  then have "max u t \<le> fold max us (max u t)" .
  then show ?case by simp
qed simp

lemma fold_max_ge: "x \<in> set (t # ts) \<Longrightarrow> x \<le> fold max ts (t :: 'a :: linorder)"
proof (induction ts arbitrary: t)
  case (Cons u us)
  have "max u t \<le> fold max us (max u t)" by (rule fold_max_start)
  then show ?case using Cons.IH[of "max u t"] Cons.prems by auto
qed simp

lemma last_adaptation_latest:
  assumes "e \<in> set (session_events events student sitting ADAPTATION_HISTORY_EVENT_TYPES)"
  shows "\<exists>t. rs_last_adaptation_at (rate_state events student sitting) = Some t \<and> se_timestamp e \<le> t"
proof (cases "map se_timestamp (session_events events student sitting ADAPTATION_HISTORY_EVENT_TYPES)")
  case Nil
  then show ?thesis using assms by simp
next
  case (Cons t ts)
  have "se_timestamp e \<in> set (t # ts)" using assms unfolding Cons[symmetric] by simp
  then have "se_timestamp e \<le> fold max ts t" by (rule fold_max_ge)
  then show ?thesis using Cons by (simp add: rate_state_def Let_def)
qed

text \<open>
  The engine leaves a child in peace.  What it serves while no missed check is pending comes at least two minutes after the last
  adaptation the client reports and after every adaptation recorded for the sitting, and a modality is suggested only after ninety seconds on
  the section; with or without a missed check, no modality is suggested after three shifts in the sitting.
\<close>

theorem rate_limits_are_kept:
  assumes "adapt_for True now q p events = (plan, events')" "aq_session_id q = Some sitting" "has_suppressible_adaptation plan"
  shows "(\<not> sg_check_miss_pending (aq_signals q) \<longrightarrow>
       (\<forall>n. sg_seconds_since_last_adaptation (aq_signals q) = Some n \<longrightarrow> 120 \<le> n) \<and>
       (\<forall>e \<in> set (session_events events (aq_student_id q) sitting ADAPTATION_HISTORY_EVENT_TYPES).
          120 * microseconds_per_second \<le> now - se_timestamp e) \<and>
       (ap_modality_suggestion plan \<noteq> None \<longrightarrow> (\<forall>n. sg_current_segment_elapsed_seconds (aq_signals q) = Some n \<longrightarrow> 90 \<le> n))) \<and>
    (ap_modality_suggestion plan \<noteq> None \<longrightarrow>
       length (session_events events (aq_student_id q) sitting MODALITY_SHIFT_EVENT_TYPES) < 3 \<and>
       (\<forall>n. sg_session_modality_shift_count (aq_signals q) = Some n \<longrightarrow> n < 3))"
proof -
  let ?s = "aq_signals q" and ?st = "rate_state events (aq_student_id q) sitting"
  note served = served_plan[OF assms(1,3)]
  have viol: "rate_limit_violation_from_signals q plan = None" "rate_limit_violation_from_history q plan ?st now = None"
    using served assms(2) violation_cong[of plan "rule_based_adaptation_plan q p"] by auto
  have now: "(\<forall>n. sg_seconds_since_last_adaptation ?s = Some n \<longrightarrow> 120 \<le> n \<or> sg_check_miss_pending ?s)"
    "ap_modality_suggestion plan \<noteq> None \<longrightarrow> (\<forall>n. sg_current_segment_elapsed_seconds ?s = Some n \<longrightarrow> 90 \<le> n \<or> sg_check_miss_pending ?s)"
    "ap_modality_suggestion plan \<noteq> None \<longrightarrow> (\<forall>n. sg_session_modality_shift_count ?s = Some n \<longrightarrow> n < 3)"
    using viol(1) assms(3) unfolding rate_limit_violation_from_signals_def Let_def
    by (auto simp: ADAPTATION_COOLDOWN_SECONDS_def MIN_MODALITY_DWELL_SECONDS_def MAX_MODALITY_SHIFTS_PER_SESSION_def
        split: if_splits option.splits)
  have past: "(\<forall>t. rs_last_adaptation_at ?st = Some t \<longrightarrow> 120 * microseconds_per_second \<le> now - t \<or> sg_check_miss_pending ?s)"
    "ap_modality_suggestion plan \<noteq> None \<longrightarrow> rs_modality_shift_count ?st < 3"
    using viol(2) assms(3) unfolding rate_limit_violation_from_history_def
    by (auto simp: ADAPTATION_COOLDOWN_SECONDS_def MAX_MODALITY_SHIFTS_PER_SESSION_def split: if_splits option.splits)
  have "120 * microseconds_per_second \<le> now - se_timestamp e"
    if "e \<in> set (session_events events (aq_student_id q) sitting ADAPTATION_HISTORY_EVENT_TYPES)" "\<not> sg_check_miss_pending ?s" for e
  proof -
    obtain t where "rs_last_adaptation_at ?st = Some t" "se_timestamp e \<le> t" using last_adaptation_latest[OF \<open>e \<in> _\<close>] by blast
    then show ?thesis using past(1) that(2) by fastforce
  qed
  moreover have "rs_modality_shift_count ?st = int (length (session_events events (aq_student_id q) sitting MODALITY_SHIFT_EVENT_TYPES))"
    by (simp add: rate_state_def Let_def)
  ultimately show ?thesis using now past(2) by auto
qed

subsection \<open>Witnesses\<close>

definition struggling :: runtime_signals where
  "struggling = no_signals\<lparr>sg_current_segment_id := Some ''s1'', sg_current_modality := Some MOD_TEXT,
     sg_available_modalities := [MOD_TEXT, MOD_AUDIO], sg_accuracy_below_baseline := True, sg_consecutive_errors := 2,
     sg_replay_count_on_segment := 3, sg_current_segment_elapsed_seconds := Some 200\<rparr>"

definition struggling_request :: adaptation_request where
  "struggling_request = \<lparr>aq_student_id = 10, aq_lesson_id = 4, aq_mode = MODE_IN_LESSON,
     aq_segments = [\<lparr>cg_id = ''s1'', cg_segment_type = SEG_EXPLANATION, cg_available_modalities = [MOD_TEXT], cg_concept_id = None,
       cg_estimated_minutes = None, cg_passive = False, cg_title = None, cg_available_depths = Some [''simplified''], cg_hints = [],
       cg_guided_questions = [], cg_scaffold_intensity = None, cg_primary_modality = None\<rparr>],
     aq_signals = struggling, aq_session_id = Some 3\<rparr>"

definition plain_profile :: learner_profile_snapshot where
  "plain_profile = \<lparr>lp_working_memory_capacity = None, lp_attention_span = None\<rparr>"

definition sample_plan :: "adaptation_plan \<times> signal_event_row list" where
  "sample_plan = adapt_for True 0 struggling_request plain_profile []"

lemma sample_plan_eq: "adapt_for True 0 struggling_request plain_profile [] = (fst sample_plan, snd sample_plan)"
  by (simp add: sample_plan_def)

theorem lesson_changes_need_evidence_witness:
  "\<exists>j m. ap_proactive_adjustment (fst sample_plan) = Some j \<and> 3 \<le> length (pj_trigger_signals j) \<and>
     ap_modality_suggestion (fst sample_plan) = Some m \<and> mg_suggested m \<in> {MOD_TEXT, MOD_AUDIO}"
proof -
  have "ap_proactive_adjustment (fst sample_plan) \<noteq> None" "ap_modality_suggestion (fst sample_plan) \<noteq> None" by code_simp+
  moreover have "set (sg_available_modalities (aq_signals struggling_request)) = {MOD_TEXT, MOD_AUDIO}"
    by (simp add: struggling_request_def struggling_def)
  ultimately show ?thesis using lesson_changes_need_evidence[OF sample_plan_eq] by (auto simp: well_evidenced_def)
qed

theorem rate_limits_are_kept_witness:
  "ap_modality_suggestion (fst sample_plan) \<noteq> None \<and> length (session_events [] 10 3 MODALITY_SHIFT_EVENT_TYPES) < 3"
proof -
  have "has_suppressible_adaptation (fst sample_plan)" "aq_session_id struggling_request = Some 3"
    "ap_modality_suggestion (fst sample_plan) \<noteq> None" "aq_student_id struggling_request = 10" by code_simp+
  then show ?thesis using rate_limits_are_kept[OF sample_plan_eq] by auto
qed

text \<open>
  An adaptation that is served is also reported as suppressed.  For a child with three replays and enough evidence the plan carries the adjustment
  and the suggestion, and at the same time a suppressed attempt (logged as an event of the sitting) that says the signals were not enough.
\<close>

theorem served_adaptation_is_logged_as_suppressed:
  "ap_proactive_adjustment (fst sample_plan) \<noteq> None \<and> ap_modality_suggestion (fst sample_plan) \<noteq> None \<and>
   map_option su_reason (ap_suppressed_attempt (fst sample_plan)) = Some ''insufficient_aligned_signals'' \<and>
   map se_event_type (snd sample_plan) = [SE_ADAPTATION_SUPPRESSED]"
  by code_simp

end
