(* ===== verification/AttentionFlags.thy ===== *)
theory AttentionFlags
  imports Adaptation
begin

text \<open>
  Attention flags (\<^verbatim>\<open>nevo/attention_flags/service.py\<close>): how engaged a child was in a sitting, when a drop is worth a teacher's look, and
  the flag, the recommendation and the escalation that follow.  How Python reads a number from text, how \<^verbatim>\<open>json.loads\<close> parses and the reply of the
  language-model gateway are arguments.  The clock of the service and of the database read the same instant.
\<close>

subsection \<open>Data\<close>

datatype attention_flag_type = AF_ENGAGEMENT_DECLINE | AF_SUDDEN_CHANGE

record engagement_snapshot =
  es_session_id :: uuid
  es_started_at :: datetime
  es_engagement_score :: score
  es_event_count :: nat
  es_lesson_id :: "uuid option"

record attention_flag_draft =
  fd_student_id :: uuid
  fd_flag_type :: attention_flag_type
  fd_description :: string
  fd_session_ids :: "uuid list"
  fd_baseline_score :: "score option"
  fd_current_score :: "score option"

record attention_flag_row =
  fl_id :: uuid
  fl_student_id :: uuid
  fl_flag_type :: attention_flag_type
  fl_description :: string
  fl_evidence_series :: "score list"
  fl_action_targets :: "string list"
  fl_generated_at :: datetime
  fl_acknowledged_at :: "datetime option"
  fl_acknowledged_by :: "uuid option"
  fl_resolved_at :: "datetime option"

record recommendation_row =
  ir_id :: uuid
  ir_attention_flag_id :: uuid
  ir_student_id :: uuid
  ir_lesson_id :: "uuid option"
  ir_recommendation_text :: string
  ir_ai_gateway_call_id :: "uuid option"
  ir_generated_at :: datetime

record escalation_row =
  ec_id :: uuid
  ec_attention_flag_id :: "uuid option"
  ec_student_id :: uuid
  ec_teacher_id :: uuid
  ec_teacher_note :: string
  ec_routed_to :: string
  ec_generated_at :: datetime
  ec_acknowledged_at :: "datetime option"

record attention_db =
  at_sessions :: "lesson_session_row list"
  at_events :: "signal_event_row list"
  at_flags :: "attention_flag_row list"
  at_recommendations :: "recommendation_row list"
  at_escalations :: "escalation_row list"

definition STANDARD_DECLINE_MINIMUM_SESSIONS :: nat where "STANDARD_DECLINE_MINIMUM_SESSIONS = 3"
definition STANDARD_DECLINE_RECENT_SESSIONS :: nat where "STANDARD_DECLINE_RECENT_SESSIONS = 2"
definition STANDARD_DECLINE_THRESHOLD :: score where "STANDARD_DECLINE_THRESHOLD = 15 / 100"
definition SUDDEN_CHANGE_THRESHOLD :: score where "SUDDEN_CHANGE_THRESHOLD = 35 / 100"

subsection \<open>Engagement\<close>

definition clamp_score :: "score \<Rightarrow> score" where
  "clamp_score x = max 0 (min x 1)"

definition normalize_score :: "score \<Rightarrow> score" where
  "normalize_score x = clamp_score (if x > 1 then x / 100 else x)"

definition ENGAGEMENT_KEYS :: "string list" where
  "ENGAGEMENT_KEYS = [''engagementScore'', ''engagement_score'', ''engagement'', ''score'', ''value'']"

fun first_score :: "(string \<Rightarrow> score option) \<Rightarrow> (string \<times> json) list \<Rightarrow> string list \<Rightarrow> score option" where
  "first_score number kvs [] = None"
| "first_score number kvs (k # ks) =
     (case dict_get kvs k of
        JInt n \<Rightarrow> Some (normalize_score (of_int n))
      | JFloat x \<Rightarrow> Some (normalize_score x)
      | JBool b \<Rightarrow> Some (normalize_score (if b then 1 else 0))
      | JString s \<Rightarrow> (case number s of Some x \<Rightarrow> Some (normalize_score x) | None \<Rightarrow> first_score number kvs ks)
      | _ \<Rightarrow> first_score number kvs ks)"

definition extract_engagement_score :: "(string \<Rightarrow> score option) \<Rightarrow> json \<Rightarrow> learning_fault + score option" where
  "extract_engagement_score number data =
     (case data of JObject kvs \<Rightarrow> Inr (first_score number kvs ENGAGEMENT_KEYS) | _ \<Rightarrow> Inl AttributeError)"

fun event_scores :: "(string \<Rightarrow> score option) \<Rightarrow> signal_event_row list \<Rightarrow> learning_fault + score list" where
  "event_scores number [] = Inr []"
| "event_scores number (e # es) =
     (case extract_engagement_score number (se_event_data e) of
        Inl f \<Rightarrow> Inl f
      | Inr x \<Rightarrow> (case event_scores number es of Inl f \<Rightarrow> Inl f
                  | Inr xs \<Rightarrow> Inr (case x of None \<Rightarrow> xs | Some v \<Rightarrow> v # xs)))"

definition mean :: "score list \<Rightarrow> score" where
  "mean xs = sum_list xs / of_nat (length xs)"

definition session_engagement_score :: "(string \<Rightarrow> score option) \<Rightarrow> signal_event_row list \<Rightarrow> learning_fault + score" where
  "session_engagement_score number es =
     (let exit_attempts = count_where (\<lambda>e. se_event_type e = SE_EXIT_ATTEMPT) es;
          positive_events = count_where (\<lambda>e. se_event_type e \<in> {SE_BREAK_TAKEN, SE_MODALITY_SUGGESTION_ACCEPTED, SE_CALCULATION_COMPLETE}) es in
      case event_scores number es of
        Inl f \<Rightarrow> Inl f
      | Inr scores \<Rightarrow>
          Inr (if scores \<noteq> [] then clamp_score (mean scores)
               else clamp_score (65 / 100 + of_nat (min positive_events 3) * (5 / 100) - of_nat (min exit_attempts 4) * (12 / 100))))"

subsection \<open>Detection\<close>

definition average_score :: "engagement_snapshot list \<Rightarrow> score" where
  "average_score ss = mean (map es_engagement_score ss)"

definition detect_sudden_change :: "uuid \<Rightarrow> engagement_snapshot list \<Rightarrow> attention_flag_draft option" where
  "detect_sudden_change student ss =
     (if butlast ss = [] then None
      else (let latest = last ss; baseline = average_score (butlast ss) in
        if es_engagement_score latest \<le> baseline - SUDDEN_CHANGE_THRESHOLD
        then Some \<lparr>fd_student_id = student, fd_flag_type = AF_SUDDEN_CHANGE,
          fd_description = ''The most recent session diverged sharply from this student's usual engagement pattern and may need timely teacher review.'',
          fd_session_ids = [es_session_id latest], fd_baseline_score = Some (round_to 3 baseline),
          fd_current_score = Some (round_to 3 (es_engagement_score latest))\<rparr>
        else None))"

definition recent_sessions :: "engagement_snapshot list \<Rightarrow> engagement_snapshot list" where
  "recent_sessions ss = drop (length ss - STANDARD_DECLINE_RECENT_SESSIONS) ss"

definition baseline_sessions :: "engagement_snapshot list \<Rightarrow> engagement_snapshot list" where
  "baseline_sessions ss = take (length ss - STANDARD_DECLINE_RECENT_SESSIONS) ss"

definition detect_engagement_decline :: "uuid \<Rightarrow> engagement_snapshot list \<Rightarrow> attention_flag_draft option" where
  "detect_engagement_decline student ss =
     (if length ss < STANDARD_DECLINE_MINIMUM_SESSIONS \<or> baseline_sessions ss = [] then None
      else (let recent = recent_sessions ss; baseline = average_score (baseline_sessions ss) in
        if list_all (\<lambda>s. es_engagement_score s \<le> baseline - STANDARD_DECLINE_THRESHOLD) recent
        then Some \<lparr>fd_student_id = student, fd_flag_type = AF_ENGAGEMENT_DECLINE,
          fd_description = ''Engagement signals have remained below this student's recent baseline across two consecutive sessions.'',
          fd_session_ids = map es_session_id recent, fd_baseline_score = Some (round_to 3 baseline),
          fd_current_score = Some (round_to 3 (average_score recent))\<rparr>
        else None))"

definition detect_attention_flag :: "uuid \<Rightarrow> engagement_snapshot list \<Rightarrow> attention_flag_draft option" where
  "detect_attention_flag student ss =
     (let ordered = sort_key es_started_at ss in
      if length ordered < 2 then None
      else (case detect_sudden_change student ordered of
              Some draft \<Rightarrow> Some draft
            | None \<Rightarrow> detect_engagement_decline student ordered))"

subsection \<open>The repository\<close>

fun collect_snapshots :: "(string \<Rightarrow> score option) \<Rightarrow> signal_event_row list \<Rightarrow> uuid \<Rightarrow> lesson_session_row list \<Rightarrow> learning_fault + engagement_snapshot list" where
  "collect_snapshots number events student [] = Inr []"
| "collect_snapshots number events student (s # ss) =
     (let es = filter (\<lambda>e. se_student_id e = student \<and> se_session_id e = ls_id s) events in
      case session_engagement_score number es of
        Inl f \<Rightarrow> Inl f
      | Inr x \<Rightarrow> (case collect_snapshots number events student ss of Inl f \<Rightarrow> Inl f
                  | Inr rest \<Rightarrow> Inr (\<lparr>es_session_id = ls_id s, es_started_at = ls_started_at s, es_engagement_score = x,
                      es_event_count = length es, es_lesson_id = ls_lesson_id s\<rparr> # rest)))"

definition load_detection_context :: "(string \<Rightarrow> score option) \<Rightarrow> attention_db \<Rightarrow> uuid \<Rightarrow> learning_fault + engagement_snapshot list" where
  "load_detection_context number d student =
     collect_snapshots number (at_events d) student
       (sort_key ls_started_at (take 8 (sort_key (\<lambda>s. - ls_started_at s) (filter (\<lambda>s. ls_student_id s = student) (at_sessions d)))))"

definition open_flags :: "attention_db \<Rightarrow> uuid \<Rightarrow> attention_flag_row list" where
  "open_flags d student = filter (\<lambda>f. fl_student_id f = student \<and> fl_resolved_at f = None) (at_flags d)"

definition matching_flag :: "attention_db \<Rightarrow> uuid \<Rightarrow> attention_flag_draft option \<Rightarrow> attention_flag_row option" where
  "matching_flag d student draft =
     (case draft of None \<Rightarrow> None
      | Some fd \<Rightarrow> List.find (\<lambda>f. fl_flag_type f = fd_flag_type fd) (sort_key (\<lambda>f. - fl_generated_at f) (open_flags d student)))"

definition resolve_others :: "uuid \<Rightarrow> attention_flag_row option \<Rightarrow> datetime \<Rightarrow> attention_db \<Rightarrow> attention_db" where
  "resolve_others student matching now d = d\<lparr>at_flags :=
     update_where (\<lambda>f. fl_student_id f = student \<and> fl_resolved_at f = None \<and> Some (fl_id f) \<noteq> map_option fl_id matching)
       (\<lambda>f. f\<lparr>fl_resolved_at := Some now\<rparr>) (at_flags d)\<rparr>"

definition new_flag :: "uuid \<Rightarrow> attention_flag_draft \<Rightarrow> datetime \<Rightarrow> attention_flag_row" where
  "new_flag i fd now = \<lparr>fl_id = i, fl_student_id = fd_student_id fd, fl_flag_type = fd_flag_type fd, fl_description = fd_description fd,
     fl_evidence_series = (case fd_baseline_score fd of None \<Rightarrow> [] | Some x \<Rightarrow> [x]) @ (case fd_current_score fd of None \<Rightarrow> [] | Some x \<Rightarrow> [x]),
     fl_action_targets = [''view_student'', ''open_recommendation''], fl_generated_at = now, fl_acknowledged_at = None, fl_acknowledged_by = None,
     fl_resolved_at = None\<rparr>"

definition reconcile_attention_flag ::
  "uuid \<Rightarrow> datetime \<Rightarrow> attention_db \<Rightarrow> uuid \<Rightarrow> attention_flag_draft option \<Rightarrow> attention_db \<times> attention_flag_row option \<times> bool" where
  "reconcile_attention_flag i now d student draft =
     (let matching = matching_flag d student draft; d1 = resolve_others student matching now d in
      case draft of
        None \<Rightarrow> (d1, None, False)
      | Some fd \<Rightarrow>
          (case matching of
             Some f \<Rightarrow> (d1, Some f, False)
           | None \<Rightarrow> (let f = new_flag i fd now in (d1\<lparr>at_flags := at_flags d1 @ [f]\<rparr>, Some f, True))))"

definition create_intervention_recommendation ::
  "uuid \<Rightarrow> datetime \<Rightarrow> attention_db \<Rightarrow> uuid \<Rightarrow> uuid \<Rightarrow> string \<Rightarrow> uuid option \<Rightarrow> uuid option \<Rightarrow> attention_db" where
  "create_intervention_recommendation i now d flag student body call lesson = d\<lparr>at_recommendations := at_recommendations d @
     [\<lparr>ir_id = i, ir_attention_flag_id = flag, ir_student_id = student, ir_lesson_id = lesson, ir_recommendation_text = body,
       ir_ai_gateway_call_id = call, ir_generated_at = now\<rparr>]\<rparr>"

definition create_escalation :: "uuid \<Rightarrow> datetime \<Rightarrow> attention_db \<Rightarrow> uuid \<Rightarrow> uuid \<Rightarrow> string \<Rightarrow> uuid option \<Rightarrow> attention_db" where
  "create_escalation i now d student teacher note flag = d\<lparr>at_escalations := at_escalations d @
     [\<lparr>ec_id = i, ec_attention_flag_id = flag, ec_student_id = student, ec_teacher_id = teacher, ec_teacher_note = note,
       ec_routed_to = ''learning_support'', ec_generated_at = now, ec_acknowledged_at = None\<rparr>]\<rparr>"

subsection \<open>The service\<close>

text \<open>\<^verbatim>\<open>str.splitlines\<close> on ASCII: a carriage return and a line feed together end one line, and the last line need not be ended.\<close>

definition line_break :: "char \<Rightarrow> bool" where
  "line_break c = (let n = (of_char c :: nat) in (10 \<le> n \<and> n \<le> 13) \<or> (28 \<le> n \<and> n \<le> 30))"

fun splitlines_aux :: "string \<Rightarrow> string \<Rightarrow> string list" where
  "splitlines_aux acc [] = (if acc = [] then [] else [rev acc])"
| "splitlines_aux acc (c # cs) =
     (if \<not> line_break c then splitlines_aux (c # acc) cs
      else rev acc # splitlines_aux [] (if c = CHR 0x0D \<and> cs \<noteq> [] \<and> hd cs = CHR 0x0A then tl cs else cs))"

definition py_splitlines :: "string \<Rightarrow> string list" where
  "py_splitlines s = splitlines_aux [] s"

definition unfenced :: "string \<Rightarrow> string" where
  "unfenced s =
     (let stripped = py_strip s; lines = py_splitlines stripped in
      if take 3 stripped = ''```'' \<and> 3 \<le> length lines \<and> py_strip (last lines) = ''```''
      then py_strip (py_join [CHR 0x0A] (butlast (tl lines))) else stripped)"

record attention_env =
  ae_number :: "string \<Rightarrow> score option"
  ae_loads :: "string \<Rightarrow> json option"
  ae_repr :: "json \<Rightarrow> string"

definition parse_recommendation_response :: "attention_env \<Rightarrow> string \<Rightarrow> string" where
  "parse_recommendation_response env response =
     (let stripped = unfenced response in
      case ae_loads env stripped of
        Some (JObject kvs) \<Rightarrow>
          (case dict_get kvs ''recommendation_text'' of JNull \<Rightarrow> stripped | v \<Rightarrow> py_strip (json_str (ae_repr env) v))
      | _ \<Rightarrow> stripped)"

record attention_outcome =
  ao_attention_flag_id :: "uuid option"
  ao_recommendation_id :: "uuid option"
  ao_flag_type :: "attention_flag_type option"
  ao_status :: string

datatype attention_fault = BadEvent learning_fault | GatewayFailed

definition implicated_lesson :: "engagement_snapshot list \<Rightarrow> attention_flag_draft \<Rightarrow> uuid option" where
  "implicated_lesson ss fd =
     (case List.find (\<lambda>s. es_session_id s \<in> set (fd_session_ids fd) \<and> es_lesson_id s \<noteq> None) (rev ss) of
        None \<Rightarrow> None | Some s \<Rightarrow> es_lesson_id s)"

text \<open>
  \<open>reply\<close> is what the gateway answers to the prompt, text and call, or \<open>None\<close> when it raises: then the flag is already committed.
  The outcome names the flag and the recommendation.
\<close>

definition evaluate_student ::
  "attention_env \<Rightarrow> uuid \<times> uuid \<Rightarrow> (string \<times> uuid option) option \<Rightarrow> datetime \<Rightarrow> attention_db \<Rightarrow> uuid \<Rightarrow> attention_db \<times> (attention_fault + attention_outcome)" where
  "evaluate_student env ids reply now d student =
     (case load_detection_context (ae_number env) d student of
        Inl f \<Rightarrow> (d, Inl (BadEvent f))
      | Inr ss \<Rightarrow>
          (let draft = detect_attention_flag student ss;
               (d1, flag, created) = reconcile_attention_flag (fst ids) now d student draft in
           case (flag, draft) of
             (Some f, Some fd) \<Rightarrow>
               if \<not> created
               then (d1, Inr \<lparr>ao_attention_flag_id = Some (fl_id f), ao_recommendation_id = None, ao_flag_type = Some (fl_flag_type f), ao_status = ''flagged''\<rparr>)
               else (case reply of
                       None \<Rightarrow> (d1, Inl GatewayFailed)
                     | Some (response, call) \<Rightarrow>
                         (create_intervention_recommendation (snd ids) now d1 (fl_id f) student (parse_recommendation_response env response) call (implicated_lesson ss fd),
                          Inr \<lparr>ao_attention_flag_id = Some (fl_id f), ao_recommendation_id = Some (snd ids), ao_flag_type = Some (fl_flag_type f), ao_status = ''flagged''\<rparr>))
           | _ \<Rightarrow> (d1, Inr \<lparr>ao_attention_flag_id = None, ao_recommendation_id = None, ao_flag_type = None, ao_status = ''no_flag''\<rparr>)))"

definition escalate_to_support :: "uuid \<Rightarrow> datetime \<Rightarrow> attention_db \<Rightarrow> uuid \<Rightarrow> uuid \<Rightarrow> string \<Rightarrow> uuid option \<Rightarrow> attention_db \<times> uuid" where
  "escalate_to_support i now d student teacher note flag = (create_escalation i now d student teacher note flag, i)"

subsection \<open>A flag names a real drop\<close>

lemma mean_bounds:
  assumes "xs \<noteq> []"
  shows "(\<And>x. x \<in> set xs \<Longrightarrow> x \<le> M) \<Longrightarrow> mean xs \<le> M" and "(\<And>x. x \<in> set xs \<Longrightarrow> m \<le> x) \<Longrightarrow> m \<le> mean xs"
proof -
  have n: "0 < (of_nat (length xs) :: rat)" using assms by simp
  show "mean xs \<le> M" if "\<And>x. x \<in> set xs \<Longrightarrow> x \<le> M"
  proof -
    have "sum_list xs \<le> of_nat (length xs) * M" using that by (induction xs) (auto simp: algebra_simps add_mono)
    then show ?thesis using n by (simp add: mean_def field_simps)
  qed
  show "m \<le> mean xs" if "\<And>x. x \<in> set xs \<Longrightarrow> m \<le> x"
  proof -
    have "of_nat (length xs) * m \<le> sum_list xs" using that by (induction xs) (auto simp: algebra_simps add_mono)
    then show ?thesis using n by (simp add: mean_def field_simps)
  qed
qed

lemma some_above_mean: "xs \<noteq> [] \<Longrightarrow> \<exists>x \<in> set xs. mean xs \<le> x"
proof (rule ccontr)
  assume xs: "xs \<noteq> []" and none: "\<not> (\<exists>x \<in> set xs. mean xs \<le> x)"
  have "Max (set xs) \<in> set xs" using xs by simp
  moreover have "mean xs \<le> Max (set xs)" using xs by (intro mean_bounds(1)) auto
  ultimately show False using none by blast
qed

lemma session_scores_unit: "session_engagement_score number es = Inr x \<Longrightarrow> 0 \<le> x \<and> x \<le> 1"
  by (auto simp: session_engagement_score_def Let_def clamp_score_def split: sum.splits if_splits)

lemma drop_below_baseline:
  assumes "butl \<noteq> []" "x \<le> average_score butl - t"
  shows "\<exists>b \<in> set butl. x + t \<le> es_engagement_score b"
proof -
  obtain y where "y \<in> set (map es_engagement_score butl)" "average_score butl \<le> y"
    using some_above_mean[of "map es_engagement_score butl"] assms(1) by (auto simp: average_score_def)
  then show ?thesis using assms(2) by force
qed

lemma sorted_split_le:
  assumes "sorted (map f (xs @ ys))" "b \<in> set xs" "s \<in> set ys"
  shows "f b \<le> f s"
  using assms by (auto simp: sorted_append)

lemma detect_cases:
  assumes "detect_attention_flag student ss = Some fd"
  obtains base recent where "sort_key es_started_at ss = base @ recent" "base \<noteq> []" "recent \<noteq> []" "fd_student_id fd = student"
    "fd_session_ids fd = map es_session_id recent"
    "\<And>s. s \<in> set recent \<Longrightarrow> es_engagement_score s \<le> average_score base - STANDARD_DECLINE_THRESHOLD"
proof -
  let ?o = "sort_key es_started_at ss"
  have two: "2 \<le> length ?o" using assms by (auto simp: detect_attention_flag_def Let_def split: if_splits)
  show thesis
  proof (cases "detect_sudden_change student ?o")
    case (Some draft)
    then have "draft = fd" using assms two by (simp add: detect_attention_flag_def Let_def)
    with Some have "butlast ?o \<noteq> []" "fd_session_ids fd = map es_session_id [last ?o]" "fd_student_id fd = student"
      "es_engagement_score (last ?o) \<le> average_score (butlast ?o) - STANDARD_DECLINE_THRESHOLD"
      by (auto simp: detect_sudden_change_def Let_def SUDDEN_CHANGE_THRESHOLD_def STANDARD_DECLINE_THRESHOLD_def split: if_splits)
    moreover have "?o \<noteq> []" using two by (metis list.size(3) not_numeral_le_zero)
    then have "?o = butlast ?o @ [last ?o]" by (rule append_butlast_last_id[symmetric])
    ultimately show thesis using that[of "butlast ?o" "[last ?o]"] by auto
  next
    case None
    then have "detect_engagement_decline student ?o = Some fd" using assms two by (simp add: detect_attention_flag_def Let_def)
    then have "baseline_sessions ?o \<noteq> []" "fd_session_ids fd = map es_session_id (recent_sessions ?o)" "fd_student_id fd = student"
      "list_all (\<lambda>s. es_engagement_score s \<le> average_score (baseline_sessions ?o) - STANDARD_DECLINE_THRESHOLD) (recent_sessions ?o)"
      by (auto simp: detect_engagement_decline_def Let_def split: if_splits)
    moreover have "?o = baseline_sessions ?o @ recent_sessions ?o" by (simp add: baseline_sessions_def recent_sessions_def)
    moreover have "recent_sessions ?o \<noteq> []" using two by (auto simp: recent_sessions_def STANDARD_DECLINE_RECENT_SESSIONS_def)
    ultimately show thesis using that[of "baseline_sessions ?o" "recent_sessions ?o"] by (auto simp: list_all_iff)
  qed
qed

text \<open>
  A flag always names a real drop of the child's own: every sitting a flag is raised for lies at least 0.15 below one of the child's own
  earlier sittings in the window, so a child whose engagement stays within that margin is never flagged.
\<close>

theorem flags_name_a_real_drop:
  assumes "detect_attention_flag student ss = Some fd"
  shows "fd_session_ids fd \<noteq> [] \<and>
    (\<forall>i \<in> set (fd_session_ids fd). \<exists>s \<in> set ss. es_session_id s = i \<and>
       (\<exists>b \<in> set ss. es_started_at b \<le> es_started_at s \<and> es_engagement_score s + 15 / 100 \<le> es_engagement_score b))"
  using assms
proof (rule detect_cases)
  fix base recent
  assume split: "sort_key es_started_at ss = base @ recent" "base \<noteq> []" "recent \<noteq> []"
    and ids: "fd_session_ids fd = map es_session_id recent"
    and low: "\<And>s. s \<in> set recent \<Longrightarrow> es_engagement_score s \<le> average_score base - STANDARD_DECLINE_THRESHOLD"
  have sets: "set ss = set base \<union> set recent" using split(1) by (metis set_append set_sort)
  have ordered: "sorted (map es_started_at (base @ recent))" using sorted_sort_key[of es_started_at ss] split(1) by simp
  have "\<exists>b \<in> set ss. es_started_at b \<le> es_started_at s \<and> es_engagement_score s + 15 / 100 \<le> es_engagement_score b" if here: "s \<in> set recent" for s
  proof -
    obtain b where b: "b \<in> set base" "es_engagement_score s + STANDARD_DECLINE_THRESHOLD \<le> es_engagement_score b"
      using drop_below_baseline[OF split(2) low[OF here]] by blast
    have "es_started_at b \<le> es_started_at s" by (rule sorted_split_le[OF ordered b(1) here])
    then show ?thesis using b sets unfolding STANDARD_DECLINE_THRESHOLD_def by blast
  qed
  then show ?thesis using ids sets split(3) by auto
qed

definition fallen_sessions :: "engagement_snapshot list" where
  "fallen_sessions = [\<lparr>es_session_id = 1, es_started_at = 0, es_engagement_score = 9 / 10, es_event_count = 4, es_lesson_id = Some 5\<rparr>,
     \<lparr>es_session_id = 2, es_started_at = 10, es_engagement_score = 1 / 10, es_event_count = 4, es_lesson_id = Some 6\<rparr>]"

theorem flags_name_a_real_drop_witness:
  "\<exists>fd. detect_attention_flag 20 fallen_sessions = Some fd \<and> fd_session_ids fd \<noteq> []"
proof -
  have "detect_attention_flag 20 fallen_sessions \<noteq> None" by code_simp
  then obtain fd where "detect_attention_flag 20 fallen_sessions = Some fd" by blast
  from this flags_name_a_real_drop[OF this] show ?thesis by blast
qed

subsection \<open>Open flags\<close>

lemma matching_flag_SomeD:
  assumes "matching_flag d student draft = Some f"
  shows "f \<in> set (open_flags d student)" and "\<exists>fd. draft = Some fd \<and> fl_flag_type f = fd_flag_type fd"
  using assms by (auto simp: matching_flag_def dest!: find_SomeD split: option.splits)

lemma matching_flag_None: "\<lbrakk>matching_flag d student (Some fd) = None; f \<in> set (open_flags d student)\<rbrakk> \<Longrightarrow> fl_flag_type f \<noteq> fd_flag_type fd"
  by (auto simp: matching_flag_def find_None_iff_all)

lemma open_flags_resolved:
  shows "open_flags (resolve_others student matching now d) student = filter (\<lambda>f. Some (fl_id f) = map_option fl_id matching) (open_flags d student)"
    and "t \<noteq> student \<Longrightarrow> open_flags (resolve_others student matching now d) t = open_flags d t"
proof -
  let ?u = "\<lambda>f. if fl_student_id f = student \<and> fl_resolved_at f = None \<and> Some (fl_id f) \<noteq> map_option fl_id matching then f\<lparr>fl_resolved_at := Some now\<rparr> else f"
  have flags: "at_flags (resolve_others student matching now d) = map ?u (at_flags d)" by (simp add: resolve_others_def update_where_def)
  have own: "filter (\<lambda>f. fl_student_id f = student \<and> fl_resolved_at f = None) (map ?u fs) =
      filter (\<lambda>f. Some (fl_id f) = map_option fl_id matching) (filter (\<lambda>f. fl_student_id f = student \<and> fl_resolved_at f = None) fs)" for fs
    by (induction fs) auto
  have other: "t \<noteq> student \<Longrightarrow> filter (\<lambda>f. fl_student_id f = t \<and> fl_resolved_at f = None) (map ?u fs) =
      filter (\<lambda>f. fl_student_id f = t \<and> fl_resolved_at f = None) fs" for fs
    by (induction fs) auto
  show "open_flags (resolve_others student matching now d) student = filter (\<lambda>f. Some (fl_id f) = map_option fl_id matching) (open_flags d student)"
    unfolding open_flags_def flags by (rule own)
  show "t \<noteq> student \<Longrightarrow> open_flags (resolve_others student matching now d) t = open_flags d t"
    unfolding open_flags_def flags by (rule other)
qed

lemma filter_single:
  assumes "distinct (map f xs)" "x \<in> set xs"
  shows "filter (\<lambda>y. f y = f x) xs = [x]"
  using assms by (induction xs) (auto simp: filter_empty_conv image_iff)

lemma reconcile_open:
  assumes "reconcile_attention_flag i now d student draft = (d', flag, created)" "distinct (map fl_id (at_flags d))"
    "case draft of None \<Rightarrow> True | Some fd \<Rightarrow> fd_student_id fd = student"
  shows "open_flags d' student = (case flag of None \<Rightarrow> [] | Some f \<Rightarrow> [f])" and "map_option fl_flag_type flag = map_option fd_flag_type draft"
    and "t \<noteq> student \<Longrightarrow> open_flags d' t = open_flags d t"
    and "f \<in> set (at_flags d) \<Longrightarrow> fl_resolved_at f \<noteq> None \<Longrightarrow> f \<in> set (at_flags d')"
    and "created \<longleftrightarrow> draft \<noteq> None \<and> matching_flag d student draft = None"
    and "at_recommendations d' = at_recommendations d" "at_sessions d' = at_sessions d" "at_events d' = at_events d"
proof -
  let ?m = "matching_flag d student draft" and ?d1 = "resolve_others student (matching_flag d student draft) now d"
  note res = open_flags_resolved[where d = d and student = student and matching = ?m and now = now]
  have body: "(d', flag, created) = (case draft of None \<Rightarrow> (?d1, None, False) | Some fd \<Rightarrow> (case ?m of Some f \<Rightarrow> (?d1, Some f, False)
      | None \<Rightarrow> (?d1\<lparr>at_flags := at_flags ?d1 @ [new_flag i fd now]\<rparr>, Some (new_flag i fd now), True)))"
    by (simp only: assms(1)[symmetric] reconcile_attention_flag_def Let_def)
  have one: "open_flags ?d1 student = (case ?m of None \<Rightarrow> [] | Some f \<Rightarrow> [f])"
  proof (cases ?m)
    case (Some f)
    have "distinct (map fl_id (open_flags d student))" using assms(2) by (simp add: open_flags_def distinct_map_filter)
    then show ?thesis using filter_single[OF _ matching_flag_SomeD(1)[OF Some], of fl_id] unfolding res(1) by (simp add: Some)
  next
    case None
    then show ?thesis unfolding res(1) by simp
  qed
  have none: "draft = None \<Longrightarrow> ?m = None" by (simp add: matching_flag_def)
  have add: "open_flags (?d1\<lparr>at_flags := at_flags ?d1 @ [new_flag i fd now]\<rparr>) t = open_flags ?d1 t @ (if fd_student_id fd = t then [new_flag i fd now] else [])" for fd t
    by (simp add: open_flags_def new_flag_def)
  have kept: "f \<in> set (at_flags ?d1)" if "f \<in> set (at_flags d)" "fl_resolved_at f \<noteq> None"
    using that by (force simp: resolve_others_def update_where_def image_iff)
  show "open_flags d' student = (case flag of None \<Rightarrow> [] | Some f \<Rightarrow> [f])"
    using body one none add assms(3) by (auto split: option.splits)
  show "map_option fl_flag_type flag = map_option fd_flag_type draft"
    using body matching_flag_SomeD(2) by (fastforce simp: new_flag_def split: option.splits)
  show "t \<noteq> student \<Longrightarrow> open_flags d' t = open_flags d t"
    using body res(2) add assms(3) by (auto split: option.splits)
  show "f \<in> set (at_flags d) \<Longrightarrow> fl_resolved_at f \<noteq> None \<Longrightarrow> f \<in> set (at_flags d')"
    using body kept by (auto split: option.splits)
  show "created \<longleftrightarrow> draft \<noteq> None \<and> matching_flag d student draft = None"
    using body by (auto split: option.splits)
  show "at_recommendations d' = at_recommendations d" "at_sessions d' = at_sessions d" "at_events d' = at_events d"
    using body by (auto simp: resolve_others_def split: option.splits)
qed

lemma detect_student: "detect_attention_flag student ss = Some fd \<Longrightarrow> fd_student_id fd = student"
  by (erule detect_cases)

lemma evaluateE:
  assumes "evaluate_student env ids reply now d student = (d', res)"
  obtains (bad) f where "load_detection_context (ae_number env) d student = Inl f" "d' = d" "res = Inl (BadEvent f)"
  | (ran) ss d1 flag created where "load_detection_context (ae_number env) d student = Inr ss"
      "reconcile_attention_flag (fst ids) now d student (detect_attention_flag student ss) = (d1, flag, created)"
      "at_flags d' = at_flags d1" "\<not> created \<longrightarrow> at_recommendations d' = at_recommendations d1"
      "res = Inl GatewayFailed \<longleftrightarrow> created \<and> reply = None" "res = Inl GatewayFailed \<longrightarrow> d' = d1"
      "\<forall>out. res = Inr out \<longrightarrow> ao_attention_flag_id out = map_option fl_id flag \<and> (ao_recommendation_id out = None \<longleftrightarrow> \<not> created)"
      "\<forall>f. res \<noteq> Inl (BadEvent f)" "at_sessions d' = at_sessions d1" "at_events d' = at_events d1"
proof (cases "load_detection_context (ae_number env) d student")
  case (Inl f)
  then have "(d', res) = (d, Inl (BadEvent f))" using assms by (simp add: evaluate_student_def)
  then show thesis using bad[OF Inl] by simp
next
  case (Inr ss)
  let ?draft = "detect_attention_flag student ss"
  obtain d1 flag created where rec: "reconcile_attention_flag (fst ids) now d student ?draft = (d1, flag, created)" by (metis prod_cases3)
  have shape: "(flag = None \<longleftrightarrow> ?draft = None) \<and> (created \<longrightarrow> ?draft \<noteq> None)"
    using rec by (cases ?draft; cases "matching_flag d student ?draft") (auto simp: reconcile_attention_flag_def Let_def dest: sym)
  have body: "(d', res) = (case (flag, ?draft) of
             (Some f, Some fd) \<Rightarrow>
               if \<not> created
               then (d1, Inr \<lparr>ao_attention_flag_id = Some (fl_id f), ao_recommendation_id = None, ao_flag_type = Some (fl_flag_type f), ao_status = ''flagged''\<rparr>)
               else (case reply of
                       None \<Rightarrow> (d1, Inl GatewayFailed)
                     | Some (response, call) \<Rightarrow>
                         (create_intervention_recommendation (snd ids) now d1 (fl_id f) student (parse_recommendation_response env response) call (implicated_lesson ss fd),
                          Inr \<lparr>ao_attention_flag_id = Some (fl_id f), ao_recommendation_id = Some (snd ids), ao_flag_type = Some (fl_flag_type f), ao_status = ''flagged''\<rparr>))
           | _ \<Rightarrow> (d1, Inr \<lparr>ao_attention_flag_id = None, ao_recommendation_id = None, ao_flag_type = None, ao_status = ''no_flag''\<rparr>))"
    using assms Inr rec by (simp add: evaluate_student_def Let_def)
  show thesis
    by (rule ran[OF Inr rec]) (use body shape in \<open>auto simp: create_intervention_recommendation_def split: option.splits if_splits prod.splits\<close>)
qed

text \<open>
  Evaluating a child leaves at most one open flag for the child, there exactly when the last sittings show a drop, and of the kind they
  show: an earlier flag of another kind is closed and one of the same kind is kept rather than raised twice.  No other child's flags move and a closed
  flag is never opened again.
\<close>

theorem one_open_flag_per_child:
  assumes "evaluate_student env ids reply now d student = (d', res)" "load_detection_context (ae_number env) d student = Inr ss"
    "distinct (map fl_id (at_flags d))"
  shows "map fl_flag_type (open_flags d' student) = (case detect_attention_flag student ss of None \<Rightarrow> [] | Some fd \<Rightarrow> [fd_flag_type fd]) \<and>
    (\<forall>t. t \<noteq> student \<longrightarrow> open_flags d' t = open_flags d t) \<and> (\<forall>f \<in> set (at_flags d). fl_resolved_at f \<noteq> None \<longrightarrow> f \<in> set (at_flags d')) \<and>
    (\<forall>f \<in> set (open_flags d student). fl_flag_type f \<in> set (map fl_flag_type (open_flags d' student)) \<longrightarrow> (\<exists>g \<in> set (open_flags d student). open_flags d' student = [g]))"
  using assms(1)
proof (cases rule: evaluateE)
  case (ran ss' d1 flag created)
  have ss': "ss' = ss" using ran(1) assms(2) by simp
  have own: "case detect_attention_flag student ss of None \<Rightarrow> True | Some fd \<Rightarrow> fd_student_id fd = student"
    using detect_student by (simp split: option.split)
  note rec = reconcile_open[OF ran(2)[unfolded ss'] assms(3) own]
  have same: "open_flags d' t = open_flags d1 t" for t using ran(3) by (simp add: open_flags_def)
  have types: "map fl_flag_type (open_flags d' student) = (case detect_attention_flag student ss of None \<Rightarrow> [] | Some fd \<Rightarrow> [fd_flag_type fd])"
    using rec(1,2) same by (cases flag; cases "detect_attention_flag student ss"; simp)
  have "\<exists>g \<in> set (open_flags d student). open_flags d' student = [g]"
    if f: "f \<in> set (open_flags d student)" "fl_flag_type f \<in> set (map fl_flag_type (open_flags d' student))" for f
  proof -
    obtain fd where fd: "detect_attention_flag student ss = Some fd" "fl_flag_type f = fd_flag_type fd"
      using f(2) types by (auto split: option.splits)
    obtain g where g: "matching_flag d student (Some fd) = Some g" using matching_flag_None[OF _ f(1)] fd(2) by (cases "matching_flag d student (Some fd)") auto
    then have "flag = Some g" using ran(2) ss' fd(1) by (simp add: reconcile_attention_flag_def Let_def)
    then show ?thesis using rec(1) same matching_flag_SomeD(1)[OF g] by auto
  qed
  then have kinds: "\<forall>f \<in> set (open_flags d student). fl_flag_type f \<in> set (map fl_flag_type (open_flags d' student)) \<longrightarrow>
      (\<exists>g \<in> set (open_flags d student). open_flags d' student = [g])" by blast
  have "\<forall>t. t \<noteq> student \<longrightarrow> open_flags d' t = open_flags d t" using rec(3) same by simp
  moreover have "\<forall>f \<in> set (at_flags d). fl_resolved_at f \<noteq> None \<longrightarrow> f \<in> set (at_flags d')" using rec(4) ran(3) by simp
  ultimately show ?thesis using types kinds by blast
qed (use assms(2) in simp)

definition flag_sitting :: "uuid \<Rightarrow> datetime \<Rightarrow> lesson_session_row" where
  "flag_sitting i t = \<lparr>ls_id = i, ls_student_id = 20, ls_lesson_id = Some 5, ls_session_type = ''lesson'', ls_started_at = t, ls_ended_at = None,
     ls_completion_status = LC_COMPLETED, ls_exit_position = None, ls_break_count = 0, ls_proactive_adjustments_count = 0, ls_delivery_depth = ''standard'',
     ls_delivery_state = JNull, ls_rerouted_from_session_id = None\<rparr>"

definition flag_score :: "uuid \<Rightarrow> rat \<Rightarrow> signal_event_row" where
  "flag_score i x = \<lparr>se_student_id = 20, se_session_id = i, se_event_type = SE_ENGAGEMENT_SIGNAL, se_event_data = JObject [(''score'', JFloat x)], se_timestamp = 0\<rparr>"

definition flag_db :: attention_db where
  "flag_db = \<lparr>at_sessions = [flag_sitting 1 0, flag_sitting 2 10], at_events = [flag_score 1 (9 / 10), flag_score 2 (1 / 10)], at_flags = [],
     at_recommendations = [], at_escalations = []\<rparr>"

definition flag_env :: attention_env where
  "flag_env = \<lparr>ae_number = (\<lambda>_. None), ae_loads = (\<lambda>_. None), ae_repr = (\<lambda>_. [])\<rparr>"

theorem one_open_flag_per_child_witness:
  "map fl_flag_type (open_flags (fst (evaluate_student flag_env (8, 9) None 20 flag_db 20)) 20) = [AF_SUDDEN_CHANGE]"
proof -
  obtain ss where ss: "load_detection_context (ae_number flag_env) flag_db 20 = Inr ss" and
    type: "map_option fd_flag_type (detect_attention_flag 20 ss) = Some AF_SUDDEN_CHANGE"
  proof -
    have "(case load_detection_context (ae_number flag_env) flag_db 20 of Inl _ \<Rightarrow> False
        | Inr ss \<Rightarrow> map_option fd_flag_type (detect_attention_flag 20 ss) = Some AF_SUDDEN_CHANGE)" by code_simp
    then show thesis using that by (auto split: sum.splits)
  qed
  obtain fd where fd: "detect_attention_flag 20 ss = Some fd" "fd_flag_type fd = AF_SUDDEN_CHANGE" using type by auto
  have distinct: "distinct (map fl_id (at_flags flag_db))" by (simp add: flag_db_def)
  have run: "evaluate_student flag_env (8, 9) None 20 flag_db 20 =
    (fst (evaluate_student flag_env (8, 9) None 20 flag_db 20), snd (evaluate_student flag_env (8, 9) None 20 flag_db 20))" by simp
  show ?thesis using one_open_flag_per_child[OF run ss distinct] by (simp add: fd)
qed

text \<open>
  When the language model fails on a new flag, the flag is already stored, and no later evaluation of the same child writes the recommendation that
  belongs to it: the flag counts as known.
\<close>

theorem failed_recommendation_is_never_made_up:
  assumes "evaluate_student env ids reply now d student = (d1, Inl GatewayFailed)" "distinct (map fl_id (at_flags d))" "fst ids \<notin> fl_id ` set (at_flags d)"
    "evaluate_student env ids' reply' now' d1 student = (d2, res)"
  shows "at_recommendations d2 = at_recommendations d \<and> (\<exists>out. res = Inr out \<and> ao_attention_flag_id out \<noteq> None \<and> ao_recommendation_id out = None)"
  using assms(1)
proof (cases rule: evaluateE)
  case (ran ss d0 flag created)
  let ?draft = "detect_attention_flag student ss"
  have created: "created" "d1 = d0" using ran(5,6) by auto
  have own: "case ?draft of None \<Rightarrow> True | Some fd \<Rightarrow> fd_student_id fd = student" using detect_student by (simp split: option.split)
  note rec = reconcile_open[OF ran(2) assms(2) own]
  have draft: "?draft \<noteq> None" using rec(5) created(1) by blast
  then obtain f where f: "flag = Some f" "open_flags d1 student = [f]" "map_option fd_flag_type ?draft = Some (fl_flag_type f)"
    using rec(1,2) created(2) by (cases flag; cases ?draft) auto
  have context_kept: "load_detection_context (ae_number env) d1 student = Inr ss"
    using ran(1) rec(7,8) created(2) by (simp add: load_detection_context_def)
  have match: "matching_flag d1 student ?draft = Some f" using f(2,3) by (auto simp: matching_flag_def split: option.splits)
  have distinct: "distinct (map fl_id (at_flags d1))"
  proof -
    have "map fl_id (at_flags d1) = map fl_id (at_flags d) @ [fst ids]"
      using ran(2) created draft rec(5) unfolding reconcile_attention_flag_def Let_def
      by (auto simp: resolve_others_def new_flag_def map_update_where split: option.splits)
    then show ?thesis using assms(2,3) by simp
  qed
  from assms(4) show ?thesis
  proof (cases rule: evaluateE)
    case again: (ran ss' e flag' created')
    have ss': "ss' = ss" using again(1) context_kept by simp
    note rec' = reconcile_open[OF again(2)[unfolded ss'] distinct own]
    have "\<not> created'" using rec'(5) match by simp
    moreover have "flag' \<noteq> None" using rec'(2) draft by (cases flag'; cases ?draft) auto
    ultimately show ?thesis using again(4,5,7,8) rec'(6) rec(6) created(2) by (cases res) (auto, metis attention_fault.exhaust)
  qed (use context_kept in simp)
qed (use assms in simp)

end
