(* ===== verification/LearnerProfiles.thy ===== *)
theory LearnerProfiles
  imports AttentionFlags
begin

text \<open>
  Learner profiles (\<^verbatim>\<open>nevo/learner_profiles\<close>): what the observed activities and the signals of a sitting say about the support a
  child needs (\<^verbatim>\<open>inference.py\<close>), and the update of the stored profile after a lesson from the reply of the language model
  (\<^verbatim>\<open>profile_updates.py\<close>), with its history and with the flag that is raised instead when a trusted value would jump.
\<close>

subsection \<open>Inference from behaviour\<close>

record observed_activity =
  oa_activity_number :: int
  oa_metrics :: "(string \<times> json) list"

text \<open>A \<^verbatim>\<open>SignalEventDraft\<close>, as far as the engine reads it.\<close>

record observed_event =
  oe_event_type :: signal_event_type
  oe_session_id :: uuid
  oe_event_data :: "(string \<times> json) list"

record dimension_inference =
  di_dimension :: string
  di_value :: "int option"
  di_confidence :: confidence_level
  di_evidence_count :: nat
  di_notes :: "string list"

record profile_evidence =
  pv_value :: int
  pv_session_id :: "uuid option"
  pv_note :: string

type_synonym evidence_list = "(string \<times> profile_evidence) list"

definition metric_number :: "(string \<Rightarrow> score option) \<Rightarrow> (string \<times> json) list \<Rightarrow> string \<Rightarrow> score \<Rightarrow> score" where
  "metric_number number kvs key fallback =
     (case map_of kvs key of
        None \<Rightarrow> fallback
      | Some v \<Rightarrow> (case v of
            JInt n \<Rightarrow> of_int n
          | JFloat x \<Rightarrow> x
          | JBool b \<Rightarrow> if b then 1 else 0
          | JString s \<Rightarrow> (case number s of Some x \<Rightarrow> x | None \<Rightarrow> fallback)
          | _ \<Rightarrow> fallback))"

definition evidence_item :: "string \<Rightarrow> int \<Rightarrow> uuid option \<Rightarrow> string \<Rightarrow> evidence_list" where
  "evidence_item name v sitting note = [(name, \<lparr>pv_value = v, pv_session_id = sitting, pv_note = note\<rparr>)]"

definition confidence_for :: "uuid set \<Rightarrow> confidence_level" where
  "confidence_for sessions = (if 5 \<le> card sessions then CONF_HIGH else if 3 \<le> card sessions then CONF_MEDIUM else CONF_LOW)"

definition inference_result :: "evidence_list \<Rightarrow> string \<Rightarrow> dimension_inference" where
  "inference_result evidence name =
     (let rows = map snd (filter (\<lambda>(n, _). n = name) evidence);
          sessions = set (concat (map (\<lambda>r. case pv_session_id r of None \<Rightarrow> [] | Some s \<Rightarrow> [s]) rows)) in
      \<lparr>di_dimension = name, di_value = Some (round_half_even (of_int (sum_list (map pv_value rows)) / of_nat (length rows))),
       di_confidence = confidence_for sessions, di_evidence_count = length rows, di_notes = first_seen (map pv_note rows)\<rparr>)"

definition inference_results :: "evidence_list \<Rightarrow> dimension_inference list" where
  "inference_results evidence = map (inference_result evidence) (first_seen (map fst evidence))"

definition timing_vote :: "(string \<Rightarrow> score option) \<Rightarrow> observed_activity \<Rightarrow> int list" where
  "timing_vote number a =
     (if oa_activity_number a \<in> {1, 2, 4}
      then (let ratio = metric_number number (oa_metrics a) (if oa_activity_number a = 2 then ''response_time_ratio'' else ''completion_time_ratio'') 1 in
            if ratio \<le> 85 / 100 then [4] else if ratio \<ge> 12 / 10 then [2] else [])
      else [])"

definition activity_evidence :: "(string \<Rightarrow> score option) \<Rightarrow> observed_activity \<Rightarrow> evidence_list" where
  "activity_evidence number a =
     (if oa_activity_number a = 3
      then (let first = metric_number number (oa_metrics a) ''first_half_consistency'' 0;
                second = metric_number number (oa_metrics a) ''second_half_consistency'' first in
            if first - second \<ge> 25 / 100 then evidence_item ''attention_span'' 2 None ''within-task consistency decay observed'' else [])
      else if oa_activity_number a = 4
      then (let pairs = metric_number number (oa_metrics a) ''max_successful_pairs'' 0;
                fall = metric_number number (oa_metrics a) ''accuracy_curve_drop'' 0;
                capacity = (if pairs \<ge> 7 \<and> fall \<le> 20 / 100 then 5 else if pairs \<ge> 5 \<and> fall \<le> 35 / 100 then 4 else if pairs \<ge> 3 then 3 else 2) in
            evidence_item ''working_memory_capacity'' capacity None ''matching-task completion pattern'' @
            evidence_item ''cognitive_load_threshold'' (if pairs \<ge> 6 \<and> fall \<le> 25 / 100 then 4 else 2) None ''cold-start support seed'')
      else [])"

definition timing_evidence :: "int list \<Rightarrow> evidence_list" where
  "timing_evidence votes =
     (let seed = (\<lambda>v. evidence_item ''processing_speed'' v None ''timing pattern across multiple activities'') in
      if 2 \<le> count_where (\<lambda>v. v = 4) votes then seed 4 else if 2 \<le> count_where (\<lambda>v. v = 2) votes then seed 2 else [])"

definition seed_from_observed_sequence :: "(string \<Rightarrow> score option) \<Rightarrow> observed_activity list \<Rightarrow> dimension_inference list" where
  "seed_from_observed_sequence number activities =
     inference_results (concat (map (activity_evidence number) activities) @ timing_evidence (concat (map (timing_vote number) activities)))"

definition event_evidence :: "(string \<Rightarrow> score option) \<Rightarrow> observed_event \<Rightarrow> evidence_list" where
  "event_evidence number e =
     (let kvs = oe_event_data e; sitting = Some (oe_session_id e); attempts = metric_number number kvs ''attempts'' 1 in
      case oe_event_type e of
        SE_CALCULATION_STEP_RESPONSE \<Rightarrow>
          (let hint = truthy (dict_get kvs ''hintUsed'') in
           if attempts \<le> 1 \<and> \<not> hint \<and> metric_number number kvs ''responseTimeRatio'' 1 \<le> 9 / 10
           then evidence_item ''working_memory_capacity'' 4 sitting ''calculation step completed without hints''
           else if attempts > 1 \<and> hint
           then evidence_item ''cognitive_load_threshold'' 2 sitting ''multiple attempts with hint use'' else [])
      | SE_CALCULATION_COMPLETE \<Rightarrow>
          (let total = metric_number number kvs ''totalSteps'' 0; ratio = metric_number number kvs ''stepsWithHint'' 0 / total in
           if total \<le> 0 then []
           else if ratio > 1 / 2 then evidence_item ''cognitive_load_threshold'' 2 sitting ''support used throughout calculation''
           else if ratio < 2 / 10 then evidence_item ''working_memory_capacity'' 4 sitting ''calculation completed independently'' else [])
      | SE_MANIPULATIVE_PIECE_PLACED \<Rightarrow>
          (if attempts \<ge> 3 \<and> \<not> truthy (dict_get kvs ''correct'')
           then evidence_item ''cognitive_load_threshold'' 2 sitting ''task needed repeated attempts'' else [])
      | _ \<Rightarrow> [])"

definition event_resistance :: "(json \<Rightarrow> string) \<Rightarrow> observed_event \<Rightarrow> (uuid \<times> string) list" where
  "event_resistance repr e =
     (if oe_event_type e \<in> {SE_MODALITY_SUGGESTION_DECLINED, SE_MODALITY_SUGGESTION_IGNORED}
      then (case map_of (oe_event_data e) ''suggestedModality'' of
              None \<Rightarrow> []
            | Some v \<Rightarrow> (let modality = json_str repr v in if modality = [] then [] else [(oe_session_id e, modality)]))
      else [])"

definition resistance_results :: "(uuid \<times> string) list \<Rightarrow> dimension_inference list" where
  "resistance_results rs =
     concat (map (\<lambda>(sitting, modality).
       let n = count_where (\<lambda>r. r = (sitting, modality)) rs in
       if 3 \<le> n then [\<lparr>di_dimension = ''suggestion_frequency:'' @ modality @ '':'' @ uuid_str sitting, di_value = None, di_confidence = CONF_LOW,
         di_evidence_count = n, di_notes = [''reduce suggestion frequency for this session only'']\<rparr>] else []) (first_seen rs))"

definition infer_from_signal_events :: "(string \<Rightarrow> score option) \<Rightarrow> (json \<Rightarrow> string) \<Rightarrow> observed_event list \<Rightarrow> dimension_inference list" where
  "infer_from_signal_events number repr events =
     inference_results (concat (map (event_evidence number) events)) @ resistance_results (concat (map (event_resistance repr) events))"

subsection \<open>Stored profiles\<close>

datatype profile_dimension = PD_COGNITIVE_LOAD_THRESHOLD | PD_PROCESSING_SPEED | PD_WORKING_MEMORY_CAPACITY | PD_ATTENTION_SPAN | PD_PERFORMANCE_SENSITIVITY

definition profile_dimension_value :: "profile_dimension \<Rightarrow> string" where
  "profile_dimension_value d = (case d of
     PD_COGNITIVE_LOAD_THRESHOLD \<Rightarrow> ''cognitive_load_threshold'' | PD_PROCESSING_SPEED \<Rightarrow> ''processing_speed''
   | PD_WORKING_MEMORY_CAPACITY \<Rightarrow> ''working_memory_capacity'' | PD_ATTENTION_SPAN \<Rightarrow> ''attention_span''
   | PD_PERFORMANCE_SENSITIVITY \<Rightarrow> ''performance_sensitivity'')"

definition CANONICAL_PROFILE_DIMENSIONS :: "profile_dimension list" where
  "CANONICAL_PROFILE_DIMENSIONS = [PD_COGNITIVE_LOAD_THRESHOLD, PD_PROCESSING_SPEED, PD_WORKING_MEMORY_CAPACITY, PD_ATTENTION_SPAN, PD_PERFORMANCE_SENSITIVITY]"

definition profile_dimension_of :: "json \<Rightarrow> profile_dimension option" where
  "profile_dimension_of v = (case v of JString s \<Rightarrow> List.find (\<lambda>d. profile_dimension_value d = s) CANONICAL_PROFILE_DIMENSIONS | _ \<Rightarrow> None)"

record dimension_state =
  ds_value :: "int option"
  ds_confidence :: confidence_level

record profile_row =
  lf_id :: uuid
  lf_learner_id :: uuid
  lf_version :: int
  lf_observed_event_count :: int
  lf_last_evaluated_at :: "datetime option"
  lf_dims :: "profile_dimension \<Rightarrow> dimension_state"

record profile_history_row =
  ph_id :: uuid
  ph_learner_profile_id :: uuid
  ph_learner_id :: uuid
  ph_version :: int
  ph_observed_event_count :: int
  ph_last_evaluated_at :: "datetime option"
  ph_change_source :: string
  ph_changed_by :: "uuid option"
  ph_change_reason :: "string option"
  ph_dims :: "profile_dimension \<Rightarrow> dimension_state"

record profile_flag_row =
  pg_id :: uuid
  pg_student_id :: uuid
  pg_lesson_session_id :: uuid
  pg_learner_profile_id :: uuid
  pg_dimension :: string
  pg_current_value :: string
  pg_recommended_value :: string
  pg_rationale :: string
  pg_status :: string

record profile_db =
  pf_profiles :: "profile_row list"
  pf_history :: "profile_history_row list"
  pf_flags :: "profile_flag_row list"

definition empty_profile_state :: "profile_dimension \<Rightarrow> dimension_state" where
  "empty_profile_state = (\<lambda>_. \<lparr>ds_value = None, ds_confidence = CONF_LOW\<rparr>)"

definition dimension_ok :: "profile_dimension \<Rightarrow> int option \<Rightarrow> bool" where
  "dimension_ok d v = (case v of None \<Rightarrow> True | Some n \<Rightarrow> 1 \<le> n \<and> n \<le> (if d = PD_ATTENTION_SPAN then 240 else 5))"

definition dims_ok :: "(profile_dimension \<Rightarrow> dimension_state) \<Rightarrow> bool" where
  "dims_ok f = list_all (\<lambda>d. dimension_ok d (ds_value (f d))) CANONICAL_PROFILE_DIMENSIONS"

subsection \<open>The model's reply\<close>

datatype profile_fault = LookupError | ProfileUpdateResponseError | PyValueError | PyTypeError | ProfileGatewayFailed | FlagRefused | HistoryConflict

record profile_recommendation =
  pc_dimension :: profile_dimension
  pc_value :: "int option"
  pc_confidence :: confidence_level
  pc_rationale :: "string option"

record profile_env =
  px_loads :: "string \<Rightarrow> json option"
  px_repr :: "json \<Rightarrow> string"
  px_int :: "string \<Rightarrow> int option"
  px_bind :: "int \<Rightarrow> string option"

text \<open>\<^verbatim>\<open>int(value)\<close>: a float is cut towards zero.\<close>

definition json_int :: "profile_env \<Rightarrow> json \<Rightarrow> profile_fault + int" where
  "json_int env v = (case v of
     JInt n \<Rightarrow> Inr n
   | JBool b \<Rightarrow> Inr (if b then 1 else 0)
   | JFloat x \<Rightarrow> Inr (if 0 \<le> x then \<lfloor>x\<rfloor> else \<lceil>x\<rceil>)
   | JString s \<Rightarrow> (case px_int env s of None \<Rightarrow> Inl PyValueError | Some n \<Rightarrow> Inr n)
   | _ \<Rightarrow> Inl PyTypeError)"

definition coerce_profile_value :: "profile_env \<Rightarrow> profile_dimension \<Rightarrow> json \<Rightarrow> profile_fault + int option" where
  "coerce_profile_value env d v =
     (if v = JNull then Inr None
      else (case json_int env v of
              Inl f \<Rightarrow> Inl f
            | Inr n \<Rightarrow> if n < 1 \<or> n > (if d = PD_ATTENTION_SPAN then 240 else 5) then Inl ProfileUpdateResponseError else Inr (Some n)))"

text \<open>No other JSON value prints as one of the three words.\<close>

definition confidence_level_of :: "json option \<Rightarrow> profile_fault + confidence_level" where
  "confidence_level_of v = (case v of
     None \<Rightarrow> Inr CONF_LOW
   | Some (JString s) \<Rightarrow> (if s = ''low'' then Inr CONF_LOW else if s = ''medium'' then Inr CONF_MEDIUM else if s = ''high'' then Inr CONF_HIGH
                          else Inl PyValueError)
   | _ \<Rightarrow> Inl PyValueError)"

definition optional_string :: "profile_env \<Rightarrow> json \<Rightarrow> string option" where
  "optional_string env v = (if v = JNull then None else (let t = py_strip (json_str (px_repr env) v) in if t = [] then None else Some t))"

definition update_items :: "json \<Rightarrow> profile_fault + json list" where
  "update_items v = (case v of
     JObject kvs \<Rightarrow> Inr (concat (map (\<lambda>(k, u). case u of JObject us \<Rightarrow> [JObject (us @ [(''dimension'', JString k)])] | _ \<Rightarrow> []) kvs))
   | JList xs \<Rightarrow> Inr xs
   | _ \<Rightarrow> Inl ProfileUpdateResponseError)"

fun parse_items :: "profile_env \<Rightarrow> json list \<Rightarrow> profile_fault + profile_recommendation list" where
  "parse_items env [] = Inr []"
| "parse_items env (item # items) =
     (case item of
        JObject kvs \<Rightarrow>
          (case profile_dimension_of (dict_get kvs ''dimension'') of
             None \<Rightarrow> parse_items env items
           | Some d \<Rightarrow>
               (case coerce_profile_value env d (dict_get kvs ''value'') of
                  Inl f \<Rightarrow> Inl f
                | Inr v \<Rightarrow>
                    (case confidence_level_of (map_of kvs ''confidence'') of
                       Inl f \<Rightarrow> Inl f
                     | Inr c \<Rightarrow>
                         (case parse_items env items of
                            Inl f \<Rightarrow> Inl f
                          | Inr rest \<Rightarrow> Inr (\<lparr>pc_dimension = d, pc_value = v, pc_confidence = c,
                                pc_rationale = optional_string env (dict_get kvs ''rationale'')\<rparr> # rest)))))
      | _ \<Rightarrow> parse_items env items)"

definition parse_profile_update_response :: "profile_env \<Rightarrow> string \<Rightarrow> profile_fault + profile_recommendation list \<times> string option" where
  "parse_profile_update_response env response =
     (case px_loads env (unfenced response) of
        Some (JObject kvs) \<Rightarrow>
          (case map_of kvs ''updates'' of
             None \<Rightarrow> Inl ProfileUpdateResponseError
           | Some v \<Rightarrow>
               (case update_items v of
                  Inl f \<Rightarrow> Inl f
                | Inr items \<Rightarrow>
                    (case parse_items env items of
                       Inl f \<Rightarrow> Inl f
                     | Inr recs \<Rightarrow> Inr (recs, optional_string env (dict_get kvs ''rationale'')))))
      | _ \<Rightarrow> Inl ProfileUpdateResponseError)"

subsection \<open>Sudden changes\<close>

definition is_significant_change :: "profile_dimension \<Rightarrow> int \<Rightarrow> int \<Rightarrow> bool" where
  "is_significant_change d current recommended = (\<bar>current - recommended\<bar> \<ge> (if d = PD_ATTENTION_SPAN then 60 else 2))"

definition sudden :: "(profile_dimension \<Rightarrow> dimension_state) \<Rightarrow> profile_recommendation \<Rightarrow> bool" where
  "sudden dims r =
     (let current = dims (pc_dimension r) in
      ds_confidence current = CONF_HIGH \<and>
      (case (ds_value current, pc_value r) of (Some c, Some v) \<Rightarrow> is_significant_change (pc_dimension r) c v | _ \<Rightarrow> False))"

definition detect_profile_jump :: "(profile_dimension \<Rightarrow> dimension_state) \<Rightarrow> profile_recommendation list \<Rightarrow> profile_recommendation option" where
  "detect_profile_jump dims recs = List.find (sudden dims) recs"

subsection \<open>The repository\<close>

definition new_profile :: "uuid \<Rightarrow> uuid \<Rightarrow> profile_row" where
  "new_profile i learner = \<lparr>lf_id = i, lf_learner_id = learner, lf_version = 1, lf_observed_event_count = 0, lf_last_evaluated_at = None,
     lf_dims = empty_profile_state\<rparr>"

definition load_or_create_profile :: "uuid \<Rightarrow> uuid \<Rightarrow> profile_db \<Rightarrow> profile_db \<times> profile_row" where
  "load_or_create_profile i learner d =
     (case get_by lf_learner_id learner (pf_profiles d) of
        Some p \<Rightarrow> (d, p)
      | None \<Rightarrow> (let p = new_profile i learner in (d\<lparr>pf_profiles := pf_profiles d @ [p]\<rparr>, p)))"

definition set_dimension :: "profile_recommendation \<Rightarrow> (profile_dimension \<Rightarrow> dimension_state) \<Rightarrow> profile_dimension \<Rightarrow> dimension_state" where
  "set_dimension r dims = dims(pc_dimension r := \<lparr>ds_value = pc_value r, ds_confidence = pc_confidence r\<rparr>)"

record profile_update_outcome =
  po_status :: string
  po_profile_id :: "uuid option"
  po_dimensions :: "profile_dimension list"
  po_history_id :: "uuid option"
  po_flag_id :: "uuid option"
  po_reason :: "string option"

definition apply_recommendations ::
  "uuid \<times> uuid \<Rightarrow> profile_db \<Rightarrow> uuid \<Rightarrow> nat \<Rightarrow> profile_recommendation list \<Rightarrow> uuid \<Rightarrow> string \<Rightarrow> datetime \<Rightarrow> profile_db \<times> (profile_fault + profile_row)" where
  "apply_recommendations ids d learner event_count recs changed_by reason evaluated_at =
     (let (d1, p) = load_or_create_profile (fst ids) learner d;
          p' = p\<lparr>lf_version := lf_version p + 1, lf_observed_event_count := lf_observed_event_count p + int event_count,
                 lf_last_evaluated_at := Some evaluated_at, lf_dims := fold set_dimension recs (lf_dims p)\<rparr>;
          h = \<lparr>ph_id = snd ids, ph_learner_profile_id = lf_id p', ph_learner_id = lf_learner_id p', ph_version = lf_version p',
               ph_observed_event_count = lf_observed_event_count p', ph_last_evaluated_at = lf_last_evaluated_at p',
               ph_change_source = ''system_inference'', ph_changed_by = Some changed_by, ph_change_reason = Some (take 500 reason), ph_dims = lf_dims p'\<rparr> in
      if exists_where (\<lambda>h. ph_learner_profile_id h = lf_id p' \<and> ph_version h = lf_version p') (pf_history d) then (d, Inl HistoryConflict)
      else (d1\<lparr>pf_profiles := update_where (\<lambda>r. lf_id r = lf_id p') (\<lambda>_. p') (pf_profiles d1), pf_history := pf_history d1 @ [h]\<rparr>, Inr p'))"

text \<open>
  The two values of a flag are text columns, but \<^verbatim>\<open>_serialize_profile_value\<close> hands the integers on; \<open>px_bind\<close> is what the database driver makes
  of an integer there, \<open>None\<close> when it refuses it.
\<close>

definition create_profile_flag ::
  "profile_env \<Rightarrow> uuid \<times> uuid \<Rightarrow> profile_db \<Rightarrow> uuid \<Rightarrow> uuid \<Rightarrow> int \<Rightarrow> profile_recommendation \<Rightarrow> profile_db \<times> (profile_fault + uuid)" where
  "create_profile_flag env ids d learner sitting current r =
     (let (d1, p) = load_or_create_profile (fst ids) learner d in
      case (px_bind env current, px_bind env (the (pc_value r))) of
        (Some c, Some v) \<Rightarrow>
          (d1\<lparr>pf_flags := pf_flags d1 @ [\<lparr>pg_id = snd ids, pg_student_id = learner, pg_lesson_session_id = sitting, pg_learner_profile_id = lf_id p,
             pg_dimension = profile_dimension_value (pc_dimension r), pg_current_value = c, pg_recommended_value = v,
             pg_rationale = take 500 (case pc_rationale r of Some t \<Rightarrow> t | None \<Rightarrow> ''Session evidence diverged from a high-confidence profile value.''),
             pg_status = ''open''\<rparr>]\<rparr>, Inr (snd ids))
      | _ \<Rightarrow> (d, Inl FlagRefused))"

subsection \<open>The service\<close>

definition update_after_lesson ::
  "profile_env \<Rightarrow> uuid \<times> uuid \<Rightarrow> string option \<Rightarrow> datetime \<Rightarrow> attention_db \<Rightarrow> profile_db \<Rightarrow> uuid \<Rightarrow> uuid \<Rightarrow> uuid \<Rightarrow>
   profile_db \<times> (profile_fault + profile_update_outcome)" where
  "update_after_lesson env ids reply now a d student sitting requested_by =
     (case get_by ls_id sitting (at_sessions a) of
        None \<Rightarrow> (d, Inl LookupError)
      | Some s \<Rightarrow>
          if ls_student_id s \<noteq> student then (d, Inl LookupError)
          else
            (let profile = get_by lf_learner_id student (pf_profiles d);
                 dims = (case profile of None \<Rightarrow> empty_profile_state | Some p \<Rightarrow> lf_dims p);
                 event_count = count_where (\<lambda>e. se_student_id e = student \<and> se_session_id e = sitting) (at_events a) in
             case reply of
               None \<Rightarrow> (d, Inl ProfileGatewayFailed)
             | Some response \<Rightarrow>
                 (case parse_profile_update_response env response of
                    Inl f \<Rightarrow> (d, Inl f)
                  | Inr (recs, rationale) \<Rightarrow>
                      if recs = []
                      then (d, Inr \<lparr>po_status = ''no_change'', po_profile_id = map_option lf_id profile, po_dimensions = [], po_history_id = None,
                                    po_flag_id = None, po_reason = rationale\<rparr>)
                      else
                        (case detect_profile_jump dims recs of
                           Some r \<Rightarrow>
                             (case create_profile_flag env ids d student sitting (the (ds_value (dims (pc_dimension r)))) r of
                                (d1, Inl f) \<Rightarrow> (d1, Inl f)
                              | (d1, Inr flag) \<Rightarrow>
                                  (d1, Inr \<lparr>po_status = ''flagged'', po_profile_id = map_option lf_id profile, po_dimensions = [pc_dimension r],
                                     po_history_id = None, po_flag_id = Some flag,
                                     po_reason = Some (case pc_rationale r of Some t \<Rightarrow> t | None \<Rightarrow> ''Session evidence diverged from a high-confidence profile value.'')\<rparr>))
                         | None \<Rightarrow>
                             (case apply_recommendations ids d student event_count recs requested_by
                                     (case rationale of Some t \<Rightarrow> t | None \<Rightarrow> ''Post-lesson profile update'') now of
                                (d1, Inl f) \<Rightarrow> (d1, Inl f)
                              | (d1, Inr p) \<Rightarrow>
                                  (d1, Inr \<lparr>po_status = ''updated'', po_profile_id = Some (lf_id p), po_dimensions = map pc_dimension recs,
                                     po_history_id = Some (snd ids), po_flag_id = None, po_reason = None\<rparr>))))))"

subsection \<open>What an inference rests on\<close>

lemma card_set_le_concat: "card (set (concat (map (\<lambda>r. case f r of None \<Rightarrow> [] | Some s \<Rightarrow> [s]) rows))) \<le> length rows"
proof -
  have "length (concat (map (\<lambda>r. case f r of None \<Rightarrow> [] | Some s \<Rightarrow> [s]) rows)) \<le> length rows"
    by (induction rows) (auto split: option.split)
  then show ?thesis using card_length order_trans by blast
qed

lemma inference_result_confidence:
  "di_confidence (inference_result evidence name) = CONF_HIGH \<Longrightarrow> 5 \<le> di_evidence_count (inference_result evidence name)"
  "di_confidence (inference_result evidence name) = CONF_MEDIUM \<Longrightarrow> 3 \<le> di_evidence_count (inference_result evidence name)"
  using card_set_le_concat[of pv_session_id "map snd (filter (\<lambda>(n, _). n = name) evidence)"]
  by (auto simp: inference_result_def confidence_for_def Let_def split: if_splits)

text \<open>A value is inferred on the five-point scale whatever the metrics, and never with confidence from the first activities alone.\<close>

lemma evidence_values:
  "(n, e) \<in> set (activity_evidence number a) \<Longrightarrow> 2 \<le> pv_value e \<and> pv_value e \<le> 5 \<and> pv_session_id e = None"
  "(n, e) \<in> set (timing_evidence votes) \<Longrightarrow> 2 \<le> pv_value e \<and> pv_value e \<le> 5 \<and> pv_session_id e = None"
  by (auto simp: activity_evidence_def timing_evidence_def evidence_item_def Let_def split: if_splits)

lemma seeded_confidence_is_low:
  assumes "di \<in> set (seed_from_observed_sequence number activities)"
  shows "di_confidence di = CONF_LOW"
proof -
  let ?ev = "concat (map (activity_evidence number) activities) @ timing_evidence (concat (map (timing_vote number) activities))"
  have "pv_session_id (snd p) = None" if "p \<in> set ?ev" for p
  proof -
    obtain n e where "p = (n, e)" by (rule prod.exhaust)
    then show ?thesis using that by (auto dest: evidence_values)
  qed
  then have none: "concat (map (\<lambda>r. case pv_session_id r of None \<Rightarrow> [] | Some s \<Rightarrow> [s]) (map snd (filter (\<lambda>(n, _). n = name) ?ev))) = []" for name
    by (auto simp: split_beta)
  have "di_confidence (inference_result ?ev name) = CONF_LOW" for name
    unfolding inference_result_def Let_def dimension_inference.simps none by (simp add: confidence_for_def)
  then show ?thesis using assms unfolding seed_from_observed_sequence_def inference_results_def set_map by blast
qed

subsection \<open>Profiles and their history\<close>

text \<open>
  A child has one profile; its values are in range; and every version of it but the first has been written to the history, the last of them as
  it stands now.
\<close>

definition history_of :: "profile_db \<Rightarrow> uuid \<Rightarrow> profile_history_row list" where
  "history_of d i = filter (\<lambda>h. ph_learner_profile_id h = i) (pf_history d)"

definition profile_ok :: "profile_db \<Rightarrow> profile_row \<Rightarrow> bool" where
  "profile_ok d p = (dims_ok (lf_dims p) \<and> 1 \<le> lf_version p \<and> map ph_version (history_of d (lf_id p)) = map int [2..<Suc (nat (lf_version p))] \<and>
     (lf_version p > 1 \<longrightarrow> ph_dims (last (history_of d (lf_id p))) = lf_dims p))"

definition profiles_ok :: "profile_db \<Rightarrow> bool" where
  "profiles_ok d = (distinct (map lf_learner_id (pf_profiles d)) \<and> distinct (map lf_id (pf_profiles d)) \<and> list_all (profile_ok d) (pf_profiles d) \<and>
     list_all (\<lambda>h. ph_learner_profile_id h \<in> lf_id ` set (pf_profiles d)) (pf_history d))"

lemma dims_ok_iff: "dims_ok f \<longleftrightarrow> (\<forall>d. dimension_ok d (ds_value (f d)))"
  by (auto simp: dims_ok_def CANONICAL_PROFILE_DIMENSIONS_def) (metis profile_dimension.exhaust)

lemma coerced_in_range: "coerce_profile_value env d v = Inr x \<Longrightarrow> dimension_ok d x"
  by (auto simp: coerce_profile_value_def dimension_ok_def split: if_splits sum.splits)

lemma parsed_in_range: "\<lbrakk>parse_items env items = Inr recs; r \<in> set recs\<rbrakk> \<Longrightarrow> dimension_ok (pc_dimension r) (pc_value r)"
proof (induction items arbitrary: recs)
  case (Cons item items)
  show ?case
  proof (cases "parse_items env items = Inr recs")
    case True then show ?thesis using Cons.IH Cons.prems(2) by blast
  next
    case False
    then obtain r0 rest where "recs = r0 # rest" "parse_items env items = Inr rest" "dimension_ok (pc_dimension r0) (pc_value r0)"
      using Cons.prems(1) by (auto split: json.splits option.splits sum.splits dest: coerced_in_range)
    then show ?thesis using Cons.IH Cons.prems(2) by auto
  qed
qed simp

lemma response_in_range:
  "\<lbrakk>parse_profile_update_response env response = Inr (recs, rationale); r \<in> set recs\<rbrakk> \<Longrightarrow> dimension_ok (pc_dimension r) (pc_value r)"
  by (auto simp: parse_profile_update_response_def split: option.splits json.splits sum.splits intro: parsed_in_range)

lemma json_int_fault: "json_int env v = Inl f \<Longrightarrow> f \<in> {PyValueError, PyTypeError}"
  by (auto simp: json_int_def split: json.splits option.splits)

lemma parse_items_fault: "parse_items env items = Inl f \<Longrightarrow> f \<noteq> HistoryConflict"
proof (induction items arbitrary: f)
  case (Cons item items)
  have "coerce_profile_value env d v = Inl g \<Longrightarrow> g \<noteq> HistoryConflict" for d v g
    by (auto simp: coerce_profile_value_def dest: json_int_fault split: if_splits sum.splits)
  moreover have "confidence_level_of v = Inl g \<Longrightarrow> g \<noteq> HistoryConflict" for v g
    by (auto simp: confidence_level_of_def split: option.splits json.splits if_splits)
  ultimately show ?case using Cons by (auto split: json.splits option.splits sum.splits)
qed simp

lemma parse_fault_not_conflict: "parse_profile_update_response env response = Inl f \<Longrightarrow> f \<noteq> HistoryConflict"
  by (auto simp: parse_profile_update_response_def update_items_def dest: parse_items_fault split: option.splits json.splits sum.splits)

lemma fold_dims_ok: "\<lbrakk>dims_ok f; \<And>r. r \<in> set recs \<Longrightarrow> dimension_ok (pc_dimension r) (pc_value r)\<rbrakk> \<Longrightarrow> dims_ok (fold set_dimension recs f)"
  by (induction recs arbitrary: f) (auto simp: dims_ok_iff set_dimension_def)

lemma fold_dims_value:
  "fold set_dimension recs f q = f q \<or> (\<exists>r \<in> set recs. pc_dimension r = q \<and> ds_value (fold set_dimension recs f q) = pc_value r)"
proof (induction recs arbitrary: f)
  case (Cons r recs)
  show ?case using Cons.IH[of "set_dimension r f"] by (auto simp: set_dimension_def split: if_splits)
qed simp

lemma empty_dims_ok: "dims_ok empty_profile_state"
  by (simp add: dims_ok_iff dimension_ok_def empty_profile_state_def)

lemma load_or_create_ok:
  assumes "profiles_ok d" "load_or_create_profile i learner d = (d1, p)" "i \<notin> lf_id ` set (pf_profiles d)"
  shows "profiles_ok d1" and "p \<in> set (pf_profiles d1)" and "lf_learner_id p = learner" and "pf_history d1 = pf_history d" and "pf_flags d1 = pf_flags d"
    and "get_by lf_learner_id learner (pf_profiles d) = Some q \<Longrightarrow> p = q \<and> d1 = d"
    and "t \<noteq> learner \<Longrightarrow> get_by lf_learner_id t (pf_profiles d1) = get_by lf_learner_id t (pf_profiles d)"
proof -
  show "p \<in> set (pf_profiles d1)" "lf_learner_id p = learner" "pf_history d1 = pf_history d" "pf_flags d1 = pf_flags d"
    "get_by lf_learner_id learner (pf_profiles d) = Some q \<Longrightarrow> p = q \<and> d1 = d"
    "t \<noteq> learner \<Longrightarrow> get_by lf_learner_id t (pf_profiles d1) = get_by lf_learner_id t (pf_profiles d)"
    using assms(2) by (auto simp: load_or_create_profile_def Let_def new_profile_def get_by_append dest!: get_by_SomeD split: option.splits)
  show "profiles_ok d1"
  proof (cases "get_by lf_learner_id learner (pf_profiles d)")
    case None
    then have d1: "d1 = d\<lparr>pf_profiles := pf_profiles d @ [new_profile i learner]\<rparr>" using assms(2) by (auto simp: load_or_create_profile_def Let_def)
    have "history_of d i = []" using assms(1,3) by (auto simp: history_of_def profiles_ok_def list_all_iff filter_empty_conv)
    then have "profile_ok d (new_profile i learner)" by (simp add: profile_ok_def new_profile_def empty_dims_ok numeral_2_eq_2)
    moreover have "profile_ok d1 q = profile_ok d q" for q by (simp add: d1 profile_ok_def history_of_def)
    ultimately show ?thesis using assms(1,3) None by (auto simp: d1 profiles_ok_def new_profile_def list_all_iff get_by_None_iff)
  qed (use assms in \<open>auto simp: load_or_create_profile_def\<close>)
qed

lemma upto_extend: "2 \<le> Suc n \<Longrightarrow> map int [2..<Suc (Suc n)] = map int [2..<Suc n] @ [int (Suc n)]"
  by (cases n) (auto simp: numeral_2_eq_2)

lemma apply_recommendations_ok:
  assumes "profiles_ok d" "fst ids \<notin> lf_id ` set (pf_profiles d)" "\<And>r. r \<in> set recs \<Longrightarrow> dimension_ok (pc_dimension r) (pc_value r)"
  obtains d' p q where "apply_recommendations ids d learner n recs by_user reason now = (d', Inr p)" "profiles_ok d'" "p \<in> set (pf_profiles d')"
     "lf_learner_id p = learner" "lf_dims p = fold set_dimension recs (lf_dims q)"
     "\<forall>q'. get_by lf_learner_id learner (pf_profiles d) = Some q' \<longrightarrow> q = q'"
     "\<forall>t. t \<noteq> learner \<longrightarrow> get_by lf_learner_id t (pf_profiles d') = get_by lf_learner_id t (pf_profiles d)"
     "pf_flags d' = pf_flags d" "\<exists>h. pf_history d' = pf_history d @ [h] \<and> ph_learner_id h = learner"
proof -
  obtain d1 q where load: "load_or_create_profile (fst ids) learner d = (d1, q)" by (metis surj_pair)
  note lo = load_or_create_ok[OF assms(1) load assms(2)]
  define p where "p = q\<lparr>lf_version := lf_version q + 1, lf_observed_event_count := lf_observed_event_count q + int n,
                 lf_last_evaluated_at := Some now, lf_dims := fold set_dimension recs (lf_dims q)\<rparr>"
  define h where "h = \<lparr>ph_id = snd ids, ph_learner_profile_id = lf_id p, ph_learner_id = lf_learner_id p, ph_version = lf_version p,
               ph_observed_event_count = lf_observed_event_count p, ph_last_evaluated_at = lf_last_evaluated_at p,
               ph_change_source = ''system_inference'', ph_changed_by = Some by_user, ph_change_reason = Some (take 500 reason), ph_dims = lf_dims p\<rparr>"
  define d' where "d' = d1\<lparr>pf_profiles := update_where (\<lambda>r. lf_id r = lf_id p) (\<lambda>_. p) (pf_profiles d1), pf_history := pf_history d1 @ [h]\<rparr>"
  have ok: "profile_ok d1 q" using lo(1,2) by (auto simp: profiles_ok_def list_all_iff)
  have ids: "lf_id p = lf_id q" "lf_learner_id p = learner" "lf_version p = lf_version q + 1" by (simp_all add: p_def lo(3))
  have versions: "map ph_version (history_of d1 (lf_id q)) = map int [2..<Suc (nat (lf_version q))]" "1 \<le> lf_version q" using ok by (auto simp: profile_ok_def)
  have fresh: "\<not> exists_where (\<lambda>h. ph_learner_profile_id h = lf_id p \<and> ph_version h = lf_version p) (pf_history d)"
  proof
    assume "exists_where (\<lambda>h. ph_learner_profile_id h = lf_id p \<and> ph_version h = lf_version p) (pf_history d)"
    then have "lf_version q + 1 \<in> set (map ph_version (history_of d1 (lf_id q)))" by (auto simp: history_of_def ids lo(4) image_iff)
    then show False unfolding versions(1) using versions(2) by (auto split: if_splits)
  qed
  have run: "apply_recommendations ids d learner n recs by_user reason now = (d', Inr p)"
    using fresh unfolding apply_recommendations_def load Let_def prod.case p_def[symmetric] h_def[symmetric] d'_def[symmetric] by (simp del: exists_where_iff)
  have rows: "r \<in> set (pf_profiles d') \<Longrightarrow> r = p \<or> (r \<in> set (pf_profiles d1) \<and> lf_id r \<noteq> lf_id p)" for r
    by (auto simp: d'_def update_where_def split: if_splits)
  have old: "profile_ok d' r" if "r \<in> set (pf_profiles d1)" "lf_id r \<noteq> lf_id p" for r
    using that lo(1) by (auto simp: profiles_ok_def list_all_iff profile_ok_def history_of_def d'_def h_def)
  have "dims_ok (lf_dims p)" using ok fold_dims_ok[OF _ assms(3)] by (simp add: p_def profile_ok_def)
  moreover have "history_of d' (lf_id p) = history_of d1 (lf_id q) @ [h]" by (simp add: history_of_def d'_def h_def ids(1))
  moreover have "map int [2..<Suc (nat (lf_version p))] = map int [2..<Suc (nat (lf_version q))] @ [lf_version p]"
  proof -
    have "nat (lf_version p) = Suc (nat (lf_version q))" using versions(2) by (simp add: ids(3))
    then show ?thesis using upto_extend[of "nat (lf_version q)"] versions(2) by (simp add: ids(3))
  qed
  ultimately have "profile_ok d' p" using versions by (simp add: profile_ok_def ids(3)) (simp add: h_def p_def)
  then have "list_all (profile_ok d') (pf_profiles d')" using rows old by (auto simp: list_all_iff)
  moreover have keys: "map lf_id (pf_profiles d') = map lf_id (pf_profiles d1)"
    by (simp add: d'_def update_where_def ids(1)) 
  moreover have "map lf_learner_id (pf_profiles d') = map lf_learner_id (pf_profiles d1)"
  proof -
    have "lf_learner_id r = learner" if "r \<in> set (pf_profiles d1)" "lf_id r = lf_id p" for r
      using that lo(1,2,3) ids(1) by (auto simp: profiles_ok_def distinct_map inj_on_def)
    then show ?thesis by (simp add: d'_def update_where_def ids(2))
  qed
  moreover have "list_all (\<lambda>h. ph_learner_profile_id h \<in> lf_id ` set (pf_profiles d')) (pf_history d')"
  proof -
    have "lf_id ` set (pf_profiles d') = lf_id ` set (pf_profiles d1)" using keys by (metis set_map)
    then show ?thesis using lo(1,2) by (auto simp: d'_def profiles_ok_def list_all_iff h_def ids(1))
  qed
  ultimately have "profiles_ok d'" using lo(1) by (simp add: profiles_ok_def)
  moreover have "p \<in> set (pf_profiles d')" using updated_row_in[OF lo(2), of "\<lambda>r. lf_id r = lf_id p" "\<lambda>_. p"] by (simp add: d'_def ids(1))
  moreover have "get_by lf_learner_id t (pf_profiles d') = get_by lf_learner_id t (pf_profiles d)" if "t \<noteq> learner" for t
  proof -
    have "get_by lf_learner_id t (update_where (\<lambda>r. lf_id r = lf_id p) (\<lambda>_. p) rs) = get_by lf_learner_id t rs"
      if "\<And>r. r \<in> set rs \<Longrightarrow> lf_id r = lf_id p \<Longrightarrow> lf_learner_id r = learner" for rs
      using that \<open>t \<noteq> learner\<close> ids(2) by (induction rs) auto
    moreover have "lf_learner_id r = learner" if "r \<in> set (pf_profiles d1)" "lf_id r = lf_id p" for r
      using that lo(1,2,3) ids(1) by (auto simp: profiles_ok_def distinct_map inj_on_def)
    ultimately show ?thesis using lo(7)[OF that] by (simp add: d'_def)
  qed
  moreover have "\<exists>h. pf_history d' = pf_history d @ [h] \<and> ph_learner_id h = learner" by (simp add: d'_def lo(4) h_def ids(2))
  moreover have "pf_flags d' = pf_flags d" by (simp add: d'_def lo(5))
  moreover have "lf_dims p = fold set_dimension recs (lf_dims q)" by (simp add: p_def)
  moreover have "\<forall>q'. get_by lf_learner_id learner (pf_profiles d) = Some q' \<longrightarrow> q = q'" using lo(6) by blast
  ultimately show thesis using that[OF run _ _ ids(2)] by blast
qed

lemma create_profile_flag_ok:
  assumes "profiles_ok d" "fst ids \<notin> lf_id ` set (pf_profiles d)" "create_profile_flag env ids d learner sitting v r = (d', res)"
  shows "profiles_ok d'" and "pf_history d' = pf_history d" and "res = Inl f \<Longrightarrow> d' = d" and "res \<noteq> Inl HistoryConflict"
    and "get_by lf_learner_id learner (pf_profiles d) = Some p \<Longrightarrow> pf_profiles d' = pf_profiles d"
    and "t \<noteq> learner \<Longrightarrow> get_by lf_learner_id t (pf_profiles d') = get_by lf_learner_id t (pf_profiles d)"
proof -
  obtain d1 q where load: "load_or_create_profile (fst ids) learner d = (d1, q)" by (metis surj_pair)
  note lo = load_or_create_ok[OF assms(1) load assms(2)]
  have cases: "(d' = d \<and> res = Inl FlagRefused) \<or> (pf_profiles d' = pf_profiles d1 \<and> pf_history d' = pf_history d1 \<and> (\<exists>i. res = Inr i))"
    using assms(3) load by (auto simp: create_profile_flag_def Let_def split: option.splits)
  have "profiles_ok d' = profiles_ok d1" if "pf_profiles d' = pf_profiles d1" "pf_history d' = pf_history d1"
  proof -
    have "profile_ok d' = profile_ok d1" by (intro ext) (simp add: profile_ok_def history_of_def that)
    then show ?thesis using that by (simp add: profiles_ok_def)
  qed
  then show "profiles_ok d'" using cases assms(1) lo(1) by auto
  show "pf_history d' = pf_history d" "res = Inl f \<Longrightarrow> d' = d" "res \<noteq> Inl HistoryConflict"
    "get_by lf_learner_id learner (pf_profiles d) = Some p \<Longrightarrow> pf_profiles d' = pf_profiles d"
    "t \<noteq> learner \<Longrightarrow> get_by lf_learner_id t (pf_profiles d') = get_by lf_learner_id t (pf_profiles d)"
    using cases lo(4,6,7) by auto
qed

lemma updateE:
  assumes "update_after_lesson env ids reply now a d student sitting requested_by = (d', res)"
  obtains (kept) "d' = d" "res \<noteq> Inl HistoryConflict"
  | (flagged) r v res' where "create_profile_flag env ids d student sitting v r = (d', res')"
      "(\<exists>f. res' = Inl f \<and> res = Inl f) \<or> (\<exists>i out. res' = Inr i \<and> res = Inr out)"
  | (applied) n recs reason res' where "\<And>r. r \<in> set recs \<Longrightarrow> dimension_ok (pc_dimension r) (pc_value r)"
      "\<And>r p. \<lbrakk>r \<in> set recs; get_by lf_learner_id student (pf_profiles d) = Some p\<rbrakk> \<Longrightarrow> \<not> sudden (lf_dims p) r"
      "apply_recommendations ids d student n recs requested_by reason now = (d', res')"
      "(\<exists>f. res' = Inl f \<and> res = Inl f) \<or> (\<exists>p out. res' = Inr p \<and> res = Inr out)"
proof -
  let ?profile = "get_by lf_learner_id student (pf_profiles d)"
  let ?dims = "case ?profile of None \<Rightarrow> empty_profile_state | Some p \<Rightarrow> lf_dims p"
  let ?n = "count_where (\<lambda>e. se_student_id e = student \<and> se_session_id e = sitting) (at_events a)"
  show thesis
  proof (cases "\<exists>s response recs rationale. get_by ls_id sitting (at_sessions a) = Some s \<and> ls_student_id s = student \<and> reply = Some response \<and>
      parse_profile_update_response env response = Inr (recs, rationale) \<and> recs \<noteq> []")
    case False
    have "\<And>f. parse_profile_update_response env r = Inl f \<Longrightarrow> f \<noteq> HistoryConflict" for r
      by (rule parse_fault_not_conflict)
    then have "d' = d \<and> res \<noteq> Inl HistoryConflict"
      using assms False by (auto simp: update_after_lesson_def Let_def split: option.splits if_splits sum.splits)
    then show thesis using kept by blast
  next
    case True
    then obtain s response recs rationale where go: "get_by ls_id sitting (at_sessions a) = Some s" "ls_student_id s = student" "reply = Some response"
      "parse_profile_update_response env response = Inr (recs, rationale)" "recs \<noteq> []" by blast
    show thesis
    proof (cases "detect_profile_jump ?dims recs")
      case (Some r)
      let ?v = "the (ds_value (?dims (pc_dimension r)))"
      obtain e res' where flag: "create_profile_flag env ids d student sitting ?v r = (e, res')" by (metis surj_pair)
      have "d' = e \<and> ((\<exists>f. res' = Inl f \<and> res = Inl f) \<or> (\<exists>i out. res' = Inr i \<and> res = Inr out))"
        using assms go Some flag by (cases res') (auto simp: update_after_lesson_def Let_def)
      then show thesis using flagged[of ?v r res'] flag by blast
    next
      case None
      let ?reason = "case rationale of Some t \<Rightarrow> t | None \<Rightarrow> ''Post-lesson profile update''"
      obtain e res' where app: "apply_recommendations ids d student ?n recs requested_by ?reason now = (e, res')" by (rule prod.exhaust)
      have out: "d' = e \<and> ((\<exists>f. res' = Inl f \<and> res = Inl f) \<or> (\<exists>p out. res' = Inr p \<and> res = Inr out))"
        using assms go None app by (cases res') (auto simp: update_after_lesson_def Let_def)
      have calm: "\<not> sudden (lf_dims p) r" if "r \<in> set recs" "?profile = Some p" for r p
        using None that by (auto simp: detect_profile_jump_def find_None_iff_all)
      show thesis by (rule applied[of recs ?n ?reason res']) (use response_in_range[OF go(4)] calm app out in auto)
    qed
  qed
qed

text \<open>
  Claim C39.  Updating a profile after a lesson never runs into the uniqueness of versions and keeps the profiles sound: one per child, every value in
  the range of its dimension whatever the model answered, and a history that has each version after the first exactly once, in order, the last as the
  profile stands.  An update that fails changes nothing, and none touches another child's profile.
\<close>

theorem profile_history_is_complete:
  assumes "profiles_ok d" "fst ids \<notin> lf_id ` set (pf_profiles d)"
    "update_after_lesson env ids reply now a d student sitting requested_by = (d', res)"
  shows "profiles_ok d' \<and> res \<noteq> Inl HistoryConflict \<and> (\<forall>f. res = Inl f \<longrightarrow> d' = d) \<and>
    (\<forall>t. t \<noteq> student \<longrightarrow> get_by lf_learner_id t (pf_profiles d') = get_by lf_learner_id t (pf_profiles d))"
  using assms(3)
proof (cases rule: updateE)
  case kept then show ?thesis using assms(1) by simp
next
  case (flagged r v res')
  note ok = create_profile_flag_ok[OF assms(1,2) flagged(1)]
  show ?thesis using ok flagged(2) by auto
next
  case (applied n recs reason res')
  obtain e p where run: "apply_recommendations ids d student n recs requested_by reason now = (e, Inr p)" "profiles_ok e"
    "\<forall>t. t \<noteq> student \<longrightarrow> get_by lf_learner_id t (pf_profiles e) = get_by lf_learner_id t (pf_profiles d)"
    by (rule apply_recommendations_ok[OF assms(1,2) applied(1)])
  then show ?thesis using applied(3,4) by auto
qed

text \<open>
  A value the profile is highly confident of does not jump on the word of the model: after an update it is gone or less than two points away, less
  than an hour for the attention span.
\<close>

theorem trusted_values_do_not_jump:
  assumes "profiles_ok d" "fst ids \<notin> lf_id ` set (pf_profiles d)" "get_by lf_learner_id student (pf_profiles d) = Some p"
    "ds_confidence (lf_dims p q) = CONF_HIGH" "ds_value (lf_dims p q) = Some v"
    "update_after_lesson env ids reply now a d student sitting requested_by = (d', res)"
  shows "\<exists>p'. get_by lf_learner_id student (pf_profiles d') = Some p' \<and>
    (case ds_value (lf_dims p' q) of None \<Rightarrow> True | Some v' \<Rightarrow> \<bar>v - v'\<bar> < (if q = PD_ATTENTION_SPAN then 60 else 2))"
  using assms(6)
proof (cases rule: updateE)
  case kept then show ?thesis using assms(3,5) by simp
next
  case (flagged r u res')
  then show ?thesis using create_profile_flag_ok(5)[OF assms(1,2) flagged(1) assms(3)] assms(3,5) by simp
next
  case (applied n recs reason res')
  obtain e p' q0 where run0: "apply_recommendations ids d student n recs requested_by reason now = (e, Inr p')" "profiles_ok e" "p' \<in> set (pf_profiles e)"
    "lf_learner_id p' = student" "lf_dims p' = fold set_dimension recs (lf_dims q0)"
    "\<forall>q'. get_by lf_learner_id student (pf_profiles d) = Some q' \<longrightarrow> q0 = q'"
    by (rule apply_recommendations_ok[OF assms(1,2) applied(1)])
  have "q0 = p" using run0(6) assms(3) by blast
  note run = run0(1-4) run0(5)[unfolded this]
  have here: "get_by lf_learner_id student (pf_profiles d') = Some p'"
    using get_by_in[OF _ run(3), of lf_learner_id] run(1,2,4) applied(3) by (simp add: profiles_ok_def)
  have "\<bar>v - v'\<bar> < (if q = PD_ATTENTION_SPAN then 60 else 2)" if v': "ds_value (lf_dims p' q) = Some v'" for v'
  proof (cases "lf_dims p' q = lf_dims p q")
    case True then show ?thesis using v' assms(5) by simp
  next
    case False
    then obtain r where r: "r \<in> set recs" "pc_dimension r = q" "pc_value r = Some v'" using fold_dims_value[of recs "lf_dims p" q] v' run(5) by auto
    then show ?thesis using applied(2)[OF r(1) assms(3)] assms(4,5) by (auto simp: sudden_def is_significant_change_def Let_def)
  qed
  then show ?thesis using here by (cases "ds_value (lf_dims p' q)") auto
qed

subsection \<open>A trusted profile\<close>

definition trusted_profile :: profile_row where
  "trusted_profile = (new_profile 3 20)\<lparr>lf_dims := (\<lambda>_. \<lparr>ds_value = Some 3, ds_confidence = CONF_HIGH\<rparr>)\<rparr>"

definition trusted_db :: profile_db where
  "trusted_db = \<lparr>pf_profiles = [trusted_profile], pf_history = [], pf_flags = []\<rparr>"

definition fast_reply :: profile_env where
  "fast_reply = \<lparr>px_loads = (\<lambda>_. Some (JObject [(''updates'', JObject [(''processing_speed'', JObject [(''value'', JInt 4), (''confidence'', JString ''high'')])])])),
     px_repr = (\<lambda>_. []), px_int = (\<lambda>_. None), px_bind = (\<lambda>_. None)\<rparr>"

lemma trusted_db_ok: "profiles_ok trusted_db" "10 \<notin> lf_id ` set (pf_profiles trusted_db)"
  by (auto simp: trusted_db_def trusted_profile_def profiles_ok_def profile_ok_def new_profile_def history_of_def dims_ok_iff dimension_ok_def numeral_2_eq_2)

lemma trusted_found: "get_by lf_learner_id 20 (pf_profiles trusted_db) = Some trusted_profile"
  by (simp add: trusted_db_def trusted_profile_def new_profile_def)

theorem profile_history_is_complete_witness:
  "profiles_ok (fst (update_after_lesson fast_reply (10, 11) (Some []) 5 flag_db trusted_db 20 1 20)) \<and>
   (case snd (update_after_lesson fast_reply (10, 11) (Some []) 5 flag_db trusted_db 20 1 20) of Inl _ \<Rightarrow> False | Inr out \<Rightarrow> po_status out = ''updated'')"
proof -
  have run: "update_after_lesson fast_reply (10, 11) (Some []) 5 flag_db trusted_db 20 1 20 =
    (fst (update_after_lesson fast_reply (10, 11) (Some []) 5 flag_db trusted_db 20 1 20), snd (update_after_lesson fast_reply (10, 11) (Some []) 5 flag_db trusted_db 20 1 20))"
    by simp
  have "case snd (update_after_lesson fast_reply (10, 11) (Some []) 5 flag_db trusted_db 20 1 20) of Inl _ \<Rightarrow> False | Inr out \<Rightarrow> po_status out = ''updated''"
    by code_simp
  moreover have "profiles_ok (fst (update_after_lesson fast_reply (10, 11) (Some []) 5 flag_db trusted_db 20 1 20))"
    using profile_history_is_complete[OF trusted_db_ok(1) _ run] trusted_db_ok(2) by simp
  ultimately show ?thesis by blast
qed

theorem trusted_values_do_not_jump_witness:
  "\<exists>p'. get_by lf_learner_id 20 (pf_profiles (fst (update_after_lesson fast_reply (10, 11) (Some []) 5 flag_db trusted_db 20 1 20))) = Some p' \<and>
    (case ds_value (lf_dims p' PD_PROCESSING_SPEED) of None \<Rightarrow> True | Some v' \<Rightarrow> \<bar>3 - v'\<bar> < 2)"
proof -
  have run: "update_after_lesson fast_reply (10, 11) (Some []) 5 flag_db trusted_db 20 1 20 =
    (fst (update_after_lesson fast_reply (10, 11) (Some []) 5 flag_db trusted_db 20 1 20), snd (update_after_lesson fast_reply (10, 11) (Some []) 5 flag_db trusted_db 20 1 20))"
    by simp
  show ?thesis
    using trusted_values_do_not_jump[OF trusted_db_ok(1) _ trusted_found _ _ run, where q = PD_PROCESSING_SPEED and v = 3] trusted_db_ok(2)
    by (simp add: trusted_profile_def cong: option.case_cong)
qed

text \<open>A null from the model clears a trusted value without any flag, and a reply without updates is an error rather than no change.\<close>

theorem null_clears_a_trusted_value:
  "\<not> sudden (lf_dims trusted_profile) \<lparr>pc_dimension = PD_PROCESSING_SPEED, pc_value = None, pc_confidence = CONF_LOW, pc_rationale = None\<rparr> \<and>
   (\<forall>env. px_loads env [] = Some (JObject []) \<longrightarrow> parse_profile_update_response env [] = Inl ProfileUpdateResponseError)"
  by (simp add: sudden_def trusted_profile_def parse_profile_update_response_def unfenced_def py_strip_def Let_def)

end
