(* ===== verification/PostLesson.thy ===== *)
theory PostLesson
  imports LearnerProfiles Auth
begin

text \<open>
  What happens after a lesson (\<^verbatim>\<open>learner_profiles/post_lesson_worker.py\<close>): a queue of finished sittings, worked off in stages that are each
  committed on their own, with the consent asked again before each.  The accommodation log is \<^verbatim>\<open>api/learning_support_records.py\<close>, the notice to
  the teachers \<^verbatim>\<open>notifications/digests.py\<close>.  The aggregate of a child's behaviour over lessons
  (\<^verbatim>\<open>intelligence/accommodation_repositories.py\<close>) is an argument, as are the replies of the language model.
\<close>

subsection \<open>Rows\<close>

record post_lesson_row =
  pp_session_id :: uuid
  pp_student_id :: uuid
  pp_completed_at :: datetime
  pp_status :: string
  pp_attempt_count :: int
  pp_next_attempt_at :: datetime
  pp_profile_updated :: bool
  pp_flags_evaluated :: bool
  pp_last_error :: "string option"
  pp_processed_at :: "datetime option"

datatype accommodation_action = AA_ADDED | AA_REMOVED

record accommodation_change_row =
  ax_student_id :: uuid
  ax_accommodation :: accommodation_type
  ax_action :: accommodation_action
  ax_prompted_by :: string
  ax_observed_over_lessons :: "int option"
  ax_occurred_at :: datetime

record lesson_db =
  ld_db :: db
  ld_attention :: attention_db
  ld_profiles :: profile_db
  ld_changes :: "accommodation_change_row list"
  ld_queue :: "post_lesson_row list"

definition MAX_LESSON_ATTEMPTS :: int where "MAX_LESSON_ATTEMPTS = 5"

subsection \<open>The accommodation log\<close>

text \<open>The changes are logged in the order they happen, so of the rows with the latest instant the last one counts.\<close>

definition latest_change :: "accommodation_change_row list \<Rightarrow> uuid \<Rightarrow> accommodation_type \<Rightarrow> accommodation_change_row option" where
  "latest_change rows student a =
     (case sort_key ax_occurred_at (filter (\<lambda>r. ax_student_id r = student \<and> ax_accommodation r = a) rows) of [] \<Rightarrow> None | rs \<Rightarrow> Some (last rs))"

definition current_accommodations :: "accommodation_change_row list \<Rightarrow> uuid \<Rightarrow> accommodation_type set" where
  "current_accommodations rows student =
     set (filter (\<lambda>a. case latest_change rows student a of None \<Rightarrow> False | Some r \<Rightarrow> ax_action r = AA_ADDED) [ACC_ATTENTION, ACC_NUMERICAL, ACC_READING])"

definition record_accommodation_changes ::
  "datetime \<Rightarrow> accommodation_change_row list \<Rightarrow> uuid \<Rightarrow> accommodation_type set \<Rightarrow> (accommodation_type \<Rightarrow> string option) \<Rightarrow> int option \<Rightarrow> accommodation_change_row list" where
  "record_accommodation_changes now rows student active prompted_by observed =
     (let previous = current_accommodations rows student;
          change = (\<lambda>act fallback a. \<lparr>ax_student_id = student, ax_accommodation = a, ax_action = act,
            ax_prompted_by = (case prompted_by a of Some t \<Rightarrow> t | None \<Rightarrow> fallback), ax_observed_over_lessons = observed, ax_occurred_at = now\<rparr>) in
      rows @ map (change AA_ADDED ''observed_pattern'') (filter (\<lambda>a. a \<in> active \<and> a \<notin> previous) [ACC_ATTENTION, ACC_NUMERICAL, ACC_READING])
           @ map (change AA_REMOVED ''pattern_no_longer_seen'') (filter (\<lambda>a. a \<in> previous \<and> a \<notin> active) [ACC_ATTENTION, ACC_NUMERICAL, ACC_READING]))"

definition record_after_lesson :: "datetime \<Rightarrow> behaviour_pattern_aggregate option \<Rightarrow> uuid \<Rightarrow> accommodation_change_row list \<Rightarrow> accommodation_change_row list" where
  "record_after_lesson now aggregate student rows =
     (case aggregate of
        None \<Rightarrow> rows
      | Some g \<Rightarrow>
          (let active = aa_active (analyse student g) in
           record_accommodation_changes now rows student (set (map as_accommodation active))
             (map_of (rev (map (\<lambda>s. (as_accommodation s, as_frontend_signal s)) active)))
             (case map as_lesson_count active of [] \<Rightarrow> None | n # ns \<Rightarrow> Some (fold max ns n))))"

subsection \<open>The notice to the teachers\<close>

definition modality_shifts :: "attention_db \<Rightarrow> uuid \<Rightarrow> nat" where
  "modality_shifts a sitting =
     count_where (\<lambda>e. se_session_id e = sitting \<and> se_event_type e \<in> {SE_MODALITY_SUGGESTION_ACCEPTED, SE_MODALITY_MANUAL_SWITCH}) (at_events a)"

definition current_teachers :: "db \<Rightarrow> uuid \<Rightarrow> user_row list" where
  "current_teachers d student =
     filter (\<lambda>u. u_status u = US_ACTIVE \<and>
       exists_where (\<lambda>t. tca_teacher_id t = u_id u \<and> tca_removed_at t = None \<and>
         exists_where (\<lambda>e. en_class_id e = tca_class_id t \<and> en_student_id e = student) (enrollments d)) (teacher_class_assignments d)) (users d)"

definition shift_notice :: "string \<Rightarrow> nat \<Rightarrow> datetime \<Rightarrow> user_row \<Rightarrow> notification_row" where
  "shift_notice child shifts now u = \<lparr>n_recipient_id = u_id u, n_recipient_role = user_role_value (u_role u), n_type = ''modality_shift'',
     n_title = child @ '' switched how they were learning'',
     n_description = ''Nevo changed delivery '' @ nat_str shifts @ '' time'' @ (if shifts = 1 then [] else ''s'') @ '' during '' @ child @
       '''s last lesson. Worth a look before the next one.'',
     n_navigates_to = Some ''/teacher/adaptation-insights'', n_read = False, n_category = ''attention'', n_archived_at = None, n_created_at = now\<rparr>"

definition notify_modality_shifts :: "datetime \<Rightarrow> attention_db \<Rightarrow> uuid \<Rightarrow> uuid \<Rightarrow> db \<Rightarrow> db" where
  "notify_modality_shifts now a sitting student d =
     (let shifts = modality_shifts a sitting;
          child = (case get_by u_id student (users d) of
                     None \<Rightarrow> ''A learner'' | Some u \<Rightarrow> (if present (u_first_name u) = [] then ''A learner'' else present (u_first_name u))) in
      if shifts = 0 then d
      else d\<lparr>notifications := notifications d @ map (shift_notice child shifts now) (current_teachers d student)\<rparr>)"

subsection \<open>The queue\<close>

definition enqueue_post_lesson :: "datetime \<Rightarrow> uuid \<Rightarrow> uuid \<Rightarrow> datetime option \<Rightarrow> lesson_db \<Rightarrow> lesson_db \<times> string" where
  "enqueue_post_lesson now sitting student completed_at d =
     (let d' = (if exists_where (\<lambda>j. pp_session_id j = sitting) (ld_queue d) then d
                else d\<lparr>ld_queue := ld_queue d @ [\<lparr>pp_session_id = sitting, pp_student_id = student,
                  pp_completed_at = (case completed_at of Some t \<Rightarrow> t | None \<Rightarrow> now), pp_status = ''pending'', pp_attempt_count = 0, pp_next_attempt_at = now,
                  pp_profile_updated = False, pp_flags_evaluated = False, pp_last_error = None, pp_processed_at = None\<rparr>]\<rparr>) in
      (d', case get_by pp_session_id sitting (ld_queue d') of Some j \<Rightarrow> pp_status j | None \<Rightarrow> ''pending''))"

definition claimable :: "datetime \<Rightarrow> post_lesson_row \<Rightarrow> bool" where
  "claimable now j = (pp_attempt_count j < MAX_LESSON_ATTEMPTS \<and> pp_next_attempt_at j \<le> now \<and>
     pp_status j \<in> {''pending'', ''failed'', ''consent_blocked'', ''processing''})"

definition put_job :: "uuid \<Rightarrow> (post_lesson_row \<Rightarrow> post_lesson_row) \<Rightarrow> lesson_db \<Rightarrow> lesson_db" where
  "put_job sitting f d = d\<lparr>ld_queue := update_where (\<lambda>j. pp_session_id j = sitting) f (ld_queue d)\<rparr>"

definition claimed_job :: "datetime \<Rightarrow> post_lesson_row \<Rightarrow> post_lesson_row" where
  "claimed_job now j = j\<lparr>pp_status := ''processing'', pp_attempt_count := pp_attempt_count j + 1, pp_next_attempt_at := now + td_minutes 10, pp_last_error := None\<rparr>"

definition claim :: "datetime \<Rightarrow> lesson_db \<Rightarrow> (lesson_db \<times> post_lesson_row) option" where
  "claim now d =
     (case sort_key pp_next_attempt_at (filter (claimable now) (ld_queue d)) of
        [] \<Rightarrow> None
      | j # _ \<Rightarrow> Some (put_job (pp_session_id j) (claimed_job now) d, claimed_job now j))"

definition learning_consent :: "db \<Rightarrow> uuid \<Rightarrow> consent_status option" where
  "learning_consent d student =
     (case List.find (\<lambda>c. cr_subject_user_id c = student \<and> cr_consent_type c = CT_DATA_PROCESSING) (consent_records d) of
        None \<Rightarrow> None | Some c \<Rightarrow> cr_status c)"

definition may_process :: "db \<Rightarrow> uuid \<Rightarrow> bool" where
  "may_process d student = (learning_consent d student = Some CS_CONFIRMED \<and> \<not> age_check_blocks d student)"

definition blocked :: "db \<Rightarrow> uuid \<Rightarrow> datetime \<Rightarrow> post_lesson_row \<Rightarrow> post_lesson_row" where
  "blocked d student now j = j\<lparr>pp_status := ''consent_blocked'',
     pp_last_error := Some (if age_check_blocks d student then ''age_check_pending''
       else if learning_consent d student = Some CS_WITHDRAWN then ''consent_withdrawn'' else ''consent_required''),
     pp_next_attempt_at := now + td_minutes 15, pp_attempt_count := max 0 (pp_attempt_count j - 1)\<rparr>"

definition check_consent :: "datetime \<Rightarrow> uuid \<Rightarrow> uuid \<Rightarrow> lesson_db \<Rightarrow> lesson_db \<times> bool" where
  "check_consent now sitting student d =
     (if may_process (ld_db d) student then (d, True) else (put_job sitting (blocked (ld_db d) student now) d, False))"

definition complete :: "datetime \<Rightarrow> uuid \<Rightarrow> lesson_db \<Rightarrow> lesson_db" where
  "complete now sitting = put_job sitting (\<lambda>j. j\<lparr>pp_status := ''completed'', pp_processed_at := Some now, pp_last_error := None\<rparr>)"

definition retried :: "datetime \<Rightarrow> string \<Rightarrow> post_lesson_row \<Rightarrow> post_lesson_row" where
  "retried now err j = j\<lparr>pp_status := (if pp_attempt_count j \<ge> MAX_LESSON_ATTEMPTS then ''permanently_failed'' else ''failed''),
     pp_next_attempt_at := now + td_minutes (min 60 (2 ^ nat (max 0 (pp_attempt_count j - 1)))), pp_last_error := Some (take 1000 err)\<rparr>"

definition retry :: "datetime \<Rightarrow> string \<Rightarrow> uuid \<Rightarrow> lesson_db \<Rightarrow> lesson_db" where
  "retry now err sitting = put_job sitting (retried now err)"

subsection \<open>One job\<close>

text \<open>
  What one round meets outside: the two replies of the language model, the identifiers drawn, the aggregate behind the accommodations (none when the
  service is not wired), the texts of the exceptions, and what other requests do to the accounts and consents before the second and the third look
  at the consent.
\<close>

record round_env =
  rv_attention :: attention_env
  rv_profile :: profile_env
  rv_profile_ids :: "uuid \<times> uuid"
  rv_flag_ids :: "uuid \<times> uuid"
  rv_profile_reply :: "string option"
  rv_flag_reply :: "(string \<times> uuid option) option"
  rv_aggregate :: "behaviour_pattern_aggregate option"
  rv_profile_error :: "profile_fault \<Rightarrow> string"
  rv_flag_error :: "attention_fault \<Rightarrow> string"
  rv_before_flags :: "db \<Rightarrow> db"
  rv_before_closing :: "db \<Rightarrow> db"

definition profile_stage :: "round_env \<Rightarrow> datetime \<Rightarrow> post_lesson_row \<Rightarrow> lesson_db \<Rightarrow> lesson_db \<times> string option" where
  "profile_stage env now j d =
     (if pp_profile_updated j then (d, None)
      else (case update_after_lesson (rv_profile env) (rv_profile_ids env) (rv_profile_reply env) now (ld_attention d) (ld_profiles d)
                   (pp_student_id j) (pp_session_id j) (pp_student_id j) of
              (p, Inl f) \<Rightarrow> (d\<lparr>ld_profiles := p\<rparr>, Some (rv_profile_error env f))
            | (p, Inr _) \<Rightarrow> (put_job (pp_session_id j) (\<lambda>j. j\<lparr>pp_profile_updated := True\<rparr>) (d\<lparr>ld_profiles := p\<rparr>), None)))"

definition flag_stage :: "round_env \<Rightarrow> datetime \<Rightarrow> post_lesson_row \<Rightarrow> lesson_db \<Rightarrow> lesson_db \<times> string option" where
  "flag_stage env now j d =
     (case evaluate_student (rv_attention env) (rv_flag_ids env) (rv_flag_reply env) now (ld_attention d) (pp_student_id j) of
        (a, Inl f) \<Rightarrow> (d\<lparr>ld_attention := a\<rparr>, Some (rv_flag_error env f))
      | (a, Inr _) \<Rightarrow> (put_job (pp_session_id j) (\<lambda>j. j\<lparr>pp_flags_evaluated := True\<rparr>) (d\<lparr>ld_attention := a\<rparr>), None))"

definition closing_stage :: "round_env \<Rightarrow> datetime \<Rightarrow> post_lesson_row \<Rightarrow> lesson_db \<Rightarrow> lesson_db" where
  "closing_stage env now j d =
     (let d1 = d\<lparr>ld_changes := record_after_lesson now (rv_aggregate env) (pp_student_id j) (ld_changes d)\<rparr>;
          d2 = d1\<lparr>ld_db := notify_modality_shifts now (ld_attention d1) (pp_session_id j) (pp_student_id j) (ld_db d1)\<rparr> in
      complete now (pp_session_id j) d2)"

definition finish_job :: "round_env \<Rightarrow> datetime \<Rightarrow> post_lesson_row \<Rightarrow> lesson_db \<Rightarrow> lesson_db" where
  "finish_job env now j d =
     (case check_consent now (pp_session_id j) (pp_student_id j) (d\<lparr>ld_db := rv_before_closing env (ld_db d)\<rparr>) of
        (d1, False) \<Rightarrow> d1
      | (d1, True) \<Rightarrow> closing_stage env now j d1)"

definition flags_and_finish :: "round_env \<Rightarrow> datetime \<Rightarrow> post_lesson_row \<Rightarrow> lesson_db \<Rightarrow> lesson_db" where
  "flags_and_finish env now j d =
     (if pp_flags_evaluated j then finish_job env now j d
      else (case check_consent now (pp_session_id j) (pp_student_id j) (d\<lparr>ld_db := rv_before_flags env (ld_db d)\<rparr>) of
              (d1, False) \<Rightarrow> d1
            | (d1, True) \<Rightarrow>
                (case flag_stage env now j d1 of
                   (d2, Some err) \<Rightarrow> retry now err (pp_session_id j) d2
                 | (d2, None) \<Rightarrow> finish_job env now j d2)))"

definition process_job :: "round_env \<Rightarrow> datetime \<Rightarrow> post_lesson_row \<Rightarrow> lesson_db \<Rightarrow> lesson_db" where
  "process_job env now j d =
     (case check_consent now (pp_session_id j) (pp_student_id j) d of
        (d1, False) \<Rightarrow> d1
      | (d1, True) \<Rightarrow>
          (case profile_stage env now j d1 of
             (d2, Some err) \<Rightarrow> retry now err (pp_session_id j) d2
           | (d2, None) \<Rightarrow> flags_and_finish env now j d2))"

definition process_next_lesson :: "round_env \<Rightarrow> datetime \<Rightarrow> lesson_db \<Rightarrow> lesson_db \<times> bool" where
  "process_next_lesson env now d = (case claim now d of None \<Rightarrow> (d, False) | Some (d1, j) \<Rightarrow> (process_job env now j d1, True))"

subsection \<open>What a round touches\<close>

lemma put_job_simps [simp]:
  "ld_db (put_job i f d) = ld_db d" "ld_attention (put_job i f d) = ld_attention d" "ld_profiles (put_job i f d) = ld_profiles d"
  "ld_changes (put_job i f d) = ld_changes d" "ld_queue (put_job i f d) = update_where (\<lambda>j. pp_session_id j = i) f (ld_queue d)"
  by (simp_all add: put_job_def)

lemma check_consent_False: "check_consent now i st d = (d', False) \<longleftrightarrow> \<not> may_process (ld_db d) st \<and> d' = put_job i (blocked (ld_db d) st now) d"
  by (auto simp: check_consent_def)

lemma check_consent_True: "check_consent now i st d = (d', True) \<longleftrightarrow> may_process (ld_db d) st \<and> d' = d"
  by (auto simp: check_consent_def)

lemmas check_consent_iffs = check_consent_False check_consent_True

text \<open>How a round can change its own row.\<close>

inductive row_path :: "post_lesson_row \<Rightarrow> post_lesson_row \<Rightarrow> bool" where
  stay: "row_path j j"
| block: "row_path j j' \<Longrightarrow> row_path j (blocked db st now j')"
| fail: "row_path j j' \<Longrightarrow> row_path j (retried now err j')"
| profile: "row_path j j' \<Longrightarrow> row_path j (j'\<lparr>pp_profile_updated := True\<rparr>)"
| flags: "row_path j j' \<Longrightarrow> row_path j (j'\<lparr>pp_flags_evaluated := True\<rparr>)"
| finish: "row_path j j' \<Longrightarrow> row_path j (j'\<lparr>pp_status := ''completed'', pp_processed_at := Some now, pp_last_error := None\<rparr>)"

lemma row_path_session: "row_path j j' \<Longrightarrow> pp_session_id j' = pp_session_id j"
  by (induction rule: row_path.induct) (auto simp: blocked_def retried_def)

lemma row_path_keeps:
  assumes "row_path j j'" "0 \<le> pp_attempt_count j"
  shows "pp_session_id j' = pp_session_id j" and "pp_student_id j' = pp_student_id j" and "0 \<le> pp_attempt_count j'" and "pp_attempt_count j' \<le> pp_attempt_count j"
    and "pp_profile_updated j \<longrightarrow> pp_profile_updated j'" and "pp_flags_evaluated j \<longrightarrow> pp_flags_evaluated j'"
proof -
  have "pp_session_id j' = pp_session_id j \<and> pp_student_id j' = pp_student_id j \<and> 0 \<le> pp_attempt_count j' \<and> pp_attempt_count j' \<le> pp_attempt_count j \<and>
      (pp_profile_updated j \<longrightarrow> pp_profile_updated j') \<and> (pp_flags_evaluated j \<longrightarrow> pp_flags_evaluated j')"
    using assms by (induction rule: row_path.induct) (auto simp: blocked_def retried_def)
  then show "pp_session_id j' = pp_session_id j" "pp_student_id j' = pp_student_id j" "0 \<le> pp_attempt_count j'" "pp_attempt_count j' \<le> pp_attempt_count j"
    "pp_profile_updated j \<longrightarrow> pp_profile_updated j'" "pp_flags_evaluated j \<longrightarrow> pp_flags_evaluated j'" by blast+
qed

definition touches :: "uuid \<Rightarrow> lesson_db \<Rightarrow> lesson_db \<Rightarrow> bool" where
  "touches i d d' = (\<exists>f. ld_queue d' = update_where (\<lambda>j. pp_session_id j = i) f (ld_queue d) \<and> (\<forall>j. row_path j (f j)))"

lemma touches_refl: "ld_queue d' = ld_queue d \<Longrightarrow> touches i d d'"
  by (auto simp: touches_def update_where_def intro!: exI[of _ "\<lambda>j. j"] row_path.stay)

lemma touches_put:
  assumes "touches i d d'" "\<And>j j'. row_path j j' \<Longrightarrow> row_path j (g j')" "\<And>j. pp_session_id (g j) = pp_session_id j" "ld_queue d'' = update_where (\<lambda>j. pp_session_id j = i) g (ld_queue d')"
  shows "touches i d d''"
proof -
  obtain f where f: "ld_queue d' = update_where (\<lambda>j. pp_session_id j = i) f (ld_queue d)" "\<forall>j. row_path j (f j)"
    using assms(1) by (auto simp: touches_def)
  have same: "pp_session_id (f j) = pp_session_id j" for j
    using f(2) row_path_session by blast
  have "ld_queue d'' = update_where (\<lambda>j. pp_session_id j = i) (\<lambda>j. g (f j)) (ld_queue d)"
    using same by (simp add: assms(4) f(1) update_where_def)
  then show ?thesis using f(2) assms(2) unfolding touches_def by blast
qed

lemma touches_mono: "\<lbrakk>touches i d d'; ld_queue d'' = ld_queue d'\<rbrakk> \<Longrightarrow> touches i d d''"
  by (simp add: touches_def)

lemma touches_trans:
  assumes "touches i d d'" "touches i d' d''"
  shows "touches i d d''"
proof -
  obtain f where f: "ld_queue d'' = update_where (\<lambda>j. pp_session_id j = i) f (ld_queue d')" "\<forall>j. row_path j (f j)"
    using assms(2) by (auto simp: touches_def)
  have path: "row_path j j'' \<Longrightarrow> row_path j' j \<Longrightarrow> row_path j' j''" for j j' j''
    by (induction rule: row_path.induct) (auto intro: row_path.intros)
  have same: "pp_session_id (f j) = pp_session_id j" for j
    using f(2) row_path_session by blast
  show ?thesis by (rule touches_put[OF assms(1) _ same f(1)]) (use path f(2) in blast)
qed

lemma touches_blocked: "touches i d (put_job i (blocked db st now) d)"
  by (rule touches_put[where g = "blocked db st now", OF touches_refl[OF refl] row_path.block]) (simp_all add: blocked_def)

lemma touches_retry: "touches i d (retry now err i d)"
  unfolding retry_def by (rule touches_put[where g = "retried now err", OF touches_refl[OF refl] row_path.fail]) (simp_all add: retried_def)

lemma touches_complete: "touches i d (complete now i d)"
  unfolding complete_def by (rule touches_put[OF touches_refl[OF refl] row_path.finish]) simp_all

lemma profile_stageE:
  assumes "profile_stage env now j d = (d', err)"
  shows "touches (pp_session_id j) d d'" and "ld_db d' = ld_db d" and "ld_attention d' = ld_attention d" and "ld_changes d' = ld_changes d"
    and "pp_profile_updated j \<Longrightarrow> d' = d"
proof -
  have "touches (pp_session_id j) d (put_job (pp_session_id j) (\<lambda>j. j\<lparr>pp_profile_updated := True\<rparr>) (d\<lparr>ld_profiles := p\<rparr>))" for p
    by (rule touches_put[OF touches_refl[OF refl] row_path.profile]) simp_all
  moreover have "touches (pp_session_id j) d (d\<lparr>ld_profiles := p\<rparr>)" for p by (rule touches_refl) simp
  ultimately show "touches (pp_session_id j) d d'"
    using assms touches_refl[OF refl, of _ d] by (auto simp: profile_stage_def split: if_splits prod.splits sum.splits)
  show "ld_db d' = ld_db d" "ld_attention d' = ld_attention d" "ld_changes d' = ld_changes d" "pp_profile_updated j \<Longrightarrow> d' = d"
    using assms by (auto simp: profile_stage_def split: if_splits prod.splits sum.splits)
qed

lemma flag_stageE:
  assumes "flag_stage env now j d = (d', err)"
  shows "touches (pp_session_id j) d d'" and "ld_db d' = ld_db d" and "ld_profiles d' = ld_profiles d" and "ld_changes d' = ld_changes d"
proof -
  have "touches (pp_session_id j) d (put_job (pp_session_id j) (\<lambda>j. j\<lparr>pp_flags_evaluated := True\<rparr>) (d\<lparr>ld_attention := p\<rparr>))" for p
    by (rule touches_put[OF touches_refl[OF refl] row_path.flags]) simp_all
  moreover have "touches (pp_session_id j) d (d\<lparr>ld_attention := p\<rparr>)" for p by (rule touches_refl) simp
  ultimately show "touches (pp_session_id j) d d'"
    using assms by (auto simp: flag_stage_def split: prod.splits sum.splits)
  show "ld_db d' = ld_db d" "ld_profiles d' = ld_profiles d" "ld_changes d' = ld_changes d"
    using assms by (auto simp: flag_stage_def split: prod.splits sum.splits)
qed

lemma closing_stage_frame:
  "touches (pp_session_id j) d (closing_stage env now j d)" "ld_attention (closing_stage env now j d) = ld_attention d"
  "ld_profiles (closing_stage env now j d) = ld_profiles d"
proof -
  let ?d2 = "d\<lparr>ld_changes := record_after_lesson now (rv_aggregate env) (pp_student_id j) (ld_changes d),
     ld_db := notify_modality_shifts now (ld_attention d) (pp_session_id j) (pp_student_id j) (ld_db d)\<rparr>"
  have c: "closing_stage env now j d = complete now (pp_session_id j) ?d2" by (simp add: closing_stage_def Let_def)
  have "touches (pp_session_id j) d ?d2" by (rule touches_refl) simp
  then show "touches (pp_session_id j) d (closing_stage env now j d)" unfolding c using touches_complete touches_trans by blast
  show "ld_attention (closing_stage env now j d) = ld_attention d" "ld_profiles (closing_stage env now j d) = ld_profiles d"
    unfolding c by (simp_all add: complete_def)
qed

lemma finish_job_frame:
  assumes "finish_job env now j d = d'"
  shows "touches (pp_session_id j) d d'" and "ld_attention d' = ld_attention d" and "ld_profiles d' = ld_profiles d"
    and "ld_changes d' \<noteq> ld_changes d \<Longrightarrow> may_process (rv_before_closing env (ld_db d)) (pp_student_id j)"
proof -
  let ?d0 = "d\<lparr>ld_db := rv_before_closing env (ld_db d)\<rparr>"
  have cases: "(\<not> may_process (rv_before_closing env (ld_db d)) (pp_student_id j) \<and>
        d' = put_job (pp_session_id j) (blocked (rv_before_closing env (ld_db d)) (pp_student_id j) now) ?d0) \<or>
     (may_process (rv_before_closing env (ld_db d)) (pp_student_id j) \<and> d' = closing_stage env now j ?d0)"
    using assms by (auto simp: finish_job_def check_consent_def split: if_splits)
  have start: "touches (pp_session_id j) d ?d0" by (rule touches_refl) simp
  show "touches (pp_session_id j) d d'"
    using cases touches_trans[OF start touches_blocked] touches_trans[OF start closing_stage_frame(1)] by auto
  show "ld_attention d' = ld_attention d" "ld_profiles d' = ld_profiles d"
    "ld_changes d' \<noteq> ld_changes d \<Longrightarrow> may_process (rv_before_closing env (ld_db d)) (pp_student_id j)"
    using cases by (auto simp: closing_stage_frame)
qed

definition closing_db :: "round_env \<Rightarrow> post_lesson_row \<Rightarrow> db \<Rightarrow> db" where
  "closing_db env j d = rv_before_closing env (if pp_flags_evaluated j then d else rv_before_flags env d)"

lemma flags_and_finish_frame:
  assumes "flags_and_finish env now j d = d'"
  shows "touches (pp_session_id j) d d'" and "ld_profiles d' = ld_profiles d"
    and "ld_attention d' \<noteq> ld_attention d \<Longrightarrow> \<not> pp_flags_evaluated j \<and> may_process (rv_before_flags env (ld_db d)) (pp_student_id j)"
    and "ld_changes d' \<noteq> ld_changes d \<Longrightarrow> may_process (closing_db env j (ld_db d)) (pp_student_id j)"
proof -
  let ?b = "rv_before_flags env (ld_db d)" and ?i = "pp_session_id j"
  let ?d0 = "d\<lparr>ld_db := ?b\<rparr>"
  have start: "touches ?i d ?d0" by (rule touches_refl) simp
  obtain d2 err where stage: "flag_stage env now j ?d0 = (d2, err)" by (rule prod.exhaust)
  note st = flag_stageE[OF stage]
  consider (old) "pp_flags_evaluated j" "d' = finish_job env now j d" | (stop) "\<not> pp_flags_evaluated j" "d' = put_job ?i (blocked ?b (pp_student_id j) now) ?d0"
    | (err) e where "\<not> pp_flags_evaluated j" "may_process ?b (pp_student_id j)" "d' = retry now e ?i d2"
    | (go) "\<not> pp_flags_evaluated j" "may_process ?b (pp_student_id j)" "d' = finish_job env now j d2"
    using assms stage by (cases err) (auto simp: flags_and_finish_def check_consent_def split: if_splits)
  then have "touches ?i d d' \<and> ld_profiles d' = ld_profiles d \<and> (ld_attention d' \<noteq> ld_attention d \<longrightarrow> \<not> pp_flags_evaluated j \<and> may_process ?b (pp_student_id j)) \<and>
    (ld_changes d' \<noteq> ld_changes d \<longrightarrow> may_process (closing_db env j (ld_db d)) (pp_student_id j))"
  proof cases
    case old then show ?thesis using finish_job_frame[OF old(2)[symmetric]] by (simp add: closing_db_def)
  next
    case stop then show ?thesis using touches_trans[OF start touches_blocked] by simp
  next
    case err then show ?thesis using touches_trans[OF touches_trans[OF start st(1)] touches_retry] st by (simp add: retry_def)
  next
    case go
    note fin = finish_job_frame[OF go(3)[symmetric]]
    show ?thesis using touches_trans[OF touches_trans[OF start st(1)] fin(1)] st fin go(1,2) by (simp add: closing_db_def)
  qed
  then show "touches ?i d d'" "ld_profiles d' = ld_profiles d"
    "ld_attention d' \<noteq> ld_attention d \<Longrightarrow> \<not> pp_flags_evaluated j \<and> may_process ?b (pp_student_id j)"
    "ld_changes d' \<noteq> ld_changes d \<Longrightarrow> may_process (closing_db env j (ld_db d)) (pp_student_id j)" by blast+
qed

lemma process_job_frame:
  assumes "process_job env now j d = d'"
  shows "touches (pp_session_id j) d d'"
    and "ld_profiles d' \<noteq> ld_profiles d \<Longrightarrow> \<not> pp_profile_updated j \<and> may_process (ld_db d) (pp_student_id j)"
    and "ld_attention d' \<noteq> ld_attention d \<Longrightarrow> \<not> pp_flags_evaluated j \<and> may_process (rv_before_flags env (ld_db d)) (pp_student_id j)"
    and "ld_changes d' \<noteq> ld_changes d \<Longrightarrow> may_process (closing_db env j (ld_db d)) (pp_student_id j)"
    and "\<not> may_process (ld_db d) (pp_student_id j) \<Longrightarrow> d' = put_job (pp_session_id j) (blocked (ld_db d) (pp_student_id j) now) d"
proof -
  let ?i = "pp_session_id j"
  obtain d2 err where stage: "profile_stage env now j d = (d2, err)" by (rule prod.exhaust)
  note st = profile_stageE[OF stage]
  consider (stop) "\<not> may_process (ld_db d) (pp_student_id j)" "d' = put_job ?i (blocked (ld_db d) (pp_student_id j) now) d"
    | (err) e where "may_process (ld_db d) (pp_student_id j)" "d' = retry now e ?i d2"
    | (go) "may_process (ld_db d) (pp_student_id j)" "d' = flags_and_finish env now j d2"
    using assms stage by (cases err) (auto simp: process_job_def check_consent_def split: if_splits)
  then have "touches ?i d d' \<and> (ld_profiles d' \<noteq> ld_profiles d \<longrightarrow> \<not> pp_profile_updated j \<and> may_process (ld_db d) (pp_student_id j)) \<and>
    (ld_attention d' \<noteq> ld_attention d \<longrightarrow> \<not> pp_flags_evaluated j \<and> may_process (rv_before_flags env (ld_db d)) (pp_student_id j)) \<and>
    (ld_changes d' \<noteq> ld_changes d \<longrightarrow> may_process (closing_db env j (ld_db d)) (pp_student_id j)) \<and>
    (\<not> may_process (ld_db d) (pp_student_id j) \<longrightarrow> d' = put_job ?i (blocked (ld_db d) (pp_student_id j) now) d)"
  proof cases
    case stop then show ?thesis using touches_blocked by simp
  next
    case err then show ?thesis using touches_trans[OF st(1) touches_retry] st by (auto simp: retry_def)
  next
    case go
    note fin = flags_and_finish_frame[OF go(2)[symmetric]]
    show ?thesis using touches_trans[OF st(1) fin(1)] st(2-5) fin(2-4) go(1) by auto
  qed
  then show "touches ?i d d'" "ld_profiles d' \<noteq> ld_profiles d \<Longrightarrow> \<not> pp_profile_updated j \<and> may_process (ld_db d) (pp_student_id j)"
    "ld_attention d' \<noteq> ld_attention d \<Longrightarrow> \<not> pp_flags_evaluated j \<and> may_process (rv_before_flags env (ld_db d)) (pp_student_id j)"
    "ld_changes d' \<noteq> ld_changes d \<Longrightarrow> may_process (closing_db env j (ld_db d)) (pp_student_id j)"
    "\<not> may_process (ld_db d) (pp_student_id j) \<Longrightarrow> d' = put_job ?i (blocked (ld_db d) (pp_student_id j) now) d" by blast+
qed

subsection \<open>Consent before every stage\<close>

lemma claimE:
  assumes "claim now d = Some (d1, j)"
  obtains j0 where "j0 \<in> set (ld_queue d)" "claimable now j0" "j = claimed_job now j0" "d1 = put_job (pp_session_id j0) (claimed_job now) d"
proof -
  obtain j0 rest where sorted: "sort_key pp_next_attempt_at (filter (claimable now) (ld_queue d)) = j0 # rest"
    using assms by (auto simp: claim_def split: list.splits)
  then have "j0 \<in> set (filter (claimable now) (ld_queue d))" by (metis list.set_intros(1) set_sort)
  then show thesis using that[of j0] assms sorted by (auto simp: claim_def)
qed

lemma claim_due: "claim now d = None \<longleftrightarrow> \<not> (\<exists>j \<in> set (ld_queue d). claimable now j)"
proof -
  have "claim now d = None \<longleftrightarrow> set (sort_key pp_next_attempt_at (filter (claimable now) (ld_queue d))) = {}"
    by (simp only: claim_def set_empty split: list.split) auto
  then show ?thesis by auto
qed


subsection \<open>Attempts\<close>

definition queue_ok :: "lesson_db \<Rightarrow> bool" where
  "queue_ok d = (distinct (map pp_session_id (ld_queue d)) \<and> list_all (\<lambda>j. 0 \<le> pp_attempt_count j \<and> pp_attempt_count j \<le> MAX_LESSON_ATTEMPTS) (ld_queue d))"

definition at_rest :: "post_lesson_row \<Rightarrow> bool" where
  "at_rest j = (pp_status j \<in> {''completed'', ''permanently_failed''} \<or> MAX_LESSON_ATTEMPTS \<le> pp_attempt_count j)"

definition row_kept :: "post_lesson_row \<Rightarrow> post_lesson_row \<Rightarrow> bool" where
  "row_kept j j' = (pp_session_id j' = pp_session_id j \<and> (at_rest j \<longrightarrow> j' = j) \<and> (pp_profile_updated j \<longrightarrow> pp_profile_updated j') \<and>
     (pp_flags_evaluated j \<longrightarrow> pp_flags_evaluated j'))"

text \<open>Whatever else happens in the system, only these two operations write the queue.\<close>

inductive lesson_step :: "lesson_db \<Rightarrow> lesson_db \<Rightarrow> bool" where
  enqueue: "lesson_step d (fst (enqueue_post_lesson now sitting student completed_at d))"
| work: "lesson_step d (fst (process_next_lesson env now d))"
| elsewhere: "ld_queue d' = ld_queue d \<Longrightarrow> lesson_step d d'"

definition queue_le :: "lesson_db \<Rightarrow> lesson_db \<Rightarrow> bool" where
  "queue_le d d' = (\<forall>j \<in> set (ld_queue d). \<exists>j' \<in> set (ld_queue d'). row_kept j j')"

lemma process_next_lesson_queue:
  assumes "queue_ok d" "process_next_lesson env now d = (d', worked)"
  shows "queue_ok d'" and "queue_le d d'"
proof -
  have "queue_ok d' \<and> queue_le d d'"
  proof (cases "claim now d")
    case None
    then show ?thesis using assms by (auto simp: process_next_lesson_def queue_le_def row_kept_def)
  next
    case (Some r)
    obtain d1 j where claim: "claim now d = Some (d1, j)" using Some by (cases r) auto
    obtain j0 where j0: "j0 \<in> set (ld_queue d)" "claimable now j0" "j = claimed_job now j0" "d1 = put_job (pp_session_id j0) (claimed_job now) d"
      by (rule claimE[OF claim])
    let ?i = "pp_session_id j0"
    have "process_job env now j d1 = d'" using assms(2) claim by (simp add: process_next_lesson_def)
    then have "touches ?i d1 d'" using process_job_frame(1)[of env now j d1 d'] j0(3) by (simp add: claimed_job_def)
    then obtain f where f: "ld_queue d' = update_where (\<lambda>j. pp_session_id j = ?i) f (ld_queue d1)" "\<forall>j. row_path j (f j)" by (auto simp: touches_def)
    have queue: "ld_queue d' = map (\<lambda>r. if pp_session_id r = ?i then f (claimed_job now r) else r) (ld_queue d)"
      by (simp add: f(1) j0(4) update_where_def) (simp add: claimed_job_def cong: if_cong)
    have own: "r = j0" if "r \<in> set (ld_queue d)" "pp_session_id r = ?i" for r
      using assms(1) that j0(1) by (auto simp: queue_ok_def distinct_map inj_on_def)
    have bounds: "0 \<le> pp_attempt_count j0" "pp_attempt_count j0 < MAX_LESSON_ATTEMPTS" using assms(1) j0(1,2) by (auto simp: queue_ok_def list_all_iff claimable_def)
    have path: "row_path (claimed_job now j0) (f (claimed_job now j0))" using f(2) by blast
    note kept = row_path_keeps[OF path]
    have new: "row_kept j0 (f (claimed_job now j0))" "0 \<le> pp_attempt_count (f (claimed_job now j0))" "pp_attempt_count (f (claimed_job now j0)) \<le> MAX_LESSON_ATTEMPTS"
      using kept bounds j0(2) by (auto simp: row_kept_def claimed_job_def at_rest_def claimable_def)
    have session: "pp_session_id (f (claimed_job now r)) = pp_session_id r" for r using row_path_session[of "claimed_job now r"] f(2) by (simp add: claimed_job_def)
    have "map pp_session_id (ld_queue d') = map pp_session_id (ld_queue d)" using session by (simp add: queue)
    moreover have "0 \<le> pp_attempt_count r \<and> pp_attempt_count r \<le> MAX_LESSON_ATTEMPTS" if r: "r \<in> set (ld_queue d')" for r
    proof -
      obtain r0 where r0: "r0 \<in> set (ld_queue d)" "r = (if pp_session_id r0 = ?i then f (claimed_job now r0) else r0)" using r unfolding queue set_map by blast
      show ?thesis
      proof (cases "pp_session_id r0 = ?i")
        case True then show ?thesis using own[OF r0(1)] new r0(2) by simp
      next
        case False then show ?thesis using assms(1) r0 by (simp add: queue_ok_def list_all_iff)
      qed
    qed
    ultimately have "queue_ok d'" using assms(1) by (simp add: queue_ok_def list_all_iff)
    moreover have "\<exists>j' \<in> set (ld_queue d'). row_kept r j'" if r: "r \<in> set (ld_queue d)" for r
    proof (cases "pp_session_id r = ?i")
      case True
      then have "f (claimed_job now r) \<in> set (ld_queue d')" using r unfolding queue set_map by force
      then show ?thesis using new(1) own[OF r True] by blast
    next
      case False
      then have "r \<in> set (ld_queue d')" using r unfolding queue set_map by force
      then show ?thesis by (auto simp: row_kept_def)
    qed
    ultimately show ?thesis by (simp add: queue_le_def)
  qed
  then show "queue_ok d'" "queue_le d d'" by blast+
qed

lemma enqueue_queue:
  assumes "queue_ok d" "enqueue_post_lesson now sitting student completed_at d = (d', st)"
  shows "queue_ok d'" and "queue_le d d'"
  using assms by (auto simp: enqueue_post_lesson_def Let_def queue_ok_def queue_le_def row_kept_def MAX_LESSON_ATTEMPTS_def split: if_splits)

lemma queue_le_trans: "\<lbrakk>queue_le a b; queue_le b c\<rbrakk> \<Longrightarrow> queue_le a c"
  unfolding queue_le_def row_kept_def by (metis (no_types, lifting))

lemma lesson_run:
  "\<lbrakk>lesson_step\<^sup>*\<^sup>* d d'; queue_ok d\<rbrakk> \<Longrightarrow> queue_ok d' \<and> queue_le d d'"
proof (induction rule: rtranclp_induct)
  case base then show ?case by (auto simp: queue_le_def row_kept_def)
next
  case (step b c)
  have "queue_ok c \<and> queue_le b c" using step.hyps(2)
  proof cases
    case (enqueue now sitting student completed_at)
    then show ?thesis using enqueue_queue[of b now sitting student completed_at] step by (metis prod.collapse)
  next
    case (work env now)
    then show ?thesis using process_next_lesson_queue[of b env now] step by (metis prod.collapse)
  next
    case elsewhere
    then show ?thesis using step by (auto simp: queue_ok_def queue_le_def row_kept_def)
  qed
  then show ?case using step queue_le_trans by blast
qed

text \<open>
  Along every run of the system a finished lesson is queued once and tried at most five times; a stage once done stays done; and a row that is
  completed, has failed for good or has used its five attempts is never written again.
\<close>

theorem post_lesson_attempts_are_bounded:
  assumes "lesson_step\<^sup>*\<^sup>* d d'" "queue_ok d"
  shows "distinct (map pp_session_id (ld_queue d')) \<and> list_all (\<lambda>j. 0 \<le> pp_attempt_count j \<and> pp_attempt_count j \<le> 5) (ld_queue d') \<and>
    list_all (\<lambda>j. \<exists>j' \<in> set (ld_queue d'). pp_session_id j' = pp_session_id j \<and> (at_rest j \<longrightarrow> j' = j) \<and>
       (pp_profile_updated j \<longrightarrow> pp_profile_updated j') \<and> (pp_flags_evaluated j \<longrightarrow> pp_flags_evaluated j')) (ld_queue d)"
  using lesson_run[OF assms] by (simp add: queue_ok_def queue_le_def row_kept_def MAX_LESSON_ATTEMPTS_def list_all_iff)

subsection \<open>A round that goes through\<close>

lemma in_put_job:
  assumes "j \<in> set (ld_queue d)"
  shows "(if pp_session_id j = i then f j else j) \<in> set (ld_queue (put_job i f d))"
  using in_update_where[OF assms, of "\<lambda>j. pp_session_id j = i" f] by simp

lemma profile_stage_works:
  assumes "profile_stage env now j d = (d', None)" "r \<in> set (ld_queue d)" "pp_session_id r = pp_session_id j" "pp_profile_updated j \<longrightarrow> pp_profile_updated r"
  shows "\<exists>r' \<in> set (ld_queue d'). pp_session_id r' = pp_session_id j \<and> pp_profile_updated r' \<and> pp_flags_evaluated r' = pp_flags_evaluated r"
proof (cases "pp_profile_updated j")
  case True
  then show ?thesis using assms by (auto simp: profile_stage_def)
next
  case False
  then obtain p where d': "d' = put_job (pp_session_id j) (\<lambda>j. j\<lparr>pp_profile_updated := True\<rparr>) (d\<lparr>ld_profiles := p\<rparr>)"
    using assms(1) by (auto simp: profile_stage_def split: prod.splits sum.splits)
  have "r\<lparr>pp_profile_updated := True\<rparr> \<in> set (ld_queue d')"
    using in_put_job[of r "d\<lparr>ld_profiles := p\<rparr>" "pp_session_id j" "\<lambda>j. j\<lparr>pp_profile_updated := True\<rparr>"] assms(2,3) unfolding d' by simp
  then show ?thesis using assms(3) by (intro bexI[of _ "r\<lparr>pp_profile_updated := True\<rparr>"]) auto
qed

lemma flag_stage_works:
  assumes "flag_stage env now j d = (d', None)" "r \<in> set (ld_queue d)" "pp_session_id r = pp_session_id j"
  shows "\<exists>r' \<in> set (ld_queue d'). pp_session_id r' = pp_session_id j \<and> pp_flags_evaluated r' \<and> pp_profile_updated r' = pp_profile_updated r"
proof -
  obtain a where d': "d' = put_job (pp_session_id j) (\<lambda>j. j\<lparr>pp_flags_evaluated := True\<rparr>) (d\<lparr>ld_attention := a\<rparr>)"
    using assms(1) by (auto simp: flag_stage_def split: prod.splits sum.splits)
  have "r\<lparr>pp_flags_evaluated := True\<rparr> \<in> set (ld_queue d')"
    using in_put_job[of r "d\<lparr>ld_attention := a\<rparr>" "pp_session_id j" "\<lambda>j. j\<lparr>pp_flags_evaluated := True\<rparr>"] assms(2,3) unfolding d' by simp
  then show ?thesis using assms(3) by (intro bexI[of _ "r\<lparr>pp_flags_evaluated := True\<rparr>"]) auto
qed

lemma closing_works:
  assumes "may_process (rv_before_closing env (ld_db d)) (pp_student_id j)" "r \<in> set (ld_queue d)" "pp_session_id r = pp_session_id j"
  shows "r\<lparr>pp_status := ''completed'', pp_processed_at := Some now, pp_last_error := None\<rparr> \<in> set (ld_queue (finish_job env now j d))"
proof -
  let ?f = "\<lambda>j. j\<lparr>pp_status := ''completed'', pp_processed_at := Some now, pp_last_error := None\<rparr>"
  let ?d0 = "d\<lparr>ld_db := rv_before_closing env (ld_db d)\<rparr>"
  have "finish_job env now j d = closing_stage env now j ?d0" using assms(1) by (simp add: finish_job_def check_consent_def)
  then have "ld_queue (finish_job env now j d) = update_where (\<lambda>j'. pp_session_id j' = pp_session_id j) ?f (ld_queue d)"
    by (simp add: closing_stage_def Let_def complete_def)
  then show ?thesis using updated_row_in[OF assms(2), of "\<lambda>j'. pp_session_id j' = pp_session_id j" ?f] assms(3) by simp
qed


subsection \<open>A lesson to process\<close>

definition lesson_job :: post_lesson_row where
  "lesson_job = \<lparr>pp_session_id = 2, pp_student_id = 20, pp_completed_at = 0, pp_status = ''pending'', pp_attempt_count = 0, pp_next_attempt_at = 0,
     pp_profile_updated = False, pp_flags_evaluated = False, pp_last_error = None, pp_processed_at = None\<rparr>"

definition given_consent :: "consent_status \<Rightarrow> consent_record_row" where
  "given_consent st = \<lparr>cr_id = 1, cr_subject_user_id = 20, cr_consent_holder_parent_link_id = None, cr_consent_type = CT_DATA_PROCESSING, cr_status = Some st,
     cr_confirmed_by_admin_id = None, cr_confirmed_by_parent_id = None, cr_confirmation_source = None, cr_confirmed_via = None, cr_confirmed_at = None,
     cr_last_actor_user_id = None, cr_last_changed_at = None, cr_last_channel = None, cr_parent_name_on_form = None, cr_parent_relationship = None,
     cr_signed_on = None, cr_notice_version = None, cr_evidence_storage_path = None, cr_uploaded_by_user_id = None, cr_uploaded_at = None\<rparr>"

definition lesson_sample :: "consent_status \<Rightarrow> lesson_db" where
  "lesson_sample st = \<lparr>ld_db = empty_db\<lparr>consent_records := [given_consent st]\<rparr>, ld_attention = flag_db, ld_profiles = trusted_db, ld_changes = [], ld_queue = [lesson_job]\<rparr>"

definition round_sample :: round_env where
  "round_sample = \<lparr>rv_attention = flag_env, rv_profile = fast_reply, rv_profile_ids = (10, 11), rv_flag_ids = (12, 13), rv_profile_reply = Some [],
     rv_flag_reply = Some (''Talk to the child.'', None), rv_aggregate = None, rv_profile_error = (\<lambda>_. []), rv_flag_error = (\<lambda>_. []),
     rv_before_flags = id, rv_before_closing = id\<rparr>"

lemma sample_claim: "claim 20 (lesson_sample st) = Some (put_job 2 (claimed_job 20) (lesson_sample st), claimed_job 20 lesson_job)"
  by (simp add: claim_def lesson_sample_def lesson_job_def claimable_def MAX_LESSON_ATTEMPTS_def)

lemma sample_queue_ok: "queue_ok (lesson_sample st)"
  by (simp add: queue_ok_def lesson_sample_def lesson_job_def MAX_LESSON_ATTEMPTS_def)

lemma sample_may_process: "may_process (ld_db (lesson_sample CS_CONFIRMED)) (pp_student_id (claimed_job 20 lesson_job))"
  "\<not> may_process (ld_db (lesson_sample CS_WITHDRAWN)) (pp_student_id (claimed_job 20 lesson_job))"
  by (simp_all add: may_process_def learning_consent_def age_check_blocks_def lesson_sample_def lesson_job_def claimed_job_def given_consent_def empty_db_def exists_where_def)


theorem post_lesson_attempts_are_bounded_witness:
  "list_all (\<lambda>j. 0 \<le> pp_attempt_count j \<and> pp_attempt_count j \<le> 5) (ld_queue (fst (process_next_lesson round_sample 20 (lesson_sample CS_CONFIRMED))))"
  using post_lesson_attempts_are_bounded[OF r_into_rtranclp[of lesson_step, OF lesson_step.work] sample_queue_ok] by blast


end
