(* ===== verification/Answers.thy ===== *)
theory Answers
  imports LearningTables "HOL-Library.While_Combinator" "HOL-Library.Sublist"
begin

text \<open>
  Whether what a child typed is an accepted answer (\<^verbatim>\<open>steps/answers.py\<close>) and when a question offers help
  (\<^verbatim>\<open>intelligence/question_support.py\<close>).  Text is a list of Unicode code points here; the Unicode tables of Python's
  standard library (\<^verbatim>\<open>unicodedata.normalize\<close>, \<^verbatim>\<open>str.isspace\<close>, \<^verbatim>\<open>str.casefold\<close>) are parameters.
\<close>

type_synonym utext = "nat list"

record unicode =
  uc_nfkc :: "utext \<Rightarrow> utext"
  uc_isspace :: "nat \<Rightarrow> bool"
  uc_casefold :: "utext \<Rightarrow> utext"

definition code_points :: "string \<Rightarrow> utext" where
  "code_points s = map of_char s"

definition SUBSTITUTIONS :: "(nat \<times> nat) list" where
  "SUBSTITUTIONS = [(0x2212, 0x2D), (0x2013, 0x2D), (0x2014, 0x2D), (0xD7, 0x2A), (0xF7, 0x2F), (0x2044, 0x2F),
     (0x201C, 0x22), (0x201D, 0x22), (0x2018, 0x27), (0x2019, 0x27)]"

definition TRAILING :: utext where
  "TRAILING = code_points ''.,;:!?''"

definition OPERATORS :: utext where
  "OPERATORS = code_points ''+-*/=<>()''"

definition replace_char :: "nat \<times> nat \<Rightarrow> utext \<Rightarrow> utext" where
  "replace_char p t = map (\<lambda>c. if c = fst p then snd p else c) t"

lemma dropWhile_shorter [termination_simp]: "length (dropWhile P xs) < Suc (length xs)"
  by (simp add: length_dropWhile_le less_Suc_eq_le)

text \<open>\<^verbatim>\<open>WHITESPACE.sub(" ", text)\<close>: every run of spaces becomes one.\<close>

fun collapse_spaces :: "(nat \<Rightarrow> bool) \<Rightarrow> utext \<Rightarrow> utext" where
  "collapse_spaces sp [] = []"
| "collapse_spaces sp (c # cs) =
     (if sp c then 0x20 # collapse_spaces sp (dropWhile sp cs) else c # collapse_spaces sp cs)"

definition strip_text :: "(nat \<Rightarrow> bool) \<Rightarrow> utext \<Rightarrow> utext" where
  "strip_text sp t = rev (dropWhile sp (rev (dropWhile sp t)))"

definition rstrip_text :: "(nat \<Rightarrow> bool) \<Rightarrow> utext \<Rightarrow> utext" where
  "rstrip_text sp t = rev (dropWhile sp (rev t))"

text \<open>
  \<^verbatim>\<open>OPERATORS.sub(r"\1", text)\<close>: at each position the longest run of spaces followed by an operator and more spaces is
  replaced by the operator; where there is none the character stays.
\<close>

function squeeze_operators :: "(nat \<Rightarrow> bool) \<Rightarrow> utext \<Rightarrow> utext" where
  "squeeze_operators sp [] = []"
| "squeeze_operators sp (c # cs) =
     (case dropWhile sp (c # cs) of
        [] \<Rightarrow> c # squeeze_operators sp cs
      | d # rest \<Rightarrow> if d \<in> set OPERATORS then d # squeeze_operators sp (dropWhile sp rest) else c # squeeze_operators sp cs)"
  by pat_completeness auto
termination
proof (relation "measure (length \<circ> snd)")
  fix sp :: "nat \<Rightarrow> bool" and c cs d rest
  assume "dropWhile sp (c # cs) = d # rest"
  then have "length (d # rest) \<le> length (c # cs)" by (metis length_dropWhile_le)
  then have "length rest < length (c # cs)" by simp
  moreover have "length (dropWhile sp rest) \<le> length rest" by (rule length_dropWhile_le)
  ultimately show "((sp, dropWhile sp rest), sp, c # cs) \<in> measure (length \<circ> snd)" by simp
qed auto

text \<open>The loop that drops trailing punctuation, as a loop.\<close>

definition trailing :: "utext \<Rightarrow> bool" where
  "trailing t = (t \<noteq> [] \<and> last t \<in> set TRAILING)"

definition trim_trailing :: "(nat \<Rightarrow> bool) \<Rightarrow> utext \<Rightarrow> utext option" where
  "trim_trailing sp t = while_option trailing (\<lambda>u. rstrip_text sp (butlast u)) t"

definition folded_text :: "unicode \<Rightarrow> utext option \<Rightarrow> utext" where
  "folded_text uc entry =
     (let sp = uc_isspace uc;
          t = fold replace_char SUBSTITUTIONS (uc_nfkc uc (case entry of None \<Rightarrow> [] | Some e \<Rightarrow> e))
      in squeeze_operators sp (uc_casefold uc (strip_text sp (collapse_spaces sp t))))"

text \<open>\<open>None\<close> would be a call that does not return.\<close>

definition normalise_answer :: "unicode \<Rightarrow> utext option \<Rightarrow> utext option" where
  "normalise_answer uc entry = trim_trailing (uc_isspace uc) (folded_text uc entry)"

definition matches :: "unicode \<Rightarrow> utext \<Rightarrow> utext list \<Rightarrow> bool" where
  "matches uc entry accepted =
     (if accepted = [] then False
      else let folded = normalise_answer uc (Some entry) in
        folded \<noteq> Some [] \<and> list_ex (\<lambda>form. folded = normalise_answer uc (Some form)) accepted)"

definition first_match :: "unicode \<Rightarrow> utext \<Rightarrow> utext list \<Rightarrow> utext option" where
  "first_match uc entry accepted =
     (let folded = normalise_answer uc (Some entry) in
      if folded = Some [] then None
      else List.find (\<lambda>form. normalise_answer uc (Some form) = folded) accepted)"

subsection \<open>Help on a question\<close>

text \<open>The attempts are given newest first.\<close>

fun two_misses :: "string \<Rightarrow> nat \<Rightarrow> question_attempt_row list \<Rightarrow> bool" where
  "two_misses q misses [] = False"
| "two_misses q misses (a # rest) =
     (if qa_question_id a \<noteq> q then two_misses q misses rest
      else if qa_correct a = Some True then False
      else let n = misses + (if qa_correct a = Some False then 1 else 0) in if n \<ge> 2 then True else two_misses q n rest)"

definition two_miss_hint :: "question_attempt_row option \<Rightarrow> question_attempt_row list \<Rightarrow> learning_fault + string option" where
  "two_miss_hint latest attempts =
     (case latest of
        None \<Rightarrow> Inr None
      | Some a \<Rightarrow>
        if qa_correct a \<noteq> Some False then Inr None
        else (case json_get (if truthy (qa_question_snapshot a) then qa_question_snapshot a else JObject []) ''hint'' of
            Inl e \<Rightarrow> Inl e
          | Inr h \<Rightarrow>
            (case h of
               JString hint \<Rightarrow>
                 Inr (if py_strip hint \<noteq> [] \<and> two_misses (qa_question_id a) 0 attempts then Some hint else None)
             | _ \<Rightarrow> Inr None)))"

definition guidance_deadline :: "question_attempt_row list \<Rightarrow> datetime option" where
  "guidance_deadline attempts =
     (case attempts of
        [] \<Rightarrow> None
      | a # _ \<Rightarrow>
        if qa_correct a \<noteq> Some False then None
        else let misses = takeWhile (\<lambda>r. qa_correct r = Some False) (filter (\<lambda>r. qa_question_id r = qa_question_id a) attempts)
             in Some (Min (qa_submitted_at ` set misses)))"

subsection \<open>The loop ends and trims\<close>

lemma rstrip_prefix: "prefix (rstrip_text sp t) t"
proof -
  obtain zs where "t = rstrip_text sp t @ zs" unfolding rstrip_text_def using rev_dropWhile_rev_prefix by blast
  then show ?thesis by (metis prefixI)
qed

lemma trim_step: "trailing t \<Longrightarrow> length (rstrip_text sp (butlast t)) < length t"
proof -
  assume "trailing t"
  then have "t \<noteq> []" by (simp add: trailing_def)
  moreover have "length (rstrip_text sp (butlast t)) \<le> length (butlast t)" by (rule prefix_length_le[OF rstrip_prefix])
  ultimately show ?thesis by (simp add: less_le_trans[rotated] le_less_trans)
qed

text \<open>
  Claim C40.  Normalising an entry always returns.  Whatever the entry, the loop over trailing punctuation ends, and its result is a prefix of
  the folded text that does not end in punctuation a teacher would not mark down.
\<close>

theorem normalise_returns:
  "\<exists>t. normalise_answer uc entry = Some t \<and> prefix t (folded_text uc entry) \<and> \<not> trailing t"
proof -
  let ?f = "folded_text uc entry" and ?c = "\<lambda>u. rstrip_text (uc_isspace uc) (butlast u)"
  obtain t where t: "while_option trailing ?c ?f = Some t"
    using measure_while_option_Some[of "\<lambda>_. True" trailing ?c length ?f] trim_step by blast
  have "prefix t ?f"
  proof (rule while_option_rule[where P = "\<lambda>u. prefix u ?f", OF _ t])
    fix u assume u: "prefix u ?f" "trailing u"
    have "prefix (?c u) (butlast u)" by (rule rstrip_prefix)
    then show "prefix (?c u) ?f" using u(1) prefixeq_butlast by (metis prefix_order.order_trans)
  qed simp
  then show ?thesis using t while_option_stop[OF t] by (simp add: normalise_answer_def trim_trailing_def)
qed

text \<open>
  Marking and the record of marking agree.  An entry is marked correct exactly when a stored form can be named for it, and that
  form is one of the accepted ones with the same normal form, the first such.
\<close>

theorem matches_iff_first_match:
  "case first_match uc entry accepted of
     None \<Rightarrow> \<not> matches uc entry accepted
   | Some form \<Rightarrow> matches uc entry accepted \<and> form \<in> set accepted \<and>
       normalise_answer uc (Some form) = normalise_answer uc (Some entry)"
proof (cases "normalise_answer uc (Some entry) = Some []")
  case True
  then show ?thesis by (simp add: matches_def first_match_def)
next
  case False
  let ?P = "\<lambda>form. normalise_answer uc (Some form) = normalise_answer uc (Some entry)"
  have first: "first_match uc entry accepted = List.find ?P accepted" using False by (simp add: first_match_def)
  have marked: "matches uc entry accepted \<longleftrightarrow> (\<exists>form \<in> set accepted. ?P form)"
    using False by (auto simp: matches_def Let_def list_ex_iff eq_commute[of "normalise_answer uc (Some entry)"])
  show ?thesis
  proof (cases "List.find ?P accepted")
    case None
    then show ?thesis using first marked find_None_iff_all[of ?P accepted] by simp
  next
    case (Some form)
    then show ?thesis using first marked find_SomeD[OF Some] by auto
  qed
qed

end
