(* ===== verification/Spec2Isabelle.thy ===== *)
theory Spec2Isabelle
  imports ParentCodes ParentRights BillingLaws PermissionLaws Invitations Retention LearningRuntime PostLesson Answers
begin

text \<open>
  Verification library of the Nevo backend, a service through which schools run adaptive lessons: children sign in with a PIN,
  parents give and withdraw consent, administrators manage their team and pay, and a learning engine decides what a child sees next.
  All file names below are relative to \<^verbatim>\<open>src/src/nevo\<close>.

  \<^bold>\<open>How the program is modelled.\<close>  The program is a set of services over one PostgreSQL database.  A table is the list of its rows
  (theory \<open>Prelude\<close> has the relational operations), a row is a record with the columns of the SQLAlchemy model, an enumeration is a
  datatype with its stored text (\<open>Vocabulary\<close>, \<open>LearningVocabulary\<close>), and a handler or repository method is a function from the database
  to the database and a result, whose left part is the exception it raises.  The end of a transaction checks the CHECK constraints and
  unique indexes of the models (\<open>Database\<close>) and refuses the state when one fails.  Instants are integers in microseconds, identifiers are
  natural numbers, and whatever comes from outside is an argument: the clock, drawn identifiers and tokens, digests and password hashes,
  the payment processor's replies, how floats and containers print.  Properties assume of these only what is written in their hypotheses,
  and each such property has a witness that meets them.

  \<^bold>\<open>Accounts and access.\<close>
  \<^item> \<open>AgeBands\<close>: calendar dates and age bands (\<^verbatim>\<open>domain/accounts/age_bands.py\<close>).
  \<^item> \<open>Auth\<close>: sign-in by password and PIN, the rate limiter, sessions with their idle and absolute limits, sign-out and the bearer check
    (\<^verbatim>\<open>auth/service.py\<close>, \<^verbatim>\<open>repositories.py\<close>, \<^verbatim>\<open>policies.py\<close>, \<^verbatim>\<open>rate_limit.py\<close>, \<^verbatim>\<open>security.py\<close>).  Shown: only a live session of an
    active account authenticates, one session per student, guesses are bounded, a lifetime is absolute and a revoked token stays refused along every run.
  \<^item> \<open>ParentCodes\<close>: sign-in codes for parents (\<^verbatim>\<open>auth/parent_codes.py\<close>); a code dies after five wrong guesses and is spent by use.
  \<^item> \<open>Access\<close>: who reaches which learner and which writes an unconfirmed administrator is refused (\<^verbatim>\<open>api/product_common.py\<close> and the
    access rules around it).
  \<^item> \<open>Permissions\<close>, \<open>PermissionLaws\<close>: scopes, invitations, the admin team and the Learning Support role (\<^verbatim>\<open>permissions\<close>,
    \<^verbatim>\<open>api/learning_support.py\<close>).  The locale \<open>guarded_role\<close> states what a role that must never lose its last holder needs of the operations;
    it is interpreted for oversight and for Learning Support.
  \<^item> \<open>TeacherAssignments\<close>: who teaches which class and subject (\<^verbatim>\<open>teacher_assignments\<close>); the checks of the operations are complete for the
    indexes of the table, a class has one primary teacher, and what roster synchronisation really does.
  \<^item> \<open>AccountAccess\<close>: what people do to their own accounts: confirming and correcting an e-mail address, joining a class by its code, PINs,
    password resets, the list of sessions, registering a school, and the tiles of a shared tablet (\<^verbatim>\<open>api/email_confirmation.py\<close>,
    \<^verbatim>\<open>api/product_auth.py\<close>, \<^verbatim>\<open>domain/accounts/codes.py\<close>, \<^verbatim>\<open>request_password_reset\<close> of \<^verbatim>\<open>api/frontend_unblockers.py\<close> and
    \<^verbatim>\<open>connect_by_class_code\<close> of \<^verbatim>\<open>api/product_learning.py\<close>).  The locale \<open>once_only\<close> states what makes a link that is used stay used along
    every run; it is interpreted for confirmation, reset and class links.  Shown: a confirmed address received the link that confirmed it,
    a reset signs out for good, guesses at a PIN are bounded, tiles tell children apart, and a child of a school that has not paid is left outside
    after their link is spent.
  \<^item> \<open>Invitations\<close>: inviting staff, resending, revoking, reissuing and joining (\<^verbatim>\<open>api/product_auth.py\<close>); \<open>once_only\<close> again for the join
    links, and revoking followed by reissuing equals resending.

  \<^bold>\<open>Children's rights.\<close>
  \<^item> \<open>AgeAssurance\<close>: the school's and the parent's date of birth, the hold while they disagree and its two-step resolution
    (\<^verbatim>\<open>consent/age_assurance.py\<close>, \<^verbatim>\<open>api/age_checks.py\<close>).
  \<^item> \<open>Consent\<close>, \<open>ConsentLaws\<close>: requests, links, answers, withdrawal, the expiry sweep and the consent gate (\<^verbatim>\<open>consent\<close>); only ticked
    consents are confirmed, a link is answered once, a withdrawal is never overruled and takes effect at once.
  \<^item> \<open>ParentRights\<close>: the rights a parent exercises from their account (\<^verbatim>\<open>api/parent_rights.py\<close>).  The locale \<open>guardian_ledger\<close> carries
    the proof that a consent stays with the guardian who gave it along every run of the other guardians' requests; the list of consents says
    exactly what can be withdrawn, a withdrawal can be taken back, and one unanswered consent spoils the withdrawal of all.
  \<^item> \<open>Retention\<close>: the erasure of a learner after the retention period (\<^verbatim>\<open>retention\<close>, \<^verbatim>\<open>api/safety_retention.py\<close>).  Its tables are
    generic, because the purge walks over the whole schema, which is a parameter.  The expansion over foreign keys is a \<^const>\<open>while_option\<close>,
    shown to end with exactly the dependent records; nothing of the learner is left, a sweep erases nobody but students past their deadline, and
    with the storage answering it erases them all.  Of the \<^verbatim>\<open>ON DELETE\<close> actions only that of a chat thread on its messages is modelled:
    in a purge the dependents are already selected.

  \<^bold>\<open>Money.\<close>
  \<^item> \<open>Paystack\<close>: the client of the payment processor (\<^verbatim>\<open>payments/paystack.py\<close>), whose HTTP replies are a parameter.
  \<^item> \<open>Payments\<close>: checkout, verification, webhooks and settlement (\<^verbatim>\<open>payments\<close>); the locale \<open>payment_ledger\<close> carries the proof that paid is
    final along every run.  Row locks are taken to serialise calls, and a webhook key is not claimed twice in one transaction.
  \<^item> \<open>Billing\<close>, \<open>BillingLaws\<close>: quotes, billing periods, the daily invoice sweep with its catch-up over contract years, the reminder and
    collection jobs and the delivery of invoice e-mails (\<^verbatim>\<open>billing/service.py\<close>, \<^verbatim>\<open>issuance.py\<close>, \<^verbatim>\<open>email_worker.py\<close>,
    \<^verbatim>\<open>ops/scheduled_jobs.py\<close>).  Shown: an invoice adds up, a period is billed at most once, a second sweep of the day is idle, and the locale
    \<open>mail_queue\<close> gives at most six attempts per e-mail.

  \<^bold>\<open>The learning engine.\<close>  Its Python floats are exact rationals, so a float comparison can differ where both sides agree to the last bit;
  NaN and infinities do not occur; integer columns are unbounded.
  \<^item> \<open>LearningTables\<close>: what the learning components share: faults, JSON reads, \<^verbatim>\<open>uuid.UUID\<close> with its round trip, update-or-insert and its laws.
  \<^item> \<open>Scaffolds\<close>: how much help a child gets with a concept (\<^verbatim>\<open>intelligence/scaffolds.py\<close>, \<^verbatim>\<open>scaffold_service.py\<close>,
    \<^verbatim>\<open>scaffold_repositories.py\<close>).  The engine refines the specification \<open>ladder_step\<close>; the repository protocol is the locale
    \<open>scaffold_repository\<close>, in which the refinement of whole runs is proved, and the SQL repository its interpretation.
  \<^item> \<open>Mastery\<close>: Bayesian knowledge tracing (\<^verbatim>\<open>mastery\<close>): every answer is recorded, estimates stay probabilities and follow the evidence.
  \<^item> \<open>Reviews\<close>: spaced repetition (\<^verbatim>\<open>scheduler\<close>, \<^verbatim>\<open>intelligence/reviews.py\<close>): bounds of the schedule, a sitting counts once, and the overflow
    that repeated success ends in.  \<^verbatim>\<open>datetime.max\<close> is part of the model.
  \<^item> \<open>LearningRuntime\<close>: what one marked answer does to all of these in one transaction (\<^verbatim>\<open>intelligence/learning_runtime.py\<close>).
  \<^item> \<open>LessonSupport\<close>, \<open>Adaptation\<close>: break suggestions, accommodation inference and the adaptation engine with its rate limits
    (\<^verbatim>\<open>intelligence/breaks.py\<close>, \<^verbatim>\<open>accommodations.py\<close>, \<^verbatim>\<open>adaptation.py\<close>): a lesson is changed only on enough aligned evidence and not
    too often.
  \<^item> \<open>AttentionFlags\<close>: engagement scores, the detection of a drop and the flag with its recommendation (\<^verbatim>\<open>attention_flags\<close>): a flag names a real
    drop of the child's own and a child has one open flag at most.
  \<^item> \<open>LearnerProfiles\<close>: inference from activities and signals, and the profile update from the language model's reply (\<^verbatim>\<open>learner_profiles\<close>):
    values stay in range, the history is complete, a trusted value does not jump.
  \<^item> \<open>PostLesson\<close>: the queue that processes a finished lesson through both, the accommodation log and the notice to the teachers, with what other
    requests do between its transactions as a parameter: no stage writes without consent at its own time, attempts are bounded, a due lesson is
    completed.
  \<^item> \<open>Answers\<close>: normalising and matching of typed answers and the help after misses (\<^verbatim>\<open>steps/answers.py\<close>,
    \<^verbatim>\<open>intelligence/question_support.py\<close>); the trimming loop is a \<^const>\<open>while_option\<close>, proved to end.

  \<^bold>\<open>Bounds and fuel.\<close>  No function runs on fuel: recursion is structural or has a termination proof, and the two loops whose end is a claim are
  \<^const>\<open>while_option\<close>s.  Text is ASCII except in \<open>Answers\<close>, where it is a list of code points.

  \<^bold>\<open>Not modelled.\<close>  The HTTP layer beyond the handlers named above (request parsing, response models, routing), the language-model gateway and
  what is built on it (content parsing, Ask Nevo, visuals, audio), file storage, exports, the wording and the delivery of e-mail other than the invoices', single sign-on, the partner and parent
  portals' read-only views, the scheduled jobs that only call services above, database migrations and triggers (but for the retention
  deadline), the browser scripts and the
  maintenance scripts.  Of the learning engine: the assembly of signals from stored events, the onboarding baseline, lesson
  progression and the logs shown to teachers.  Foreign keys are modelled only where an operation can violate one.
\<close>

end
